(* ===== verification/Prelude.thy ===== *)
theory Prelude
  imports Complex_Main "HOL-Library.Word"
begin

text \<open>
  Shared vocabulary of the development: the machine integer types, the errno
  values the code returns, C's \<open>err |= e\<close>, \<open>size_t\<close> subtraction, nullable
  strings, and the memory buffer \<open>struct mbuf\<close> of libre.

  libre is not part of the repository.  \<open>struct mbuf\<close> is kept as the record
  of the three fields the sources access directly (\<open>buf\<close>, \<open>pos\<close>,
  \<open>end\<close>), its functions are the record \<open>mbuf_ops\<close>, an argument of every
  definition that calls them, and \<open>mbuf_laws\<close> states what their documentation
  promises.  \<open>ref_mbuf\<close> is one concrete instance, used by the witnesses.
\<close>

unbundle bit_operations_syntax

named_theorems mb_simps \<open>facts about buffers under the buffer laws\<close>

subsection \<open>Machine integers and error codes\<close>

type_synonym u8 = "8 word"
type_synonym u16 = "16 word"
type_synonym u32 = "32 word"
type_synonym u64 = "64 word"
type_synonym err = int

abbreviation (input) ENOENT :: err where "ENOENT \<equiv> 2"
abbreviation (input) EIO :: err where "EIO \<equiv> 5"
abbreviation (input) ENOMEM :: err where "ENOMEM \<equiv> 12"
abbreviation (input) EINVAL :: err where "EINVAL \<equiv> 22"
abbreviation (input) ENOSYS :: err where "ENOSYS \<equiv> 38"
abbreviation (input) ENODATA :: err where "ENODATA \<equiv> 61"
abbreviation (input) EPROTO :: err where "EPROTO \<equiv> 71"
abbreviation (input) EBADMSG :: err where "EBADMSG \<equiv> 74"
abbreviation (input) ENOTSUP :: err where "ENOTSUP \<equiv> 95"
abbreviation (input) EALREADY :: err where "EALREADY \<equiv> 114"

text \<open>\<open>size_t\<close> values are naturals below \<open>2 ^ 64\<close>; subtraction wraps.\<close>

definition size_sub :: "nat \<Rightarrow> nat \<Rightarrow> nat" where
  "size_sub a b = nat ((int a - int b) mod 2 ^ 64)"

lemma size_sub_le: "b \<le> a \<Longrightarrow> a < 2 ^ 64 \<Longrightarrow> size_sub a b = a - b"
  unfolding size_sub_def by (simp add: nat_eq_iff of_nat_diff)

lemma size_sub_wraps: "a < b \<Longrightarrow> b \<le> 2 ^ 64 \<Longrightarrow> size_sub a b = 2 ^ 64 + a - b"
proof -
  assume a: "a < b" "b \<le> 2 ^ 64"
  then have "(int a - int b) mod 2 ^ 64 = (int a - int b + 2 ^ 64) mod 2 ^ 64" by simp
  also have "\<dots> = int a - int b + 2 ^ 64" using a by (intro mod_pos_pos_trivial) auto
  finally show ?thesis using a unfolding size_sub_def by (simp add: nat_eq_iff of_nat_diff)
qed

lemma err_or_0 [simp]: "(e1 OR e2 = (0::int)) = (e1 = 0 \<and> e2 = 0)"
  by (rule or_eq_0_iff)

subsection \<open>Words bit by bit\<close>

lemma all_less_numeral:
  "(\<forall>n<numeral k. P n) = (P (pred_numeral k) \<and> (\<forall>n<pred_numeral k. P n))" for P :: "nat \<Rightarrow> bool"
  by (auto simp add: numeral_eq_Suc less_Suc_eq)

lemma u8_eq_iff:
  "(x :: u8) = y \<longleftrightarrow>
     bit x 0 = bit y 0 \<and> bit x 1 = bit y 1 \<and> bit x 2 = bit y 2 \<and> bit x 3 = bit y 3 \<and>
     bit x 4 = bit y 4 \<and> bit x 5 = bit y 5 \<and> bit x 6 = bit y 6 \<and> bit x 7 = bit y 7"
proof -
  have "x = y \<longleftrightarrow> (\<forall>n<8. bit x n = bit y n)" by (auto intro: bit_word_eqI)
  then show ?thesis by (simp add: all_less_numeral conj_ac)
qed

lemma u16_eq_iff:
  "(x :: u16) = y \<longleftrightarrow>
     bit x 0 = bit y 0 \<and> bit x 1 = bit y 1 \<and> bit x 2 = bit y 2 \<and> bit x 3 = bit y 3 \<and>
     bit x 4 = bit y 4 \<and> bit x 5 = bit y 5 \<and> bit x 6 = bit y 6 \<and> bit x 7 = bit y 7 \<and>
     bit x 8 = bit y 8 \<and> bit x 9 = bit y 9 \<and> bit x 10 = bit y 10 \<and> bit x 11 = bit y 11 \<and>
     bit x 12 = bit y 12 \<and> bit x 13 = bit y 13 \<and> bit x 14 = bit y 14 \<and> bit x 15 = bit y 15"
proof -
  have "x = y \<longleftrightarrow> (\<forall>n<16. bit x n = bit y n)" by (auto intro: bit_word_eqI)
  then show ?thesis by (simp add: all_less_numeral conj_ac)
qed

text \<open>A 15-bit picture id, split over two bytes with the top bit of the first one set.\<close>

lemma picid_join:
  "push_bit 8 (ucast (ucast (push_bit 7 1 OR (drop_bit 8 (picid :: u16) AND 0x7f)) AND 0x7f :: u8))
     + ucast (ucast (picid AND 0xff) :: u8) = picid AND 0x7fff"
  by (subst disjunctive_add) (auto simp: bit_simps u16_eq_iff)

lemma picid_long_form:
  "bit (ucast (push_bit 7 1 OR (drop_bit 8 (picid :: u16) AND 0x7f)) :: u8) 7"
  by (simp add: bit_simps)

lemma ucast_u8_u32: "ucast (ucast (b :: u8) :: u32) = b"
  by (simp add: u8_eq_iff bit_simps)

subsection \<open>Nullable strings\<close>

text \<open>A \<open>char *\<close> is \<open>None\<close> for NULL; \<open>str_isset\<close> tests for a non-empty string.\<close>

definition str_isset :: "string option \<Rightarrow> bool" where
  "str_isset s = (case s of None \<Rightarrow> False | Some x \<Rightarrow> x \<noteq> [])"

lemma str_isset_simps [simp]:
  "\<not> str_isset None" "str_isset (Some x) = (x \<noteq> [])"
  by (simp_all add: str_isset_def)

definition str_of :: "string option \<Rightarrow> string" where
  "str_of s = (case s of None \<Rightarrow> [] | Some x \<Rightarrow> x)"

text \<open>
  The arguments of a format directive: \<open>%s\<close>, \<open>%c\<close>, \<open>%b\<close>, \<open>%zu\<close>, \<open>%m\<close> and \<open>%f\<close>.
\<close>

datatype fmt_arg = FStr string | FChr char | FBuf string | FNum nat | FErr err | FRat rat

definition tolower_c :: "char \<Rightarrow> nat" where
  "tolower_c c = (let n = of_char c in if 65 \<le> n \<and> n \<le> 90 then n + 32 else n)"

text \<open>\<open>str_casecmp\<close> of libre returns 0 for strings that are equal up to case.\<close>

definition fold_case :: "string \<Rightarrow> nat list" where
  "fold_case s = map tolower_c s"

definition casecmp_laws :: "(string option \<Rightarrow> string option \<Rightarrow> int) \<Rightarrow> bool" where
  "casecmp_laws sc = (\<forall>a b. sc a b = 0 \<longleftrightarrow> map_option fold_case a = map_option fold_case b)"

definition ref_casecmp :: "string option \<Rightarrow> string option \<Rightarrow> int" where
  "ref_casecmp a b = (if map_option fold_case a = map_option fold_case b then 0 else 1)"

lemma ref_casecmp_ok: "casecmp_laws ref_casecmp"
  by (simp add: casecmp_laws_def ref_casecmp_def)

subsection \<open>Memory buffers\<close>

record mbuf =
  mb_buf :: "u8 list"
  mb_pos :: nat
  mb_end :: nat

text \<open>
  The functions of libre's \<open>mbuf\<close> interface the modelled code calls.
  \<open>m_rest\<close> is the memory at \<open>mbuf_buf()\<close>, as long as \<open>mbuf_get_left()\<close>.
  The writing functions return an error code.
\<close>

record mbuf_ops =
  m_get_left :: "mbuf \<Rightarrow> nat"
  m_rest :: "mbuf \<Rightarrow> u8 list"
  m_read_u8 :: "mbuf \<Rightarrow> u8 \<times> mbuf"
  m_read_u16 :: "mbuf \<Rightarrow> u16 \<times> mbuf"
  m_write_u8 :: "mbuf \<Rightarrow> u8 \<Rightarrow> err \<times> mbuf"
  m_write_u16 :: "mbuf \<Rightarrow> u16 \<Rightarrow> err \<times> mbuf"
  m_write_mem :: "mbuf \<Rightarrow> u8 list \<Rightarrow> err \<times> mbuf"
  m_read_u32 :: "mbuf \<Rightarrow> u32 \<times> mbuf"
  m_write_u32 :: "mbuf \<Rightarrow> u32 \<Rightarrow> err \<times> mbuf"
  m_fill :: "mbuf \<Rightarrow> u8 \<Rightarrow> nat \<Rightarrow> err \<times> mbuf"
  m_rewind :: "mbuf \<Rightarrow> mbuf"
  m_advance :: "mbuf \<Rightarrow> nat \<Rightarrow> mbuf"
  m_read_mem :: "mbuf \<Rightarrow> nat \<Rightarrow> err \<times> u8 list \<times> mbuf"

definition mb_wf :: "mbuf \<Rightarrow> bool" where
  "mb_wf m = (mb_pos m \<le> mb_end m \<and> mb_end m \<le> length (mb_buf m))"

text \<open>The valid contents, and the unread part of them.\<close>

definition mb_data :: "mbuf \<Rightarrow> u8 list" where
  "mb_data m = take (mb_end m) (mb_buf m)"

definition mb_unread :: "mbuf \<Rightarrow> u8 list" where
  "mb_unread m = drop (mb_pos m) (mb_data m)"

text \<open>
  Writing at the position: overwrite, extend past the end, advance.  The memory
  may grow but does not shrink.
\<close>

definition mb_written :: "mbuf \<Rightarrow> u8 list \<Rightarrow> mbuf \<Rightarrow> bool" where
  "mb_written m d m' =
     (mb_wf m' \<and> mb_pos m' = mb_pos m + length d \<and> length (mb_buf m) \<le> length (mb_buf m') \<and>
      mb_data m' = take (mb_pos m) (mb_data m) @ d @ drop (mb_pos m + length d) (mb_data m))"

text \<open>
  16-bit values are stored in the byte order of the host, little-endian here;
  \<open>ntohs\<close> and \<open>htons\<close> swap the bytes.
\<close>

definition ntohl :: "u32 \<Rightarrow> u32" where
  "ntohl v = push_bit 24 v OR (push_bit 8 v AND 0xff0000) OR (drop_bit 8 v AND 0xff00) OR drop_bit 24 v"

abbreviation htonl :: "u32 \<Rightarrow> u32" where "htonl \<equiv> ntohl"

definition le16 :: "u8 \<Rightarrow> u8 \<Rightarrow> u16" where
  "le16 b0 b1 = ucast b0 OR push_bit 8 (ucast b1)"

definition ntohs :: "u16 \<Rightarrow> u16" where
  "ntohs v = push_bit 8 v OR drop_bit 8 v"

abbreviation htons :: "u16 \<Rightarrow> u16" where "htons \<equiv> ntohs"

definition be16 :: "u8 \<Rightarrow> u8 \<Rightarrow> u16" where
  "be16 b0 b1 = push_bit 8 (ucast b0) OR ucast b1"

lemma u8_bit_high: "8 \<le> n \<Longrightarrow> \<not> bit (x :: u8) n"
  using bit_imp_le_length[of x n] by auto

lemma ntohs_le16: "ntohs (le16 b0 b1) = be16 b0 b1"
  by (simp add: u16_eq_iff ntohs_def le16_def be16_def bit_simps u8_bit_high)

text \<open>The four bytes of a 32-bit value in the byte order of the host.\<close>

definition le32 :: "u8 list \<Rightarrow> u32" where
  "le32 bs = ucast (bs ! 0) OR push_bit 8 (ucast (bs ! 1)) OR push_bit 16 (ucast (bs ! 2)) OR
             push_bit 24 (ucast (bs ! 3))"

definition le32_bytes :: "u32 \<Rightarrow> u8 list" where
  "le32_bytes v = [ucast v, ucast (drop_bit 8 v), ucast (drop_bit 16 v), ucast (drop_bit 24 v)]"

definition mbuf_laws :: "mbuf_ops \<Rightarrow> bool" where
  "mbuf_laws M = ((\<forall>m. m_rewind M m = m\<lparr>mb_pos := 0, mb_end := 0\<rparr>) \<and> (\<forall>m. mb_wf m \<longrightarrow>
     m_get_left M m = mb_end m - mb_pos m \<and>
     m_rest M m = mb_unread m \<and>
     (mb_pos m < mb_end m \<longrightarrow>
        m_read_u8 M m = (mb_buf m ! mb_pos m, m\<lparr>mb_pos := mb_pos m + 1\<rparr>)) \<and>
     (mb_pos m + 1 < mb_end m \<longrightarrow>
        m_read_u16 M m = (le16 (mb_buf m ! mb_pos m) (mb_buf m ! (mb_pos m + 1)),
                          m\<lparr>mb_pos := mb_pos m + 2\<rparr>)) \<and>
     (\<forall>v. fst (m_write_u16 M m v) = 0 \<longrightarrow>
        mb_written m [ucast v, ucast (drop_bit 8 v)] (snd (m_write_u16 M m v))) \<and>
     (\<forall>v. fst (m_write_u8 M m v) = 0 \<longrightarrow> mb_written m [v] (snd (m_write_u8 M m v))) \<and>
     (\<forall>d. fst (m_write_mem M m d) = 0 \<longrightarrow> mb_written m d (snd (m_write_mem M m d))) \<and>
     (mb_pos m + 3 < mb_end m \<longrightarrow>
        m_read_u32 M m = (le32 (take 4 (drop (mb_pos m) (mb_buf m))), m\<lparr>mb_pos := mb_pos m + 4\<rparr>)) \<and>
     (\<forall>v. fst (m_write_u32 M m v) = 0 \<longrightarrow> mb_written m (le32_bytes v) (snd (m_write_u32 M m v))) \<and>
     (\<forall>c n. fst (m_fill M m c n) = 0 \<longrightarrow> mb_written m (replicate n c) (snd (m_fill M m c n))) \<and>
     (\<forall>n. m_advance M m n = m\<lparr>mb_pos := mb_pos m + n\<rparr>) \<and>
     (\<forall>n. mb_pos m + n \<le> mb_end m \<longrightarrow>
        m_read_mem M m n = (0, take n (mb_unread m), m\<lparr>mb_pos := mb_pos m + n\<rparr>))))"

text \<open>Allocation succeeds, so the writing functions report no error.\<close>

definition mbuf_no_oom :: "mbuf_ops \<Rightarrow> bool" where
  "mbuf_no_oom M = (\<forall>m. mb_wf m \<longrightarrow>
     (\<forall>v. fst (m_write_u8 M m v) = 0) \<and> (\<forall>v. fst (m_write_u16 M m v) = 0) \<and>
     (\<forall>v. fst (m_write_u32 M m v) = 0) \<and> (\<forall>c n. fst (m_fill M m c n) = 0) \<and>
     (\<forall>d. fst (m_write_mem M m d) = 0))"

subsection \<open>Consequences of the laws\<close>

lemma mb_unread_length: "mb_wf m \<Longrightarrow> length (mb_unread m) = mb_end m - mb_pos m"
  by (simp add: mb_unread_def mb_data_def mb_wf_def)

lemma mb_unread_spare:
  assumes "mb_wf m"
  shows "drop (mb_pos m) (mb_buf m) = mb_unread m @ drop (mb_end m) (mb_buf m)"
proof -
  have "drop (mb_pos m) (take (mb_end m) (mb_buf m) @ drop (mb_end m) (mb_buf m)) =
      mb_unread m @ drop (mb_end m) (mb_buf m)"
    using assms unfolding drop_append by (simp add: mb_unread_def mb_data_def mb_wf_def)
  then show ?thesis by simp
qed

lemma m_get_left_unread:
  "mbuf_laws M \<Longrightarrow> mb_wf m \<Longrightarrow> m_get_left M m = length (mb_unread m)"
  by (simp add: mbuf_laws_def mb_unread_length)

lemma m_rest_unread: "mbuf_laws M \<Longrightarrow> mb_wf m \<Longrightarrow> m_rest M m = mb_unread m"
  by (simp add: mbuf_laws_def)

lemma m_read_u8_unread:
  assumes "mbuf_laws M" "mb_wf m" "mb_unread m = b # bs"
  shows "fst (m_read_u8 M m) = b"
    and "mb_wf (snd (m_read_u8 M m))"
    and "mb_unread (snd (m_read_u8 M m)) = bs"
proof -
  from assms(2,3) have lt: "mb_pos m < mb_end m"
    using mb_unread_length[of m] by (cases "mb_pos m < mb_end m") auto
  then have rd: "m_read_u8 M m = (mb_buf m ! mb_pos m, m\<lparr>mb_pos := mb_pos m + 1\<rparr>)"
    using assms(1,2) by (simp add: mbuf_laws_def)
  have nth: "mb_unread m = (mb_buf m ! mb_pos m) # drop (Suc (mb_pos m)) (take (mb_end m) (mb_buf m))"
    using lt assms(2) unfolding mb_unread_def mb_data_def mb_wf_def
    by (simp add: Cons_nth_drop_Suc[symmetric])
  show "fst (m_read_u8 M m) = b" using nth assms(3) rd by simp
  show "mb_wf (snd (m_read_u8 M m))" using lt assms(2) rd by (simp add: mb_wf_def)
  show "mb_unread (snd (m_read_u8 M m)) = bs"
    using nth assms(3) rd by (simp add: mb_unread_def mb_data_def)
qed

text \<open>Reading byte by byte: what is left is the head and the tail of the unread bytes.\<close>

lemma m_read_u8_Cons:
  assumes "mbuf_laws M" "mb_wf m" "mb_unread m = b # bs"
  obtains m' where "m_read_u8 M m = (b, m')" "\<not> m_get_left M m < 1" "mb_wf m'" "mb_unread m' = bs"
proof -
  have "m_read_u8 M m = (b, snd (m_read_u8 M m))"
    using m_read_u8_unread(1)[OF assms] by (metis prod.collapse)
  moreover have "\<not> m_get_left M m < 1" using assms by (simp add: m_get_left_unread)
  ultimately show ?thesis using that m_read_u8_unread(2,3)[OF assms] by blast
qed

lemma mbuf_laws_write:
  assumes "mbuf_laws M" "mb_wf m"
  shows "\<And>d. fst (m_write_mem M m d) = 0 \<Longrightarrow> mb_written m d (snd (m_write_mem M m d))"
    and "\<And>v. fst (m_write_u8 M m v) = 0 \<Longrightarrow> mb_written m [v] (snd (m_write_u8 M m v))"
    and "\<And>v. fst (m_write_u32 M m v) = 0 \<Longrightarrow> mb_written m (le32_bytes v) (snd (m_write_u32 M m v))"
    and "\<And>c n. fst (m_fill M m c n) = 0 \<Longrightarrow> mb_written m (replicate n c) (snd (m_fill M m c n))"
  using assms unfolding mbuf_laws_def by blast+

lemma m_write_u8_written:
  "mbuf_laws M \<Longrightarrow> mb_wf m \<Longrightarrow> m_write_u8 M m v = (0, m') \<Longrightarrow> mb_written m [v] m'"
  using mbuf_laws_write(2)[of M m v] by simp

lemma m_write_mem_written:
  "mbuf_laws M \<Longrightarrow> mb_wf m \<Longrightarrow> m_write_mem M m d = (0, m') \<Longrightarrow> mb_written m d m'"
  using mbuf_laws_write(1)[of M m d] by simp

lemma m_write_u32_written:
  "mbuf_laws M \<Longrightarrow> mb_wf m \<Longrightarrow> m_write_u32 M m v = (0, m') \<Longrightarrow> mb_written m (le32_bytes v) m'"
  using mbuf_laws_write(3)[of M m v] by simp

lemma m_write_mem_ok:
  assumes "mbuf_laws M" "mbuf_no_oom M" "mb_wf m"
  obtains m' where "m_write_mem M m d = (0, m')" "mb_written m d m'"
  using mbuf_laws_write(1)[OF assms(1,3), of d] assms(2,3) unfolding mbuf_no_oom_def
  by (metis prod.collapse)

lemma m_fill_ok:
  assumes "mbuf_laws M" "mbuf_no_oom M" "mb_wf m"
  obtains m' where "m_fill M m c n = (0, m')" "mb_written m (replicate n c) m'"
  using mbuf_laws_write(4)[OF assms(1,3), of c n] assms(2,3) unfolding mbuf_no_oom_def
  by (metis prod.collapse)

lemma mb_unread_drop: "mb_unread (m\<lparr>mb_pos := mb_pos m + n\<rparr>) = drop n (mb_unread m)"
  by (simp add: mb_unread_def mb_data_def add.commute)

lemma m_read_u16_Cons:
  assumes "mbuf_laws M" "mb_wf m" "mb_unread m = b0 # b1 # bs"
  obtains m' where "m_read_u16 M m = (le16 b0 b1, m')" "mb_wf m'" "mb_unread m' = bs"
    "m' = m\<lparr>mb_pos := mb_pos m + 2\<rparr>"
proof -
  have lt: "mb_pos m + 1 < mb_end m" using mb_unread_length[OF assms(2)] assms(3) by simp
  have nth: "mb_buf m ! (mb_pos m + i) = mb_unread m ! i" if "i < 2" for i
    using lt that assms(2) by (simp add: mb_unread_def mb_data_def mb_wf_def)
  have "m_read_u16 M m = (le16 b0 b1, m\<lparr>mb_pos := mb_pos m + 2\<rparr>)"
    using assms(1,2) lt nth[of 0] nth[of 1] assms(3) by (simp add: mbuf_laws_def)
  moreover have "mb_wf (m\<lparr>mb_pos := mb_pos m + 2\<rparr>)" using lt assms(2) by (simp add: mb_wf_def)
  moreover have "mb_unread (m\<lparr>mb_pos := mb_pos m + 2\<rparr>) = bs"
    by (simp only: mb_unread_drop assms(3)) simp
  ultimately show ?thesis by (rule that) (rule refl)
qed

lemma m_read_u32_Cons:
  assumes "mbuf_laws M" "mb_wf m" "mb_unread m = b0 # b1 # b2 # b3 # bs"
  obtains m' where "m_read_u32 M m = (le32 [b0, b1, b2, b3], m')" "mb_wf m'" "mb_unread m' = bs"
proof -
  have lt: "mb_pos m + 3 < mb_end m" using mb_unread_length[OF assms(2)] assms(3) by simp
  have "take 4 (drop (mb_pos m) (mb_buf m)) = take 4 (mb_unread m)"
    using lt by (simp add: mb_unread_def mb_data_def drop_take min_def)
  then have "m_read_u32 M m = (le32 [b0, b1, b2, b3], m\<lparr>mb_pos := mb_pos m + 4\<rparr>)"
    using assms lt by (simp add: mbuf_laws_def)
  moreover have "mb_wf (m\<lparr>mb_pos := mb_pos m + 4\<rparr>)" using lt assms(2) by (simp add: mb_wf_def)
  moreover have "mb_unread (m\<lparr>mb_pos := mb_pos m + 4\<rparr>) = bs"
    by (simp only: mb_unread_drop assms(3)) simp
  ultimately show ?thesis by (rule that)
qed

text \<open>A buffer that is written at its end is appended to.\<close>

definition mb_at_end :: "mbuf \<Rightarrow> bool" where
  "mb_at_end m = (mb_wf m \<and> mb_pos m = mb_end m)"

lemma mb_data_length: "mb_wf m \<Longrightarrow> length (mb_data m) = mb_end m"
  by (simp add: mb_data_def mb_wf_def)

lemma mb_written_at_end:
  assumes "mb_at_end m" "mb_written m d m'"
  shows "mb_at_end m'" and "mb_data m' = mb_data m @ d" and "mb_end m' = mb_end m + length d"
proof -
  have len: "length (mb_data m) = mb_pos m"
    using assms(1) by (simp add: mb_at_end_def mb_data_length)
  show data: "mb_data m' = mb_data m @ d" using assms(2) len by (simp add: mb_written_def)
  have wf: "mb_wf m'" and pos: "mb_pos m' = mb_pos m + length d"
    using assms(2) by (simp_all add: mb_written_def)
  show e: "mb_end m' = mb_end m + length d"
    using mb_data_length[OF wf] data len assms(1) by (simp add: mb_at_end_def)
  show "mb_at_end m'" using wf pos e assms(1) by (simp add: mb_at_end_def)
qed

lemma m_write_mem_append:
  assumes "mbuf_laws M" "mbuf_no_oom M" "mb_at_end m"
  obtains m' where "m_write_mem M m d = (0, m')" "mb_at_end m'" "mb_data m' = mb_data m @ d"
    "mb_end m' = mb_end m + length d"
proof -
  have "mb_wf m" using assms(3) by (simp add: mb_at_end_def)
  with assms(1,2) obtain m' where "m_write_mem M m d = (0, m')" "mb_written m d m'"
    by (rule m_write_mem_ok)
  then show ?thesis using mb_written_at_end[OF assms(3)] that by blast
qed

lemma m_rewind_empty:
  assumes "mbuf_laws M"
  shows "mb_at_end (m_rewind M m)" "mb_data (m_rewind M m) = []" "mb_end (m_rewind M m) = 0"
  using assms by (simp_all add: mbuf_laws_def mb_at_end_def mb_wf_def mb_data_def)

lemma m_write_mem_wf:
  "mbuf_laws M \<Longrightarrow> mb_wf m \<Longrightarrow> m_write_mem M m d = (0, m') \<Longrightarrow> mb_wf m'"
  by (drule (2) m_write_mem_written) (simp add: mb_written_def)

subsection \<open>A concrete buffer\<close>

definition ref_write :: "mbuf \<Rightarrow> u8 list \<Rightarrow> err \<times> mbuf" where
  "ref_write m d =
     (0, \<lparr>mb_buf = take (mb_pos m) (mb_buf m) @ d @ drop (mb_pos m + length d) (mb_buf m),
          mb_pos = mb_pos m + length d, mb_end = max (mb_end m) (mb_pos m + length d)\<rparr>)"

definition ref_mbuf :: mbuf_ops where
  "ref_mbuf = \<lparr>
     m_get_left = (\<lambda>m. mb_end m - mb_pos m),
     m_rest = (\<lambda>m. drop (mb_pos m) (take (mb_end m) (mb_buf m))),
     m_read_u8 = (\<lambda>m. (mb_buf m ! mb_pos m, m\<lparr>mb_pos := mb_pos m + 1\<rparr>)),
     m_read_u16 = (\<lambda>m. (le16 (mb_buf m ! mb_pos m) (mb_buf m ! (mb_pos m + 1)),
                        m\<lparr>mb_pos := mb_pos m + 2\<rparr>)),
     m_write_u8 = (\<lambda>m v. ref_write m [v]),
     m_write_u16 = (\<lambda>m v. ref_write m [ucast v, ucast (drop_bit 8 v)]),
     m_write_mem = ref_write,
     m_read_u32 = (\<lambda>m. (le32 (take 4 (drop (mb_pos m) (mb_buf m))), m\<lparr>mb_pos := mb_pos m + 4\<rparr>)),
     m_write_u32 = (\<lambda>m v. ref_write m (le32_bytes v)),
     m_fill = (\<lambda>m c n. ref_write m (replicate n c)),
     m_rewind = (\<lambda>m. m\<lparr>mb_pos := 0, mb_end := 0\<rparr>),
     m_advance = (\<lambda>m n. m\<lparr>mb_pos := mb_pos m + n\<rparr>),
     m_read_mem = (\<lambda>m n. if mb_end m < mb_pos m + n then (75, [], m)
                         else (0, take n (drop (mb_pos m) (take (mb_end m) (mb_buf m))),
                               m\<lparr>mb_pos := mb_pos m + n\<rparr>))\<rparr>"

lemma ref_write_written:
  assumes "mb_wf m"
  shows "mb_written m d (snd (ref_write m d))"
proof -
  let ?p = "mb_pos m" and ?e = "mb_end m" and ?b = "mb_buf m" and ?n = "length d"
  have le: "?p \<le> ?e" "?e \<le> length ?b" using assms by (simp_all add: mb_wf_def)
  have "take (max ?e (?p + ?n)) (take ?p ?b @ d @ drop (?p + ?n) ?b) =
      take ?p (take ?e ?b) @ d @ drop (?p + ?n) (take ?e ?b)"
    using le by (cases "?e \<le> ?p + ?n") (auto simp: max_def drop_take min_absorb1)
  then show ?thesis
    using le by (auto simp: ref_write_def mb_written_def mb_wf_def mb_data_def)
qed

lemma ref_write_ok [simp]: "fst (ref_write m d) = 0"
  by (simp add: ref_write_def)

lemma ref_mbuf_laws: "mbuf_laws ref_mbuf"
  by (simp add: mbuf_laws_def ref_mbuf_def ref_write_written mb_unread_def mb_data_def)

lemma ref_mbuf_no_oom: "mbuf_no_oom ref_mbuf"
  by (simp add: mbuf_no_oom_def ref_mbuf_def)

definition mbuf_of :: "u8 list \<Rightarrow> mbuf" where
  "mbuf_of d = \<lparr>mb_buf = d, mb_pos = 0, mb_end = length d\<rparr>"

lemma mbuf_of_simps [simp]: "mb_wf (mbuf_of d)" "mb_unread (mbuf_of d) = d" "mb_data (mbuf_of d) = d"
  by (simp_all add: mbuf_of_def mb_wf_def mb_unread_def mb_data_def)

end
