(* ===== verification/Fragment.thy ===== *)
theory Fragment
  imports Prelude
begin

text \<open>
  The contract the video packetizers share.  An encoded frame is handed to a
  packet handler (\<open>videnc_packet_h\<close>) in pieces that fit the packet size, each
  behind a payload header that flags the first and the last piece.
  \<open>frag_pkts\<close> is the abstract sequence of packets; the locale \<open>fragmenter\<close>
  says that a packetizer sends exactly that sequence, for any handler, and
  proves once what follows from it.  The theories of the codecs interpret it
  on their own packetizers.
\<close>

subsection \<open>Packets and packet handlers\<close>

record pkt =
  p_marker :: bool
  p_ts :: u64
  p_hdr :: "u8 list"
  p_pld :: "u8 list"

text \<open>
  \<open>videnc_packet_h\<close> (src/src/vidcodec.h) takes the marker, the RTP timestamp,
  the header and the payload, and returns an error code; its \<open>arg\<close> is the
  state \<open>'s\<close> it updates.
\<close>

type_synonym 's pkth = "bool \<Rightarrow> u64 \<Rightarrow> u8 list \<Rightarrow> u8 list \<Rightarrow> 's \<Rightarrow> err \<times> 's"

text \<open>Sending packets one after the other, error codes or-ed together.\<close>

fun send_pkts :: "'s pkth \<Rightarrow> pkt list \<Rightarrow> err \<Rightarrow> 's \<Rightarrow> err \<times> 's" where
  "send_pkts h [] err s = (err, s)"
| "send_pkts h (p # ps) err s =
     (let (e, s') = h (p_marker p) (p_ts p) (p_hdr p) (p_pld p) s
      in send_pkts h ps (err OR e) s')"

lemma send_pkts_append:
  "send_pkts h (ps @ qs) err s = (let (e, s') = send_pkts h ps err s in send_pkts h qs e s')"
  by (induction ps arbitrary: err s) (auto simp: split_def Let_def)

lemma send_pkts_err:
  "send_pkts h ps err s = (err OR fst (send_pkts h ps 0 s), snd (send_pkts h ps 0 s))"
proof (induction ps arbitrary: err s)
  case Nil
  then show ?case by simp
next
  case (Cons p ps)
  obtain e s' where h: "h (p_marker p) (p_ts p) (p_hdr p) (p_pld p) s = (e, s')" by fastforce
  show ?case
    using Cons.IH[of "err OR e" s'] Cons.IH[of e s'] by (simp add: h or.assoc)
qed

text \<open>The handler that records what it is given.\<close>

definition rec_pkth :: "pkt list pkth" where
  "rec_pkth m ts hdr pld ps = (0, ps @ [\<lparr>p_marker = m, p_ts = ts, p_hdr = hdr, p_pld = pld\<rparr>])"

lemma send_pkts_rec [simp]: "send_pkts rec_pkth ps err qs = (err, qs @ ps)"
  by (induction ps arbitrary: qs) (simp_all add: rec_pkth_def)

subsection \<open>The fragments of a frame\<close>

function frag_pkts ::
  "(bool \<Rightarrow> bool \<Rightarrow> u8 list) \<Rightarrow> bool \<Rightarrow> u64 \<Rightarrow> nat \<Rightarrow> bool \<Rightarrow> u8 list \<Rightarrow> pkt list" where
  "frag_pkts hdr m ts sz start buf =
     (if sz < length buf \<and> 0 < sz
      then \<lparr>p_marker = False, p_ts = ts, p_hdr = hdr start False, p_pld = take sz buf\<rparr>
             # frag_pkts hdr m ts sz False (drop sz buf)
      else [\<lparr>p_marker = m, p_ts = ts, p_hdr = hdr start True, p_pld = buf\<rparr>])"
  by pat_completeness auto
termination
  by (relation "measure (\<lambda>(hdr, m, ts, sz, start, buf). length buf)") auto

declare frag_pkts.simps [simp del]

lemma frag_pkts_last:
  "length buf \<le> sz \<Longrightarrow> frag_pkts hdr m ts sz start buf =
     [\<lparr>p_marker = m, p_ts = ts, p_hdr = hdr start True, p_pld = buf\<rparr>]"
  by (simp add: frag_pkts.simps)

lemma frag_pkts_more:
  "0 < sz \<Longrightarrow> sz < length buf \<Longrightarrow> frag_pkts hdr m ts sz start buf =
     \<lparr>p_marker = False, p_ts = ts, p_hdr = hdr start False, p_pld = take sz buf\<rparr>
       # frag_pkts hdr m ts sz False (drop sz buf)"
  by (subst frag_pkts.simps) simp

text \<open>The laws of a fragment sequence: what a receiver relies on.\<close>

definition frags_of :: "bool \<Rightarrow> u64 \<Rightarrow> nat \<Rightarrow> u8 list \<Rightarrow> pkt list \<Rightarrow> bool" where
  "frags_of m ts maxlen buf ps =
     (ps \<noteq> [] \<and> concat (map p_pld ps) = buf \<and>
      list_all (\<lambda>p. p_ts p = ts \<and> length (p_hdr p) + length (p_pld p) \<le> maxlen) ps \<and>
      list_all (\<lambda>p. \<not> p_marker p) (butlast ps) \<and> p_marker (last ps) = m)"

lemma frag_pkts_nonempty [simp]: "frag_pkts hdr m ts sz start buf \<noteq> []"
  by (subst frag_pkts.simps) simp

lemma frag_pkts_concat: "concat (map p_pld (frag_pkts hdr m ts sz start buf)) = buf"
  by (induction hdr m ts sz start buf rule: frag_pkts.induct) (subst frag_pkts.simps, simp)

lemma frag_pkts_sizes:
  assumes "\<And>a b. length (hdr a b) = hsz" "0 < sz"
  shows "list_all (\<lambda>p. p_ts p = ts \<and> length (p_hdr p) + length (p_pld p) \<le> hsz + sz)
           (frag_pkts hdr m ts sz start buf)"
  using assms
  by (induction hdr m ts sz start buf rule: frag_pkts.induct) (subst frag_pkts.simps, simp)

lemma frag_pkts_markers:
  "list_all (\<lambda>p. \<not> p_marker p) (butlast (frag_pkts hdr m ts sz start buf)) \<and>
   p_marker (last (frag_pkts hdr m ts sz start buf)) = m"
  by (induction hdr m ts sz start buf rule: frag_pkts.induct) (subst (1 2) frag_pkts.simps, simp)

lemma frag_pkts_headers:
  "map p_hdr (frag_pkts hdr m ts sz start buf) =
     (let n = length (frag_pkts hdr m ts sz start buf)
      in map (\<lambda>i. hdr (start \<and> i = 0) (i = n - 1)) [0..<n])"
proof (induction hdr m ts sz start buf rule: frag_pkts.induct)
  case (1 hdr m ts sz start buf)
  show ?case
  proof (cases "sz < length buf \<and> 0 < sz")
    case False
    then show ?thesis by (subst (1 2) frag_pkts.simps) auto
  next
    case True
    define ps where "ps = frag_pkts hdr m ts sz False (drop sz buf)"
    have ne: "0 < length ps" by (simp add: ps_def)
    have IH: "map p_hdr ps = map (\<lambda>i. hdr False (i = length ps - 1)) [0..<length ps]"
      using 1[OF True] by (simp add: ps_def Let_def)
    have eq: "frag_pkts hdr m ts sz start buf =
       \<lparr>p_marker = False, p_ts = ts, p_hdr = hdr start False, p_pld = take sz buf\<rparr> # ps"
      using True by (simp add: frag_pkts_more ps_def)
    show ?thesis
      using ne IH unfolding eq
      by (simp add: Let_def upt_conv_Cons map_Suc_upt[symmetric] comp_def del: upt_Suc)
         (auto simp: nat_diff_split)
  qed
qed

lemma frag_pkts_frags_of:
  assumes "\<And>a b. length (hdr a b) = hsz" "hsz < maxlen"
  shows "frags_of m ts maxlen buf (frag_pkts hdr m ts (maxlen - hsz) start buf)"
  using frag_pkts_sizes[where hdr = hdr and hsz = hsz and sz = "maxlen - hsz"] assms
    frag_pkts_markers[of hdr m ts "maxlen - hsz" start buf]
  by (simp add: frags_of_def frag_pkts_concat)

subsection \<open>The interface\<close>

text \<open>
  A packetizer \<open>pk\<close> with payload headers \<open>hdr start end\<close> of \<open>hsz\<close> bytes.
  \<open>None\<close> stands for a packetizer that never returns.
\<close>

locale fragmenter =
  fixes pk :: "'s pkth \<Rightarrow> bool \<Rightarrow> u64 \<Rightarrow> u8 list \<Rightarrow> nat \<Rightarrow> 's \<Rightarrow> (err \<times> 's) option"
    and hdr :: "bool \<Rightarrow> bool \<Rightarrow> u8 list"
    and hsz :: nat
  assumes hdr_length: "length (hdr a b) = hsz"
    and pk_sends: "hsz < maxlen \<Longrightarrow> maxlen < 2 ^ 64 \<Longrightarrow>
      pk h m ts buf maxlen s =
        Some (send_pkts h (frag_pkts hdr m ts (maxlen - hsz) True buf) 0 s)"
begin

lemma pk_returns: "hsz < maxlen \<Longrightarrow> maxlen < 2 ^ 64 \<Longrightarrow> pk h m ts buf maxlen s \<noteq> None"
  by (simp add: pk_sends)

lemma pk_fragments:
  assumes "hsz < maxlen" "maxlen < 2 ^ 64"
  shows "\<exists>ps. pk h m ts buf maxlen s = Some (send_pkts h ps 0 s) \<and>
              frags_of m ts maxlen buf ps \<and>
              map p_hdr ps = map (\<lambda>i. hdr (i = 0) (i = length ps - 1)) [0..<length ps]"
  using pk_sends[OF assms, of h m ts buf s]
    frag_pkts_frags_of[where hdr = hdr and hsz = hsz, OF hdr_length assms(1)]
    frag_pkts_headers[of hdr m ts "maxlen - hsz" True buf]
  by (auto simp: Let_def)

text \<open>A frame that fits goes out as one packet, with both flags set.\<close>

lemma pk_single:
  assumes "hsz < maxlen" "maxlen < 2 ^ 64" "hsz + length buf \<le> maxlen"
  shows "pk h m ts buf maxlen s = Some (h m ts (hdr True True) buf s)"
  using assms by (simp add: pk_sends frag_pkts_last split_def)

end

subsection \<open>The receiving side\<close>

text \<open>
  The packets of a frame arrive with consecutive sequence numbers; \<open>feed\<close>
  hands them to a decoder and collects its results.
\<close>

fun feed :: "('d \<Rightarrow> bool \<Rightarrow> u16 \<Rightarrow> u8 list \<Rightarrow> 'r \<times> 'd) \<Rightarrow> 'd \<Rightarrow> u16 \<Rightarrow> pkt list \<Rightarrow> 'r list \<times> 'd" where
  "feed step d q [] = ([], d)"
| "feed step d q (p # ps) =
     (let (r, d) = step d (p_marker p) q (p_hdr p @ p_pld p);
          (rs, d) = feed step d (q + 1) ps
      in (r # rs, d))"

text \<open>
  A decoder that reassembles frames.  \<open>idle d c\<close>: ready, with codec context
  \<open>c\<close>; \<open>asm d c q b\<close>: under assembly, last sequence number \<open>q\<close>, bytes
  \<open>b\<close> so far; \<open>fin c b r d\<close>: the complete frame \<open>b\<close> went to the codec, with
  result \<open>r\<close> and next state \<open>d\<close>.  \<open>cap\<close> bounds the frame buffer.
\<close>

locale depacketizer =
  fixes step :: "'d \<Rightarrow> bool \<Rightarrow> u16 \<Rightarrow> u8 list \<Rightarrow> 'r \<times> 'd"
    and hdr :: "bool \<Rightarrow> bool \<Rightarrow> u8 list"
    and cap :: nat
    and idle :: "'d \<Rightarrow> 'c \<Rightarrow> bool"
    and asm :: "'d \<Rightarrow> 'c \<Rightarrow> u16 \<Rightarrow> u8 list \<Rightarrow> bool"
    and fin :: "'c \<Rightarrow> u8 list \<Rightarrow> 'r \<Rightarrow> 'd \<Rightarrow> bool"
  assumes first: "idle d c \<Longrightarrow> length b \<le> cap \<Longrightarrow>
      step d False q (hdr True e @ b) = (r, d') \<Longrightarrow> asm d' c q b"
    and first_last: "idle d c \<Longrightarrow> step d True q (hdr True e @ b) = (r, d') \<Longrightarrow> fin c b r d'"
    and nxt: "asm d c q b \<Longrightarrow> length (b @ b') \<le> cap \<Longrightarrow>
      step d False (q + 1) (hdr False e @ b') = (r, d') \<Longrightarrow> asm d' c (q + 1) (b @ b')"
    and nxt_last: "asm d c q b \<Longrightarrow>
      step d True (q + 1) (hdr False e @ b') = (r, d') \<Longrightarrow> fin c (b @ b') r d'"
begin

lemma feed_rest:
  "asm d c q b \<Longrightarrow> length b + length buf \<le> cap \<Longrightarrow>
   feed step d (q + 1) (frag_pkts hdr True ts sz False buf) = (rs, d') \<Longrightarrow>
   rs \<noteq> [] \<and> fin c (b @ buf) (last rs) d'"
proof (induction "length buf" arbitrary: d q b buf rs d' rule: less_induct)
  case less
  show ?case
  proof (cases "sz < length buf \<and> 0 < sz")
    case False
    obtain r d1 where s1: "step d True (q + 1) (hdr False True @ buf) = (r, d1)" by fastforce
    then have "rs = [r] \<and> d' = d1" using less.prems(3) False by (subst (asm) frag_pkts.simps) simp
    then show ?thesis using nxt_last[OF less.prems(1) s1] by simp
  next
    case True
    obtain r d1 where s1: "step d False (q + 1) (hdr False False @ take sz buf) = (r, d1)" by fastforce
    obtain rs2 d2 where s2: "feed step d1 (q + 1 + 1) (frag_pkts hdr True ts sz False (drop sz buf)) = (rs2, d2)"
      by fastforce
    have res: "rs = r # rs2 \<and> d' = d2"
      using less.prems(3) True s1 s2 by (simp add: frag_pkts_more)
    have a1: "asm d1 c (q + 1) (b @ take sz buf)"
      by (rule nxt[OF less.prems(1) _ s1]) (use less.prems(2) in auto)
    have "rs2 \<noteq> [] \<and> fin c ((b @ take sz buf) @ drop sz buf) (last rs2) d2"
      by (rule less.hyps[OF _ a1 _ s2]) (use True less.prems(2) in auto)
    then show ?thesis using res by simp
  qed
qed

text \<open>The fragments of a frame, in order, deliver exactly the frame to the codec.\<close>

lemma feed_frame:
  assumes "idle d c" "length buf \<le> cap"
    and fed: "feed step d q (frag_pkts hdr True ts sz True buf) = (rs, d')"
  shows "rs \<noteq> [] \<and> fin c buf (last rs) d'"
proof (cases "sz < length buf \<and> 0 < sz")
  case False
  obtain r d1 where s1: "step d True q (hdr True True @ buf) = (r, d1)" by fastforce
  then have "rs = [r] \<and> d' = d1" using fed False by (subst (asm) frag_pkts.simps) simp
  then show ?thesis using first_last[OF assms(1) s1] by simp
next
  case True
  obtain r d1 where s1: "step d False q (hdr True False @ take sz buf) = (r, d1)" by fastforce
  obtain rs2 d2 where s2: "feed step d1 (q + 1) (frag_pkts hdr True ts sz False (drop sz buf)) = (rs2, d2)"
    by fastforce
  have res: "rs = r # rs2 \<and> d' = d2" using fed True s1 s2 by (simp add: frag_pkts_more)
  have a1: "asm d1 c q (take sz buf)" by (rule first[OF assms(1) _ s1]) (use assms(2) in auto)
  have "rs2 \<noteq> [] \<and> fin c (take sz buf @ drop sz buf) (last rs2) d2"
    by (rule feed_rest[OF a1 _ s2]) (use assms(2) in auto)
  then show ?thesis using res by simp
qed

end

end
