(* ===== verification/VideoTypes.thy ===== *)
theory VideoTypes
  imports Complex_Main Prelude Fragment
begin

text \<open>
  What the video codec modules share: the parameters of an encoder
  (src/src/vidcodec.h), picture sizes and frames, the timestamp conversions of
  src/src/vidutil.c, and the interfaces of the codec libraries (libvpx,
  libaom) as records of functions, since those libraries are not part of the
  repository.  A \<open>double\<close> is a rational number.
\<close>

subsection \<open>Frames and encoder parameters\<close>

record vidsz =
  sz_w :: u32
  sz_h :: u32

datatype vidfmt =
  VID_FMT_YUV420P | VID_FMT_YUV444P | VID_FMT_NV12 | VID_FMT_NV21 | VID_FMT_OTHER nat

record vidframe =
  vf_data :: "u64 list"
  vf_linesize :: "u16 list"
  vf_size :: vidsz
  vf_fmt :: vidfmt

record videnc_param =
  vp_bitrate :: u32
  vp_pktsize :: u32
  vp_fps :: rat
  vp_max_fs :: u32

text \<open>Conversion of a non-negative \<open>double\<close> to \<open>unsigned\<close>: the fraction is dropped.\<close>

definition unsigned_of :: "rat \<Rightarrow> u32" where
  "unsigned_of x = word_of_int \<lfloor>x\<rfloor>"

subsection \<open>Timestamps (vidutil.c)\<close>

definition VIDEO_TIMEBASE :: u64 where "VIDEO_TIMEBASE = 1000000"
definition VIDEO_SRATE :: u64 where "VIDEO_SRATE = 90000"

definition video_calc_rtp_timestamp_fix :: "u64 \<Rightarrow> u64" where
  "video_calc_rtp_timestamp_fix timestamp = timestamp * VIDEO_SRATE div VIDEO_TIMEBASE"

definition video_calc_timebase_timestamp :: "u64 \<Rightarrow> u64" where
  "video_calc_timebase_timestamp rtp_ts = rtp_ts * VIDEO_TIMEBASE div VIDEO_SRATE"

definition video_calc_seconds :: "u64 \<Rightarrow> rat" where
  "video_calc_seconds rtp_ts = of_nat (unat rtp_ts) / of_nat (unat VIDEO_SRATE)"

definition video_timestamp_to_seconds :: "u64 \<Rightarrow> rat" where
  "video_timestamp_to_seconds timestamp = of_nat (unat timestamp) / of_nat (unat VIDEO_TIMEBASE)"

lemma unat_mult_no_overflow:
  "unat (a :: u64) * unat b < 2 ^ 64 \<Longrightarrow> unat (a * b) = unat a * unat b"
  by (simp add: unat_word_ariths)

lemma unat_video_consts [simp]:
  "unat VIDEO_SRATE = 90000" "unat VIDEO_TIMEBASE = 1000000"
  by (simp_all add: VIDEO_SRATE_def VIDEO_TIMEBASE_def)

lemma unat_rtp_timestamp_fix:
  "unat t * 90000 < 2 ^ 64 \<Longrightarrow>
   unat (video_calc_rtp_timestamp_fix t) = unat t * 90000 div 1000000"
  by (simp add: video_calc_rtp_timestamp_fix_def unat_div_distrib unat_mult_no_overflow)

lemma unat_timebase_timestamp:
  "unat t * 1000000 < 2 ^ 64 \<Longrightarrow>
   unat (video_calc_timebase_timestamp t) = unat t * 1000000 div 90000"
  by (simp add: video_calc_timebase_timestamp_def unat_div_distrib unat_mult_no_overflow)

subsection \<open>Codec library interfaces\<close>

record enc_cfg =
  cfg_profile :: nat
  cfg_w :: u32
  cfg_h :: u32
  cfg_tb_num :: u32
  cfg_tb_den :: u32
  cfg_bitrate :: u32

text \<open>One item of \<open>*_codec_get_cx_data\<close>: its kind, frame flags and payload.\<close>

record cx_pkt =
  cx_frame :: bool
  cx_key :: bool
  cx_fragment :: bool
  cx_partid :: int
  cx_pts :: u64
  cx_buf :: "u8 list"

text \<open>
  The encoder library: the results of the configuration, open, control and
  encode calls, and the items the encoder holds after a call of encode
  (\<open>get_cx_data\<close> iterates over them).  \<open>'c\<close> is the codec context; a result
  other than 0 is an error.
\<close>

record 'c enc_ops =
  ve_config_default :: int
  ve_init :: "enc_cfg \<Rightarrow> int \<times> 'c"
  ve_control :: "'c \<Rightarrow> nat \<Rightarrow> nat \<Rightarrow> int \<times> 'c"
  ve_destroy :: "'c \<Rightarrow> 'c"
  ve_img_wrap :: "vidframe \<Rightarrow> bool"
  ve_encode :: "'c \<Rightarrow> vidframe \<Rightarrow> u64 \<Rightarrow> bool \<Rightarrow> int \<times> 'c"
  ve_cx_data :: "'c \<Rightarrow> cx_pkt list"

record dec_image =
  im_i420 :: bool
  im_planes :: "u64 list"
  im_stride :: "u16 list"
  im_w :: u32
  im_h :: u32

record 'c dec_ops =
  vd_init :: "int \<times> 'c"
  vd_decode :: "'c \<Rightarrow> u8 list \<Rightarrow> int \<times> 'c"
  vd_get_frame :: "'c \<Rightarrow> dec_image option"
  vd_peek :: "u8 list \<Rightarrow> (int \<times> bool)"

text \<open>The picture handed back to the caller of a decoder.\<close>

definition frame_of_image :: "dec_image \<Rightarrow> vidframe" where
  "frame_of_image img =
     \<lparr>vf_data = im_planes img, vf_linesize = im_stride img,
      vf_size = \<lparr>sz_w = im_w img, sz_h = im_h img\<rparr>, vf_fmt = VID_FMT_YUV420P\<rparr>"

subsection \<open>Sequence numbers\<close>

text \<open>\<open>seq_diff\<close>: the signed 16-bit difference of two RTP sequence numbers.\<close>

definition seq_diff :: "u16 \<Rightarrow> u16 \<Rightarrow> int" where
  "seq_diff x y = sint (y - x)"

lemma seq_diff_next: "(seq_diff x y = 1) = (y = x + 1)"
proof -
  have "(sint (y - x) = 1) = (sint (y - x) = sint (1 :: u16))" by simp
  also have "\<dots> = (y - x = 1)" by (auto intro: signed_word_eqI)
  also have "\<dots> = (y = x + 1)" by (auto simp: algebra_simps)
  finally show ?thesis by (simp add: seq_diff_def)
qed

end
