(* ===== verification/Reassembly.thy ===== *)
theory Reassembly
  imports VideoTypes
begin

text \<open>
  The receiving side the VP8, VP9 and AV1 decoders have in common: reading a
  payload header byte by byte, the state of a frame under assembly, and the
  end of their \<open>*_decode\<close> functions, which appends the payload to the frame
  buffer and hands the buffer to the codec at the marker.  The locale
  \<open>frame_decoder\<close> is what the three decode functions share; it is a
  \<open>depacketizer\<close>.
\<close>

subsection \<open>Header fields\<close>

text \<open>
  A header field that needs a byte the packet does not have ends the decoding
  with EBADMSG; \<open>andthen\<close> is the sequence of two fields.
\<close>

definition need_byte :: "mbuf_ops \<Rightarrow> mbuf \<Rightarrow> (u8 \<Rightarrow> mbuf \<Rightarrow> err \<times> 'h \<times> mbuf) \<Rightarrow> 'h \<Rightarrow> err \<times> 'h \<times> mbuf" where
  "need_byte M mb k h =
     (if m_get_left M mb < 1 then (EBADMSG, h, mb)
      else let (v, mb') = m_read_u8 M mb in k v mb')"

definition andthen ::
  "err \<times> 'h \<times> mbuf \<Rightarrow> ('h \<Rightarrow> mbuf \<Rightarrow> err \<times> 'h \<times> mbuf) \<Rightarrow> err \<times> 'h \<times> mbuf" where
  "andthen r k = (case r of (err, h, mb) \<Rightarrow> if err \<noteq> 0 then (err, h, mb) else k h mb)"

lemma need_byte_Cons:
  assumes "mbuf_laws M" "mb_wf m" "mb_unread m = b # bs"
  obtains m' where "\<forall>k h. need_byte M m k h = k b m'" "mb_wf m'" "mb_unread m' = bs"
  using m_read_u8_Cons[OF assms] unfolding need_byte_def by (metis prod.case)

lemma need_byte_Nil:
  "mbuf_laws M \<Longrightarrow> mb_wf m \<Longrightarrow> mb_unread m = [] \<Longrightarrow> need_byte M m k h = (EBADMSG, h, m)"
  by (simp add: need_byte_def m_get_left_unread)

lemma andthen_ok [simp]: "andthen (0, h, mb) k = k h mb"
  by (simp add: andthen_def)

subsection \<open>A frame under assembly\<close>

definition DECODE_MAXSZ :: nat where "DECODE_MAXSZ = 524288"

record 'c vid_dec =
  d_ctx :: 'c
  d_mb :: mbuf
  d_ctxup :: bool
  d_started :: bool
  d_seq :: u16

text \<open>The exit label \<open>out\<close>: the frame buffer is emptied.\<close>

definition dec_out :: "mbuf_ops \<Rightarrow> 'c vid_dec \<Rightarrow> 'c vid_dec" where
  "dec_out M vds = vds\<lparr>d_mb := m_rewind M (d_mb vds), d_started := False\<rparr>"

text \<open>A packet that starts a frame empties the frame buffer first.\<close>

definition dec_start :: "mbuf_ops \<Rightarrow> 'c vid_dec \<Rightarrow> u16 \<Rightarrow> 'c vid_dec" where
  "dec_start M vds seq = vds\<lparr>d_mb := m_rewind M (d_mb vds), d_started := True, d_seq := seq\<rparr>"

text \<open>
  After the header: append the payload to the frame buffer and, at the marker,
  decode the buffer.  The result is the error code, the decoded picture if
  there is one, and the state.
\<close>

definition dec_append ::
  "mbuf_ops \<Rightarrow> 'c dec_ops \<Rightarrow> 'c vid_dec \<Rightarrow> bool \<Rightarrow> mbuf \<Rightarrow> err \<times> vidframe option \<times> 'c vid_dec" where
  "dec_append M V vds marker mb =
     (let (err, b) = m_write_mem M (d_mb vds) (m_rest M mb);
          vds = vds\<lparr>d_mb := b\<rparr>
      in if err \<noteq> 0 then (err, None, dec_out M vds)
         else if \<not> marker
         then (if mb_end b > DECODE_MAXSZ then (ENOMEM, None, dec_out M vds) else (0, None, vds))
         else
           let (res, ctx) = vd_decode V (d_ctx vds) (take (mb_end b) (mb_buf b));
               vds = vds\<lparr>d_ctx := ctx\<rparr>
           in if res \<noteq> 0 then (EPROTO, None, dec_out M vds)
              else (case vd_get_frame V ctx of
                      None \<Rightarrow> (0, None, dec_out M vds)
                    | Some img \<Rightarrow>
                        if \<not> im_i420 img then (0, None, dec_out M vds)
                        else (0, Some (frame_of_image img), dec_out M vds)))"

text \<open>What a decode function leaves behind: \<open>r_intra\<close> is what is stored through
  \<open>intra\<close>, if anything.\<close>

record 'd dec_result =
  r_err :: err
  r_intra :: "bool option"
  r_frame :: "vidframe option"
  r_vds :: 'd

subsection \<open>The assembly invariant\<close>

text \<open>
  The predicates of the reassembly contract carry the laws of the buffer
  functions they are about.
\<close>

definition dec_idle :: "mbuf_ops \<Rightarrow> 'c vid_dec \<Rightarrow> 'c \<Rightarrow> bool" where
  "dec_idle M d c = (mbuf_laws M \<and> mbuf_no_oom M \<and> mb_wf (d_mb d) \<and> d_ctx d = c)"

definition dec_asm :: "mbuf_ops \<Rightarrow> 'c vid_dec \<Rightarrow> 'c \<Rightarrow> u16 \<Rightarrow> u8 list \<Rightarrow> bool" where
  "dec_asm M d c q b =
     (mbuf_laws M \<and> mbuf_no_oom M \<and> mb_at_end (d_mb d) \<and> mb_data (d_mb d) = b \<and>
      d_ctx d = c \<and> d_started d \<and> d_seq d = q)"

text \<open>The codec got exactly the bytes \<open>b\<close>, and its answer is what the caller sees.\<close>

definition dec_picture :: "'c dec_ops \<Rightarrow> 'c \<Rightarrow> u8 list \<Rightarrow> vidframe option" where
  "dec_picture V c b =
     (let (res, ctx) = vd_decode V c b
      in if res \<noteq> 0 then None
         else case vd_get_frame V ctx of
                None \<Rightarrow> None
              | Some img \<Rightarrow> if im_i420 img then Some (frame_of_image img) else None)"

definition dec_fin :: "'c dec_ops \<Rightarrow> 'c \<Rightarrow> u8 list \<Rightarrow> 'd dec_result \<Rightarrow> 'c vid_dec \<Rightarrow> bool" where
  "dec_fin V c b r d =
     (r_err r = (if fst (vd_decode V c b) \<noteq> 0 then EPROTO else 0) \<and>
      r_frame r = dec_picture V c b \<and> d_ctx d = snd (vd_decode V c b) \<and> \<not> d_started d)"

lemma dec_out_simps [simp]: "d_ctx (dec_out M d) = d_ctx d" "\<not> d_started (dec_out M d)"
  by (simp_all add: dec_out_def)

text \<open>Appending a payload to the frame buffer, and handing the buffer over at the marker.\<close>

lemma dec_append_more:
  assumes "dec_asm M d c q b" "mb_wf mb" "length (b @ mb_unread mb) \<le> DECODE_MAXSZ"
  obtains d' where "dec_append M V d False mb = (0, None, d')" "dec_asm M d' c q (b @ mb_unread mb)"
proof -
  have laws: "mbuf_laws M" "mbuf_no_oom M" "mb_at_end (d_mb d)" and data: "mb_data (d_mb d) = b"
    using assms(1) by (simp_all add: dec_asm_def)
  obtain m' where w: "m_write_mem M (d_mb d) (mb_unread mb) = (0, m')" "mb_at_end m'"
      "mb_data m' = b @ mb_unread mb"
    using m_write_mem_append[OF laws] data by metis
  have "mb_end m' = length (b @ mb_unread mb)"
    using w(2,3) mb_data_length[of m'] by (simp add: mb_at_end_def)
  then have "dec_append M V d False mb = (0, None, d\<lparr>d_mb := m'\<rparr>)"
    using w assms(2,3) laws(1) by (simp add: dec_append_def m_rest_unread)
  moreover have "dec_asm M (d\<lparr>d_mb := m'\<rparr>) c q (b @ mb_unread mb)"
    using assms(1) w by (simp add: dec_asm_def)
  ultimately show ?thesis by (rule that)
qed

lemma dec_append_last:
  assumes "dec_asm M d c q b" "mb_wf mb" "dec_append M V d True mb = (r_err r, r_frame r, d')"
  shows "dec_fin V c (b @ mb_unread mb) r d'"
proof -
  have laws: "mbuf_laws M" "mbuf_no_oom M" "mb_at_end (d_mb d)" and
    data: "mb_data (d_mb d) = b" "d_ctx d = c"
    using assms(1) by (simp_all add: dec_asm_def)
  obtain m' where w: "m_write_mem M (d_mb d) (mb_unread mb) = (0, m')" "mb_at_end m'"
      "mb_data m' = b @ mb_unread mb"
    using m_write_mem_append[OF laws] data by metis
  show ?thesis
    using assms(2,3) w laws(1) data(2)
    by (auto simp: dec_append_def m_rest_unread dec_fin_def dec_picture_def mb_data_def split_def
        Let_def split: if_splits option.splits)
qed

lemma dec_start_asm: "dec_idle M d c \<Longrightarrow> dec_asm M (dec_start M d q) c q []"
  by (simp add: dec_idle_def dec_asm_def dec_start_def m_rewind_empty)

lemma dec_next_asm: "dec_asm M d c q b \<Longrightarrow> dec_asm M (d\<lparr>d_seq := q'\<rparr>) c q' b"
  by (simp add: dec_asm_def)

text \<open>A codec whose context is the last buffer it was given; the witnesses decode with it.\<close>

definition echo_dec :: "u8 list dec_ops" where
  "echo_dec = \<lparr>vd_init = (0, []), vd_decode = (\<lambda>_ b. (0, b)), vd_get_frame = (\<lambda>_. None),
     vd_peek = (\<lambda>_. (0, False))\<rparr>"

definition fresh_dec :: "u8 list vid_dec" where
  "fresh_dec = \<lparr>d_ctx = [], d_mb = mbuf_of [], d_ctxup = True, d_started = False, d_seq = 0\<rparr>"

subsection \<open>The interface\<close>

text \<open>
  \<open>appends\<close>: the payload \<open>b\<close> went to \<open>dec_append\<close> in state \<open>s\<close>, with the
  result and the state the decode function ends with.
\<close>

definition appends ::
  "mbuf_ops \<Rightarrow> 'c dec_ops \<Rightarrow> 'c vid_dec \<Rightarrow> u8 list \<Rightarrow> bool \<Rightarrow> 'd dec_result \<Rightarrow> 'c vid_dec \<Rightarrow> bool" where
  "appends M V s b marker r s' =
     (\<exists>mb. mb_wf mb \<and> mb_unread mb = b \<and> dec_append M V s marker mb = (r_err r, r_frame r, s'))"

lemma appends_more:
  assumes "dec_asm M s c q b" "appends M V s b' False r s'" "length (b @ b') \<le> DECODE_MAXSZ"
  shows "dec_asm M s' c q (b @ b')"
  using assms unfolding appends_def by (metis dec_append_more prod.inject)

lemma appends_last:
  assumes "dec_asm M s c q b" "appends M V s b' True r s'"
  shows "dec_fin V c (b @ b') r s'"
  using assms unfolding appends_def by (metis dec_append_last)

text \<open>
  \<open>rx\<close> decodes one packet of a codec whose header is \<open>hdr start end\<close>;
  \<open>core\<close> is the part of its state that holds the frame under assembly.
\<close>

locale frame_decoder =
  fixes M :: mbuf_ops
    and V :: "'c dec_ops"
    and core :: "'d \<Rightarrow> 'c vid_dec"
    and rx :: "'d \<Rightarrow> bool \<Rightarrow> u16 \<Rightarrow> u8 list \<Rightarrow> 'd dec_result \<times> 'd"
    and hdr :: "bool \<Rightarrow> bool \<Rightarrow> u8 list"
  assumes rx_start: "mbuf_laws M \<Longrightarrow> rx d mk q (hdr True e @ b) = (r, d') \<Longrightarrow>
      appends M V (dec_start M (core d) q) b mk r (core d')"
    and rx_next: "mbuf_laws M \<Longrightarrow> d_started (core d) \<Longrightarrow> d_seq (core d) = q \<Longrightarrow>
      rx d mk (q + 1) (hdr False e @ b) = (r, d') \<Longrightarrow>
      appends M V ((core d)\<lparr>d_seq := q + 1\<rparr>) b mk r (core d')"
    and rx_gap: "mbuf_laws M \<Longrightarrow> d_started (core d) \<Longrightarrow> q \<noteq> d_seq (core d) + 1 \<Longrightarrow>
      rx d mk q (hdr False e @ b) = (r, d') \<Longrightarrow>
      r_err r = 0 \<and> r_frame r = None \<and> core d' = dec_out M (core d)"
    and rx_idle: "mbuf_laws M \<Longrightarrow> \<not> d_started (core d) \<Longrightarrow>
      rx d mk q (hdr False e @ b) = (r, d') \<Longrightarrow>
      r_err r = 0 \<and> r_frame r = None \<and> core d' = core d"
begin

text \<open>After a gap in the sequence numbers the codec sees nothing of the frame that was cut.\<close>

lemma rx_after_gap:
  assumes "mbuf_laws M" "d_started (core d)" "q \<noteq> d_seq (core d) + 1"
    and "rx d mk q (hdr False e @ b) = (r, d')"
    and "rx d' mk' q' (hdr False e' @ b') = (r', d'')"
  shows "r_err r' = 0" "r_frame r' = None" "d_ctx (core d'') = d_ctx (core d)"
proof -
  have g: "core d' = dec_out M (core d)" using rx_gap[OF assms(1-4)] by simp
  then have "\<not> d_started (core d')" by simp
  from rx_idle[OF assms(1) this assms(5)] g
  show "r_err r' = 0" "r_frame r' = None" "d_ctx (core d'') = d_ctx (core d)" by simp_all
qed

end

sublocale frame_decoder < depacketizer rx hdr DECODE_MAXSZ
  "\<lambda>d. dec_idle M (core d)" "\<lambda>d. dec_asm M (core d)" "\<lambda>c b r d. dec_fin V c b r (core d)"
proof
  show "dec_asm M (core d') c q b"
    if "dec_idle M (core d) c" "length b \<le> DECODE_MAXSZ" "rx d False q (hdr True e @ b) = (r, d')"
    for d c b q e r d'
    using appends_more[OF dec_start_asm[OF that(1)] rx_start[OF _ that(3)]] that(1,2)
    by (simp add: dec_idle_def)
  show "dec_fin V c b r (core d')"
    if "dec_idle M (core d) c" "rx d True q (hdr True e @ b) = (r, d')" for d c b q e r d'
    using appends_last[OF dec_start_asm[OF that(1)] rx_start[OF _ that(2)]] that(1)
    by (simp add: dec_idle_def)
  show "dec_asm M (core d') c (q + 1) (b @ b')"
    if "dec_asm M (core d) c q b" "length (b @ b') \<le> DECODE_MAXSZ"
      "rx d False (q + 1) (hdr False e @ b') = (r, d')" for d c b q b' e r d'
    using appends_more[OF dec_next_asm[OF that(1)] rx_next[OF _ _ _ that(3)]] that(1,2)
    by (simp add: dec_asm_def)
  show "dec_fin V c (b @ b') r (core d')"
    if "dec_asm M (core d) c q b" "rx d True (q + 1) (hdr False e @ b') = (r, d')"
    for d c b q b' e r d'
    using appends_last[OF dec_next_asm[OF that(1)] rx_next[OF _ _ _ that(2)]] that(1)
    by (simp add: dec_asm_def)
qed

end
