(* ===== verification/Vp8.thy ===== *)
theory Vp8
  imports Reassembly
begin

text \<open>
  modules/vp8: the payload header (RFC 7741), the packetizer and the encoder
  front end of encode.c, the depacketizer of decode.c.  libvpx is the
  parameters \<open>enc_ops\<close> and \<open>dec_ops\<close>.  A one-bit field of a header is a
  bool, read with \<open>bit v i\<close> for \<open>v>>i & 0x1\<close>.
\<close>

subsection \<open>Encoder\<close>

definition HDR_SIZE :: nat where "HDR_SIZE = 4"

record ('c, 's) vp8_enc =
  e_ctx :: 'c
  e_size :: vidsz
  e_fps :: u32
  e_bitrate :: u32
  e_pktsize :: u32
  e_ctxup :: bool
  e_picid :: u16
  e_pkth :: "'s pkth"

definition vp8_hdr_encode :: "bool \<Rightarrow> bool \<Rightarrow> u8 \<Rightarrow> u16 \<Rightarrow> u8 list" where
  "vp8_hdr_encode noref start partid picid =
     [push_bit 7 1 OR push_bit 5 (of_bool noref) OR push_bit 4 (of_bool start) OR (partid AND 0x7),
      push_bit 7 1,
      ucast (push_bit 7 1 OR (drop_bit 8 picid AND 0x7f)),
      ucast (picid AND 0xff)]"

text \<open>The loop of \<open>packetize\<close>: the rest of the buffer, the start flag, the error code.\<close>

partial_function (option) vp8_pkt_loop ::
  "'s pkth \<Rightarrow> nat \<Rightarrow> bool \<Rightarrow> u8 \<Rightarrow> u16 \<Rightarrow> u64 \<Rightarrow> u8 list \<Rightarrow> bool \<Rightarrow> err \<Rightarrow> 's
     \<Rightarrow> (u8 list \<times> bool \<times> err \<times> 's) option" where
  "vp8_pkt_loop pkth maxlen noref partid picid rtp_ts buf start err s =
     (if length buf > maxlen
      then let (e, s') = pkth False rtp_ts (vp8_hdr_encode noref start partid picid)
                           (take maxlen buf) s
           in vp8_pkt_loop pkth maxlen noref partid picid rtp_ts (drop maxlen buf) False
                (err OR e) s'
      else Some (buf, start, err, s))"

definition vp8_packetize ::
  "bool \<Rightarrow> u8 list \<Rightarrow> nat \<Rightarrow> bool \<Rightarrow> u8 \<Rightarrow> u16 \<Rightarrow> u64 \<Rightarrow> 's pkth \<Rightarrow> 's \<Rightarrow> (err \<times> 's) option" where
  "vp8_packetize marker buf maxlen noref partid picid rtp_ts pkth s =
     (case vp8_pkt_loop pkth (size_sub maxlen HDR_SIZE) noref partid picid rtp_ts buf True 0 s of
        None \<Rightarrow> None
      | Some (buf', start, err, s') \<Rightarrow>
          (let (e, s'') = pkth marker rtp_ts (vp8_hdr_encode noref start partid picid) buf' s'
           in Some (err OR e, s'')))"

text \<open>
  \<open>vp8_encode_update\<close>.  The state pointer is \<open>None\<close> before the first call;
  \<open>nonnull\<close> says that \<open>vesp\<close>, \<open>vc\<close> and \<open>prm\<close> are not NULL.  \<open>alloc\<close> is the
  zeroed state \<open>mem_zalloc\<close> returns (\<open>None\<close> without memory), \<open>rnd\<close> the
  value of \<open>rand_u16\<close>, \<open>max_fs\<close> that of \<open>vp8_max_fs(fmtp)\<close>.
\<close>

definition vp8_encode_update ::
  "'c enc_ops \<Rightarrow> bool \<Rightarrow> ('c, 's) vp8_enc option \<Rightarrow> u16 \<Rightarrow> u32 \<Rightarrow> ('c, 's) vp8_enc option \<Rightarrow> videnc_param
     \<Rightarrow> 's pkth \<Rightarrow> err \<times> ('c, 's) vp8_enc option \<times> videnc_param" where
  "vp8_encode_update V nonnull alloc rnd max_fs vesp prm pkth =
     (if \<not> nonnull \<or> unat (vp_pktsize prm) < HDR_SIZE + 1 then (EINVAL, vesp, prm)
      else
        case (case vesp of
                None \<Rightarrow> (case alloc of None \<Rightarrow> None | Some z \<Rightarrow> Some (z\<lparr>e_picid := rnd\<rparr>))
              | Some ves \<Rightarrow>
                  Some (if e_ctxup ves \<and> (e_bitrate ves \<noteq> vp_bitrate prm \<or>
                              of_nat (unat (e_fps ves)) \<noteq> vp_fps prm)
                        then ves\<lparr>e_ctx := ve_destroy V (e_ctx ves), e_ctxup := False\<rparr>
                        else ves))
        of None \<Rightarrow> (ENOMEM, vesp, prm)
         | Some ves \<Rightarrow>
             (0,
              Some (ves\<lparr>e_bitrate := vp_bitrate prm, e_pktsize := vp_pktsize prm,
                        e_fps := unsigned_of (vp_fps prm), e_pkth := pkth\<rparr>),
              if max_fs > 0 then prm\<lparr>vp_max_fs := max_fs * 256\<rparr> else prm))"

definition vp8_open_encoder ::
  "'c enc_ops \<Rightarrow> ('c, 's) vp8_enc \<Rightarrow> vidsz \<Rightarrow> err \<times> ('c, 's) vp8_enc" where
  "vp8_open_encoder V ves sz =
     (if ve_config_default V \<noteq> 0 then (EPROTO, ves)
      else
        let cfg = \<lparr>cfg_profile = 2, cfg_w = sz_w sz, cfg_h = sz_h sz,
                   cfg_tb_num = 1, cfg_tb_den = e_fps ves, cfg_bitrate = e_bitrate ves\<rparr>;
            ves = (if e_ctxup ves
                   then ves\<lparr>e_ctx := ve_destroy V (e_ctx ves), e_ctxup := False\<rparr> else ves);
            (res, ctx) = ve_init V cfg
        in if res \<noteq> 0 then (EPROTO, ves\<lparr>e_ctx := ctx\<rparr>)
           else
             let (_, ctx) = ve_control V ctx 0 16;  \<comment> \<open>VP8E_SET_CPUUSED, a failure is only logged\<close>
                 (_, ctx) = ve_control V ctx 1 0    \<comment> \<open>VP8E_SET_NOISE_SENSITIVITY\<close>
             in (0, ves\<lparr>e_ctx := ctx, e_ctxup := True\<rparr>))"

text \<open>
  The loop over \<open>vpx_codec_get_cx_data\<close>.  The fragment and partition branches
  are compiled in with a libvpx that defines \<open>VPX_FRAME_IS_FRAGMENT\<close>.
\<close>

fun vp8_send_frames :: "('c, 's) vp8_enc \<Rightarrow> cx_pkt list \<Rightarrow> 's \<Rightarrow> (err \<times> 's) option" where
  "vp8_send_frames ves [] s = Some (0, s)"
| "vp8_send_frames ves (pkt # pkts) s =
     (if \<not> cx_frame pkt then vp8_send_frames ves pkts s
      else
        let keyframe = cx_key pkt;
            marker = \<not> cx_fragment pkt;
            partid = (if cx_partid pkt \<ge> 0 then word_of_int (cx_partid pkt) else 0);
            ts = video_calc_rtp_timestamp_fix (cx_pts pkt)
        in case vp8_packetize marker (cx_buf pkt) (unat (e_pktsize ves)) (\<not> keyframe) partid
                  (e_picid ves) ts (e_pkth ves) s of
             None \<Rightarrow> None
           | Some (err, s') \<Rightarrow>
               if err \<noteq> 0 then Some (err, s') else vp8_send_frames ves pkts s')"

definition vp8_encode ::
  "'c enc_ops \<Rightarrow> ('c, 's) vp8_enc option \<Rightarrow> bool \<Rightarrow> vidframe option \<Rightarrow> u64 \<Rightarrow> 's
     \<Rightarrow> (err \<times> ('c, 's) vp8_enc option \<times> 's) option" where
  "vp8_encode V vesp update framep timestamp s =
     (case (vesp, framep) of
        (Some ves, Some frame) \<Rightarrow>
          if vf_fmt frame \<noteq> VID_FMT_YUV420P then Some (EINVAL, vesp, s)
          else
            let (err, ves) =
                  (if \<not> e_ctxup ves \<or> e_size ves \<noteq> vf_size frame
                   then let (err, ves) = vp8_open_encoder V ves (vf_size frame)
                        in (err, if err \<noteq> 0 then ves else ves\<lparr>e_size := vf_size frame\<rparr>)
                   else (0, ves))
            in if err \<noteq> 0 then Some (err, Some ves, s)
               else
                 let (res, ctx) = ve_encode V (e_ctx ves) frame timestamp update;
                     ves = ves\<lparr>e_ctx := ctx\<rparr>
                 in if res \<noteq> 0 then Some (ENOMEM, Some ves, s)
                    else
                      let ves = ves\<lparr>e_picid := e_picid ves + 1\<rparr>
                      in (case vp8_send_frames ves (ve_cx_data V ctx) s of
                            None \<Rightarrow> None
                          | Some (err, s') \<Rightarrow> Some (err, Some ves, s'))
      | _ \<Rightarrow> Some (EINVAL, vesp, s))"

subsection \<open>Decoder\<close>

record vp8_hdr =
  h_x :: bool
  h_noref :: bool
  h_start :: bool
  h_partid :: u8
  h_i :: bool
  h_l :: bool
  h_t :: bool
  h_k :: bool
  h_picid :: u16
  h_tl0picidx :: u8
  h_tid :: u8
  h_y :: bool
  h_keyidx :: u8

definition vp8_hdr0 :: vp8_hdr where
  "vp8_hdr0 = \<lparr>h_x = False, h_noref = False, h_start = False, h_partid = 0, h_i = False,
     h_l = False, h_t = False, h_k = False, h_picid = 0, h_tl0picidx = 0, h_tid = 0,
     h_y = False, h_keyidx = 0\<rparr>"

text \<open>\<open>hdr_decode\<close>, one step per optional field.\<close>

definition hdr_ext :: "mbuf_ops \<Rightarrow> vp8_hdr \<Rightarrow> mbuf \<Rightarrow> err \<times> vp8_hdr \<times> mbuf" where
  "hdr_ext M h mb =
     (if h_x h
      then need_byte M mb (\<lambda>v mb. (0, h\<lparr>h_i := bit v 7, h_l := bit v 6, h_t := bit v 5,
                                        h_k := bit v 4\<rparr>, mb)) h
      else (0, h, mb))"

definition hdr_pic :: "mbuf_ops \<Rightarrow> vp8_hdr \<Rightarrow> mbuf \<Rightarrow> err \<times> vp8_hdr \<times> mbuf" where
  "hdr_pic M h mb =
     (if h_i h
      then need_byte M mb
             (\<lambda>v mb. if bit v 7
                then need_byte M mb
                       (\<lambda>w mb. (0, h\<lparr>h_picid := push_bit 8 (ucast (v AND 0x7f)) + ucast w\<rparr>, mb)) h
                else (0, h\<lparr>h_picid := ucast (v AND 0x7f)\<rparr>, mb)) h
      else (0, h, mb))"

definition hdr_tl0 :: "mbuf_ops \<Rightarrow> vp8_hdr \<Rightarrow> mbuf \<Rightarrow> err \<times> vp8_hdr \<times> mbuf" where
  "hdr_tl0 M h mb =
     (if h_l h then need_byte M mb (\<lambda>v mb. (0, h\<lparr>h_tl0picidx := v\<rparr>, mb)) h else (0, h, mb))"

definition hdr_tk :: "mbuf_ops \<Rightarrow> vp8_hdr \<Rightarrow> mbuf \<Rightarrow> err \<times> vp8_hdr \<times> mbuf" where
  "hdr_tk M h mb =
     (if h_t h \<or> h_k h
      then need_byte M mb (\<lambda>v mb. (0, h\<lparr>h_tid := drop_bit 6 v AND 0x3, h_y := bit v 5,
                                        h_keyidx := v AND 0x1f\<rparr>, mb)) h
      else (0, h, mb))"

definition vp8_hdr_decode :: "mbuf_ops \<Rightarrow> mbuf \<Rightarrow> err \<times> vp8_hdr \<times> mbuf" where
  "vp8_hdr_decode M mb =
     andthen (andthen (andthen (andthen
       (need_byte M mb
          (\<lambda>v mb. (0, vp8_hdr0\<lparr>h_x := bit v 7, h_noref := bit v 5, h_start := bit v 4,
                                h_partid := v AND 0x07\<rparr>, mb)) vp8_hdr0)
       (hdr_ext M)) (hdr_pic M)) (hdr_tl0 M)) (hdr_tk M)"

text \<open>
  \<open>vp8_decode_update\<close>: \<open>alloc\<close> and \<open>mballoc\<close> are the results of
  \<open>mem_zalloc\<close> and \<open>mbuf_alloc(1024)\<close>.  On an error the new state is
  dereferenced and the caller's pointer is left alone.
\<close>

definition vp8_decode_update ::
  "'c dec_ops \<Rightarrow> bool \<Rightarrow> 'c vid_dec option \<Rightarrow> mbuf option \<Rightarrow> 'c vid_dec option \<Rightarrow> err \<times> 'c vid_dec option" where
  "vp8_decode_update V nonnull alloc mballoc vdsp =
     (if \<not> nonnull then (EINVAL, vdsp) else case vdsp of Some vds \<Rightarrow> (0, Some vds)
      | None \<Rightarrow>
         (case alloc of None \<Rightarrow> (ENOMEM, None)
          | Some vds \<Rightarrow>
             (case mballoc of None \<Rightarrow> (ENOMEM, None)
              | Some mb \<Rightarrow>
                 (let (res, ctx) = vd_init V
                  in if res \<noteq> 0 then (ENOMEM, None)
                     else (0, Some (vds\<lparr>d_mb := mb, d_ctx := ctx, d_ctxup := True\<rparr>))))))"

definition vp8_is_keyframe :: "mbuf_ops \<Rightarrow> mbuf \<Rightarrow> bool" where
  "vp8_is_keyframe M mb =
     (if m_get_left M mb < 1 then False else \<not> bit (mb_buf mb ! mb_pos mb) 0)"

text \<open>
  \<open>vp8_decode\<close>; \<open>nonnull\<close> says that none of the pointers it checks is NULL,
  and \<open>r_intra\<close> is what is stored through \<open>intra\<close>, if anything.  A frame starts at a packet with the start bit and partition 0; a packet that
  does not continue the frame under assembly discards it.
\<close>

definition vp8_decode ::
  "mbuf_ops \<Rightarrow> 'c dec_ops \<Rightarrow> bool \<Rightarrow> 'c vid_dec \<Rightarrow> bool \<Rightarrow> u16 \<Rightarrow> mbuf \<Rightarrow> 'c vid_dec dec_result" where
  "vp8_decode M V nonnull vds marker seq mb =
     (if \<not> nonnull then \<lparr>r_err = EINVAL, r_intra = None, r_frame = None, r_vds = vds\<rparr>
      else let (err, hdr, mb) = vp8_hdr_decode M mb
      in if err \<noteq> 0 then \<lparr>r_err = err, r_intra = Some False, r_frame = None, r_vds = vds\<rparr>
         else if h_start hdr \<and> h_partid hdr = 0
         then
           let (err, fr, vds) = dec_append M V (dec_start M vds seq) marker mb
           in \<lparr>r_err = err, r_intra = Some (vp8_is_keyframe M mb), r_frame = fr, r_vds = vds\<rparr>
         else if \<not> d_started vds
         then \<lparr>r_err = 0, r_intra = Some False, r_frame = None, r_vds = vds\<rparr>
         else if seq_diff (d_seq vds) seq \<noteq> 1
         then \<lparr>r_err = 0, r_intra = Some False, r_frame = None, r_vds = dec_out M vds\<rparr>
         else
           let (err, fr, vds) = dec_append M V (vds\<lparr>d_seq := seq\<rparr>) marker mb
           in \<lparr>r_err = err, r_intra = Some False, r_frame = fr, r_vds = vds\<rparr>)"

subsection \<open>The packetizer sends the fragments of the frame\<close>

lemma vp8_pkt_loop_sends:
  assumes "0 < sz"
  shows "(case vp8_pkt_loop pkth sz noref partid picid ts buf start err s of
        None \<Rightarrow> None
      | Some (buf', start', err', s') \<Rightarrow>
          (let (e, s'') = pkth marker ts (vp8_hdr_encode noref start' partid picid) buf' s'
           in Some (err' OR e, s''))) =
     Some (send_pkts pkth (frag_pkts (\<lambda>st en. vp8_hdr_encode noref st partid picid) marker ts sz
             start buf) err s)"
proof (induction "length buf" arbitrary: buf start err s rule: less_induct)
  case less
  show ?case
  proof (cases "sz < length buf")
    case False
    then show ?thesis by (simp add: vp8_pkt_loop.simps frag_pkts_last split_def Let_def)
  next
    case True
    with assms have "length (drop sz buf) < length buf" by simp
    from less[OF this] show ?thesis
      using True assms
      by (subst vp8_pkt_loop.simps) (simp add: frag_pkts_more split_def Let_def)
  qed
qed

lemma vp8_hdr_encode_length [simp]: "length (vp8_hdr_encode noref start partid picid) = HDR_SIZE"
  by (simp add: vp8_hdr_encode_def HDR_SIZE_def)

interpretation vp8_send: fragmenter
  "\<lambda>pkth m ts buf maxlen s. vp8_packetize m buf maxlen noref partid picid ts pkth s"
  "\<lambda>st en. vp8_hdr_encode noref st partid picid" HDR_SIZE
  for noref partid picid
proof
  show "length (vp8_hdr_encode noref a partid picid) = HDR_SIZE" for a :: bool by simp
  show "vp8_packetize m buf maxlen noref partid picid ts pkth s =
      Some (send_pkts pkth (frag_pkts (\<lambda>st en. vp8_hdr_encode noref st partid picid) m ts
             (maxlen - HDR_SIZE) True buf) 0 s)"
    if "HDR_SIZE < maxlen" "maxlen < 2 ^ 64"
    for maxlen and pkth :: "'a pkth" and m ts buf s
    unfolding vp8_packetize_def using that vp8_pkt_loop_sends[of "maxlen - HDR_SIZE"]
    by (simp add: size_sub_le)
qed

subsection \<open>Header round trip\<close>

lemma vp8_byte0_bits:
  fixes partid :: u8 and noref start :: bool
  shows "bit (push_bit 7 1 OR push_bit 5 (of_bool noref) OR push_bit 4 (of_bool start) OR (partid AND 0x7)) 7"
    "bit (push_bit 7 1 OR push_bit 5 (of_bool noref) OR push_bit 4 (of_bool start) OR (partid AND 0x7)) 5 = noref"
    "bit (push_bit 7 1 OR push_bit 5 (of_bool noref) OR push_bit 4 (of_bool start) OR (partid AND 0x7)) 4 = start"
    "(push_bit 7 1 OR push_bit 5 (of_bool noref) OR push_bit 4 (of_bool start) OR (partid AND 0x7)) AND 0x07
       = partid AND 0x07"
  by (cases noref; cases start; simp add: bit_simps u8_eq_iff)+

definition vp8_hdr_of :: "bool \<Rightarrow> bool \<Rightarrow> u8 \<Rightarrow> u16 \<Rightarrow> vp8_hdr" where
  "vp8_hdr_of noref start partid picid =
     vp8_hdr0\<lparr>h_x := True, h_noref := noref, h_start := start, h_partid := partid AND 0x07,
              h_i := True, h_picid := picid AND 0x7fff\<rparr>"

lemma vp8_hdr_decode_bytes:
  assumes "mbuf_laws M" "mb_wf mb"
    "mb_unread mb = vp8_hdr_encode noref start partid picid @ pld"
  obtains mb' where "vp8_hdr_decode M mb = (0, vp8_hdr_of noref start partid picid, mb')"
    "mb_wf mb'" "mb_unread mb' = pld"
proof -
  define b0 where "b0 = (push_bit 7 1 OR push_bit 5 (of_bool noref) OR push_bit 4 (of_bool start) OR (partid AND 0x7) :: u8)"
  define b2 where "b2 = (ucast (push_bit 7 1 OR (drop_bit 8 picid AND 0x7f)) :: u8)"
  define b3 where "b3 = (ucast (picid AND 0xff) :: u8)"
  have u0: "mb_unread mb = b0 # push_bit 7 1 # b2 # b3 # pld"
    using assms(3) by (simp add: vp8_hdr_encode_def b0_def b2_def b3_def)
  obtain m1 where m1: "\<forall>k (h :: vp8_hdr). need_byte M mb k h = k b0 m1" and w1: "mb_wf m1" and
    u1: "mb_unread m1 = push_bit 7 1 # b2 # b3 # pld"
    by (rule need_byte_Cons[OF assms(1,2) u0, where ?'a = vp8_hdr]) blast
  obtain m2 where m2: "\<forall>k (h :: vp8_hdr). need_byte M m1 k h = k (push_bit 7 1) m2" and w2: "mb_wf m2" and
    u2: "mb_unread m2 = b2 # b3 # pld"
    by (rule need_byte_Cons[OF assms(1) w1 u1, where ?'a = vp8_hdr]) blast
  obtain m3 where m3: "\<forall>k (h :: vp8_hdr). need_byte M m2 k h = k b2 m3" and w3: "mb_wf m3" and
    u3: "mb_unread m3 = b3 # pld"
    by (rule need_byte_Cons[OF assms(1) w2 u2, where ?'a = vp8_hdr]) blast
  obtain m4 where m4: "\<forall>k (h :: vp8_hdr). need_byte M m3 k h = k b3 m4" and w4: "mb_wf m4" and
    u4: "mb_unread m4 = pld"
    by (rule need_byte_Cons[OF assms(1) w3 u3, where ?'a = vp8_hdr]) blast
  have v0: "bit b0 7" "bit b0 5 = noref" "bit b0 4 = start" "b0 AND 0x07 = partid AND 0x07"
    unfolding b0_def by (rule vp8_byte0_bits)+
  have v1: "bit (push_bit 7 1 :: u8) 7" "\<not> bit (push_bit 7 1 :: u8) 6"
    "\<not> bit (push_bit 7 1 :: u8) 5" "\<not> bit (push_bit 7 1 :: u8) 4" by (simp_all add: bit_simps)
  have v2: "bit b2 7" unfolding b2_def by (rule picid_long_form)
  have v3: "push_bit 8 (ucast (b2 AND 0x7f)) + ucast b3 = picid AND 0x7fff"
    unfolding b2_def b3_def by (rule picid_join)
  have "vp8_hdr_decode M mb = (0, vp8_hdr_of noref start partid picid, m4)"
    by (simp add: vp8_hdr_decode_def m1 m2 m3 m4 hdr_ext_def hdr_pic_def hdr_tl0_def hdr_tk_def
        vp8_hdr_of_def vp8_hdr0_def v0 v1 v2 v3)
  then show ?thesis using that w4 u4 by blast
qed

subsection \<open>Reassembly\<close>

text \<open>One received packet.\<close>

definition vp8_rx ::
  "mbuf_ops \<Rightarrow> 'c dec_ops \<Rightarrow> 'c vid_dec \<Rightarrow> bool \<Rightarrow> u16 \<Rightarrow> u8 list
     \<Rightarrow> 'c vid_dec dec_result \<times> 'c vid_dec" where
  "vp8_rx M V vds marker seq bytes =
     (let r = vp8_decode M V True vds marker seq (mbuf_of bytes) in (r, r_vds r))"

lemma vp8_rx_hdr:
  assumes "mbuf_laws M"
  obtains mb where "mb_wf mb" "mb_unread mb = b"
    "vp8_hdr_decode M (mbuf_of (vp8_hdr_encode noref st partid picid @ b)) =
       (0, vp8_hdr_of noref st partid picid, mb)"
  by (rule vp8_hdr_decode_bytes[OF assms mbuf_of_simps(1) mbuf_of_simps(2)]) (rule that)

interpretation vp8_recv: frame_decoder M V "\<lambda>d. d" "vp8_rx M V"
  "\<lambda>st en. vp8_hdr_encode noref st 0 picid"
  for M :: mbuf_ops and V :: "'c dec_ops" and noref picid
proof
  fix d d' :: "'c vid_dec" and mk q b r
  assume laws: "mbuf_laws M"
  show "appends M V (dec_start M d q) b mk r d'"
    if "vp8_rx M V d mk q (vp8_hdr_encode noref True 0 picid @ b) = (r, d')"
    by (rule vp8_rx_hdr[OF laws, of b noref True 0 picid])
       (use that in \<open>auto simp: vp8_rx_def vp8_decode_def appends_def vp8_hdr_of_def Let_def
          split: prod.splits\<close>)
  show "appends M V (d\<lparr>d_seq := q + 1\<rparr>) b mk r d'"
    if "d_started d" "d_seq d = q" "vp8_rx M V d mk (q + 1) (vp8_hdr_encode noref False 0 picid @ b) = (r, d')"
    by (rule vp8_rx_hdr[OF laws, of b noref False 0 picid])
       (use that in \<open>auto simp: vp8_rx_def vp8_decode_def appends_def vp8_hdr_of_def Let_def
          seq_diff_next split: prod.splits\<close>)
  show "r_err r = 0 \<and> r_frame r = None \<and> d' = dec_out M d"
    if "d_started d" "q \<noteq> d_seq d + 1" "vp8_rx M V d mk q (vp8_hdr_encode noref False 0 picid @ b) = (r, d')"
    by (rule vp8_rx_hdr[OF laws, of b noref False 0 picid])
       (use that in \<open>auto simp: vp8_rx_def vp8_decode_def vp8_hdr_of_def seq_diff_next Let_def\<close>)
  show "r_err r = 0 \<and> r_frame r = None \<and> d' = d"
    if "\<not> d_started d" "vp8_rx M V d mk q (vp8_hdr_encode noref False 0 picid @ b) = (r, d')"
    by (rule vp8_rx_hdr[OF laws, of b noref False 0 picid])
       (use that in \<open>auto simp: vp8_rx_def vp8_decode_def vp8_hdr_of_def Let_def\<close>)
qed

subsection \<open>Properties\<close>

text \<open>
  For every packet handler, \<open>vp8_packetize\<close> returns and sends a sequence
  of packets whose payloads concatenate to the frame, each with its 4-byte
  header within the packet size, the start flag in the first header only and
  the marker on the last packet only.
\<close>

theorem vp8_packetize_fragments:
  assumes "HDR_SIZE < maxlen" "maxlen < 2 ^ 64"
  shows "\<exists>ps. vp8_packetize marker frame maxlen noref partid picid ts pkth s =
                 Some (send_pkts pkth ps 0 s) \<and>
              frags_of marker ts maxlen frame ps \<and>
              map p_hdr ps =
                map (\<lambda>i. vp8_hdr_encode noref (i = 0) partid picid) [0..<length ps]"
  using assms by (rule vp8_send.pk_fragments)

theorem vp8_packetize_fragments_witness:
  "\<exists>ps. vp8_packetize True [1, 2, 3, 4, 5] 6 False 0 7 90 rec_pkth [] =
           Some (send_pkts rec_pkth ps 0 []) \<and>
        frags_of True 90 6 [1, 2, 3, 4, 5] ps \<and>
        map p_hdr ps = map (\<lambda>i. vp8_hdr_encode False (i = 0) 0 7) [0..<length ps]"
  by (rule vp8_packetize_fragments) (simp_all add: HDR_SIZE_def)

text \<open>
  C5: End to end.  A frame that fits the frame buffer, packetized by
  \<open>vp8_packetize\<close> and received in order by \<open>vp8_decode\<close> in any state, reaches
  the codec byte for byte; the result of the last packet is the codec's answer.
\<close>

theorem vp8_roundtrip:
  assumes "mbuf_laws M" "mbuf_no_oom M" "mb_wf (d_mb d)"
    and "HDR_SIZE < maxlen" "maxlen < 2 ^ 64" "length frame \<le> DECODE_MAXSZ"
  shows "\<exists>pkts rs d'. vp8_packetize True frame maxlen noref 0 picid ts rec_pkth [] = Some (0, pkts) \<and>
     feed (vp8_rx M V) d q pkts = (rs, d') \<and> rs \<noteq> [] \<and> dec_fin V (d_ctx d) frame (last rs) d'"
proof -
  let ?ps = "frag_pkts (\<lambda>st en. vp8_hdr_encode noref st 0 picid) True ts (maxlen - HDR_SIZE) True frame"
  have sent: "vp8_packetize True frame maxlen noref 0 picid ts rec_pkth [] = Some (0, ?ps)"
    by (simp add: vp8_send.pk_sends[OF assms(4,5)])
  obtain rs d' where fed: "feed (vp8_rx M V) d q ?ps = (rs, d')" by fastforce
  have "dec_idle M d (d_ctx d)" using assms(1-3) by (simp add: dec_idle_def)
  from vp8_recv.feed_frame[OF this assms(6) fed] show ?thesis using sent fed by blast
qed

theorem vp8_roundtrip_witness:
  "\<exists>pkts rs d'. vp8_packetize True [1, 2, 3, 4, 5] 6 False 0 7 90 rec_pkth [] = Some (0, pkts) \<and>
     feed (vp8_rx ref_mbuf echo_dec) fresh_dec 65535 pkts = (rs, d') \<and> rs \<noteq> [] \<and>
     dec_fin echo_dec (d_ctx fresh_dec) [1, 2, 3, 4, 5] (last rs) d'"
  by (rule vp8_roundtrip)
     (simp_all add: ref_mbuf_laws ref_mbuf_no_oom HDR_SIZE_def DECODE_MAXSZ_def fresh_dec_def)



end
