(* ===== verification/Av1.thy ===== *)
theory Av1
  imports Vp8
begin

text \<open>
  modules/av1: the encoder front end and packetizer of encode.c, the
  depacketizer of decode.c.  The module reuses the VP8 payload header, so its
  header functions are shown equal to those of theory Vp8 and the round trip
  follows from the same facts.  libaom is the parameters \<open>enc_ops\<close> and
  \<open>dec_ops\<close>.
\<close>

subsection \<open>Encoder\<close>

record ('c, 's) av1_enc =
  a_ctx :: 'c
  a_size :: vidsz
  a_fps :: rat
  a_bitrate :: u32
  a_pktsize :: u32
  a_ctxup :: bool
  a_picid :: u16
  a_pkth :: "'s pkth"

text \<open>\<open>av1_encode_update\<close>; the arguments are those of \<open>vp8_encode_update\<close>.\<close>

definition av1_encode_update ::
  "'c enc_ops \<Rightarrow> bool \<Rightarrow> ('c, 's) av1_enc option \<Rightarrow> u16 \<Rightarrow> ('c, 's) av1_enc option \<Rightarrow> videnc_param
     \<Rightarrow> 's pkth \<Rightarrow> err \<times> ('c, 's) av1_enc option" where
  "av1_encode_update V nonnull alloc rnd vesp prm pkth =
     (if \<not> nonnull \<or> unat (vp_pktsize prm) < HDR_SIZE + 1 then (EINVAL, vesp)
      else
        case (case vesp of
                None \<Rightarrow> (case alloc of None \<Rightarrow> None | Some z \<Rightarrow> Some (z\<lparr>a_picid := rnd\<rparr>))
              | Some ves \<Rightarrow>
                  Some (if a_ctxup ves \<and> (a_bitrate ves \<noteq> vp_bitrate prm \<or> a_fps ves \<noteq> vp_fps prm)
                        then ves\<lparr>a_ctx := ve_destroy V (a_ctx ves), a_ctxup := False\<rparr>
                        else ves))
        of None \<Rightarrow> (ENOMEM, vesp)
         | Some ves \<Rightarrow>
             (0, Some (ves\<lparr>a_bitrate := vp_bitrate prm, a_pktsize := vp_pktsize prm,
                           a_fps := vp_fps prm, a_pkth := pkth\<rparr>)))"

definition av1_open_encoder ::
  "'c enc_ops \<Rightarrow> ('c, 's) av1_enc \<Rightarrow> vidsz \<Rightarrow> err \<times> ('c, 's) av1_enc" where
  "av1_open_encoder V ves sz =
     (if ve_config_default V \<noteq> 0 then (EPROTO, ves)
      else
        let cfg = \<lparr>cfg_profile = 0, cfg_w = sz_w sz, cfg_h = sz_h sz,
                   cfg_tb_num = 1, cfg_tb_den = ucast VIDEO_TIMEBASE, cfg_bitrate = a_bitrate ves div 1000\<rparr>;
            ves = (if a_ctxup ves
                   then ves\<lparr>a_ctx := ve_destroy V (a_ctx ves), a_ctxup := False\<rparr> else ves);
            (res, ctx) = ve_init V cfg
        in if res \<noteq> 0 then (EPROTO, ves\<lparr>a_ctx := ctx\<rparr>)
           else
             let (_, ctx) = ve_control V ctx 0 8  \<comment> \<open>AOME_SET_CPUUSED\<close>
             in (0, ves\<lparr>a_ctx := ctx, a_ctxup := True\<rparr>))"

definition av1_hdr_encode :: "bool \<Rightarrow> bool \<Rightarrow> u8 \<Rightarrow> u16 \<Rightarrow> u8 list" where
  "av1_hdr_encode noref start partid picid =
     [push_bit 7 1 OR push_bit 5 (of_bool noref) OR push_bit 4 (of_bool start) OR (partid AND 0x7),
      push_bit 7 1,
      ucast (push_bit 7 1 OR (drop_bit 8 picid AND 0x7f)),
      ucast (picid AND 0xff)]"

partial_function (option) av1_pkt_loop ::
  "'s pkth \<Rightarrow> nat \<Rightarrow> bool \<Rightarrow> u8 \<Rightarrow> u16 \<Rightarrow> u64 \<Rightarrow> u8 list \<Rightarrow> bool \<Rightarrow> err \<Rightarrow> 's
     \<Rightarrow> (u8 list \<times> bool \<times> err \<times> 's) option" where
  "av1_pkt_loop pkth maxlen noref partid picid rtp_ts buf start err s =
     (if length buf > maxlen
      then let (e, s') = pkth False rtp_ts (av1_hdr_encode noref start partid picid)
                           (take maxlen buf) s
           in av1_pkt_loop pkth maxlen noref partid picid rtp_ts (drop maxlen buf) False
                (err OR e) s'
      else Some (buf, start, err, s))"

definition av1_packetize ::
  "bool \<Rightarrow> u64 \<Rightarrow> u8 list \<Rightarrow> nat \<Rightarrow> bool \<Rightarrow> u8 \<Rightarrow> u16 \<Rightarrow> 's pkth \<Rightarrow> 's \<Rightarrow> (err \<times> 's) option" where
  "av1_packetize marker rtp_ts buf maxlen noref partid picid pkth s =
     (case av1_pkt_loop pkth (size_sub maxlen HDR_SIZE) noref partid picid rtp_ts buf True 0 s of
        None \<Rightarrow> None
      | Some (buf', start, err, s') \<Rightarrow>
          (let (e, s'') = pkth marker rtp_ts (av1_hdr_encode noref start partid picid) buf' s'
           in Some (err OR e, s'')))"

text \<open>
  The loop over \<open>aom_codec_get_cx_data\<close>, with the error code the function
  holds at its start.
\<close>

fun av1_send_frames :: "('c, 's) av1_enc \<Rightarrow> cx_pkt list \<Rightarrow> err \<Rightarrow> 's \<Rightarrow> (err \<times> 's) option" where
  "av1_send_frames ves [] err s = Some (err, s)"
| "av1_send_frames ves (pkt # pkts) err s =
     (if \<not> cx_frame pkt then av1_send_frames ves pkts err s
      else
        let partid = (if cx_partid pkt \<ge> 0 then word_of_int (cx_partid pkt) else 0);
            ts = video_calc_rtp_timestamp_fix (cx_pts pkt)
        in case av1_packetize True ts (cx_buf pkt) (unat (a_pktsize ves)) (\<not> cx_key pkt) partid
                  (a_picid ves) (a_pkth ves) s of
             None \<Rightarrow> None
           | Some (err, s') \<Rightarrow>
               if err \<noteq> 0 then Some (err, s') else av1_send_frames ves pkts err s')"

definition av1_encode_packet ::
  "'c enc_ops \<Rightarrow> ('c, 's) av1_enc option \<Rightarrow> bool \<Rightarrow> vidframe option \<Rightarrow> u64 \<Rightarrow> 's
     \<Rightarrow> (err \<times> ('c, 's) av1_enc option \<times> 's) option" where
  "av1_encode_packet V vesp update framep timestamp s =
     (case (vesp, framep) of
        (Some ves, Some frame) \<Rightarrow>
          if vf_fmt frame \<noteq> VID_FMT_YUV420P then Some (EINVAL, vesp, s)
          else
            let (err, ves) =
                  (if \<not> a_ctxup ves \<or> a_size ves \<noteq> vf_size frame
                   then let (err, ves) = av1_open_encoder V ves (vf_size frame)
                        in (err, if err \<noteq> 0 then ves else ves\<lparr>a_size := vf_size frame\<rparr>)
                   else (0, ves))
            in if err \<noteq> 0 then Some (err, Some ves, s)
               else if \<not> ve_img_wrap V frame then Some (ENOMEM, Some ves, s)
               else
                 let (res, ctx) = ve_encode V (a_ctx ves) frame timestamp update;
                     ves = ves\<lparr>a_ctx := ctx\<rparr>
                 in if res \<noteq> 0 then Some (ENOMEM, Some ves, s)
                    else
                      let ves = ves\<lparr>a_picid := a_picid ves + 1\<rparr>
                      in (case av1_send_frames ves (ve_cx_data V ctx) err s of
                            None \<Rightarrow> None
                          | Some (err, s') \<Rightarrow> Some (err, Some ves, s'))
      | _ \<Rightarrow> Some (EINVAL, vesp, s))"

subsection \<open>Decoder\<close>

text \<open>\<open>av1_decode_update\<close>; the arguments are those of \<open>vp8_decode_update\<close>.\<close>

definition av1_decode_update ::
  "'c dec_ops \<Rightarrow> bool \<Rightarrow> 'c vid_dec option \<Rightarrow> mbuf option \<Rightarrow> 'c vid_dec option \<Rightarrow> err \<times> 'c vid_dec option" where
  "av1_decode_update V nonnull alloc mballoc vdsp =
     (if \<not> nonnull then (EINVAL, vdsp)
      else case vdsp of Some vds \<Rightarrow> (0, Some vds)
      | None \<Rightarrow>
         (case alloc of None \<Rightarrow> (ENOMEM, None)
          | Some vds \<Rightarrow>
             (case mballoc of None \<Rightarrow> (ENOMEM, None)
              | Some mb \<Rightarrow>
                 (let (res, ctx) = vd_init V
                  in if res \<noteq> 0 then (ENOMEM, None)
                     else (0, Some (vds\<lparr>d_mb := mb, d_ctx := ctx, d_ctxup := True\<rparr>))))))"

definition av1_hdr_decode :: "mbuf_ops \<Rightarrow> mbuf \<Rightarrow> err \<times> vp8_hdr \<times> mbuf" where
  "av1_hdr_decode M mb =
     andthen (andthen (andthen (andthen
       (need_byte M mb
          (\<lambda>v mb. (0, vp8_hdr0\<lparr>h_x := bit v 7, h_noref := bit v 5, h_start := bit v 4,
                                h_partid := v AND 0x07\<rparr>, mb)) vp8_hdr0)
       (\<lambda>h mb. if h_x h
          then need_byte M mb (\<lambda>v mb. (0, h\<lparr>h_i := bit v 7, h_l := bit v 6, h_t := bit v 5,
                                            h_k := bit v 4\<rparr>, mb)) h
          else (0, h, mb)))
       (\<lambda>h mb. if h_i h
          then need_byte M mb
                 (\<lambda>v mb. if bit v 7
                    then need_byte M mb
                           (\<lambda>w mb. (0, h\<lparr>h_picid := push_bit 8 (ucast (v AND 0x7f)) + ucast w\<rparr>, mb)) h
                    else (0, h\<lparr>h_picid := ucast (v AND 0x7f)\<rparr>, mb)) h
          else (0, h, mb)))
       (\<lambda>h mb. if h_l h then need_byte M mb (\<lambda>v mb. (0, h\<lparr>h_tl0picidx := v\<rparr>, mb)) h
          else (0, h, mb)))
       (\<lambda>h mb. if h_t h \<or> h_k h
          then need_byte M mb (\<lambda>v mb. (0, h\<lparr>h_tid := drop_bit 6 v AND 0x3, h_y := bit v 5,
                                            h_keyidx := v AND 0x1f\<rparr>, mb)) h
          else (0, h, mb))"

definition av1_is_keyframe :: "mbuf_ops \<Rightarrow> 'c dec_ops \<Rightarrow> mbuf \<Rightarrow> bool" where
  "av1_is_keyframe M V mb =
     (let (ret, is_kf) = vd_peek V (m_rest M mb) in if ret \<noteq> 0 then False else is_kf)"

definition av1_decode ::
  "mbuf_ops \<Rightarrow> 'c dec_ops \<Rightarrow> bool \<Rightarrow> 'c vid_dec \<Rightarrow> bool \<Rightarrow> u16 \<Rightarrow> mbuf \<Rightarrow> 'c vid_dec dec_result" where
  "av1_decode M V nonnull vds marker seq mb =
     (if \<not> nonnull then \<lparr>r_err = EINVAL, r_intra = None, r_frame = None, r_vds = vds\<rparr>
      else let (err, hdr, mb) = av1_hdr_decode M mb
      in if err \<noteq> 0 then \<lparr>r_err = err, r_intra = Some False, r_frame = None, r_vds = vds\<rparr>
         else if h_start hdr \<and> h_partid hdr = 0
         then
           let (err, fr, vds) = dec_append M V (dec_start M vds seq) marker mb
           in \<lparr>r_err = err, r_intra = Some (av1_is_keyframe M V mb), r_frame = fr, r_vds = vds\<rparr>
         else if \<not> d_started vds
         then \<lparr>r_err = 0, r_intra = Some False, r_frame = None, r_vds = vds\<rparr>
         else if seq_diff (d_seq vds) seq \<noteq> 1
         then \<lparr>r_err = 0, r_intra = Some False, r_frame = None, r_vds = dec_out M vds\<rparr>
         else
           let (err, fr, vds) = dec_append M V (vds\<lparr>d_seq := seq\<rparr>) marker mb
           in \<lparr>r_err = err, r_intra = Some False, r_frame = fr, r_vds = vds\<rparr>)"

subsection \<open>The header functions are those of VP8\<close>

lemma av1_hdr_encode_vp8: "av1_hdr_encode = vp8_hdr_encode"
  by (simp add: fun_eq_iff av1_hdr_encode_def vp8_hdr_encode_def)

lemma av1_hdr_decode_vp8: "av1_hdr_decode = vp8_hdr_decode"
  by (simp add: fun_eq_iff av1_hdr_decode_def vp8_hdr_decode_def hdr_ext_def[abs_def]
      hdr_pic_def[abs_def] hdr_tl0_def[abs_def] hdr_tk_def[abs_def])

lemma av1_pkt_loop_sends:
  assumes "0 < sz"
  shows "(case av1_pkt_loop pkth sz noref partid picid ts buf start err s of
        None \<Rightarrow> None
      | Some (buf', start', err', s') \<Rightarrow>
          (let (e, s'') = pkth marker ts (av1_hdr_encode noref start' partid picid) buf' s'
           in Some (err' OR e, s''))) =
     Some (send_pkts pkth (frag_pkts (\<lambda>st en. av1_hdr_encode noref st partid picid) marker ts sz
             start buf) err s)"
proof (induction "length buf" arbitrary: buf start err s rule: less_induct)
  case less
  show ?case
  proof (cases "sz < length buf")
    case False
    then show ?thesis by (simp add: av1_pkt_loop.simps frag_pkts_last split_def Let_def)
  next
    case True
    with assms have "length (drop sz buf) < length buf" by simp
    from less[OF this] show ?thesis
      using True assms
      by (subst av1_pkt_loop.simps) (simp add: frag_pkts_more split_def Let_def)
  qed
qed

interpretation av1_send: fragmenter
  "\<lambda>pkth m ts buf maxlen s. av1_packetize m ts buf maxlen noref partid picid pkth s"
  "\<lambda>st en. av1_hdr_encode noref st partid picid" HDR_SIZE
  for noref partid picid
proof
  show "length (av1_hdr_encode noref a partid picid) = HDR_SIZE" for a :: bool
    by (simp add: av1_hdr_encode_vp8)
  show "av1_packetize m ts buf maxlen noref partid picid pkth s =
      Some (send_pkts pkth (frag_pkts (\<lambda>st en. av1_hdr_encode noref st partid picid) m ts
             (maxlen - HDR_SIZE) True buf) 0 s)"
    if "HDR_SIZE < maxlen" "maxlen < 2 ^ 64"
    for maxlen and pkth :: "'a pkth" and m ts buf s
    unfolding av1_packetize_def using that av1_pkt_loop_sends[of "maxlen - HDR_SIZE"]
    by (simp add: size_sub_le)
qed

definition av1_rx ::
  "mbuf_ops \<Rightarrow> 'c dec_ops \<Rightarrow> 'c vid_dec \<Rightarrow> bool \<Rightarrow> u16 \<Rightarrow> u8 list
     \<Rightarrow> 'c vid_dec dec_result \<times> 'c vid_dec" where
  "av1_rx M V vds marker seq bytes =
     (let r = av1_decode M V True vds marker seq (mbuf_of bytes) in (r, r_vds r))"

lemma av1_rx_hdr:
  assumes "mbuf_laws M"
  obtains mb where "mb_wf mb" "mb_unread mb = b"
    "av1_hdr_decode M (mbuf_of (av1_hdr_encode noref st partid picid @ b)) =
       (0, vp8_hdr_of noref st partid picid, mb)"
  by (rule vp8_rx_hdr[OF assms, of b noref st partid picid])
     (rule that, simp_all add: av1_hdr_encode_vp8 av1_hdr_decode_vp8)

interpretation av1_recv: frame_decoder M V "\<lambda>d. d" "av1_rx M V"
  "\<lambda>st en. av1_hdr_encode noref st 0 picid"
  for M :: mbuf_ops and V :: "'c dec_ops" and noref picid
proof
  fix d d' :: "'c vid_dec" and mk q b r
  assume laws: "mbuf_laws M"
  note rx = av1_rx_def av1_decode_def appends_def vp8_hdr_of_def Let_def seq_diff_next
  show "appends M V (dec_start M d q) b mk r d'"
    if "av1_rx M V d mk q (av1_hdr_encode noref True 0 picid @ b) = (r, d')"
    by (rule av1_rx_hdr[OF laws, of b noref True 0 picid]) (use that in \<open>auto simp: rx split: prod.splits\<close>)
  show "appends M V (d\<lparr>d_seq := q + 1\<rparr>) b mk r d'"
    if "d_started d" "d_seq d = q" "av1_rx M V d mk (q + 1) (av1_hdr_encode noref False 0 picid @ b) = (r, d')"
    by (rule av1_rx_hdr[OF laws, of b noref False 0 picid]) (use that in \<open>auto simp: rx split: prod.splits\<close>)
  show "r_err r = 0 \<and> r_frame r = None \<and> d' = dec_out M d"
    if "d_started d" "q \<noteq> d_seq d + 1" "av1_rx M V d mk q (av1_hdr_encode noref False 0 picid @ b) = (r, d')"
    by (rule av1_rx_hdr[OF laws, of b noref False 0 picid]) (use that in \<open>auto simp: rx\<close>)
  show "r_err r = 0 \<and> r_frame r = None \<and> d' = d"
    if "\<not> d_started d" "av1_rx M V d mk q (av1_hdr_encode noref False 0 picid @ b) = (r, d')"
    by (rule av1_rx_hdr[OF laws, of b noref False 0 picid]) (use that in \<open>auto simp: rx\<close>)
qed

subsection \<open>Properties\<close>

text \<open>
  C8: End to end.  A frame that fits the frame buffer, packetized by the AV1
  \<open>packetize\<close> and received in order by \<open>av1_decode\<close> in any state, reaches
  the codec byte for byte.
\<close>

theorem av1_roundtrip:
  assumes "mbuf_laws M" "mbuf_no_oom M" "mb_wf (d_mb d)"
    and "HDR_SIZE < maxlen" "maxlen < 2 ^ 64" "length frame \<le> DECODE_MAXSZ"
  shows "\<exists>pkts rs d'. av1_packetize True ts frame maxlen noref 0 picid rec_pkth [] = Some (0, pkts) \<and>
     frags_of True ts maxlen frame pkts \<and>
     feed (av1_rx M V) d q pkts = (rs, d') \<and> rs \<noteq> [] \<and> dec_fin V (d_ctx d) frame (last rs) d'"
proof -
  let ?ps = "frag_pkts (\<lambda>st en. av1_hdr_encode noref st 0 picid) True ts (maxlen - HDR_SIZE) True frame"
  have sent: "av1_packetize True ts frame maxlen noref 0 picid rec_pkth [] = Some (0, ?ps)"
    by (simp add: av1_send.pk_sends[OF assms(4,5)])
  have frags: "frags_of True ts maxlen frame ?ps"
    by (rule frag_pkts_frags_of[OF av1_send.hdr_length assms(4)])
  obtain rs d' where fed: "feed (av1_rx M V) d q ?ps = (rs, d')" by fastforce
  have "dec_idle M d (d_ctx d)" using assms(1-3) by (simp add: dec_idle_def)
  from av1_recv.feed_frame[OF this assms(6) fed] show ?thesis using sent fed frags by blast
qed

theorem av1_roundtrip_witness:
  "\<exists>pkts rs d'. av1_packetize True 90 [1, 2, 3, 4, 5] 6 True 0 7 rec_pkth [] = Some (0, pkts) \<and>
     frags_of True 90 6 [1, 2, 3, 4, 5] pkts \<and>
     feed (av1_rx ref_mbuf echo_dec) fresh_dec 65535 pkts = (rs, d') \<and> rs \<noteq> [] \<and>
     dec_fin echo_dec (d_ctx fresh_dec) [1, 2, 3, 4, 5] (last rs) d'"
  by (rule av1_roundtrip)
     (simp_all add: ref_mbuf_laws ref_mbuf_no_oom HDR_SIZE_def DECODE_MAXSZ_def fresh_dec_def)

end
