(* ===== verification/Vp9.thy ===== *)
theory Vp9
  imports Reassembly
begin

text \<open>
  modules/vp9: the 3-byte payload header, the packetizer and the encoder front
  end of encode.c, the header parser with its scalability structure and the
  depacketizer of decode.c.  libvpx is the parameters \<open>enc_ops\<close> and
  \<open>dec_ops\<close>.
\<close>

subsection \<open>Encoder\<close>

definition VP9_HDR_SIZE :: nat where "VP9_HDR_SIZE = 3"

record ('c, 's) vp9_enc =
  n_ctx :: 'c
  n_size :: vidsz
  n_fps :: u32
  n_bitrate :: u32
  n_pktsize :: u32
  n_ctxup :: bool
  n_picid :: u16
  n_pkth :: "'s pkth"
  n_frames :: u32
  n_key_frames :: u32
  n_bytes :: u64

text \<open>\<open>vp9_encode_update\<close>; the arguments are those of \<open>vp8_encode_update\<close>.\<close>

definition vp9_encode_update ::
  "'c enc_ops \<Rightarrow> bool \<Rightarrow> ('c, 's) vp9_enc option \<Rightarrow> u16 \<Rightarrow> u32 \<Rightarrow> ('c, 's) vp9_enc option
     \<Rightarrow> videnc_param \<Rightarrow> 's pkth \<Rightarrow> err \<times> ('c, 's) vp9_enc option \<times> videnc_param" where
  "vp9_encode_update V nonnull alloc rnd max_fs vesp prm pkth =
     (if \<not> nonnull \<or> unat (vp_pktsize prm) < VP9_HDR_SIZE + 1 then (EINVAL, vesp, prm)
      else
        case (case vesp of
                None \<Rightarrow> (case alloc of None \<Rightarrow> None | Some z \<Rightarrow> Some (z\<lparr>n_picid := rnd\<rparr>))
              | Some ves \<Rightarrow>
                  Some (if n_ctxup ves \<and> (n_bitrate ves \<noteq> vp_bitrate prm \<or>
                              of_nat (unat (n_fps ves)) \<noteq> vp_fps prm)
                        then ves\<lparr>n_ctx := ve_destroy V (n_ctx ves), n_ctxup := False\<rparr>
                        else ves))
        of None \<Rightarrow> (ENOMEM, vesp, prm)
         | Some ves \<Rightarrow>
             (0,
              Some (ves\<lparr>n_bitrate := vp_bitrate prm, n_pktsize := vp_pktsize prm,
                        n_fps := unsigned_of (vp_fps prm), n_pkth := pkth\<rparr>),
              if max_fs > 0 then prm\<lparr>vp_max_fs := max_fs * 256\<rparr> else prm))"

definition vp9_open_encoder ::
  "'c enc_ops \<Rightarrow> ('c, 's) vp9_enc \<Rightarrow> vidsz \<Rightarrow> err \<times> ('c, 's) vp9_enc" where
  "vp9_open_encoder V ves sz =
     (if ve_config_default V \<noteq> 0 then (EPROTO, ves)
      else
        let cfg = \<lparr>cfg_profile = 0, cfg_w = sz_w sz, cfg_h = sz_h sz,
                   cfg_tb_num = 1, cfg_tb_den = n_fps ves, cfg_bitrate = n_bitrate ves div 1000\<rparr>;
            ves = (if n_ctxup ves
                   then ves\<lparr>n_ctx := ve_destroy V (n_ctx ves), n_ctxup := False\<rparr> else ves);
            (res, ctx) = ve_init V cfg
        in if res \<noteq> 0 then (EPROTO, ves\<lparr>n_ctx := ctx\<rparr>)
           else
             let (_, ctx) = ve_control V ctx 0 8;  \<comment> \<open>VP8E_SET_CPUUSED, a failure is only logged\<close>
                 (_, ctx) = ve_control V ctx 1 0   \<comment> \<open>VP9E_SET_NOISE_SENSITIVITY\<close>
             in (0, ves\<lparr>n_ctx := ctx, n_ctxup := True\<rparr>))"

definition vp9_hdr_encode :: "bool \<Rightarrow> bool \<Rightarrow> u16 \<Rightarrow> u8 list" where
  "vp9_hdr_encode start end picid =
     [push_bit 7 1 OR push_bit 3 (of_bool start) OR push_bit 2 (of_bool end),
      ucast (push_bit 7 1 OR (drop_bit 8 picid AND 0x7f)),
      ucast (picid AND 0xff)]"

text \<open>
  \<open>send_packet\<close> counts the bytes in the encoder state and calls the packet
  handler; it is itself a handler over the pair of encoder state and handler
  argument, the one \<open>packetize\<close> sends through.
\<close>

definition vp9_send_packet :: "(('c, 's) vp9_enc \<times> 's) pkth" where
  "vp9_send_packet marker rtp_ts hdr pld st =
     (let (ves, s) = st;
          ves = ves\<lparr>n_bytes := n_bytes ves + of_nat (length hdr + length pld)\<rparr>;
          (e, s) = n_pkth ves marker rtp_ts hdr pld s
      in (e, (ves, s)))"

partial_function (option) vp9_pkt_loop ::
  "'s pkth \<Rightarrow> nat \<Rightarrow> u16 \<Rightarrow> u64 \<Rightarrow> u8 list \<Rightarrow> bool \<Rightarrow> err \<Rightarrow> 's
     \<Rightarrow> (u8 list \<times> bool \<times> err \<times> 's) option" where
  "vp9_pkt_loop send maxlen picid rtp_ts buf start err s =
     (if length buf > maxlen
      then let (e, s') = send False rtp_ts (vp9_hdr_encode start False picid) (take maxlen buf) s
           in vp9_pkt_loop send maxlen picid rtp_ts (drop maxlen buf) False (err OR e) s'
      else Some (buf, start, err, s))"

definition vp9_packetize ::
  "'s pkth \<Rightarrow> bool \<Rightarrow> u8 list \<Rightarrow> nat \<Rightarrow> u16 \<Rightarrow> u64 \<Rightarrow> 's \<Rightarrow> (err \<times> 's) option" where
  "vp9_packetize send marker buf maxlen picid rtp_ts s =
     (case vp9_pkt_loop send (size_sub maxlen VP9_HDR_SIZE) picid rtp_ts buf True 0 s of
        None \<Rightarrow> None
      | Some (buf', start, err, s') \<Rightarrow>
          (let (e, s'') = send marker rtp_ts (vp9_hdr_encode start True picid) buf' s'
           in Some (err OR e, s'')))"

text \<open>The loop over \<open>vpx_codec_get_cx_data\<close>, with the value \<open>err\<close> holds before it.\<close>

fun vp9_send_frames ::
  "('c, 's) vp9_enc \<Rightarrow> cx_pkt list \<Rightarrow> err \<Rightarrow> 's \<Rightarrow> (err \<times> ('c, 's) vp9_enc \<times> 's) option" where
  "vp9_send_frames ves [] err s = Some (err, ves, s)"
| "vp9_send_frames ves (pkt # pkts) err s =
     (if \<not> cx_frame pkt then vp9_send_frames ves pkts err s
      else
        let ves = (if cx_key pkt then ves\<lparr>n_key_frames := n_key_frames ves + 1\<rparr> else ves);
            marker = \<not> cx_fragment pkt;
            ts = video_calc_rtp_timestamp_fix (cx_pts pkt)
        in case vp9_packetize vp9_send_packet marker (cx_buf pkt) (unat (n_pktsize ves))
                  (n_picid ves) ts (ves, s) of
             None \<Rightarrow> None
           | Some (err, ves, s') \<Rightarrow>
               if err \<noteq> 0 then Some (err, ves, s') else vp9_send_frames ves pkts err s')"

text \<open>
  \<open>vp9_encode\<close> declares \<open>err\<close> without a value: \<open>junk\<close> is what it holds when
  nothing assigns it.
\<close>

definition vp9_encode ::
  "'c enc_ops \<Rightarrow> err \<Rightarrow> ('c, 's) vp9_enc option \<Rightarrow> bool \<Rightarrow> vidframe option \<Rightarrow> u64 \<Rightarrow> 's
     \<Rightarrow> (err \<times> ('c, 's) vp9_enc option \<times> 's) option" where
  "vp9_encode V junk vesp update framep timestamp s =
     (case (vesp, framep) of
        (Some ves, Some frame) \<Rightarrow>
          if vf_fmt frame \<noteq> VID_FMT_YUV420P then Some (EINVAL, vesp, s)
          else
            let reopen = (\<not> n_ctxup ves \<or> n_size ves \<noteq> vf_size frame);
                (err, ves) =
                  (if reopen
                   then let (err, ves) = vp9_open_encoder V ves (vf_size frame)
                        in (err, if err \<noteq> 0 then ves else ves\<lparr>n_size := vf_size frame\<rparr>)
                   else (junk, ves))
            in if reopen \<and> err \<noteq> 0 then Some (err, Some ves, s)
               else
                 let ves = ves\<lparr>n_frames := n_frames ves + 1\<rparr>
                 in if \<not> ve_img_wrap V frame then Some (ENOMEM, Some ves, s)
                    else
                      let (res, ctx) = ve_encode V (n_ctx ves) frame timestamp update;
                          ves = ves\<lparr>n_ctx := ctx\<rparr>
                      in if res \<noteq> 0 then Some (ENOMEM, Some ves, s)
                         else
                           let ves = ves\<lparr>n_picid := n_picid ves + 1\<rparr>
                           in (case vp9_send_frames ves (ve_cx_data V ctx) err s of
                                 None \<Rightarrow> None
                               | Some (err, ves, s') \<Rightarrow> Some (err, Some ves, s'))
      | _ \<Rightarrow> Some (EINVAL, vesp, s))"

subsection \<open>Decoder\<close>

record vp9_hdr =
  g_i :: bool
  g_p :: bool
  g_l :: bool
  g_f :: bool
  g_b :: bool
  g_e :: bool
  g_v :: bool
  g_picid :: u16

definition vp9_hdr0 :: vp9_hdr where
  "vp9_hdr0 = \<lparr>g_i = False, g_p = False, g_l = False, g_f = False, g_b = False, g_e = False,
     g_v = False, g_picid = 0\<rparr>"

text \<open>The state of the decoder: the frame under assembly and two counters.\<close>

record 'c vp9_dec =
  v_core :: "'c vid_dec"
  v_n_frames :: u32
  v_n_bytes :: u64

definition vp9_decode_update ::
  "'c dec_ops \<Rightarrow> bool \<Rightarrow> 'c vp9_dec option \<Rightarrow> mbuf option \<Rightarrow> 'c vp9_dec option \<Rightarrow> err \<times> 'c vp9_dec option" where
  "vp9_decode_update V nonnull alloc mballoc vdsp =
     (if \<not> nonnull then (EINVAL, vdsp)
      else case vdsp of Some vds \<Rightarrow> (0, Some vds)
      | None \<Rightarrow>
         (case alloc of None \<Rightarrow> (ENOMEM, None)
          | Some vds \<Rightarrow>
             (case mballoc of None \<Rightarrow> (ENOMEM, None)
              | Some mb \<Rightarrow>
                 (let (res, ctx) = vd_init V
                  in if res \<noteq> 0 then (ENOMEM, None)
                     else (0, Some (vds\<lparr>v_core := (v_core vds)\<lparr>d_mb := mb, d_ctx := ctx,
                                                                d_ctxup := True\<rparr>\<rparr>))))))"

text \<open>
  \<open>ss_decode\<close>: only one spatial layer (\<open>n_s = 0\<close>) is accepted; the picture
  size and the picture group entries are read and dropped.
\<close>

fun ss_groups :: "mbuf_ops \<Rightarrow> nat \<Rightarrow> mbuf \<Rightarrow> err \<times> mbuf" where
  "ss_groups M 0 mb = (0, mb)"
| "ss_groups M (Suc n) mb =
     (if m_get_left M mb < 2 then (EBADMSG, mb)
      else let (tidur, mb) = m_read_u8 M mb; (p_diff, mb) = m_read_u8 M mb
           in ss_groups M n mb)"

definition ss_decode :: "mbuf_ops \<Rightarrow> mbuf \<Rightarrow> err \<times> mbuf" where
  "ss_decode M mb =
     (if m_get_left M mb < 1 then (EBADMSG, mb)
      else
        let (v, mb) = m_read_u8 M mb
        in if drop_bit 5 v AND 0x7 \<noteq> 0 then (ENOTSUP, mb)
           else if bit v 4 \<and> m_get_left M mb < 4 then (EBADMSG, mb)
           else
             let mb = (if bit v 4
                       then let (width, mb) = m_read_u16 M mb; (height, mb) = m_read_u16 M mb in mb
                       else mb)
             in if \<not> bit v 3 then (0, mb)
                else if m_get_left M mb < 1 then (EBADMSG, mb)
                else let (n_g, mb) = m_read_u8 M mb in ss_groups M (unat n_g) mb)"

definition vp9_hdr_decode :: "mbuf_ops \<Rightarrow> mbuf \<Rightarrow> err \<times> vp9_hdr \<times> mbuf" where
  "vp9_hdr_decode M mb =
     andthen (andthen (andthen (andthen
       (need_byte M mb
          (\<lambda>v mb. (0, vp9_hdr0\<lparr>g_i := bit v 7, g_p := bit v 6, g_l := bit v 5, g_f := bit v 4,
                                g_b := bit v 3, g_e := bit v 2, g_v := bit v 1\<rparr>, mb)) vp9_hdr0)
       (\<lambda>h mb. if g_l h then (EPROTO, h, mb) else if g_f h then (EPROTO, h, mb) else (0, h, mb)))
       (\<lambda>h mb. if g_i h
          then need_byte M mb
                 (\<lambda>v mb. if bit v 7
                    then need_byte M mb
                           (\<lambda>w mb. (0, h\<lparr>g_picid := push_bit 8 (ucast (v AND 0x7f)) + ucast w\<rparr>, mb)) h
                    else (0, h\<lparr>g_picid := ucast (v AND 0x7f)\<rparr>, mb)) h
          else (0, h, mb)))
       (\<lambda>h mb. if g_p h then need_byte M mb (\<lambda>p_diff mb. (0, h, mb)) h else (0, h, mb)))
       (\<lambda>h mb. if g_v h then let (err, mb) = ss_decode M mb in (err, h, mb) else (0, h, mb))"

definition vp9_is_keyframe :: "mbuf_ops \<Rightarrow> 'c dec_ops \<Rightarrow> mbuf \<Rightarrow> bool" where
  "vp9_is_keyframe M V mb =
     (let (ret, is_kf) = vd_peek V (m_rest M mb) in if ret \<noteq> 0 then False else is_kf)"

text \<open>After \<open>dec_append\<close>: a delivered picture is counted.\<close>

definition vp9_finish ::
  "'c vp9_dec \<Rightarrow> bool \<Rightarrow> err \<times> vidframe option \<times> 'c vid_dec \<Rightarrow> 'c vp9_dec dec_result" where
  "vp9_finish vds intra r =
     (let (err, fr, core) = r
      in \<lparr>r_err = err, r_intra = Some intra, r_frame = fr,
          r_vds = vds\<lparr>v_core := core,
                      v_n_frames := v_n_frames vds + (if fr = None then 0 else 1)\<rparr>\<rparr>)"

definition vp9_decode ::
  "mbuf_ops \<Rightarrow> 'c dec_ops \<Rightarrow> bool \<Rightarrow> 'c vp9_dec \<Rightarrow> bool \<Rightarrow> u16 \<Rightarrow> mbuf \<Rightarrow> 'c vp9_dec dec_result" where
  "vp9_decode M V nonnull vds marker seq mb =
     (if \<not> nonnull then \<lparr>r_err = EINVAL, r_intra = None, r_frame = None, r_vds = vds\<rparr>
      else
        let vds = vds\<lparr>v_n_bytes := v_n_bytes vds + of_nat (m_get_left M mb)\<rparr>;
            (err, hdr, mb) = vp9_hdr_decode M mb
        in if err \<noteq> 0 then \<lparr>r_err = err, r_intra = Some False, r_frame = None, r_vds = vds\<rparr>
           else if g_b hdr
           then vp9_finish vds (vp9_is_keyframe M V mb)
                  (dec_append M V (dec_start M (v_core vds) seq) marker mb)
           else if \<not> d_started (v_core vds)
           then \<lparr>r_err = 0, r_intra = Some False, r_frame = None, r_vds = vds\<rparr>
           else if seq_diff (d_seq (v_core vds)) seq \<noteq> 1
           then \<lparr>r_err = 0, r_intra = Some False, r_frame = None,
                 r_vds = vds\<lparr>v_core := dec_out M (v_core vds)\<rparr>\<rparr>
           else vp9_finish vds False (dec_append M V ((v_core vds)\<lparr>d_seq := seq\<rparr>) marker mb))"

subsection \<open>The packetizer sends the fragments of the frame\<close>

lemma vp9_pkt_loop_sends:
  assumes "0 < sz"
  shows "(case vp9_pkt_loop send sz picid ts buf start err s of
        None \<Rightarrow> None
      | Some (buf', start', err', s') \<Rightarrow>
          (let (e, s'') = send marker ts (vp9_hdr_encode start' True picid) buf' s'
           in Some (err' OR e, s''))) =
     Some (send_pkts send (frag_pkts (\<lambda>st en. vp9_hdr_encode st en picid) marker ts sz
             start buf) err s)"
proof (induction "length buf" arbitrary: buf start err s rule: less_induct)
  case less
  show ?case
  proof (cases "sz < length buf")
    case False
    then show ?thesis by (simp add: vp9_pkt_loop.simps frag_pkts_last split_def Let_def)
  next
    case True
    with assms have "length (drop sz buf) < length buf" by simp
    from less[OF this] show ?thesis
      using True assms
      by (subst vp9_pkt_loop.simps) (simp add: frag_pkts_more split_def Let_def)
  qed
qed

interpretation vp9_send: fragmenter
  "\<lambda>send m ts buf maxlen s. vp9_packetize send m buf maxlen picid ts s"
  "\<lambda>st en. vp9_hdr_encode st en picid" VP9_HDR_SIZE
  for picid
proof
  show "length (vp9_hdr_encode a b picid) = VP9_HDR_SIZE" for a b
    by (simp add: vp9_hdr_encode_def VP9_HDR_SIZE_def)
  show "vp9_packetize send m buf maxlen picid ts s =
      Some (send_pkts send (frag_pkts (\<lambda>st en. vp9_hdr_encode st en picid) m ts
             (maxlen - VP9_HDR_SIZE) True buf) 0 s)"
    if "VP9_HDR_SIZE < maxlen" "maxlen < 2 ^ 64"
    for maxlen and send :: "'a pkth" and m ts buf s
    unfolding vp9_packetize_def using that vp9_pkt_loop_sends[of "maxlen - VP9_HDR_SIZE"]
    by (simp add: size_sub_le)
qed

text \<open>\<open>n_bytes\<close> counts the bytes of the packets sent.\<close>

lemma vp9_send_packet_counts:
  "n_bytes (fst (snd (send_pkts vp9_send_packet ps err (ves, s)))) =
     n_bytes ves + of_nat (sum_list (map (\<lambda>p. length (p_hdr p) + length (p_pld p)) ps))"
proof (induction ps arbitrary: err ves s)
  case Nil
  then show ?case by simp
next
  case (Cons p ps)
  obtain e v2 s2 where h: "vp9_send_packet (p_marker p) (p_ts p) (p_hdr p) (p_pld p) (ves, s) = (e, v2, s2)"
    by (metis prod_cases3)
  have "n_bytes v2 = n_bytes ves + of_nat (length (p_hdr p) + length (p_pld p))"
    using h by (auto simp: vp9_send_packet_def Let_def split: prod.splits)
  then show ?case using Cons.IH[of "err OR e" v2 s2] by (simp add: h)
qed

subsection \<open>Header round trip and reassembly\<close>

lemma vp9_byte0_bits:
  fixes st en :: bool
  defines "b \<equiv> push_bit 7 1 OR push_bit 3 (of_bool st) OR push_bit 2 (of_bool en) :: u8"
  shows "bit b 7" "\<not> bit b 6" "\<not> bit b 5" "\<not> bit b 4" "bit b 3 = st" "bit b 2 = en" "\<not> bit b 1"
  unfolding b_def by (cases st; cases en; simp add: bit_simps)+

definition vp9_hdr_of :: "bool \<Rightarrow> bool \<Rightarrow> u16 \<Rightarrow> vp9_hdr" where
  "vp9_hdr_of st en picid =
     vp9_hdr0\<lparr>g_i := True, g_b := st, g_e := en, g_picid := picid AND 0x7fff\<rparr>"

lemma vp9_hdr_decode_bytes:
  assumes "mbuf_laws M" "mb_wf mb" "mb_unread mb = vp9_hdr_encode st en picid @ pld"
  obtains mb' where "vp9_hdr_decode M mb = (0, vp9_hdr_of st en picid, mb')"
    "mb_wf mb'" "mb_unread mb' = pld"
proof -
  define b0 where "b0 = (push_bit 7 1 OR push_bit 3 (of_bool st) OR push_bit 2 (of_bool en) :: u8)"
  define b1 where "b1 = (ucast (push_bit 7 1 OR (drop_bit 8 picid AND 0x7f)) :: u8)"
  define b2 where "b2 = (ucast (picid AND 0xff) :: u8)"
  have u0: "mb_unread mb = b0 # b1 # b2 # pld"
    using assms(3) by (simp add: vp9_hdr_encode_def b0_def b1_def b2_def)
  obtain m1 where m1: "\<forall>k (h :: vp9_hdr). need_byte M mb k h = k b0 m1" and w1: "mb_wf m1" and
    u1: "mb_unread m1 = b1 # b2 # pld"
    by (rule need_byte_Cons[OF assms(1,2) u0, where ?'a = vp9_hdr]) blast
  obtain m2 where m2: "\<forall>k (h :: vp9_hdr). need_byte M m1 k h = k b1 m2" and w2: "mb_wf m2" and
    u2: "mb_unread m2 = b2 # pld"
    by (rule need_byte_Cons[OF assms(1) w1 u1, where ?'a = vp9_hdr]) blast
  obtain m3 where m3: "\<forall>k (h :: vp9_hdr). need_byte M m2 k h = k b2 m3" and w3: "mb_wf m3" and
    u3: "mb_unread m3 = pld"
    by (rule need_byte_Cons[OF assms(1) w2 u2, where ?'a = vp9_hdr]) blast
  have v0: "bit b0 7" "\<not> bit b0 6" "\<not> bit b0 5" "\<not> bit b0 4" "bit b0 3 = st" "bit b0 2 = en" "\<not> bit b0 1"
    unfolding b0_def by (rule vp9_byte0_bits)+
  have v1: "bit b1 7" unfolding b1_def by (rule picid_long_form)
  have v2: "push_bit 8 (ucast (b1 AND 0x7f)) + ucast b2 = picid AND 0x7fff"
    unfolding b1_def b2_def by (rule picid_join)
  have "vp9_hdr_decode M mb = (0, vp9_hdr_of st en picid, m3)"
    by (simp add: vp9_hdr_decode_def m1 m2 m3 vp9_hdr_of_def vp9_hdr0_def v0 v0(7)[simplified] v1 v2)
  then show ?thesis using that w3 u3 by blast
qed

definition vp9_rx ::
  "mbuf_ops \<Rightarrow> 'c dec_ops \<Rightarrow> 'c vp9_dec \<Rightarrow> bool \<Rightarrow> u16 \<Rightarrow> u8 list
     \<Rightarrow> 'c vp9_dec dec_result \<times> 'c vp9_dec" where
  "vp9_rx M V vds marker seq bytes =
     (let r = vp9_decode M V True vds marker seq (mbuf_of bytes) in (r, r_vds r))"

lemma vp9_rx_hdr:
  assumes "mbuf_laws M"
  obtains mb where "mb_wf mb" "mb_unread mb = b"
    "vp9_hdr_decode M (mbuf_of (vp9_hdr_encode st en picid @ b)) = (0, vp9_hdr_of st en picid, mb)"
  by (rule vp9_hdr_decode_bytes[OF assms mbuf_of_simps(1) mbuf_of_simps(2)]) (rule that)

interpretation vp9_recv: frame_decoder M V v_core "vp9_rx M V" "\<lambda>st en. vp9_hdr_encode st en picid"
  for M :: mbuf_ops and V :: "'c dec_ops" and picid
proof
  fix d d' :: "'c vp9_dec" and mk q e b r
  assume laws: "mbuf_laws M"
  note rx = vp9_rx_def vp9_decode_def vp9_finish_def appends_def vp9_hdr_of_def Let_def seq_diff_next
  show "appends M V (dec_start M (v_core d) q) b mk r (v_core d')"
    if "vp9_rx M V d mk q (vp9_hdr_encode True e picid @ b) = (r, d')"
    by (rule vp9_rx_hdr[OF laws, of b True e picid]) (use that in \<open>auto simp: rx split: prod.splits\<close>)
  show "appends M V ((v_core d)\<lparr>d_seq := q + 1\<rparr>) b mk r (v_core d')"
    if "d_started (v_core d)" "d_seq (v_core d) = q" "vp9_rx M V d mk (q + 1) (vp9_hdr_encode False e picid @ b) = (r, d')"
    by (rule vp9_rx_hdr[OF laws, of b False e picid]) (use that in \<open>auto simp: rx split: prod.splits\<close>)
  show "r_err r = 0 \<and> r_frame r = None \<and> v_core d' = dec_out M (v_core d)"
    if "d_started (v_core d)" "q \<noteq> d_seq (v_core d) + 1" "vp9_rx M V d mk q (vp9_hdr_encode False e picid @ b) = (r, d')"
    by (rule vp9_rx_hdr[OF laws, of b False e picid]) (use that in \<open>auto simp: rx\<close>)
  show "r_err r = 0 \<and> r_frame r = None \<and> v_core d' = v_core d"
    if "\<not> d_started (v_core d)" "vp9_rx M V d mk q (vp9_hdr_encode False e picid @ b) = (r, d')"
    by (rule vp9_rx_hdr[OF laws, of b False e picid]) (use that in \<open>auto simp: rx\<close>)
qed

subsection \<open>Properties\<close>

text \<open>
  C7: End to end.  A frame that fits the frame buffer, packetized by the VP9
  \<open>packetize\<close> and received in order by \<open>vp9_decode\<close> in any state, reaches
  the codec byte for byte.
\<close>

theorem vp9_roundtrip:
  assumes "mbuf_laws M" "mbuf_no_oom M" "mb_wf (d_mb (v_core d))"
    and "VP9_HDR_SIZE < maxlen" "maxlen < 2 ^ 64" "length frame \<le> DECODE_MAXSZ"
  shows "\<exists>pkts rs d'. vp9_packetize rec_pkth True frame maxlen picid ts [] = Some (0, pkts) \<and>
     frags_of True ts maxlen frame pkts \<and>
     feed (vp9_rx M V) d q pkts = (rs, d') \<and> rs \<noteq> [] \<and>
     dec_fin V (d_ctx (v_core d)) frame (last rs) (v_core d')"
proof -
  let ?ps = "frag_pkts (\<lambda>st en. vp9_hdr_encode st en picid) True ts (maxlen - VP9_HDR_SIZE) True frame"
  have sent: "vp9_packetize rec_pkth True frame maxlen picid ts [] = Some (0, ?ps)"
    by (simp add: vp9_send.pk_sends[OF assms(4,5)])
  have frags: "frags_of True ts maxlen frame ?ps"
    by (rule frag_pkts_frags_of[OF vp9_send.hdr_length assms(4)])
  obtain rs d' where fed: "feed (vp9_rx M V) d q ?ps = (rs, d')" by fastforce
  have "dec_idle M (v_core d) (d_ctx (v_core d))" using assms(1-3) by (simp add: dec_idle_def)
  from vp9_recv.feed_frame[OF this assms(6) fed] show ?thesis using sent fed frags by blast
qed

theorem vp9_roundtrip_witness:
  "\<exists>pkts rs d'. vp9_packetize rec_pkth True [1, 2, 3, 4, 5] 5 7 90 [] = Some (0, pkts) \<and>
     frags_of True 90 5 [1, 2, 3, 4, 5] pkts \<and>
     feed (vp9_rx ref_mbuf echo_dec) \<lparr>v_core = fresh_dec, v_n_frames = 0, v_n_bytes = 0\<rparr> 65535 pkts = (rs, d') \<and>
     rs \<noteq> [] \<and>
     dec_fin echo_dec (d_ctx (v_core \<lparr>v_core = fresh_dec, v_n_frames = 0, v_n_bytes = 0\<rparr>))
       [1, 2, 3, 4, 5] (last rs) (v_core d')"
  by (rule vp9_roundtrip)
     (simp_all add: ref_mbuf_laws ref_mbuf_no_oom VP9_HDR_SIZE_def DECODE_MAXSZ_def fresh_dec_def)

text \<open>
  When the encoder is open, accepts the picture and produces no packet,
  \<open>vp9_encode\<close> returns the value its uninitialised variable \<open>err\<close> holds.
\<close>

theorem vp9_encode_uninitialised_result:
  assumes "n_ctxup ves" "n_size ves = vf_size frame" "vf_fmt frame = VID_FMT_YUV420P"
    and "ve_img_wrap V frame" "ve_encode V (n_ctx ves) frame timestamp update = (0, ctx)"
    and "ve_cx_data V ctx = []"
  shows "map_option fst (vp9_encode V junk (Some ves) update (Some frame) timestamp s) = Some junk"
  using assms by (simp add: vp9_encode_def)

definition idle_enc :: "nat enc_ops" where
  "idle_enc = \<lparr>ve_config_default = 0, ve_init = (\<lambda>_. (0, 0)), ve_control = (\<lambda>c _ _. (0, c)),
     ve_destroy = (\<lambda>c. c), ve_img_wrap = (\<lambda>_. True), ve_encode = (\<lambda>c _ _ _. (0, c + 1)),
     ve_cx_data = (\<lambda>_. [])\<rparr>"

theorem vp9_encode_uninitialised_result_witness:
  "map_option fst (vp9_encode idle_enc 99
     (Some \<lparr>n_ctx = 0, n_size = \<lparr>sz_w = 2, sz_h = 2\<rparr>, n_fps = 25, n_bitrate = 1, n_pktsize = 1024,
            n_ctxup = True, n_picid = 0, n_pkth = rec_pkth, n_frames = 0, n_key_frames = 0, n_bytes = 0\<rparr>)
     False (Some \<lparr>vf_data = [], vf_linesize = [], vf_size = \<lparr>sz_w = 2, sz_h = 2\<rparr>,
                  vf_fmt = VID_FMT_YUV420P\<rparr>) 0 []) = Some 99"
  by (rule vp9_encode_uninitialised_result[where ctx = 1]) (simp_all add: idle_enc_def)

end
