(* ===== verification/Startcode.thy ===== *)
theory Startcode
  imports VideoTypes
begin

text \<open>
  The search for the Annex B start code 00 00 01 in src/src/h264.c and
  modules/avcodec/h265.c.  Memory is a function from addresses to bytes and a
  pointer is an address, so that \<open>(long)p & 3\<close>, the aligned 32-bit loads and
  the pointer arithmetic are those of the code.  The optimised search is shown
  equal to the plain scan \<open>sc_scan\<close>, and \<open>sc_scan\<close> to the list function
  \<open>find_sc\<close>.
\<close>

subsection \<open>The optimised search\<close>

type_synonym memory = "int \<Rightarrow> u8"

definition sc_at :: "memory \<Rightarrow> int \<Rightarrow> bool" where
  "sc_at mem p = (mem p = 0 \<and> mem (p + 1) = 0 \<and> mem (p + 2) = 1)"

text \<open>The byte loops before and after the aligned part: \<open>Inl\<close> returns, \<open>Inr\<close> leaves the loop.\<close>

function sc_bytes :: "memory \<Rightarrow> int \<Rightarrow> int \<Rightarrow> int + int" where
  "sc_bytes mem stop p =
     (if p < stop then if sc_at mem p then Inl p else sc_bytes mem stop (p + 1) else Inr p)"
  by pat_completeness auto
termination
  by (relation "measure (\<lambda>(mem, stop, p). nat (stop - p))") auto

declare sc_bytes.simps [simp del]

definition load32 :: "memory \<Rightarrow> int \<Rightarrow> u32" where
  "load32 mem p = ucast (mem p) + 256 * ucast (mem (p + 1)) + 65536 * ucast (mem (p + 2))
     + 16777216 * ucast (mem (p + 3))"

text \<open>The body of the word loop: the position it returns, if it returns one.\<close>

definition sc_word :: "memory \<Rightarrow> int \<Rightarrow> int option" where
  "sc_word mem p =
     (let x = load32 mem p
      in if (x - 0x01010101) AND NOT x AND 0x80808080 \<noteq> 0
         then if mem (p + 1) = 0 \<and> mem p = 0 \<and> mem (p + 2) = 1 then Some p
              else if mem (p + 1) = 0 \<and> mem (p + 2) = 0 \<and> mem (p + 3) = 1 then Some (p + 1)
              else if mem (p + 3) = 0 \<and> mem (p + 2) = 0 \<and> mem (p + 4) = 1 then Some (p + 2)
              else if mem (p + 3) = 0 \<and> mem (p + 4) = 0 \<and> mem (p + 5) = 1 then Some (p + 3)
              else None
         else None)"

function sc_words :: "memory \<Rightarrow> int \<Rightarrow> int \<Rightarrow> int + int" where
  "sc_words mem stop p =
     (if p < stop
      then case sc_word mem p of Some r \<Rightarrow> Inl r | None \<Rightarrow> sc_words mem stop (p + 4)
      else Inr p)"
  by pat_completeness auto
termination
  by (relation "measure (\<lambda>(mem, stop, p). nat (stop - p))") auto

declare sc_words.simps [simp del]

definition h264_find_startcode :: "memory \<Rightarrow> int \<Rightarrow> int \<Rightarrow> int" where
  "h264_find_startcode mem p e =
     (let a = p + 4 - p mod 4; e = e - 3
      in case sc_bytes mem (min a e) p of Inl r \<Rightarrow> r
         | Inr p \<Rightarrow>
             (let e = e - 3
              in case sc_words mem e p of Inl r \<Rightarrow> r
                 | Inr p \<Rightarrow>
                     (let e = e + 3
                      in case sc_bytes mem e p of Inl r \<Rightarrow> r | Inr p \<Rightarrow> e + 3)))"

definition h265_find_startcode :: "memory \<Rightarrow> int \<Rightarrow> int \<Rightarrow> int" where
  "h265_find_startcode mem p e =
     (let a = p + 4 - p mod 4; e = e - 3
      in case sc_bytes mem (min a e) p of Inl r \<Rightarrow> r
         | Inr p \<Rightarrow>
             (let e = e - 3
              in case sc_words mem e p of Inl r \<Rightarrow> r
                 | Inr p \<Rightarrow>
                     (let e = e + 3
                      in case sc_bytes mem e p of Inl r \<Rightarrow> r | Inr p \<Rightarrow> e + 3)))"

subsection \<open>The reference scan\<close>

text \<open>
  The first position that holds a start code with at least one byte after it,
  or the end.
\<close>

function sc_scan :: "memory \<Rightarrow> int \<Rightarrow> int \<Rightarrow> int" where
  "sc_scan mem p e = (if p < e - 3 then if sc_at mem p then p else sc_scan mem (p + 1) e else e)"
  by pat_completeness auto
termination
  by (relation "measure (\<lambda>(mem, p, e). nat (e - p))") auto

declare sc_scan.simps [simp del]

lemma sc_scan_ge: "e - 3 \<le> p \<Longrightarrow> sc_scan mem p e = e"
  by (simp add: sc_scan.simps)

lemma sc_scan_hit: "p < e - 3 \<Longrightarrow> sc_at mem p \<Longrightarrow> sc_scan mem p e = p"
  by (simp add: sc_scan.simps)

lemma sc_scan_miss: "p < e - 3 \<Longrightarrow> \<not> sc_at mem p \<Longrightarrow> sc_scan mem p e = sc_scan mem (p + 1) e"
  by (subst sc_scan.simps) simp

lemma sc_bytes_scan:
  "stop \<le> e - 3 \<Longrightarrow>
   (case sc_bytes mem stop p of
      Inl r \<Rightarrow> sc_scan mem p e = r \<and> r < e - 3
    | Inr q \<Rightarrow> sc_scan mem p e = sc_scan mem q e \<and> stop \<le> q \<and> q = max p stop)"
proof (induction mem stop p rule: sc_bytes.induct)
  case (1 mem stop p)
  show ?case
  proof (cases "p < stop")
    case False
    then show ?thesis by (simp add: sc_bytes.simps)
  next
    case True
    show ?thesis
    proof (cases "sc_at mem p")
      case True
      then show ?thesis using \<open>p < stop\<close> "1.prems" by (simp add: sc_bytes.simps sc_scan_hit)
    next
      case False
      then have "sc_bytes mem stop p = sc_bytes mem stop (p + 1)"
        "sc_scan mem p e = sc_scan mem (p + 1) e"
        using \<open>p < stop\<close> "1.prems" by (subst sc_bytes.simps, simp, simp add: sc_scan_miss)
      then show ?thesis
        using "1.IH"[OF \<open>p < stop\<close> False "1.prems"] \<open>p < stop\<close> by (simp split: sum.splits)
    qed
  qed
qed

subsection \<open>The word test\<close>

text \<open>
  A word with a zero byte at position 1 or 3 passes the test
  \<open>(x - 0x01010101) & ~x & 0x80808080\<close>.
\<close>


lemma unat_byte: "unat (b :: u8) < 256"
  using unsigned_less[of b, where ?'a = nat] by simp

lemma unat_load32:
  "unat (load32 mem p) = unat (mem p) + 256 * unat (mem (p + 1)) + 65536 * unat (mem (p + 2))
     + 16777216 * unat (mem (p + 3))" (is "_ = ?n")
proof -
  have "?n < 2 ^ 32"
    using unat_byte[of "mem p"] unat_byte[of "mem (p + 1)"] unat_byte[of "mem (p + 2)"]
      unat_byte[of "mem (p + 3)"] by simp
  then have "take_bit LENGTH(32) ?n = ?n" by (intro take_bit_nat_eq_self) simp
  moreover have "load32 mem p = word_of_nat ?n" by (simp add: load32_def)
  ultimately show ?thesis by (simp only: unsigned_of_nat of_nat_id)
qed

lemma bit_unat: "bit (x :: u32) n = odd (unat x div 2 ^ n)"
proof -
  have "odd (unat x div 2 ^ n) = bit (unat x) n" by (simp only: bit_iff_odd)
  then show ?thesis by (auto simp add: bit_unsigned_iff possible_bit_def dest: bit_imp_le_length)
qed

text \<open>
  The top bit of byte 1 of the difference, when byte 1 is zero: the borrow out
  of byte 0 does not matter.  The same for byte 3.
\<close>

lemma odd_div_sub:
  fixes r k :: int
  assumes "-257 \<le> r" "r < 0"
  shows "odd ((r + 32768 * (2 * k)) mod 2 ^ 32 div 32768)"
proof -
  define q where "q = (r + 32768 * (2 * k)) div 2 ^ 32"
  have "(r + 32768 * (2 * k)) mod 2 ^ 32 = 32768 * (2 * k - 131072 * q - 1) + (32768 + r)"
    unfolding q_def minus_div_mult_eq_mod[symmetric] by simp
  then have "(r + 32768 * (2 * k)) mod 2 ^ 32 div 32768 = 2 * k - 131072 * q - 1"
    by (rule int_div_pos_eq) (use assms in auto)
  then show ?thesis by simp
qed

lemma sub_ones_bit15:
  assumes "unat (x :: u32) = b0 + 65536 * k" "b0 < 256"
  shows "bit (x - 0x01010101) 15"
proof -
  have "uint x = int b0 + 65536 * int k" using arg_cong[OF assms(1), of int] by simp
  then have "uint (x - 0x01010101) = ((int b0 - 257) + 32768 * (2 * (int k - 257))) mod 2 ^ 32"
    using uint_word_ariths(2)[of x "0x01010101"] by simp
  then have "odd (uint (x - 0x01010101) div 2 ^ 15)"
    using odd_div_sub[of "int b0 - 257" "int k - 257"] assms(2) by simp
  then have "bit (uint (x - 0x01010101)) 15" by (simp only: bit_iff_odd not_False_eq_True)
  then show ?thesis by (simp add: bit_uint_iff)
qed

lemma sub_ones_bit31:
  assumes "unat (x :: u32) < 16777216"
  shows "bit (x - 0x01010101) 31"
proof -
  define n where "n = uint x"
  have "int (unat x) < int 16777216" using assms by (simp only: of_nat_less_iff)
  then have n: "0 \<le> n" "n < 16777216" by (simp_all add: n_def)
  have "uint (x - 0x01010101) = (n - 16843009) mod 2 ^ 32"
    using uint_word_ariths(2)[of x "0x01010101"] by (simp add: n_def)
  also have "\<dots> = (n - 16843009 + 2 ^ 32) mod 2 ^ 32" by (simp only: mod_add_self2)
  also have "\<dots> = n - 16843009 + 2 ^ 32" by (rule mod_pos_pos_trivial) (use n in auto)
  finally have u: "uint (x - 0x01010101) = 2 ^ 31 * 1 + (2 ^ 31 + n - 16843009)" by simp
  have "uint (x - 0x01010101) div 2 ^ 31 = 1"
    by (rule int_div_pos_eq[OF u]) (use n in auto)
  then have "bit (uint (x - 0x01010101)) 31" by (simp only: bit_iff_odd odd_one not_False_eq_True)
  then show ?thesis by (simp add: bit_uint_iff)
qed

definition word_test :: "u32 \<Rightarrow> bool" where
  "word_test x = ((x - 0x01010101) AND NOT x AND 0x80808080 \<noteq> 0)"

lemma word_testI:
  assumes "bit (x - 0x01010101) n" "\<not> bit x n" "bit (0x80808080 :: u32) n" "n < 32"
  shows "word_test x"
  unfolding word_test_def
proof
  assume "(x - 0x01010101) AND NOT x AND 0x80808080 = 0"
  then have "\<not> bit ((x - 0x01010101) AND NOT x AND 0x80808080) n" by simp
  then show False using assms by (simp add: bit_and_iff bit_not_iff)
qed

lemma word_test_byte1: "mem (p + 1) = 0 \<Longrightarrow> word_test (load32 mem p)"
proof (rule word_testI[where n = 15])
  assume z: "mem (p + 1) = 0"
  have u: "unat (load32 mem p) = unat (mem p) + 65536 * (unat (mem (p + 2)) + 256 * unat (mem (p + 3)))"
    using z by (simp add: unat_load32)
  show "bit (load32 mem p - 0x01010101) 15" by (rule sub_ones_bit15[OF u unat_byte])
  have "unat (load32 mem p) div 2 ^ 15 = 2 * (unat (mem (p + 2)) + 256 * unat (mem (p + 3)))"
    unfolding u using unat_byte[of "mem p"] by simp
  then show "\<not> bit (load32 mem p) 15" by (simp only: bit_unat) simp
qed simp_all

lemma word_test_byte3: "mem (p + 3) = 0 \<Longrightarrow> word_test (load32 mem p)"
proof (rule word_testI[where n = 31])
  assume z: "mem (p + 3) = 0"
  have u: "unat (load32 mem p) < 16777216"
    using z unat_byte[of "mem p"] unat_byte[of "mem (p + 1)"] unat_byte[of "mem (p + 2)"]
    by (simp add: unat_load32)
  show "bit (load32 mem p - 0x01010101) 31" by (rule sub_ones_bit31[OF u])
  have "unat (load32 mem p) div 2 ^ 31 = 0" using u by simp
  then show "\<not> bit (load32 mem p) 31" by (simp only: bit_unat) simp
qed simp_all

text \<open>The word body finds a start code among the next four positions exactly as the scan does.\<close>

lemma sc_word_scan:
  assumes "p < e - 6"
  shows "case sc_word mem p of
       Some r \<Rightarrow> sc_scan mem p e = r \<and> r < e - 3
     | None \<Rightarrow> sc_scan mem p e = sc_scan mem (p + 4) e"
proof -
  have step: "sc_scan mem q e = (if sc_at mem q then q else sc_scan mem (q + 1) e)" if "q < e - 3" for q
    using that by (simp add: sc_scan_hit sc_scan_miss)
  have unf: "sc_scan mem p e =
      (if sc_at mem p then p else if sc_at mem (p + 1) then p + 1
       else if sc_at mem (p + 2) then p + 2 else if sc_at mem (p + 3) then p + 3
       else sc_scan mem (p + 4) e)"
    using step[of p] step[of "p + 1"] step[of "p + 2"] step[of "p + 3"] assms by (simp add: add.assoc)
  have t: "word_test (load32 mem p)" if "mem (p + 1) = 0 \<or> mem (p + 3) = 0"
    using that word_test_byte1 word_test_byte3 by blast
  show ?thesis
  proof (cases "word_test (load32 mem p)")
    case False
    then have "mem (p + 1) \<noteq> 0" "mem (p + 3) \<noteq> 0" using t by auto
    then have "\<not> sc_at mem p" "\<not> sc_at mem (p + 1)" "\<not> sc_at mem (p + 2)" "\<not> sc_at mem (p + 3)"
      by (auto simp: sc_at_def ac_simps)
    then show ?thesis using False unf by (simp add: sc_word_def word_test_def)
  next
    case True
    then show ?thesis
      using assms unfolding unf
      by (simp add: sc_word_def word_test_def sc_at_def add.assoc)
  qed
qed

lemma sc_words_scan:
  "stop \<le> e - 6 \<Longrightarrow>
   (case sc_words mem stop p of
      Inl r \<Rightarrow> sc_scan mem p e = r
    | Inr q \<Rightarrow> sc_scan mem p e = sc_scan mem q e)"
proof (induction mem stop p rule: sc_words.induct)
  case (1 mem stop p)
  show ?case
  proof (cases "p < stop")
    case False
    then show ?thesis by (simp add: sc_words.simps)
  next
    case True
    with "1.prems" have w: "case sc_word mem p of Some r \<Rightarrow> sc_scan mem p e = r \<and> r < e - 3
        | None \<Rightarrow> sc_scan mem p e = sc_scan mem (p + 4) e"
      by (intro sc_word_scan) simp
    show ?thesis
    proof (cases "sc_word mem p")
      case (Some r)
      then show ?thesis using w True by (simp add: sc_words.simps)
    next
      case None
      have "sc_words mem stop p = sc_words mem stop (p + 4)"
        using True None by (subst sc_words.simps) simp
      then show ?thesis using "1.IH"[OF True None "1.prems"] w None by (simp split: sum.splits)
    qed
  qed
qed

subsection \<open>The search is the scan\<close>

lemma h264_startcode_eq: "h264_find_startcode mem p e = sc_scan mem p e"
proof -
  note b1 = sc_bytes_scan[of "min (p + 4 - p mod 4) (e - 3)" e mem p]
  show ?thesis
  proof (cases "sc_bytes mem (min (p + 4 - p mod 4) (e - 3)) p")
    case (Inl r)
    then show ?thesis using b1 by (simp add: h264_find_startcode_def)
  next
    case b: (Inr q)
    note w1 = sc_words_scan[of "e - 6" e mem q]
    show ?thesis
    proof (cases "sc_words mem (e - 6) q")
      case (Inl r)
      then show ?thesis using b b1 w1 by (simp add: h264_find_startcode_def)
    next
      case w: (Inr q2)
      show ?thesis
        using sc_bytes_scan[of "e - 3" e mem q2] b b1 w w1
        by (auto simp add: h264_find_startcode_def sc_scan_ge split: sum.splits)
    qed
  qed
qed

lemma h265_startcode_eq: "h265_find_startcode mem p e = sc_scan mem p e"
  using h264_startcode_eq[of mem p e]
  by (simp add: h264_find_startcode_def h265_find_startcode_def)

text \<open>
  C4: The optimised start code searches (alignment prologue, word-at-a-time
  loop with the zero-byte test, epilogue) return, for every memory, pointer
  and end, what the plain byte-by-byte scan returns.
\<close>

theorem find_startcode_scan:
  "h264_find_startcode mem p e = sc_scan mem p e \<and> h265_find_startcode mem p e = sc_scan mem p e"
  by (simp add: h264_startcode_eq h265_startcode_eq)

subsection \<open>Start codes in byte strings\<close>

definition mem_slice :: "memory \<Rightarrow> int \<Rightarrow> nat \<Rightarrow> u8 list" where
  "mem_slice mem a n = map (\<lambda>i. mem (a + int i)) [0..<n]"

lemma slice_0 [simp]: "mem_slice mem a 0 = []"
  by (simp add: mem_slice_def)

lemma slice_Suc: "mem_slice mem a (Suc n) = mem a # mem_slice mem (a + 1) n"
  by (simp add: mem_slice_def upt_conv_Cons map_Suc_upt[symmetric] comp_def ac_simps del: upt_Suc)

lemma length_slice [simp]: "length (mem_slice mem a n) = n"
  by (simp add: mem_slice_def)

lemma slice_add: "mem_slice mem a (m + n) = mem_slice mem a m @ mem_slice mem (a + int m) n"
  by (induction m arbitrary: a) (simp_all add: slice_Suc ac_simps)

lemma slice_appendD:
  assumes "mem_slice mem a n = xs @ ys"
  shows "mem_slice mem a (length xs) = xs" "mem_slice mem (a + int (length xs)) (length ys) = ys"
    "n = length xs + length ys"
proof -
  show n: "n = length xs + length ys" using arg_cong[OF assms, of length] by simp
  then have "mem_slice mem a (length xs) @ mem_slice mem (a + int (length xs)) (length ys) = xs @ ys"
    using assms by (simp add: slice_add)
  then show "mem_slice mem a (length xs) = xs" "mem_slice mem (a + int (length xs)) (length ys) = ys"
    by simp_all
qed

text \<open>The scan over a list: the index of the first start code with a byte after it.\<close>

fun find_sc :: "u8 list \<Rightarrow> nat" where
  "find_sc (a # b # c # d # xs) =
     (if a = 0 \<and> b = 0 \<and> c = 1 then 0 else Suc (find_sc (b # c # d # xs)))"
| "find_sc xs = length xs"

lemma find_sc_short: "length xs \<le> 3 \<Longrightarrow> find_sc xs = length xs"
  by (cases xs rule: find_sc.cases) auto

lemma sc_scan_slice: "sc_scan mem p (p + int n) = p + int (find_sc (mem_slice mem p n))"
proof (induction n arbitrary: p)
  case 0
  then show ?case by (simp add: sc_scan_ge)
next
  case (Suc n)
  show ?case
  proof (cases "n < 3")
    case True
    then show ?thesis by (simp add: sc_scan_ge find_sc_short)
  next
    case False
    then obtain k where n: "n = Suc (Suc (Suc k))" by (metis Suc_less_eq less_2_cases numeral_3_eq_3 not0_implies_Suc not_less_eq numeral_2_eq_2 zero_less_Suc)
    have s: "mem_slice mem p (Suc n) =
        mem p # mem (p + 1) # mem (p + 2) # mem (p + 3) # mem_slice mem (p + 4) k"
      by (simp add: n slice_Suc add.assoc)
    have s1: "mem_slice mem (p + 1) n = mem (p + 1) # mem (p + 2) # mem (p + 3) # mem_slice mem (p + 4) k"
      by (simp add: n slice_Suc add.assoc)
    have lt: "p < p + int (Suc n) - 3" by (simp add: n)
    show ?thesis
    proof (cases "sc_at mem p")
      case True
      then show ?thesis using lt by (simp add: sc_scan_hit s) (simp add: sc_at_def)
    next
      case False
      then have "sc_scan mem p (p + int (Suc n)) = sc_scan mem (p + 1) (p + 1 + int n)"
        using sc_scan_miss[OF lt False] by (simp add: ac_simps)
      also have "\<dots> = p + 1 + int (find_sc (mem_slice mem (p + 1) n))" by (rule Suc.IH)
      finally show ?thesis using False by (simp add: s s1 sc_at_def)
    qed
  qed
qed

text \<open>A NAL unit holds no start code; one found in an Annex B stream begins the next unit.\<close>

fun has_sc :: "u8 list \<Rightarrow> bool" where
  "has_sc (a # b # c # xs) = (a = 0 \<and> b = 0 \<and> c = 1 \<or> has_sc (b # c # xs))"
| "has_sc xs = False"

lemma find_sc_none: "\<not> has_sc xs \<Longrightarrow> find_sc xs = length xs"
  by (induction xs rule: find_sc.induct) auto

lemma find_sc_next: "\<not> has_sc n \<Longrightarrow> find_sc (n @ 0 # 0 # 1 # y # ys) = length n"
proof (induction n rule: has_sc.induct)
  case (1 a b c xs)
  then show ?case by (cases xs) auto
qed simp_all

subsection \<open>Start code helpers of H.265\<close>

definition h265_skip_startcode :: "u8 list \<Rightarrow> u8 list" where
  "h265_skip_startcode p =
     (if length p < 4 then p
      else if take 4 p = [0, 0, 0, 1] then drop 4 p
      else if take 3 p = [0, 0, 1] then drop 3 p
      else p)"

definition h265_have_startcode :: "u8 list \<Rightarrow> bool" where
  "h265_have_startcode p =
     (if length p \<ge> 4 \<and> take 4 p = [0, 0, 0, 1] then True
      else if length p \<ge> 3 \<and> take 3 p = [0, 0, 1] then True
      else False)"

text \<open>
  Skipping removes exactly the start code that \<open>h265_have_startcode\<close> reports,
  except that three bytes are too short to be skipped.
\<close>

lemma h265_skip_have:
  "length p \<noteq> 3 \<Longrightarrow> (h265_skip_startcode p \<noteq> p) = h265_have_startcode p"
proof -
  have "drop n p \<noteq> p" if "0 < n" "n \<le> length p" for n
    using that by (metis diff_less length_drop less_irrefl less_le_trans)
  then show "length p \<noteq> 3 \<Longrightarrow> ?thesis"
    by (auto simp: h265_skip_startcode_def h265_have_startcode_def)
qed

end
