(* ===== verification/H264.thy ===== *)
theory H264
  imports Startcode Fragment
begin

text \<open>
  src/src/h264.c: the FU header, \<open>h264_nal_send\<close>, which sends a NAL unit as one
  packet or as fragmentation units (FU-A), and \<open>h264_packetize\<close>, which cuts an
  Annex B byte stream into NAL units and sends them.
\<close>

subsection \<open>FU header\<close>

record h264_fu =
  fu_s :: bool
  fu_e :: bool
  fu_r :: bool
  fu_type :: u8

text \<open>As written in the source: the bit of the end flag is taken from \<open>s\<close>.\<close>

definition h264_fu_hdr_encode :: "mbuf_ops \<Rightarrow> h264_fu \<Rightarrow> mbuf \<Rightarrow> err \<times> mbuf" where
  "h264_fu_hdr_encode M fu mb =
     (let v = push_bit 7 (of_bool (fu_s fu)) OR push_bit 6 (of_bool (fu_s fu)) OR
              push_bit 5 (of_bool (fu_r fu)) OR fu_type fu
      in m_write_u8 M mb v)"

definition h264_fu_of_byte :: "u8 \<Rightarrow> h264_fu" where
  "h264_fu_of_byte v =
     \<lparr>fu_s = bit v 7, fu_e = bit v 6, fu_r = bit v 5, fu_type = v AND 0x1f\<rparr>"

definition h264_fu_hdr_decode :: "mbuf_ops \<Rightarrow> h264_fu \<Rightarrow> mbuf \<Rightarrow> err \<times> h264_fu \<times> mbuf" where
  "h264_fu_hdr_decode M fu mb =
     (if m_get_left M mb < 1 then (ENOENT, fu, mb)
      else let (v, mb) = m_read_u8 M mb in (0, h264_fu_of_byte v, mb))"

subsection \<open>Sending a NAL unit\<close>

definition H264_NALU_FU_A :: u8 where "H264_NALU_FU_A = 28"
definition H264_NALU_IDR_SLICE :: int where "H264_NALU_IDR_SLICE = 5"

definition h264_is_keyframe :: "int \<Rightarrow> bool" where
  "h264_is_keyframe type = (type = H264_NALU_IDR_SLICE)"

text \<open>The fragmentation loop: the rest of the buffer, the second header byte, the error code.\<close>

partial_function (option) h264_fu_loop ::
  "'s pkth \<Rightarrow> nat \<Rightarrow> u64 \<Rightarrow> u8 \<Rightarrow> u8 \<Rightarrow> u8 list \<Rightarrow> err \<Rightarrow> 's \<Rightarrow> (u8 list \<times> u8 \<times> err \<times> 's) option" where
  "h264_fu_loop pkth sz rtp_ts fu0 fu1 buf err s =
     (if length buf > sz
      then let (e, s') = pkth False rtp_ts [fu0, fu1] (take sz buf) s
           in h264_fu_loop pkth sz rtp_ts fu0 (fu1 AND NOT (push_bit 7 1)) (drop sz buf) (err OR e) s'
      else Some (buf, fu1, err, s))"

definition h264_fu_send ::
  "bool \<Rightarrow> bool \<Rightarrow> bool \<Rightarrow> u8 \<Rightarrow> u64 \<Rightarrow> u8 list \<Rightarrow> nat \<Rightarrow> 's pkth \<Rightarrow> 's \<Rightarrow> (err \<times> 's) option" where
  "h264_fu_send first lst marker hdr rtp_ts buf maxsz pkth s =
     (let type = hdr AND 0x1f; nri = hdr AND 0x60; sz = size_sub maxsz 2;
          fu0 = nri OR H264_NALU_FU_A;
          fu1 = (if first then push_bit 7 1 OR type else type)
      in case h264_fu_loop pkth sz rtp_ts fu0 fu1 buf 0 s of
           None \<Rightarrow> None
         | Some (buf', fu1, err, s') \<Rightarrow>
             (let fu1 = (if lst then fu1 OR push_bit 6 1 else fu1);
                  (e, s'') = pkth (marker \<and> lst) rtp_ts [fu0, fu1] buf' s'
              in Some (err OR e, s'')))"

definition h264_nal_send ::
  "bool \<Rightarrow> bool \<Rightarrow> bool \<Rightarrow> u32 \<Rightarrow> u64 \<Rightarrow> u8 list \<Rightarrow> nat \<Rightarrow> 's pkth \<Rightarrow> 's \<Rightarrow> (err \<times> 's) option" where
  "h264_nal_send first lst marker ihdr rtp_ts buf maxsz pkth s =
     (let hdr = ucast ihdr
      in if first \<and> lst \<and> length buf \<le> maxsz
         then Some (pkth marker rtp_ts [hdr] buf s)
         else h264_fu_send first lst marker hdr rtp_ts buf maxsz pkth s)"

subsection \<open>Packetizing a byte stream\<close>

text \<open>\<open>while (!*(r++));\<close>: the pointer after the first byte that is not zero.\<close>

partial_function (option) skip_zeros :: "memory \<Rightarrow> int \<Rightarrow> int option" where
  "skip_zeros mem r = (if mem r = 0 then skip_zeros mem (r + 1) else Some (r + 1))"

definition ptr_size :: "int \<Rightarrow> nat" where
  "ptr_size d = nat (d mod 2 ^ 64)"

partial_function (option) h264_pkt_loop ::
  "memory \<Rightarrow> int \<Rightarrow> u64 \<Rightarrow> nat \<Rightarrow> 's pkth \<Rightarrow> int \<Rightarrow> err \<Rightarrow> 's \<Rightarrow> (err \<times> 's) option" where
  "h264_pkt_loop mem e rtp_ts pktsize pkth r err s =
     (if r < e
      then Option.bind (skip_zeros mem r) (\<lambda>r.
             let r1 = h264_find_startcode mem r e
             in Option.bind
                  (h264_nal_send True True (r1 \<ge> e) (ucast (mem r)) rtp_ts
                     (mem_slice mem (r + 1) (ptr_size (r1 - r - 1))) pktsize pkth s)
                  (\<lambda>(er, s'). h264_pkt_loop mem e rtp_ts pktsize pkth r1 (err OR er) s'))
      else Some (err, s))"

definition h264_packetize ::
  "u64 \<Rightarrow> memory \<Rightarrow> int \<Rightarrow> nat \<Rightarrow> nat \<Rightarrow> 's pkth \<Rightarrow> 's \<Rightarrow> (err \<times> 's) option" where
  "h264_packetize rtp_ts mem buf len pktsize pkth s =
     (let e = buf + int len; r = h264_find_startcode mem buf e
      in h264_pkt_loop mem e rtp_ts pktsize pkth r 0 s)"

subsection \<open>Fragmentation units are fragments\<close>

definition fu_hdr :: "u8 \<Rightarrow> bool \<Rightarrow> bool \<Rightarrow> bool \<Rightarrow> bool \<Rightarrow> u8 list" where
  "fu_hdr hdr first lst st en =
     [(hdr AND 0x60) OR H264_NALU_FU_A,
      (if first \<and> st then push_bit 7 1 else 0) OR (hdr AND 0x1f) OR
      (if lst \<and> en then push_bit 6 1 else 0)]"

lemma fu1_clear: "((if first then push_bit 7 1 OR (hdr AND 0x1f) else hdr AND 0x1f) :: u8)
    AND NOT (push_bit 7 1) = hdr AND 0x1f"
  by (simp add: u8_eq_iff bit_simps)

lemma h264_fu_loop_sends:
  assumes "0 < sz" and fu1: "fu1 = (if first \<and> start then push_bit 7 1 OR (hdr AND 0x1f) else hdr AND 0x1f)"
  shows "(case h264_fu_loop pkth sz ts ((hdr AND 0x60) OR H264_NALU_FU_A) fu1 buf err s of
        None \<Rightarrow> None
      | Some (buf', fu1, err, s') \<Rightarrow>
          (let fu1 = (if lst then fu1 OR push_bit 6 1 else fu1);
               (e, s'') = pkth (marker \<and> lst) ts [(hdr AND 0x60) OR H264_NALU_FU_A, fu1] buf' s'
           in Some (err OR e, s''))) =
     Some (send_pkts pkth (frag_pkts (fu_hdr hdr first lst) (marker \<and> lst) ts sz start buf) err s)"
  using fu1
proof (induction "length buf" arbitrary: buf start fu1 err s rule: less_induct)
  case less
  note unf = h264_fu_loop.simps[of pkth sz ts _ fu1 buf err s]
  show ?case
  proof (cases "sz < length buf")
    case False
    then have "h264_fu_loop pkth sz ts ((hdr AND 0x60) OR H264_NALU_FU_A) fu1 buf err s =
        Some (buf, fu1, err, s)" by (simp add: unf)
    moreover have "fu_hdr hdr first lst start True =
        [(hdr AND 0x60) OR H264_NALU_FU_A, if lst then fu1 OR push_bit 6 1 else fu1]"
      using less.prems by (simp add: fu_hdr_def or.assoc)
    ultimately show ?thesis using False by (simp add: frag_pkts_last split_def Let_def)
  next
    case True
    have "length (drop sz buf) < length buf" using True assms(1) by simp
    moreover have "fu1 AND NOT (push_bit 7 1) = (if first \<and> False then push_bit 7 1 OR (hdr AND 0x1f) else hdr AND 0x1f)"
      unfolding less.prems by (subst fu1_clear) simp
    ultimately have IH: "(case h264_fu_loop pkth sz ts ((hdr AND 0x60) OR H264_NALU_FU_A)
            (fu1 AND NOT (push_bit 7 1)) (drop sz buf) err' s' of
        None \<Rightarrow> None
      | Some (buf', fu1, err, s') \<Rightarrow>
          (let fu1 = (if lst then fu1 OR push_bit 6 1 else fu1);
               (e, s'') = pkth (marker \<and> lst) ts [(hdr AND 0x60) OR H264_NALU_FU_A, fu1] buf' s'
           in Some (err OR e, s''))) =
     Some (send_pkts pkth (frag_pkts (fu_hdr hdr first lst) (marker \<and> lst) ts sz False (drop sz buf)) err' s')"
      for err' s' by (rule less.hyps)
    obtain e' s' where h: "pkth False ts [(hdr AND 0x60) OR H264_NALU_FU_A, fu1] (take sz buf) s = (e', s')"
      by fastforce
    moreover have "fu_hdr hdr first lst start False = [(hdr AND 0x60) OR H264_NALU_FU_A, fu1]"
      using less.prems by (simp add: fu_hdr_def)
    ultimately show ?thesis
      using True assms(1) IH[of "err OR e'" s'] by (subst unf) (simp add: frag_pkts_more)
  qed
qed

interpretation fu_send: fragmenter
  "\<lambda>pkth m ts buf maxsz s. h264_fu_send first True m hdr ts buf maxsz pkth s"
  "fu_hdr hdr first True" 2
  for first hdr
proof
  show "length (fu_hdr hdr first True a b) = 2" for a b by (simp add: fu_hdr_def)
  show "h264_fu_send first True m hdr ts buf maxsz pkth s =
      Some (send_pkts pkth (frag_pkts (fu_hdr hdr first True) m ts (maxsz - 2) True buf) 0 s)"
    if "2 < maxsz" "maxsz < 2 ^ 64" for maxsz and pkth :: "'a pkth" and m ts buf s
    using h264_fu_loop_sends[where sz = "maxsz - 2" and start = True and first = first and hdr = hdr
        and pkth = pkth and ts = ts and buf = buf and err = 0 and s = s and lst = True and marker = m] that
    by (simp add: h264_fu_send_def Let_def size_sub_le)
qed

text \<open>The packets of one NAL unit: a single NAL unit packet, or fragmentation units.\<close>

definition nal_pkts :: "bool \<Rightarrow> u64 \<Rightarrow> nat \<Rightarrow> u8 \<times> u8 list \<Rightarrow> pkt list" where
  "nal_pkts marker ts maxsz n =
     (case n of (hdr, pld) \<Rightarrow>
        if length pld \<le> maxsz then [\<lparr>p_marker = marker, p_ts = ts, p_hdr = [hdr], p_pld = pld\<rparr>]
        else frag_pkts (fu_hdr hdr True True) marker ts (maxsz - 2) True pld)"

lemma h264_nal_send_pkts:
  assumes "2 < maxsz" "maxsz < 2 ^ 64"
  shows "h264_nal_send True True marker (ucast (hdr :: u8)) ts pld maxsz pkth s =
    Some (send_pkts pkth (nal_pkts marker ts maxsz (hdr, pld)) 0 s)"
  using fu_send.pk_sends[OF assms, where h = pkth and m = marker and ts = ts and buf = pld and s = s
      and first = True and hdr = hdr]
  by (simp add: h264_nal_send_def nal_pkts_def Let_def split_def ucast_u8_u32)

subsection \<open>The NAL units of a byte stream\<close>

text \<open>An Annex B stream: every NAL unit (header byte and payload) behind a start code.\<close>

definition annexb :: "(u8 \<times> u8 list) list \<Rightarrow> u8 list" where
  "annexb ns = concat (map (\<lambda>(h, d). 0 # 0 # 1 # h # d) ns)"

definition nals_ok :: "(u8 \<times> u8 list) list \<Rightarrow> bool" where
  "nals_ok ns = list_all (\<lambda>(h, d). \<not> has_sc (h # d)) ns"

fun stream_pkts :: "u64 \<Rightarrow> nat \<Rightarrow> (u8 \<times> u8 list) list \<Rightarrow> pkt list" where
  "stream_pkts ts maxsz [] = []"
| "stream_pkts ts maxsz (n # ns) = nal_pkts (ns = []) ts maxsz n @ stream_pkts ts maxsz ns"

lemma annexb_Nil [simp]: "annexb [] = []"
  by (simp add: annexb_def)

lemma annexb_Cons: "annexb ((h, d) # ns) = 0 # 0 # 1 # h # d @ annexb ns"
  by (simp add: annexb_def)

lemma annexb_shape: "ns \<noteq> [] \<Longrightarrow> \<exists>y ys. annexb ns = 0 # 0 # 1 # y # ys"
  by (cases ns) (auto simp: annexb_Cons)

lemma find_sc_annexb:
  "\<not> has_sc n \<Longrightarrow> find_sc (n @ annexb ns) = length n"
  using annexb_shape[of ns] by (cases "ns = []") (auto simp: find_sc_none find_sc_next)

lemma skip_zeros_step:
  "mem r = 0 \<Longrightarrow> skip_zeros mem r = skip_zeros mem (r + 1)"
  "mem r \<noteq> 0 \<Longrightarrow> skip_zeros mem r = Some (r + 1)"
  by (simp_all add: skip_zeros.simps[of mem r])

lemma skip_zeros_sc:
  assumes "mem_slice mem r 4 = [0, 0, 1, h]"
  shows "skip_zeros mem r = Some (r + 3)"
proof -
  have "mem r = 0" "mem (r + 1) = 0" "mem (r + 2) = 1"
    using assms by (simp_all add: mem_slice_def upt_rec numeral_eq_Suc)
  then show ?thesis
    using skip_zeros_step(1)[of mem r] skip_zeros_step(1)[of mem "r + 1"]
      skip_zeros_step(2)[of mem "r + 2"]
    by (simp add: add.assoc)
qed

text \<open>
  One round of a packetizing loop: at the start code of a NAL unit, the unit
  ends at the next start code, where the rest of the stream begins.
\<close>

lemma annexb_round:
  fixes r :: int
  assumes "\<not> has_sc (h # d)" "mem_slice mem r (length (annexb ((h, d) # ns))) = annexb ((h, d) # ns)"
  defines "e \<equiv> r + int (length (annexb ((h, d) # ns)))" and "r1 \<equiv> r + 4 + int (length d)"
  shows "r < e" "skip_zeros mem r = Some (r + 3)" "sc_scan mem (r + 3) e = r1"
    "mem (r + 3) = h" "mem_slice mem (r + 3) (length (h # d)) = h # d"
    "mem_slice mem (r + 4) (length d) = d"
    "(r1 \<ge> e) = (ns = [])" "e = r1 + int (length (annexb ns))"
    "mem_slice mem r1 (length (annexb ns)) = annexb ns"
proof -
  let ?A = "annexb ns"
  have sl: "mem_slice mem r (length (annexb ((h, d) # ns))) = [0, 0, 1] @ (h # d) @ ?A"
    using assms(2) by (simp add: annexb_Cons)
  have s1: "mem_slice mem (r + 3) (length ((h # d) @ ?A)) = (h # d) @ ?A"
    using slice_appendD(2)[OF sl] by simp
  show s2: "mem_slice mem (r + 3) (length (h # d)) = h # d"
    using slice_appendD[OF s1] by simp
  have "mem_slice mem (r + 3 + int (length (h # d))) (length ?A) = ?A"
    using slice_appendD[OF s1] by simp
  then show "mem_slice mem r1 (length ?A) = ?A" by (simp add: r1_def ac_simps)
  show "mem (r + 3) = h" "mem_slice mem (r + 4) (length d) = d"
    using s2 by (simp_all add: slice_Suc add.assoc)
  have "mem_slice mem r 4 = [0, 0, 1, h]"
    using slice_appendD(1)[of mem r _ "[0, 0, 1, h]" "d @ ?A"] sl by (simp add: eval_nat_numeral)
  then show "skip_zeros mem r = Some (r + 3)" by (rule skip_zeros_sc)
  have e3: "e = r + 3 + int (length ((h # d) @ ?A))" by (simp add: e_def annexb_Cons)
  have "find_sc ((h # d) @ ?A) = length (h # d)" using assms(1) by (rule find_sc_annexb)
  then show "sc_scan mem (r + 3) e = r1" by (simp only: e3 sc_scan_slice s1) (simp add: r1_def)
  show e1: "e = r1 + int (length ?A)" by (simp add: r1_def e_def annexb_Cons)
  show "(r1 \<ge> e) = (ns = [])"
    unfolding e1 using annexb_shape[of ns] by (cases "ns = []") auto
  show "r < e" by (simp add: e_def annexb_Cons)
qed

lemma h264_pkt_loop_annexb:
  assumes "2 < maxsz" "maxsz < 2 ^ 64"
  shows "nals_ok ns \<Longrightarrow> mem_slice mem r (length (annexb ns)) = annexb ns \<Longrightarrow>
    length (annexb ns) < 2 ^ 64 \<Longrightarrow>
    h264_pkt_loop mem (r + int (length (annexb ns))) ts maxsz pkth r err s =
      Some (send_pkts pkth (stream_pkts ts maxsz ns) err s)"
proof (induction ns arbitrary: r err s)
  case Nil
  then show ?case by (simp add: h264_pkt_loop.simps annexb_def)
next
  case (Cons n ns)
  obtain h d where n: "n = (h, d)" by fastforce
  let ?e = "r + int (length (annexb (n # ns)))" and ?r1 = "r + 4 + int (length d)"
  have ok: "\<not> has_sc (h # d)" "nals_ok ns" using Cons.prems(1) by (simp_all add: nals_ok_def n)
  note rnd = annexb_round[OF ok(1) Cons.prems(2)[unfolded n], folded n]
  have len: "ptr_size (?r1 - (r + 3) - 1) = length d"
    using Cons.prems(3) by (simp add: ptr_size_def n annexb_Cons)
  obtain er s' where sent: "send_pkts pkth (nal_pkts (ns = []) ts maxsz n) 0 s = (er, s')" by fastforce
  have r4: "r + 3 + 1 = r + 4" by simp
  have nal: "h264_nal_send True True (?r1 \<ge> ?e) (ucast (mem (r + 3))) ts
      (mem_slice mem (r + 3 + 1) (ptr_size (?r1 - (r + 3) - 1))) maxsz pkth s = Some (er, s')"
    unfolding len r4 rnd(4,6,7) using h264_nal_send_pkts[OF assms, of "ns = []" h ts d pkth s] sent
    by (simp add: n)
  have IH: "h264_pkt_loop mem ?e ts maxsz pkth ?r1 (err OR er) s' =
      Some (send_pkts pkth (stream_pkts ts maxsz ns) (err OR er) s')"
    unfolding rnd(8) by (rule Cons.IH) (use Cons.prems ok rnd(9) in \<open>simp_all add: n annexb_Cons\<close>)
  have "send_pkts pkth (stream_pkts ts maxsz (n # ns)) err s =
      send_pkts pkth (stream_pkts ts maxsz ns) (err OR er) s'"
    using send_pkts_err[of pkth "nal_pkts (ns = []) ts maxsz n" err s] sent
    by (simp add: send_pkts_append)
  then show ?case
    using rnd(1-3) nal IH by (subst h264_pkt_loop.simps) (simp add: Let_def h264_startcode_eq)
qed

text \<open>A memory that holds a byte string from address \<open>a\<close> on.\<close>

definition mem_of :: "int \<Rightarrow> u8 list \<Rightarrow> memory" where
  "mem_of a xs p = (if a \<le> p \<and> p < a + int (length xs) then xs ! nat (p - a) else 0)"

lemma mem_slice_of [simp]: "mem_slice (mem_of a xs) a (length xs) = xs"
  by (rule nth_equalityI) (simp_all add: mem_slice_def mem_of_def)

subsection \<open>Properties\<close>

lemma h264_packetize_annexb:
  assumes "2 < maxsz" "maxsz < 2 ^ 64" "nals_ok ns"
    and "mem_slice mem buf (length (annexb ns)) = annexb ns" "length (annexb ns) < 2 ^ 64"
  shows "h264_packetize ts mem buf (length (annexb ns)) maxsz pkth s =
    Some (send_pkts pkth (stream_pkts ts maxsz ns) 0 s)"
proof -
  have "find_sc (annexb ns) = 0"
    using annexb_shape[of ns] by (cases "ns = []") auto
  then have "h264_find_startcode mem buf (buf + int (length (annexb ns))) = buf"
    using sc_scan_slice[of mem buf "length (annexb ns)"] assms(4) by (simp add: h264_startcode_eq)
  then show ?thesis
    using h264_pkt_loop_annexb[OF assms] by (simp add: h264_packetize_def)
qed

text \<open>
  \<open>h264_packetize\<close> returns on every Annex B stream of NAL units without
  an inner start code, at every address, and sends exactly the packets of its
  NAL units in order, the marker on the last packet of the last unit only.
\<close>

theorem h264_packetize_stream:
  assumes "2 < maxsz" "maxsz < 2 ^ 64" "nals_ok ns"
    and "mem_slice mem buf (length (annexb ns)) = annexb ns" "length (annexb ns) < 2 ^ 64"
  shows "h264_packetize ts mem buf (length (annexb ns)) maxsz pkth s =
    Some (send_pkts pkth (stream_pkts ts maxsz ns) 0 s)"
  using assms by (rule h264_packetize_annexb)

theorem h264_packetize_stream_witness:
  "h264_packetize 7 (mem_of 5 (annexb [(0x67, [1, 2]), (0x65, [3, 4, 5, 6, 7])])) 5
     (length (annexb [(0x67, [1, 2]), (0x65, [3, 4, 5, 6, 7])])) 4 rec_pkth [] =
   Some (send_pkts rec_pkth (stream_pkts 7 4 [(0x67, [1, 2]), (0x65, [3, 4, 5, 6, 7])]) 0 [])"
  by (rule h264_packetize_stream) (simp_all add: nals_ok_def, simp add: annexb_def)

lemma fu_hdr_length [simp]: "length (fu_hdr hdr first lst a b) = 2"
  by (simp add: fu_hdr_def)

lemma nal_pkts_bounds:
  assumes "2 < maxsz"
  shows "concat (map p_pld (nal_pkts marker ts maxsz (hdr, pld))) = pld"
    "list_all (\<lambda>p. length (p_hdr p) + length (p_pld p) \<le> maxsz + 1) (nal_pkts marker ts maxsz (hdr, pld))"
proof -
  have e: "2 + (maxsz - 2) = maxsz" using assms by simp
  have "list_all (\<lambda>p. p_ts p = ts \<and> length (p_hdr p) + length (p_pld p) \<le> maxsz)
      (frag_pkts (fu_hdr hdr True True) marker ts (maxsz - 2) True pld)"
    using frag_pkts_sizes[where hdr = "fu_hdr hdr True True" and hsz = 2 and sz = "maxsz - 2" and ts = ts
        and m = marker and start = True and buf = pld, OF fu_hdr_length] assms unfolding e by simp
  then have "list_all (\<lambda>p. length (p_hdr p) + length (p_pld p) \<le> maxsz + 1)
      (frag_pkts (fu_hdr hdr True True) marker ts (maxsz - 2) True pld)"
    by (auto simp: list_all_iff)
  then show "list_all (\<lambda>p. length (p_hdr p) + length (p_pld p) \<le> maxsz + 1) (nal_pkts marker ts maxsz (hdr, pld))"
    by (simp add: nal_pkts_def)
qed (simp add: nal_pkts_def frag_pkts_concat)

text \<open>
  \<open>h264_nal_send\<close> returns; its packets carry the payload in order, each at
  most one byte longer than the packet size: a payload of exactly that size
  goes out with its header byte in a single packet.
\<close>

theorem h264_nal_packets_bounds:
  assumes "2 < maxsz" "maxsz < 2 ^ 64"
  shows "\<exists>ps. h264_nal_send True True marker (ucast (hdr :: u8)) ts pld maxsz rec_pkth [] = Some (0, ps) \<and>
    concat (map p_pld ps) = pld \<and>
    list_all (\<lambda>p. length (p_hdr p) + length (p_pld p) \<le> maxsz + 1) ps \<and>
    (length pld = maxsz \<longrightarrow> map (\<lambda>p. length (p_hdr p) + length (p_pld p)) ps = [maxsz + 1])"
  using h264_nal_send_pkts[OF assms, of marker hdr ts pld rec_pkth "[]"] nal_pkts_bounds[OF assms(1), of marker ts hdr pld]
  by (auto simp: nal_pkts_def)

theorem h264_nal_packets_bounds_witness:
  "\<exists>ps. h264_nal_send True True True (ucast (0x65 :: u8)) 7 [1, 2, 3] 3 rec_pkth [] = Some (0, ps) \<and>
    concat (map p_pld ps) = [1, 2, 3] \<and> map (\<lambda>p. length (p_hdr p) + length (p_pld p)) ps = [4]"
  using h264_nal_packets_bounds[of 3 True "0x65" 7 "[1, 2, 3]"] by auto

lemma fu_byte_round:
  "h264_fu_of_byte (push_bit 7 (of_bool s) OR push_bit 6 (of_bool s) OR push_bit 5 (of_bool r) OR (t AND 0x1f)) =
     \<lparr>fu_s = s, fu_e = s, fu_r = r, fu_type = t AND 0x1f\<rparr>"
  by (cases s; cases r; simp add: h264_fu_of_byte_def u8_eq_iff bit_simps)

text \<open>
  \<open>h264_fu_hdr_encode\<close> writes the start flag in the place of the end
  flag: reading the header back gives the fields only when the two flags agree.
\<close>

theorem h264_fu_hdr_roundtrip:
  assumes "mbuf_laws M" "mb_wf mb" "fu_type fu AND 0x1f = fu_type fu"
    and enc: "h264_fu_hdr_encode M fu mb = (0, mb')"
    and at: "mb_pos mb = mb_end mb"
  shows "\<exists>mb''. h264_fu_hdr_decode M fu0 (mb'\<lparr>mb_pos := mb_pos mb\<rparr>) = (0, fu\<lparr>fu_e := fu_s fu\<rparr>, mb'') \<and>
     (fu\<lparr>fu_e := fu_s fu\<rparr> = fu) = (fu_e fu = fu_s fu)"
proof -
  let ?v = "push_bit 7 (of_bool (fu_s fu)) OR push_bit 6 (of_bool (fu_s fu)) OR
              push_bit 5 (of_bool (fu_r fu)) OR fu_type fu"
  let ?m = "mb'\<lparr>mb_pos := mb_pos mb\<rparr>"
  have "m_write_u8 M mb ?v = (0, mb')" using enc by (simp add: h264_fu_hdr_encode_def)
  then have w: "mb_written mb [?v] mb'" by (rule m_write_u8_written[OF assms(1,2)])
  have "mb_at_end mb" using assms(2) at by (simp add: mb_at_end_def)
  from mb_written_at_end[OF this w] have e: "mb_end mb' = mb_end mb + 1" "mb_data mb' = mb_data mb @ [?v]"
    and wf': "mb_wf mb'" by (simp_all add: mb_at_end_def)
  have wf: "mb_wf ?m" using wf' e(1) at by (simp add: mb_wf_def)
  have "mb_unread ?m = [?v]"
    using e(2) mb_data_length[OF assms(2)] at by (simp add: mb_unread_def mb_data_def)
  then obtain m2 where rd: "m_read_u8 M ?m = (?v, m2)" "\<not> m_get_left M ?m < 1"
    by (rule m_read_u8_Cons[OF assms(1) wf])
  have "h264_fu_of_byte ?v = fu\<lparr>fu_e := fu_s fu\<rparr>"
    using fu_byte_round[of "fu_s fu" "fu_r fu" "fu_type fu"] assms(3) by simp
  then have "h264_fu_hdr_decode M fu0 ?m = (0, fu\<lparr>fu_e := fu_s fu\<rparr>, m2)"
    using rd by (simp add: h264_fu_hdr_decode_def)
  moreover have "(fu\<lparr>fu_e := fu_s fu\<rparr> = fu) = (fu_e fu = fu_s fu)" by (cases fu) auto
  ultimately show ?thesis by blast
qed

theorem h264_fu_hdr_roundtrip_witness:
  "\<exists>mb''. h264_fu_hdr_decode ref_mbuf \<lparr>fu_s = False, fu_e = False, fu_r = False, fu_type = 0\<rparr>
       ((snd (h264_fu_hdr_encode ref_mbuf \<lparr>fu_s = False, fu_e = True, fu_r = False, fu_type = 5\<rparr>
                (mbuf_of [])))\<lparr>mb_pos := 0\<rparr>) =
     (0, \<lparr>fu_s = False, fu_e = False, fu_r = False, fu_type = 5\<rparr>, mb'')"
proof -
  let ?fu = "\<lparr>fu_s = False, fu_e = True, fu_r = False, fu_type = 5\<rparr>"
  have "h264_fu_hdr_encode ref_mbuf ?fu (mbuf_of []) = (0, snd (h264_fu_hdr_encode ref_mbuf ?fu (mbuf_of [])))"
    by (simp add: h264_fu_hdr_encode_def ref_mbuf_def prod_eq_iff)
  from h264_fu_hdr_roundtrip[OF ref_mbuf_laws _ _ this] show ?thesis by (simp add: mbuf_of_def mb_wf_def)
qed

text \<open>
  Between two adjacent start codes \<open>h264_packetize\<close> computes the size of
  the empty NAL unit as \<open>r1 - r - 1\<close>, which wraps: the sender is called with a
  NAL unit of \<open>SIZE_MAX\<close> bytes.
\<close>

theorem h264_empty_nal_wraps:
  assumes "sc_at mem r" "sc_at mem (r + 3)" "r + 6 < e"
  shows "h264_pkt_loop mem e ts sz pkth r err s =
    Option.bind (h264_nal_send True True False (ucast (mem (r + 3))) ts
        (mem_slice mem (r + 4) (2 ^ 64 - 1)) sz pkth s)
      (\<lambda>(er, s'). h264_pkt_loop mem e ts sz pkth (r + 3) (err OR er) s')"
proof -
  have "skip_zeros mem r = Some (r + 3)"
    using assms(1) skip_zeros_step(1)[of mem r] skip_zeros_step(1)[of mem "r + 1"]
      skip_zeros_step(2)[of mem "r + 2"] by (simp add: sc_at_def add.assoc)
  moreover have "h264_find_startcode mem (r + 3) e = r + 3"
    using assms by (simp add: h264_startcode_eq sc_scan_hit)
  moreover have "ptr_size (r + 3 - (r + 3) - 1) = 2 ^ 64 - 1" by (simp add: ptr_size_def)
  ultimately show ?thesis using assms(3)
    by (subst h264_pkt_loop.simps) (simp add: Let_def add.commute[of 4 r])
qed

theorem h264_empty_nal_wraps_witness:
  "h264_pkt_loop (mem_of 0 [0, 0, 1, 0, 0, 1, 0x65, 9]) 8 7 9 rec_pkth 0 0 [] =
    Option.bind (h264_nal_send True True False (ucast (mem_of 0 [0, 0, 1, 0, 0, 1, 0x65, 9] (0 + 3))) 7
        (mem_slice (mem_of 0 [0, 0, 1, 0, 0, 1, 0x65, 9]) (0 + 4) (2 ^ 64 - 1)) 9 rec_pkth [])
      (\<lambda>(er, s'). h264_pkt_loop (mem_of 0 [0, 0, 1, 0, 0, 1, 0x65, 9]) 8 7 9 rec_pkth (0 + 3) (0 OR er) s')"
  by (rule h264_empty_nal_wraps) (simp_all add: sc_at_def mem_of_def)

end
