(* ===== verification/H265.thy ===== *)
theory H265
  imports H264
begin

text \<open>
  src/modules/avcodec/h265.c: the two-byte NAL unit header, the NAL unit
  types, and \<open>h265_packetize\<close>, which cuts an Annex B byte stream into NAL units
  and sends each as one packet or as fragmentation units.  The start code
  search is in Startcode.  Bit-fields are words of their width.
\<close>

subsection \<open>NAL unit header\<close>

record h265_nal =
  nal_unit_type :: "6 word"
  nuh_temporal_id_plus1 :: "3 word"

definition h265_nal_encode :: "u32 \<Rightarrow> u32 \<Rightarrow> u8 list" where
  "h265_nal_encode type tid = [ucast (push_bit 1 (type AND 0x3f)), ucast (tid AND 0x07)]"

definition h265_nal_encode_mbuf :: "mbuf_ops \<Rightarrow> mbuf \<Rightarrow> h265_nal \<Rightarrow> err \<times> mbuf" where
  "h265_nal_encode_mbuf M mb nal =
     m_write_mem M mb (h265_nal_encode (ucast (nal_unit_type nal)) (ucast (nuh_temporal_id_plus1 nal)))"

text \<open>\<open>p\<close> is \<open>None\<close> for NULL; two bytes are read from it.\<close>

definition h265_nal_decode :: "h265_nal \<Rightarrow> u8 list option \<Rightarrow> err \<times> h265_nal" where
  "h265_nal_decode nal p =
     (case p of
        None \<Rightarrow> (EINVAL, nal)
      | Some p \<Rightarrow>
          let forbidden_zero_bit = drop_bit 7 (p ! 0);
              nal = nal\<lparr>nal_unit_type := ucast (drop_bit 1 (p ! 0) AND 0x3f)\<rparr>;
              nuh_layer_id = push_bit 5 (ucast (p ! 0 AND 1)) OR ucast (drop_bit 3 (p ! 1)) :: u32;
              nal = nal\<lparr>nuh_temporal_id_plus1 := ucast (p ! 1 AND 0x07)\<rparr>
          in if forbidden_zero_bit \<noteq> 0 then (EBADMSG, nal)
             else if nuh_layer_id \<noteq> 0 then (EBADMSG, nal)
             else (0, nal))"

definition H265_NAL_AP :: nat where "H265_NAL_AP = 48"
definition H265_NAL_FU :: nat where "H265_NAL_FU = 49"
definition H265_HDR_SIZE :: nat where "H265_HDR_SIZE = 2"

definition h265_is_keyframe :: "nat \<Rightarrow> bool" where
  "h265_is_keyframe type = (type \<in> {16, 17, 18, 19, 20, 21})"

definition h265_nalunit_name :: "nat \<Rightarrow> string" where
  "h265_nalunit_name type =
     (if type = 0 then ''TRAIL_N'' else if type = 1 then ''TRAIL_R''
      else if type = 2 then ''TSA_N'' else if type = 3 then ''TSA_R''
      else if type = 8 then ''RASL_N'' else if type = 9 then ''RASL_R''
      else if type = 16 then ''BLA_W_LP'' else if type = 17 then ''BLA_W_RADL''
      else if type = 18 then ''BLA_N_LP'' else if type = 19 then ''IDR_W_RADL''
      else if type = 20 then ''IDR_N_LP'' else if type = 21 then ''CRA_NUT''
      else if type = 32 then ''VPS_NUT'' else if type = 33 then ''SPS_NUT''
      else if type = 34 then ''PPS_NUT'' else if type = 39 then ''PREFIX_SEI_NUT''
      else if type = 40 then ''SUFFIX_SEI_NUT''
      else if type = H265_NAL_AP then ''H265_NAL_AP''
      else if type = H265_NAL_FU then ''H265_NAL_FU''
      else ''???'')"

lemma u6_eq_iff:
  "(x :: 6 word) = y \<longleftrightarrow>
     bit x 0 = bit y 0 \<and> bit x 1 = bit y 1 \<and> bit x 2 = bit y 2 \<and> bit x 3 = bit y 3 \<and>
     bit x 4 = bit y 4 \<and> bit x 5 = bit y 5"
proof -
  have "x = y \<longleftrightarrow> (\<forall>n<6. bit x n = bit y n)" by (auto intro: bit_word_eqI)
  then show ?thesis by (simp add: all_less_numeral conj_ac)
qed

lemma u3_eq_iff:
  "(x :: 3 word) = y \<longleftrightarrow> bit x 0 = bit y 0 \<and> bit x 1 = bit y 1 \<and> bit x 2 = bit y 2"
proof -
  have "x = y \<longleftrightarrow> (\<forall>n<3. bit x n = bit y n)" by (auto intro: bit_word_eqI)
  then show ?thesis by (simp add: all_less_numeral conj_ac)
qed

lemma u32_zero_iff: "(x :: u32) = 0 \<longleftrightarrow> (\<forall>n<32. \<not> bit x n)"
  by (auto intro: bit_word_eqI)

text \<open>Header bytes with no forbidden bit and layer id 0 decode, and encode back.\<close>

definition h265_hdr_ok :: "u8 \<Rightarrow> u8 \<Rightarrow> bool" where
  "h265_hdr_ok b0 b1 = (\<not> bit b0 7 \<and> \<not> bit b0 0 \<and> drop_bit 3 b1 = 0)"

definition h265_nal_of :: "u8 \<Rightarrow> u8 \<Rightarrow> h265_nal" where
  "h265_nal_of b0 b1 = \<lparr>nal_unit_type = ucast (drop_bit 1 b0 AND 0x3f),
                       nuh_temporal_id_plus1 = ucast (b1 AND 7)\<rparr>"

lemma h265_layer_zero:
  "(push_bit 5 (ucast (b0 AND 1)) OR ucast (drop_bit 3 b1) = (0 :: u32)) =
     (\<not> bit (b0 :: u8) 0 \<and> drop_bit 3 (b1 :: u8) = 0)"
proof -
  have "(push_bit 5 (ucast (b0 AND 1)) = (0 :: u32)) = (\<not> bit b0 0)"
    by (simp add: u32_zero_iff all_less_numeral bit_simps)
  moreover have "(ucast (drop_bit 3 b1) = (0 :: u32)) = (drop_bit 3 b1 = 0)"
    by (simp add: u32_zero_iff u8_eq_iff all_less_numeral bit_simps u8_bit_high) blast
  ultimately show ?thesis by (simp add: or_eq_0_iff)
qed

lemma h265_nal_decode_Cons:
  "h265_nal_decode nal (Some (b0 # b1 # bs)) =
     ((if h265_hdr_ok b0 b1 then 0 else EBADMSG), h265_nal_of b0 b1)"
proof -
  have "(drop_bit 7 b0 \<noteq> 0) = bit b0 7" by (simp add: u8_eq_iff bit_simps u8_bit_high)
  then show ?thesis
    by (cases nal) (simp add: h265_nal_decode_def h265_layer_zero h265_hdr_ok_def h265_nal_of_def Let_def)
qed

lemma h265_nal_encode_of:
  assumes "h265_hdr_ok b0 b1"
  shows "h265_nal_encode (ucast (nal_unit_type (h265_nal_of b0 b1)))
      (ucast (nuh_temporal_id_plus1 (h265_nal_of b0 b1))) = [b0, b1]"
proof -
  have "\<not> bit (drop_bit 3 b1) n" for n using assms by (simp add: h265_hdr_ok_def)
  then have "\<not> bit b1 (3 + n)" for n by (simp add: bit_simps)
  from this[of 0] this[of 1] this[of 2] this[of 3] this[of 4] assms show ?thesis
    by (simp add: h265_nal_encode_def h265_nal_of_def h265_hdr_ok_def u8_eq_iff bit_simps u8_bit_high
        del: push_bit_Suc) (simp add: eval_nat_numeral)
qed

subsection \<open>Packetizing\<close>

text \<open>The fragmentation loop: the rest of the buffer, the third header byte, the error code.\<close>

partial_function (option) h265_fu_loop ::
  "'s pkth \<Rightarrow> nat \<Rightarrow> u64 \<Rightarrow> u8 list \<Rightarrow> u8 \<Rightarrow> u8 list \<Rightarrow> err \<Rightarrow> 's \<Rightarrow> (u8 list \<times> u8 \<times> err \<times> 's) option" where
  "h265_fu_loop pkth flen rtp_ts hdr fu2 buf err s =
     (if length buf > flen
      then let (e, s') = pkth False rtp_ts (hdr @ [fu2]) (take flen buf) s
           in h265_fu_loop pkth flen rtp_ts hdr (fu2 AND NOT (push_bit 7 1)) (drop flen buf) (err OR e) s'
      else Some (buf, fu2, err, s))"

definition h265_fu_send ::
  "u8 list \<Rightarrow> u8 \<Rightarrow> 's pkth \<Rightarrow> bool \<Rightarrow> u64 \<Rightarrow> u8 list \<Rightarrow> nat \<Rightarrow> 's \<Rightarrow> (err \<times> 's) option" where
  "h265_fu_send fu fu2 pkth marker rtp_ts buf maxlen s =
     (let flen = size_sub maxlen 3
      in case h265_fu_loop pkth flen rtp_ts fu fu2 buf 0 s of
           None \<Rightarrow> None
         | Some (buf, fu2, err, s') \<Rightarrow>
             let (e, s'') = pkth marker rtp_ts (fu @ [fu2 OR push_bit 6 1]) buf s'
             in Some (err OR e, s''))"

definition h265_packetize_nal ::
  "'s pkth \<Rightarrow> bool \<Rightarrow> u64 \<Rightarrow> u8 list \<Rightarrow> nat \<Rightarrow> 's \<Rightarrow> (err \<times> 's) option" where
  "h265_packetize_nal pkth marker rtp_ts buf maxlen s =
     (if length buf \<le> maxlen then Some (pkth marker rtp_ts [] buf s)
      else
        let (err, nal) = h265_nal_decode \<lparr>nal_unit_type = 0, nuh_temporal_id_plus1 = 0\<rparr> (Some buf)
        in if err \<noteq> 0 then Some (err, s)
           else h265_fu_send
                  (h265_nal_encode (of_nat H265_NAL_FU) (ucast (nuh_temporal_id_plus1 nal)))
                  (push_bit 7 1 OR ucast (nal_unit_type nal)) pkth marker rtp_ts (drop 2 buf) maxlen s)"

partial_function (option) h265_pkt_loop ::
  "memory \<Rightarrow> int \<Rightarrow> u64 \<Rightarrow> nat \<Rightarrow> 's pkth \<Rightarrow> int \<Rightarrow> err \<Rightarrow> 's \<Rightarrow> (err \<times> 's) option" where
  "h265_pkt_loop mem e rtp_ts pktsize pkth r err s =
     (if r < e
      then Option.bind (skip_zeros mem r) (\<lambda>r.
             let r1 = h265_find_startcode mem r e
             in Option.bind
                  (h265_packetize_nal pkth (r1 \<ge> e) rtp_ts (mem_slice mem r (ptr_size (r1 - r))) pktsize s)
                  (\<lambda>(er, s'). h265_pkt_loop mem e rtp_ts pktsize pkth r1 (err OR er) s'))
      else Some (err, s))"

definition h265_packetize ::
  "u64 \<Rightarrow> memory \<Rightarrow> int \<Rightarrow> nat \<Rightarrow> nat \<Rightarrow> 's pkth \<Rightarrow> 's \<Rightarrow> (err \<times> 's) option" where
  "h265_packetize rtp_ts mem buf len pktsize pkth s =
     (let e = buf + int len; r = h265_find_startcode mem buf e
      in h265_pkt_loop mem e rtp_ts pktsize pkth r 0 s)"

subsection \<open>Fragmentation units are fragments\<close>

definition fu265_hdr :: "u8 \<Rightarrow> u8 \<Rightarrow> bool \<Rightarrow> bool \<Rightarrow> u8 list" where
  "fu265_hdr b0 b1 st en =
     [98, b1 AND 7,
      (if st then push_bit 7 1 else 0) OR (drop_bit 1 b0 AND 0x3f) OR (if en then push_bit 6 1 else 0)]"

lemma fu265_hdr_length [simp]: "length (fu265_hdr b0 b1 st en) = 3"
  by (simp add: fu265_hdr_def)

lemma fu265_clear: "((if st then push_bit 7 1 OR (drop_bit 1 b0 AND 0x3f) else drop_bit 1 b0 AND 0x3f) :: u8)
    AND NOT (push_bit 7 1) = drop_bit 1 b0 AND 0x3f"
  by (simp add: u8_eq_iff bit_simps)

lemma h265_fu_loop_sends:
  assumes "0 < sz" and fu2: "fu2 = (if start then push_bit 7 1 OR (drop_bit 1 b0 AND 0x3f) else drop_bit 1 b0 AND 0x3f)"
  shows "(case h265_fu_loop pkth sz ts [98, b1 AND 7] fu2 buf err s of
        None \<Rightarrow> None
      | Some (buf', fu2, err, s') \<Rightarrow>
          let (e, s'') = pkth marker ts ([98, b1 AND 7] @ [fu2 OR push_bit 6 1]) buf' s'
          in Some (err OR e, s'')) =
     Some (send_pkts pkth (frag_pkts (fu265_hdr b0 b1) marker ts sz start buf) err s)"
  using fu2
proof (induction "length buf" arbitrary: buf start fu2 err s rule: less_induct)
  case less
  note unf = h265_fu_loop.simps[of pkth sz ts _ fu2 buf err s]
  show ?case
  proof (cases "sz < length buf")
    case False
    then have "h265_fu_loop pkth sz ts [98, b1 AND 7] fu2 buf err s = Some (buf, fu2, err, s)"
      by (simp add: unf)
    moreover have "fu265_hdr b0 b1 start True = [98, b1 AND 7] @ [fu2 OR push_bit 6 1]"
      using less.prems by (simp add: fu265_hdr_def or.assoc)
    ultimately show ?thesis using False by (simp add: frag_pkts_last split_def Let_def)
  next
    case True
    have "length (drop sz buf) < length buf" using True assms(1) by simp
    moreover have "fu2 AND NOT (push_bit 7 1) =
        (if False then push_bit 7 1 OR (drop_bit 1 b0 AND 0x3f) else drop_bit 1 b0 AND 0x3f)"
      unfolding less.prems by (subst fu265_clear) simp
    ultimately have IH: "(case h265_fu_loop pkth sz ts [98, b1 AND 7]
            (fu2 AND NOT (push_bit 7 1)) (drop sz buf) err' s' of
        None \<Rightarrow> None
      | Some (buf', fu2, err, s') \<Rightarrow>
          let (e, s'') = pkth marker ts ([98, b1 AND 7] @ [fu2 OR push_bit 6 1]) buf' s'
          in Some (err OR e, s'')) =
     Some (send_pkts pkth (frag_pkts (fu265_hdr b0 b1) marker ts sz False (drop sz buf)) err' s')"
      for err' s' by (rule less.hyps)
    obtain e' s' where h: "pkth False ts [98, b1 AND 7, fu2] (take sz buf) s = (e', s')"
      by fastforce
    moreover have "fu265_hdr b0 b1 start False = [98, b1 AND 7, fu2]"
      using less.prems by (simp add: fu265_hdr_def)
    ultimately show ?thesis
      using True assms(1) IH[of "err OR e'" s'] by (subst unf) (simp add: frag_pkts_more)
  qed
qed

interpretation fu265: fragmenter
  "h265_fu_send [98, b1 AND 7] (push_bit 7 1 OR (drop_bit 1 b0 AND 0x3f))"
  "fu265_hdr b0 b1" 3
  for b0 b1
proof
  show "length (fu265_hdr b0 b1 a b) = 3" for a b by simp
  show "h265_fu_send [98, b1 AND 7] (push_bit 7 1 OR (drop_bit 1 b0 AND 0x3f)) pkth m ts buf maxlen s =
      Some (send_pkts pkth (frag_pkts (fu265_hdr b0 b1) m ts (maxlen - 3) True buf) 0 s)"
    if "3 < maxlen" "maxlen < 2 ^ 64" for maxlen and pkth :: "'a pkth" and m ts buf s
    using h265_fu_loop_sends[where sz = "maxlen - 3" and start = True and ?b0.0 = b0 and ?b1.0 = b1
        and pkth = pkth and ts = ts and buf = buf and err = 0 and s = s and marker = m] that
    by (simp add: h265_fu_send_def Let_def size_sub_le)
qed

text \<open>
  The packets of one NAL unit with header bytes \<open>b0\<close>, \<open>b1\<close>: a single NAL unit
  packet without payload header, or fragmentation units.
\<close>

definition nal265_pkts :: "bool \<Rightarrow> u64 \<Rightarrow> nat \<Rightarrow> u8 list \<Rightarrow> pkt list" where
  "nal265_pkts marker ts maxlen nal =
     (if length nal \<le> maxlen then [\<lparr>p_marker = marker, p_ts = ts, p_hdr = [], p_pld = nal\<rparr>]
      else frag_pkts (fu265_hdr (nal ! 0) (nal ! 1)) marker ts (maxlen - 3) True (drop 2 nal))"

definition nal265_ok :: "u8 list \<Rightarrow> bool" where
  "nal265_ok nal = (2 \<le> length nal \<and> h265_hdr_ok (nal ! 0) (nal ! 1) \<and> \<not> has_sc nal)"

lemma fu265_header_bytes:
  "h265_nal_encode (of_nat H265_NAL_FU) (ucast (nuh_temporal_id_plus1 (h265_nal_of b0 b1))) = [98, b1 AND 7]"
  "(ucast (nal_unit_type (h265_nal_of b0 b1)) :: u8) = drop_bit 1 b0 AND 0x3f"
  by (simp_all add: h265_nal_encode_def h265_nal_of_def H265_NAL_FU_def u8_eq_iff bit_simps)

lemma h265_packetize_nal_pkts:
  assumes "3 < maxlen" "maxlen < 2 ^ 64" "nal265_ok nal"
  shows "h265_packetize_nal pkth m ts nal maxlen s = Some (send_pkts pkth (nal265_pkts m ts maxlen nal) 0 s)"
proof (cases "length nal \<le> maxlen")
  case True
  then show ?thesis by (simp add: h265_packetize_nal_def nal265_pkts_def split_def)
next
  case False
  obtain b0 b1 d where n: "nal = b0 # b1 # d"
    using assms(3) by (cases nal; cases "tl nal") (auto simp: nal265_ok_def)
  have ok: "h265_hdr_ok b0 b1" using assms(3) by (simp add: nal265_ok_def n)
  show ?thesis
    using False ok fu265.pk_sends[OF assms(1,2), of b1 b0 pkth m ts d s]
    by (simp add: h265_packetize_nal_def n h265_nal_decode_Cons fu265_header_bytes nal265_pkts_def
        numeral_2_eq_2)
qed

fun stream265_pkts :: "u64 \<Rightarrow> nat \<Rightarrow> (u8 \<times> u8 list) list \<Rightarrow> pkt list" where
  "stream265_pkts ts maxlen [] = []"
| "stream265_pkts ts maxlen (n # ns) =
     nal265_pkts (ns = []) ts maxlen (fst n # snd n) @ stream265_pkts ts maxlen ns"

definition nals265_ok :: "(u8 \<times> u8 list) list \<Rightarrow> bool" where
  "nals265_ok ns = list_all (\<lambda>n. nal265_ok (fst n # snd n)) ns"

lemma h265_pkt_loop_annexb:
  assumes "3 < maxlen" "maxlen < 2 ^ 64"
  shows "nals265_ok ns \<Longrightarrow> mem_slice mem r (length (annexb ns)) = annexb ns \<Longrightarrow>
    length (annexb ns) < 2 ^ 64 \<Longrightarrow>
    h265_pkt_loop mem (r + int (length (annexb ns))) ts maxlen pkth r err s =
      Some (send_pkts pkth (stream265_pkts ts maxlen ns) err s)"
proof (induction ns arbitrary: r err s)
  case Nil
  then show ?case by (simp add: h265_pkt_loop.simps annexb_def)
next
  case (Cons n ns)
  obtain h d where n: "n = (h, d)" by fastforce
  let ?e = "r + int (length (annexb (n # ns)))" and ?r1 = "r + 4 + int (length d)"
  have ok: "nal265_ok (h # d)" "nals265_ok ns" using Cons.prems(1) by (simp_all add: nals265_ok_def n)
  then have sc: "\<not> has_sc (h # d)" by (simp add: nal265_ok_def)
  note rnd = annexb_round[OF sc Cons.prems(2)[unfolded n], folded n]
  have len: "ptr_size (?r1 - (r + 3)) = length (h # d)"
    using Cons.prems(3) by (simp add: ptr_size_def n annexb_Cons nat_eq_iff)
  obtain er s' where sent: "send_pkts pkth (nal265_pkts (ns = []) ts maxlen (h # d)) 0 s = (er, s')"
    by fastforce
  have nal: "h265_packetize_nal pkth (?r1 \<ge> ?e) ts
      (mem_slice mem (r + 3) (ptr_size (?r1 - (r + 3)))) maxlen s = Some (er, s')"
    unfolding len rnd(5,7) h265_packetize_nal_pkts[OF assms ok(1)] sent by (rule refl)
  have IH: "h265_pkt_loop mem ?e ts maxlen pkth ?r1 (err OR er) s' =
      Some (send_pkts pkth (stream265_pkts ts maxlen ns) (err OR er) s')"
    unfolding rnd(8) by (rule Cons.IH) (use Cons.prems ok rnd(9) in \<open>simp_all add: n annexb_Cons\<close>)
  have "send_pkts pkth (stream265_pkts ts maxlen (n # ns)) err s =
      send_pkts pkth (stream265_pkts ts maxlen ns) (err OR er) s'"
    using send_pkts_err[of pkth "nal265_pkts (ns = []) ts maxlen (h # d)" err s] sent
    by (simp add: send_pkts_append n)
  then show ?case
    using rnd(1-3) nal IH by (subst h265_pkt_loop.simps) (simp add: Let_def h265_startcode_eq)
qed

lemma h265_packetize_annexb:
  assumes "3 < maxlen" "maxlen < 2 ^ 64" "nals265_ok ns"
    and "mem_slice mem buf (length (annexb ns)) = annexb ns" "length (annexb ns) < 2 ^ 64"
  shows "h265_packetize ts mem buf (length (annexb ns)) maxlen pkth s =
    Some (send_pkts pkth (stream265_pkts ts maxlen ns) 0 s)"
proof -
  have "find_sc (annexb ns) = 0"
    using annexb_shape[of ns] by (cases "ns = []") auto
  then have "h265_find_startcode mem buf (buf + int (length (annexb ns))) = buf"
    using sc_scan_slice[of mem buf "length (annexb ns)"] assms(4) by (simp add: h265_startcode_eq)
  then show ?thesis
    using h265_pkt_loop_annexb[OF assms] by (simp add: h265_packetize_def)
qed

text \<open>
  \<open>h265_packetize\<close> returns on every Annex B stream of NAL units with a
  supported header and without an inner start code, at every address, and
  sends exactly the packets of its NAL units in order.
\<close>

theorem h265_packetize_stream:
  assumes "3 < maxlen" "maxlen < 2 ^ 64" "nals265_ok ns"
    and "mem_slice mem buf (length (annexb ns)) = annexb ns" "length (annexb ns) < 2 ^ 64"
  shows "h265_packetize ts mem buf (length (annexb ns)) maxlen pkth s =
    Some (send_pkts pkth (stream265_pkts ts maxlen ns) 0 s)"
  using assms by (rule h265_packetize_annexb)

theorem h265_packetize_stream_witness:
  "h265_packetize 7 (mem_of 5 (annexb [(0x40, [1, 2]), (0x26, [1, 4, 5, 6, 7])])) 5
     (length (annexb [(0x40, [1, 2]), (0x26, [1, 4, 5, 6, 7])])) 4 rec_pkth [] =
   Some (send_pkts rec_pkth (stream265_pkts 7 4 [(0x40, [1, 2]), (0x26, [1, 4, 5, 6, 7])]) 0 [])"
  by (rule h265_packetize_stream)
    (simp_all add: nals265_ok_def nal265_ok_def h265_hdr_ok_def, simp add: annexb_def)

text \<open>
  The NAL unit header round-trips: every type and temporal id that is
  encoded is decoded again, and decoding accepts exactly the headers without
  forbidden bit and layer id.
\<close>

theorem h265_nal_roundtrip:
  "h265_nal_decode nal (Some (h265_nal_encode (ucast (t :: 6 word)) (ucast (tid :: 3 word)) @ bs)) =
     (0, \<lparr>nal_unit_type = t, nuh_temporal_id_plus1 = tid\<rparr>) \<and>
   (fst (h265_nal_decode nal (Some (b0 # b1 # bs))) = 0) =
     (\<not> bit b0 7 \<and> \<not> bit b0 0 \<and> b1 AND 0xf8 = 0)"
proof -
  let ?b0 = "ucast (push_bit 1 (ucast t AND 0x3f :: u32)) :: u8" and ?b1 = "ucast (ucast tid AND 0x07 :: u32) :: u8"
  have "h265_hdr_ok ?b0 ?b1"
    by (simp add: h265_hdr_ok_def u8_eq_iff bit_simps)
  moreover have "h265_nal_of ?b0 ?b1 = \<lparr>nal_unit_type = t, nuh_temporal_id_plus1 = tid\<rparr>"
    by (simp add: h265_nal_of_def u6_eq_iff u3_eq_iff bit_simps del: push_bit_Suc)
      (simp add: eval_nat_numeral)
  moreover have "h265_hdr_ok b0 b1 = (\<not> bit b0 7 \<and> \<not> bit b0 0 \<and> b1 AND 0xf8 = 0)"
    by (auto simp add: h265_hdr_ok_def u8_eq_iff bit_simps u8_bit_high)
  ultimately show ?thesis by (simp add: h265_nal_encode_def h265_nal_decode_Cons)
qed


end
