(* ===== verification/NalAssembly.thy ===== *)
theory NalAssembly
  imports H264
begin

text \<open>
  The contract between a sender of NAL units (one packet, or fragmentation
  units) and a decoder that rebuilds the byte stream: the locale
  \<open>nal_assembler\<close>.  The decoder appends every NAL unit behind a start code,
  drops a NAL unit whose fragments are incomplete, and passes the stream to
  the codec at the marker.  H.264 and H.265 both provide it.
\<close>

definition nal_seq :: "u8 list" where "nal_seq = [0, 0, 1]"

text \<open>The packets of a sequence of NAL units; the last unit carries the marker.\<close>

fun nal_stream :: "(bool \<Rightarrow> 'n \<Rightarrow> pkt list) \<Rightarrow> 'n list \<Rightarrow> pkt list" where
  "nal_stream pk [] = []"
| "nal_stream pk (n # ns) = pk (ns = []) n @ nal_stream pk ns"

lemma feed_append:
  "feed step d q (ps @ qs) =
     (let (rs, d) = feed step d q ps; (rs', d) = feed step d (q + of_nat (length ps)) qs in (rs @ rs', d))"
  by (induction ps arbitrary: d q) (simp_all add: Let_def split_def add.assoc)

lemma feed_appendE:
  assumes "feed step d q (ps @ qs) = (rs, d')"
  obtains rs1 d1 rs2 where "feed step d q ps = (rs1, d1)"
    "feed step d1 (q + of_nat (length ps)) qs = (rs2, d')" "rs = rs1 @ rs2"
  using assms by (auto simp: feed_append split_def Let_def)
    (metis prod.collapse)

text \<open>
  \<open>raw n\<close> is the NAL unit \<open>n\<close>, \<open>pre n\<close> its header and \<open>pld n\<close> the rest, which
  fragments carry behind the header \<open>fhdr n start end\<close>.  \<open>asm d c b\<close>: the
  decoder has codec context \<open>c\<close> and holds the bytes \<open>b\<close> of whole units;
  \<open>frg d c q b0 b\<close>: it holds the whole units \<open>b0\<close> and \<open>b\<close> of a fragmented one,
  \<open>q\<close> being the last sequence number; \<open>fin c b r d\<close>: the codec got \<open>b\<close>.
\<close>

locale nal_assembler =
  fixes step :: "'d \<Rightarrow> bool \<Rightarrow> u16 \<Rightarrow> u8 list \<Rightarrow> 'r \<times> 'd"
    and ok :: "'n \<Rightarrow> bool"
    and pre :: "'n \<Rightarrow> u8 list"
    and pld :: "'n \<Rightarrow> u8 list"
    and fhdr :: "'n \<Rightarrow> bool \<Rightarrow> bool \<Rightarrow> u8 list"
    and cap :: nat
    and asm :: "'d \<Rightarrow> 'c \<Rightarrow> u8 list \<Rightarrow> bool"
    and frg :: "'d \<Rightarrow> 'c \<Rightarrow> u16 \<Rightarrow> u8 list \<Rightarrow> u8 list \<Rightarrow> bool"
    and fin :: "'c \<Rightarrow> u8 list \<Rightarrow> 'r \<Rightarrow> 'd \<Rightarrow> bool"
  assumes one: "ok n \<Longrightarrow> asm d c b \<or> frg d c q0 b b' \<Longrightarrow>
      length (b @ nal_seq @ pre n @ pld n) \<le> cap \<Longrightarrow> step d m q (pre n @ pld n) = (r, d') \<Longrightarrow>
      (if m then fin c (b @ nal_seq @ pre n @ pld n) r d' else asm d' c (b @ nal_seq @ pre n @ pld n))"
    and fu_first: "ok n \<Longrightarrow> asm d c b \<or> frg d c q0 b b' \<Longrightarrow>
      length (b @ nal_seq @ pre n @ x) \<le> cap \<Longrightarrow> step d False q (fhdr n True False @ x) = (r, d') \<Longrightarrow>
      frg d' c q b (nal_seq @ pre n @ x)"
    and fu_next: "ok n \<Longrightarrow> frg d c q b b' \<Longrightarrow> length (b @ b' @ x) \<le> cap \<Longrightarrow>
      step d False (q + 1) (fhdr n False False @ x) = (r, d') \<Longrightarrow> frg d' c (q + 1) b (b' @ x)"
    and fu_last: "ok n \<Longrightarrow> frg d c q b b' \<Longrightarrow> length (b @ b' @ x) \<le> cap \<Longrightarrow>
      step d m (q + 1) (fhdr n False True @ x) = (r, d') \<Longrightarrow>
      (if m then fin c (b @ b' @ x) r d' else asm d' c (b @ b' @ x))"
    and fu_gap: "ok n \<Longrightarrow> frg d c q b b' \<Longrightarrow> q' \<noteq> q + 1 \<Longrightarrow>
      step d m q' (fhdr n False e @ x) = (r, d') \<Longrightarrow> asm d' c b"
begin

text \<open>Ready for the next NAL unit, with the whole units \<open>b\<close> so far.\<close>

definition base :: "'d \<Rightarrow> 'c \<Rightarrow> u8 list \<Rightarrow> bool" where
  "base d c b = (asm d c b \<or> (\<exists>q b'. frg d c q b b'))"

definition reached :: "bool \<Rightarrow> 'c \<Rightarrow> u8 list \<Rightarrow> 'r \<Rightarrow> 'd \<Rightarrow> bool" where
  "reached m c b r d = (if m then fin c b r d else asm d c b)"

lemma feed_fu_rest:
  "ok n \<Longrightarrow> frg d c q b b' \<Longrightarrow> length (b @ b' @ x) \<le> cap \<Longrightarrow>
   feed step d (q + 1) (frag_pkts (fhdr n) m ts sz False x) = (rs, d') \<Longrightarrow>
   rs \<noteq> [] \<and> reached m c (b @ b' @ x) (last rs) d'"
proof (induction "length x" arbitrary: d q b' x rs d' rule: less_induct)
  case less
  show ?case
  proof (cases "sz < length x \<and> 0 < sz")
    case False
    obtain r d1 where s1: "step d m (q + 1) (fhdr n False True @ x) = (r, d1)" by fastforce
    then have "rs = [r] \<and> d' = d1" using less.prems(4) False by (subst (asm) frag_pkts.simps) simp
    then show ?thesis using fu_last[OF less.prems(1-3) s1] by (simp add: reached_def)
  next
    case True
    obtain r d1 where s1: "step d False (q + 1) (fhdr n False False @ take sz x) = (r, d1)" by fastforce
    obtain rs2 d2 where s2: "feed step d1 (q + 1 + 1) (frag_pkts (fhdr n) m ts sz False (drop sz x)) = (rs2, d2)"
      by fastforce
    have res: "rs = r # rs2 \<and> d' = d2"
      using less.prems(4) True s1 s2 by (simp add: frag_pkts_more)
    have a1: "frg d1 c (q + 1) b (b' @ take sz x)"
      by (rule fu_next[OF less.prems(1,2) _ s1]) (use less.prems(3) in auto)
    have "rs2 \<noteq> [] \<and> reached m c (b @ (b' @ take sz x) @ drop sz x) (last rs2) d2"
      by (rule less.hyps[OF _ less.prems(1) a1 _ s2]) (use True less.prems(3) in auto)
    then show ?thesis using res by simp
  qed
qed

text \<open>
  The two ways a sender packs a NAL unit: \<open>packs pk\<close> says that \<open>pk m n\<close> is one
  packet with the unit, or at least two fragments.
\<close>

definition packs :: "(bool \<Rightarrow> 'n \<Rightarrow> pkt list) \<Rightarrow> bool" where
  "packs pk = (\<forall>m n. ok n \<longrightarrow>
     (\<exists>p. pk m n = [p] \<and> p_marker p = m \<and> p_hdr p @ p_pld p = pre n @ pld n) \<or>
     (\<exists>ts sz. 0 < sz \<and> sz < length (pld n) \<and> pk m n = frag_pkts (fhdr n) m ts sz True (pld n)))"

lemma feed_nal:
  assumes "packs pk" "ok n" "base d c b" "length (b @ nal_seq @ pre n @ pld n) \<le> cap"
    and fed: "feed step d q (pk m n) = (rs, d')"
  shows "rs \<noteq> [] \<and> reached m c (b @ nal_seq @ pre n @ pld n) (last rs) d'"
proof -
  obtain q0 b' where st: "asm d c b \<or> frg d c q0 b b'" using assms(3) by (auto simp: base_def)
  consider p where "pk m n = [p]" "p_marker p = m" "p_hdr p @ p_pld p = pre n @ pld n"
    | ts sz where "0 < sz" "sz < length (pld n)" "pk m n = frag_pkts (fhdr n) m ts sz True (pld n)"
    using assms(1,2) unfolding packs_def by blast
  then show ?thesis
  proof cases
    case (1 p)
    obtain r d1 where s1: "step d m q (pre n @ pld n) = (r, d1)" by fastforce
    then have "rs = [r] \<and> d' = d1" using fed 1 by simp
    then show ?thesis using one[OF assms(2) st assms(4) s1] by (simp add: reached_def)
  next
    case (2 ts sz)
    let ?x = "take sz (pld n)"
    obtain r d1 where s1: "step d False q (fhdr n True False @ ?x) = (r, d1)" by fastforce
    obtain rs2 d2 where s2: "feed step d1 (q + 1) (frag_pkts (fhdr n) m ts sz False (drop sz (pld n))) = (rs2, d2)"
      by fastforce
    have res: "rs = r # rs2 \<and> d' = d2" using fed 2 s1 s2 by (simp add: frag_pkts_more)
    have a1: "frg d1 c q b (nal_seq @ pre n @ ?x)"
      by (rule fu_first[OF assms(2) st _ s1]) (use assms(4) in auto)
    have "rs2 \<noteq> [] \<and> reached m c (b @ (nal_seq @ pre n @ ?x) @ drop sz (pld n)) (last rs2) d2"
      by (rule feed_fu_rest[OF assms(2) a1 _ s2]) (use assms(4) in auto)
    then show ?thesis using res by simp
  qed
qed

definition bytes :: "'n list \<Rightarrow> u8 list" where
  "bytes ns = concat (map (\<lambda>n. nal_seq @ pre n @ pld n) ns)"

text \<open>A whole stream delivers exactly its bytes to the codec.\<close>

lemma feed_stream:
  assumes "packs pk"
  shows "ns \<noteq> [] \<Longrightarrow> list_all ok ns \<Longrightarrow> base d c b \<Longrightarrow> length (b @ bytes ns) \<le> cap \<Longrightarrow>
    feed step d q (nal_stream pk ns) = (rs, d') \<Longrightarrow> rs \<noteq> [] \<and> fin c (b @ bytes ns) (last rs) d'"
proof (induction ns arbitrary: d b q rs)
  case Nil
  then show ?case by simp
next
  case (Cons n ns)
  let ?n = "nal_seq @ pre n @ pld n"
  obtain rs1 d1 rs2 where f: "feed step d q (pk (ns = []) n) = (rs1, d1)"
      "feed step d1 (q + of_nat (length (pk (ns = []) n))) (nal_stream pk ns) = (rs2, d')" "rs = rs1 @ rs2"
    using Cons.prems(5) by (auto elim: feed_appendE)
  have n: "ok n" "length (b @ ?n) \<le> cap" using Cons.prems(2,4) by (simp_all add: bytes_def)
  have r1: "rs1 \<noteq> [] \<and> reached (ns = []) c (b @ ?n) (last rs1) d1"
    by (rule feed_nal[OF assms n(1) Cons.prems(3) n(2) f(1)])
  show ?case
  proof (cases "ns = []")
    case True
    then show ?thesis using r1 f by (simp add: reached_def bytes_def)
  next
    case False
    have "base d1 c (b @ ?n)" using r1 False by (simp add: reached_def base_def)
    then have "rs2 \<noteq> [] \<and> fin c ((b @ ?n) @ bytes ns) (last rs2) d'"
      by (intro Cons.IH[OF False _ _ _ f(2)]) (use Cons.prems(2,4) in \<open>simp_all add: bytes_def\<close>)
    then show ?thesis using f(3) by (simp add: bytes_def)
  qed
qed

text \<open>A NAL unit that loses a fragment leaves no byte behind in the stream.\<close>

lemma feed_after_gap:
  assumes "packs pk" "ok n" "frg d c q b b'" "q' \<noteq> q + 1"
    and gap: "step d m q' (fhdr n False e @ x) = (r, d1)"
    and "ns \<noteq> []" "list_all ok ns" "length (b @ bytes ns) \<le> cap"
    and "feed step d1 q1 (nal_stream pk ns) = (rs, d')"
  shows "rs \<noteq> [] \<and> fin c (b @ bytes ns) (last rs) d'"
proof -
  have "base d1 c b" using fu_gap[OF assms(2-4) gap] by (simp add: base_def)
  then show ?thesis by (intro feed_stream[OF assms(1,6,7) _ assms(8,9)])
qed

end

end
