(* ===== verification/AvDecode.thy ===== *)
theory AvDecode
  imports H265 NalAssembly Reassembly
begin

text \<open>
  src/modules/avcodec/decode.c: the decoders of H.264, H.265 and MPEG-4
  packets.  libavcodec is the record \<open>av_ops\<close>; librem's coding of the one-byte
  H.264 NAL unit header is the record \<open>h264_ops\<close>, with what its documentation
  promises in \<open>h264_laws\<close>.  The decode functions reassemble fragmentation units
  into an Annex B stream and pass it to the codec at the marker.
\<close>

subsection \<open>State and libraries\<close>

datatype av_pixfmt =
  AV_PIX_FMT_YUV420P | AV_PIX_FMT_YUVJ420P | AV_PIX_FMT_YUV444P | AV_PIX_FMT_NV12 | AV_PIX_FMT_NV21
  | AV_PIX_FMT_OTHER nat

record av_picture =
  pic_format :: av_pixfmt
  pic_data :: "u64 list"
  pic_linesize :: "u16 list"
  pic_key :: bool

text \<open>
  \<open>av_hw\<close>: the context has a hardware device; \<open>av_frame_alloc\<close>: the frame for
  it could be allocated; \<open>av_transfer\<close> copies a picture from the device.
  Results below 0 are errors, -11 (EAGAIN) asks for more input.
\<close>

record 'c av_ops =
  av_hw :: "'c \<Rightarrow> bool"
  av_frame_alloc :: bool
  av_send_packet :: "'c \<Rightarrow> u8 list \<Rightarrow> int \<times> 'c"
  av_receive_frame :: "'c \<Rightarrow> int \<times> 'c"
  av_transfer :: "'c \<Rightarrow> int \<times> 'c"
  av_pict :: "'c \<Rightarrow> av_picture"
  av_size :: "'c \<Rightarrow> vidsz"

record 'c av_dec =
  av_ctx :: 'c
  av_mb :: mbuf
  av_got_keyframe :: bool
  av_frag_start :: nat
  av_frag :: bool
  av_frag_seq :: u16
  av_n_key :: u32
  av_n_lost :: u32

definition AV_PADDING :: nat where "AV_PADDING = 64"

definition avpixfmt_to_vidfmt :: "av_pixfmt \<Rightarrow> vidfmt option" where
  "avpixfmt_to_vidfmt f =
     (case f of
        AV_PIX_FMT_YUV420P \<Rightarrow> Some VID_FMT_YUV420P
      | AV_PIX_FMT_YUVJ420P \<Rightarrow> Some VID_FMT_YUV420P
      | AV_PIX_FMT_YUV444P \<Rightarrow> Some VID_FMT_YUV444P
      | AV_PIX_FMT_NV12 \<Rightarrow> Some VID_FMT_NV12
      | AV_PIX_FMT_NV21 \<Rightarrow> Some VID_FMT_NV21
      | AV_PIX_FMT_OTHER _ \<Rightarrow> None)"

definition fragment_rewind :: "'c av_dec \<Rightarrow> 'c av_dec" where
  "fragment_rewind st =
     st\<lparr>av_mb := (av_mb st)\<lparr>mb_pos := av_frag_start st, mb_end := av_frag_start st\<rparr>\<rparr>"

subsection \<open>Decoding the assembled buffer\<close>

text \<open>
  The result: error code, whether \<open>*intra\<close> is set, the picture stored through
  \<open>frame\<close>, and the state.
\<close>

text \<open>
  The calls of libavcodec on the assembled bytes: error code, key frame flag,
  picture, context.
\<close>

definition av_run :: "'c av_ops \<Rightarrow> 'c \<Rightarrow> u8 list \<Rightarrow> err \<times> bool \<times> vidframe option \<times> 'c" where
  "av_run A c b =
     (let hw = av_hw A c; (ret, c) = av_send_packet A c b
      in if ret < 0 then (EBADMSG, False, None, c)
         else
           let (ret, c) = av_receive_frame A c
           in if ret = - 11 then (0, False, None, c)
              else if ret < 0 then (EBADMSG, False, None, c)
              else
                let (ret, c) = (if hw then av_transfer A c else (0, c))
                in if ret < 0 then (0, False, None, c)
                   else
                     let pict = av_pict A c
                     in case avpixfmt_to_vidfmt (pic_format pict) of
                          None \<Rightarrow> (0, False, None, c)
                        | Some fmt \<Rightarrow>
                            (0, pic_key pict,
                             Some \<lparr>vf_data = pic_data pict, vf_linesize = pic_linesize pict,
                                   vf_size = av_size A c, vf_fmt = fmt\<rparr>, c))"

definition ffdecode ::
  "mbuf_ops \<Rightarrow> 'c av_ops \<Rightarrow> 'c av_dec \<Rightarrow> err \<times> bool \<times> vidframe option \<times> 'c av_dec" where
  "ffdecode M A st =
     (if av_hw A (av_ctx st) \<and> \<not> av_frame_alloc A then (ENOMEM, False, None, st)
      else
        let (err, mb) = m_fill M (av_mb st) 0 AV_PADDING; st = st\<lparr>av_mb := mb\<rparr>
        in if err \<noteq> 0 then (err, False, None, st)
           else
             let mb = mb\<lparr>mb_end := size_sub (mb_end mb) AV_PADDING\<rparr>;
                 (err, key, frame, ctx) = av_run A (av_ctx st) (take (mb_end mb) (mb_buf mb));
                 st = st\<lparr>av_mb := mb, av_ctx := ctx\<rparr>;
                 st = (if key then st\<lparr>av_got_keyframe := True, av_n_key := av_n_key st + 1\<rparr> else st)
             in (err, key, frame, st))"

text \<open>How the part that handles one NAL unit ends: \<open>return\<close>, \<open>goto out\<close>, or on to the marker.\<close>

datatype av_next = AvReturn err | AvOut err | AvGo

definition av_out :: "mbuf_ops \<Rightarrow> 'c av_dec \<Rightarrow> 'c av_dec" where
  "av_out M st = st\<lparr>av_mb := m_rewind M (av_mb st), av_frag := False\<rparr>"

text \<open>The end of the decode functions of H.264 and H.265.\<close>

definition av_finish ::
  "mbuf_ops \<Rightarrow> 'c av_ops \<Rightarrow> bool \<Rightarrow> av_next \<times> 'c av_dec \<Rightarrow> 'c av_dec dec_result" where
  "av_finish M A marker r =
     (case r of (nxt, st) \<Rightarrow>
        case nxt of
          AvReturn err \<Rightarrow> \<lparr>r_err = err, r_intra = Some False, r_frame = None, r_vds = st\<rparr>
        | AvOut err \<Rightarrow> \<lparr>r_err = err, r_intra = Some False, r_frame = None, r_vds = av_out M st\<rparr>
        | AvGo \<Rightarrow>
            if \<not> marker
            then (if mb_end (av_mb st) > DECODE_MAXSZ
                  then \<lparr>r_err = ENOMEM, r_intra = Some False, r_frame = None, r_vds = av_out M st\<rparr>
                  else \<lparr>r_err = 0, r_intra = Some False, r_frame = None, r_vds = st\<rparr>)
            else if av_frag st
            then \<lparr>r_err = EPROTO, r_intra = Some False, r_frame = None, r_vds = av_out M st\<rparr>
            else let (err, intra, frame, st) = ffdecode M A st
                 in \<lparr>r_err = err, r_intra = Some intra, r_frame = frame, r_vds = av_out M st\<rparr>)"

text \<open>Append the unread bytes of the packet, then account for the fragment.\<close>

definition av_fu_append ::
  "mbuf_ops \<Rightarrow> 'c av_dec \<Rightarrow> mbuf \<Rightarrow> bool \<Rightarrow> u16 \<Rightarrow> av_next \<times> 'c av_dec" where
  "av_fu_append M st src e seq =
     (let (err, mb) = m_write_mem M (av_mb st) (m_rest M src); st = st\<lparr>av_mb := mb\<rparr>
      in if err \<noteq> 0 then (AvOut err, st)
         else let st = (if e then st\<lparr>av_frag := False\<rparr> else st)
              in (AvGo, st\<lparr>av_frag_seq := seq\<rparr>))"

text \<open>A whole NAL unit behind a start code.\<close>

definition av_append_nal :: "mbuf_ops \<Rightarrow> 'c av_dec \<Rightarrow> u8 list \<Rightarrow> err \<times> 'c av_dec" where
  "av_append_nal M st d =
     (let (err, mb) = m_write_mem M (av_mb st) nal_seq;
          (e, mb) = m_write_mem M mb d
      in (err OR e, st\<lparr>av_mb := mb\<rparr>))"

subsection \<open>H.264\<close>

record h264_nal_hdr =
  nh_f :: bool
  nh_nri :: u8
  nh_type :: u8

record h264_ops =
  nh_decode :: "mbuf \<Rightarrow> err \<times> h264_nal_hdr \<times> mbuf"
  nh_encode :: "mbuf \<Rightarrow> h264_nal_hdr \<Rightarrow> err \<times> mbuf"

text \<open>Every unit of an aggregation packet, behind its 16-bit length.\<close>

partial_function (option) h264_stap_loop ::
  "mbuf_ops \<Rightarrow> h264_ops \<Rightarrow> 'c av_dec \<Rightarrow> mbuf \<Rightarrow> (av_next \<times> 'c av_dec) option" where
  "h264_stap_loop M N st src =
     (if m_get_left M src \<ge> 2
      then
        let (v, src) = m_read_u16 M src; len = unat (ntohs v)
        in if m_get_left M src < len then Some (AvReturn EBADMSG, st)
           else
             let (err, lhdr, src) = nh_decode N src
             in if err \<noteq> 0 then Some (AvReturn err, st)
                else
                  let src = src\<lparr>mb_pos := mb_pos src - 1\<rparr>;
                      (err, st) = av_append_nal M st (take len (m_rest M src))
                  in if err \<noteq> 0 then Some (AvOut err, st)
                     else h264_stap_loop M N st (src\<lparr>mb_pos := mb_pos src + len\<rparr>)
      else Some (AvGo, st))"

definition h264_rx_fu ::
  "mbuf_ops \<Rightarrow> h264_ops \<Rightarrow> h264_nal_hdr \<Rightarrow> 'c av_dec \<Rightarrow> mbuf \<Rightarrow> u16 \<Rightarrow> av_next \<times> 'c av_dec" where
  "h264_rx_fu M N hdr st src seq =
     (let (err, fu, src) = h264_fu_hdr_decode M \<lparr>fu_s = False, fu_e = False, fu_r = False, fu_type = 0\<rparr> src
      in if err \<noteq> 0 then (AvReturn err, st)
         else
           let hdr = hdr\<lparr>nh_type := fu_type fu\<rparr>
           in if fu_s fu
              then
                let st = (if av_frag st then (fragment_rewind st)\<lparr>av_n_lost := av_n_lost st + 1\<rparr> else st);
                    st = st\<lparr>av_frag_start := mb_pos (av_mb st), av_frag := True\<rparr>;
                    (_, mb) = m_write_mem M (av_mb st) nal_seq;
                    (err, mb) = nh_encode N mb hdr;
                    st = st\<lparr>av_mb := mb\<rparr>
                in if err \<noteq> 0 then (AvOut err, st) else av_fu_append M st src (fu_e fu) seq
              else if \<not> av_frag st then (AvReturn 0, st\<lparr>av_n_lost := av_n_lost st + 1\<rparr>)
              else if seq_diff (av_frag_seq st) seq \<noteq> 1
              then (AvReturn 0, (fragment_rewind st)\<lparr>av_frag := False, av_n_lost := av_n_lost st + 1\<rparr>)
              else av_fu_append M st src (fu_e fu) seq)"

definition h264_rx_nal ::
  "mbuf_ops \<Rightarrow> h264_ops \<Rightarrow> 'c av_dec \<Rightarrow> u16 \<Rightarrow> mbuf \<Rightarrow> (av_next \<times> 'c av_dec) option" where
  "h264_rx_nal M N st seq src =
     (let (err, hdr, src) = nh_decode N src
      in if err \<noteq> 0 then Some (AvReturn err, st)
         else if nh_type hdr = 1 \<and> \<not> av_got_keyframe st then Some (AvReturn EPROTO, st)
         else if nh_f hdr then Some (AvReturn EBADMSG, st)
         else
           let st = (if av_frag st \<and> nh_type hdr \<noteq> H264_NALU_FU_A
                     then (fragment_rewind st)\<lparr>av_frag := False, av_n_lost := av_n_lost st + 1\<rparr>
                     else st)
           in if 1 \<le> nh_type hdr \<and> nh_type hdr \<le> 23
              then let src = src\<lparr>mb_pos := mb_pos src - 1\<rparr>;
                       (err, st) = av_append_nal M st (m_rest M src)
                   in Some (if err \<noteq> 0 then (AvOut err, st) else (AvGo, st))
              else if nh_type hdr = H264_NALU_FU_A then Some (h264_rx_fu M N hdr st src seq)
              else if nh_type hdr = 24 then h264_stap_loop M N st src
              else Some (AvReturn EBADMSG, st))"

text \<open>\<open>nonnull\<close>: none of the pointer arguments is NULL.\<close>

definition avcodec_decode_h264 ::
  "mbuf_ops \<Rightarrow> 'c av_ops \<Rightarrow> h264_ops \<Rightarrow> bool \<Rightarrow> 'c av_dec \<Rightarrow> bool \<Rightarrow> u16 \<Rightarrow> mbuf \<Rightarrow>
   'c av_dec dec_result option" where
  "avcodec_decode_h264 M A N nonnull st marker seq src =
     (if \<not> nonnull then Some \<lparr>r_err = EINVAL, r_intra = None, r_frame = None, r_vds = st\<rparr>
      else map_option (av_finish M A marker) (h264_rx_nal M N st seq src))"

subsection \<open>H.265\<close>

record h265_fu =
  hfu_s :: bool
  hfu_e :: bool
  hfu_type :: "6 word"

definition h265_fu_decode :: "mbuf_ops \<Rightarrow> h265_fu \<Rightarrow> mbuf \<Rightarrow> err \<times> h265_fu \<times> mbuf" where
  "h265_fu_decode M fu mb =
     (if m_get_left M mb < 1 then (EBADMSG, fu, mb)
      else let (v, mb) = m_read_u8 M mb
           in (0, \<lparr>hfu_s = bit v 7, hfu_e = bit v 6, hfu_type = ucast (v AND 0x3f)\<rparr>, mb))"

definition h265_rx_fu ::
  "mbuf_ops \<Rightarrow> h265_nal \<Rightarrow> 'c av_dec \<Rightarrow> mbuf \<Rightarrow> u16 \<Rightarrow> av_next \<times> 'c av_dec" where
  "h265_rx_fu M hdr vds mb seq =
     (let (err, fu, mb) = h265_fu_decode M \<lparr>hfu_s = False, hfu_e = False, hfu_type = 0\<rparr> mb
      in if err \<noteq> 0 then (AvReturn err, vds)
         else if hfu_s fu
         then
           let vds = (if av_frag vds then fragment_rewind vds else vds);
               vds = vds\<lparr>av_frag_start := mb_pos (av_mb vds), av_frag := True\<rparr>;
               hdr = hdr\<lparr>nal_unit_type := hfu_type fu\<rparr>;
               (err, b) = m_write_mem M (av_mb vds) nal_seq;
               (e, b) = h265_nal_encode_mbuf M b hdr;
               vds = vds\<lparr>av_mb := b\<rparr>
           in if err OR e \<noteq> 0 then (AvOut (err OR e), vds) else av_fu_append M vds mb (hfu_e fu) seq
         else if \<not> av_frag vds then (AvReturn 0, vds)
         else if seq_diff (av_frag_seq vds) seq \<noteq> 1
         then (AvReturn 0, (fragment_rewind vds)\<lparr>av_frag := False\<rparr>)
         else av_fu_append M vds mb (hfu_e fu) seq)"

partial_function (option) h265_ap_loop ::
  "mbuf_ops \<Rightarrow> 'c av_dec \<Rightarrow> mbuf \<Rightarrow> (av_next \<times> 'c av_dec) option" where
  "h265_ap_loop M vds mb =
     (if m_get_left M mb \<ge> 2
      then
        let (v, mb) = m_read_u16 M mb; len = unat (ntohs v)
        in if m_get_left M mb < len then Some (AvReturn EBADMSG, vds)
           else
             let (err, vds) = av_append_nal M vds (take len (m_rest M mb))
             in if err \<noteq> 0 then Some (AvOut err, vds)
                else h265_ap_loop M vds (mb\<lparr>mb_pos := mb_pos mb + len\<rparr>)
      else Some (AvGo, vds))"

definition h265_rx_nal ::
  "mbuf_ops \<Rightarrow> 'c av_dec \<Rightarrow> u16 \<Rightarrow> mbuf \<Rightarrow> (av_next \<times> 'c av_dec) option" where
  "h265_rx_nal M vds seq mb =
     (let (err, hdr) = h265_nal_decode \<lparr>nal_unit_type = 0, nuh_temporal_id_plus1 = 0\<rparr> (Some (m_rest M mb))
      in if err \<noteq> 0 then Some (AvReturn err, vds)
         else
           let mb = m_advance M mb H265_HDR_SIZE;
               type = unat (nal_unit_type hdr);
               vds = (if av_frag vds \<and> type \<noteq> H265_NAL_FU
                      then (fragment_rewind vds)\<lparr>av_frag := False\<rparr> else vds)
           in if type \<le> 40
              then let mb = mb\<lparr>mb_pos := mb_pos mb - H265_HDR_SIZE\<rparr>;
                       (err, vds) = av_append_nal M vds (m_rest M mb)
                   in Some (if err \<noteq> 0 then (AvOut err, vds) else (AvGo, vds))
              else if type = H265_NAL_FU then Some (h265_rx_fu M hdr vds mb seq)
              else if type = H265_NAL_AP then h265_ap_loop M vds mb
              else Some (AvReturn EPROTO, vds))"

definition avcodec_decode_h265 ::
  "mbuf_ops \<Rightarrow> 'c av_ops \<Rightarrow> bool \<Rightarrow> 'c av_dec \<Rightarrow> bool \<Rightarrow> u16 \<Rightarrow> mbuf \<Rightarrow> 'c av_dec dec_result option" where
  "avcodec_decode_h265 M A nonnull vds marker seq mb =
     (if \<not> nonnull then Some \<lparr>r_err = EINVAL, r_intra = None, r_frame = None, r_vds = vds\<rparr>
      else map_option (av_finish M A marker) (h265_rx_nal M vds seq mb))"

subsection \<open>MPEG-4\<close>

definition avcodec_decode_mpeg4 ::
  "mbuf_ops \<Rightarrow> 'c av_ops \<Rightarrow> 'c av_dec \<Rightarrow> bool \<Rightarrow> u16 \<Rightarrow> mbuf option \<Rightarrow> 'c av_dec dec_result" where
  "avcodec_decode_mpeg4 M A st marker seq src =
     (case src of
        None \<Rightarrow> \<lparr>r_err = 0, r_intra = None, r_frame = None, r_vds = st\<rparr>
      | Some src \<Rightarrow>
          let (err, mb) = m_write_mem M (av_mb st) (m_rest M src);
              st = st\<lparr>av_mb := mb\<rparr>;
              out = (\<lambda>err intra frame st. \<lparr>r_err = err, r_intra = Some intra, r_frame = frame,
                       r_vds = st\<lparr>av_mb := m_rewind M (av_mb st)\<rparr>\<rparr>)
          in if err \<noteq> 0 then out err False None st
             else if \<not> marker
             then (if mb_end mb > DECODE_MAXSZ then out ENOMEM False None st
                   else \<lparr>r_err = 0, r_intra = Some False, r_frame = None, r_vds = st\<rparr>)
             else let (err, intra, frame, st) = ffdecode M A st in out err intra frame st)"

subsection \<open>Reassembly\<close>

text \<open>What librem promises of the one-byte NAL unit header.\<close>

definition h264_hdr_of :: "u8 \<Rightarrow> h264_nal_hdr" where
  "h264_hdr_of b = \<lparr>nh_f = bit b 7, nh_nri = drop_bit 5 b AND 3, nh_type = b AND 0x1f\<rparr>"

definition h264_hdr_byte :: "h264_nal_hdr \<Rightarrow> u8" where
  "h264_hdr_byte h = push_bit 7 (of_bool (nh_f h)) OR push_bit 5 (nh_nri h) OR nh_type h"

definition h264_laws :: "h264_ops \<Rightarrow> bool" where
  "h264_laws N = (\<forall>m. mb_wf m \<longrightarrow>
     (\<forall>b bs. mb_unread m = b # bs \<longrightarrow> nh_decode N m = (0, h264_hdr_of b, m\<lparr>mb_pos := mb_pos m + 1\<rparr>)) \<and>
     (mb_unread m = [] \<longrightarrow> fst (nh_decode N m) \<noteq> 0) \<and>
     (\<forall>h. fst (nh_encode N m h) = 0 \<and> mb_written m [h264_hdr_byte h] (snd (nh_encode N m h))))"

text \<open>
  The states of the assembly: whole units \<open>b\<close>; or whole units \<open>b0\<close> and the
  bytes \<open>b\<close> of a fragmented one.  With \<open>key\<close>, a key frame has been decoded.
\<close>

definition av_core :: "mbuf_ops \<Rightarrow> 'c av_ops \<Rightarrow> bool \<Rightarrow> 'c av_dec \<Rightarrow> 'c \<Rightarrow> u8 list \<Rightarrow> bool" where
  "av_core M A key d c b =
     (mbuf_laws M \<and> mbuf_no_oom M \<and> (av_hw A c \<longrightarrow> av_frame_alloc A) \<and>
      mb_at_end (av_mb d) \<and> mb_data (av_mb d) = b \<and> av_ctx d = c \<and> (key \<longrightarrow> av_got_keyframe d))"

definition av_asm :: "mbuf_ops \<Rightarrow> 'c av_ops \<Rightarrow> bool \<Rightarrow> 'c av_dec \<Rightarrow> 'c \<Rightarrow> u8 list \<Rightarrow> bool" where
  "av_asm M A key d c b = (av_core M A key d c b \<and> \<not> av_frag d)"

definition av_frg ::
  "mbuf_ops \<Rightarrow> 'c av_ops \<Rightarrow> bool \<Rightarrow> 'c av_dec \<Rightarrow> 'c \<Rightarrow> u16 \<Rightarrow> u8 list \<Rightarrow> u8 list \<Rightarrow> bool" where
  "av_frg M A key d c q b0 b =
     (av_core M A key d c (b0 @ b) \<and> av_frag d \<and> av_frag_start d = length b0 \<and> av_frag_seq d = q)"

text \<open>The codec got the bytes \<open>b\<close>; its answer is the result, and the buffer is empty.\<close>

definition av_fin :: "'c av_ops \<Rightarrow> 'c \<Rightarrow> u8 list \<Rightarrow> 'c av_dec dec_result \<Rightarrow> 'c av_dec \<Rightarrow> bool" where
  "av_fin A c b r d =
     ((r_err r, r_intra r, r_frame r, av_ctx d) =
        (let (err, intra, frame, c') = av_run A c b in (err, Some intra, frame, c')) \<and>
      mb_at_end (av_mb d) \<and> mb_data (av_mb d) = [] \<and> \<not> av_frag d)"

lemma av_core_cong:
  "av_core M A key d c b \<Longrightarrow> av_mb d' = av_mb d \<Longrightarrow> av_ctx d' = av_ctx d \<Longrightarrow>
   av_got_keyframe d' = av_got_keyframe d \<Longrightarrow> av_core M A key d' c b"
  by (simp add: av_core_def)

lemma av_core_write:
  assumes "av_core M A key d c b"
  obtains m' where "m_write_mem M (av_mb d) x = (0, m')" "av_core M A key (d\<lparr>av_mb := m'\<rparr>) c (b @ x)"
proof -
  have "mbuf_laws M" "mbuf_no_oom M" "mb_at_end (av_mb d)" using assms by (simp_all add: av_core_def)
  then obtain m' where "m_write_mem M (av_mb d) x = (0, m')" "mb_at_end m'" "mb_data m' = mb_data (av_mb d) @ x"
    by (rule m_write_mem_append)
  then show ?thesis using assms by (intro that) (auto simp: av_core_def)
qed

lemma av_core_data: "av_core M A key d c b \<Longrightarrow> mb_pos (av_mb d) = length b \<and> mb_end (av_mb d) = length b"
  using mb_data_length[of "av_mb d"] by (auto simp: av_core_def mb_at_end_def)

lemma av_core_rewind:
  assumes "av_core M A key d c (b0 @ b)" "av_frag_start d = length b0"
  shows "av_core M A key (fragment_rewind d) c b0"
proof -
  have d: "mb_data (av_mb d) = b0 @ b" and wf: "mb_wf (av_mb d)"
    using assms(1) by (simp_all add: av_core_def mb_at_end_def)
  have e: "mb_end (av_mb d) = length b0 + length b" using av_core_data[OF assms(1)] by simp
  have "take (length b0) (mb_buf (av_mb d)) = take (length b0) (mb_data (av_mb d))"
    by (simp add: mb_data_def e)
  then have "take (length b0) (mb_buf (av_mb d)) = b0" by (simp add: d)
  moreover have "length b0 \<le> length (mb_buf (av_mb d))" using wf e by (simp add: mb_wf_def)
  ultimately show ?thesis
    using assms by (simp add: av_core_def fragment_rewind_def mb_at_end_def mb_wf_def mb_data_def)
qed

text \<open>Leaving a cut NAL unit: the whole units remain.\<close>

lemma av_base_rewind:
  assumes "av_asm M A key d c b \<or> av_frg M A key d c q b b'"
  shows "av_asm M A key (if av_frag d then (fragment_rewind d)\<lparr>av_frag := False, av_n_lost := n\<rparr> else d) c b"
    and "av_asm M A key (if av_frag d then (fragment_rewind d)\<lparr>av_frag := False\<rparr> else d) c b"
    and "av_core M A key (if av_frag d then (fragment_rewind d)\<lparr>av_n_lost := n\<rparr> else d) c b"
    and "av_core M A key (if av_frag d then fragment_rewind d else d) c b"
proof -
  have "av_core M A key (if av_frag d then fragment_rewind d else d) c b"
    using assms av_core_rewind[of M A key d c b b'] by (auto simp: av_asm_def av_frg_def)
  then show "av_asm M A key (if av_frag d then (fragment_rewind d)\<lparr>av_frag := False, av_n_lost := n\<rparr> else d) c b"
    "av_asm M A key (if av_frag d then (fragment_rewind d)\<lparr>av_frag := False\<rparr> else d) c b"
    "av_core M A key (if av_frag d then (fragment_rewind d)\<lparr>av_n_lost := n\<rparr> else d) c b"
    "av_core M A key (if av_frag d then fragment_rewind d else d) c b"
    by (auto simp: av_asm_def av_core_def split: if_splits)
qed

lemma av_append_nal_ok:
  assumes "av_core M A key d c b"
  obtains d' where "av_append_nal M d x = (0, d')" "av_core M A key d' c (b @ nal_seq @ x)"
    "av_frag d' = av_frag d"
proof -
  obtain m1 where m1: "m_write_mem M (av_mb d) nal_seq = (0, m1)" "av_core M A key (d\<lparr>av_mb := m1\<rparr>) c (b @ nal_seq)"
    using assms by (rule av_core_write)
  obtain m2 where m2: "m_write_mem M m1 x = (0, m2)" "av_core M A key (d\<lparr>av_mb := m2\<rparr>) c (b @ nal_seq @ x)"
    using av_core_write[OF m1(2), of x] by auto
  show ?thesis
    by (rule that[of "d\<lparr>av_mb := m2\<rparr>"]) (use m1 m2 in \<open>simp_all add: av_append_nal_def\<close>)
qed

text \<open>The end of the decode functions.\<close>

lemma ffdecode_run:
  assumes "av_core M A key d c b" "length b \<le> DECODE_MAXSZ" "ffdecode M A d = (err, intra, frame, d')"
  shows "(err, intra, frame, av_ctx d') = av_run A c b"
proof -
  have laws: "mbuf_laws M" "mbuf_no_oom M" "mb_wf (av_mb d)" and at: "mb_at_end (av_mb d)"
    and hw: "av_hw A c \<longrightarrow> av_frame_alloc A" and c: "av_ctx d = c" and b: "mb_data (av_mb d) = b"
    using assms(1) by (simp_all add: av_core_def mb_at_end_def)
  obtain m' where f: "m_fill M (av_mb d) 0 AV_PADDING = (0, m')"
      and w: "mb_written (av_mb d) (replicate AV_PADDING 0) m'"
    using laws by (rule m_fill_ok)
  have e: "mb_end m' = length b + AV_PADDING" and dat: "mb_data m' = b @ replicate AV_PADDING 0"
    using mb_written_at_end[OF at w] av_core_data[OF assms(1)] b by simp_all
  have s: "size_sub (mb_end m') AV_PADDING = length b"
    using assms(2) by (simp add: e size_sub_le AV_PADDING_def DECODE_MAXSZ_def)
  have "take (length b) (mb_buf m') = take (length b) (mb_data m')" by (simp add: mb_data_def e)
  then have t: "take (length b) (mb_buf m') = b" by (simp add: dat)
  obtain er k fr c' where r: "av_run A c b = (er, k, fr, c')" by (metis prod.exhaust)
  show ?thesis
    using assms(3) hw c f s t r by (auto simp: ffdecode_def Let_def)
qed

lemma av_finish_go:
  assumes "av_asm M A key d c b" "length b \<le> DECODE_MAXSZ"
    and "av_finish M A m (AvGo, d) = r"
  shows "if m then av_fin A c b r (r_vds r) else av_asm M A key (r_vds r) c b"
proof (cases m)
  case False
  have "\<not> DECODE_MAXSZ < mb_end (av_mb d)"
    using assms(1,2) av_core_data[of M A key d c b] by (simp add: av_asm_def)
  then show ?thesis using assms False by (auto simp: av_finish_def)
next
  case True
  obtain err intra frame d' where f: "ffdecode M A d = (err, intra, frame, d')" by (metis prod.exhaust)
  have laws: "mbuf_laws M" and core: "av_core M A key d c b" and nf: "\<not> av_frag d"
    using assms(1) by (simp_all add: av_asm_def av_core_def)
  from ffdecode_run[OF core assms(2) f]
  have "(err, intra, frame, av_ctx d') = av_run A c b" .
  then show ?thesis
    using assms(3)[symmetric] True f nf m_rewind_empty[OF laws, of "av_mb d'"]
    by (auto simp: av_finish_def av_fin_def av_out_def split_def Let_def prod_eq_iff)
qed

lemma av_finish_frg:
  assumes "av_frg M A key d c q b0 b" "length (b0 @ b) \<le> DECODE_MAXSZ"
    and "av_finish M A False (AvGo, d) = r"
  shows "av_frg M A key (r_vds r) c q b0 b"
proof -
  have "\<not> DECODE_MAXSZ < mb_end (av_mb d)"
    using assms(1,2) av_core_data[of M A key d c "b0 @ b"] by (simp add: av_frg_def)
  then show ?thesis using assms by (auto simp: av_finish_def)
qed

text \<open>Appending a fragment.\<close>

lemma av_fu_append_frg:
  assumes "av_core M A key d c (b0 @ b)" "av_frag d" "av_frag_start d = length b0" "m_rest M src = x"
  obtains d' where "av_fu_append M d src False q = (AvGo, d')" "av_frg M A key d' c q b0 (b @ x)"
proof -
  obtain m' where m: "m_write_mem M (av_mb d) x = (0, m')" "av_core M A key (d\<lparr>av_mb := m'\<rparr>) c ((b0 @ b) @ x)"
    using assms(1) by (rule av_core_write)
  show ?thesis
    by (rule that[of "d\<lparr>av_mb := m', av_frag_seq := q\<rparr>"])
      (use m assms in \<open>simp_all add: av_fu_append_def av_frg_def av_core_def\<close>)
qed

lemma av_fu_append_last:
  assumes "av_core M A key d c b" "m_rest M src = x"
  obtains d' where "av_fu_append M d src True q = (AvGo, d')" "av_asm M A key d' c (b @ x)"
proof -
  obtain m' where m: "m_write_mem M (av_mb d) x = (0, m')" "av_core M A key (d\<lparr>av_mb := m'\<rparr>) c (b @ x)"
    using assms(1) by (rule av_core_write)
  show ?thesis
    by (rule that[of "d\<lparr>av_mb := m', av_frag := False, av_frag_seq := q\<rparr>"])
      (use m assms in \<open>simp_all add: av_fu_append_def av_asm_def av_core_def\<close>)
qed

subsection \<open>H.264 packets\<close>

text \<open>One packet with the bytes \<open>bs\<close>, as the contract of the assembly sees it.\<close>

definition rx_step :: "('c av_dec \<Rightarrow> bool \<Rightarrow> u16 \<Rightarrow> mbuf \<Rightarrow> 'c av_dec dec_result option) \<Rightarrow>
    'c av_dec \<Rightarrow> bool \<Rightarrow> u16 \<Rightarrow> u8 list \<Rightarrow> 'c av_dec dec_result \<times> 'c av_dec" where
  "rx_step decode st marker seq bs =
     (case decode st marker seq (mbuf_of bs) of
        Some r \<Rightarrow> (r, r_vds r)
      | None \<Rightarrow> (\<lparr>r_err = - 1, r_intra = None, r_frame = None, r_vds = st\<rparr>, st))"

lemma mbuf_of_pos [simp]: "mb_unread ((mbuf_of (b # bs))\<lparr>mb_pos := Suc 0\<rparr>) = bs"
    "mb_wf ((mbuf_of (b # bs))\<lparr>mb_pos := Suc 0\<rparr>)"
  by (simp_all add: mbuf_of_def mb_unread_def mb_data_def mb_wf_def)

lemma mbuf_of_pos2 [simp]: "mb_unread ((mbuf_of (b # b' # bs))\<lparr>mb_pos := 2\<rparr>) = bs"
    "mb_wf ((mbuf_of (b # b' # bs))\<lparr>mb_pos := 2\<rparr>)"
    "mb_unread ((mbuf_of (b # b' # bs))\<lparr>mb_pos := Suc (Suc 0)\<rparr>) = bs"
    "mb_wf ((mbuf_of (b # b' # bs))\<lparr>mb_pos := Suc (Suc 0)\<rparr>)"
  by (simp_all add: mbuf_of_def mb_unread_def mb_data_def mb_wf_def)

lemma mbuf_of_pos0 [simp]: "(mbuf_of bs)\<lparr>mb_pos := 0\<rparr> = mbuf_of bs" "mb_pos (mbuf_of bs) = 0"
  by (simp_all add: mbuf_of_def)

definition nal264_ok :: "bool \<Rightarrow> u8 \<times> u8 list \<Rightarrow> bool" where
  "nal264_ok key n = (\<not> bit (fst n) 7 \<and> 1 \<le> fst n AND 0x1f \<and> fst n AND 0x1f \<le> 23 \<and>
     (fst n AND 0x1f = 1 \<longrightarrow> key))"

lemma nal264_hdr:
  assumes "nal264_ok key (h, d)" "mbuf_laws M" "h264_laws N"
  shows "nh_decode N (mbuf_of (h # x)) = (0, h264_hdr_of h, (mbuf_of (h # x))\<lparr>mb_pos := Suc 0\<rparr>)"
proof -
  have "mb_unread (mbuf_of (h # x)) = h # x" by simp
  then show ?thesis using assms(3) unfolding h264_laws_def by (metis One_nat_def add_0 mbuf_of_pos0(2) mbuf_of_simps(1))
qed

text \<open>A packet with a whole NAL unit.\<close>

lemma h264_rx_whole:
  assumes ok: "nal264_ok key (h, x)" and N: "h264_laws N"
    and st: "av_asm M A key d c b \<or> av_frg M A key d c q0 b b'"
  obtains d' where "h264_rx_nal M N d q (mbuf_of (h # x)) = Some (AvGo, d')"
    "av_asm M A key d' c (b @ nal_seq @ h # x)"
proof -
  let ?d = "if av_frag d then (fragment_rewind d)\<lparr>av_frag := False, av_n_lost := av_n_lost d + 1\<rparr> else d"
  have M: "mbuf_laws M" and got: "key \<longrightarrow> av_got_keyframe d"
    using st by (auto simp: av_asm_def av_frg_def av_core_def)
  have a: "av_asm M A key ?d c b" by (rule av_base_rewind(1)[OF st])
  then have core: "av_core M A key ?d c b" and nf: "\<not> av_frag ?d" by (simp_all add: av_asm_def)
  obtain d' where d': "av_append_nal M ?d (h # x) = (0, d')" "av_core M A key d' c (b @ nal_seq @ h # x)"
      "av_frag d' = av_frag ?d"
    using core by (rule av_append_nal_ok)
  have t: "h AND 0x1f \<noteq> H264_NALU_FU_A" "1 \<le> h AND 0x1f" "h AND 0x1f \<le> 23" "\<not> bit h 7"
      "h AND 0x1f = 1 \<longrightarrow> key"
    using ok by (auto simp: nal264_ok_def H264_NALU_FU_A_def)
  have rest: "m_rest M (mbuf_of (h # x)) = h # x" using M by (simp add: m_rest_unread)
  have "h264_rx_nal M N d q (mbuf_of (h # x)) = Some (AvGo, d')"
    using nal264_hdr[OF ok M N, of x] t got d'(1) rest
    by (simp add: h264_rx_nal_def h264_hdr_of_def Let_def)
  then show ?thesis using d' nf by (intro that) (simp_all add: av_asm_def)
qed


text \<open>A fragmentation unit: its header is decoded, its payload is left to read.\<close>

lemma fu_byte_fields:
  "h264_fu_of_byte ((if st then push_bit 7 1 else 0) OR (h AND 0x1f) OR (if en then push_bit 6 1 else 0)) =
     \<lparr>fu_s = st, fu_e = en, fu_r = False, fu_type = h AND 0x1f\<rparr>"
  by (cases st; cases en; simp add: h264_fu_of_byte_def u8_eq_iff bit_simps)

lemma fu_indicator_fields:
  "h264_hdr_of ((h AND 0x60) OR 28) = \<lparr>nh_f = False, nh_nri = drop_bit 5 h AND 3, nh_type = 28\<rparr>"
  by (simp add: h264_hdr_of_def u8_eq_iff bit_simps)

lemma fu_header_back:
  "\<not> bit h 7 \<Longrightarrow>
   h264_hdr_byte \<lparr>nh_f = False, nh_nri = drop_bit 5 h AND 3, nh_type = h AND 0x1f\<rparr> = h"
  by (simp add: h264_hdr_byte_def u8_eq_iff bit_simps)

lemma h264_rx_fu_nal:
  assumes "mbuf_laws M" "h264_laws N"
  obtains src where "mb_wf src" "m_rest M src = x"
    "h264_rx_nal M N d q (mbuf_of (fu_hdr h True True st en @ x)) = Some
      (if st
       then
         let d = (if av_frag d then (fragment_rewind d)\<lparr>av_n_lost := av_n_lost d + 1\<rparr> else d);
             d = d\<lparr>av_frag_start := mb_pos (av_mb d), av_frag := True\<rparr>;
             (_, mb) = m_write_mem M (av_mb d) nal_seq;
             (err, mb) = nh_encode N mb \<lparr>nh_f = False, nh_nri = drop_bit 5 h AND 3, nh_type = h AND 0x1f\<rparr>;
             d = d\<lparr>av_mb := mb\<rparr>
         in if err \<noteq> 0 then (AvOut err, d) else av_fu_append M d src en q
       else if \<not> av_frag d then (AvReturn 0, d\<lparr>av_n_lost := av_n_lost d + 1\<rparr>)
       else if seq_diff (av_frag_seq d) q \<noteq> 1
       then (AvReturn 0, (fragment_rewind d)\<lparr>av_frag := False, av_n_lost := av_n_lost d + 1\<rparr>)
       else av_fu_append M d src en q)"
proof -
  let ?b0 = "(h AND 0x60) OR 28 :: u8"
  define b1 :: u8 where "b1 = (if st then push_bit 7 1 else 0) OR (h AND 0x1f) OR (if en then push_bit 6 1 else 0)"
  have fields: "h264_fu_of_byte b1 = \<lparr>fu_s = st, fu_e = en, fu_r = False, fu_type = h AND 0x1f\<rparr>"
    unfolding b1_def by (rule fu_byte_fields)
  let ?m = "mbuf_of (?b0 # b1 # x)" and ?m1 = "(mbuf_of (?b0 # b1 # x))\<lparr>mb_pos := Suc 0\<rparr>"
  have bytes: "fu_hdr h True True st en @ x = ?b0 # b1 # x"
    by (simp add: fu_hdr_def H264_NALU_FU_A_def b1_def)
  have "nh_decode N ?m = (0, h264_hdr_of ?b0, ?m\<lparr>mb_pos := mb_pos ?m + 1\<rparr>)"
    using assms(2) unfolding h264_laws_def by (metis mbuf_of_simps(1,2))
  then have dec: "nh_decode N ?m = (0, \<lparr>nh_f = False, nh_nri = drop_bit 5 h AND 3, nh_type = 28\<rparr>, ?m1)"
    by (simp add: fu_indicator_fields)
  obtain m2 where m2: "m_read_u8 M ?m1 = (b1, m2)" "\<not> m_get_left M ?m1 < 1" "mb_wf m2" "mb_unread m2 = x"
    by (rule m_read_u8_Cons[OF assms(1) mbuf_of_pos(2) mbuf_of_pos(1)])
  have rest: "m_rest M m2 = x" using m2(3,4) assms(1) by (simp add: m_rest_unread)
  have fu: "h264_fu_hdr_decode M \<lparr>fu_s = False, fu_e = False, fu_r = False, fu_type = 0\<rparr> ?m1 =
      (0, \<lparr>fu_s = st, fu_e = en, fu_r = False, fu_type = h AND 0x1f\<rparr>, m2)"
    using m2(1,2) by (simp add: h264_fu_hdr_decode_def fields)
  show ?thesis
    by (rule that[OF m2(3) rest])
      (simp add: bytes h264_rx_nal_def dec H264_NALU_FU_A_def h264_rx_fu_def fu Let_def split_def)
qed

text \<open>The first, a further, the last fragment, and a fragment after a gap.\<close>

lemma h264_rx_first:
  assumes ok: "nal264_ok key (h, pl)" and N: "h264_laws N"
    and st: "av_asm M A key d c b \<or> av_frg M A key d c q0 b b'"
  obtains d' where "h264_rx_nal M N d q (mbuf_of (fu_hdr h True True True False @ x)) = Some (AvGo, d')"
    "av_frg M A key d' c q b (nal_seq @ h # x)"
proof -
  let ?d = "if av_frag d then (fragment_rewind d)\<lparr>av_n_lost := av_n_lost d + 1\<rparr> else d"
  let ?d1 = "?d\<lparr>av_frag_start := mb_pos (av_mb ?d), av_frag := True\<rparr>"
  let ?h = "\<lparr>nh_f = False, nh_nri = drop_bit 5 h AND 3, nh_type = h AND 0x1f\<rparr>"
  have M: "mbuf_laws M" using st by (auto simp: av_asm_def av_frg_def av_core_def)
  have core: "av_core M A key ?d c b" by (rule av_base_rewind(3)[OF st])
  then have core1: "av_core M A key ?d1 c b" by (rule av_core_cong) simp_all
  obtain m1 where m1: "m_write_mem M (av_mb ?d1) nal_seq = (0, m1)"
      "av_core M A key (?d1\<lparr>av_mb := m1\<rparr>) c (b @ nal_seq)"
    using core1 by (rule av_core_write)
  have at1: "mb_at_end m1" "mb_data m1 = b @ nal_seq" using m1(2) by (simp_all add: av_core_def)
  obtain m2 where enc: "nh_encode N m1 ?h = (0, m2)" "mb_written m1 [h] m2"
    using N at1 fu_header_back[of h] ok unfolding h264_laws_def mb_at_end_def nal264_ok_def
    by (metis fst_conv prod.collapse)
  have core2: "av_core M A key (?d1\<lparr>av_mb := m2\<rparr>) c (b @ nal_seq @ [h])"
    using m1(2) mb_written_at_end[OF at1(1) enc(2)] at1(2) by (auto simp: av_core_def)
  obtain src where src: "mb_wf src" "m_rest M src = x" and
    rx: "h264_rx_nal M N d q (mbuf_of (fu_hdr h True True True False @ x)) =
      Some (av_fu_append M (?d1\<lparr>av_mb := m2\<rparr>) src False q)"
    using h264_rx_fu_nal[OF M N, where d = d and q = q and h = h and st = True and en = False and x = x] m1(1) enc(1)
    by (auto simp: Let_def)
  have fs: "av_frag_start (?d1\<lparr>av_mb := m2\<rparr>) = length b" "av_frag (?d1\<lparr>av_mb := m2\<rparr>)"
    using av_core_data[OF core] by simp_all
  obtain d' where "av_fu_append M (?d1\<lparr>av_mb := m2\<rparr>) src False q = (AvGo, d')"
      "av_frg M A key d' c q b ((nal_seq @ [h]) @ x)"
    by (rule av_fu_append_frg[OF core2 fs(2,1) src(2)])
  then show ?thesis using rx by (intro that) simp_all
qed

lemma h264_rx_next:
  assumes N: "h264_laws N" and st: "av_frg M A key d c q b b'"
  obtains d' where "h264_rx_nal M N d (q + 1) (mbuf_of (fu_hdr h True True False False @ x)) = Some (AvGo, d')"
    "av_frg M A key d' c (q + 1) b (b' @ x)"
proof -
  have M: "mbuf_laws M" and core: "av_core M A key d c (b @ b')" and fr: "av_frag d" "av_frag_start d = length b"
    and sq: "seq_diff (av_frag_seq d) (q + 1) = 1"
    using st by (auto simp: av_frg_def av_core_def seq_diff_next)
  obtain src where src: "m_rest M src = x" and
    rx: "h264_rx_nal M N d (q + 1) (mbuf_of (fu_hdr h True True False False @ x)) =
      Some (av_fu_append M d src False (q + 1))"
    using h264_rx_fu_nal[OF M N, where d = d and q = "q + 1" and h = h and st = False and en = False and x = x] fr sq
    by auto
  obtain d' where "av_fu_append M d src False (q + 1) = (AvGo, d')" "av_frg M A key d' c (q + 1) b (b' @ x)"
    by (rule av_fu_append_frg[OF core fr src])
  then show ?thesis using rx by (intro that) simp_all
qed

lemma h264_rx_last:
  assumes N: "h264_laws N" and st: "av_frg M A key d c q b b'"
  obtains d' where "h264_rx_nal M N d (q + 1) (mbuf_of (fu_hdr h True True False True @ x)) = Some (AvGo, d')"
    "av_asm M A key d' c (b @ b' @ x)"
proof -
  have M: "mbuf_laws M" and core: "av_core M A key d c (b @ b')" and fr: "av_frag d"
    and sq: "seq_diff (av_frag_seq d) (q + 1) = 1"
    using st by (auto simp: av_frg_def av_core_def seq_diff_next)
  obtain src where src: "m_rest M src = x" and
    rx: "h264_rx_nal M N d (q + 1) (mbuf_of (fu_hdr h True True False True @ x)) =
      Some (av_fu_append M d src True (q + 1))"
    using h264_rx_fu_nal[OF M N, where d = d and q = "q + 1" and h = h and st = False and en = True and x = x] fr sq
    by auto
  obtain d' where "av_fu_append M d src True (q + 1) = (AvGo, d')" "av_asm M A key d' c ((b @ b') @ x)"
    by (rule av_fu_append_last[OF core src])
  then show ?thesis using rx by (intro that) simp_all
qed

lemma h264_rx_gap:
  assumes N: "h264_laws N" and st: "av_frg M A key d c q b b'" and "q' \<noteq> q + 1"
  obtains d' where "h264_rx_nal M N d q' (mbuf_of (fu_hdr h True True False e @ x)) = Some (AvReturn 0, d')"
    "av_asm M A key d' c b"
proof -
  have M: "mbuf_laws M" and fr: "av_frag d" and sq: "seq_diff (av_frag_seq d) q' \<noteq> 1"
    using st assms(3) by (auto simp: av_frg_def av_core_def seq_diff_next)
  have "h264_rx_nal M N d q' (mbuf_of (fu_hdr h True True False e @ x)) =
      Some (AvReturn 0, (fragment_rewind d)\<lparr>av_frag := False, av_n_lost := av_n_lost d + 1\<rparr>)"
    using h264_rx_fu_nal[OF M N, where d = d and q = q' and h = h and st = False and en = e and x = x] fr sq
    by auto
  moreover have "av_asm M A key ((fragment_rewind d)\<lparr>av_frag := False, av_n_lost := av_n_lost d + 1\<rparr>) c b"
    using av_base_rewind(1)[of M A key d c b q b'] st fr by auto
  ultimately show ?thesis by (rule that)
qed


lemma rx_step_go:
  assumes "h264_rx_nal M N d q (mbuf_of bs) = Some (nxt, d1)"
    and "rx_step (avcodec_decode_h264 M A N True) d m q bs = (r, d')"
  shows "r = av_finish M A m (nxt, d1)" "d' = r_vds r"
  using assms by (auto simp: rx_step_def avcodec_decode_h264_def)

interpretation nal264: nal_assembler
  "rx_step (avcodec_decode_h264 M A N True)" "\<lambda>n. h264_laws N \<and> nal264_ok key n"
  "\<lambda>n. [fst n]" snd "\<lambda>n. fu_hdr (fst n) True True" DECODE_MAXSZ
  "av_asm M A key" "av_frg M A key" "av_fin A"
  for M :: mbuf_ops and A :: "'c av_ops" and N :: h264_ops and key :: bool
proof
  fix n :: "u8 \<times> u8 list" and d :: "'c av_dec" and c b q q0 b' m r d' x
  show "if m then av_fin A c (b @ nal_seq @ [fst n] @ snd n) r d'
      else av_asm M A key d' c (b @ nal_seq @ [fst n] @ snd n)"
    if "h264_laws N \<and> nal264_ok key n" "av_asm M A key d c b \<or> av_frg M A key d c q0 b b'"
      "length (b @ nal_seq @ [fst n] @ snd n) \<le> DECODE_MAXSZ"
      "rx_step (avcodec_decode_h264 M A N True) d m q ([fst n] @ snd n) = (r, d')"
  proof -
    have ok: "nal264_ok key (fst n, snd n)" "h264_laws N" using that(1) by simp_all
    note st = that(2)
    obtain d1 where d1: "h264_rx_nal M N d q (mbuf_of (fst n # snd n)) = Some (AvGo, d1)"
        "av_asm M A key d1 c (b @ nal_seq @ fst n # snd n)"
      using ok st by (rule h264_rx_whole)
    show ?thesis
      using av_finish_go[OF d1(2), of m r] rx_step_go[OF d1(1), of A m r d'] that(3,4) by (cases m) auto
  qed
next
  fix n :: "u8 \<times> u8 list" and d :: "'c av_dec" and c b q q0 b' r d' x
  show "av_frg M A key d' c q b (nal_seq @ [fst n] @ x)"
    if "h264_laws N \<and> nal264_ok key n" "av_asm M A key d c b \<or> av_frg M A key d c q0 b b'"
      "length (b @ nal_seq @ [fst n] @ x) \<le> DECODE_MAXSZ"
      "rx_step (avcodec_decode_h264 M A N True) d False q (fu_hdr (fst n) True True True False @ x) = (r, d')"
  proof -
    have ok: "nal264_ok key (fst n, snd n)" "h264_laws N" using that(1) by simp_all
    note st = that(2)
    obtain d1 where d1: "h264_rx_nal M N d q (mbuf_of (fu_hdr (fst n) True True True False @ x)) = Some (AvGo, d1)"
        "av_frg M A key d1 c q b (nal_seq @ fst n # x)"
      using ok st by (rule h264_rx_first)
    show ?thesis
      using av_finish_frg[OF d1(2), of r] rx_step_go[OF d1(1), of A False r d'] that(3,4) by simp
  qed
next
  fix n :: "u8 \<times> u8 list" and d :: "'c av_dec" and c b q b' r d' x
  show "av_frg M A key d' c (q + 1) b (b' @ x)"
    if "h264_laws N \<and> nal264_ok key n" "av_frg M A key d c q b b'" "length (b @ b' @ x) \<le> DECODE_MAXSZ"
      "rx_step (avcodec_decode_h264 M A N True) d False (q + 1) (fu_hdr (fst n) True True False False @ x) = (r, d')"
  proof -
    have N: "h264_laws N" using that(1) by simp
    note st = that(2) and gap = that(3)
    obtain d1 where d1: "h264_rx_nal M N d (q + 1) (mbuf_of (fu_hdr (fst n) True True False False @ x)) = Some (AvGo, d1)"
        "av_frg M A key d1 c (q + 1) b (b' @ x)"
      using N st by (rule h264_rx_next)
    show ?thesis
      using av_finish_frg[OF d1(2), of r] rx_step_go[OF d1(1), of A False r d'] that(3,4) by simp
  qed
next
  fix n :: "u8 \<times> u8 list" and d :: "'c av_dec" and c b q b' m r d' x
  show "if m then av_fin A c (b @ b' @ x) r d' else av_asm M A key d' c (b @ b' @ x)"
    if "h264_laws N \<and> nal264_ok key n" "av_frg M A key d c q b b'" "length (b @ b' @ x) \<le> DECODE_MAXSZ"
      "rx_step (avcodec_decode_h264 M A N True) d m (q + 1) (fu_hdr (fst n) True True False True @ x) = (r, d')"
  proof -
    have N: "h264_laws N" using that(1) by simp
    note st = that(2) and gap = that(3)
    obtain d1 where d1: "h264_rx_nal M N d (q + 1) (mbuf_of (fu_hdr (fst n) True True False True @ x)) = Some (AvGo, d1)"
        "av_asm M A key d1 c (b @ b' @ x)"
      using N st by (rule h264_rx_last)
    show ?thesis
      using av_finish_go[OF d1(2), of m r] rx_step_go[OF d1(1), of A m r d'] that(3,4) by (cases m) auto
  qed
next
  fix n :: "u8 \<times> u8 list" and d :: "'c av_dec" and c b q b' q' m e r d' x
  show "av_asm M A key d' c b"
    if "h264_laws N \<and> nal264_ok key n" "av_frg M A key d c q b b'" "q' \<noteq> q + 1"
      "rx_step (avcodec_decode_h264 M A N True) d m q' (fu_hdr (fst n) True True False e @ x) = (r, d')"
  proof -
    have N: "h264_laws N" using that(1) by simp
    note st = that(2) and gap = that(3)
    obtain d1 where d1: "h264_rx_nal M N d q' (mbuf_of (fu_hdr (fst n) True True False e @ x)) = Some (AvReturn 0, d1)"
        "av_asm M A key d1 c b"
      using N st gap by (rule h264_rx_gap)
    show ?thesis
      using rx_step_go[OF d1(1), of A m r d'] d1(2) that(4) by (simp add: av_finish_def)
  qed
qed

text \<open>The packets \<open>h264_packetize\<close> sends are packets of that contract.\<close>

lemma stream_pkts_nal_stream: "stream_pkts ts maxsz ns = nal_stream (\<lambda>m. nal_pkts m ts maxsz) ns"
  by (induction ns) simp_all

lemma nal264_packs:
  assumes "2 < maxsz"
  shows "nal264.packs N key (\<lambda>m. nal_pkts m ts maxsz)"
  unfolding nal264.packs_def
proof (intro allI impI)
  fix m and n :: "u8 \<times> u8 list"
  show "(\<exists>p. nal_pkts m ts maxsz n = [p] \<and> p_marker p = m \<and> p_hdr p @ p_pld p = [fst n] @ snd n) \<or>
    (\<exists>ts' sz. 0 < sz \<and> sz < length (snd n) \<and>
      nal_pkts m ts maxsz n = frag_pkts (fu_hdr (fst n) True True) m ts' sz True (snd n))"
  proof (cases "length (snd n) \<le> maxsz")
    case True
    then show ?thesis by (cases n) (simp add: nal_pkts_def)
  next
    case False
    then have "0 < maxsz - 2 \<and> maxsz - 2 < length (snd n) \<and>
        nal_pkts m ts maxsz n = frag_pkts (fu_hdr (fst n) True True) m ts (maxsz - 2) True (snd n)"
      using assms by (cases n) (simp add: nal_pkts_def)
    then show ?thesis by blast
  qed
qed

lemma nal264_bytes: "nal264.bytes ns = annexb ns"
  by (induction ns) (auto simp: nal264.bytes_def annexb_def nal_seq_def)


subsection \<open>Aggregation packets\<close>

lemma mb_split2:
  assumes "mbuf_laws M" "mb_wf m" "m_get_left M m \<ge> 2"
  obtains b0 b1 bs m' where "mb_unread m = b0 # b1 # bs" "m_read_u16 M m = (le16 b0 b1, m')"
    "mb_wf m'" "mb_unread m' = bs"
proof -
  have "2 \<le> length (mb_unread m)" using assms by (simp add: m_get_left_unread)
  then obtain b0 b1 bs where u: "mb_unread m = b0 # b1 # bs"
    by (cases "mb_unread m"; cases "tl (mb_unread m)") auto
  obtain m' where "m_read_u16 M m = (le16 b0 b1, m')" "mb_wf m'" "mb_unread m' = bs"
      "m' = m\<lparr>mb_pos := mb_pos m + 2\<rparr>"
    using assms(1,2) u by (rule m_read_u16_Cons)
  then show ?thesis by (intro that[OF u])
qed

lemma mb_skip:
  assumes "mb_wf m" "n \<le> length (mb_unread m)"
  shows "mb_wf (m\<lparr>mb_pos := mb_pos m + n\<rparr>)" "mb_unread (m\<lparr>mb_pos := mb_pos m + n\<rparr>) = drop n (mb_unread m)"
  using assms mb_unread_length[OF assms(1)] by (auto simp: mb_unread_drop mb_wf_def le_diff_conv2)

text \<open>
  One round: after the length \<open>l\<close>, the loop continues behind the unit, or ends.
\<close>

lemma h264_stap_round:
  assumes M: "mbuf_laws M" "h264_laws N" "mb_wf src" and u: "mb_unread src = b0 # b1 # bs"
    and l: "unat (be16 b0 b1) \<le> length bs" "bs \<noteq> []"
  obtains src' where "mb_wf src'" "mb_unread src' = drop (unat (be16 b0 b1)) bs"
    "h264_stap_loop M N st src =
      (let (err, st') = av_append_nal M st (take (unat (be16 b0 b1)) bs)
       in if err \<noteq> 0 then Some (AvOut err, st') else h264_stap_loop M N st' src')"
proof -
  obtain h t where bs: "bs = h # t" using l(2) by (cases bs) auto
  obtain m1 where m1: "m_read_u16 M src = (le16 b0 b1, m1)" "mb_wf m1" "mb_unread m1 = bs"
    using M(1,3) u by (rule m_read_u16_Cons)
  have dec: "nh_decode N m1 = (0, h264_hdr_of h, m1\<lparr>mb_pos := mb_pos m1 + 1\<rparr>)"
    using M(2) m1(2,3) bs unfolding h264_laws_def by blast
  let ?s = "m1\<lparr>mb_pos := mb_pos m1 + unat (be16 b0 b1)\<rparr>"
  have s: "mb_wf ?s" "mb_unread ?s = drop (unat (be16 b0 b1)) bs"
    using mb_skip[OF m1(2), of "unat (be16 b0 b1)"] l(1) m1(3) by simp_all
  have left: "m_get_left M src = Suc (Suc (length bs))" "m_get_left M m1 = length bs" "m_rest M m1 = bs"
    using M(1,3) m1(2,3) u by (simp_all add: m_get_left_unread m_rest_unread)
  show ?thesis
    by (rule that[OF s], subst h264_stap_loop.simps)
      (use l(1) in \<open>simp add: left m1(1) ntohs_le16 dec Let_def split_def\<close>)
qed

lemma h264_stap_loop_returns:
  "mbuf_laws M \<Longrightarrow> h264_laws N \<Longrightarrow> mb_wf src \<Longrightarrow> \<exists>r. h264_stap_loop M N (st :: 'c av_dec) src = Some r"
proof (induction "length (mb_unread src)" arbitrary: st src rule: less_induct)
  case less
  show ?case
  proof (cases "m_get_left M src \<ge> 2")
    case False
    then show ?thesis by (simp add: h264_stap_loop.simps)
  next
    case True
    obtain b0 b1 bs m1 where u: "mb_unread src = b0 # b1 # bs" and
        m1: "m_read_u16 M src = (le16 b0 b1, m1)" "mb_wf m1" "mb_unread m1 = bs"
      using less.prems(1,3) True by (rule mb_split2)
    have left: "m_get_left M m1 = length bs" using less.prems(1) m1 by (simp add: m_get_left_unread)
    consider "length bs < unat (be16 b0 b1)" | "bs = []" "\<not> length bs < unat (be16 b0 b1)"
      | "unat (be16 b0 b1) \<le> length bs" "bs \<noteq> []" by linarith
    then show ?thesis
    proof cases
      case 1
      then show ?thesis
        using True left by (subst h264_stap_loop.simps) (simp add: m1(1) ntohs_le16)
    next
      case 2
      have "fst (nh_decode N m1) \<noteq> 0"
        using less.prems(2) m1(2,3) 2(1) unfolding h264_laws_def by blast
      then show ?thesis
        using True left 2(2) by (subst h264_stap_loop.simps) (simp add: m1(1) ntohs_le16 split_def Let_def)
    next
      case 3
      obtain src' where s: "mb_wf src'" "mb_unread src' = drop (unat (be16 b0 b1)) bs"
        "h264_stap_loop M N st src =
          (let (err, st') = av_append_nal M st (take (unat (be16 b0 b1)) bs)
           in if err \<noteq> 0 then Some (AvOut err, st') else h264_stap_loop M N st' src')"
        using less.prems u 3 by (rule h264_stap_round)
      have "\<exists>r. h264_stap_loop M N st' src' = Some r" for st' :: "'c av_dec"
        by (rule less.hyps) (use less.prems s(1,2) u in auto)
      then show ?thesis by (simp add: s(3) split_def Let_def)
    qed
  qed
qed

text \<open>The payload of an aggregation packet: every unit behind its 16-bit length.\<close>

definition agg_len :: "nat \<Rightarrow> u8 list" where
  "agg_len l = [ucast (drop_bit 8 (of_nat l :: u16)), ucast (of_nat l :: u16)]"

definition agg_bytes :: "u8 list list \<Rightarrow> u8 list" where
  "agg_bytes ns = concat (map (\<lambda>n. agg_len (length n) @ n) ns)"

lemma be16_agg: "be16 (ucast (drop_bit 8 v)) (ucast v) = (v :: u16)"
  by (simp add: u16_eq_iff be16_def bit_simps)

lemma unat_agg: "l < 2 ^ 16 \<Longrightarrow> unat (be16 (ucast (drop_bit 8 (of_nat l :: u16))) (ucast (of_nat l :: u16))) = l"
  by (simp add: be16_agg unat_of_nat)

lemma h264_stap_loop_units:
  "mbuf_laws M \<Longrightarrow> h264_laws N \<Longrightarrow> mb_wf src \<Longrightarrow> mb_unread src = agg_bytes ns \<Longrightarrow>
   list_all (\<lambda>n. n \<noteq> [] \<and> length n < 2 ^ 16) ns \<Longrightarrow> av_asm M A key d c b \<Longrightarrow>
   \<exists>d'. h264_stap_loop M N d src = Some (AvGo, d') \<and>
     av_asm M A key d' c (b @ concat (map (\<lambda>n. nal_seq @ n) ns))"
proof (induction ns arbitrary: src d b)
  case Nil
  then show ?case by (simp add: h264_stap_loop.simps m_get_left_unread agg_bytes_def)
next
  case (Cons n ns)
  let ?b0 = "ucast (drop_bit 8 (of_nat (length n) :: u16)) :: u8" and ?b1 = "ucast (of_nat (length n) :: u16) :: u8"
  have n: "n \<noteq> []" "unat (be16 ?b0 ?b1) = length n" using Cons.prems(5) by (simp_all add: unat_agg)
  have u: "mb_unread src = ?b0 # ?b1 # (n @ agg_bytes ns)"
    using Cons.prems(4) by (simp add: agg_bytes_def agg_len_def)
  have l: "unat (be16 ?b0 ?b1) \<le> length (n @ agg_bytes ns)" "n @ agg_bytes ns \<noteq> []" using n by simp_all
  obtain src' where s: "mb_wf src'" "mb_unread src' = drop (unat (be16 ?b0 ?b1)) (n @ agg_bytes ns)"
    "h264_stap_loop M N d src =
      (let (err, st') = av_append_nal M d (take (unat (be16 ?b0 ?b1)) (n @ agg_bytes ns))
       in if err \<noteq> 0 then Some (AvOut err, st') else h264_stap_loop M N st' src')"
    using Cons.prems(1-3) u l by (rule h264_stap_round)
  have core: "av_core M A key d c b" using Cons.prems(6) by (simp add: av_asm_def)
  obtain d1 where d1: "av_append_nal M d n = (0, d1)" "av_core M A key d1 c (b @ nal_seq @ n)" "av_frag d1 = av_frag d"
    using core by (rule av_append_nal_ok)
  have asm1: "av_asm M A key d1 c (b @ nal_seq @ n)" using d1 Cons.prems(6) by (simp add: av_asm_def)
  have "\<exists>d'. h264_stap_loop M N d1 src' = Some (AvGo, d') \<and>
     av_asm M A key d' c ((b @ nal_seq @ n) @ concat (map (\<lambda>n. nal_seq @ n) ns))"
    by (rule Cons.IH) (use Cons.prems s n asm1 in auto)
  then show ?case using s(3) n(2) d1(1) by simp
qed


text \<open>A libavcodec whose context is the last packet it was given.\<close>

definition echo_av :: "u8 list av_ops" where
  "echo_av = \<lparr>av_hw = (\<lambda>_. False), av_frame_alloc = True, av_send_packet = (\<lambda>_ b. (0, b)),
     av_receive_frame = (\<lambda>c. (- 11, c)), av_transfer = (\<lambda>c. (0, c)),
     av_pict = (\<lambda>_. \<lparr>pic_format = AV_PIX_FMT_NV12, pic_data = [], pic_linesize = [], pic_key = False\<rparr>),
     av_size = (\<lambda>_. \<lparr>sz_w = 0, sz_h = 0\<rparr>)\<rparr>"

definition fresh_av :: "u8 list av_dec" where
  "fresh_av = \<lparr>av_ctx = [], av_mb = mbuf_of [], av_got_keyframe = False, av_frag_start = 0, av_frag = False,
     av_frag_seq = 0, av_n_key = 0, av_n_lost = 0\<rparr>"

end
