(* ===== verification/AvDecode265.thy ===== *)
theory AvDecode265
  imports AvDecode
begin

text \<open>
  The H.265 decoder of src/modules/avcodec/decode.c provides the contract of
  NAL unit assembly; with it, what the H.264 and H.265 packetizers send is
  rebuilt byte by byte.
\<close>

subsection \<open>H.265 packets\<close>

definition nal_pre :: "u8 \<times> u8 list \<Rightarrow> u8 list" where
  "nal_pre n = [fst n, hd (snd n)]"

definition nal_pld :: "u8 \<times> u8 list \<Rightarrow> u8 list" where
  "nal_pld n = tl (snd n)"

definition rx265_ok :: "u8 \<times> u8 list \<Rightarrow> bool" where
  "rx265_ok n = (snd n \<noteq> [] \<and> h265_hdr_ok (fst n) (hd (snd n)) \<and>
     unat (nal_unit_type (h265_nal_of (fst n) (hd (snd n)))) \<le> 40)"

lemma m_advance_law: "mbuf_laws M \<Longrightarrow> mb_wf m \<Longrightarrow> m_advance M m n = m\<lparr>mb_pos := mb_pos m + n\<rparr>"
  by (simp add: mbuf_laws_def)

lemma h265_rx_whole:
  assumes ok: "h265_hdr_ok b0 b1" "unat (nal_unit_type (h265_nal_of b0 b1)) \<le> 40"
    and st: "av_asm M A key d c b \<or> av_frg M A key d c q0 b b'"
  obtains d' where "h265_rx_nal M d q (mbuf_of (b0 # b1 # x)) = Some (AvGo, d')"
    "av_asm M A key d' c (b @ nal_seq @ b0 # b1 # x)"
proof -
  let ?d = "if av_frag d then (fragment_rewind d)\<lparr>av_frag := False\<rparr> else d"
  have M: "mbuf_laws M" using st by (auto simp: av_asm_def av_frg_def av_core_def)
  have a: "av_asm M A key ?d c b" by (rule av_base_rewind(2)[OF st])
  then have core: "av_core M A key ?d c b" and nf: "\<not> av_frag ?d" by (simp_all add: av_asm_def)
  obtain d' where d': "av_append_nal M ?d (b0 # b1 # x) = (0, d')"
      "av_core M A key d' c (b @ nal_seq @ b0 # b1 # x)" "av_frag d' = av_frag ?d"
    using core by (rule av_append_nal_ok)
  have rest: "m_rest M (mbuf_of (b0 # b1 # x)) = b0 # b1 # x" using M by (simp add: m_rest_unread)
  have "h265_rx_nal M d q (mbuf_of (b0 # b1 # x)) = Some (AvGo, d')"
    using ok d'(1) M
    by (simp add: h265_rx_nal_def rest h265_nal_decode_Cons m_advance_law H265_HDR_SIZE_def H265_NAL_FU_def
        Let_def split_def)
  then show ?thesis using d' nf by (intro that) (simp_all add: av_asm_def)
qed

lemma fu265_fields:
  "bit ((if st then push_bit 7 1 else 0) OR (h AND 0x3f) OR (if en then push_bit 6 1 else 0) :: u8) 7 = st"
  "bit ((if st then push_bit 7 1 else 0) OR (h AND 0x3f) OR (if en then push_bit 6 1 else 0) :: u8) 6 = en"
  "((if st then push_bit 7 1 else 0) OR (h AND 0x3f) OR (if en then push_bit 6 1 else 0) :: u8) AND 0x3f =
     h AND 0x3f"
  by (cases st; cases en; simp add: u8_eq_iff bit_simps)+

lemma fu265_header_ok:
  "h265_hdr_ok 98 (b1 AND 7)" "h265_nal_of 98 (b1 AND 7) = \<lparr>nal_unit_type = 49, nuh_temporal_id_plus1 = ucast (b1 AND 7)\<rparr>"
  by (simp_all add: h265_hdr_ok_def h265_nal_of_def u8_eq_iff u6_eq_iff u3_eq_iff bit_simps)

lemma h265_rx_fu_nal:
  assumes "mbuf_laws M"
  obtains src where "m_rest M src = x"
    "h265_rx_nal M d q (mbuf_of (fu265_hdr b0 b1 st en @ x)) = Some
      (if st
       then
         let d = (if av_frag d then fragment_rewind d else d);
             d = d\<lparr>av_frag_start := mb_pos (av_mb d), av_frag := True\<rparr>;
             (err, b) = m_write_mem M (av_mb d) nal_seq;
             (e, b) = h265_nal_encode_mbuf M b (h265_nal_of b0 b1);
             d = d\<lparr>av_mb := b\<rparr>
         in if err OR e \<noteq> 0 then (AvOut (err OR e), d) else av_fu_append M d src en q
       else if \<not> av_frag d then (AvReturn 0, d)
       else if seq_diff (av_frag_seq d) q \<noteq> 1
       then (AvReturn 0, (fragment_rewind d)\<lparr>av_frag := False\<rparr>)
       else av_fu_append M d src en q)"
proof -
  define b2 :: u8 where
    "b2 = (if st then push_bit 7 1 else 0) OR (drop_bit 1 b0 AND 0x3f) OR (if en then push_bit 6 1 else 0)"
  have f: "bit b2 7 = st" "bit b2 6 = en" "b2 AND 0x3f = drop_bit 1 b0 AND 0x3f"
    unfolding b2_def by (rule fu265_fields)+
  let ?m = "mbuf_of (98 # (b1 AND 7) # b2 # x)" and ?m1 = "(mbuf_of (98 # (b1 AND 7) # b2 # x))\<lparr>mb_pos := 2\<rparr>"
  have bytes: "fu265_hdr b0 b1 st en @ x = 98 # (b1 AND 7) # b2 # x"
    by (simp add: fu265_hdr_def b2_def)
  have rest: "m_rest M ?m = 98 # (b1 AND 7) # b2 # x" using assms by (simp add: m_rest_unread)
  have adv: "m_advance M ?m 2 = ?m1" using m_advance_law[OF assms, of ?m 2] by simp
  obtain m2 where m2: "m_read_u8 M ?m1 = (b2, m2)" "\<not> m_get_left M ?m1 < 1" "mb_wf m2" "mb_unread m2 = x"
    by (rule m_read_u8_Cons[OF assms mbuf_of_pos2(2) mbuf_of_pos2(1)])
  have r2: "m_rest M m2 = x" using m2(3,4) assms by (simp add: m_rest_unread)
  have fu: "h265_fu_decode M \<lparr>hfu_s = False, hfu_e = False, hfu_type = 0\<rparr> ?m1 =
      (0, \<lparr>hfu_s = st, hfu_e = en, hfu_type = ucast (drop_bit 1 b0 AND 0x3f)\<rparr>, m2)"
    using m2(1,2) by (simp add: h265_fu_decode_def f)
  show ?thesis
    by (rule that[OF r2])
      (simp add: bytes h265_rx_nal_def rest h265_nal_decode_Cons fu265_header_ok H265_HDR_SIZE_def adv
        H265_NAL_FU_def h265_rx_fu_def fu h265_nal_of_def[of b0 b1] split_def Let_def)
qed

lemma h265_rx_first:
  assumes ok: "h265_hdr_ok b0 b1" and st: "av_asm M A key d c b \<or> av_frg M A key d c q0 b b'"
  obtains d' where "h265_rx_nal M d q (mbuf_of (fu265_hdr b0 b1 True False @ x)) = Some (AvGo, d')"
    "av_frg M A key d' c q b (nal_seq @ b0 # b1 # x)"
proof -
  let ?d = "if av_frag d then fragment_rewind d else d"
  let ?d1 = "?d\<lparr>av_frag_start := mb_pos (av_mb ?d), av_frag := True\<rparr>"
  have M: "mbuf_laws M" using st by (auto simp: av_asm_def av_frg_def av_core_def)
  have core: "av_core M A key ?d c b" by (rule av_base_rewind(4)[OF st])
  then have core1: "av_core M A key ?d1 c b" by (rule av_core_cong) simp_all
  obtain m1 where m1: "m_write_mem M (av_mb ?d1) nal_seq = (0, m1)"
      "av_core M A key (?d1\<lparr>av_mb := m1\<rparr>) c (b @ nal_seq)"
    using core1 by (rule av_core_write)
  obtain m2 where m2: "m_write_mem M m1 [b0, b1] = (0, m2)"
      "av_core M A key (?d1\<lparr>av_mb := m2\<rparr>) c (b @ nal_seq @ [b0, b1])"
    using av_core_write[OF m1(2), of "[b0, b1]"] by auto
  have enc: "h265_nal_encode_mbuf M m1 (h265_nal_of b0 b1) = (0, m2)"
    using m2(1) h265_nal_encode_of[OF ok] by (simp add: h265_nal_encode_mbuf_def)
  obtain src where src: "m_rest M src = x" and
    rx: "h265_rx_nal M d q (mbuf_of (fu265_hdr b0 b1 True False @ x)) =
      Some (av_fu_append M (?d1\<lparr>av_mb := m2\<rparr>) src False q)"
    using h265_rx_fu_nal[OF M, where d = d and q = q and ?b0.0 = b0 and ?b1.0 = b1 and st = True and en = False and x = x]
      m1(1) enc by (auto simp: Let_def)
  have fs: "av_frag_start (?d1\<lparr>av_mb := m2\<rparr>) = length b" "av_frag (?d1\<lparr>av_mb := m2\<rparr>)"
    using av_core_data[OF core] by simp_all
  obtain d' where "av_fu_append M (?d1\<lparr>av_mb := m2\<rparr>) src False q = (AvGo, d')"
      "av_frg M A key d' c q b ((nal_seq @ [b0, b1]) @ x)"
    by (rule av_fu_append_frg[OF m2(2) fs(2,1) src])
  then show ?thesis using rx by (intro that) simp_all
qed

lemma h265_rx_later:
  assumes st: "av_frg M A key d c q b b'"
  obtains src where "m_rest M src = x" "av_core M A key d c (b @ b')" "av_frag d" "av_frag_start d = length b"
    "h265_rx_nal M d q' (mbuf_of (fu265_hdr b0 b1 False e @ x)) = Some
      (if q' = q + 1 then av_fu_append M d src e q'
       else (AvReturn 0, (fragment_rewind d)\<lparr>av_frag := False\<rparr>))"
proof -
  have M: "mbuf_laws M" and fr: "av_core M A key d c (b @ b')" "av_frag d" "av_frag_start d = length b" "av_frag_seq d = q"
    using st by (auto simp: av_frg_def av_core_def)
  show ?thesis
    by (rule h265_rx_fu_nal[OF M, where d = d and q = q' and ?b0.0 = b0 and ?b1.0 = b1 and st = False and en = e and x = x],
        rule that) (use fr in \<open>auto simp: seq_diff_next\<close>)
qed

lemma rx_step_go265:
  assumes "h265_rx_nal M d q (mbuf_of bs) = Some (nxt, d1)"
    and "rx_step (avcodec_decode_h265 M A True) d m q bs = (r, d')"
  shows "r = av_finish M A m (nxt, d1)" "d' = r_vds r"
  using assms by (auto simp: rx_step_def avcodec_decode_h265_def)

interpretation nal265: nal_assembler
  "rx_step (avcodec_decode_h265 M A True)" rx265_ok nal_pre nal_pld
  "\<lambda>n. fu265_hdr (fst n) (hd (snd n))" DECODE_MAXSZ
  "av_asm M A key" "av_frg M A key" "av_fin A"
  for M :: mbuf_ops and A :: "'c av_ops" and key :: bool
proof
  fix n :: "u8 \<times> u8 list" and d :: "'c av_dec" and c b q q0 b' m r d' x
  show "if m then av_fin A c (b @ nal_seq @ nal_pre n @ nal_pld n) r d'
      else av_asm M A key d' c (b @ nal_seq @ nal_pre n @ nal_pld n)"
    if "rx265_ok n" "av_asm M A key d c b \<or> av_frg M A key d c q0 b b'"
      "length (b @ nal_seq @ nal_pre n @ nal_pld n) \<le> DECODE_MAXSZ"
      "rx_step (avcodec_decode_h265 M A True) d m q (nal_pre n @ nal_pld n) = (r, d')"
  proof -
    have ok: "h265_hdr_ok (fst n) (hd (snd n))" "unat (nal_unit_type (h265_nal_of (fst n) (hd (snd n)))) \<le> 40"
      using that(1) by (simp_all add: rx265_ok_def)
    note st = that(2)
    obtain d1 where d1: "h265_rx_nal M d q (mbuf_of (fst n # hd (snd n) # nal_pld n)) = Some (AvGo, d1)"
        "av_asm M A key d1 c (b @ nal_seq @ fst n # hd (snd n) # nal_pld n)"
      using ok st by (rule h265_rx_whole)
    show ?thesis
      using av_finish_go[OF d1(2), of m r] rx_step_go265[OF d1(1), of A m r d'] that(3,4)
      by (cases m) (auto simp: nal_pre_def)
  qed
next
  fix n :: "u8 \<times> u8 list" and d :: "'c av_dec" and c b q q0 b' r d' x
  show "av_frg M A key d' c q b (nal_seq @ nal_pre n @ x)"
    if "rx265_ok n" "av_asm M A key d c b \<or> av_frg M A key d c q0 b b'"
      "length (b @ nal_seq @ nal_pre n @ x) \<le> DECODE_MAXSZ"
      "rx_step (avcodec_decode_h265 M A True) d False q (fu265_hdr (fst n) (hd (snd n)) True False @ x) = (r, d')"
  proof -
    have ok: "h265_hdr_ok (fst n) (hd (snd n))" using that(1) by (simp add: rx265_ok_def)
    note st = that(2)
    obtain d1 where d1: "h265_rx_nal M d q (mbuf_of (fu265_hdr (fst n) (hd (snd n)) True False @ x)) = Some (AvGo, d1)"
        "av_frg M A key d1 c q b (nal_seq @ fst n # hd (snd n) # x)"
      using ok st by (rule h265_rx_first)
    show ?thesis
      using av_finish_frg[OF d1(2), of r] rx_step_go265[OF d1(1), of A False r d'] that(3,4)
      by (simp add: nal_pre_def)
  qed
next
  fix n :: "u8 \<times> u8 list" and d :: "'c av_dec" and c b q b' r d' x
  show "av_frg M A key d' c (q + 1) b (b' @ x)"
    if "rx265_ok n" "av_frg M A key d c q b b'" "length (b @ b' @ x) \<le> DECODE_MAXSZ"
      "rx_step (avcodec_decode_h265 M A True) d False (q + 1) (fu265_hdr (fst n) (hd (snd n)) False False @ x) = (r, d')"
  proof -
    note st = that(2)
    obtain src where s: "m_rest M src = x" "av_core M A key d c (b @ b')" "av_frag d" "av_frag_start d = length b" and
      rx: "h265_rx_nal M d (q + 1) (mbuf_of (fu265_hdr (fst n) (hd (snd n)) False False @ x)) =
        Some (if q + 1 = q + 1 then av_fu_append M d src False (q + 1)
              else (AvReturn 0, (fragment_rewind d)\<lparr>av_frag := False\<rparr>))"
      by (rule h265_rx_later[OF st])
    obtain d1 where d1: "av_fu_append M d src False (q + 1) = (AvGo, d1)" "av_frg M A key d1 c (q + 1) b (b' @ x)"
      by (rule av_fu_append_frg[OF s(2-4) s(1)])
    show ?thesis
      using av_finish_frg[OF d1(2), of r] rx_step_go265[OF rx[simplified, unfolded d1(1)], of A False r d'] that(3,4)
      by simp
  qed
next
  fix n :: "u8 \<times> u8 list" and d :: "'c av_dec" and c b q b' m r d' x
  show "if m then av_fin A c (b @ b' @ x) r d' else av_asm M A key d' c (b @ b' @ x)"
    if "rx265_ok n" "av_frg M A key d c q b b'" "length (b @ b' @ x) \<le> DECODE_MAXSZ"
      "rx_step (avcodec_decode_h265 M A True) d m (q + 1) (fu265_hdr (fst n) (hd (snd n)) False True @ x) = (r, d')"
  proof -
    note st = that(2)
    obtain src where s: "m_rest M src = x" "av_core M A key d c (b @ b')" and
      rx: "h265_rx_nal M d (q + 1) (mbuf_of (fu265_hdr (fst n) (hd (snd n)) False True @ x)) =
        Some (if q + 1 = q + 1 then av_fu_append M d src True (q + 1)
              else (AvReturn 0, (fragment_rewind d)\<lparr>av_frag := False\<rparr>))"
      by (rule h265_rx_later[OF st])
    obtain d1 where d1: "av_fu_append M d src True (q + 1) = (AvGo, d1)" "av_asm M A key d1 c ((b @ b') @ x)"
      by (rule av_fu_append_last[OF s(2,1)])
    show ?thesis
      using av_finish_go[OF d1(2), of m r] rx_step_go265[OF rx[simplified, unfolded d1(1)], of A m r d'] that(3,4)
      by (cases m) auto
  qed
next
  fix n :: "u8 \<times> u8 list" and d :: "'c av_dec" and c b q b' q' m e r d' x
  show "av_asm M A key d' c b"
    if "rx265_ok n" "av_frg M A key d c q b b'" "q' \<noteq> q + 1"
      "rx_step (avcodec_decode_h265 M A True) d m q' (fu265_hdr (fst n) (hd (snd n)) False e @ x) = (r, d')"
  proof -
    note st = that(2)
    obtain src where "m_rest M src = x" and fr: "av_frag d" and
      rx: "h265_rx_nal M d q' (mbuf_of (fu265_hdr (fst n) (hd (snd n)) False e @ x)) =
        Some (if q' = q + 1 then av_fu_append M d src e q'
              else (AvReturn 0, (fragment_rewind d)\<lparr>av_frag := False\<rparr>))"
      by (rule h265_rx_later[OF st])
    have "av_asm M A key ((fragment_rewind d)\<lparr>av_frag := False\<rparr>) c b"
      using av_base_rewind(2)[OF disjI2[OF that(2)]] fr by simp
    moreover have "h265_rx_nal M d q' (mbuf_of (fu265_hdr (fst n) (hd (snd n)) False e @ x)) =
        Some (AvReturn 0, (fragment_rewind d)\<lparr>av_frag := False\<rparr>)"
      using rx that(3) by simp
    then have "d' = (fragment_rewind d)\<lparr>av_frag := False\<rparr>"
      using rx_step_go265[OF _ that(4)] by (simp add: av_finish_def)
    ultimately show ?thesis by simp
  qed
qed

lemma stream265_pkts_nal_stream:
  "stream265_pkts ts maxlen ns = nal_stream (\<lambda>m n. nal265_pkts m ts maxlen (fst n # snd n)) ns"
  by (induction ns) simp_all

lemma nal265_bytes:
  "list_all (\<lambda>n. snd n \<noteq> []) ns \<Longrightarrow> nal265.bytes ns = annexb ns"
  by (induction ns) (auto simp: nal265.bytes_def annexb_def nal_seq_def nal_pre_def nal_pld_def)

lemma nal265_packs:
  assumes "3 < maxlen"
  shows "nal265.packs (\<lambda>m n. nal265_pkts m ts maxlen (fst n # snd n))"
  unfolding nal265.packs_def
proof (intro allI impI)
  fix m and n :: "u8 \<times> u8 list"
  assume "rx265_ok n"
  then obtain h b1 d where n: "n = (h, b1 # d)" by (cases n; cases "snd n") (auto simp: rx265_ok_def)
  let ?p = "nal265_pkts m ts maxlen (fst n # snd n)"
  show "(\<exists>p. ?p = [p] \<and> p_marker p = m \<and> p_hdr p @ p_pld p = nal_pre n @ nal_pld n) \<or>
    (\<exists>ts' sz. 0 < sz \<and> sz < length (nal_pld n) \<and>
      ?p = frag_pkts (fu265_hdr (fst n) (hd (snd n))) m ts' sz True (nal_pld n))"
  proof (cases "length (h # b1 # d) \<le> maxlen")
    case True
    then show ?thesis by (simp add: n nal265_pkts_def nal_pre_def nal_pld_def)
  next
    case False
    then have "0 < maxlen - 3 \<and> maxlen - 3 < length (nal_pld n) \<and>
        ?p = frag_pkts (fu265_hdr (fst n) (hd (snd n))) m ts (maxlen - 3) True (nal_pld n)"
      using assms by (simp add: n nal265_pkts_def nal_pld_def numeral_2_eq_2)
    then show ?thesis by blast
  qed
qed

subsection \<open>Properties\<close>

text \<open>A librem that codes the NAL unit header as documented.\<close>

definition ref_h264 :: h264_ops where
  "ref_h264 = \<lparr>
     nh_decode = (\<lambda>m. if mb_unread m = [] then (ENOENT, h264_hdr_of 0, m)
                      else (0, h264_hdr_of (hd (mb_unread m)), m\<lparr>mb_pos := mb_pos m + 1\<rparr>)),
     nh_encode = (\<lambda>m h. ref_write m [h264_hdr_byte h])\<rparr>"

lemma ref_h264_laws: "h264_laws ref_h264"
  by (auto simp: h264_laws_def ref_h264_def ref_write_written)

lemma fresh_av_asm: "av_asm ref_mbuf echo_av False fresh_av [] []"
  by (simp add: av_asm_def av_core_def ref_mbuf_laws ref_mbuf_no_oom echo_av_def fresh_av_def mb_at_end_def)
    (simp add: mbuf_of_def)

text \<open>
  C1: H.264 end to end: the packets \<open>h264_packetize\<close> sends for an Annex B
  stream, delivered in order, make \<open>avcodec_decode_h264\<close> pass exactly that
  stream to the codec at the marker, and its answer is the result.
\<close>

theorem h264_stream_decoded:
  assumes "2 < maxsz" "maxsz < 2 ^ 64" "ns \<noteq> []" "nals_ok ns" "list_all (nal264_ok key) ns"
    and mem: "mem_slice mem buf (length (annexb ns)) = annexb ns"
    and size: "length (annexb ns) \<le> DECODE_MAXSZ"
    and N: "h264_laws N" and ready: "av_asm M A key d c []"
    and sent: "h264_packetize ts mem buf (length (annexb ns)) maxsz rec_pkth [] = Some (err, ps)"
    and fed: "feed (rx_step (avcodec_decode_h264 M A N True)) d q ps = (rs, d')"
  shows "err = 0 \<and> rs \<noteq> [] \<and> av_fin A c (annexb ns) (last rs) d'"
proof -
  have len: "length (annexb ns) < 2 ^ 64" using size by (simp add: DECODE_MAXSZ_def)
  have "(err, ps) = (0, stream_pkts ts maxsz ns)"
    using h264_packetize_annexb[OF assms(1,2,4) mem len, where pkth = rec_pkth] sent by simp
  then have e: "err = 0" and ps: "ps = nal_stream (\<lambda>m. nal_pkts m ts maxsz) ns"
    by (simp_all add: stream_pkts_nal_stream)
  have "rs \<noteq> [] \<and> av_fin A c ([] @ nal264.bytes ns) (last rs) d'"
  proof (rule nal264.feed_stream[OF nal264_packs[OF assms(1)] assms(3)])
    show "list_all (\<lambda>n. h264_laws N \<and> nal264_ok key n) ns" using N assms(5) by (simp add: list_all_iff)
    show "nal264.base M A key d c []" using ready by (simp add: nal264.base_def)
    show "length ([] @ nal264.bytes ns) \<le> DECODE_MAXSZ" using size by (simp add: nal264_bytes)
    show "feed (rx_step (avcodec_decode_h264 M A N True)) d q (nal_stream (\<lambda>m. nal_pkts m ts maxsz) ns) = (rs, d')"
      using fed ps by simp
  qed
  then show ?thesis using e by (simp add: nal264_bytes)
qed

theorem h264_stream_decoded_witness:
  "case h264_packetize 7 (mem_of 5 (annexb [(0x67, [1, 2]), (0x65, [3, 4, 5, 6, 7])])) 5
      (length (annexb [(0x67, [1, 2]), (0x65, [3, 4, 5, 6, 7])])) 4 rec_pkth [] of
     None \<Rightarrow> False
   | Some (err, ps) \<Rightarrow>
       let (rs, d') = feed (rx_step (avcodec_decode_h264 ref_mbuf echo_av ref_h264 True)) fresh_av 65535 ps
       in err = 0 \<and> rs \<noteq> [] \<and>
          av_fin echo_av [] (annexb [(0x67, [1, 2]), (0x65, [3, 4, 5, 6, 7])]) (last rs) d'"
proof -
  let ?ns = "[(0x67, [1, 2]), (0x65, [3, 4, 5, 6, 7])] :: (u8 \<times> u8 list) list"
  have ok: "nals_ok ?ns" "list_all (nal264_ok False) ?ns" "length (annexb ?ns) \<le> DECODE_MAXSZ"
    by (simp_all add: nals_ok_def nal264_ok_def annexb_def DECODE_MAXSZ_def)
  have "length (annexb ?ns) < 2 ^ 64" using ok(3) by (simp add: DECODE_MAXSZ_def)
  then have "h264_packetize 7 (mem_of 5 (annexb ?ns)) 5 (length (annexb ?ns)) 4 rec_pkth [] =
      Some (send_pkts rec_pkth (stream_pkts 7 4 ?ns) 0 [])"
    by (intro h264_packetize_annexb ok(1) mem_slice_of) simp_all
  then obtain err ps where sent: "h264_packetize 7 (mem_of 5 (annexb ?ns)) 5 (length (annexb ?ns)) 4 rec_pkth [] = Some (err, ps)"
    by fastforce
  obtain rs d' where fed: "feed (rx_step (avcodec_decode_h264 ref_mbuf echo_av ref_h264 True)) fresh_av 65535 ps = (rs, d')"
    by fastforce
  have "err = 0 \<and> rs \<noteq> [] \<and> av_fin echo_av [] (annexb ?ns) (last rs) d'"
    by (rule h264_stream_decoded[OF _ _ _ ok(1,2) mem_slice_of ok(3) ref_h264_laws fresh_av_asm sent fed]) simp_all
  then show ?thesis by (simp only: sent option.case prod.case fed Let_def) simp
qed


text \<open>A decoder in the middle of a fragmented key frame, for the witness.\<close>

definition cut_av :: "u8 list av_dec" where
  "cut_av = fresh_av\<lparr>av_mb := \<lparr>mb_buf = [0, 0, 1, 0x67, 9, 0, 0, 1, 0x65, 1], mb_pos = 10, mb_end = 10\<rparr>,
     av_frag := True, av_frag_start := 5, av_frag_seq := 41\<rparr>"


text \<open>
  C2: H.265 end to end: the packets \<open>h265_packetize\<close> sends for an Annex B
  stream, delivered in order, make \<open>avcodec_decode_h265\<close> pass exactly that
  stream to the codec at the marker, and its answer is the result.
\<close>

theorem h265_stream_decoded:
  assumes "3 < maxlen" "maxlen < 2 ^ 64" "ns \<noteq> []" "nals265_ok ns" "list_all rx265_ok ns"
    and mem: "mem_slice mem buf (length (annexb ns)) = annexb ns"
    and size: "length (annexb ns) \<le> DECODE_MAXSZ"
    and ready: "av_asm M A key d c []"
    and sent: "h265_packetize ts mem buf (length (annexb ns)) maxlen rec_pkth [] = Some (err, ps)"
    and fed: "feed (rx_step (avcodec_decode_h265 M A True)) d q ps = (rs, d')"
  shows "err = 0 \<and> rs \<noteq> [] \<and> av_fin A c (annexb ns) (last rs) d'"
proof -
  have len: "length (annexb ns) < 2 ^ 64" using size by (simp add: DECODE_MAXSZ_def)
  have "(err, ps) = (0, stream265_pkts ts maxlen ns)"
    using h265_packetize_annexb[OF assms(1,2,4) mem len, where pkth = rec_pkth] sent by simp
  then have e: "err = 0" and ps: "ps = nal_stream (\<lambda>m n. nal265_pkts m ts maxlen (fst n # snd n)) ns"
    by (simp_all add: stream265_pkts_nal_stream)
  have b: "nal265.bytes ns = annexb ns"
    using assms(5) by (intro nal265_bytes) (auto simp: list_all_iff rx265_ok_def)
  have "rs \<noteq> [] \<and> av_fin A c ([] @ nal265.bytes ns) (last rs) d'"
  proof (rule nal265.feed_stream[OF nal265_packs[OF assms(1)] assms(3,5)])
    show "nal265.base M A key d c []" using ready by (simp add: nal265.base_def)
    show "length ([] @ nal265.bytes ns) \<le> DECODE_MAXSZ" using size by (simp add: b)
    show "feed (rx_step (avcodec_decode_h265 M A True)) d q
        (nal_stream (\<lambda>m n. nal265_pkts m ts maxlen (fst n # snd n)) ns) = (rs, d')"
      using fed ps by simp
  qed
  then show ?thesis using e by (simp add: b)
qed

theorem h265_stream_decoded_witness:
  "case h265_packetize 7 (mem_of 5 (annexb [(0x40, [1, 2]), (0x26, [1, 4, 5, 6, 7])])) 5
      (length (annexb [(0x40, [1, 2]), (0x26, [1, 4, 5, 6, 7])])) 4 rec_pkth [] of
     None \<Rightarrow> False
   | Some (err, ps) \<Rightarrow>
       let (rs, d') = feed (rx_step (avcodec_decode_h265 ref_mbuf echo_av True)) fresh_av 65535 ps
       in err = 0 \<and> rs \<noteq> [] \<and>
          av_fin echo_av [] (annexb [(0x40, [1, 2]), (0x26, [1, 4, 5, 6, 7])]) (last rs) d'"
proof -
  let ?ns = "[(0x40, [1, 2]), (0x26, [1, 4, 5, 6, 7])] :: (u8 \<times> u8 list) list"
  have ok: "nals265_ok ?ns" "list_all rx265_ok ?ns" "length (annexb ?ns) \<le> DECODE_MAXSZ"
    by (simp_all add: nals265_ok_def nal265_ok_def rx265_ok_def h265_hdr_ok_def h265_nal_of_def annexb_def
        DECODE_MAXSZ_def)
  have "length (annexb ?ns) < 2 ^ 64" using ok(3) by (simp add: DECODE_MAXSZ_def)
  then have "h265_packetize 7 (mem_of 5 (annexb ?ns)) 5 (length (annexb ?ns)) 4 rec_pkth [] =
      Some (send_pkts rec_pkth (stream265_pkts 7 4 ?ns) 0 [])"
    by (intro h265_packetize_annexb ok(1) mem_slice_of) simp_all
  then obtain err ps where sent: "h265_packetize 7 (mem_of 5 (annexb ?ns)) 5 (length (annexb ?ns)) 4 rec_pkth [] = Some (err, ps)"
    by fastforce
  obtain rs d' where fed: "feed (rx_step (avcodec_decode_h265 ref_mbuf echo_av True)) fresh_av 65535 ps = (rs, d')"
    by fastforce
  have "err = 0 \<and> rs \<noteq> [] \<and> av_fin echo_av [] (annexb ?ns) (last rs) d'"
    by (rule h265_stream_decoded[OF _ _ _ ok(1,2) mem_slice_of ok(3) fresh_av_asm sent fed]) simp_all
  then show ?thesis by (simp only: sent option.case prod.case fed Let_def) simp
qed

text \<open>
  C11: \<open>avcodec_decode_h264\<close> returns on every packet, and an aggregation packet
  (STAP-A) appends each of its units behind a start code, in order.
\<close>

theorem h264_aggregation_unpacked:
  fixes d :: "'c av_dec"
  assumes "mbuf_laws M" "h264_laws N" "mb_wf src"
  shows "avcodec_decode_h264 M A N nonnull d marker q src \<noteq> None \<and>
    (\<forall>b c nri ns. av_asm M A key d c b \<longrightarrow>
       mb_unread src = (push_bit 5 (nri AND 3) OR 24) # agg_bytes ns \<longrightarrow>
       list_all (\<lambda>n. n \<noteq> [] \<and> length n < 2 ^ 16) ns \<longrightarrow>
       (\<exists>d'. h264_rx_nal M N d q src = Some (AvGo, d') \<and>
          av_asm M A key d' c (b @ concat (map (\<lambda>n. nal_seq @ n) ns))))"
proof (intro conjI allI impI)
  obtain err hdr src' where dec: "nh_decode N src = (err, hdr, src')" by (metis prod.exhaust)
  have "h264_rx_nal M N d q src \<noteq> None"
  proof (cases "err = 0")
    case False
    then show ?thesis by (simp add: h264_rx_nal_def dec)
  next
    case True
    then obtain b bs where u: "mb_unread src = b # bs"
      using assms(2,3) dec unfolding h264_laws_def by (metis fst_conv neq_Nil_conv)
    then have "src' = src\<lparr>mb_pos := mb_pos src + 1\<rparr>"
      using assms(2,3) dec unfolding h264_laws_def by (metis prod.inject)
    then have "mb_wf src'" using mb_skip(1)[OF assms(3), of 1] u by simp
    then have "h264_stap_loop M N st src' \<noteq> None" for st :: "'c av_dec"
      using h264_stap_loop_returns[OF assms(1,2), of src' st] by auto
    then show ?thesis by (simp add: h264_rx_nal_def dec Let_def split_def)
  qed
  then show "avcodec_decode_h264 M A N nonnull d marker q src \<noteq> None"
    by (simp add: avcodec_decode_h264_def)
next
  fix b c nri ns
  assume asm: "av_asm M A key d c b" and u: "mb_unread src = (push_bit 5 (nri AND 3) OR 24) # agg_bytes ns"
    and ns: "list_all (\<lambda>n. n \<noteq> [] \<and> length n < 2 ^ 16) ns"
  let ?h = "push_bit 5 (nri AND 3) OR 24 :: u8" and ?s = "src\<lparr>mb_pos := mb_pos src + 1\<rparr>"
  have dec: "nh_decode N src = (0, h264_hdr_of ?h, ?s)"
    using assms(2,3) u unfolding h264_laws_def by blast
  have s: "mb_wf ?s" "mb_unread ?s = agg_bytes ns" using mb_skip[OF assms(3), of 1] u by simp_all
  have h: "h264_hdr_of ?h = \<lparr>nh_f = False, nh_nri = nri AND 3, nh_type = 24\<rparr>"
    by (simp add: h264_hdr_of_def u8_eq_iff bit_simps)
  have dec24: "nh_decode N src = (0, \<lparr>nh_f = False, nh_nri = nri AND 3, nh_type = 24\<rparr>, ?s)"
    unfolding dec h by (rule refl)
  have "\<not> av_frag d" using asm by (simp add: av_asm_def)
  then have "h264_rx_nal M N d q src = h264_stap_loop M N d ?s"
    by (simp add: h264_rx_nal_def dec24 H264_NALU_FU_A_def Let_def)
  then show "\<exists>d'. h264_rx_nal M N d q src = Some (AvGo, d') \<and>
      av_asm M A key d' c (b @ concat (map (\<lambda>n. nal_seq @ n) ns))"
    using h264_stap_loop_units[OF assms(1,2) s ns asm] by simp
qed

theorem h264_aggregation_unpacked_witness:
  "avcodec_decode_h264 ref_mbuf echo_av ref_h264 True fresh_av True 1 (mbuf_of (0x78 # agg_bytes [[0x67, 1], [0x68]])) \<noteq> None \<and>
   (\<exists>d'. h264_rx_nal ref_mbuf ref_h264 fresh_av 1 (mbuf_of (0x78 # agg_bytes [[0x67, 1], [0x68]])) = Some (AvGo, d') \<and>
      av_asm ref_mbuf echo_av False d' [] [0, 0, 1, 0x67, 1, 0, 0, 1, 0x68])"
  using h264_aggregation_unpacked[OF ref_mbuf_laws ref_h264_laws,
      of "mbuf_of (0x78 # agg_bytes [[0x67, 1], [0x68]])" echo_av True fresh_av True 1 False]
  by (auto simp: fresh_av_asm nal_seq_def dest!: spec[where x = "[]"] spec[where x = "3 :: u8"] spec[where x = "[[0x67, 1], [0x68]]"])

end
