(* ===== verification/H263.thy ===== *)
theory H263
  imports AvDecode
begin

text \<open>
  src/modules/avcodec/h263.c: the RTP payload header of H.263 (RFC 2190), the
  picture header of the bit stream, the search for a picture start code; and
  the H.263 decoder of src/modules/avcodec/decode.c.  Bit-fields are words of
  their width, one-bit fields booleans.
\<close>

subsection \<open>Payload header\<close>

datatype h263_mode = H263_MODE_A | H263_MODE_B | H263_MODE_C

record h263_hdr =
  h3_f :: bool
  h3_p :: bool
  h3_sbit :: "3 word"
  h3_ebit :: "3 word"
  h3_src :: "3 word"
  h3_i :: bool
  h3_u :: bool
  h3_s :: bool
  h3_a :: bool
  h3_r :: "4 word"
  h3_dbq :: "2 word"
  h3_trb :: "3 word"
  h3_tr :: "8 word"
  h3_quant :: "5 word"
  h3_gobn :: "5 word"
  h3_mba :: "9 word"
  h3_hmv1 :: "7 word"
  h3_vmv1 :: "7 word"
  h3_hmv2 :: "7 word"
  h3_vmv2 :: "7 word"

definition h263_hdr_word :: "h263_hdr \<Rightarrow> u32" where
  "h263_hdr_word hdr =
     push_bit 31 (of_bool (h3_f hdr)) OR push_bit 30 (of_bool (h3_p hdr)) OR
     push_bit 27 (ucast (h3_sbit hdr)) OR push_bit 24 (ucast (h3_ebit hdr)) OR
     (push_bit 21 (ucast (h3_src hdr)) OR push_bit 20 (of_bool (h3_i hdr)) OR
      push_bit 19 (of_bool (h3_u hdr)) OR push_bit 18 (of_bool (h3_s hdr)) OR
      push_bit 17 (of_bool (h3_a hdr))) OR
     (push_bit 13 (ucast (h3_r hdr)) OR push_bit 11 (ucast (h3_dbq hdr)) OR
      push_bit 8 (ucast (h3_trb hdr)) OR ucast (h3_tr hdr))"

definition h263_hdr_encode :: "mbuf_ops \<Rightarrow> h263_hdr \<Rightarrow> mbuf \<Rightarrow> err \<times> mbuf" where
  "h263_hdr_encode M hdr mb = (let v = h263_hdr_word hdr in m_write_u32 M mb (htonl v))"

definition h263_hdr_mode :: "h263_hdr \<Rightarrow> h263_mode" where
  "h263_hdr_mode hdr =
     (if \<not> h3_f hdr then H263_MODE_A else if \<not> h3_p hdr then H263_MODE_B else H263_MODE_C)"

definition H263_HDR_SIZE_MODEA :: nat where "H263_HDR_SIZE_MODEA = 4"

definition h263_common :: "h263_hdr \<Rightarrow> u32 \<Rightarrow> h263_hdr" where
  "h263_common hdr v = hdr\<lparr>h3_f := bit v 31, h3_p := bit v 30,
     h3_sbit := ucast (drop_bit 27 v AND 0x7), h3_ebit := ucast (drop_bit 24 v AND 0x7),
     h3_src := ucast (drop_bit 21 v AND 0x7)\<rparr>"

definition h263_mode_a :: "h263_hdr \<Rightarrow> u32 \<Rightarrow> h263_hdr" where
  "h263_mode_a hdr v = hdr\<lparr>h3_i := bit v 20, h3_u := bit v 19, h3_s := bit v 18, h3_a := bit v 17,
     h3_r := ucast (drop_bit 13 v AND 0xf), h3_dbq := ucast (drop_bit 11 v AND 0x3),
     h3_trb := ucast (drop_bit 8 v AND 0x7), h3_tr := ucast (v AND 0xff)\<rparr>"

definition h263_hdr_decode :: "mbuf_ops \<Rightarrow> bool \<Rightarrow> h263_hdr \<Rightarrow> mbuf \<Rightarrow> err \<times> h263_hdr \<times> mbuf" where
  "h263_hdr_decode M nonnull hdr mb =
     (if \<not> nonnull then (EINVAL, hdr, mb)
      else if m_get_left M mb < H263_HDR_SIZE_MODEA then (EBADMSG, hdr, mb)
      else
        let (x, mb) = m_read_u32 M mb; v = ntohl x; hdr = h263_common hdr v
        in case h263_hdr_mode hdr of
             H263_MODE_A \<Rightarrow> (0, h263_mode_a hdr v, mb)
           | H263_MODE_B \<Rightarrow>
               let hdr = hdr\<lparr>h3_quant := ucast (drop_bit 16 v AND 0x1f),
                             h3_gobn := ucast (drop_bit 11 v AND 0x1f),
                             h3_mba := ucast (drop_bit 2 v AND 0x1ff)\<rparr>
               in if m_get_left M mb < 4 then (EBADMSG, hdr, mb)
                  else
                    let (x, mb) = m_read_u32 M mb; v = ntohl x
                    in (0, hdr\<lparr>h3_i := bit v 31, h3_u := bit v 30, h3_s := bit v 29, h3_a := bit v 28,
                             h3_hmv1 := ucast (drop_bit 21 v AND 0x7f), h3_vmv1 := ucast (drop_bit 14 v AND 0x7f),
                             h3_hmv2 := ucast (drop_bit 7 v AND 0x7f), h3_vmv2 := ucast (v AND 0x7f)\<rparr>, mb)
           | H263_MODE_C \<Rightarrow>
               if m_get_left M mb < 8 then (EBADMSG, hdr, mb)
               else
                 let (x, mb) = m_read_u32 M mb; v = ntohl x;
                     hdr = hdr\<lparr>h3_i := bit v 31, h3_u := bit v 30, h3_s := bit v 29, h3_a := bit v 28\<rparr>;
                     (_, mb) = m_read_u32 M mb
                 in (0, hdr, mb))"

subsection \<open>Bit stream\<close>

text \<open>The index of the first of two zero bytes, if there is one.\<close>

fun h263_strm_find_psc :: "u8 list \<Rightarrow> nat option" where
  "h263_strm_find_psc (a # b # xs) =
     (if a = 0 \<and> b = 0 then Some 0 else map_option Suc (h263_strm_find_psc (b # xs)))"
| "h263_strm_find_psc xs = None"

record h263_strm =
  st_psc :: "u8 \<times> u8"
  st_temp_ref :: u8
  st_split_scr :: bool
  st_doc_camera :: bool
  st_pic_frz_rel :: bool
  st_src_fmt :: "3 word"
  st_pic_type :: bool
  st_umv :: bool
  st_sac :: bool
  st_apm :: bool
  st_pb :: bool
  st_pquant :: "5 word"
  st_cpm :: bool
  st_pei :: bool

text \<open>\<open>mbuf_buf(mb)[i]\<close>: memory behind the position, whatever the end is.\<close>

definition mbuf_at :: "mbuf \<Rightarrow> nat \<Rightarrow> u8" where
  "mbuf_at mb i = mb_buf mb ! (mb_pos mb + i)"

definition h263_strm_decode :: "mbuf_ops \<Rightarrow> h263_strm \<Rightarrow> mbuf \<Rightarrow> err \<times> h263_strm" where
  "h263_strm_decode M s mb =
     (if m_get_left M mb < 6 then (EINVAL, s)
      else
        let p = mbuf_at mb
        in (0, \<lparr>st_psc = (p 0, p 1),
               st_temp_ref = (push_bit 6 (p 2) AND 0xc0) OR (drop_bit 2 (p 3) AND 0x3f),
               st_split_scr = bit (p 4) 7, st_doc_camera = bit (p 4) 6, st_pic_frz_rel = bit (p 4) 5,
               st_src_fmt = ucast (drop_bit 2 (p 4) AND 0x7), st_pic_type = bit (p 4) 1, st_umv = bit (p 4) 0,
               st_sac = bit (p 5) 7, st_apm = bit (p 5) 6, st_pb = bit (p 5) 5,
               st_pquant = ucast (p 5 AND 0x1f), st_cpm = bit (p 6) 7, st_pei = bit (p 6) 6\<rparr>))"

definition h263_hdr_copy_strm :: "h263_hdr \<Rightarrow> h263_strm \<Rightarrow> h263_hdr" where
  "h263_hdr_copy_strm hdr s = hdr\<lparr>h3_f := False, h3_p := False, h3_sbit := 0, h3_ebit := 0,
     h3_src := st_src_fmt s, h3_i := st_pic_type s, h3_u := st_umv s, h3_s := st_sac s, h3_a := st_apm s,
     h3_r := 0, h3_dbq := 0, h3_trb := 0, h3_tr := st_temp_ref s\<rparr>"

subsection \<open>Decoder\<close>

definition h263_hdr0 :: h263_hdr where
  "h263_hdr0 = \<lparr>h3_f = False, h3_p = False, h3_sbit = 0, h3_ebit = 0, h3_src = 0, h3_i = False, h3_u = False,
     h3_s = False, h3_a = False, h3_r = 0, h3_dbq = 0, h3_trb = 0, h3_tr = 0, h3_quant = 0, h3_gobn = 0,
     h3_mba = 0, h3_hmv1 = 0, h3_vmv1 = 0, h3_hmv2 = 0, h3_vmv2 = 0\<rparr>"

text \<open>
  The bits before \<open>sbit\<close> of the first byte were sent at the end of the previous
  packet: the rest of the byte is merged into the last byte of the buffer.
\<close>

definition h263_merge_sbit :: "mbuf_ops \<Rightarrow> h263_hdr \<Rightarrow> mbuf \<Rightarrow> mbuf \<Rightarrow> mbuf \<times> mbuf" where
  "h263_merge_sbit M hdr mb src =
     (if h3_sbit hdr > 0
      then
        let mask = push_bit (8 - unat (h3_sbit hdr)) 1 - 1;
            (v, src) = m_read_u8 M src;
            i = size_sub (mb_end mb) 1
        in (mb\<lparr>mb_buf := (mb_buf mb)[i := mb_buf mb ! i OR (v AND mask)]\<rparr>, src)
      else (mb, src))"

definition avcodec_decode_h263 ::
  "mbuf_ops \<Rightarrow> 'c av_ops \<Rightarrow> bool \<Rightarrow> 'c av_dec \<Rightarrow> bool \<Rightarrow> u16 \<Rightarrow> mbuf option \<Rightarrow> 'c av_dec dec_result" where
  "avcodec_decode_h263 M A nonnull st marker seq src =
     (if \<not> nonnull then \<lparr>r_err = EINVAL, r_intra = None, r_frame = None, r_vds = st\<rparr>
      else
        let ret = (\<lambda>err st. \<lparr>r_err = err, r_intra = Some False, r_frame = None, r_vds = st\<rparr>);
            out = (\<lambda>err intra frame st. \<lparr>r_err = err, r_intra = Some intra, r_frame = frame,
                     r_vds = st\<lparr>av_mb := m_rewind M (av_mb st)\<rparr>\<rparr>)
        in case src of
             None \<Rightarrow> ret 0 st
           | Some src \<Rightarrow>
               let (err, hdr, src) = h263_hdr_decode M True h263_hdr0 src
               in if err \<noteq> 0 then ret err st
                  else if h3_i hdr \<and> \<not> av_got_keyframe st then ret EPROTO st
                  else
                    let (mb, src) = h263_merge_sbit M hdr (av_mb st) src;
                        (err, mb) = m_write_mem M mb (m_rest M src);
                        st = st\<lparr>av_mb := mb\<rparr>
                    in if err \<noteq> 0 then out err False None st
                       else if \<not> marker
                       then (if mb_end mb > DECODE_MAXSZ then out ENOMEM False None st else ret 0 st)
                       else let (err, intra, frame, st) = ffdecode M A st in out err intra frame st)"

subsection \<open>Properties\<close>

lemma ntohl_le32: "ntohl (le32 (le32_bytes (ntohl v))) = v"
proof (rule bit_word_eqI)
  fix n assume "n < LENGTH(32)"
  then have "n < 32" by simp
  then have "\<forall>n<32. bit (ntohl (le32 (le32_bytes (ntohl v)))) n = bit v n"
    by (simp add: all_less_numeral ntohl_def le32_def le32_bytes_def bit_simps)
  then show "bit (ntohl (le32 (le32_bytes (ntohl v)))) n = bit v n" using \<open>n < 32\<close> by blast
qed

lemma word_bit_high: "LENGTH('a) \<le> n \<Longrightarrow> \<not> bit (w :: 'a::len word) n"
  using bit_imp_le_length[of w n] by auto

lemma word_bits_eq_iff: "(x :: 'a::len word) = y \<longleftrightarrow> (\<forall>n<LENGTH('a). bit x n = bit y n)"
  by (auto intro: bit_word_eqI)

lemma h263_fields:
  "bit (h263_hdr_word hdr) 31 = h3_f hdr" "bit (h263_hdr_word hdr) 30 = h3_p hdr"
  "ucast (drop_bit 27 (h263_hdr_word hdr) AND 0x7) = h3_sbit hdr"
  "ucast (drop_bit 24 (h263_hdr_word hdr) AND 0x7) = h3_ebit hdr"
  "ucast (drop_bit 21 (h263_hdr_word hdr) AND 0x7) = h3_src hdr"
  "bit (h263_hdr_word hdr) 20 = h3_i hdr" "bit (h263_hdr_word hdr) 19 = h3_u hdr"
  "bit (h263_hdr_word hdr) 18 = h3_s hdr" "bit (h263_hdr_word hdr) 17 = h3_a hdr"
  "ucast (drop_bit 13 (h263_hdr_word hdr) AND 0xf) = h3_r hdr"
  "ucast (drop_bit 11 (h263_hdr_word hdr) AND 0x3) = h3_dbq hdr"
  "ucast (drop_bit 8 (h263_hdr_word hdr) AND 0x7) = h3_trb hdr"
  "ucast (h263_hdr_word hdr AND 0xff) = h3_tr hdr"
  by (simp_all add: word_bits_eq_iff all_less_numeral h263_hdr_word_def bit_simps word_bit_high)

definition h263_hdr_bytes :: "h263_hdr \<Rightarrow> u8 list" where
  "h263_hdr_bytes hdr = le32_bytes (htonl (h263_hdr_word hdr))"

lemma h263_hdr_decode_bytes:
  assumes "mbuf_laws M" "mb_wf m" "mb_unread m = h263_hdr_bytes hdr @ x" "\<not> h3_f hdr"
  obtains m' where "mb_wf m'" "mb_unread m' = x"
    "h263_hdr_decode M True h0 m = (0, hdr\<lparr>h3_quant := h3_quant h0, h3_gobn := h3_gobn h0, h3_mba := h3_mba h0,
       h3_hmv1 := h3_hmv1 h0, h3_vmv1 := h3_vmv1 h0, h3_hmv2 := h3_hmv2 h0, h3_vmv2 := h3_vmv2 h0\<rparr>, m')"
proof -
  let ?v = "h263_hdr_word hdr"
  obtain b0 b1 b2 b3 where b: "le32_bytes (htonl ?v) = [b0, b1, b2, b3]" by (simp add: le32_bytes_def)
  then have u: "mb_unread m = b0 # b1 # b2 # b3 # x" using assms(3) by (simp add: h263_hdr_bytes_def)
  obtain m' where m': "m_read_u32 M m = (le32 [b0, b1, b2, b3], m')" "mb_wf m'" "mb_unread m' = x"
    using assms(1,2) u by (rule m_read_u32_Cons)
  have v: "ntohl (le32 [b0, b1, b2, b3]) = ?v" using ntohl_le32[of ?v] b by simp
  have left: "\<not> m_get_left M m < H263_HDR_SIZE_MODEA"
    using assms(1,2) u by (simp add: m_get_left_unread H263_HDR_SIZE_MODEA_def)
  have a: "h263_mode_a (h263_common h0 ?v) ?v =
      hdr\<lparr>h3_quant := h3_quant h0, h3_gobn := h3_gobn h0, h3_mba := h3_mba h0,
       h3_hmv1 := h3_hmv1 h0, h3_vmv1 := h3_vmv1 h0, h3_hmv2 := h3_hmv2 h0, h3_vmv2 := h3_vmv2 h0\<rparr>"
    by (simp only: h263_mode_a_def h263_common_def h263_fields) simp
  have m: "h263_hdr_mode (h263_common h0 ?v) = H263_MODE_A"
    using assms(4) by (simp add: h263_hdr_mode_def h263_common_def h263_fields)
  show ?thesis
    by (rule that[OF m'(2,3)]) (simp add: h263_hdr_decode_def left m'(1) v m a Let_def)
qed

text \<open>
  A mode A payload header that was encoded is decoded to the same fields;
  those of the other modes keep their values.
\<close>

theorem h263_hdr_roundtrip:
  assumes "mbuf_laws M" "mb_wf mb" "mb_pos mb = mb_end mb" "\<not> h3_f hdr"
    and "h263_hdr_encode M hdr mb = (0, mb')"
  shows "\<exists>mb''. h263_hdr_decode M True h0 (mb'\<lparr>mb_pos := mb_pos mb\<rparr>) =
     (0, hdr\<lparr>h3_quant := h3_quant h0, h3_gobn := h3_gobn h0, h3_mba := h3_mba h0, h3_hmv1 := h3_hmv1 h0,
       h3_vmv1 := h3_vmv1 h0, h3_hmv2 := h3_hmv2 h0, h3_vmv2 := h3_vmv2 h0\<rparr>, mb'')"
proof -
  let ?m = "mb'\<lparr>mb_pos := mb_pos mb\<rparr>"
  have "m_write_u32 M mb (htonl (h263_hdr_word hdr)) = (0, mb')"
    using assms(5) by (simp add: h263_hdr_encode_def)
  then have w: "mb_written mb (h263_hdr_bytes hdr) mb'"
    unfolding h263_hdr_bytes_def by (rule m_write_u32_written[OF assms(1,2)])
  have "mb_at_end mb" using assms(2,3) by (simp add: mb_at_end_def)
  from mb_written_at_end[OF this w] have e: "mb_end mb' = mb_end mb + length (h263_hdr_bytes hdr)"
      "mb_data mb' = mb_data mb @ h263_hdr_bytes hdr" and wf': "mb_wf mb'" by (simp_all add: mb_at_end_def)
  have wf: "mb_wf ?m" using wf' e(1) assms(3) by (simp add: mb_wf_def)
  have "mb_unread ?m = h263_hdr_bytes hdr @ []"
    using e(2) mb_data_length[OF assms(2)] assms(3) by (simp add: mb_unread_def mb_data_def)
  then obtain m2 where "h263_hdr_decode M True h0 ?m = (0, hdr\<lparr>h3_quant := h3_quant h0, h3_gobn := h3_gobn h0, h3_mba := h3_mba h0,
       h3_hmv1 := h3_hmv1 h0, h3_vmv1 := h3_vmv1 h0, h3_hmv2 := h3_hmv2 h0, h3_vmv2 := h3_vmv2 h0\<rparr>, m2)"
    by (rule h263_hdr_decode_bytes[OF assms(1) wf _ assms(4)])
  then show ?thesis by blast
qed

theorem h263_hdr_roundtrip_witness:
  "\<exists>mb''. h263_hdr_decode ref_mbuf True h263_hdr0
       ((snd (h263_hdr_encode ref_mbuf (h263_hdr0\<lparr>h3_sbit := 3, h3_i := True, h3_tr := 0xa5\<rparr>) (mbuf_of [])))\<lparr>mb_pos := 0\<rparr>) =
     (0, h263_hdr0\<lparr>h3_sbit := 3, h3_i := True, h3_tr := 0xa5\<rparr>, mb'')"
proof -
  let ?h = "h263_hdr0\<lparr>h3_sbit := 3, h3_i := True, h3_tr := 0xa5\<rparr>"
  have "h263_hdr_encode ref_mbuf ?h (mbuf_of []) = (0, snd (h263_hdr_encode ref_mbuf ?h (mbuf_of [])))"
    by (simp add: h263_hdr_encode_def ref_mbuf_def prod_eq_iff)
  from h263_hdr_roundtrip[OF ref_mbuf_laws _ _ _ this, of h263_hdr0] show ?thesis
    by (simp add: mbuf_of_def mb_wf_def h263_hdr0_def)
qed

text \<open>
  \<open>h263_strm_decode\<close> accepts six bytes but reads a seventh: two flags of
  the result come from the byte behind the end of the buffer.
\<close>

theorem h263_strm_overread:
  assumes "mbuf_laws M" "length xs = 6"
    and "h263_strm_decode M s \<lparr>mb_buf = xs @ b # bs, mb_pos = 0, mb_end = 6\<rparr> = (err, t)"
  shows "err = 0 \<and> mb_unread \<lparr>mb_buf = xs @ b # bs, mb_pos = 0, mb_end = 6\<rparr> = xs \<and>
    st_cpm t = bit b 7 \<and> st_pei t = bit b 6"
proof -
  let ?m = "\<lparr>mb_buf = xs @ b # bs, mb_pos = 0, mb_end = 6\<rparr>"
  have wf: "mb_wf ?m" using assms(2) by (simp add: mb_wf_def)
  have u: "mb_unread ?m = xs" using assms(2) by (simp add: mb_unread_def mb_data_def)
  have "m_get_left M ?m = 6" using m_get_left_unread[OF assms(1) wf] u assms(2) by simp
  moreover have "mbuf_at ?m 6 = b" using assms(2) by (simp add: mbuf_at_def nth_append)
  ultimately show ?thesis using assms(3) u by (auto simp: h263_strm_decode_def Let_def)
qed

definition strm0 :: h263_strm where
  "strm0 = \<lparr>st_psc = (0, 0), st_temp_ref = 0, st_split_scr = False, st_doc_camera = False,
     st_pic_frz_rel = False, st_src_fmt = 0, st_pic_type = False, st_umv = False, st_sac = False,
     st_apm = False, st_pb = False, st_pquant = 0, st_cpm = False, st_pei = False\<rparr>"

theorem h263_strm_overread_witness:
  "st_pei (snd (h263_strm_decode ref_mbuf strm0 \<lparr>mb_buf = [0, 0, 2, 3, 4, 5] @ 0x40 # [], mb_pos = 0, mb_end = 6\<rparr>)) \<and>
   \<not> st_pei (snd (h263_strm_decode ref_mbuf strm0 \<lparr>mb_buf = [0, 0, 2, 3, 4, 5] @ 0 # [], mb_pos = 0, mb_end = 6\<rparr>))"
  using h263_strm_overread[OF ref_mbuf_laws _ prod.collapse[symmetric], of "[0, 0, 2, 3, 4, 5]" strm0 "0x40" "[]"]
    h263_strm_overread[OF ref_mbuf_laws _ prod.collapse[symmetric], of "[0, 0, 2, 3, 4, 5]" strm0 0 "[]"]
  by (simp add: bit_simps)

text \<open>
  Packets that split the stream inside a byte: when the buffer ends with
  the high bits of the byte \<open>v\<close> and the packet starts with its low bits, the
  buffer holds \<open>v\<close> once, followed by the rest of the packet.
\<close>

theorem h263_bits_merged:
  assumes "mbuf_laws M" "mbuf_no_oom M" "\<not> h3_f hdr" "0 < h3_sbit hdr" "\<not> h3_i hdr"
    and at: "mb_at_end (av_mb st)" and data: "mb_data (av_mb st) = d @ [hi]"
    and bits: "msk = push_bit (8 - unat (h3_sbit hdr)) 1 - 1" "hi = v AND NOT msk" "lo AND msk = v AND msk"
    and src: "mb_wf src" "mb_unread src = h263_hdr_bytes hdr @ lo # x"
    and size: "length d + 1 + length x \<le> DECODE_MAXSZ" "length d + 1 < 2 ^ 64"
  shows "let r = avcodec_decode_h263 M A True st False q (Some src)
    in r_err r = 0 \<and> mb_at_end (av_mb (r_vds r)) \<and> mb_data (av_mb (r_vds r)) = d @ v # x"
proof -
  obtain m1 h1 where m1: "mb_wf m1" "mb_unread m1 = lo # x"
    and dec: "h263_hdr_decode M True h263_hdr0 src = (0, h1, m1)" and h1: "h3_sbit h1 = h3_sbit hdr" "\<not> h3_i h1"
    by (rule h263_hdr_decode_bytes[OF assms(1) src assms(3), of h263_hdr0]) (use assms(5) in auto)
  obtain m2 where m2: "m_read_u8 M m1 = (lo, m2)" "mb_wf m2" "mb_unread m2 = x"
    using assms(1) m1 by (rule m_read_u8_Cons)
  let ?b = "av_mb st"
  have e: "mb_end ?b = length d + 1" using at data mb_data_length[of ?b] by (simp add: mb_at_end_def)
  have i: "size_sub (mb_end ?b) 1 = length d" using size(2) by (simp add: e size_sub_le)
  have tk: "take (length d + 1) (mb_buf ?b) = d @ [hi]" using data by (simp add: mb_data_def e)
  have len: "length d < length (mb_buf ?b)" using at e by (simp add: mb_at_end_def mb_wf_def)
  have hi: "mb_buf ?b ! length d = hi"
    using arg_cong[OF tk, of "\<lambda>l. l ! length d"] by simp
  have v: "hi OR (lo AND msk) = v"
    unfolding bits(2,3) by (rule bit_word_eqI) (auto simp: bit_simps)
  let ?b1 = "?b\<lparr>mb_buf := (mb_buf ?b)[length d := v]\<rparr>"
  have merge: "h263_merge_sbit M h1 ?b m1 = (?b1, m2)"
    using assms(4) v hi unfolding h263_merge_sbit_def h1(1) i m2(1) bits(1)[symmetric] Let_def prod.case by simp
  have at1: "mb_at_end ?b1" using at by (simp add: mb_at_end_def mb_wf_def)
  have "mb_data ?b1 = (take (length d + 1) (mb_buf ?b))[length d := v]"
    by (simp add: mb_data_def e take_update_swap)
  then have d1: "mb_data ?b1 = d @ [v]" using tk by (simp add: list_update_append)
  obtain m3 where m3: "m_write_mem M ?b1 x = (0, m3)" "mb_at_end m3" "mb_data m3 = mb_data ?b1 @ x"
      "mb_end m3 = mb_end ?b1 + length x"
    using assms(1,2) at1 by (rule m_write_mem_append)
  have "m_rest M m2 = x" using assms(1) m2 by (simp add: m_rest_unread)
  then have "avcodec_decode_h263 M A True st False q (Some src) =
      \<lparr>r_err = 0, r_intra = Some False, r_frame = None, r_vds = st\<lparr>av_mb := m3\<rparr>\<rparr>"
    using m3 size(1) h1(2) e by (simp add: avcodec_decode_h263_def dec merge Let_def)
  then show ?thesis using m3 d1 by simp
qed

text \<open>A decoder with two bytes of a picture, the last one half filled, for the witness.\<close>

definition half_av :: "u8 list av_dec" where
  "half_av = fresh_av\<lparr>av_mb := \<lparr>mb_buf = [7, 0xc0], mb_pos = 2, mb_end = 2\<rparr>\<rparr>"

theorem h263_bits_merged_witness:
  "let r = avcodec_decode_h263 ref_mbuf echo_av True half_av False 9
       (Some (mbuf_of (h263_hdr_bytes (h263_hdr0\<lparr>h3_sbit := 2\<rparr>) @ 0x15 # [8])))
   in r_err r = 0 \<and> mb_at_end (av_mb (r_vds r)) \<and> mb_data (av_mb (r_vds r)) = [7] @ 0xd5 # [8]"
  by (rule h263_bits_merged[OF ref_mbuf_laws ref_mbuf_no_oom, where hdr = "h263_hdr0\<lparr>h3_sbit := 2\<rparr>" and
        msk = "0x3f" and hi = "0xc0"])
    (simp_all add: h263_hdr0_def half_av_def fresh_av_def mb_at_end_def mb_wf_def mb_data_def
      mbuf_of_def mb_unread_def DECODE_MAXSZ_def)


end
