(* ===== verification/Netstring.thy ===== *)
theory Netstring
  imports Prelude
begin

text \<open>
  src/modules/ctrl_tcp/netstring/netstring.c, the netstring coding of a byte
  string, and src/modules/ctrl_tcp/tcp_netstring.c, the framing of a TCP
  stream with it: the handler that puts a message into a netstring before it
  is sent, and the one that takes the netstrings out of the received segments.
\<close>

subsection \<open>Reading\<close>

definition NETSTRING_ERROR_TOO_LONG :: int where "NETSTRING_ERROR_TOO_LONG = - 100"
definition NETSTRING_ERROR_NO_COLON :: int where "NETSTRING_ERROR_NO_COLON = - 99"
definition NETSTRING_ERROR_TOO_SHORT :: int where "NETSTRING_ERROR_TOO_SHORT = - 98"
definition NETSTRING_ERROR_NO_COMMA :: int where "NETSTRING_ERROR_NO_COMMA = - 97"
definition NETSTRING_ERROR_LEADING_ZERO :: int where "NETSTRING_ERROR_LEADING_ZERO = - 96"
definition NETSTRING_ERROR_NO_LENGTH :: int where "NETSTRING_ERROR_NO_LENGTH = - 95"

lemmas netstring_errors = NETSTRING_ERROR_TOO_LONG_def NETSTRING_ERROR_NO_COLON_def
  NETSTRING_ERROR_TOO_SHORT_def NETSTRING_ERROR_NO_COMMA_def NETSTRING_ERROR_LEADING_ZERO_def
  NETSTRING_ERROR_NO_LENGTH_def

definition netstring_error_str :: "int \<Rightarrow> string" where
  "netstring_error_str err =
     (if err = NETSTRING_ERROR_TOO_LONG then ''NETSTRING_ERROR_TOO_LONG''
      else if err = NETSTRING_ERROR_NO_COLON then ''NETSTRING_ERROR_NO_COLON''
      else if err = NETSTRING_ERROR_TOO_SHORT then ''NETSTRING_ERROR_TOO_SHORT''
      else if err = NETSTRING_ERROR_NO_COMMA then ''NETSTRING_ERROR_NO_COMMA''
      else if err = NETSTRING_ERROR_LEADING_ZERO then ''NETSTRING_ERROR_LEADING_ZERO''
      else if err = NETSTRING_ERROR_NO_LENGTH then ''NETSTRING_ERROR_NO_LENGTH''
      else ''NETSTRING_ERROR_UNKNOWN'')"

definition isdigit :: "u8 \<Rightarrow> bool" where
  "isdigit c = (48 \<le> c \<and> c \<le> 57)"

text \<open>The loop over the digits: the index behind them and the number, or more than 9 digits.\<close>

function ns_digits :: "u8 list \<Rightarrow> nat \<Rightarrow> nat \<Rightarrow> nat \<Rightarrow> (nat \<times> nat) option" where
  "ns_digits buffer n i len =
     (if i < n \<and> isdigit (buffer ! i)
      then if i \<ge> 9 then None
           else ns_digits buffer n (i + 1) (len * 10 + (unat (buffer ! i) - 48))
      else Some (i, len))"
  by pat_completeness auto
termination
  by (relation "measure (\<lambda>(buffer, n, i, len). 9 - i)") auto

declare ns_digits.simps [simp del]

text \<open>
  \<open>buffer\<close> is the memory from the pointer on, which may reach beyond
  \<open>buffer_length\<close>.  The result: error code, index and length of the string.
\<close>

definition netstring_read :: "u8 list \<Rightarrow> nat \<Rightarrow> int \<times> nat option \<times> nat" where
  "netstring_read buffer buffer_length =
     (if buffer_length < 3 then (NETSTRING_ERROR_TOO_SHORT, None, 0)
      else if buffer ! 0 = 48 \<and> isdigit (buffer ! 1) then (NETSTRING_ERROR_LEADING_ZERO, None, 0)
      else if \<not> isdigit (buffer ! 0) then (NETSTRING_ERROR_NO_LENGTH, None, 0)
      else
        case ns_digits buffer buffer_length 0 0 of
          None \<Rightarrow> (NETSTRING_ERROR_TOO_LONG, None, 0)
        | Some (i, len) \<Rightarrow>
            if i + len + 1 \<ge> buffer_length then (NETSTRING_ERROR_TOO_SHORT, None, 0)
            else if buffer ! i \<noteq> 58 then (NETSTRING_ERROR_NO_COLON, None, 0)
            else
              let i = i + 1
              in if buffer ! (i + len) \<noteq> 44 then (NETSTRING_ERROR_NO_COMMA, None, 0)
                 else (0, Some i, len))"

subsection \<open>Writing\<close>

text \<open>The decimal digits \<open>%zu\<close> and \<open>%lu\<close> print.\<close>

fun dec_str :: "nat \<Rightarrow> u8 list" where
  "dec_str n = (if n < 10 then [48 + of_nat n] else dec_str (n div 10) @ [48 + of_nat (n mod 10)])"

declare dec_str.simps [simp del]

definition netstring_num_len :: "nat \<Rightarrow> nat" where
  "netstring_num_len num = length (dec_str num)"

definition netstring_buffer_size :: "nat \<Rightarrow> nat" where
  "netstring_buffer_size data_length =
     (if data_length = 0 then 3 else netstring_num_len data_length + data_length + 2)"

text \<open>The bytes of the new netstring and the returned size.\<close>

definition netstring_encode_new :: "u8 list \<Rightarrow> u8 list \<times> nat" where
  "netstring_encode_new d =
     (let len = length d
      in if len = 0 then ([48, 58, 44], 1 + len + 2)
         else let num_len = netstring_num_len len
              in (dec_str len @ [58] @ d @ [44], num_len + len + 2))"

subsection \<open>Framing\<close>

record netstring =
  ns_mb :: "mbuf option"
  ns_tx :: u64
  ns_rx :: u64

definition NETSTRING_HEADER_SIZE :: nat where "NETSTRING_HEADER_SIZE = 10"
definition NETSTRING_MAX_SIZE :: nat where "NETSTRING_MAX_SIZE = 999999999"

abbreviation (input) EMSGSIZE :: err where "EMSGSIZE \<equiv> 90"

text \<open>The result: whether the message was handled, \<open>*err\<close>, the buffer, the state.\<close>

definition netstring_send_handler ::
  "mbuf_ops \<Rightarrow> netstring \<Rightarrow> mbuf \<Rightarrow> bool \<times> err option \<times> mbuf \<times> netstring" where
  "netstring_send_handler M ns mb =
     (if mb_pos mb < NETSTRING_HEADER_SIZE then (True, Some ENOMEM, mb, ns)
      else if m_get_left M mb > NETSTRING_MAX_SIZE then (True, Some EMSGSIZE, mb, ns)
      else if m_get_left M mb = 0
      then (False, None,
            mb\<lparr>mb_buf := (mb_buf mb)[0 := 48, 1 := 58, 2 := 44], mb_end := mb_end mb + 3\<rparr>, ns)
      else
        let num_str = dec_str (m_get_left M mb);
            num_len = length num_str;
            mb = mb\<lparr>mb_pos := NETSTRING_HEADER_SIZE - (num_len + 1)\<rparr>;
            (_, mb) = m_write_mem M mb num_str;
            mb = mb\<lparr>mb_pos := NETSTRING_HEADER_SIZE - (num_len + 1)\<rparr>;
            mb = mb\<lparr>mb_buf := (mb_buf mb)[mb_pos mb + num_len := 58]\<rparr>;
            mb = mb\<lparr>mb_buf := (mb_buf mb)[mb_end mb := 44]\<rparr>;
            mb = mb\<lparr>mb_end := mb_end mb + 1\<rparr>
        in (False, None, mb, ns\<lparr>ns_tx := ns_tx ns + 1\<rparr>))"

text \<open>
  The loop over the netstrings in the buffer, as written in the source: the
  length given to \<open>netstring_read\<close> is \<open>end\<close>.  \<open>frameh\<close> is the frame handler.
\<close>

partial_function (option) ns_recv_loop ::
  "mbuf_ops \<Rightarrow> (u8 list \<Rightarrow> 's \<Rightarrow> 's) \<Rightarrow> netstring \<Rightarrow> mbuf \<Rightarrow> 's \<Rightarrow> (bool \<times> netstring \<times> 's) option" where
  "ns_recv_loop M frameh ns mb s =
     (if m_get_left M mb < 3 then Some (True, ns\<lparr>ns_mb := Some mb\<rparr>, s)
      else
        case netstring_read (drop (mb_pos mb) (mb_buf mb)) (mb_end mb) of
          (err, start, len) \<Rightarrow>
            if err \<noteq> 0
            then Some (False, ns\<lparr>ns_mb := (if err = NETSTRING_ERROR_TOO_SHORT then Some mb else None)\<rparr>, s)
            else
              let s = frameh (take len (drop (mb_pos mb + (case start of None \<Rightarrow> 0 | Some i \<Rightarrow> i)) (mb_buf mb))) s;
                  ns = ns\<lparr>ns_rx := ns_rx ns + 1\<rparr>;
                  mb = mb\<lparr>mb_pos := mb_pos mb + netstring_buffer_size len\<rparr>
              in if mb_pos mb \<ge> mb_end mb then Some (True, ns\<lparr>ns_mb := None\<rparr>, s)
                 else ns_recv_loop M frameh ns mb s)"

text \<open>\<open>fresh\<close> is the result of \<open>mbuf_alloc(1024)\<close>.\<close>

definition netstring_recv_handler ::
  "mbuf_ops \<Rightarrow> (u8 list \<Rightarrow> 's \<Rightarrow> 's) \<Rightarrow> mbuf option \<Rightarrow> netstring \<Rightarrow> mbuf \<Rightarrow> 's \<Rightarrow>
   (bool \<times> err option \<times> netstring \<times> 's) option" where
  "netstring_recv_handler M frameh fresh ns mbx s =
     (case (case ns_mb ns of None \<Rightarrow> fresh | Some mb \<Rightarrow> Some mb) of
        None \<Rightarrow> Some (True, Some ENOMEM, ns, s)
      | Some mb \<Rightarrow>
          let pos = mb_pos mb;
              (err, mb) = m_write_mem M (mb\<lparr>mb_pos := mb_end mb\<rparr>) (m_rest M mbx);
              mb = mb\<lparr>mb_pos := pos\<rparr>
          in if err \<noteq> 0 then Some (True, Some err, ns\<lparr>ns_mb := Some mb\<rparr>, s)
             else map_option (\<lambda>(h, ns, s). (h, None, ns, s)) (ns_recv_loop M frameh ns mb s))"

subsection \<open>Digits\<close>

definition dec_val :: "nat \<Rightarrow> u8 list \<Rightarrow> nat" where
  "dec_val = foldl (\<lambda>a c. a * 10 + (unat c - 48))"

lemma dec_val_simps [simp]: "dec_val a [] = a" "dec_val a (c # cs) = dec_val (a * 10 + (unat c - 48)) cs"
  "dec_val a (cs @ ds) = dec_val (dec_val a cs) ds"
  by (simp_all add: dec_val_def)

lemma unat_digit: "n < 10 \<Longrightarrow> unat (48 + of_nat n :: u8) = 48 + n"
proof -
  assume "n < 10"
  then have "unat (of_nat (48 + n) :: u8) = 48 + n" by (simp only: unat_of_nat) simp
  then show ?thesis by simp
qed

lemma isdigit_digit: "n < 10 \<Longrightarrow> isdigit (48 + of_nat n)"
  by (simp add: isdigit_def word_le_nat_alt unat_digit)

lemma dec_str_props:
  "dec_str n \<noteq> [] \<and> list_all isdigit (dec_str n) \<and> dec_val 0 (dec_str n) = n"
proof (induction n rule: dec_str.induct)
  case (1 n)
  show ?case
  proof (cases "n < 10")
    case True
    then show ?thesis by (subst (1 2 3) dec_str.simps) (simp add: isdigit_digit unat_digit)
  next
    case False
    then show ?thesis using 1[OF False] unat_digit[of "n mod 10"] isdigit_digit[of "n mod 10"]
      by (subst (1 2 3) dec_str.simps) (simp add: list_all_iff)
  qed
qed

lemma dec_str_length: "n < 10 ^ Suc k \<Longrightarrow> length (dec_str n) \<le> Suc k"
proof (induction k arbitrary: n)
  case 0
  then show ?case by (simp add: dec_str.simps)
next
  case (Suc k)
  have "n div 10 < 10 ^ Suc k" using Suc.prems by (simp add: less_mult_imp_div_less)
  then show ?case using Suc.IH[of "n div 10"] by (subst dec_str.simps) simp
qed

lemma dec_str_no_leading_zero: "10 \<le> n \<Longrightarrow> hd (dec_str n) \<noteq> 48"
proof (induction n rule: dec_str.induct)
  case (1 n)
  have ne: "dec_str (n div 10) \<noteq> []" using dec_str_props by blast
  show ?case
  proof (cases "n div 10 < 10")
    case True
    have e: "dec_str n = [48 + of_nat (n div 10), 48 + of_nat (n mod 10)]"
      using 1(2) True by (simp add: dec_str.simps[of n] dec_str.simps[of "n div 10"])
    have "unat (48 + of_nat (n div 10) :: u8) = 48 + n div 10" by (rule unat_digit[OF True])
    moreover have "0 < n div 10" using 1(2) by (simp add: div_greater_zero_iff)
    ultimately have "unat (48 + of_nat (n div 10) :: u8) \<noteq> unat (48 :: u8)" by simp
    then show ?thesis by (metis e list.sel(1))
  next
    case False
    then have "hd (dec_str (n div 10)) \<noteq> 48" using 1 by simp
    then show ?thesis using 1(2) ne by (subst dec_str.simps) simp
  qed
qed

lemma ns_digits_run:
  assumes "list_all isdigit ds" "length xs + length ds \<le> 9" "\<not> isdigit c"
    "length xs + length ds < n"
  shows "ns_digits (xs @ ds @ c # rest) n (length xs) acc = Some (length xs + length ds, dec_val acc ds)"
  using assms
proof (induction ds arbitrary: xs acc)
  case Nil
  then show ?case by (simp add: ns_digits.simps)
next
  case (Cons d ds)
  have "ns_digits (xs @ (d # ds) @ c # rest) n (length xs) acc =
      ns_digits ((xs @ [d]) @ ds @ c # rest) n (length (xs @ [d])) (acc * 10 + (unat d - 48))"
    using Cons.prems by (subst ns_digits.simps) simp
  also have "\<dots> = Some (length (xs @ [d]) + length ds, dec_val (acc * 10 + (unat d - 48)) ds)"
    using Cons.prems by (intro Cons.IH) simp_all
  finally show ?case by simp
qed

lemma dec_val_single: "n < 10 \<Longrightarrow> dec_str n = [48 + of_nat n]"
  by (simp add: dec_str.simps)

lemma not_digit_colon [simp]: "\<not> isdigit 58"
  by (simp add: isdigit_def)

lemma dec_val_mono: "a \<le> dec_val a ds"
proof (induction ds arbitrary: a)
  case (Cons c cs)
  then show ?case using order.trans[OF _ Cons[of "a * 10 + (unat c - 48)"], of a] by simp
qed simp

lemma dec_str_val:
  "ds \<noteq> [] \<Longrightarrow> list_all isdigit ds \<Longrightarrow> hd ds \<noteq> 48 \<or> length ds = 1 \<Longrightarrow> dec_str (dec_val 0 ds) = ds"
proof (induction ds rule: rev_induct)
  case Nil
  then show ?case by simp
next
  case (snoc c ds)
  have c: "48 \<le> unat c" "unat c \<le> 57" using snoc.prems(2) by (simp_all add: isdigit_def word_le_nat_alt)
  then have bk: "48 + of_nat (unat c - 48) = c"
    by (simp add: of_nat_diff)
  show ?case
  proof (cases "ds = []")
    case True
    then show ?thesis using c bk by (simp add: dec_val_single)
  next
    case False
    then have h: "hd ds \<noteq> 48" and d: "list_all isdigit ds" using snoc.prems by auto
    have IH: "dec_str (dec_val 0 ds) = ds" by (rule snoc.IH) (use False h d in auto)
    obtain x xs where ds: "ds = x # xs" using False by (cases ds) auto
    have "unat x \<noteq> 48" using h ds word_unat_eq_iff[of x 48] by simp
    moreover have "48 \<le> unat x" using d ds by (simp add: isdigit_def word_le_nat_alt)
    ultimately have "1 \<le> dec_val 0 ds"
      using dec_val_mono[of "unat x - 48" xs] ds by simp
    then have "dec_str (dec_val 0 ds * 10 + k) = dec_str (dec_val 0 ds) @ [48 + of_nat k]" if "k < 10" for k
      using that by (subst dec_str.simps) simp
    from this[of "unat c - 48"]
    have "dec_str (dec_val 0 (ds @ [c])) = dec_str (dec_val 0 ds) @ [48 + of_nat (unat c - 48)]"
      using c by simp
    then show ?thesis using IH bk by simp
  qed
qed

subsection \<open>Encoded strings\<close>

definition ns_enc :: "u8 list \<Rightarrow> u8 list" where
  "ns_enc d = dec_str (length d) @ 58 # d @ [44]"

lemma netstring_encode_new_enc: "netstring_encode_new d = (ns_enc d, length (ns_enc d))"
  by (simp add: netstring_encode_new_def ns_enc_def netstring_num_len_def Let_def dec_val_single)

lemma netstring_buffer_size_enc: "netstring_buffer_size (length d) = length (ns_enc d)"
  by (simp add: netstring_buffer_size_def ns_enc_def netstring_num_len_def dec_val_single)

lemma dec_str_9: "n \<le> NETSTRING_MAX_SIZE \<Longrightarrow> length (dec_str n) \<le> 9"
  using dec_str_length[of n 8] by (simp add: NETSTRING_MAX_SIZE_def)

lemma ns_enc_head:
  obtains x xs where "dec_str n = x # xs" "isdigit x" "xs = [] \<or> x \<noteq> 48" "list_all isdigit xs"
proof -
  obtain x xs where d: "dec_str n = x # xs" using dec_str_props[of n] by (cases "dec_str n") auto
  have "xs = [] \<or> x \<noteq> 48"
    using dec_str_no_leading_zero[of n] d dec_val_single[of n] by (cases "10 \<le> n") auto
  then show ?thesis using d dec_str_props[of n] by (intro that[OF d]) auto
qed

lemma ns_enc_length: "3 \<le> length (ns_enc d)"
  using dec_str_props[of "length d"] by (cases "dec_str (length d)") (auto simp: ns_enc_def)

text \<open>The checks on the first two bytes pass for an encoded string and its prefixes.\<close>

lemma ns_enc_start:
  assumes "ns_enc d = p @ q" "3 \<le> length p"
  shows "\<not> ((p @ r) ! 0 = 48 \<and> isdigit ((p @ r) ! 1))" "isdigit ((p @ r) ! 0)"
proof -
  obtain x xs where d: "dec_str (length d) = x # xs" "isdigit x" "xs = [] \<or> x \<noteq> 48"
    by (rule ns_enc_head[of "length d"])
  obtain a b p' where p: "p = a # b # p'"
    using assms(2) by (cases p; cases "tl p") auto
  have "a = x" "b = (xs @ [58]) ! 0" using assms(1) d(1) p by (cases xs; simp add: ns_enc_def)+
  then have "(p @ r) ! 0 = x" "(p @ r) ! 1 = (xs @ [58]) ! 0" using p by simp_all
  then show "\<not> ((p @ r) ! 0 = 48 \<and> isdigit ((p @ r) ! 1))" "isdigit ((p @ r) ! 0)"
    using d by auto
qed

lemma netstring_read_enc:
  assumes "length d \<le> NETSTRING_MAX_SIZE" "length (ns_enc d) \<le> n"
  shows "netstring_read (ns_enc d @ rest) n = (0, Some (length (dec_str (length d)) + 1), length d)"
proof -
  let ?k = "length (dec_str (length d))"
  have n3: "\<not> n < 3" using ns_enc_length[of d] assms(2) by simp
  have len: "length (ns_enc d) = ?k + length d + 2" by (simp add: ns_enc_def)
  note st = ns_enc_start[of d "ns_enc d" "[]" rest, simplified, OF ns_enc_length]
  have "ns_digits ([] @ dec_str (length d) @ 58 # (d @ [44] @ rest)) n (length ([] :: u8 list)) 0 =
      Some (length ([] :: u8 list) + ?k, dec_val 0 (dec_str (length d)))"
    by (rule ns_digits_run) (use dec_str_props dec_str_9[OF assms(1)] assms(2) len in auto)
  then have dig: "ns_digits (ns_enc d @ rest) n 0 0 = Some (?k, length d)"
    using dec_str_props[of "length d"] by (simp add: ns_enc_def)
  have c: "(ns_enc d @ rest) ! ?k = 58" "(ns_enc d @ rest) ! (?k + 1 + length d) = 44"
    by (simp_all add: ns_enc_def nth_append)
  have "\<not> n \<le> ?k + length d + 1" using assms(2) len by simp
  then show ?thesis
    using n3 st dig c by (simp add: netstring_read_def Let_def)
qed

lemma ns_digits_stop:
  "list_all isdigit ds \<Longrightarrow> length xs + length ds \<le> 9 \<Longrightarrow>
   ns_digits (xs @ ds @ rest) (length xs + length ds) (length xs) acc = Some (length xs + length ds, dec_val acc ds)"
proof (induction ds arbitrary: xs acc)
  case Nil
  then show ?case by (simp add: ns_digits.simps)
next
  case (Cons d ds)
  have "ns_digits (xs @ (d # ds) @ rest) (length xs + length (d # ds)) (length xs) acc =
      ns_digits ((xs @ [d]) @ ds @ rest) (length (xs @ [d]) + length ds) (length (xs @ [d])) (acc * 10 + (unat d - 48))"
    using Cons.prems by (subst ns_digits.simps) simp
  also have "\<dots> = Some (length (xs @ [d]) + length ds, dec_val (acc * 10 + (unat d - 48)) ds)"
    using Cons.prems by (intro Cons.IH) simp_all
  finally show ?case by simp
qed

lemma netstring_read_prefix:
  assumes "length d \<le> NETSTRING_MAX_SIZE" "ns_enc d = p @ q" "q \<noteq> []" "3 \<le> length p"
  shows "netstring_read (p @ rest) (length p) = (NETSTRING_ERROR_TOO_SHORT, None, 0)"
proof -
  let ?ds = "dec_str (length d)"
  note st = ns_enc_start[OF assms(2,4), of rest]
  obtain i len where dig: "ns_digits (p @ rest) (length p) 0 0 = Some (i, len)" and
    short: "length p \<le> i + len + 1"
  proof (cases "length p \<le> length ?ds")
    case True
    have p: "p = take (length p) ?ds"
      using arg_cong[OF assms(2), of "take (length p)"] True by (simp add: ns_enc_def)
    have "list_all isdigit p" using dec_str_props[of "length d"] by (subst p) (auto simp: list_all_iff dest: in_set_takeD)
    moreover have "length p \<le> 9" using True dec_str_9[OF assms(1)] by simp
    ultimately have "ns_digits (p @ rest) (length p) 0 0 = Some (length p, dec_val 0 p)"
      using ns_digits_stop[of p "[]" rest 0] by simp
    then show ?thesis by (rule that) simp
  next
    case False
    have "?ds @ (58 # d @ [44]) = p @ q" using assms(2) by (simp add: ns_enc_def)
    then obtain t where t: "p = ?ds @ t" "58 # d @ [44] = t @ q"
      using False by (auto simp: append_eq_append_conv2)
    then obtain t' where p: "p = ?ds @ 58 # t'" using False by (cases t) auto
    have "ns_digits ([] @ ?ds @ 58 # (t' @ rest)) (length p) (length ([] :: u8 list)) 0 =
        Some (length ([] :: u8 list) + length ?ds, dec_val 0 ?ds)"
      by (rule ns_digits_run) (use dec_str_props dec_str_9[OF assms(1)] False in auto)
    then have "ns_digits (p @ rest) (length p) 0 0 = Some (length ?ds, length d)"
      using dec_str_props[of "length d"] p by simp
    moreover have "length p < length ?ds + length d + 2"
      using arg_cong[OF assms(2), of length] assms(3) by (cases q) (auto simp: ns_enc_def)
    ultimately show ?thesis by (intro that) auto
  qed
  show ?thesis
    using st dig short assms(4) unfolding netstring_read_def by auto
qed


lemma ns_digits_sound:
  "ns_digits buffer n i len = Some (j, l) \<Longrightarrow> i \<le> n \<Longrightarrow>
   i \<le> j \<and> j \<le> n \<and> (j < n \<longrightarrow> \<not> isdigit (buffer ! j)) \<and> (\<forall>k. i \<le> k \<and> k < j \<longrightarrow> isdigit (buffer ! k)) \<and>
   l = dec_val len (map ((!) buffer) [i..<j])"
proof (induction buffer n i len rule: ns_digits.induct)
  case (1 buffer n i len)
  show ?case
  proof (cases "i < n \<and> isdigit (buffer ! i)")
    case False
    then show ?thesis using "1.prems" by (subst (asm) ns_digits.simps) auto
  next
    case True
    then have nine: "\<not> 9 \<le> i" and rec: "ns_digits buffer n (i + 1) (len * 10 + (unat (buffer ! i) - 48)) = Some (j, l)"
      using "1.prems"(1) by (subst (asm) ns_digits.simps, simp split: if_splits)+
    have IH: "i + 1 \<le> j \<and> j \<le> n \<and> (j < n \<longrightarrow> \<not> isdigit (buffer ! j)) \<and>
        (\<forall>k. i + 1 \<le> k \<and> k < j \<longrightarrow> isdigit (buffer ! k)) \<and>
        l = dec_val (len * 10 + (unat (buffer ! i) - 48)) (map ((!) buffer) [i + 1..<j])"
      by (rule "1.IH"[OF True nine rec]) (use True in simp)
    have "isdigit (buffer ! k)" if "i \<le> k" "k < j" for k
      using IH True that by (cases "k = i") auto
    moreover have "map ((!) buffer) [i..<j] = buffer ! i # map ((!) buffer) [i + 1..<j]"
      using IH by (simp add: upt_conv_Cons)
    ultimately show ?thesis using IH by auto
  qed
qed

lemma map_nth_take: "n \<le> length xs \<Longrightarrow> map ((!) xs) [0..<n] = take n xs"
  by (rule nth_equalityI) simp_all

text \<open>
  C10: What \<open>netstring_encode_new\<close> writes, \<open>netstring_read\<close> reads back, whatever
  follows in the buffer; and a proper prefix of it is reported as too short.
\<close>

theorem netstring_roundtrip:
  assumes "length d \<le> NETSTRING_MAX_SIZE" "netstring_encode_new d = (ns, sz)"
  shows "sz = length ns \<and> sz = netstring_buffer_size (length d) \<and>
    (\<exists>i. netstring_read (ns @ rest) (sz + ext) = (0, Some i, length d) \<and>
         take (length d) (drop i (ns @ rest)) = d) \<and>
    (\<forall>p q. ns = p @ q \<longrightarrow> q \<noteq> [] \<longrightarrow> fst (netstring_read (p @ rest) (length p)) = NETSTRING_ERROR_TOO_SHORT)"
proof -
  have e: "ns = ns_enc d" "sz = length (ns_enc d)"
    using assms(2) by (auto simp: netstring_encode_new_enc)
  have "take (length d) (drop (length (dec_str (length d)) + 1) (ns @ rest)) = d"
    unfolding e(1) by (simp add: ns_enc_def)
  moreover have "netstring_read (ns @ rest) (sz + ext) = (0, Some (length (dec_str (length d)) + 1), length d)"
    unfolding e by (rule netstring_read_enc[OF assms(1)]) simp
  moreover have "fst (netstring_read (p @ rest) (length p)) = NETSTRING_ERROR_TOO_SHORT"
    if "ns = p @ q" "q \<noteq> []" for p q
    using netstring_read_prefix[OF assms(1) _ that(2), of p rest] that(1) e(1)
    by (cases "3 \<le> length p") (auto simp: netstring_read_def)
  ultimately show ?thesis using e by (auto simp: netstring_buffer_size_enc simp del: One_nat_def)
qed

theorem netstring_roundtrip_witness:
  "\<exists>i. netstring_read ([51, 58, 102, 111, 111, 44] @ [7 :: u8]) (6 + 1) = (0, Some i, length [102 :: u8, 111, 111]) \<and>
     take (length [102 :: u8, 111, 111]) (drop i ([51, 58, 102, 111, 111, 44] @ [7 :: u8])) = [102, 111, 111]"
proof -
  have "netstring_encode_new [102, 111, 111] = ([51, 58, 102, 111, 111, 44], 6)"
    by (simp add: netstring_encode_new_def netstring_num_len_def dec_str.simps)
  from netstring_roundtrip[OF _ this, of "[7]" 1] show ?thesis unfolding NETSTRING_MAX_SIZE_def by simp
qed

text \<open>
  \<open>netstring_read\<close> accepts only netstrings: what it accepts is, up to the
  comma, exactly the encoding of the string it returns, within the given length.
\<close>

theorem netstring_read_sound:
  assumes "netstring_read buffer n = (0, start, len)" "n \<le> length buffer"
  shows "\<exists>i. start = Some i \<and> i + len < n \<and>
    take (i + len + 1) buffer = fst (netstring_encode_new (take len (drop i buffer)))"
proof -
  have n3: "3 \<le> n" and lz: "\<not> (buffer ! 0 = 48 \<and> isdigit (buffer ! 1))" and d0: "isdigit (buffer ! 0)"
    using assms(1) by (auto simp: netstring_read_def netstring_errors split: if_splits)
  obtain j l where dig: "ns_digits buffer n 0 0 = Some (j, l)"
    using assms(1) n3 lz d0 by (cases "ns_digits buffer n 0 0") (auto simp: netstring_read_def netstring_errors)
  then have r: "j + l + 1 < n" "buffer ! j = 58" "buffer ! (j + 1 + l) = 44" "start = Some (j + 1)" "len = l"
    using assms(1) n3 lz d0
    by (auto simp: netstring_read_def netstring_errors Let_def split: if_splits)
  have jn: "j \<le> length buffer" using r(1) assms(2) by simp
  have s: "\<forall>k<j. isdigit (buffer ! k)" "l = dec_val 0 (take j buffer)"
    using ns_digits_sound[OF dig] map_nth_take[OF jn] by auto
  have j0: "0 < j" using ns_digits_sound[OF dig] d0 r(1) by (cases j) auto
  have "dec_str l = take j buffer"
    unfolding s(2)
  proof (rule dec_str_val)
    show "take j buffer \<noteq> []" using j0 jn by auto
    show "list_all isdigit (take j buffer)" using s(1) jn by (auto simp: list_all_length)
    show "hd (take j buffer) \<noteq> 48 \<or> length (take j buffer) = 1"
    proof (cases "j = 1")
      case False
      then have "isdigit (buffer ! 1)" using s(1) j0 by simp
      moreover have "hd (take j buffer) = buffer ! 0" using j0 jn by (cases buffer; cases j) auto
      ultimately show ?thesis using lz by simp
    qed (use jn in simp)
  qed
  moreover have "take (j + 1 + l + 1) buffer = take j buffer @ 58 # take l (drop (j + 1) buffer) @ [44]"
  proof -
    have "take (j + 1 + l + 1) buffer = take j buffer @ take (Suc (l + 1)) (drop j buffer)"
      by (simp add: take_add[symmetric])
    also have "drop j buffer = 58 # drop (j + 1) buffer"
      using r(1,2) assms(2) by (simp add: Cons_nth_drop_Suc[symmetric])
    also have "take (Suc (l + 1)) (58 # drop (j + 1) buffer) = 58 # take l (drop (j + 1) buffer) @ [44]"
      using r(1,3) assms(2) by (simp add: take_Suc_conv_app_nth)
    finally show ?thesis .
  qed
  moreover have "length (take l (drop (j + 1) buffer)) = l" using r(1) assms(2) by simp
  ultimately show ?thesis
    using r by (simp add: netstring_encode_new_enc ns_enc_def)
qed

theorem netstring_read_sound_witness:
  "\<exists>i. Some (2 :: nat) = Some i \<and> i + 1 < 4 \<and>
    take (i + 1 + 1) [49, 58, 97, 44] = fst (netstring_encode_new (take 1 (drop i [49, 58, 97, 44])))"
  by (rule netstring_read_sound[of _ _ "Some 2"])
    (simp_all add: netstring_read_def isdigit_def ns_digits.simps)

subsection \<open>The stream\<close>

definition ns_stream :: "u8 list list \<Rightarrow> u8 list" where
  "ns_stream ds = concat (map ns_enc ds)"

lemma ns_recv_loop_stream:
  "mbuf_laws M \<Longrightarrow> mb_wf mb \<Longrightarrow> ds \<noteq> [] \<Longrightarrow> list_all (\<lambda>d. length d \<le> NETSTRING_MAX_SIZE) ds \<Longrightarrow>
   mb_unread mb = ns_stream ds \<Longrightarrow>
   ns_recv_loop M frameh ns mb s =
     Some (True, ns\<lparr>ns_mb := None, ns_rx := ns_rx ns + of_nat (length ds)\<rparr>, fold frameh ds s)"
proof (induction ds arbitrary: mb ns s)
  case Nil
  then show ?case by simp
next
  case (Cons d ds)
  have u: "mb_unread mb = ns_enc d @ ns_stream ds" using Cons.prems(5) by (simp add: ns_stream_def)
  obtain spare where mem: "drop (mb_pos mb) (mb_buf mb) = ns_enc d @ ns_stream ds @ spare"
    using mb_unread_spare[OF Cons.prems(2)] u that by simp
  let ?n = "length (ns_enc d)"
  have left: "length (mb_unread mb) = mb_end mb - mb_pos mb" by (rule mb_unread_length[OF Cons.prems(2)])
  have fits: "?n \<le> mb_end mb - mb_pos mb" using left u by simp
  have gl: "\<not> m_get_left M mb < 3"
    using m_get_left_unread[OF Cons.prems(1,2)] u ns_enc_length[of d] by simp
  have len: "length d \<le> NETSTRING_MAX_SIZE" using Cons.prems(4) by simp
  have rd: "netstring_read (drop (mb_pos mb) (mb_buf mb)) (mb_end mb) =
      (0, Some (length (dec_str (length d)) + 1), length d)"
    unfolding mem by (rule netstring_read_enc[OF len]) (use fits in simp)
  have "drop (mb_pos mb + (length (dec_str (length d)) + 1)) (mb_buf mb) =
      drop (length (dec_str (length d)) + 1) (ns_enc d @ ns_stream ds @ spare)"
    by (simp only: mem[symmetric] drop_drop add.commute)
  then have frame: "take (length d) (drop (mb_pos mb + (length (dec_str (length d)) + 1)) (mb_buf mb)) = d"
    by (simp add: ns_enc_def)
  have size: "netstring_buffer_size (length d) = ?n" by (rule netstring_buffer_size_enc)
  let ?mb = "mb\<lparr>mb_pos := mb_pos mb + ?n\<rparr>" and ?ns = "ns\<lparr>ns_rx := ns_rx ns + 1\<rparr>"
  have step: "ns_recv_loop M frameh ns mb s =
      (if mb_pos mb + ?n \<ge> mb_end mb then Some (True, ?ns\<lparr>ns_mb := None\<rparr>, frameh d s)
       else ns_recv_loop M frameh ?ns ?mb (frameh d s))"
    using gl rd frame size by (subst ns_recv_loop.simps) (simp add: Let_def)
  have n: "?n \<le> length (mb_unread mb)" by (simp add: u)
  have wf': "mb_wf ?mb" using fits Cons.prems(2) by (auto simp: mb_wf_def)
  have u': "mb_unread ?mb = ns_stream ds" by (simp add: mb_unread_drop u)
  show ?case
  proof (cases "ds = []")
    case True
    then have "mb_end mb \<le> mb_pos mb + ?n" using left u by (simp add: ns_stream_def)
    then show ?thesis using step True by simp
  next
    case False
    then have pos: "0 < length (ns_stream ds)"
      using ns_enc_length[of "hd ds"] by (cases ds) (auto simp: ns_stream_def)
    have "?n + length (ns_stream ds) = mb_end mb - mb_pos mb" using left u by simp
    then have "\<not> mb_end mb \<le> mb_pos mb + ?n" using pos by linarith
    then show ?thesis
      using step Cons.IH[OF Cons.prems(1) wf' False _ u', of ?ns "frameh d s"] Cons.prems(4)
      by (simp add: add.assoc)
  qed
qed

text \<open>
  C9: Receiving: when nothing of the buffered bytes has been consumed and they
  and the new segment together are netstrings, every frame is delivered, in
  order, and the buffer is released.
\<close>

theorem netstring_recv_frames:
  assumes "mbuf_laws M" "mbuf_no_oom M" "mb_wf mbx"
    and buf: "case ns_mb ns of None \<Rightarrow> fresh = Some mb | Some m \<Rightarrow> m = mb"
    and start: "mb_wf mb" "mb_pos mb = 0" "mb_data mb @ mb_unread mbx = ns_stream ds"
    and frames: "ds \<noteq> []" "list_all (\<lambda>d. length d \<le> NETSTRING_MAX_SIZE) ds"
  shows "netstring_recv_handler M frameh fresh ns mbx s =
    Some (True, None, ns\<lparr>ns_mb := None, ns_rx := ns_rx ns + of_nat (length ds)\<rparr>, fold frameh ds s)"
proof -
  let ?m = "mb\<lparr>mb_pos := mb_end mb\<rparr>"
  have at: "mb_at_end ?m" using start(1) by (simp add: mb_at_end_def mb_wf_def)
  obtain m' where w: "m_write_mem M ?m (mb_unread mbx) = (0, m')" "mb_at_end m'"
      "mb_data m' = mb_data ?m @ mb_unread mbx" "mb_end m' = mb_end ?m + length (mb_unread mbx)"
    using assms(1,2) at by (rule m_write_mem_append)
  let ?m0 = "m'\<lparr>mb_pos := 0\<rparr>"
  have wf0: "mb_wf ?m0" using w(2) by (simp add: mb_at_end_def mb_wf_def)
  have "mb_unread ?m0 = mb_data m'" by (simp add: mb_unread_def mb_data_def)
  also have "\<dots> = ns_stream ds" using w(3) start(3) by (simp add: mb_data_def)
  finally have u: "mb_unread ?m0 = ns_stream ds" .
  have sel: "(case ns_mb ns of None \<Rightarrow> fresh | Some m \<Rightarrow> Some m) = Some mb"
    using buf by (auto split: option.splits)
  have rest: "m_rest M mbx = mb_unread mbx" using assms(1,3) by (rule m_rest_unread)
  show ?thesis
    using ns_recv_loop_stream[OF assms(1) wf0 frames u, of frameh ns s] w(1) start(2)
    by (simp add: netstring_recv_handler_def sel rest Let_def)
qed

theorem netstring_recv_frames_witness:
  "netstring_recv_handler ref_mbuf (\<lambda>d l. l @ [d]) None
      \<lparr>ns_mb = Some (mbuf_of [50, 58, 104]), ns_tx = 0, ns_rx = 5\<rparr> (mbuf_of [105, 44, 48, 58, 44]) [] =
    Some (True, None, \<lparr>ns_mb = None, ns_tx = 0, ns_rx = 7\<rparr>, [[104, 105], []])"
  using netstring_recv_frames[OF ref_mbuf_laws ref_mbuf_no_oom, where mb = "mbuf_of [50, 58, 104]"
      and mbx = "mbuf_of [105, 44, 48, 58, 44]" and ds = "[[104, 105], []]" and fresh = None
      and ns = "\<lparr>ns_mb = Some (mbuf_of [50, 58, 104]), ns_tx = 0, ns_rx = 5\<rparr>"
      and frameh = "\<lambda>d l. l @ [d]" and s = "[]"]
  by (simp add: ns_stream_def ns_enc_def dec_str.simps NETSTRING_MAX_SIZE_def) (simp add: mbuf_of_def)

text \<open>
  A netstring that is cut by the segment border after a complete one is
  lost: \<open>netstring_read\<close> is told that \<open>end\<close> bytes follow the position, checks
  for the comma behind the received bytes, and the buffer is dropped.
\<close>

theorem netstring_recv_loses_cut_frame:
  assumes "mbuf_laws M" "length x < 10" "length d < 10"
    and "whole = ns_enc x" "ns_enc d = part @ missing" "missing \<noteq> []" "3 \<le> length part"
    and mem: "mb = \<lparr>mb_buf = whole @ part @ spare, mb_pos = 0, mb_end = length (whole @ part)\<rparr>"
    and fits: "length d + 2 < length whole + length part"
    and comma: "(part @ spare) ! (length d + 2) \<noteq> 44"
  shows "ns_recv_loop M frameh ns mb s =
    Some (False, ns\<lparr>ns_mb := None, ns_rx := ns_rx ns + 1\<rparr>, frameh x s)"
proof -
  let ?n = "length whole"
  have x: "length x \<le> NETSTRING_MAX_SIZE" using assms(2) by (simp add: NETSTRING_MAX_SIZE_def)
  have wf: "mb_wf mb" and u: "mb_unread mb = whole @ part"
    by (simp_all add: mem mb_wf_def mb_unread_def mb_data_def)
  have "\<not> m_get_left M mb < 3"
    using m_get_left_unread[OF assms(1) wf] u assms(7) by simp
  moreover have "netstring_read (drop (mb_pos mb) (mb_buf mb)) (mb_end mb) = (0, Some (length (dec_str (length x)) + 1), length x)"
    unfolding mem assms(4) mbuf.simps drop_0 by (rule netstring_read_enc[OF x]) simp
  moreover have "take (length x) (drop (length (dec_str (length x)) + 1) (mb_buf mb)) = x"
    by (simp add: mem assms(4) ns_enc_def)
  moreover have "netstring_buffer_size (length x) = ?n" unfolding assms(4) by (rule netstring_buffer_size_enc)
  moreover have "mb_pos mb = 0" "\<not> mb_end mb \<le> ?n" using assms(7) by (auto simp: mem)
  ultimately have step: "ns_recv_loop M frameh ns mb s =
      ns_recv_loop M frameh (ns\<lparr>ns_rx := ns_rx ns + 1\<rparr>) (mb\<lparr>mb_pos := ?n\<rparr>) (frameh x s)"
    by (subst ns_recv_loop.simps) (simp add: Let_def)
  let ?m = "mb\<lparr>mb_pos := ?n\<rparr>"
  have wf': "mb_wf ?m" and u': "mb_unread ?m = part"
    by (simp_all add: mem mb_wf_def mb_unread_def mb_data_def)
  have left: "\<not> m_get_left M ?m < 3" using m_get_left_unread[OF assms(1) wf'] u' assms(7) by simp
  obtain c r where p: "part = (48 + of_nat (length d)) # 58 # c # r"
    using assms(5,7) dec_val_single[OF assms(3)]
    by (cases part; cases "tl part"; cases "tl (tl part)") (auto simp: ns_enc_def)
  have dig: "isdigit (48 + of_nat (length d))" by (rule isdigit_digit[OF assms(3)])
  have "ns_digits (part @ spare) (mb_end mb) 0 0 = Some (1, length d)"
    using dig unat_digit[OF assms(3)] assms(7) mem
    by (subst ns_digits.simps, subst ns_digits.simps) (simp add: p)
  then have "netstring_read (part @ spare) (mb_end mb) = (NETSTRING_ERROR_NO_COMMA, None, 0)"
    using dig fits comma assms(7) mem by (simp add: netstring_read_def p Let_def)
  moreover have "drop (mb_pos ?m) (mb_buf ?m) = part @ spare" by (simp add: mem)
  ultimately show ?thesis
    using left unfolding step by (subst ns_recv_loop.simps) (simp add: mem netstring_errors)
qed

theorem netstring_recv_loses_cut_frame_witness:
  "ns_recv_loop ref_mbuf (\<lambda>d l. l @ [d]) \<lparr>ns_mb = None, ns_tx = 0, ns_rx = 0\<rparr>
     \<lparr>mb_buf = [49, 58, 97, 44] @ [50, 58, 98] @ replicate 9 0, mb_pos = 0, mb_end = length ([49, 58, 97, 44] @ [50, 58, 98])\<rparr> [] =
   Some (False, \<lparr>ns_mb = None, ns_tx = 0, ns_rx = 0\<rparr>\<lparr>ns_mb := None, ns_rx := 0 + 1\<rparr>, [] @ [[97]])"
  using netstring_recv_loses_cut_frame[OF ref_mbuf_laws, of "[97]" "[98, 98]" "[49, 58, 97, 44]" "[50, 58, 98]" "[98, 44]" _ "replicate 9 0"
      "\<lambda>d l. l @ [d]" "\<lparr>ns_mb = None, ns_tx = 0, ns_rx = 0\<rparr>" "[]"]
  by (simp add: ns_enc_def dec_str.simps)

text \<open>
  Sending: behind the header space a message becomes its netstring, when
  the buffer has room for the comma; an empty message does not: the three
  bytes sent are those that happen to be behind the header space.
\<close>

theorem netstring_send_encodes:
  assumes "mbuf_laws M" "mbuf_no_oom M" "mb_wf mb" "mb_pos mb = NETSTRING_HEADER_SIZE"
    and "length (mb_unread mb) \<le> NETSTRING_MAX_SIZE" "mb_end mb + 3 \<le> length (mb_buf mb)"
    and "netstring_send_handler M ns mb = (handled, err, mb', ns')"
  shows "\<not> handled \<and> err = None \<and>
    (mb_unread mb \<noteq> [] \<longrightarrow> mb_unread mb' = fst (netstring_encode_new (mb_unread mb))) \<and>
    (mb_unread mb = [] \<longrightarrow> mb_unread mb' = take 3 (drop NETSTRING_HEADER_SIZE (mb_buf mb)))"
proof (cases "mb_unread mb = []")
  case True
  have left: "m_get_left M mb = 0" using m_get_left_unread[OF assms(1,3)] True by simp
  have e: "mb_end mb = 10"
    using True mb_unread_length[OF assms(3)] assms(3,4) by (simp add: mb_wf_def NETSTRING_HEADER_SIZE_def)
  have "mb' = mb\<lparr>mb_buf := (mb_buf mb)[0 := 48, 1 := 58, 2 := 44], mb_end := mb_end mb + 3\<rparr>"
    and "\<not> handled" "err = None"
    using assms(7) left assms(4) by (auto simp: netstring_send_handler_def)
  then show ?thesis
    using True assms(4) e by (simp add: mb_unread_def mb_data_def NETSTRING_HEADER_SIZE_def drop_take)
next
  case False
  let ?pl = "mb_unread mb" and ?ds = "dec_str (length (mb_unread mb))" and ?e = "mb_end mb"
  let ?p = "NETSTRING_HEADER_SIZE - (length ?ds + 1)"
  have left: "m_get_left M mb = length ?pl" "m_get_left M mb \<noteq> 0" "\<not> NETSTRING_MAX_SIZE < m_get_left M mb"
    using m_get_left_unread[OF assms(1,3)] False assms(5) by simp_all
  have k: "0 < length ?ds" "length ?ds \<le> 9" using dec_str_props dec_str_9[OF assms(5)] by auto
  have e10: "10 \<le> ?e" using assms(3,4) by (simp add: mb_wf_def NETSTRING_HEADER_SIZE_def)
  have p: "?p + length ?ds = 9" "?p \<le> ?e" using k e10 by (simp_all add: NETSTRING_HEADER_SIZE_def)
  let ?m = "mb\<lparr>mb_pos := ?p\<rparr>"
  have wf: "mb_wf ?m" using assms(3) p(2) by (simp add: mb_wf_def)
  obtain m1 where m1: "m_write_mem M ?m ?ds = (0, m1)" and w: "mb_written ?m ?ds m1"
    using assms(1,2) wf by (rule m_write_mem_ok)
  have dlen: "length (mb_data mb) = ?e" by (rule mb_data_length[OF assms(3)])
  have dat: "mb_data m1 = take ?p (mb_data mb) @ ?ds @ drop 9 (mb_data mb)" and wf1: "mb_wf m1"
    and big: "length (mb_buf mb) \<le> length (mb_buf m1)"
    using w p(1) by (simp_all add: mb_written_def mb_data_def)
  have e1: "mb_end m1 = ?e"
    using mb_data_length[OF wf1] dlen dat p e10 by (simp add: min_def)
  have b1: "take ?e (mb_buf m1) = take ?p (mb_data mb) @ ?ds @ drop 9 (mb_data mb)"
    using dat by (simp add: mb_data_def e1)
  have pl: "drop 9 (mb_data mb) = mb_data mb ! 9 # ?pl"
    using e10 dlen assms(4) by (simp add: mb_unread_def NETSTRING_HEADER_SIZE_def Cons_nth_drop_Suc[symmetric])
  let ?b = "(mb_buf m1)[9 := 58, ?e := 44]"
  have res: "mb' = m1\<lparr>mb_pos := ?p, mb_buf := ?b, mb_end := ?e + 1\<rparr>" "\<not> handled" "err = None"
    using assms(7) left assms(4) m1 e1 p(1) by (auto simp: netstring_send_handler_def Let_def)
  have lt: "?e < length (mb_buf m1)" using assms(6) big by simp
  have "take (?e + 1) ?b = take ?e ?b @ [44]" using lt by (simp add: take_Suc_conv_app_nth)
  also have "take ?e ?b = (take ?e (mb_buf m1))[9 := 58]" by (simp add: take_update_swap list_update_beyond)
  also have "\<dots> = take ?p (mb_data mb) @ ?ds @ 58 # ?pl"
  proof -
    have l: "length (take ?p (mb_data mb) @ ?ds) = 9" using p dlen by simp
    have "((take ?p (mb_data mb) @ ?ds) @ mb_data mb ! 9 # ?pl)[9 := 58] = (take ?p (mb_data mb) @ ?ds) @ 58 # ?pl"
      using list_update_length[of "take ?p (mb_data mb) @ ?ds" "mb_data mb ! 9" ?pl 58] unfolding l .
    then show ?thesis by (simp add: b1 pl)
  qed
  finally have "take (?e + 1) ?b = take ?p (mb_data mb) @ ?ds @ 58 # ?pl @ [44]" by simp
  then have "mb_unread mb' = ns_enc ?pl"
    using p(2) dlen by (simp add: res(1) mb_unread_def mb_data_def ns_enc_def)
  then show ?thesis using False res(2,3) by (simp add: netstring_encode_new_enc)
qed

theorem netstring_send_encodes_witness:
  "mb_unread (fst (snd (snd (netstring_send_handler ref_mbuf \<lparr>ns_mb = None, ns_tx = 0, ns_rx = 0\<rparr>
      \<lparr>mb_buf = replicate 10 7 @ [104, 105] @ replicate 8 9, mb_pos = 10, mb_end = 12\<rparr>)))) =
    fst (netstring_encode_new [104, 105]) \<and>
   mb_unread (fst (snd (snd (netstring_send_handler ref_mbuf \<lparr>ns_mb = None, ns_tx = 0, ns_rx = 0\<rparr>
      \<lparr>mb_buf = replicate 10 7 @ replicate 10 9, mb_pos = 10, mb_end = 10\<rparr>)))) = [9, 9, 9]"
proof -
  let ?ns = "\<lparr>ns_mb = None, ns_tx = 0, ns_rx = 0\<rparr> :: netstring"
  let ?a = "\<lparr>mb_buf = replicate 10 7 @ [104, 105] @ replicate 8 9, mb_pos = 10, mb_end = 12\<rparr> :: mbuf"
  let ?b = "\<lparr>mb_buf = replicate 10 7 @ replicate 10 9, mb_pos = 10, mb_end = 10\<rparr> :: mbuf"
  have a: "mb_wf ?a" "mb_unread ?a = [104, 105]" and b: "mb_wf ?b" "mb_unread ?b = []"
    by (simp_all add: mb_wf_def mb_unread_def mb_data_def)
  obtain h e m n where ra: "netstring_send_handler ref_mbuf ?ns ?a = (h, e, m, n)" by (metis prod.exhaust)
  obtain h' e' m' n' where rb: "netstring_send_handler ref_mbuf ?ns ?b = (h', e', m', n')" by (metis prod.exhaust)
  have "mb_unread m = fst (netstring_encode_new [104, 105])"
    using netstring_send_encodes[OF ref_mbuf_laws ref_mbuf_no_oom a(1) _ _ _ ra] a(2)
    by (simp add: NETSTRING_HEADER_SIZE_def NETSTRING_MAX_SIZE_def)
  moreover have "mb_unread m' = take 3 (drop 10 (replicate 10 7 @ replicate 10 9))"
    using netstring_send_encodes[OF ref_mbuf_laws ref_mbuf_no_oom b(1) _ _ _ rb] b(2)
    by (simp add: NETSTRING_HEADER_SIZE_def NETSTRING_MAX_SIZE_def)
  then have "mb_unread m' = [9, 9, 9]" by (simp add: numeral_eq_Suc)
  ultimately show ?thesis using ra rb by simp
qed


end
