(* ===== verification/Cmd.thy ===== *)
theory Cmd
  imports Prelude
begin

text \<open>
  The command interface, \<open>src/cmd.c\<close>: the registry of command blocks
  (\<open>struct commands\<close>, a list of \<open>struct cmds\<close>), the look-up by key and by long
  name, the line editor behind commands that take a parameter (\<open>struct cmd_ctx\<close>)
  and the help printer.

  A command array is a list together with the address of the array, since a block
  is found again by comparing the pointers; address 0 is NULL.  The print function,
  the formatter, the regular expression matcher, the string comparison and the
  memory buffer of libre are the record \<open>cmd_env\<close>, an argument of the operations.
  Printing and the command handlers act on an abstract world \<open>'w\<close>.
\<close>

subsection \<open>Data\<close>

definition KEYCODE_NONE :: char where "KEYCODE_NONE = CHR 0x00"
definition KEYCODE_REL :: char where "KEYCODE_REL = CHR 0x04"
definition KEYCODE_ESC :: char where "KEYCODE_ESC = CHR 0x1b"
definition KEYCODE_DEL :: char where "KEYCODE_DEL = CHR 0x7f"
definition LONG_PREFIX :: char where "LONG_PREFIX = CHR ''/''"
definition CMD_PRM :: int where "CMD_PRM = 1"

lemmas keycode_defs = KEYCODE_NONE_def KEYCODE_REL_def KEYCODE_ESC_def KEYCODE_DEL_def LONG_PREFIX_def

abbreviation (input) NL :: char where "NL \<equiv> CHR 0x0a"
abbreviation (input) BS :: char where "BS \<equiv> CHR 0x08"
abbreviation (input) TAB :: char where "TAB \<equiv> CHR 0x09"

record 'd cmd_arg =
  ca_key :: char
  ca_prm :: "string option"
  ca_data :: 'd

record ('d, 'w) cmd =
  c_name :: "string option"
  c_key :: char
  c_flags :: int
  c_desc :: "string option"
  c_h :: "('d cmd_arg \<Rightarrow> 'w \<Rightarrow> err \<times> 'w) option"

record ('d, 'w) cmds =
  cb_addr :: nat
  cb_cmdv :: "('d, 'w) cmd list"

type_synonym ('d, 'w) commands = "('d, 'w) cmds list"

record ('d, 'w) cmd_ctx =
  cx_mb :: mbuf
  cx_cmd :: "('d, 'w) cmd option"
  cx_is_long :: bool

record ('d, 'w) cmd_env =
  ce_mbuf :: mbuf_ops
  ce_pr :: "string \<Rightarrow> fmt_arg list \<Rightarrow> 'w \<Rightarrow> err \<times> 'w"
  ce_snprintf :: "nat \<Rightarrow> string \<Rightarrow> fmt_arg list \<Rightarrow> int \<times> string"
  ce_strdup :: "mbuf \<Rightarrow> nat \<Rightarrow> err \<times> string"
  ce_regex :: "string \<Rightarrow> err \<times> string \<times> string"
  ce_pl_strdup :: "string \<Rightarrow> err \<times> string"
  ce_casecmp :: "string option \<Rightarrow> string option \<Rightarrow> int"
  ce_list_sort :: "(('d, 'w) cmd \<Rightarrow> ('d, 'w) cmd \<Rightarrow> bool) \<Rightarrow> ('d, 'w) cmd list \<Rightarrow> ('d, 'w) cmd list"
  ce_zalloc :: bool
  ce_mbuf_alloc :: "mbuf option"

definition chars_of :: "u8 list \<Rightarrow> string" where
  "chars_of bs = map (\<lambda>b. char_of (unat b)) bs"

definition bytes_of :: "string \<Rightarrow> u8 list" where
  "bytes_of s = map (\<lambda>c. of_nat (of_char c)) s"

definition isdigit_c :: "char \<Rightarrow> bool" where
  "isdigit_c c = (48 \<le> (of_char c :: nat) \<and> (of_char c :: nat) \<le> 57)"

subsection \<open>The registry\<close>

definition cmds_find :: "('d, 'w) commands option \<Rightarrow> nat \<Rightarrow> ('d, 'w) cmds option" where
  "cmds_find commands cmdv =
     (case commands of
        None \<Rightarrow> None
      | Some cmdl \<Rightarrow> if cmdv = 0 then None else List.find (\<lambda>cmds. cb_addr cmds = cmdv) cmdl)"

text \<open>The two searches run over the blocks from the tail, over each array from the front.\<close>

definition cmd_find_by_key :: "('d, 'w) commands option \<Rightarrow> char \<Rightarrow> ('d, 'w) cmd option" where
  "cmd_find_by_key commands key =
     (case commands of
        None \<Rightarrow> None
      | Some cmdl \<Rightarrow>
          List.find (\<lambda>cmd. c_key cmd = key \<and> c_h cmd \<noteq> None) (concat (map cb_cmdv (rev cmdl))))"

definition cmd_find_long ::
  "('d, 'w) cmd_env \<Rightarrow> ('d, 'w) commands option \<Rightarrow> string option \<Rightarrow> ('d, 'w) cmd option" where
  "cmd_find_long E commands name =
     (case commands of
        None \<Rightarrow> None
      | Some cmdl \<Rightarrow>
          if name = None then None
          else List.find (\<lambda>cmd. ce_casecmp E name (c_name cmd) = 0 \<and> c_h cmd \<noteq> None)
                 (concat (map cb_cmdv (rev cmdl))))"

text \<open>The checks \<open>cmd_register\<close> makes on one command of the new array; 0 if it may be added.\<close>

definition cmd_check :: "('d, 'w) cmd_env \<Rightarrow> ('d, 'w) commands \<Rightarrow> ('d, 'w) cmd \<Rightarrow> err" where
  "cmd_check E commands cmd =
     (if c_key cmd \<noteq> KEYCODE_NONE \<and> cmd_find_by_key (Some commands) (c_key cmd) \<noteq> None then EALREADY
      else if c_key cmd = LONG_PREFIX then EINVAL
      else if str_isset (c_name cmd) \<and> cmd_find_long E (Some commands) (c_name cmd) \<noteq> None then EINVAL
      else 0)"

fun cmd_check_all :: "('d, 'w) cmd_env \<Rightarrow> ('d, 'w) commands \<Rightarrow> ('d, 'w) cmd list \<Rightarrow> err" where
  "cmd_check_all E commands [] = 0"
| "cmd_check_all E commands (cmd # cmdv) =
     (let err = cmd_check E commands cmd
      in if err \<noteq> 0 then err else cmd_check_all E commands cmdv)"

definition cmd_register ::
  "('d, 'w) cmd_env \<Rightarrow> ('d, 'w) commands option \<Rightarrow> nat \<Rightarrow> ('d, 'w) cmd list
     \<Rightarrow> err \<times> ('d, 'w) commands option" where
  "cmd_register E commands addr cmdv =
     (case commands of
        None \<Rightarrow> (EINVAL, None)
      | Some cmdl \<Rightarrow>
          if addr = 0 \<or> cmdv = [] then (EINVAL, commands)
          else if cmds_find commands addr \<noteq> None then (EALREADY, commands)
          else
            let err = cmd_check_all E cmdl cmdv
            in if err \<noteq> 0 then (err, commands)
               else if \<not> ce_zalloc E then (ENOMEM, commands)
               else (0, Some (cmdl @ [\<lparr>cb_addr = addr, cb_cmdv = cmdv\<rparr>])))"

text \<open>The destructor of a block unlinks it from the list: the first block at that address goes.\<close>

fun cmds_unlink :: "nat \<Rightarrow> ('d, 'w) commands \<Rightarrow> ('d, 'w) commands" where
  "cmds_unlink addr [] = []"
| "cmds_unlink addr (b # bs) = (if cb_addr b = addr then bs else b # cmds_unlink addr bs)"

definition cmd_unregister :: "('d, 'w) commands option \<Rightarrow> nat \<Rightarrow> ('d, 'w) commands option" where
  "cmd_unregister commands addr =
     (case cmds_find commands addr of
        None \<Rightarrow> commands
      | Some cmds \<Rightarrow> map_option (cmds_unlink (cb_addr cmds)) commands)"

definition cmd_init :: "('d, 'w) cmd_env \<Rightarrow> bool \<Rightarrow> err \<times> ('d, 'w) commands option" where
  "cmd_init E nonnull =
     (if \<not> nonnull then (EINVAL, None) else if \<not> ce_zalloc E then (ENOMEM, None) else (0, Some []))"

subsection \<open>Printing the list of commands\<close>

definition cmd_name :: "('d, 'w) cmd \<Rightarrow> string" where
  "cmd_name cmd =
     (if c_key cmd = CHR '' '' then ''SPACE''
      else if c_key cmd = NL then ''ENTER''
      else if c_key cmd = KEYCODE_ESC then ''ESC''
      else (if c_key cmd = KEYCODE_NONE then [] else [c_key cmd]) @
           (if c_flags cmd AND CMD_PRM \<noteq> 0 then '' ..'' else []))"

text \<open>\<open>str_len(name) \<ge> len && 0 == memcmp(name, str, len)\<close>\<close>

definition starts_with :: "string \<Rightarrow> ('d, 'w) cmd \<Rightarrow> bool" where
  "starts_with str cmd = (length (str_of (c_name cmd)) \<ge> length str \<and>
     take (length str) (str_of (c_name cmd)) = str)"

text \<open>The number of matches, and the last match in the order of registration.\<close>

definition get_match_long :: "('d, 'w) commands option \<Rightarrow> string \<Rightarrow> nat \<times> ('d, 'w) cmd option" where
  "get_match_long commands str =
     (case commands of
        None \<Rightarrow> (0, None)
      | Some cmdl \<Rightarrow>
          let ms = filter (\<lambda>cmd. str_isset (c_name cmd) \<and> starts_with str cmd) (concat (map cb_cmdv cmdl))
          in (length ms, if ms = [] then None else Some (last ms)))"

definition sort_handler :: "('d, 'w) cmd_env \<Rightarrow> bool \<Rightarrow> ('d, 'w) cmd \<Rightarrow> ('d, 'w) cmd \<Rightarrow> bool" where
  "sort_handler E print_long cmd1 cmd2 =
     (if print_long
      then ce_casecmp E (Some (str_of (c_name cmd2))) (Some (str_of (c_name cmd1))) \<ge> 0
      else tolower_c (c_key cmd2) \<ge> tolower_c (c_key cmd1))"

text \<open>The commands that are listed; a NULL or empty \<open>match\<close> selects all of them.\<close>

definition cmd_listed :: "bool \<Rightarrow> bool \<Rightarrow> string option \<Rightarrow> ('d, 'w) cmd \<Rightarrow> bool" where
  "cmd_listed print_long print_short match cmd =
     ((str_isset match \<longrightarrow> starts_with (str_of match) cmd) \<and> str_isset (c_desc cmd) \<and>
      (print_short \<and> \<not> print_long \<longrightarrow> c_key cmd \<noteq> KEYCODE_NONE))"

fun cmd_print_lines ::
  "('d, 'w) cmd_env \<Rightarrow> string \<Rightarrow> bool \<Rightarrow> bool \<Rightarrow> ('d, 'w) cmd list \<Rightarrow> err \<Rightarrow> 'w \<Rightarrow> err \<times> 'w" where
  "cmd_print_lines E fmt print_long print_short [] err w = (err, w)"
| "cmd_print_lines E fmt print_long print_short (cmd # cs) err w =
     (let namep = (if print_long \<and> str_isset (c_name cmd)
                   then snd (ce_snprintf E 64 ''%c%s%s''
                          [FChr LONG_PREFIX, FStr (str_of (c_name cmd)),
                           FStr (if c_flags cmd AND CMD_PRM \<noteq> 0 then '' ..'' else [])])
                   else []);
          (e, w) = ce_pr E fmt
             [FStr namep, FStr (if print_short \<and> c_key cmd \<noteq> KEYCODE_NONE then cmd_name cmd else []),
              FStr (str_of (c_desc cmd))] w
      in cmd_print_lines E fmt print_long print_short cs (err OR e) w)"

definition cmd_print_all ::
  "('d, 'w) cmd_env \<Rightarrow> ('d, 'w) commands option \<Rightarrow> bool \<Rightarrow> bool \<Rightarrow> string option \<Rightarrow> 'w \<Rightarrow> err \<times> 'w" where
  "cmd_print_all E commands print_long print_short match w =
     (case commands of
        None \<Rightarrow> (EINVAL, w)
      | Some cmdl \<Rightarrow>
          let cs = filter (cmd_listed print_long print_short match) (concat (map cb_cmdv cmdl))
          in if cs \<noteq> [] \<and> \<not> ce_zalloc E then (ENOMEM, w)
             else
               let width_long = fold (\<lambda>cmd. max (1 + length (str_of (c_name cmd)) + 3)) cs 1;
                   sortedl = ce_list_sort E (sort_handler E print_long) cs;
                   (n, fmt) = ce_snprintf E 64 (''  %%-%zus    %%-%zus    %%s'' @ [NL])
                                [FNum width_long, FNum 5]
               in if n < 0 then (ENOMEM, w)
                  else
                    let (err, w) = cmd_print_lines E fmt print_long print_short sortedl 0 w;
                        (e, w) = ce_pr E [NL] [] w
                    in (err OR e, w))"

definition cmd_print :: "('d, 'w) cmd_env \<Rightarrow> bool \<Rightarrow> ('d, 'w) commands option \<Rightarrow> 'w \<Rightarrow> err \<times> 'w" where
  "cmd_print E pf commands w =
     (if \<not> pf then (EINVAL, w)
      else
        let (e1, w) = ce_pr E (''--- Help ---'' @ [NL]) [] w;
            (e2, w) = cmd_print_all E commands True True None w;
            (e3, w) = ce_pr E [NL] [] w
        in (e1 OR e2 OR e3, w))"

subsection \<open>The line editor\<close>

definition line_of :: "mbuf \<Rightarrow> string" where
  "line_of mb = chars_of (take (mb_end mb) (mb_buf mb))"

definition ctx_alloc ::
  "('d, 'w) cmd_env \<Rightarrow> ('d, 'w) cmd option \<Rightarrow> err \<times> ('d, 'w) cmd_ctx option" where
  "ctx_alloc E cmd =
     (if \<not> ce_zalloc E then (ENOMEM, None)
      else case ce_mbuf_alloc E of
             None \<Rightarrow> (ENOMEM, None)
           | Some mb \<Rightarrow> (0, Some \<lparr>cx_mb = mb, cx_cmd = cmd, cx_is_long = False\<rparr>))"

text \<open>TAB in a long command: the matches are listed, a single match replaces the line.\<close>

definition tab_complete ::
  "('d, 'w) cmd_env \<Rightarrow> ('d, 'w) commands option \<Rightarrow> mbuf \<Rightarrow> 'w \<Rightarrow> bool \<times> err \<times> mbuf \<times> 'w" where
  "tab_complete E commands mb w =
     (let (err, w) = ce_pr E (''TAB completion for \"%b\":'' @ [NL]) [FBuf (line_of mb)] w
      in if err \<noteq> 0 then (True, err, mb, w)
         else
           let (err, w) = cmd_print_all E commands True False (Some (line_of mb)) w
           in if err \<noteq> 0 then (True, err, mb, w)
              else
                case get_match_long commands (line_of mb) of
                  (n, cmd) \<Rightarrow>
                    if n = 1 \<and> cmd \<noteq> None
                    then (False, 0, snd (m_write_mem (ce_mbuf E) (mb\<lparr>mb_pos := 0\<rparr>)
                                           (bytes_of (str_of (c_name (the cmd))))), w)
                    else if n = 0
                    then let (err, w) = ce_pr E (''(none)'' @ [NL]) [] w in (False, err, mb, w)
                    else (False, 0, mb, w))"

text \<open>The result is the error, the buffer, \<open>*del\<close> and the world.\<close>

definition editor_input ::
  "('d, 'w) cmd_env \<Rightarrow> ('d, 'w) commands option \<Rightarrow> mbuf \<Rightarrow> char \<Rightarrow> bool \<Rightarrow> 'w
     \<Rightarrow> err \<times> mbuf \<times> bool \<times> 'w" where
  "editor_input E commands mb key is_long w =
     (if key = KEYCODE_ESC
      then let (err, w) = ce_pr E ([NL] @ ''Cancel'' @ [NL]) [] w in (err, mb, True, w)
      else if key = NL then let (err, w) = ce_pr E [NL] [] w in (err, mb, True, w)
      else
        let (ret, err, mb, w) =
          (if key = KEYCODE_NONE \<or> key = KEYCODE_REL then (False, 0, mb, w)
           else if key = BS \<or> key = KEYCODE_DEL
           then (if mb_pos mb > 0
                 then let (err, w) = ce_pr E ([BS] @ '' '') [] w
                      in (False, err, mb\<lparr>mb_pos := mb_pos mb - 1, mb_end := mb_pos mb - 1\<rparr>, w)
                 else (False, 0, mb, w))
           else if key = TAB \<and> is_long then tab_complete E commands mb w
           else let (err, mb) = m_write_u8 (ce_mbuf E) mb (of_nat (of_char key)) in (False, err, mb, w))
        in if ret then (err, mb, False, w)
           else
             let (e, w) = (if is_long
                           then ce_pr E ([CHR 0x0d] @ ''%c%b'') [FChr LONG_PREFIX, FBuf (line_of mb)] w
                           else ce_pr E ([CHR 0x0d] @ ''> %32b'') [FBuf (line_of mb)] w)
             in (err OR e, mb, False, w))"

text \<open>\<open>cmd\<rightarrow>h(pf, &arg)\<close>; the callers only get here for commands with a handler.\<close>

definition cmd_call :: "('d, 'w) cmd option \<Rightarrow> 'd cmd_arg \<Rightarrow> 'w \<Rightarrow> err \<times> 'w" where
  "cmd_call cmd arg w =
     (case cmd of None \<Rightarrow> (0, w) | Some c \<Rightarrow> (case c_h c of None \<Rightarrow> (0, w) | Some h \<Rightarrow> h arg w))"

definition cmd_report ::
  "('d, 'w) cmd_env \<Rightarrow> ('d, 'w) cmd option \<Rightarrow> mbuf \<Rightarrow> 'd \<Rightarrow> 'w \<Rightarrow> err \<times> mbuf \<times> 'w" where
  "cmd_report E cmd mb data w =
     (let mb = mb\<lparr>mb_pos := 0\<rparr>; (err, prm) = ce_strdup E mb (mb_end mb)
      in if err \<noteq> 0 then (err, mb, w)
         else
           let (err, w) = cmd_call cmd
                 \<lparr>ca_key = (case cmd of None \<Rightarrow> KEYCODE_NONE | Some c \<Rightarrow> c_key c), ca_prm = Some prm, ca_data = data\<rparr> w
           in (err, mb, w))"

definition cmd_process_long ::
  "('d, 'w) cmd_env \<Rightarrow> ('d, 'w) commands option \<Rightarrow> string option \<Rightarrow> 'd \<Rightarrow> 'w \<Rightarrow> err \<times> 'w" where
  "cmd_process_long E commands str data w =
     (if \<not> str_isset str then (EINVAL, w)
      else
        let (err, pl_name, pl_prm) = ce_regex E (str_of str)
        in if err \<noteq> 0 then (err, w)
           else
             let (e1, name) = ce_pl_strdup E pl_name;
                 (e2, prm) = (if pl_prm \<noteq> [] then (let (e, p) = ce_pl_strdup E pl_prm in (e, Some p)) else (0, None))
             in if e1 OR e2 \<noteq> 0 then (e1 OR e2, w)
                else
                  case cmd_find_long E commands (Some name) of
                    Some cmd \<Rightarrow>
                      cmd_call (Some cmd) \<lparr>ca_key = LONG_PREFIX, ca_prm = prm, ca_data = data\<rparr> w
                  | None \<Rightarrow>
                      let (_, w) = ce_pr E (''command not found (%s)'' @ [NL]) [FStr name] w in (ENOTSUP, w))"

text \<open>The context is \<open>*ctxp\<close>; it is non-NULL whenever \<open>ctxp\<close> is.\<close>

definition cmd_process_edit ::
  "('d, 'w) cmd_env \<Rightarrow> ('d, 'w) commands option \<Rightarrow> bool \<Rightarrow> ('d, 'w) cmd_ctx option \<Rightarrow> char \<Rightarrow> 'd \<Rightarrow> 'w
     \<Rightarrow> err \<times> ('d, 'w) cmd_ctx option \<times> 'w" where
  "cmd_process_edit E commands ctxp ctx key data w =
     (case ctx of
        None \<Rightarrow> (EINVAL, ctx, w)
      | Some cx \<Rightarrow>
          if \<not> ctxp then (EINVAL, ctx, w)
          else
            let (err, mb, del, w) = editor_input E commands (cx_mb cx) key (cx_is_long cx) w;
                cx = cx\<lparr>cx_mb := mb\<rparr>
            in if err \<noteq> 0 then (err, Some cx, w)
               else
                 let (err, cx, w) =
                   (if key \<noteq> NL then (0, cx, w)
                    else if cx_is_long cx
                    then let (err, w) = cmd_process_long E commands (Some (line_of mb)) data w in (err, cx, w)
                    else let (err, mb, w) = cmd_report E (cx_cmd cx) mb data w in (err, cx\<lparr>cx_mb := mb\<rparr>, w))
                 in (err, if del then None else Some cx, w))"

definition cmd_process ::
  "('d, 'w) cmd_env \<Rightarrow> ('d, 'w) commands option \<Rightarrow> bool \<Rightarrow> ('d, 'w) cmd_ctx option \<Rightarrow> char \<Rightarrow> 'd \<Rightarrow> 'w
     \<Rightarrow> err \<times> ('d, 'w) cmd_ctx option \<times> 'w" where
  "cmd_process E commands ctxp ctx key data w =
     (if commands = None then (EINVAL, ctx, w)
      else if key = KEYCODE_NONE then (EINVAL, ctx, w)
      else if ctxp \<and> ctx \<noteq> None
      then (if key = KEYCODE_REL then (0, ctx, w) else cmd_process_edit E commands ctxp ctx key data w)
      else
        case cmd_find_by_key commands key of
          Some cmd \<Rightarrow>
            if c_flags cmd AND CMD_PRM \<noteq> 0
            then
              let (err, ctx) = (if ctxp then ctx_alloc E (Some cmd) else (0, ctx))
              in if err \<noteq> 0 then (err, None, w)
                 else cmd_process_edit E commands ctxp ctx (if isdigit_c key then key else KEYCODE_REL) data w
            else let (err, w) = cmd_call (Some cmd) \<lparr>ca_key = key, ca_prm = None, ca_data = data\<rparr> w
                 in (err, ctx, w)
        | None \<Rightarrow>
            if key = LONG_PREFIX
            then
              let (err, w) = ce_pr E ''%c'' [FChr LONG_PREFIX] w
              in if err \<noteq> 0 then (err, ctx, w)
                 else if \<not> ctxp then (EINVAL, ctx, w)
                 else
                   let (err, ctx) = ctx_alloc E None
                   in if err \<noteq> 0 then (err, None, w)
                      else (0, map_option (\<lambda>cx. cx\<lparr>cx_is_long := True\<rparr>) ctx, w)
            else if key = TAB
            then let (err, w) = cmd_print_all E commands False True None w in (err, ctx, w)
            else if key = KEYCODE_REL then (0, ctx, w)
            else let (err, w) = cmd_print E True commands w in (err, ctx, w))"

text \<open>A sequence of keys, one call of \<open>cmd_process\<close> for each; the errors are dropped.\<close>

fun cmd_keys ::
  "('d, 'w) cmd_env \<Rightarrow> ('d, 'w) commands option \<Rightarrow> ('d, 'w) cmd_ctx option \<Rightarrow> string \<Rightarrow> 'd \<Rightarrow> 'w
     \<Rightarrow> ('d, 'w) cmd_ctx option \<times> 'w" where
  "cmd_keys E commands ctx [] data w = (ctx, w)"
| "cmd_keys E commands ctx (k # ks) data w =
     (let (_, ctx, w) = cmd_process E commands True ctx k data w in cmd_keys E commands ctx ks data w)"

subsection \<open>Look-up in a list of blocks\<close>

text \<open>
  What the two searches share: blocks are searched from the last one, a block only joins
  when none of its members clashes with a member that answers.  \<open>answers c k\<close> says that
  \<open>c\<close> is found under \<open>k\<close>, \<open>clash c d\<close> that \<open>d\<close> is refused beside \<open>c\<close>.
\<close>

locale block_registry =
  fixes answers :: "'c \<Rightarrow> 'k \<Rightarrow> bool"
    and clash :: "'c \<Rightarrow> 'c \<Rightarrow> bool"
  assumes answers_clash: "answers c k \<Longrightarrow> answers d k \<Longrightarrow> clash c d"
begin

definition look :: "'c list list \<Rightarrow> 'k \<Rightarrow> 'c option" where
  "look bs k = List.find (\<lambda>c. answers c k) (concat (rev bs))"

definition apart :: "'c list list \<Rightarrow> bool" where
  "apart bs = sorted_wrt (\<lambda>b b'. \<forall>c\<in>set b. \<forall>d\<in>set b'. \<not> clash c d) bs"

lemma find_append:
  "List.find P (xs @ ys) = (case List.find P xs of None \<Rightarrow> List.find P ys | Some x \<Rightarrow> Some x)"
  for P :: "'x \<Rightarrow> bool"
  by (induction xs) auto

lemma look_add: "look (bs @ [b]) = look bs ++ look [b]"
  by (rule ext) (auto simp: look_def find_append map_add_def split: option.splits)

lemma apart_add:
  "apart bs \<Longrightarrow> (\<And>a c d. a \<in> set bs \<Longrightarrow> c \<in> set a \<Longrightarrow> d \<in> set b \<Longrightarrow> \<not> clash c d) \<Longrightarrow> apart (bs @ [b])"
  by (auto simp: apart_def sorted_wrt_append)

lemma apart_remove: "apart (xs @ b # ys) \<Longrightarrow> apart (xs @ ys)"
  by (auto simp: apart_def sorted_wrt_append)

lemma look_None: "look bs k = None \<longleftrightarrow> (\<forall>b\<in>set bs. \<forall>c\<in>set b. \<not> answers c k)"
  by (auto simp: look_def find_None_iff)

lemma look_split: "look (xs @ ys) = look xs ++ look ys"
  by (rule ext) (auto simp: look_def find_append map_add_def split: option.splits)

lemma look_remove:
  assumes "apart (xs @ b # ys)"
  shows "look (xs @ ys) = look (xs @ b # ys) |` (- dom (look [b]))"
proof
  fix k
  show "look (xs @ ys) k = (look (xs @ b # ys) |` (- dom (look [b]))) k"
  proof (cases "look [b] k")
    case None
    moreover have "look (xs @ b # ys) = look xs ++ (look [b] ++ look ys)"
      using look_split[of xs "b # ys"] look_split[of "[b]" ys] by simp
    ultimately show ?thesis by (simp add: look_split domIff map_add_def split: option.split)
  next
    case (Some c)
    then have c: "c \<in> set b" "answers c k"
      by (auto simp: look_def find_Some_iff)
    have "\<not> answers d k" if "a \<in> set (xs @ ys)" "d \<in> set a" for a d
    proof
      assume "answers d k"
      then have "clash d c" "clash c d" using c(2) answers_clash by blast+
      then show False using assms that c(1) by (auto simp: apart_def sorted_wrt_append)
    qed
    then have "look (xs @ ys) k = None" by (auto simp: look_None)
    with Some show ?thesis by (simp add: domIff)
  qed
qed

lemma look_own:
  assumes "apart (xs @ b # ys)" "c \<in> set b" "answers c k"
  shows "look (xs @ b # ys) k = look [b] k" and "look [b] k \<noteq> None"
proof -
  show own: "look [b] k \<noteq> None" using assms(2,3) by (auto simp: look_None)
  have "look ys k = None"
    using assms answers_clash by (fastforce simp: look_None apart_def sorted_wrt_append)
  moreover have "look (xs @ b # ys) = look xs ++ (look [b] ++ look ys)"
    using look_split[of xs "b # ys"] look_split[of "[b]" ys] by simp
  ultimately show "look (xs @ b # ys) k = look [b] k"
    using own by (auto simp: map_add_def)
qed

lemma look_Some: "look bs k = Some d \<Longrightarrow> \<exists>b\<in>set bs. d \<in> set b \<and> answers d k"
  unfolding look_def find_Some_iff by (metis (no_types, lifting) UN_E nth_mem set_concat set_rev)

lemma look_disjoint:
  assumes "\<And>a c d. a \<in> set bs \<Longrightarrow> c \<in> set a \<Longrightarrow> d \<in> set b \<Longrightarrow> \<not> clash c d"
  shows "dom (look bs) \<inter> dom (look [b]) = {}"
proof (rule ccontr)
  assume "dom (look bs) \<inter> dom (look [b]) \<noteq> {}"
  then obtain k c d where "look bs k = Some c" "look [b] k = Some d" by blast
  then obtain a where "a \<in> set bs" "c \<in> set a" "d \<in> set b" "answers c k" "answers d k"
    using look_Some[of bs k c] look_Some[of "[b]" k d] by auto
  then show False using assms answers_clash by blast
qed

lemma look_single: "look [b] k = Some d \<Longrightarrow> d \<in> set b \<and> answers d k"
  by (auto simp: look_def find_Some_iff)

lemma look_member:
  assumes "apart (map f bs)" "b \<in> set bs" "c \<in> set (f b)" "answers c k"
  obtains d where "look (map f bs) k = Some d" "d \<in> set (f b)" "answers d k"
proof -
  from assms(2) obtain xs ys where bs: "bs = xs @ b # ys" by (auto simp: in_set_conv_decomp)
  have "look (map f bs) k = look [f b] k" "look [f b] k \<noteq> None"
    using look_own[of "map f xs" "f b" "map f ys" c k] assms bs by auto
  then show ?thesis using look_single that by fastforce
qed

end

subsection \<open>Commands by key and by long name\<close>

definition key_answers :: "('d, 'w) cmd \<Rightarrow> char \<Rightarrow> bool" where
  "key_answers c k = (k \<noteq> KEYCODE_NONE \<and> c_key c = k \<and> c_h c \<noteq> None)"

definition key_clash :: "('d, 'w) cmd \<Rightarrow> ('d, 'w) cmd \<Rightarrow> bool" where
  "key_clash c d = (c_key d \<noteq> KEYCODE_NONE \<and> c_key c = c_key d \<and> c_h c \<noteq> None)"

definition name_answers :: "('d, 'w) cmd \<Rightarrow> string \<Rightarrow> bool" where
  "name_answers c n = (n \<noteq> [] \<and> map_option fold_case (c_name c) = Some (fold_case n) \<and> c_h c \<noteq> None)"

definition name_clash :: "('d, 'w) cmd \<Rightarrow> ('d, 'w) cmd \<Rightarrow> bool" where
  "name_clash c d = (str_isset (c_name d) \<and>
     map_option fold_case (c_name d) = map_option fold_case (c_name c) \<and> c_h c \<noteq> None)"

interpretation by_key: block_registry key_answers key_clash
  by unfold_locales (auto simp: key_answers_def key_clash_def)

interpretation by_name: block_registry name_answers name_clash
proof
  fix c d :: "('d, 'w) cmd" and n :: string
  assume "name_answers c n" "name_answers d n"
  moreover from this obtain m where "c_name d = Some m" "fold_case m = fold_case n" "n \<noteq> []"
    by (auto simp: name_answers_def)
  ultimately show "name_clash c d"
    by (auto simp: name_answers_def name_clash_def fold_case_def)
qed

text \<open>The tables a list of blocks stands for.\<close>

definition key_table :: "('d, 'w) commands \<Rightarrow> char \<Rightarrow> ('d, 'w) cmd option" where
  "key_table cs = by_key.look (map cb_cmdv cs)"

definition name_table :: "('d, 'w) commands \<Rightarrow> string \<Rightarrow> ('d, 'w) cmd option" where
  "name_table cs = by_name.look (map cb_cmdv cs)"

lemma cmd_find_by_key_table: "k \<noteq> KEYCODE_NONE \<Longrightarrow> cmd_find_by_key (Some cs) k = key_table cs k"
  by (simp add: cmd_find_by_key_def key_table_def by_key.look_def key_answers_def rev_map)

lemma cmd_find_long_table:
  assumes "casecmp_laws (ce_casecmp E)" "n \<noteq> []"
  shows "cmd_find_long E (Some cs) (Some n) = name_table (cs :: ('d, 'w) commands) n"
proof -
  have "(ce_casecmp E (Some n) (c_name c) = 0 \<and> c_h c \<noteq> None) = name_answers c n" for c :: "('d, 'w) cmd"
    by (cases "c_name c") (use assms in \<open>auto simp: casecmp_laws_def name_answers_def\<close>)
  then show ?thesis
    by (simp add: cmd_find_long_def name_table_def by_name.look_def rev_map del: not_None_eq cong: find_cong)
qed

text \<open>The invariant of the registry: one block per array, and blocks that do not clash.\<close>

definition commands_inv :: "('d, 'w) commands \<Rightarrow> bool" where
  "commands_inv cs =
     (distinct (map cb_addr cs) \<and> (\<forall>b\<in>set cs. cb_addr b \<noteq> 0 \<and> cb_cmdv b \<noteq> []) \<and>
      (\<forall>b\<in>set cs. \<forall>c\<in>set (cb_cmdv b). c_key c \<noteq> LONG_PREFIX) \<and>
      by_key.apart (map cb_cmdv cs) \<and> by_name.apart (map cb_cmdv cs))"

inductive cmd_reach :: "('d, 'w) cmd_env \<Rightarrow> ('d, 'w) commands \<Rightarrow> bool" for E where
  reach_init: "cmd_init E True = (0, Some cs) \<Longrightarrow> cmd_reach E cs"
| reach_register:
    "cmd_reach E cs \<Longrightarrow> cmd_register E (Some cs) addr cmdv = (err, Some cs') \<Longrightarrow> cmd_reach E cs'"
| reach_unregister: "cmd_reach E cs \<Longrightarrow> cmd_unregister (Some cs) addr = Some cs' \<Longrightarrow> cmd_reach E cs'"

lemma cmd_check_ok:
  assumes "casecmp_laws (ce_casecmp E)" "cmd_check E cs d = 0"
  shows "c_key d \<noteq> LONG_PREFIX"
    and "b \<in> set cs \<Longrightarrow> c \<in> set (cb_cmdv b) \<Longrightarrow> \<not> key_clash c d"
    and "b \<in> set cs \<Longrightarrow> c \<in> set (cb_cmdv b) \<Longrightarrow> \<not> name_clash c d"
proof -
  show "c_key d \<noteq> LONG_PREFIX" using assms(2) by (auto simp: cmd_check_def split: if_splits)
next
  assume b: "b \<in> set cs" "c \<in> set (cb_cmdv b)"
  show "\<not> key_clash c d"
  proof
    assume k: "key_clash c d"
    then have "cmd_find_by_key (Some cs) (c_key d) = None"
      using assms(2) by (auto simp: cmd_check_def key_clash_def split: if_splits)
    then show False using b k by (auto simp: cmd_find_by_key_def find_None_iff key_clash_def)
  qed
next
  assume b: "b \<in> set cs" "c \<in> set (cb_cmdv b)"
  show "\<not> name_clash c d"
  proof
    assume n: "name_clash c d"
    then obtain m where m: "c_name d = Some m" "m \<noteq> []" by (auto simp: name_clash_def str_isset_def split: option.splits)
    with assms(2) have "cmd_find_long E (Some cs) (Some m) = None"
      by (auto simp: cmd_check_def split: if_splits)
    then have "ce_casecmp E (Some m) (c_name c) \<noteq> 0 \<or> c_h c = None"
      using b by (auto simp: cmd_find_long_def find_None_iff)
    then show False using n m assms(1) by (auto simp: name_clash_def casecmp_laws_def)
  qed
qed

lemma cmd_check_all_ok: "cmd_check_all E cs ds = 0 \<Longrightarrow> d \<in> set ds \<Longrightarrow> cmd_check E cs d = 0"
  by (induction ds) (auto simp: Let_def split: if_splits)

lemma cmd_registerE:
  assumes "cmd_register E (Some cs) addr cmdv = (err, Some cs')"
  obtains "cs' = cs" "err \<noteq> 0"
  | "err = 0" "cs' = cs @ [\<lparr>cb_addr = addr, cb_cmdv = cmdv\<rparr>]" "addr \<noteq> 0" "cmdv \<noteq> []"
    "cmds_find (Some cs) addr = None" "cmd_check_all E cs cmdv = 0"
  using assms by (auto simp: cmd_register_def Let_def split: if_splits)

lemma commands_inv_register:
  assumes laws: "casecmp_laws (ce_casecmp E)" and inv: "commands_inv cs"
    and reg: "cmd_register E (Some cs) addr cmdv = (err, Some cs')"
  shows "commands_inv cs'"
  using reg
proof (cases rule: cmd_registerE)
  case 1
  then show ?thesis using inv by simp
next
  case 2
  note ok = cmd_check_ok[OF laws cmd_check_all_ok[OF 2(6)]]
  have "addr \<notin> cb_addr ` set cs" using 2(3,5) by (auto simp: cmds_find_def find_None_iff)
  moreover have "by_key.apart (map cb_cmdv cs @ [cmdv])"
    using inv ok(2) by (intro by_key.apart_add) (auto simp: commands_inv_def)
  moreover have "by_name.apart (map cb_cmdv cs @ [cmdv])"
    using inv ok(3) by (intro by_name.apart_add) (auto simp: commands_inv_def)
  ultimately show ?thesis using inv ok(1) 2(2-4) by (auto simp: commands_inv_def)
qed

lemma cmds_unlink_split:
  assumes "List.find (\<lambda>b. cb_addr b = a) cs = Some b"
  obtains xs ys where "cs = xs @ b # ys" "cmds_unlink a cs = xs @ ys" "cb_addr b = a"
  using assms
proof (induction cs arbitrary: thesis)
  case (Cons c cs)
  show ?case
  proof (cases "cb_addr c = a")
    case True
    then show ?thesis using Cons.prems(1)[of "[]" cs] Cons.prems(2) by simp
  next
    case False
    with Cons.prems(2) have "List.find (\<lambda>b. cb_addr b = a) cs = Some b" by simp
    with Cons.IH obtain xs ys where "cs = xs @ b # ys" "cmds_unlink a cs = xs @ ys" "cb_addr b = a" by blast
    with False show ?thesis by (intro Cons.prems(1)[of "c # xs" ys]) auto
  qed
qed simp

lemma cmd_unregisterE:
  assumes "cmd_unregister (Some cs) addr = Some cs'"
  obtains "cs' = cs" "cmds_find (Some cs) addr = None"
  | xs b ys where "cmds_find (Some cs) addr = Some b" "cs = xs @ b # ys" "cs' = xs @ ys" "cb_addr b = addr"
proof (cases "cmds_find (Some cs) addr")
  case None
  then show ?thesis using assms that(1) by (simp add: cmd_unregister_def)
next
  case (Some b)
  then have f: "List.find (\<lambda>b. cb_addr b = addr) cs = Some b"
    by (simp add: cmds_find_def split: if_splits)
  then obtain xs ys where "cs = xs @ b # ys" "cmds_unlink addr cs = xs @ ys" "cb_addr b = addr"
    by (rule cmds_unlink_split)
  then show ?thesis using Some assms that(2) by (auto simp: cmd_unregister_def)
qed

lemma commands_inv_unregister:
  assumes "commands_inv cs" "cmd_unregister (Some cs) addr = Some cs'"
  shows "commands_inv cs'"
  using assms(2)
proof (cases rule: cmd_unregisterE)
  case 1
  then show ?thesis using assms(1) by simp
next
  case (2 xs b ys)
  then show ?thesis
    using assms(1) by_key.apart_remove[of "map cb_cmdv xs" "cb_cmdv b" "map cb_cmdv ys"]
      by_name.apart_remove[of "map cb_cmdv xs" "cb_cmdv b" "map cb_cmdv ys"]
    by (auto simp: commands_inv_def)
qed

lemma cmd_reach_inv: "cmd_reach E cs \<Longrightarrow> casecmp_laws (ce_casecmp E) \<Longrightarrow> commands_inv cs"
proof (induction rule: cmd_reach.induct)
  case (reach_init cs)
  then show ?case
    by (auto simp: cmd_init_def commands_inv_def by_key.apart_def by_name.apart_def split: if_splits)
qed (blast intro: commands_inv_register commands_inv_unregister)+

text \<open>
  C17: however commands were registered and unregistered, every command with a handler is found in the
  block that registered it: by its key, and by its long name whatever its case.  No other
  block hides it, the prefix of the long commands is never a key, and a block is found by
  the address of its array.
\<close>

theorem cmd_registry_sound:
  assumes "casecmp_laws (ce_casecmp E)" "cmd_reach E cs" "b \<in> set cs" "c \<in> set (cb_cmdv b)" "c_h c \<noteq> None"
  shows "(c_key c = KEYCODE_NONE \<or>
            (\<exists>d\<in>set (cb_cmdv b). cmd_find_by_key (Some cs) (c_key c) = Some d \<and> c_key d = c_key c)) \<and>
         (\<not> str_isset (c_name c) \<or>
            (\<exists>d\<in>set (cb_cmdv b). cmd_find_long E (Some cs) (c_name c) = Some d \<and>
                                ce_casecmp E (c_name c) (c_name d) = 0)) \<and>
         cmd_find_by_key (Some cs) LONG_PREFIX = None \<and> cmds_find (Some cs) (cb_addr b) = Some b"
proof (intro conjI)
  have inv: "commands_inv cs" using assms(1,2) by (rule cmd_reach_inv[rotated])
  show "c_key c = KEYCODE_NONE \<or>
      (\<exists>d\<in>set (cb_cmdv b). cmd_find_by_key (Some cs) (c_key c) = Some d \<and> c_key d = c_key c)"
  proof (cases "c_key c = KEYCODE_NONE")
    case False
    then obtain d where "key_table cs (c_key c) = Some d" "d \<in> set (cb_cmdv b)" "key_answers d (c_key c)"
      unfolding key_table_def
      by (rule_tac by_key.look_member[of cb_cmdv cs b c "c_key c"])
         (use inv assms(3-5) in \<open>auto simp: commands_inv_def key_answers_def\<close>)
    with False show ?thesis by (auto simp: cmd_find_by_key_table key_answers_def)
  qed simp
  show "\<not> str_isset (c_name c) \<or> (\<exists>d\<in>set (cb_cmdv b). cmd_find_long E (Some cs) (c_name c) = Some d \<and>
      ce_casecmp E (c_name c) (c_name d) = 0)"
  proof (cases "str_isset (c_name c)")
    case True
    then obtain n where n: "c_name c = Some n" "n \<noteq> []" by (auto simp: str_isset_def split: option.splits)
    obtain d where "name_table cs n = Some d" "d \<in> set (cb_cmdv b)" "name_answers d n"
      unfolding name_table_def
      by (rule by_name.look_member[of cb_cmdv cs b c n])
         (use inv assms(3-5) n in \<open>auto simp: commands_inv_def name_answers_def\<close>)
    with n assms(1) show ?thesis by (auto simp: cmd_find_long_table name_answers_def casecmp_laws_def)
  qed simp
  show "cmd_find_by_key (Some cs) LONG_PREFIX = None"
    using inv by (auto simp: cmd_find_by_key_def find_None_iff commands_inv_def)
  show "cmds_find (Some cs) (cb_addr b) = Some b"
  proof -
    have "\<exists>b'. List.find (\<lambda>x. cb_addr x = cb_addr b) cs = Some b'"
      using assms(3) by (metis (mono_tags, lifting) find_None_iff not_Some_eq)
    then obtain b' where b': "List.find (\<lambda>x. cb_addr x = cb_addr b) cs = Some b'" ..
    then have "b' \<in> set cs" "cb_addr b' = cb_addr b" by (auto simp: find_Some_iff)
    then have "b' = b" using inv assms(3) by (auto simp: commands_inv_def dest: inj_onD simp: distinct_map)
    then show ?thesis using b' inv assms(3) by (auto simp: cmds_find_def commands_inv_def)
  qed
qed

lemma cmd_register_tables:
  assumes "casecmp_laws (ce_casecmp E)" "cmd_register E (Some cs) addr cmdv = (0, Some cs1)"
  defines "new \<equiv> [\<lparr>cb_addr = addr, cb_cmdv = cmdv\<rparr>]"
  shows "cs1 = cs @ new" "key_table cs1 = key_table cs ++ key_table new"
    "name_table cs1 = name_table cs ++ name_table new"
    "dom (key_table cs) \<inter> dom (key_table new) = {}" "dom (name_table cs) \<inter> dom (name_table new) = {}"
    "cmd_unregister (Some cs1) addr = Some cs"
proof -
  from assms(2) have reg: "cs1 = cs @ new" "addr \<noteq> 0" "cmds_find (Some cs) addr = None" "cmd_check_all E cs cmdv = 0"
    unfolding new_def by (auto elim: cmd_registerE)
  note ok = cmd_check_ok[OF assms(1) cmd_check_all_ok[OF reg(4)]]
  show "cs1 = cs @ new" by fact
  show "key_table cs1 = key_table cs ++ key_table new" "name_table cs1 = name_table cs ++ name_table new"
    using by_key.look_add by_name.look_add by (simp_all add: reg(1) new_def key_table_def name_table_def)
  show "dom (key_table cs) \<inter> dom (key_table new) = {}"
    unfolding key_table_def new_def using by_key.look_disjoint[of "map cb_cmdv cs" cmdv] ok(2) by auto
  show "dom (name_table cs) \<inter> dom (name_table new) = {}"
    unfolding name_table_def new_def using by_name.look_disjoint[of "map cb_cmdv cs" cmdv] ok(3) by auto
  have "cmds_unlink addr (cs @ new) = cs" if "addr \<notin> cb_addr ` set cs" for cs :: "('a, 'b) commands"
    using that by (induction cs) (auto simp: new_def)
  moreover have fresh: "addr \<notin> cb_addr ` set cs"
    using reg(2,3) by (auto simp: cmds_find_def find_None_iff)
  moreover have "cmds_find (Some (cs @ new)) addr = Some \<lparr>cb_addr = addr, cb_cmdv = cmdv\<rparr>"
    using reg(2) fresh by (auto simp: cmds_find_def new_def by_key.find_append find_None_iff split: option.splits)
       (auto simp: find_Some_iff image_iff dest: nth_mem)
  ultimately show "cmd_unregister (Some cs1) addr = Some cs"
    by (simp add: reg(1) cmd_unregister_def)
qed

text \<open>
  C16: the registry refines a pair of tables, from keys and from long names to commands:
  registering a block adds its commands to both tables, none of which was there before,
  unregistering it removes exactly what was found in the block, and leaves the list as it
  was before the registration.
\<close>

theorem cmd_registry_refines:
  assumes "casecmp_laws (ce_casecmp E)" "cmd_reach E cs"
    "cmd_register E (Some cs) addr cmdv = (0, Some cs1)"
    "cmds_find (Some cs) addr' = Some b" "cmd_unregister (Some cs) addr' = Some cs2"
  defines "new \<equiv> [\<lparr>cb_addr = addr, cb_cmdv = cmdv\<rparr>]"
  shows "key_table cs1 = key_table cs ++ key_table new \<and> dom (key_table cs) \<inter> dom (key_table new) = {} \<and>
         name_table cs1 = name_table cs ++ name_table new \<and> dom (name_table cs) \<inter> dom (name_table new) = {} \<and>
         cmd_unregister (Some cs1) addr = Some cs \<and>
         key_table cs2 = key_table cs |` (- dom (key_table [b])) \<and>
         name_table cs2 = name_table cs |` (- dom (name_table [b]))"
proof -
  have inv: "commands_inv cs" using assms(1,2) by (rule cmd_reach_inv[rotated])
  from assms(4,5) obtain xs ys where "cs = xs @ b # ys" "cs2 = xs @ ys"
    by (auto elim: cmd_unregisterE)
  with inv have "key_table cs2 = key_table cs |` (- dom (key_table [b]))"
    "name_table cs2 = name_table cs |` (- dom (name_table [b]))"
    using by_key.look_remove[of "map cb_cmdv xs" "cb_cmdv b" "map cb_cmdv ys"]
      by_name.look_remove[of "map cb_cmdv xs" "cb_cmdv b" "map cb_cmdv ys"]
    by (simp_all add: key_table_def name_table_def commands_inv_def)
  then show ?thesis using cmd_register_tables[OF assms(1,3)] unfolding new_def by simp
qed

subsection \<open>A concrete environment\<close>

text \<open>The world is the log of the handler calls; printing leaves it alone.\<close>

type_synonym cmd_log = "unit cmd_arg list"

definition ref_regex :: "string \<Rightarrow> err \<times> string \<times> string" where
  "ref_regex s =
     (let t = dropWhile (\<lambda>c. c = CHR '' '') s; nm = takeWhile (\<lambda>c. c \<noteq> CHR '' '') t
      in if nm = [] then (ENOENT, [], [])
         else (0, nm, dropWhile (\<lambda>c. c = CHR '' '') (drop (length nm) t)))"

definition ref_cmd_env :: "(unit, cmd_log) cmd_env" where
  "ref_cmd_env = \<lparr>ce_mbuf = ref_mbuf, ce_pr = (\<lambda>f a w. (0, w)), ce_snprintf = (\<lambda>n f a. (0, [])),
     ce_strdup = (\<lambda>m n. (0, chars_of (take n (mb_unread m)))), ce_regex = ref_regex,
     ce_pl_strdup = (\<lambda>s. (0, s)), ce_casecmp = ref_casecmp, ce_list_sort = (\<lambda>_ cs. cs),
     ce_zalloc = True, ce_mbuf_alloc = Some (mbuf_of [])\<rparr>"

definition log_handler :: "unit cmd_arg \<Rightarrow> cmd_log \<Rightarrow> err \<times> cmd_log" where
  "log_handler arg w = (0, w @ [arg])"

definition dial_cmd :: "(unit, cmd_log) cmd" where
  "dial_cmd = \<lparr>c_name = Some ''dial'', c_key = CHR ''d'', c_flags = 1, c_desc = Some ''Dial'',
     c_h = Some log_handler\<rparr>"

definition quit_cmd :: "(unit, cmd_log) cmd" where
  "quit_cmd = \<lparr>c_name = Some ''Quit'', c_key = CHR ''q'', c_flags = 0, c_desc = Some ''Quit'',
     c_h = Some log_handler\<rparr>"

definition dial_block :: "(unit, cmd_log) cmds" where
  "dial_block = \<lparr>cb_addr = 1, cb_cmdv = [dial_cmd]\<rparr>"

definition quit_block :: "(unit, cmd_log) cmds" where
  "quit_block = \<lparr>cb_addr = 2, cb_cmdv = [quit_cmd]\<rparr>"

lemma ref_casecmp_laws: "casecmp_laws (ce_casecmp ref_cmd_env)"
  by (simp add: casecmp_laws_def ref_cmd_env_def ref_casecmp_def)

lemma ref_register:
  "cmd_register ref_cmd_env (Some []) 1 [dial_cmd] = (0, Some [dial_block])"
  "cmd_register ref_cmd_env (Some [dial_block]) 2 [quit_cmd] = (0, Some [dial_block, quit_block])"
  by (simp_all add: cmd_register_def cmds_find_def cmd_check_def cmd_find_by_key_def cmd_find_long_def
      keycode_defs ref_cmd_env_def ref_casecmp_def fold_case_def tolower_c_def dial_block_def quit_block_def
      dial_cmd_def quit_cmd_def)

lemma ref_reach: "cmd_reach ref_cmd_env [dial_block]" "cmd_reach ref_cmd_env [dial_block, quit_block]"
proof -
  have "cmd_reach ref_cmd_env []" by (rule reach_init) (simp add: cmd_init_def ref_cmd_env_def)
  then show a: "cmd_reach ref_cmd_env [dial_block]" using ref_register(1) by (rule reach_register)
  then show "cmd_reach ref_cmd_env [dial_block, quit_block]" using ref_register(2) by (rule reach_register)
qed

theorem cmd_registry_sound_witness:
  "cmd_find_by_key (Some [dial_block, quit_block]) (CHR ''q'') = Some quit_cmd \<and>
   cmd_find_long ref_cmd_env (Some [dial_block, quit_block]) (Some ''Quit'') = Some quit_cmd"
proof -
  have "quit_block \<in> set [dial_block, quit_block]" "quit_cmd \<in> set (cb_cmdv quit_block)" "c_h quit_cmd \<noteq> None"
    by (simp_all add: quit_block_def quit_cmd_def)
  from cmd_registry_sound[OF ref_casecmp_laws ref_reach(2) this]
  show ?thesis by (simp add: quit_block_def quit_cmd_def KEYCODE_NONE_def)
qed

theorem cmd_registry_refines_witness:
  "key_table [dial_block, quit_block] = key_table [dial_block] ++ key_table [quit_block] \<and>
   cmd_unregister (Some [dial_block, quit_block]) 2 = Some [dial_block]"
proof -
  have "cmds_find (Some [dial_block]) 1 = Some dial_block" "cmd_unregister (Some [dial_block]) 1 = Some []"
    by (simp_all add: cmds_find_def cmd_unregister_def dial_block_def)
  from cmd_registry_refines[OF ref_casecmp_laws ref_reach(1) ref_register(2) this]
  show ?thesis by (simp add: quit_block_def)
qed

subsection \<open>What the line editor does\<close>

text \<open>The effect of one key on the line: backspace removes the last character, others are appended.\<close>

definition edit_key :: "string \<Rightarrow> char \<Rightarrow> string" where
  "edit_key s k = (if k = KEYCODE_NONE \<or> k = KEYCODE_REL then s
     else if k = BS \<or> k = KEYCODE_DEL then butlast s else s @ [k])"

text \<open>
  The laws of the environment: the buffer laws, printing succeeds, memory is available,
  a new buffer is empty, and \<open>mbuf_strdup\<close> copies the bytes at the position.
\<close>

definition cmd_env_ok :: "('d, 'w) cmd_env \<Rightarrow> bool" where
  "cmd_env_ok E = (mbuf_laws (ce_mbuf E) \<and> mbuf_no_oom (ce_mbuf E) \<and> (\<forall>f a w. fst (ce_pr E f a w) = 0) \<and>
     ce_zalloc E \<and> (\<exists>mb. ce_mbuf_alloc E = Some mb \<and> mb_at_end mb \<and> mb_data mb = []) \<and>
     (\<forall>m n. mb_wf m \<longrightarrow> n \<le> length (mb_unread m) \<longrightarrow> ce_strdup E m n = (0, chars_of (take n (mb_unread m)))))"

lemma keycodes_distinct [simp]:
  "KEYCODE_REL \<noteq> KEYCODE_NONE" "KEYCODE_NONE \<noteq> KEYCODE_REL" "LONG_PREFIX \<noteq> KEYCODE_NONE"
  "KEYCODE_REL \<noteq> KEYCODE_ESC" "KEYCODE_ESC \<noteq> KEYCODE_REL" "KEYCODE_REL \<noteq> NL" "NL \<noteq> KEYCODE_REL"
  "NL \<noteq> KEYCODE_NONE" "NL \<noteq> KEYCODE_ESC" "TAB \<noteq> KEYCODE_ESC" "TAB \<noteq> KEYCODE_DEL" "TAB \<noteq> KEYCODE_NONE"
  "TAB \<noteq> KEYCODE_REL"
  by (simp_all add: keycode_defs)

lemma cmd_env_ok_print:
  assumes "cmd_env_ok E"
  obtains pw where "ce_pr E = (\<lambda>f a w. (0, pw f a w))"
proof
  show "ce_pr E = (\<lambda>f a w. (0, snd (ce_pr E f a w)))"
    using assms by (auto simp: cmd_env_ok_def intro!: ext prod_eqI)
qed

lemma chars_bytes [simp]: "chars_of (bytes_of s) = s"
proof -
  have "char_of (unat (of_nat (of_char c) :: u8)) = c" for c
    by (simp add: unat_of_nat)
  then show ?thesis by (simp add: chars_of_def bytes_of_def comp_def)
qed

lemma chars_of_append [simp]: "chars_of (a @ b) = chars_of a @ chars_of b" "chars_of [] = []"
  by (simp_all add: chars_of_def)

lemma chars_of_key [simp]: "chars_of [of_nat (of_char k)] = [k]"
  using chars_bytes[of "[k]"] by (simp add: bytes_of_def)

lemma line_of_data: "line_of mb = chars_of (mb_data mb)"
  by (simp add: line_of_def mb_data_def)

lemma line_backspace:
  assumes "mb_at_end mb"
  defines "mb' \<equiv> mb\<lparr>mb_pos := mb_pos mb - 1, mb_end := mb_pos mb - 1\<rparr>"
  shows "mb_at_end mb'" "line_of mb' = butlast (line_of mb)"
  using assms(1) unfolding mb'_def
  by (auto simp: mb_at_end_def mb_wf_def line_of_def chars_of_def butlast_take simp flip: map_butlast)

lemma line_append:
  assumes "cmd_env_ok E" "mb_at_end mb"
  obtains mb' where "m_write_u8 (ce_mbuf E) mb (of_nat (of_char k)) = (0, mb')" "mb_at_end mb'"
    "line_of mb' = line_of mb @ [k]"
proof -
  let ?w = "m_write_u8 (ce_mbuf E) mb (of_nat (of_char k))"
  have wf: "mb_wf mb" using assms(2) by (simp add: mb_at_end_def)
  then have w: "?w = (0, snd ?w)"
    using assms(1) by (auto simp: cmd_env_ok_def mbuf_no_oom_def intro: prod_eqI)
  have "mb_written mb [of_nat (of_char k)] (snd ?w)"
    using assms(1) wf w by (auto simp: cmd_env_ok_def intro: m_write_u8_written)
  from mb_written_at_end[OF assms(2) this] w show ?thesis
    by (intro that[of "snd ?w"]) (simp_all add: line_of_data)
qed

lemma line_replace:
  assumes "cmd_env_ok E" "mb_at_end mb" "length (line_of mb) \<le> length s"
  defines "mb' \<equiv> snd (m_write_mem (ce_mbuf E) (mb\<lparr>mb_pos := 0\<rparr>) (bytes_of s))"
  shows "mb_at_end mb'" "line_of mb' = s"
proof -
  let ?m = "mb\<lparr>mb_pos := 0\<rparr>"
  have wf: "mb_wf ?m" using assms(2) by (simp add: mb_at_end_def mb_wf_def)
  obtain m' where "m_write_mem (ce_mbuf E) ?m (bytes_of s) = (0, m')" "mb_written ?m (bytes_of s) m'"
    using m_write_mem_ok[of "ce_mbuf E" ?m "bytes_of s"] assms(1) wf unfolding cmd_env_ok_def by blast
  then have wr: "mb_written ?m (bytes_of s) mb'" by (simp add: mb'_def)
  have len: "length (mb_data mb) \<le> length (bytes_of s)"
    using assms(3) by (simp add: line_of_data chars_of_def bytes_of_def)
  then have data: "mb_data mb' = bytes_of s" using wr by (simp add: mb_written_def mb_data_def)
  then show "line_of mb' = s" by (simp add: line_of_data)
  have wf': "mb_wf mb'" and pos: "mb_pos mb' = length (bytes_of s)" using wr by (simp_all add: mb_written_def)
  with mb_data_length[OF wf'] data show "mb_at_end mb'" by (simp add: mb_at_end_def)
qed

text \<open>A key other than ESC, newline and, in a long command, TAB: the line is edited, nothing else.\<close>

lemma editor_input_key:
  assumes "cmd_env_ok E" "mb_at_end mb" "k \<noteq> KEYCODE_ESC" "k \<noteq> NL" "k = TAB \<longrightarrow> \<not> long"
  obtains mb' w' where "editor_input E cs mb k long w = (0, mb', False, w')" "mb_at_end mb'"
    "line_of mb' = edit_key (line_of mb) k"
proof -
  obtain pw where pw: "ce_pr E = (\<lambda>f a w. (0, pw f a w))" using assms(1) by (rule cmd_env_ok_print)
  consider "k = KEYCODE_NONE \<or> k = KEYCODE_REL" | "k = BS \<or> k = KEYCODE_DEL"
    | "k \<notin> {KEYCODE_NONE, KEYCODE_REL, BS, KEYCODE_DEL}" by blast
  then show ?thesis
  proof cases
    case 1
    then obtain w' where "editor_input E cs mb k long w = (0, mb, False, w')"
      using assms(3,4) by (cases long; auto simp: editor_input_def pw)
    with 1 show ?thesis using assms(2) by (intro that) (auto simp: edit_key_def)
  next
    case 2
    define mb' where "mb' = (if mb_pos mb > 0 then mb\<lparr>mb_pos := mb_pos mb - 1, mb_end := mb_pos mb - 1\<rparr> else mb)"
    have "mb_at_end mb'" "line_of mb' = butlast (line_of mb)"
      using line_backspace[OF assms(2)] assms(2) unfolding mb'_def
      by (auto simp: mb_at_end_def line_of_def chars_of_def)
    moreover from 2 have "edit_key (line_of mb) k = butlast (line_of mb)"
      by (auto simp: edit_key_def keycode_defs)
    moreover from 2 obtain w' where "editor_input E cs mb k long w = (0, mb', False, w')"
      by (cases long; cases "mb_pos mb > 0"; auto simp: editor_input_def mb'_def pw keycode_defs)
    ultimately show ?thesis by (intro that) auto
  next
    case 3
    obtain mb' where mb': "m_write_u8 (ce_mbuf E) mb (of_nat (of_char k)) = (0, mb')" "mb_at_end mb'"
      "line_of mb' = line_of mb @ [k]"
      using assms(1,2) by (rule line_append)
    moreover from 3 have "edit_key (line_of mb) k = line_of mb @ [k]"
      by (auto simp: edit_key_def)
    moreover from 3 assms(3-5) mb'(1) obtain w' where "editor_input E cs mb k long w = (0, mb', False, w')"
      by (cases long; auto simp: editor_input_def pw)
    ultimately show ?thesis by (intro that) auto
  qed
qed

text \<open>A whole line: the keys edit the line, the context stays.\<close>

definition plain_key :: "bool \<Rightarrow> char \<Rightarrow> bool" where
  "plain_key long k = (k \<noteq> KEYCODE_ESC \<and> k \<noteq> NL \<and> (k = TAB \<longrightarrow> \<not> long))"

lemma cmd_process_key:
  assumes "cmd_env_ok E" "mb_at_end (cx_mb cx)" "plain_key (cx_is_long cx) k"
  obtains err mb' w' where
    "cmd_process E (Some cs) True (Some cx) k data w = (err, Some (cx\<lparr>cx_mb := mb'\<rparr>), w')"
    "mb_at_end mb'" "line_of mb' = edit_key (line_of (cx_mb cx)) k"
proof (cases "k = KEYCODE_NONE \<or> k = KEYCODE_REL")
  case True
  then obtain err where "cmd_process E (Some cs) True (Some cx) k data w = (err, Some (cx\<lparr>cx_mb := cx_mb cx\<rparr>), w)"
    by (auto simp: cmd_process_def)
  then show ?thesis using assms(2) True by (elim that) (auto simp: edit_key_def)
next
  case False
  obtain mb' w' where e: "editor_input E (Some cs) (cx_mb cx) k (cx_is_long cx) w = (0, mb', False, w')"
    "mb_at_end mb'" "line_of mb' = edit_key (line_of (cx_mb cx)) k"
    using editor_input_key[OF assms(1,2)] assms(3) unfolding plain_key_def by metis
  with False assms(3) have
    "cmd_process E (Some cs) True (Some cx) k data w = (0, Some (cx\<lparr>cx_mb := mb'\<rparr>), w')"
    by (auto simp: cmd_process_def cmd_process_edit_def plain_key_def)
  then show ?thesis using e(2,3) by (rule that)
qed

lemma cmd_keys_line:
  assumes "cmd_env_ok E" "mb_at_end (cx_mb cx)" "\<forall>k\<in>set ks. plain_key (cx_is_long cx) k"
  obtains mb' w' where "cmd_keys E (Some cs) (Some cx) (ks @ ks') data w =
      cmd_keys E (Some cs) (Some (cx\<lparr>cx_mb := mb'\<rparr>)) ks' data w'"
    "mb_at_end mb'" "line_of mb' = foldl edit_key (line_of (cx_mb cx)) ks"
  using assms(2,3)
proof (induction ks arbitrary: cx w thesis)
  case Nil
  show ?case by (rule Nil.prems(1)[of "cx_mb cx" w]) (use Nil.prems(2) in auto)
next
  case (Cons k ks)
  obtain err mb1 w1 where k: "cmd_process E (Some cs) True (Some cx) k data w = (err, Some (cx\<lparr>cx_mb := mb1\<rparr>), w1)"
    "mb_at_end mb1" "line_of mb1 = edit_key (line_of (cx_mb cx)) k"
    using cmd_process_key[OF assms(1) Cons.prems(2)] Cons.prems(3) by (metis list.set_intros(1))
  obtain mb2 w2 where "cmd_keys E (Some cs) (Some (cx\<lparr>cx_mb := mb1\<rparr>)) (ks @ ks') data w1 =
      cmd_keys E (Some cs) (Some (cx\<lparr>cx_mb := mb1, cx_mb := mb2\<rparr>)) ks' data w2"
    "mb_at_end mb2" "line_of mb2 = foldl edit_key (line_of mb1) ks"
    using Cons.IH[of "cx\<lparr>cx_mb := mb1\<rparr>" w1] k(2) Cons.prems(3) by auto
  with k show ?case by (intro Cons.prems(1)[of mb2 w2]) auto
qed
lemma editor_input_newline:
  assumes "cmd_env_ok E"
  obtains w' where "editor_input E cs mb NL long w = (0, mb, True, w')"
proof -
  obtain pw where "ce_pr E = (\<lambda>f a w. (0, pw f a w))" using assms by (rule cmd_env_ok_print)
  then show ?thesis by (intro that) (simp add: editor_input_def)
qed

lemma cmd_report_line:
  assumes "cmd_env_ok E" "mb_at_end mb"
  shows "cmd_report E (Some cmd) mb data w =
    (let (err, w) = cmd_call (Some cmd) \<lparr>ca_key = c_key cmd, ca_prm = Some (line_of mb), ca_data = data\<rparr> w
     in (err, mb\<lparr>mb_pos := 0\<rparr>, w))"
proof -
  let ?m = "mb\<lparr>mb_pos := 0\<rparr>"
  have wf: "mb_wf ?m" and u: "mb_unread ?m = mb_data mb"
    using assms(2) by (simp_all add: mb_at_end_def mb_wf_def mb_unread_def mb_data_def)
  have len: "length (mb_data mb) = mb_end mb" using assms(2) by (simp add: mb_at_end_def mb_data_length)
  have "ce_strdup E ?m (mb_end mb) = (0, chars_of (take (mb_end mb) (mb_unread ?m)))"
    using assms(1) wf u len unfolding cmd_env_ok_def by simp
  then have "ce_strdup E ?m (mb_end mb) = (0, line_of mb)" using u len by (simp add: line_of_data)
  then show ?thesis by (simp add: cmd_report_def)
qed

lemma ctx_alloc_ok:
  assumes "cmd_env_ok E"
  obtains mb where "ctx_alloc E cmd = (0, Some \<lparr>cx_mb = mb, cx_cmd = cmd, cx_is_long = False\<rparr>)"
    "mb_at_end mb" "line_of mb = []"
  using assms by (auto simp: cmd_env_ok_def ctx_alloc_def line_of_data)

lemma cmd_keys_report:
  assumes "cmd_env_ok E" "mb_at_end (cx_mb cx)" "cx_cmd cx = Some cmd" "\<not> cx_is_long cx" "c_h cmd = Some h"
  shows "\<exists>w1. cmd_keys E (Some cs) (Some cx) [NL] data w =
    (None, snd (h \<lparr>ca_key = c_key cmd, ca_prm = Some (line_of (cx_mb cx)), ca_data = data\<rparr> w1))"
proof -
  obtain w1 where "editor_input E (Some cs) (cx_mb cx) NL (cx_is_long cx) w = (0, cx_mb cx, True, w1)"
    using assms(1) by (rule editor_input_newline)
  then have "cmd_keys E (Some cs) (Some cx) [NL] data w =
    (None, snd (h \<lparr>ca_key = c_key cmd, ca_prm = Some (line_of (cx_mb cx)), ca_data = data\<rparr> w1))"
    using assms(3-5) cmd_report_line[OF assms(1,2)]
    by (auto simp: cmd_process_def cmd_process_edit_def cmd_call_def split: prod.splits)
  then show ?thesis by blast
qed

text \<open>
  a command with a parameter, from its key to the newline: whatever is typed, backspaces
  included, the handler is called once, at the newline, with the edited line as its
  parameter, and the editor is closed.  A digit that starts the command is the first
  character of the line.
\<close>

theorem cmd_prm_line:
  assumes "cmd_env_ok E" "key \<noteq> KEYCODE_NONE" "cmd_find_by_key (Some cs) key = Some cmd"
    "c_flags cmd AND CMD_PRM \<noteq> 0" "c_h cmd = Some h" "\<forall>k\<in>set ks. plain_key False k"
  shows "\<exists>w1. cmd_keys E (Some cs) None (key # ks @ [NL]) data w =
    (None, snd (h \<lparr>ca_key = c_key cmd,
                   ca_prm = Some (foldl edit_key (if isdigit_c key then [key] else []) ks),
                   ca_data = data\<rparr> w1))"
proof -
  let ?key = "if isdigit_c key then key else KEYCODE_REL"
  obtain mb0 where mb0: "ctx_alloc E (Some cmd) = (0, Some \<lparr>cx_mb = mb0, cx_cmd = Some cmd, cx_is_long = False\<rparr>)"
    "mb_at_end mb0" "line_of mb0 = []" using assms(1) by (rule ctx_alloc_ok)
  have "?key \<noteq> KEYCODE_ESC" "?key \<noteq> NL" by (auto simp: isdigit_c_def keycode_defs)
  then obtain mb1 w1 where e: "editor_input E (Some cs) mb0 ?key False w = (0, mb1, False, w1)" "mb_at_end mb1"
    "line_of mb1 = edit_key (line_of mb0) ?key"
    using editor_input_key[OF assms(1) mb0(2)] by blast
  define cx where "cx = \<lparr>cx_mb = mb1, cx_cmd = Some cmd, cx_is_long = False\<rparr>"
  have "cmd_process E (Some cs) True None key data w = (0, Some cx, w1)"
    using assms(2-4) mb0(1) e(1) \<open>?key \<noteq> NL\<close>
    by (simp add: cmd_process_def cmd_process_edit_def cx_def split del: if_split)
  moreover have "mb_at_end (cx_mb cx)" "\<forall>k\<in>set ks. plain_key (cx_is_long cx) k" "cx_mb cx = mb1"
    using e(2) assms(6) by (simp_all add: cx_def)
  then obtain mb2 w2 where "cmd_keys E (Some cs) (Some cx) (ks @ [NL]) data w1 =
      cmd_keys E (Some cs) (Some (cx\<lparr>cx_mb := mb2\<rparr>)) [NL] data w2"
    "mb_at_end mb2" "line_of mb2 = foldl edit_key (line_of mb1) ks"
    using cmd_keys_line[OF assms(1), of cx ks cs "[NL]" data w1] by metis
  moreover have "line_of mb1 = (if isdigit_c key then [key] else [])"
    using e(3) mb0(3) by (auto simp: edit_key_def isdigit_c_def keycode_defs)
  ultimately show ?thesis
    using cmd_keys_report[OF assms(1), of "cx\<lparr>cx_mb := mb2\<rparr>" cmd h cs data w2] assms(5)
    by (simp add: cx_def)
qed

definition cmd_regex_laws :: "('d, 'w) cmd_env \<Rightarrow> bool" where
  "cmd_regex_laws E = ((\<forall>s. ce_pl_strdup E s = (0, s)) \<and>
     (\<forall>nm n prm. nm \<noteq> [] \<longrightarrow> CHR '' '' \<notin> set nm \<longrightarrow> (prm = [] \<or> n > 0 \<and> hd prm \<noteq> CHR '' '') \<longrightarrow>
        ce_regex E (nm @ replicate n (CHR '' '') @ prm) = (0, nm, prm)))"

text \<open>
  a long command, from its prefix to the newline: the handler of the command named by the first
  word of the line is called with the rest of the line, and the editor is closed.
\<close>

theorem cmd_long_line:
  assumes "cmd_env_ok E" "cmd_regex_laws E" "cmd_find_by_key (Some cs) LONG_PREFIX = None"
    "\<forall>k\<in>set ks. plain_key True k" "foldl edit_key [] ks = nm @ replicate n (CHR '' '') @ prm"
    "nm \<noteq> []" "CHR '' '' \<notin> set nm" "prm = [] \<or> n > 0 \<and> hd prm \<noteq> CHR '' ''"
    "cmd_find_long E (Some cs) (Some nm) = Some cmd" "c_h cmd = Some h"
  shows "\<exists>w1. cmd_keys E (Some cs) None (LONG_PREFIX # ks @ [NL]) data w =
    (None, snd (h \<lparr>ca_key = LONG_PREFIX, ca_prm = (if prm = [] then None else Some prm), ca_data = data\<rparr> w1))"
proof -
  obtain pw where pw: "ce_pr E = (\<lambda>f a w. (0, pw f a w))" using assms(1) by (rule cmd_env_ok_print)
  obtain mb0 where mb0: "ctx_alloc E None = (0, Some \<lparr>cx_mb = mb0, cx_cmd = None, cx_is_long = False\<rparr>)"
    "mb_at_end mb0" "line_of mb0 = []" using assms(1) by (rule ctx_alloc_ok)
  define cx where "cx = \<lparr>cx_mb = mb0, cx_cmd = None :: ('a, 'b) cmd option, cx_is_long = True\<rparr>"
  have "\<exists>w1. cmd_process E (Some cs) True None LONG_PREFIX data w = (0, Some cx, w1)"
    using assms(3) mb0(1) by (simp add: cmd_process_def pw cx_def)
  then obtain w1 where "cmd_process E (Some cs) True None LONG_PREFIX data w = (0, Some cx, w1)" ..
  moreover have "mb_at_end (cx_mb cx)" "\<forall>k\<in>set ks. plain_key (cx_is_long cx) k" "cx_mb cx = mb0"
    using mb0(2) assms(4) by (simp_all add: cx_def)
  then obtain mb2 w2 where "cmd_keys E (Some cs) (Some cx) (ks @ [NL]) data w1 =
      cmd_keys E (Some cs) (Some (cx\<lparr>cx_mb := mb2\<rparr>)) [NL] data w2"
    "mb_at_end mb2" "line_of mb2 = foldl edit_key (line_of mb0) ks"
    using cmd_keys_line[OF assms(1), of cx ks cs "[NL]" data w1] by metis
  moreover obtain w3 where "editor_input E (Some cs) mb2 NL True w2 = (0, mb2, True, w3)"
    using assms(1) by (rule editor_input_newline)
  then have "cmd_keys E (Some cs) (Some (cx\<lparr>cx_mb := mb2\<rparr>)) [NL] data w2 =
      (None, snd (cmd_process_long E (Some cs) (Some (line_of mb2)) data w3))"
    by (auto simp: cmd_process_def cmd_process_edit_def cx_def split: prod.splits)
  moreover have "cmd_process_long E (Some cs) (Some (nm @ replicate n (CHR '' '') @ prm)) data w3 =
      h \<lparr>ca_key = LONG_PREFIX, ca_prm = (if prm = [] then None else Some prm), ca_data = data\<rparr> w3"
    using assms(2,6-10) by (auto simp: cmd_process_long_def cmd_regex_laws_def str_of_def cmd_call_def)
  ultimately show ?thesis using mb0(3) assms(5) by auto
qed

lemma cmd_print_lines_ok:
  assumes "ce_pr E = (\<lambda>f a w. (0, pw f a w))"
  shows "\<exists>w'. cmd_print_lines E fmt l s cs 0 w = (0, w')"
  using assms by (induction cs arbitrary: w) (auto simp: Let_def)

lemma cmd_print_all_ok:
  assumes "cmd_env_ok E" "\<forall>n f a. 0 \<le> fst (ce_snprintf E n f a)"
  obtains w' where "cmd_print_all E (Some cs) l s m w = (0, w')"
proof -
  obtain pw where pw: "ce_pr E = (\<lambda>f a w. (0, pw f a w))" using assms(1) by (rule cmd_env_ok_print)
  obtain fmt n where n: "ce_snprintf E 64 (''  %%-%zus    %%-%zus    %%s'' @ [NL])
      [FNum (fold (\<lambda>cmd. max (1 + length (str_of (c_name cmd)) + 3))
         (filter (cmd_listed l s m) (concat (map cb_cmdv cs))) 1), FNum 5] = (n, fmt)" "\<not> n < 0"
    using assms(2) by (metis fst_conv not_less prod.collapse)
  obtain w' where "cmd_print_lines E fmt l s
      (ce_list_sort E (sort_handler E l) (filter (cmd_listed l s m) (concat (map cb_cmdv cs)))) 0 w = (0, w')"
    using cmd_print_lines_ok[OF pw] by blast
  then have "\<exists>w'. cmd_print_all E (Some cs) l s m w = (0, w')"
    using assms(1) n by (simp add: cmd_print_all_def cmd_env_ok_def pw Let_def)
  then show ?thesis using that by blast
qed

text \<open>
  TAB in a long command: when exactly one command has a long name that starts with the line, the
  line becomes that name; otherwise the line stays as it is.  The completed line starts
  with what was typed, and the editor stays open.
\<close>

theorem cmd_tab_completes:
  assumes "cmd_env_ok E" "\<forall>n f a. 0 \<le> fst (ce_snprintf E n f a)"
    "mb_at_end (cx_mb cx)" "cx_is_long cx"
  shows "\<exists>mb' w'. cmd_process E (Some cs) True (Some cx) TAB data w = (0, Some (cx\<lparr>cx_mb := mb'\<rparr>), w') \<and>
    mb_at_end mb' \<and> take (length (line_of (cx_mb cx))) (line_of mb') = line_of (cx_mb cx) \<and>
    line_of mb' = (case filter (\<lambda>c. str_isset (c_name c) \<and> starts_with (line_of (cx_mb cx)) c)
                          (concat (map cb_cmdv cs)) of
                     [c] \<Rightarrow> str_of (c_name c)
                   | _ \<Rightarrow> line_of (cx_mb cx))"
proof -
  let ?mb = "cx_mb cx"
  let ?ms = "filter (\<lambda>c. str_isset (c_name c) \<and> starts_with (line_of ?mb) c) (concat (map cb_cmdv cs))"
  obtain pw where pw: "ce_pr E = (\<lambda>f a w. (0, pw f a w))" using assms(1) by (rule cmd_env_ok_print)
  obtain w1 where w1: "cmd_print_all E (Some cs) True False (Some (line_of ?mb))
      (pw (''TAB completion for \"%b\":'' @ [NL]) [FBuf (line_of ?mb)] w) = (0, w1)"
    using assms(1,2) by (rule cmd_print_all_ok)
  define mb' where "mb' = (case ?ms of
      [c] \<Rightarrow> snd (m_write_mem (ce_mbuf E) (?mb\<lparr>mb_pos := 0\<rparr>) (bytes_of (str_of (c_name c)))) | _ \<Rightarrow> ?mb)"
  have "\<exists>w2. tab_complete E (Some cs) ?mb w = (False, 0, mb', w2)"
    using w1 by (cases ?ms rule: remdups_adj.cases)
      (auto simp: tab_complete_def pw get_match_long_def mb'_def)
  then obtain w2 where "tab_complete E (Some cs) ?mb w = (False, 0, mb', w2)" ..
  then have "\<exists>w'. cmd_process E (Some cs) True (Some cx) TAB data w = (0, Some (cx\<lparr>cx_mb := mb'\<rparr>), w')"
    using assms(4) by (auto simp: cmd_process_def cmd_process_edit_def editor_input_def pw)
  moreover have "mb_at_end mb' \<and> take (length (line_of ?mb)) (line_of mb') = line_of ?mb \<and>
      line_of mb' = (case ?ms of [c] \<Rightarrow> str_of (c_name c) | _ \<Rightarrow> line_of ?mb)"
  proof (cases "\<exists>c. ?ms = [c]")
    case True
    then obtain c where c: "?ms = [c]" by blast
    then have "c \<in> set ?ms" by simp
    then have "starts_with (line_of ?mb) c" by simp
    then show ?thesis using c line_replace[OF assms(1,3), of "str_of (c_name c)"]
      by (simp add: mb'_def starts_with_def)
  next
    case False
    then have "mb' = ?mb" "(case ?ms of [c] \<Rightarrow> str_of (c_name c) | _ \<Rightarrow> line_of ?mb) = line_of ?mb"
      unfolding mb'_def by (auto split: list.split)
    then show ?thesis using assms(3) by simp
  qed
  ultimately show ?thesis by blast
qed

lemma ref_cmd_env_ok: "cmd_env_ok ref_cmd_env"
proof -
  have "mb_at_end (mbuf_of [])" by (simp add: mb_at_end_def mbuf_of_def mb_wf_def)
  then show ?thesis by (simp add: cmd_env_ok_def ref_cmd_env_def ref_mbuf_laws ref_mbuf_no_oom)
qed

lemma ref_cmd_regex_laws: "cmd_regex_laws ref_cmd_env"
proof -
  have "ref_regex (nm @ replicate n (CHR '' '') @ prm) = (0, nm, prm)"
    if "nm \<noteq> []" "CHR '' '' \<notin> set nm" "prm = [] \<or> n > 0 \<and> hd prm \<noteq> CHR '' ''" for nm n prm
  proof -
    let ?sp = "CHR '' ''"
    have hd: "hd nm \<noteq> ?sp" using that(1,2) by (metis hd_in_set)
    have d: "dropWhile (\<lambda>c. c = ?sp) (nm @ r) = nm @ r" for r
      using hd that(1) by (cases nm) auto
    have t: "takeWhile (\<lambda>c. c \<noteq> ?sp) (nm @ replicate n ?sp @ prm) = nm"
      using that by (subst takeWhile_append2) (auto simp: takeWhile_eq_Nil_iff hd_append)
    have "dropWhile (\<lambda>c. c = ?sp) prm = prm" using that(3) by (cases prm) auto
    then have "dropWhile (\<lambda>c. c = ?sp) (replicate n ?sp @ prm) = prm" by (induction n) simp_all
    then show ?thesis using that(1) by (simp add: ref_regex_def d t)
  qed
  then show ?thesis by (simp add: cmd_regex_laws_def ref_cmd_env_def)
qed

theorem cmd_prm_line_witness:
  "\<exists>w1. cmd_keys ref_cmd_env (Some [dial_block]) None (CHR ''d'' # [CHR ''4'', CHR ''3'', BS, CHR ''2''] @ [NL]) () [] =
    (None, snd (log_handler \<lparr>ca_key = CHR ''d'', ca_prm = Some ''42'', ca_data = ()\<rparr> w1))"
  using cmd_prm_line[OF ref_cmd_env_ok, of "CHR ''d''" "[dial_block]" dial_cmd log_handler
      "[CHR ''4'', CHR ''3'', BS, CHR ''2'']" "()" "[]"]
  by (simp add: cmd_find_by_key_def dial_block_def dial_cmd_def CMD_PRM_def plain_key_def edit_key_def
      keycode_defs isdigit_c_def)

theorem cmd_long_line_witness:
  "\<exists>w1. cmd_keys ref_cmd_env (Some [dial_block]) None (LONG_PREFIX # ''DIAL 42'' @ [NL]) () [] =
    (None, snd (log_handler \<lparr>ca_key = LONG_PREFIX, ca_prm = Some ''42'', ca_data = ()\<rparr> w1))"
  using cmd_long_line[OF ref_cmd_env_ok ref_cmd_regex_laws, of "[dial_block]" "''DIAL 42''" "''DIAL''" 1 "''42''"
      dial_cmd log_handler "()" "[]"]
  by (simp add: cmd_find_by_key_def dial_block_def dial_cmd_def plain_key_def edit_key_def keycode_defs
      cmd_find_long_def ref_cmd_env_def ref_casecmp_def fold_case_def tolower_c_def)

definition long_ctx :: "(unit, cmd_log) cmd_ctx" where
  "long_ctx = \<lparr>cx_mb = \<lparr>mb_buf = bytes_of ''di'', mb_pos = 2, mb_end = 2\<rparr>, cx_cmd = None, cx_is_long = True\<rparr>"

theorem cmd_tab_completes_witness:
  "\<exists>mb' w'. cmd_process ref_cmd_env (Some [dial_block, quit_block]) True (Some long_ctx) TAB () [] =
     (0, Some (long_ctx\<lparr>cx_mb := mb'\<rparr>), w') \<and> line_of mb' = ''dial''"
proof -
  have "mb_at_end (cx_mb long_ctx)" "cx_is_long long_ctx" "\<forall>n f a. 0 \<le> fst (ce_snprintf ref_cmd_env n f a)"
    by (simp_all add: long_ctx_def mb_at_end_def mb_wf_def bytes_of_def ref_cmd_env_def)
  moreover have "line_of (cx_mb long_ctx) = ''di''"
    using chars_bytes[of "''di''"] by (simp add: line_of_def long_ctx_def bytes_of_def)
  ultimately show ?thesis
    using cmd_tab_completes[OF ref_cmd_env_ok, of long_ctx "[dial_block, quit_block]" "()" "[]"]
    by (auto simp: starts_with_def dial_block_def quit_block_def dial_cmd_def quit_cmd_def str_of_def)
qed

end
