(* ===== verification/Registry.thy ===== *)
theory Registry
  imports Prelude
begin

text \<open>
  The registries modules add themselves to: audio and video codecs, sources, players,
  displays and filters, media NAT and encryption methods, and the device list of a driver
  (\<open>src/aucodec.c\<close>, \<open>src/vidcodec.c\<close>, \<open>src/ausrc.c\<close>, \<open>src/auplay.c\<close>, \<open>src/vidsrc.c\<close>,
  \<open>src/vidisp.c\<close>, \<open>src/aufilt.c\<close>, \<open>src/vidfilt.c\<close>, \<open>src/mnat.c\<close>, \<open>src/menc.c\<close>,
  \<open>src/mediadev.c\<close>).

  A \<open>struct list *\<close> is an optional list, None for NULL; an entry carries its address, by
  which it is unlinked.  \<open>str_casecmp\<close> of libre is the argument \<open>sc\<close>.
\<close>

subsection \<open>Lists\<close>

definition list_elems :: "'a list option \<Rightarrow> 'a list" where
  "list_elems l = (case l of None \<Rightarrow> [] | Some xs \<Rightarrow> xs)"

definition list_append :: "'a list option \<Rightarrow> 'a \<Rightarrow> 'a list option" where
  "list_append l x = map_option (\<lambda>xs. xs @ [x]) l"

definition list_unlink :: "('a \<Rightarrow> nat) \<Rightarrow> nat \<Rightarrow> 'a list option \<Rightarrow> 'a list option" where
  "list_unlink addr a l = map_option (filter (\<lambda>x. addr x \<noteq> a)) l"

lemma list_elems_simps [simp]:
  "list_elems None = []" "list_elems (Some xs) = xs"
  by (simp_all add: list_elems_def)

lemma list_append_simps [simp]: "list_append None x = None" "list_append (Some xs) x = Some (xs @ [x])"
  by (simp_all add: list_append_def)

lemma list_unlink_simps [simp]:
  "list_elems (list_unlink addr a l) = filter (\<lambda>x. addr x \<noteq> a) (list_elems l)"
  by (cases l) (simp_all add: list_unlink_def)

type_synonym casecmp = "string option \<Rightarrow> string option \<Rightarrow> int"

subsection \<open>Codecs\<close>

text \<open>The handlers of a codec are only tested for NULL here; \<open>'h\<close> is their type.\<close>

record 'h aucodec =
  ac_addr :: nat
  ac_pt :: "string option"
  ac_name :: "string option"
  ac_srate :: u32
  ac_crate :: u32
  ac_ch :: u8
  ac_pch :: u8
  ac_ptime :: u32
  ac_fmtp :: "string option"
  ac_encupdh :: "'h option"
  ac_ench :: "'h option"
  ac_decupdh :: "'h option"
  ac_dech :: "'h option"
  ac_plch :: "'h option"

definition aucodec_register :: "'h aucodec list option \<Rightarrow> 'h aucodec option \<Rightarrow> 'h aucodec list option" where
  "aucodec_register aucodecl ac =
     (case ac of None \<Rightarrow> aucodecl | Some ac \<Rightarrow> list_append aucodecl ac)"

definition aucodec_unregister :: "'h aucodec list option \<Rightarrow> 'h aucodec option \<Rightarrow> 'h aucodec list option" where
  "aucodec_unregister aucodecl ac =
     (case ac of None \<Rightarrow> aucodecl | Some ac \<Rightarrow> list_unlink ac_addr (ac_addr ac) aucodecl)"

text \<open>One pass of the loop: the entry is skipped for another name, sample rate or channel count.\<close>

definition aucodec_skip :: "casecmp \<Rightarrow> string option \<Rightarrow> u32 \<Rightarrow> u8 \<Rightarrow> 'h aucodec \<Rightarrow> bool" where
  "aucodec_skip sc name srate ch ac =
     (name \<noteq> None \<and> sc name (ac_name ac) \<noteq> 0 \<or> srate \<noteq> 0 \<and> srate \<noteq> ac_srate ac \<or> ch \<noteq> 0 \<and> ch \<noteq> ac_ch ac)"

fun aucodec_find :: "casecmp \<Rightarrow> 'h aucodec list \<Rightarrow> string option \<Rightarrow> u32 \<Rightarrow> u8 \<Rightarrow> 'h aucodec option" where
  "aucodec_find sc [] name srate ch = None"
| "aucodec_find sc (ac # l) name srate ch =
     (if aucodec_skip sc name srate ch ac then aucodec_find sc l name srate ch else Some ac)"

record 'h vidcodec =
  vc_addr :: nat
  vc_pt :: "string option"
  vc_name :: "string option"
  vc_variant :: "string option"
  vc_fmtp :: "string option"
  vc_encupdh :: "'h option"
  vc_ench :: "'h option"
  vc_decupdh :: "'h option"
  vc_dech :: "'h option"

definition vidcodec_register :: "'h vidcodec list option \<Rightarrow> 'h vidcodec option \<Rightarrow> 'h vidcodec list option" where
  "vidcodec_register vidcodecl vc =
     (case vc of None \<Rightarrow> vidcodecl | Some vc \<Rightarrow> list_append vidcodecl vc)"

definition vidcodec_unregister :: "'h vidcodec list option \<Rightarrow> 'h vidcodec option \<Rightarrow> 'h vidcodec list option" where
  "vidcodec_unregister vidcodecl vc =
     (case vc of None \<Rightarrow> vidcodecl | Some vc \<Rightarrow> list_unlink vc_addr (vc_addr vc) vidcodecl)"

fun vidcodec_find :: "casecmp \<Rightarrow> 'h vidcodec list \<Rightarrow> string option \<Rightarrow> string option \<Rightarrow> 'h vidcodec option" where
  "vidcodec_find sc [] name variant = None"
| "vidcodec_find sc (vc # l) name variant =
     (if name \<noteq> None \<and> sc name (vc_name vc) \<noteq> 0 then vidcodec_find sc l name variant
      else if variant \<noteq> None \<and> sc variant (vc_variant vc) \<noteq> 0 then vidcodec_find sc l name variant
      else Some vc)"

fun vidcodec_find_encoder :: "casecmp \<Rightarrow> 'h vidcodec list \<Rightarrow> string option \<Rightarrow> 'h vidcodec option" where
  "vidcodec_find_encoder sc [] name = None"
| "vidcodec_find_encoder sc (vc # l) name =
     (if name \<noteq> None \<and> sc name (vc_name vc) \<noteq> 0 then vidcodec_find_encoder sc l name
      else if vc_ench vc \<noteq> None then Some vc
      else vidcodec_find_encoder sc l name)"

fun vidcodec_find_decoder :: "casecmp \<Rightarrow> 'h vidcodec list \<Rightarrow> string option \<Rightarrow> 'h vidcodec option" where
  "vidcodec_find_decoder sc [] name = None"
| "vidcodec_find_decoder sc (vc # l) name =
     (if name \<noteq> None \<and> sc name (vc_name vc) \<noteq> 0 then vidcodec_find_decoder sc l name
      else if vc_dech vc \<noteq> None then Some vc
      else vidcodec_find_decoder sc l name)"

subsection \<open>Device lists\<close>

record mediadev =
  dv_addr :: nat
  dv_name :: "string option"

fun mediadev_find :: "casecmp \<Rightarrow> mediadev list \<Rightarrow> string option \<Rightarrow> mediadev option" where
  "mediadev_find sc [] name = None"
| "mediadev_find sc (dev # l) name =
     (if sc (dv_name dev) name = 0 then Some dev else mediadev_find sc l name)"

text \<open>\<open>zalloc\<close> is the address of the new entry, \<open>dup\<close> the copy of the name; None is no memory.\<close>

definition mediadev_add ::
  "casecmp \<Rightarrow> nat option \<Rightarrow> string option \<Rightarrow> mediadev list option \<Rightarrow> string option \<Rightarrow> err \<times> mediadev list option" where
  "mediadev_add sc zalloc dup dev_list name =
     (if dev_list = None \<or> \<not> str_isset name then (EINVAL, dev_list)
      else if mediadev_find sc (list_elems dev_list) name \<noteq> None then (0, dev_list)
      else case zalloc of
             None \<Rightarrow> (ENOMEM, dev_list)
           | Some a \<Rightarrow>
               if dup = None then (ENOMEM, dev_list)
               else (0, list_append dev_list \<lparr>dv_addr = a, dv_name = dup\<rparr>))"

definition mediadev_get_default :: "mediadev list option \<Rightarrow> mediadev option" where
  "mediadev_get_default dev_list =
     (case dev_list of Some (dev # l) \<Rightarrow> Some dev | _ \<Rightarrow> None)"

fun mediadev_print_loop ::
  "(string \<Rightarrow> fmt_arg list \<Rightarrow> 'w \<Rightarrow> err \<times> 'w) \<Rightarrow> mediadev list \<Rightarrow> err \<Rightarrow> 'w \<Rightarrow> err \<times> 'w" where
  "mediadev_print_loop pr [] err w = (err, w)"
| "mediadev_print_loop pr (dev # l) err w =
     (let (e, w) = pr (''%s'' @ [CHR 0x0a]) [FStr (str_of (dv_name dev))] w
      in mediadev_print_loop pr l (err OR e) w)"

definition mediadev_print ::
  "(string \<Rightarrow> fmt_arg list \<Rightarrow> 'w \<Rightarrow> err \<times> 'w) \<Rightarrow> mediadev list option \<Rightarrow> 'w \<Rightarrow> err \<times> 'w" where
  "mediadev_print pr dev_list w =
     (case dev_list of
        None \<Rightarrow> (0, w)
      | Some l \<Rightarrow>
          let (err, w) = pr (''Devices: (%u)'' @ [CHR 0x0a]) [FNum (length l)] w
          in mediadev_print_loop pr l err w)"

subsection \<open>Audio and video drivers\<close>

text \<open>
  \<open>alloch\<close> gets its arguments as one value \<open>'p\<close> and returns an error and a state \<open>'st\<close>.
  The registering functions get the address of the new entry, None when memory is short.
\<close>

record ('p, 'st) ausrc =
  as_addr :: nat
  as_name :: "string option"
  as_dev_list :: "mediadev list"
  as_alloch :: "'p \<Rightarrow> err \<times> 'st option"

definition ausrc_register ::
  "bool \<Rightarrow> nat option \<Rightarrow> ('p, 'st) ausrc list option \<Rightarrow> string option \<Rightarrow> ('p \<Rightarrow> err \<times> 'st option)
     \<Rightarrow> err \<times> ('p, 'st) ausrc list option" where
  "ausrc_register asp zalloc ausrcl name alloch =
     (if \<not> asp then (EINVAL, ausrcl)
      else case zalloc of
             None \<Rightarrow> (ENOMEM, ausrcl)
           | Some a \<Rightarrow>
               (0, list_append ausrcl \<lparr>as_addr = a, as_name = name, as_dev_list = [], as_alloch = alloch\<rparr>))"

fun ausrc_find :: "casecmp \<Rightarrow> ('p, 'st) ausrc list \<Rightarrow> string option \<Rightarrow> ('p, 'st) ausrc option" where
  "ausrc_find sc [] name = None"
| "ausrc_find sc (as # l) name =
     (if str_isset name \<and> sc name (as_name as) \<noteq> 0 then ausrc_find sc l name else Some as)"

definition ausrc_alloc ::
  "casecmp \<Rightarrow> ('p, 'st) ausrc list \<Rightarrow> string option \<Rightarrow> 'p \<Rightarrow> err \<times> 'st option" where
  "ausrc_alloc sc ausrcl name prm =
     (case ausrc_find sc ausrcl name of None \<Rightarrow> (ENOENT, None) | Some as \<Rightarrow> as_alloch as prm)"

record auplay_prm =
  pp_srate :: u32
  pp_ch :: u8
  pp_ptime :: u32
  pp_fmt :: int

record ('p, 'st) auplay =
  ap_addr :: nat
  ap_name :: "string option"
  ap_dev_list :: "mediadev list"
  ap_alloch :: "auplay_prm \<Rightarrow> 'p \<Rightarrow> err \<times> 'st option"

definition auplay_register ::
  "bool \<Rightarrow> nat option \<Rightarrow> ('p, 'st) auplay list option \<Rightarrow> string option
     \<Rightarrow> (auplay_prm \<Rightarrow> 'p \<Rightarrow> err \<times> 'st option) \<Rightarrow> err \<times> ('p, 'st) auplay list option" where
  "auplay_register app zalloc auplayl name alloch =
     (if \<not> app then (EINVAL, auplayl)
      else case zalloc of
             None \<Rightarrow> (ENOMEM, auplayl)
           | Some a \<Rightarrow>
               (0, list_append auplayl \<lparr>ap_addr = a, ap_name = name, ap_dev_list = [], ap_alloch = alloch\<rparr>))"

fun auplay_find :: "casecmp \<Rightarrow> ('p, 'st) auplay list \<Rightarrow> string option \<Rightarrow> ('p, 'st) auplay option" where
  "auplay_find sc [] name = None"
| "auplay_find sc (ap # l) name =
     (if str_isset name \<and> sc name (ap_name ap) \<noteq> 0 then auplay_find sc l name else Some ap)"

definition auplay_alloc ::
  "casecmp \<Rightarrow> ('p, 'st) auplay list \<Rightarrow> string option \<Rightarrow> auplay_prm \<Rightarrow> 'p \<Rightarrow> err \<times> 'st option" where
  "auplay_alloc sc auplayl name prm p =
     (case auplay_find sc auplayl name of
        None \<Rightarrow> (ENOENT, None)
      | Some ap \<Rightarrow> if pp_srate prm = 0 \<or> pp_ch prm = 0 then (EINVAL, None) else ap_alloch ap prm p)"

record ('p, 'st, 'u) vidsrc =
  vs_addr :: nat
  vs_name :: "string option"
  vs_dev_list :: "mediadev list"
  vs_alloch :: "'p \<Rightarrow> err \<times> 'st option"
  vs_updateh :: "'u option"

definition vidsrc_register ::
  "bool \<Rightarrow> nat option \<Rightarrow> ('p, 'st, 'u) vidsrc list option \<Rightarrow> string option \<Rightarrow> ('p \<Rightarrow> err \<times> 'st option)
     \<Rightarrow> 'u option \<Rightarrow> err \<times> ('p, 'st, 'u) vidsrc list option" where
  "vidsrc_register vsp zalloc vidsrcl name alloch updateh =
     (if \<not> vsp \<or> vidsrcl = None then (EINVAL, vidsrcl)
      else case zalloc of
             None \<Rightarrow> (ENOMEM, vidsrcl)
           | Some a \<Rightarrow>
               (0, list_append vidsrcl \<lparr>vs_addr = a, vs_name = name, vs_dev_list = [],
                                        vs_alloch = alloch, vs_updateh = updateh\<rparr>))"

fun vidsrc_find :: "casecmp \<Rightarrow> ('p, 'st, 'u) vidsrc list \<Rightarrow> string option \<Rightarrow> ('p, 'st, 'u) vidsrc option" where
  "vidsrc_find sc [] name = None"
| "vidsrc_find sc (vs # l) name =
     (if str_isset name \<and> sc name (vs_name vs) \<noteq> 0 then vidsrc_find sc l name else Some vs)"

definition vidsrc_alloc ::
  "casecmp \<Rightarrow> ('p, 'st, 'u) vidsrc list \<Rightarrow> string option \<Rightarrow> 'p \<Rightarrow> err \<times> 'st option" where
  "vidsrc_alloc sc vidsrcl name prm =
     (case vidsrc_find sc vidsrcl name of None \<Rightarrow> (ENOENT, None) | Some vs \<Rightarrow> vs_alloch vs prm)"

record ('p, 'st, 'f, 'w) vidisp =
  vd_addr :: nat
  vd_name :: "string option"
  vd_alloch :: "'p \<Rightarrow> err \<times> 'st option"
  vd_updateh :: "('st \<Rightarrow> 'w \<Rightarrow> err \<times> 'w) option"
  vd_disph :: "string option \<Rightarrow> 'f \<Rightarrow> u64 \<Rightarrow> 'w \<Rightarrow> err \<times> 'w"
  vd_hideh :: "('w \<Rightarrow> 'w) option"

definition vidisp_register ::
  "bool \<Rightarrow> nat option \<Rightarrow> ('p, 'st, 'f, 'w) vidisp list option \<Rightarrow> string option \<Rightarrow> ('p \<Rightarrow> err \<times> 'st option)
     \<Rightarrow> ('st \<Rightarrow> 'w \<Rightarrow> err \<times> 'w) option \<Rightarrow> (string option \<Rightarrow> 'f \<Rightarrow> u64 \<Rightarrow> 'w \<Rightarrow> err \<times> 'w) \<Rightarrow> ('w \<Rightarrow> 'w) option
     \<Rightarrow> err \<times> ('p, 'st, 'f, 'w) vidisp list option" where
  "vidisp_register vp zalloc vidispl name alloch updateh disph hideh =
     (if \<not> vp \<or> vidispl = None then (EINVAL, vidispl)
      else case zalloc of
             None \<Rightarrow> (ENOMEM, vidispl)
           | Some a \<Rightarrow>
               (0, list_append vidispl \<lparr>vd_addr = a, vd_name = name, vd_alloch = alloch,
                     vd_updateh = updateh, vd_disph = disph, vd_hideh = hideh\<rparr>))"

fun vidisp_find ::
  "casecmp \<Rightarrow> ('p, 'st, 'f, 'w) vidisp list \<Rightarrow> string option \<Rightarrow> ('p, 'st, 'f, 'w) vidisp option" where
  "vidisp_find sc [] name = None"
| "vidisp_find sc (vd # l) name =
     (if str_isset name \<and> sc name (vd_name vd) \<noteq> 0 then vidisp_find sc l name else Some vd)"

definition vidisp_alloc ::
  "casecmp \<Rightarrow> ('p, 'st, 'f, 'w) vidisp list \<Rightarrow> string option \<Rightarrow> 'p \<Rightarrow> err \<times> 'st option" where
  "vidisp_alloc sc vidispl name prm =
     (case vidisp_find sc vidispl name of None \<Rightarrow> (ENOENT, None) | Some vd \<Rightarrow> vd_alloch vd prm)"

text \<open>A display state points to its display; the frame may be NULL.\<close>

record ('p, 'st, 'f, 'w) vidisp_st =
  vst_vd :: "('p, 'st, 'f, 'w) vidisp"

definition vidisp_display ::
  "('p, 'st, 'f, 'w) vidisp_st option \<Rightarrow> string option \<Rightarrow> 'f option \<Rightarrow> u64 \<Rightarrow> 'w \<Rightarrow> err \<times> 'w" where
  "vidisp_display st title frame timestamp w =
     (case (st, frame) of
        (Some st, Some f) \<Rightarrow> vd_disph (vst_vd st) title f timestamp w
      | _ \<Rightarrow> (EINVAL, w))"

definition vidisp_get :: "('p, 'st, 'f, 'w) vidisp_st option \<Rightarrow> ('p, 'st, 'f, 'w) vidisp option" where
  "vidisp_get st = map_option vst_vd st"

subsection \<open>Filters\<close>

record aufilt =
  af_addr :: nat
  af_name :: "string option"

definition aufilt_register :: "aufilt list option \<Rightarrow> aufilt option \<Rightarrow> aufilt list option" where
  "aufilt_register aufiltl af = (case af of None \<Rightarrow> aufiltl | Some af \<Rightarrow> list_append aufiltl af)"

definition aufilt_unregister :: "aufilt list option \<Rightarrow> aufilt option \<Rightarrow> aufilt list option" where
  "aufilt_unregister aufiltl af =
     (case af of None \<Rightarrow> aufiltl | Some af \<Rightarrow> list_unlink af_addr (af_addr af) aufiltl)"

text \<open>The update handlers of a filter return an error and the filter state \<open>'st\<close>.\<close>

record ('p, 'st) vidfilt =
  vf_addr :: nat
  vf_name :: "string option"
  vf_encupdh :: "('p \<Rightarrow> err \<times> 'st) option"
  vf_decupdh :: "('p \<Rightarrow> err \<times> 'st) option"

record ('p, 'st) vidfilt_st =
  vfs_vf :: "('p, 'st) vidfilt"
  vfs_priv :: "'st option"

definition vidfilt_register ::
  "('p, 'st) vidfilt list option \<Rightarrow> ('p, 'st) vidfilt option \<Rightarrow> ('p, 'st) vidfilt list option" where
  "vidfilt_register vidfiltl vf = (case vf of None \<Rightarrow> vidfiltl | Some vf \<Rightarrow> list_append vidfiltl vf)"

definition vidfilt_unregister ::
  "('p, 'st) vidfilt list option \<Rightarrow> ('p, 'st) vidfilt option \<Rightarrow> ('p, 'st) vidfilt list option" where
  "vidfilt_unregister vidfiltl vf =
     (case vf of None \<Rightarrow> vidfiltl | Some vf \<Rightarrow> list_unlink vf_addr (vf_addr vf) vidfiltl)"

definition vidfilt_enc_append ::
  "bool \<Rightarrow> ('p, 'st) vidfilt_st list option \<Rightarrow> ('p, 'st) vidfilt \<Rightarrow> 'p \<Rightarrow> err \<times> ('p, 'st) vidfilt_st list option" where
  "vidfilt_enc_append zalloc filtl vf prm =
     (case vf_encupdh vf of
        Some upd \<Rightarrow>
          (case upd prm of
             (err, st) \<Rightarrow>
               if err \<noteq> 0 then (err, filtl)
               else (0, list_append filtl \<lparr>vfs_vf = vf, vfs_priv = Some st\<rparr>))
      | None \<Rightarrow>
          if \<not> zalloc then (ENOMEM, filtl)
          else (0, list_append filtl \<lparr>vfs_vf = vf, vfs_priv = None\<rparr>))"

definition vidfilt_dec_append ::
  "bool \<Rightarrow> ('p, 'st) vidfilt_st list option \<Rightarrow> ('p, 'st) vidfilt \<Rightarrow> 'p \<Rightarrow> err \<times> ('p, 'st) vidfilt_st list option" where
  "vidfilt_dec_append zalloc filtl vf prm =
     (case vf_decupdh vf of
        Some upd \<Rightarrow>
          (case upd prm of
             (err, st) \<Rightarrow>
               if err \<noteq> 0 then (err, filtl)
               else (0, list_append filtl \<lparr>vfs_vf = vf, vfs_priv = Some st\<rparr>))
      | None \<Rightarrow>
          if \<not> zalloc then (ENOMEM, filtl)
          else (0, list_append filtl \<lparr>vfs_vf = vf, vfs_priv = None\<rparr>))"

subsection \<open>Media NAT and media encryption\<close>

record mnat =
  mn_addr :: nat
  mn_id :: "string option"
  mn_ftag :: "string option"
  mn_wait_connected :: bool
  mn_updateh :: bool

definition mnat_register :: "mnat list option \<Rightarrow> mnat option \<Rightarrow> mnat list option" where
  "mnat_register mnatl mnat = (case mnat of None \<Rightarrow> mnatl | Some m \<Rightarrow> list_append mnatl m)"

definition mnat_unregister :: "mnat list option \<Rightarrow> mnat option \<Rightarrow> mnat list option" where
  "mnat_unregister mnatl mnat =
     (case mnat of None \<Rightarrow> mnatl | Some m \<Rightarrow> list_unlink mn_addr (mn_addr m) mnatl)"

fun mnat_find :: "casecmp \<Rightarrow> mnat list \<Rightarrow> string option \<Rightarrow> mnat option" where
  "mnat_find sc [] nid = None"
| "mnat_find sc (m # l) nid = (if sc (mn_id m) nid \<noteq> 0 then mnat_find sc l nid else Some m)"

record menc =
  me_addr :: nat
  me_id :: "string option"
  me_sessh :: bool

definition menc_register :: "menc list option \<Rightarrow> menc option \<Rightarrow> menc list option" where
  "menc_register mencl menc = (case menc of None \<Rightarrow> mencl | Some m \<Rightarrow> list_append mencl m)"

definition menc_unregister :: "menc list option \<Rightarrow> menc option \<Rightarrow> menc list option" where
  "menc_unregister mencl menc =
     (case menc of None \<Rightarrow> mencl | Some m \<Rightarrow> list_unlink me_addr (me_addr m) mencl)"

fun menc_find :: "casecmp \<Rightarrow> menc list \<Rightarrow> string option \<Rightarrow> menc option" where
  "menc_find sc [] nid = None"
| "menc_find sc (m # l) nid = (if sc nid (me_id m) = 0 then Some m else menc_find sc l nid)"

datatype menc_event = MENC_EVENT_SECURE | MENC_EVENT_VERIFY_REQUEST | MENC_EVENT_PEER_VERIFIED

definition menc_event_name :: "menc_event option \<Rightarrow> string" where
  "menc_event_name event =
     (case event of
        Some MENC_EVENT_SECURE \<Rightarrow> ''Secure''
      | Some MENC_EVENT_VERIFY_REQUEST \<Rightarrow> ''Verify Request''
      | Some MENC_EVENT_PEER_VERIFIED \<Rightarrow> ''Peer Verified''
      | None \<Rightarrow> ''?'')"

subsection \<open>The contract of the look-ups\<close>

text \<open>Every look-up returns the first entry of the list that matches the query.\<close>

locale first_match =
  fixes lookup :: "'q \<Rightarrow> 'a list \<Rightarrow> 'a option"
    and matches :: "'q \<Rightarrow> 'a \<Rightarrow> bool"
  assumes lookup_find: "lookup q l = List.find (matches q) l"
begin

lemma lookup_None: "lookup q l = None \<longleftrightarrow> (\<forall>x\<in>set l. \<not> matches q x)"
  by (auto simp: lookup_find find_None_iff)

lemma lookup_append: "lookup q (l @ l') = (case lookup q l of Some x \<Rightarrow> Some x | None \<Rightarrow> lookup q l')"
  unfolding lookup_find by (induction l) auto

lemma lookup_register:
  "lookup q (l @ [x]) = (case lookup q l of Some y \<Rightarrow> Some y | None \<Rightarrow> if matches q x then Some x else None)"
  unfolding lookup_append by (simp add: lookup_find split: option.split)

lemma lookup_kept: "lookup q l = Some x \<Longrightarrow> keep x \<Longrightarrow> lookup q (filter keep l) = Some x"
  unfolding lookup_find by (induction l) (auto split: if_splits)

lemma lookup_gone: "lookup q l = None \<Longrightarrow> lookup q (filter keep l) = None"
  by (simp add: lookup_None)

lemma lookup_unregister:
  "case lookup q l of None \<Rightarrow> lookup q (filter keep l) = None
   | Some x \<Rightarrow> \<not> keep x \<or> lookup q (filter keep l) = Some x"
  using lookup_gone lookup_kept by (cases "lookup q l") auto

lemma lookup_removed:
  "case lookup q (filter keep l) of None \<Rightarrow> True | Some x \<Rightarrow> keep x \<and> matches q x"
proof (cases "lookup q (filter keep l)")
  case (Some x)
  then obtain i where i: "i < length (filter keep l)" "matches q (filter keep l ! i)" "x = filter keep l ! i"
    unfolding lookup_find find_Some_iff by blast
  then have "x \<in> set (filter keep l)" by (simp only: nth_mem)
  then show ?thesis using Some i by simp
qed simp

end

definition au_query :: "casecmp \<times> string option \<times> u32 \<times> u8 \<Rightarrow> 'h aucodec \<Rightarrow> bool" where
  "au_query = (\<lambda>(sc, name, srate, ch) ac. \<not> aucodec_skip sc name srate ch ac)"

interpretation aucodecs: first_match "\<lambda>(sc, name, srate, ch) l. aucodec_find sc l name srate ch" au_query
proof
  show "(case q of (sc, name, srate, ch) \<Rightarrow> \<lambda>l. aucodec_find sc l name srate ch) l = List.find (au_query q) l"
    for q and l :: "'h aucodec list"
    by (induction l) (auto simp: au_query_def split: prod.splits)
qed

definition name_query :: "('a \<Rightarrow> string option) \<Rightarrow> ('a \<Rightarrow> bool) \<Rightarrow> casecmp \<times> string option \<Rightarrow> 'a \<Rightarrow> bool" where
  "name_query name_of able = (\<lambda>(sc, name) x. (name = None \<or> sc name (name_of x) = 0) \<and> able x)"

interpretation encoders: first_match "\<lambda>(sc, name) l. vidcodec_find_encoder sc l name"
  "name_query vc_name (\<lambda>vc. vc_ench vc \<noteq> None)"
proof
  show "(case q of (sc, name) \<Rightarrow> \<lambda>l. vidcodec_find_encoder sc l name) l =
      List.find (name_query vc_name (\<lambda>vc. vc_ench vc \<noteq> None) q) l" for q and l :: "'h vidcodec list"
    by (induction l) (auto simp: name_query_def split: prod.splits)
qed

interpretation decoders: first_match "\<lambda>(sc, name) l. vidcodec_find_decoder sc l name"
  "name_query vc_name (\<lambda>vc. vc_dech vc \<noteq> None)"
proof
  show "(case q of (sc, name) \<Rightarrow> \<lambda>l. vidcodec_find_decoder sc l name) l =
      List.find (name_query vc_name (\<lambda>vc. vc_dech vc \<noteq> None) q) l" for q and l :: "'h vidcodec list"
    by (induction l) (auto simp: name_query_def split: prod.splits)
qed

text \<open>A driver is also found under an empty name.\<close>

definition driver_query :: "('a \<Rightarrow> string option) \<Rightarrow> casecmp \<times> string option \<Rightarrow> 'a \<Rightarrow> bool" where
  "driver_query name_of = (\<lambda>(sc, name) x. str_isset name \<longrightarrow> sc name (name_of x) = 0)"

interpretation ausrcs: first_match "\<lambda>(sc, name) l. ausrc_find sc l name" "driver_query as_name"
proof
  show "(case q of (sc, name) \<Rightarrow> \<lambda>l. ausrc_find sc l name) l = List.find (driver_query as_name q) l"
    for q and l :: "('p, 'st) ausrc list"
    by (induction l) (auto simp: driver_query_def split: prod.splits)
qed

interpretation auplays: first_match "\<lambda>(sc, name) l. auplay_find sc l name" "driver_query ap_name"
proof
  show "(case q of (sc, name) \<Rightarrow> \<lambda>l. auplay_find sc l name) l = List.find (driver_query ap_name q) l"
    for q and l :: "('p, 'st) auplay list"
    by (induction l) (auto simp: driver_query_def split: prod.splits)
qed

interpretation vidsrcs: first_match "\<lambda>(sc, name) l. vidsrc_find sc l name" "driver_query vs_name"
proof
  show "(case q of (sc, name) \<Rightarrow> \<lambda>l. vidsrc_find sc l name) l = List.find (driver_query vs_name q) l"
    for q and l :: "('p, 'st, 'u) vidsrc list"
    by (induction l) (auto simp: driver_query_def split: prod.splits)
qed

interpretation vidisps: first_match "\<lambda>(sc, name) l. vidisp_find sc l name" "driver_query vd_name"
proof
  show "(case q of (sc, name) \<Rightarrow> \<lambda>l. vidisp_find sc l name) l = List.find (driver_query vd_name q) l"
    for q and l :: "('p, 'st, 'f, 'w) vidisp list"
    by (induction l) (auto simp: driver_query_def split: prod.splits)
qed

definition id_query :: "('a \<Rightarrow> string option) \<Rightarrow> casecmp \<times> string option \<Rightarrow> 'a \<Rightarrow> bool" where
  "id_query name_of = (\<lambda>(sc, name) x. sc name (name_of x) = 0)"

interpretation mencs: first_match "\<lambda>(sc, nid) l. menc_find sc l nid" "id_query me_id"
proof
  show "(case q of (sc, nid) \<Rightarrow> \<lambda>l. menc_find sc l nid) l = List.find (id_query me_id q) l" for q l
    by (induction l) (auto simp: id_query_def split: prod.splits)
qed

text \<open>The device list and the NAT methods pass the arguments of \<open>str_casecmp\<close> the other way round.\<close>

definition rev_query :: "('a \<Rightarrow> string option) \<Rightarrow> casecmp \<times> string option \<Rightarrow> 'a \<Rightarrow> bool" where
  "rev_query name_of = (\<lambda>(sc, name) x. sc (name_of x) name = 0)"

interpretation mnats: first_match "\<lambda>(sc, nid) l. mnat_find sc l nid" "rev_query mn_id"
proof
  show "(case q of (sc, nid) \<Rightarrow> \<lambda>l. mnat_find sc l nid) l = List.find (rev_query mn_id q) l" for q l
    by (induction l) (auto simp: rev_query_def split: prod.splits)
qed

interpretation devs: first_match "\<lambda>(sc, name) l. mediadev_find sc l name" "rev_query dv_name"
proof
  show "(case q of (sc, name) \<Rightarrow> \<lambda>l. mediadev_find sc l name) l = List.find (rev_query dv_name q) l" for q l
    by (induction l) (auto simp: rev_query_def split: prod.splits)
qed

text \<open>
  codecs are found in the order of their registration: registering one changes a look-up
  only when nothing was found before; after a codec was unregistered no look-up returns it,
  and every look-up that found another one still does.
\<close>

theorem codec_registration:
  "vidcodec_find_encoder sc (list_elems (vidcodec_register (Some l) (Some c))) name =
     (case vidcodec_find_encoder sc l name of
        Some x \<Rightarrow> Some x
      | None \<Rightarrow> if (name = None \<or> sc name (vc_name c) = 0) \<and> vc_ench c \<noteq> None then Some c else None) \<and>
   vidcodec_find_decoder sc (list_elems (vidcodec_register (Some l) (Some c))) name =
     (case vidcodec_find_decoder sc l name of
        Some x \<Rightarrow> Some x
      | None \<Rightarrow> if (name = None \<or> sc name (vc_name c) = 0) \<and> vc_dech c \<noteq> None then Some c else None) \<and>
   aucodec_find sc (list_elems (aucodec_register (Some al) (Some ac))) name srate ch =
     (case aucodec_find sc al name srate ch of
        Some x \<Rightarrow> Some x
      | None \<Rightarrow> if (name = None \<or> sc name (ac_name ac) = 0) \<and> srate \<in> {0, ac_srate ac} \<and> ch \<in> {0, ac_ch ac}
                then Some ac else None) \<and>
   (case vidcodec_find_encoder sc l name of
      None \<Rightarrow> vidcodec_find_encoder sc (list_elems (vidcodec_unregister (Some l) (Some c))) name = None
    | Some x \<Rightarrow> vc_addr x = vc_addr c \<or>
        vidcodec_find_encoder sc (list_elems (vidcodec_unregister (Some l) (Some c))) name = Some x) \<and>
   (case vidcodec_find_encoder sc (list_elems (vidcodec_unregister (Some l) (Some c))) name of
      None \<Rightarrow> True | Some x \<Rightarrow> vc_addr x \<noteq> vc_addr c \<and> vc_ench x \<noteq> None) \<and>
   (case aucodec_find sc al name srate ch of
      None \<Rightarrow> aucodec_find sc (list_elems (aucodec_unregister (Some al) (Some ac))) name srate ch = None
    | Some x \<Rightarrow> ac_addr x = ac_addr ac \<or>
        aucodec_find sc (list_elems (aucodec_unregister (Some al) (Some ac))) name srate ch = Some x) \<and>
   (case aucodec_find sc (list_elems (aucodec_unregister (Some al) (Some ac))) name srate ch of
      None \<Rightarrow> True | Some x \<Rightarrow> ac_addr x \<noteq> ac_addr ac)"
proof (intro conjI)
  note defs = vidcodec_register_def vidcodec_unregister_def aucodec_register_def aucodec_unregister_def
  show "vidcodec_find_encoder sc (list_elems (vidcodec_register (Some l) (Some c))) name =
     (case vidcodec_find_encoder sc l name of
        Some x \<Rightarrow> Some x
      | None \<Rightarrow> if (name = None \<or> sc name (vc_name c) = 0) \<and> vc_ench c \<noteq> None then Some c else None)"
    using encoders.lookup_register[of "(sc, name)" l c]
    by (auto simp: defs name_query_def split: option.split)
  show "vidcodec_find_decoder sc (list_elems (vidcodec_register (Some l) (Some c))) name =
     (case vidcodec_find_decoder sc l name of
        Some x \<Rightarrow> Some x
      | None \<Rightarrow> if (name = None \<or> sc name (vc_name c) = 0) \<and> vc_dech c \<noteq> None then Some c else None)"
    using decoders.lookup_register[of "(sc, name)" l c]
    by (auto simp: defs name_query_def split: option.split)
  show "aucodec_find sc (list_elems (aucodec_register (Some al) (Some ac))) name srate ch =
     (case aucodec_find sc al name srate ch of
        Some x \<Rightarrow> Some x
      | None \<Rightarrow> if (name = None \<or> sc name (ac_name ac) = 0) \<and> srate \<in> {0, ac_srate ac} \<and> ch \<in> {0, ac_ch ac}
                then Some ac else None)"
    using aucodecs.lookup_register[of "(sc, name, srate, ch)" al ac]
    by (auto simp: defs au_query_def aucodec_skip_def split: option.split)
  show "case vidcodec_find_encoder sc l name of
      None \<Rightarrow> vidcodec_find_encoder sc (list_elems (vidcodec_unregister (Some l) (Some c))) name = None
    | Some x \<Rightarrow> vc_addr x = vc_addr c \<or>
        vidcodec_find_encoder sc (list_elems (vidcodec_unregister (Some l) (Some c))) name = Some x"
    using encoders.lookup_unregister[of "(sc, name)" "\<lambda>x. vc_addr x \<noteq> vc_addr c" l]
    by (cases "vidcodec_find_encoder sc l name") (simp_all add: defs)
  show "case vidcodec_find_encoder sc (list_elems (vidcodec_unregister (Some l) (Some c))) name of
      None \<Rightarrow> True | Some x \<Rightarrow> vc_addr x \<noteq> vc_addr c \<and> vc_ench x \<noteq> None"
    using encoders.lookup_removed[of "\<lambda>x. vc_addr x \<noteq> vc_addr c" "(sc, name)" l]
    by (cases "vidcodec_find_encoder sc (filter (\<lambda>x. vc_addr x \<noteq> vc_addr c) l) name")
       (simp_all add: defs name_query_def)
  show "case aucodec_find sc al name srate ch of
      None \<Rightarrow> aucodec_find sc (list_elems (aucodec_unregister (Some al) (Some ac))) name srate ch = None
    | Some x \<Rightarrow> ac_addr x = ac_addr ac \<or>
        aucodec_find sc (list_elems (aucodec_unregister (Some al) (Some ac))) name srate ch = Some x"
    using aucodecs.lookup_unregister[of "(sc, name, srate, ch)" "\<lambda>x. ac_addr x \<noteq> ac_addr ac" al]
    by (cases "aucodec_find sc al name srate ch") (simp_all add: defs)
  show "case aucodec_find sc (list_elems (aucodec_unregister (Some al) (Some ac))) name srate ch of
      None \<Rightarrow> True | Some x \<Rightarrow> ac_addr x \<noteq> ac_addr ac"
    using aucodecs.lookup_removed[of "\<lambda>x. ac_addr x \<noteq> ac_addr ac" "(sc, name, srate, ch)" al]
    by (cases "aucodec_find sc (filter (\<lambda>x. ac_addr x \<noteq> ac_addr ac) al) name srate ch")
       (simp_all add: defs)
qed

definition devs_distinct :: "mediadev list \<Rightarrow> bool" where
  "devs_distinct l = distinct (map (\<lambda>d. map_option fold_case (dv_name d)) l)"

text \<open>
  a device list never holds two devices whose names are equal up to case, devices keep
  their position, a successful \<open>mediadev_add\<close> makes the device findable, and a failed one
  changes nothing.
\<close>

theorem mediadev_add_distinct:
  assumes "casecmp_laws sc" "devs_distinct l" "dup = None \<or> dup = name"
    "mediadev_add sc zalloc dup (Some l) name = (err, l')"
  shows "\<exists>new. l' = Some (l @ new) \<and> devs_distinct (l @ new) \<and>
    (if err = 0 then mediadev_find sc (l @ new) name \<noteq> None else new = [])"
proof (cases "\<not> str_isset name \<or> mediadev_find sc l name \<noteq> None \<or> zalloc = None \<or> dup = None")
  case True
  then show ?thesis using assms(2,4)
    by (intro exI[of _ "[]"]) (auto simp: mediadev_add_def split: if_splits option.splits)
next
  case False
  then obtain a where a: "zalloc = Some a" "dup = name" using assms(3) by auto
  have l': "l' = Some (l @ [\<lparr>dv_addr = a, dv_name = name\<rparr>])" "err = 0"
    using False a assms(4) by (auto simp: mediadev_add_def split: if_splits option.splits)
  have "mediadev_find sc l name = None" using False by simp
  then have "\<forall>d\<in>set l. sc (dv_name d) name \<noteq> 0"
    using devs.lookup_None[of "(sc, name)" l] by (simp add: rev_query_def)
  then have "map_option fold_case name \<notin> (\<lambda>d. map_option fold_case (dv_name d)) ` set l"
    using assms(1) by (auto simp: casecmp_laws_def)
  then have "devs_distinct (l @ [\<lparr>dv_addr = a, dv_name = name\<rparr>])"
    using assms(2) by (simp add: devs_distinct_def)
  moreover have "mediadev_find sc (l @ [\<lparr>dv_addr = a, dv_name = name\<rparr>]) name \<noteq> None"
    using devs.lookup_None[of "(sc, name)" "l @ [\<lparr>dv_addr = a, dv_name = name\<rparr>]"] assms(1)
    by (auto simp: rev_query_def casecmp_laws_def)
  ultimately show ?thesis using l' by auto
qed

theorem mediadev_add_distinct_witness:
  "\<exists>new. mediadev_add ref_casecmp (Some 7) (Some ''mic'') (Some [\<lparr>dv_addr = 3, dv_name = Some ''spk''\<rparr>]) (Some ''mic'') =
     (0, Some ([\<lparr>dv_addr = 3, dv_name = Some ''spk''\<rparr>] @ new)) \<and>
   devs_distinct ([\<lparr>dv_addr = 3, dv_name = Some ''spk''\<rparr>] @ new)"
proof -
  let ?l = "[\<lparr>dv_addr = 3, dv_name = Some ''spk''\<rparr>]"
  have "mediadev_add ref_casecmp (Some 7) (Some ''mic'') (Some ?l) (Some ''mic'') =
      (0, Some (?l @ [\<lparr>dv_addr = 7, dv_name = Some ''mic''\<rparr>]))"
    by (simp add: mediadev_add_def ref_casecmp_def fold_case_def tolower_c_def)
  from mediadev_add_distinct[OF ref_casecmp_ok _ _ this] this show ?thesis
    by (auto simp: devs_distinct_def)
qed

end
