(* ===== verification/Rtp.thy ===== *)
theory Rtp
  imports Prelude Complex_Main
begin

text \<open>
  RTP time and statistics: the 32-bit timestamp arithmetic (\<open>src/timestamp.c\<close>) and its two
  users, \<open>update_rtp_timestamp\<close> of \<open>src/video.c\<close> and the first half of
  \<open>stream_recv_handler\<close> of \<open>src/audio.c\<close>; the one-byte header extensions of RFC 5285
  (\<open>src/rtpext.c\<close>); the packet and byte counters with the bitrate timer
  (\<open>src/metric.c\<close>).  Floating point results are rational numbers.
\<close>

subsection \<open>Timestamps\<close>

text \<open>\<open>(int32_t)ts_new - (int32_t)ts_old\<close> is stored in an \<open>int32_t\<close>, so it wraps.\<close>

definition timestamp_wrap :: "u32 \<Rightarrow> u32 \<Rightarrow> int" where
  "timestamp_wrap ts_new ts_old =
     (if ts_new < ts_old
      then (let delta = sint (word_of_int (sint ts_new - sint ts_old) :: u32) in if delta > 0 then 1 else 0)
      else if sint (ts_old - ts_new) > 0 then - 1
      else 0)"

record timestamp_recv =
  tr_first :: u32
  tr_last :: u32
  tr_is_set :: bool
  tr_num_wraps :: u32

definition timestamp_set :: "timestamp_recv \<Rightarrow> u32 \<Rightarrow> timestamp_recv" where
  "timestamp_set ts rtp_ts = ts\<lparr>tr_first := rtp_ts, tr_last := rtp_ts, tr_is_set := True\<rparr>"

definition timestamp_calc_extended :: "u32 \<Rightarrow> u32 \<Rightarrow> u64" where
  "timestamp_calc_extended num_wraps ts = ucast num_wraps * 0x100000000 + ucast ts"

definition timestamp_duration :: "timestamp_recv option \<Rightarrow> u64" where
  "timestamp_duration ts =
     (case ts of
        None \<Rightarrow> 0
      | Some ts \<Rightarrow> if \<not> tr_is_set ts then 0
                  else timestamp_calc_extended (tr_num_wraps ts) (tr_last ts) - ucast (tr_first ts))"

definition timestamp_calc_seconds :: "u64 \<Rightarrow> u32 \<Rightarrow> rat" where
  "timestamp_calc_seconds ts clock_rate = of_nat (unat ts) / of_nat (unat clock_rate)"

text \<open>The receiver of video packets.\<close>

definition update_rtp_timestamp :: "timestamp_recv \<Rightarrow> u32 \<Rightarrow> timestamp_recv" where
  "update_rtp_timestamp tsr rtp_ts =
     (if tr_is_set tsr
      then
        let wrap = timestamp_wrap rtp_ts (tr_last tsr)
        in if wrap = - 1 then tsr
           else (if wrap = 1 then tsr\<lparr>tr_num_wraps := tr_num_wraps tsr + 1\<rparr> else tsr)\<lparr>tr_last := rtp_ts\<rparr>
      else (timestamp_set tsr rtp_ts)\<lparr>tr_last := rtp_ts\<rparr>)"

text \<open>The receiver of audio packets: whether the frame is discarded, and the new state.\<close>

definition aurx_timestamp :: "timestamp_recv \<Rightarrow> u32 \<Rightarrow> bool \<times> timestamp_recv" where
  "aurx_timestamp ts rtp_ts =
     (let (discard, ts) =
        (if tr_is_set ts
         then (timestamp_calc_extended (tr_num_wraps ts) rtp_ts
                 \<le> timestamp_calc_extended (tr_num_wraps ts) (tr_last ts), ts)
         else (False, timestamp_set ts rtp_ts));
        wrap = timestamp_wrap rtp_ts (tr_last ts);
        discard = (discard \<or> wrap = - 1);
        ts = (if wrap = 1 then ts\<lparr>tr_num_wraps := tr_num_wraps ts + 1\<rparr> else ts)
      in (discard, ts\<lparr>tr_last := rtp_ts\<rparr>))"

subsection \<open>Header extensions\<close>

definition RTPEXT_HDR_SIZE :: nat where "RTPEXT_HDR_SIZE = 4"
definition RTPEXT_TYPE_MAGIC :: u16 where "RTPEXT_TYPE_MAGIC = 0xbede"
definition RTPEXT_ID_MIN :: nat where "RTPEXT_ID_MIN = 1"
definition RTPEXT_ID_MAX :: nat where "RTPEXT_ID_MAX = 14"
definition RTPEXT_LEN_MIN :: nat where "RTPEXT_LEN_MIN = 1"
definition RTPEXT_LEN_MAX :: nat where "RTPEXT_LEN_MAX = 16"

lemmas rtpext_defs = RTPEXT_ID_MIN_def RTPEXT_ID_MAX_def RTPEXT_LEN_MIN_def RTPEXT_LEN_MAX_def

text \<open>Both fields of \<open>struct rtpext\<close> are 4 bits wide.\<close>

record rtpext =
  ex_id :: "4 word"
  ex_len :: "4 word"
  ex_data :: "u8 list"

definition rtpext_hdr_encode :: "mbuf_ops \<Rightarrow> mbuf option \<Rightarrow> nat \<Rightarrow> err \<times> mbuf option" where
  "rtpext_hdr_encode M mb num_bytes =
     (case mb of
        None \<Rightarrow> (EINVAL, mb)
      | Some m \<Rightarrow>
          if num_bytes = 0 then (EINVAL, mb)
          else if num_bytes mod 4 \<noteq> 0 then (EINVAL, mb)
          else
            let (e1, m) = m_write_u16 M m (htons RTPEXT_TYPE_MAGIC);
                (e2, m) = m_write_u16 M m (htons (of_nat (num_bytes div 4)))
            in (e1 OR e2, Some m))"

text \<open>The padding loop; it goes on for as long as the position is not a multiple of 4 away.\<close>

partial_function (option) rtpext_pad :: "mbuf_ops \<Rightarrow> nat \<Rightarrow> mbuf \<Rightarrow> err \<Rightarrow> (err \<times> mbuf) option" where
  "rtpext_pad M start mb err =
     (if size_sub (mb_pos mb) start mod 4 \<noteq> 0
      then let (e, mb) = m_write_u8 M mb 0 in rtpext_pad M start mb (err OR e)
      else Some (err, mb))"

definition rtpext_encode ::
  "mbuf_ops \<Rightarrow> mbuf option \<Rightarrow> nat \<Rightarrow> nat \<Rightarrow> u8 list option \<Rightarrow> (err \<times> mbuf option) option" where
  "rtpext_encode M mb extid len data =
     (case (mb, data) of
        (Some m, Some d) \<Rightarrow>
          if extid < RTPEXT_ID_MIN \<or> extid > RTPEXT_ID_MAX then Some (EINVAL, mb)
          else if len < RTPEXT_LEN_MIN \<or> len > RTPEXT_LEN_MAX then Some (EINVAL, mb)
          else
            let start = mb_pos m;
                (e1, m) = m_write_u8 M m (push_bit 4 (of_nat extid) OR of_nat (len - 1));
                (e2, m) = m_write_mem M m (take len d)
            in if e1 OR e2 \<noteq> 0 then Some (e1 OR e2, Some m)
               else map_option (\<lambda>(err, m). (err, Some m)) (rtpext_pad M start m 0)
      | _ \<Rightarrow> Some (EINVAL, mb))"

text \<open>Skipping the padding: zero bytes up to the next extension or the end.\<close>

partial_function (option) rtpext_skip :: "mbuf_ops \<Rightarrow> mbuf \<Rightarrow> mbuf option" where
  "rtpext_skip M mb =
     (if m_get_left M mb = 0 then Some mb
      else if m_rest M mb ! 0 \<noteq> 0 then Some mb
      else rtpext_skip M (m_advance M mb 1))"

definition rtpext_decode :: "mbuf_ops \<Rightarrow> mbuf option \<Rightarrow> (err \<times> rtpext option \<times> mbuf option) option" where
  "rtpext_decode M mb =
     (case mb of
        None \<Rightarrow> Some (EINVAL, None, mb)
      | Some m \<Rightarrow>
          if m_get_left M m < 1 then Some (EBADMSG, None, mb)
          else
            let (v, m) = m_read_u8 M m;
                ext = \<lparr>ex_id = ucast (drop_bit 4 v), ex_len = ucast ((v AND 0x0f) + 1),
                       ex_data = replicate RTPEXT_LEN_MAX 0\<rparr>
            in if unat (ex_id ext) < RTPEXT_ID_MIN \<or> unat (ex_id ext) > RTPEXT_ID_MAX
               then Some (EBADMSG, Some ext, Some m)
               else if unat (ex_len ext) > m_get_left M m then Some (ENODATA, Some ext, Some m)
               else
                 let (err, d, m) = m_read_mem M m (unat (ex_len ext));
                     ext = ext\<lparr>ex_data := d @ drop (length d) (ex_data ext)\<rparr>
                 in if err \<noteq> 0 then Some (err, Some ext, Some m)
                    else map_option (\<lambda>m. (0, Some ext, Some m)) (rtpext_skip M m))"

subsection \<open>Metrics\<close>

record metric =
  me_ts_start :: u64
  me_started :: bool
  me_n_packets :: u32
  me_n_bytes :: u32
  me_n_err :: u32
  me_cur_bitrate :: u32
  me_ts_last :: u64
  me_n_bytes_last :: u32
  me_tmr :: bool

definition metric_start :: "u64 \<Rightarrow> metric \<Rightarrow> metric" where
  "metric_start now metric =
     (if me_started metric then metric else metric\<lparr>me_ts_start := now, me_started := True\<rparr>)"

text \<open>\<open>1000 * 8 * bytes / diff\<close> is computed in \<open>uint32_t\<close>; \<open>now\<close> is \<open>tmr_jiffies()\<close>.\<close>

definition metric_tmr_handler :: "u64 \<Rightarrow> metric \<Rightarrow> metric" where
  "metric_tmr_handler now metric =
     (let metric = metric\<lparr>me_tmr := True\<rparr>
      in if \<not> me_started metric then metric
         else if now \<le> me_ts_last metric then metric
         else
           let metric =
             (if me_ts_last metric \<noteq> 0
              then let bytes = me_n_bytes metric - me_n_bytes_last metric;
                       diff = ucast (now - me_ts_last metric) :: u32
                   in metric\<lparr>me_cur_bitrate := 1000 * 8 * bytes div diff\<rparr>
              else metric)
           in metric\<lparr>me_ts_last := now, me_n_bytes_last := me_n_bytes metric\<rparr>)"

definition metric_init :: "err \<Rightarrow> metric option \<Rightarrow> err \<times> metric option" where
  "metric_init lock_alloc metric =
     (case metric of
        None \<Rightarrow> (EINVAL, None)
      | Some m \<Rightarrow> if lock_alloc \<noteq> 0 then (lock_alloc, metric) else (0, Some (m\<lparr>me_tmr := True\<rparr>)))"

definition metric_reset :: "metric \<Rightarrow> metric" where
  "metric_reset metric = metric\<lparr>me_tmr := False\<rparr>"

definition metric_add_packet :: "u64 \<Rightarrow> metric \<Rightarrow> nat \<Rightarrow> metric" where
  "metric_add_packet now metric packetsize =
     (let metric = (if \<not> me_started metric then metric_start now metric else metric)
      in metric\<lparr>me_n_bytes := me_n_bytes metric + of_nat packetsize,
                me_n_packets := me_n_packets metric + 1\<rparr>)"

text \<open>\<open>diff\<close> is an \<open>int\<close>; a division by 0 gives 0 here, infinity or NaN in the code.\<close>

definition metric_avg_bitrate :: "u64 \<Rightarrow> metric option \<Rightarrow> rat" where
  "metric_avg_bitrate now metric =
     (case metric of
        None \<Rightarrow> 0
      | Some m \<Rightarrow>
          if me_ts_start m = 0 then 0
          else let diff = sint (ucast (now - me_ts_start m) :: u32)
               in 1000 * 8 * of_nat (unat (me_n_bytes m)) / of_int diff)"

subsection \<open>Timestamp arithmetic\<close>

lemma sint_diff_word: "(word_of_int (sint a - sint b) :: u32) = a - b" for a b :: u32
  by simp

text \<open>Signed 32-bit values in terms of unsigned ones.\<close>

lemma u32_unat: "unat (w :: u32) < 2 ^ 32"
  using unsigned_less[of w, where 'a = nat] by simp

lemma u32_sint:
  assumes "n = unat (w :: u32)"
  shows "sint w = (if n < 2 ^ 31 then int n else int n - 2 ^ 32)"
proof -
  have n: "n < 2 ^ 32" using u32_unat[of w] assms by simp
  have "sint w = (int n + 2 ^ 31) mod 2 ^ 32 - 2 ^ 31"
    unfolding assms by (simp add: sint_uint signed_take_bit_eq_take_bit_shift take_bit_eq_mod)
  moreover have "(int n + 2 ^ 31) mod 2 ^ 32 = (if n < 2 ^ 31 then int n + 2 ^ 31 else int n - 2 ^ 31)"
  proof (cases "n < 2 ^ 31")
    case False
    then have "(int n + 2 ^ 31) mod 2 ^ 32 = (int n - 2 ^ 31) mod 2 ^ 32"
      using mod_add_self2[of "int n - 2 ^ 31" "2 ^ 32"] by (simp add: add.commute)
    then show ?thesis using False n by simp
  qed (use n in simp)
  ultimately show ?thesis by simp
qed

text \<open>The signed difference, case by case.\<close>

lemma u32_sint_diff:
  assumes "n = unat a" "m = unat b"
  shows "sint (a - b :: u32) =
    (if m \<le> n then (if n < m + 2 ^ 31 then int n - int m else int n - int m - 2 ^ 32)
     else if n + 2 ^ 31 < m then int n - int m + 2 ^ 32 else int n - int m)"
proof -
  have b: "n < 2 ^ 32" "m < 2 ^ 32" using assms u32_unat by simp_all
  have "(if m \<le> n then n - m else n + 2 ^ 32 - m) = unat (a - b)"
    unfolding assms by (simp add: unat_sub_if')
  from u32_sint[OF this] show ?thesis using b by (cases "m \<le> n"; simp add: of_nat_diff; arith)
qed

text \<open>The four outcomes, on the unsigned values.\<close>

lemma timestamp_wrap_cases:
  assumes "n = unat ts_new" "m = unat ts_old"
  shows "timestamp_wrap ts_new ts_old =
    (if n < m then (if n + 2 ^ 31 < m then 1 else 0)
     else if m + 2 ^ 31 < n then - 1 else 0)"
proof -
  have b: "n < 2 ^ 32" "m < 2 ^ 32" using assms u32_unat by simp_all
  have lt: "ts_new < ts_old \<longleftrightarrow> n < m" using assms by (simp add: word_less_nat_alt)
  show ?thesis
  proof (cases "n < m")
    case True
    then show ?thesis using b unfolding timestamp_wrap_def sint_diff_word Let_def u32_sint_diff[OF assms] lt
      by simp
  next
    case False
    then show ?thesis using b unfolding timestamp_wrap_def u32_sint_diff[OF assms(2,1)] lt by simp
  qed
qed

text \<open>
  the comparison of two timestamps is serial number arithmetic: with the signed 32-bit
  difference, the result is 1 exactly for a later timestamp beyond the wrap, -1 exactly for
  an earlier timestamp before the wrap, and 0 otherwise; half the circle counts as neither.
\<close>

theorem timestamp_wrap_serial:
  "timestamp_wrap ts_new ts_old =
     (let d = sint (ts_new - ts_old)
      in if unat ts_new < unat ts_old \<and> d > 0 then 1
         else if unat ts_old < unat ts_new \<and> d < 0 \<and> d \<noteq> - (2 ^ 31) then - 1
         else 0)"
proof -
  define n m where "n = unat ts_new" and "m = unat ts_old"
  have b: "n < 2 ^ 32" "m < 2 ^ 32" using u32_unat by (simp_all add: n_def m_def)
  show ?thesis
    unfolding timestamp_wrap_cases[OF n_def m_def] u32_sint_diff[OF n_def m_def] Let_def n_def[symmetric] m_def[symmetric]
    using b by (cases "n < m"; cases "n = m") simp_all
qed

text \<open>The extended time of a receiver, and what a packet of the true time \<open>T\<close> does to it.\<close>

definition ext_time :: "timestamp_recv \<Rightarrow> nat" where
  "ext_time ts = unat (tr_num_wraps ts) * 2 ^ 32 + unat (tr_last ts)"

definition clock_step :: "nat \<Rightarrow> nat \<Rightarrow> nat" where
  "clock_step cur T = (if T div 2 ^ 32 < cur div 2 ^ 32 then cur else T)"

fun clock_near :: "nat \<Rightarrow> nat list \<Rightarrow> bool" where
  "clock_near cur [] = True"
| "clock_near cur (T # Ts) =
     (T < 2 ^ 64 \<and> T < cur + 2 ^ 31 \<and> cur < T + 2 ^ 31 \<and> clock_near (clock_step cur T) Ts)"

lemma ext_time_step:
  assumes "tr_is_set ts" "T < 2 ^ 64" "T < ext_time ts + 2 ^ 31" "ext_time ts < T + 2 ^ 31"
  defines "ts' \<equiv> update_rtp_timestamp ts (of_nat T)"
  shows "ext_time ts' = clock_step (ext_time ts) T" "tr_is_set ts'" "tr_first ts' = tr_first ts"
proof -
  define w l where "w = unat (tr_num_wraps ts)" and "l = unat (tr_last ts)"
  define h t where "h = T div 2 ^ 32" and "t = T mod 2 ^ 32"
  have T: "T = h * 2 ^ 32 + t" "t < 2 ^ 32" by (simp_all add: h_def t_def)
  have h: "h < 2 ^ 32" using assms(2) by (simp add: h_def less_mult_imp_div_less)
  have l: "l < 2 ^ 32" and w: "w < 2 ^ 32" using u32_unat by (simp_all add: l_def w_def)
  have e: "ext_time ts = w * 2 ^ 32 + l" by (simp add: ext_time_def w_def l_def)
  have t: "unat (of_nat T :: u32) = t" by (simp add: unat_of_nat t_def)
  show "tr_is_set ts'" "tr_first ts' = tr_first ts"
    using assms(1) by (auto simp: ts'_def update_rtp_timestamp_def Let_def)
  have Tdiv: "T div 2 ^ 32 = h" by (simp add: h_def)
  have div: "ext_time ts div 2 ^ 32 = w" using l by (simp add: e)
  have le: "h \<le> w + 1" "w \<le> h + 1" using assms(3,4) T l unfolding e by simp_all
  then consider "h + 1 = w" | "h = w" | "h = w + 1" by linarith
  then show "ext_time ts' = clock_step (ext_time ts) T"
  proof cases
    case 1
    then have "timestamp_wrap (of_nat T) (tr_last ts) = - 1"
      using assms(3,4) T l unfolding e timestamp_wrap_cases[OF t[symmetric] l_def] by simp
    then show ?thesis using 1 assms(1) div Tdiv by (simp add: ts'_def update_rtp_timestamp_def clock_step_def)
  next
    case 2
    then have "timestamp_wrap (of_nat T) (tr_last ts) = 0"
      using assms(3,4) T l unfolding e timestamp_wrap_cases[OF t[symmetric] l_def] by simp
    then show ?thesis using 2 assms(1) div Tdiv T(1) t
      by (simp add: ts'_def update_rtp_timestamp_def clock_step_def ext_time_def w_def)
  next
    case 3
    then have "timestamp_wrap (of_nat T) (tr_last ts) = 1"
      using assms(3,4) T l unfolding e timestamp_wrap_cases[OF t[symmetric] l_def] by simp
    moreover have "unat (tr_num_wraps ts + 1) = w + 1"
      using 3 h by (simp add: w_def unat_word_ariths)
    ultimately show ?thesis using 3 assms(1) div Tdiv T(1) t
      by (simp add: ts'_def update_rtp_timestamp_def clock_step_def ext_time_def)
  qed
qed

definition fresh_recv :: timestamp_recv where
  "fresh_recv = \<lparr>tr_first = 0, tr_last = 0, tr_is_set = False, tr_num_wraps = 0\<rparr>"

lemma video_clock_run:
  "tr_is_set ts \<Longrightarrow> clock_near (ext_time ts) Ts \<Longrightarrow>
     ext_time (foldl update_rtp_timestamp ts (map of_nat Ts)) = foldl clock_step (ext_time ts) Ts \<and>
     tr_is_set (foldl update_rtp_timestamp ts (map of_nat Ts)) \<and>
     tr_first (foldl update_rtp_timestamp ts (map of_nat Ts)) = tr_first ts"
proof (induction Ts arbitrary: ts)
  case (Cons T Ts)
  have s: "ext_time (update_rtp_timestamp ts (of_nat T)) = clock_step (ext_time ts) T"
    "tr_is_set (update_rtp_timestamp ts (of_nat T))" "tr_first (update_rtp_timestamp ts (of_nat T)) = tr_first ts"
    using Cons.prems by (auto intro!: ext_time_step)
  then show ?case using Cons.IH[OF s(2)] Cons.prems(2) by simp
qed simp

lemma extended_ext_time: "timestamp_calc_extended (tr_num_wraps ts) (tr_last ts) = of_nat (ext_time ts)"
  by (simp add: timestamp_calc_extended_def ext_time_def)

text \<open>
  C18: the video receiver keeps the true 64-bit media clock: whatever packets arrive, each within half
  the 32-bit range of the clock, the extended timestamp is the time of the last packet that
  was not from before the latest wrap, and the duration is measured from the first packet.
\<close>

theorem video_clock_refines:
  assumes "T0 < 2 ^ 32" "clock_near T0 Ts"
  defines "ts \<equiv> foldl update_rtp_timestamp fresh_recv (map of_nat (T0 # Ts))"
  shows "timestamp_calc_extended (tr_num_wraps ts) (tr_last ts) = of_nat (foldl clock_step T0 Ts) \<and>
         timestamp_duration (Some ts) = of_nat (foldl clock_step T0 Ts) - of_nat T0"
proof -
  let ?t0 = "update_rtp_timestamp fresh_recv (of_nat T0)"
  have t0: "tr_is_set ?t0" "tr_first ?t0 = of_nat T0" "tr_last ?t0 = of_nat T0" "tr_num_wraps ?t0 = 0"
    by (simp_all add: update_rtp_timestamp_def fresh_recv_def timestamp_set_def)
  have "ext_time ?t0 = T0" using assms(1) by (simp add: ext_time_def t0 unat_of_nat)
  then have run: "ext_time ts = foldl clock_step T0 Ts \<and> tr_is_set ts \<and> tr_first ts = of_nat T0"
    using video_clock_run[of ?t0 Ts] t0(1,2) assms(2) by (simp add: ts_def)
  moreover have "ucast (of_nat T0 :: u32) = (of_nat T0 :: u64)"
    using assms(1) by (simp add: unsigned_of_nat take_bit_nat_eq_self)
  ultimately show ?thesis by (simp add: timestamp_duration_def extended_ext_time)
qed

theorem video_clock_refines_witness:
  "timestamp_duration (Some (foldl update_rtp_timestamp fresh_recv
     (map of_nat [4294967000, 4294968000, 4294967100, 4294970000]))) = 3000"
proof -
  have "clock_near 4294967000 [4294968000, 4294967100, 4294970000]"
    by (simp add: clock_step_def)
  from video_clock_refines[OF _ this] show ?thesis by (simp add: clock_step_def)
qed

text \<open>
  the audio receiver treats the wrap differently: the first frame after a wrap of the
  timestamp is newer, but discarded as old; and since a late frame is discarded but still
  becomes the last one, the next regular frame counts a wrap that did not happen, where
  the video receiver counts none.
\<close>

theorem audio_wrap_discards:
  assumes "tr_is_set ts" "unat new < unat (tr_last ts)" "0 < sint (new - tr_last ts)"
    "tr_is_set ts1" "timestamp_wrap late (tr_last ts1) = - 1" "timestamp_wrap nxt (tr_last ts1) = 0"
    "timestamp_wrap nxt late = 1"
  shows "fst (aurx_timestamp ts new) \<and>
         fst (aurx_timestamp ts1 late) \<and>
         tr_num_wraps (snd (aurx_timestamp (snd (aurx_timestamp ts1 late)) nxt)) = tr_num_wraps ts1 + 1 \<and>
         tr_num_wraps (update_rtp_timestamp (update_rtp_timestamp ts1 late) nxt) = tr_num_wraps ts1"
proof (intro conjI)
  have "timestamp_calc_extended (tr_num_wraps ts) new \<le> timestamp_calc_extended (tr_num_wraps ts) (tr_last ts)"
  proof -
    define w n l where "w = unat (tr_num_wraps ts)" and "n = unat new" and "l = unat (tr_last ts)"
    have b: "w < 2 ^ 32" "n < 2 ^ 32" "l < 2 ^ 32" using u32_unat by (simp_all add: w_def n_def l_def)
    have e: "unat (timestamp_calc_extended v t) = unat v * 2 ^ 32 + unat t" for v t
    proof -
      have "unat v < 2 ^ 32" "unat t < 2 ^ 32" using u32_unat by simp_all
      then have "unat v * 2 ^ 32 + unat t < 2 ^ 64" by simp
      moreover have "timestamp_calc_extended v t = of_nat (unat v * 2 ^ 32 + unat t)"
        by (simp add: timestamp_calc_extended_def)
      ultimately show ?thesis by (simp only: unat_of_nat) (simp add: take_bit_nat_eq_self)
    qed
    show ?thesis using assms(2) unfolding word_le_nat_alt e by simp
  qed
  then show "fst (aurx_timestamp ts new)"
    using assms(1) by (simp add: aurx_timestamp_def Let_def)
  show "fst (aurx_timestamp ts1 late)"
    using assms(4,5) by (simp add: aurx_timestamp_def Let_def)
  show "tr_num_wraps (snd (aurx_timestamp (snd (aurx_timestamp ts1 late)) nxt)) = tr_num_wraps ts1 + 1"
    using assms(4,5,7) by (simp add: aurx_timestamp_def Let_def)
  show "tr_num_wraps (update_rtp_timestamp (update_rtp_timestamp ts1 late) nxt) = tr_num_wraps ts1"
    using assms(4-6) by (simp add: update_rtp_timestamp_def Let_def)
qed

definition before_wrap :: timestamp_recv where
  "before_wrap = \<lparr>tr_first = 100, tr_last = 0xFFFFFF00, tr_is_set = True, tr_num_wraps = 0\<rparr>"

definition after_wrap :: timestamp_recv where
  "after_wrap = \<lparr>tr_first = 100, tr_last = 0x40, tr_is_set = True, tr_num_wraps = 1\<rparr>"

theorem audio_wrap_discards_witness:
  "fst (aurx_timestamp before_wrap 0x40) \<and>
   tr_num_wraps (snd (aurx_timestamp (snd (aurx_timestamp after_wrap 0xFFFFFFA0)) 0xE0)) = 2"
proof -
  have "unat (0x40 :: u32) < unat (tr_last before_wrap)" "0 < sint (0x40 - tr_last before_wrap)"
    "timestamp_wrap 0xFFFFFFA0 (tr_last after_wrap) = - 1" "timestamp_wrap 0xE0 (tr_last after_wrap) = 0"
    "timestamp_wrap 0xE0 0xFFFFFFA0 = 1"
    by (simp_all add: before_wrap_def after_wrap_def timestamp_wrap_def)
  from audio_wrap_discards[OF _ this(1,2) _ this(3-5)] show ?thesis
    by (simp add: before_wrap_def after_wrap_def)
qed

subsection \<open>Header extensions\<close>

text \<open>The bytes of an extension: the header, the data and the padding to a multiple of 4.\<close>

definition ext_bytes :: "nat \<Rightarrow> u8 list \<Rightarrow> u8 list" where
  "ext_bytes extid d = (push_bit 4 (of_nat extid) OR of_nat (length d - 1)) # d @
     replicate ((4 - Suc (length d) mod 4) mod 4) 0"

lemma pad_step:
  assumes "Suc n = (4 - k mod 4) mod 4"
  shows "n = (4 - Suc k mod 4) mod 4" "k mod 4 \<noteq> 0"
proof -
  have "k mod 4 < 4" by simp
  then consider "k mod 4 = 0" | "k mod 4 = 1" | "k mod 4 = 2" | "k mod 4 = 3" by linarith
  then show "n = (4 - Suc k mod 4) mod 4" using assms by cases (simp_all add: mod_Suc)
  show "k mod 4 \<noteq> 0" using assms by (intro notI) simp
qed

lemma pad_done:
  assumes "0 = (4 - k mod 4) mod (4 :: nat)"
  shows "k mod 4 = 0"
proof -
  have "k mod 4 < 4" by simp
  then consider "k mod 4 = 0" | "k mod 4 = 1" | "k mod 4 = 2" | "k mod 4 = 3" by linarith
  then show ?thesis using assms by cases simp_all
qed

lemma pad_total: "(k + (4 - k mod 4) mod 4) mod 4 = (0 :: nat)"
proof -
  have "k mod 4 < 4" by simp
  then consider "k mod 4 = 0" | "k mod 4 = 1" | "k mod 4 = 2" | "k mod 4 = 3" by linarith
  then show ?thesis by cases (simp_all add: mod_Suc numeral_3_eq_3)
qed

lemma rtpext_pad_runs:
  assumes "mbuf_laws M" "mbuf_no_oom M" "mb_at_end mb" "start \<le> mb_pos mb"
    "mb_pos mb + n < 2 ^ 63" "n = (4 - (mb_pos mb - start) mod 4) mod 4"
  shows "\<exists>mb'. rtpext_pad M start mb 0 = Some (0, mb') \<and> mb_at_end mb' \<and> mb_data mb' = mb_data mb @ replicate n 0"
  using assms(3-)
proof (induction n arbitrary: mb)
  case 0
  then have "(mb_pos mb - start) mod 4 = 0" by (intro pad_done) simp
  then have "rtpext_pad M start mb 0 = Some (0, mb)"
    using 0 by (subst rtpext_pad.simps) (simp add: size_sub_le)
  then show ?case using 0 by simp
next
  case (Suc n)
  have wf: "mb_wf mb" using Suc.prems(1) by (simp add: mb_at_end_def)
  let ?w = "m_write_u8 M mb 0"
  have w: "?w = (0, snd ?w)" using assms(2) wf by (auto simp: mbuf_no_oom_def intro: prod_eqI)
  have wr: "mb_written mb [0] (snd ?w)" using assms(1) wf w by (auto intro: m_write_u8_written)
  note e = mb_written_at_end[OF Suc.prems(1) wr]
  have pos: "mb_pos (snd ?w) = mb_pos mb + 1" using wr by (simp add: mb_written_def)
  have ne: "(mb_pos mb - start) mod 4 \<noteq> 0" using Suc.prems(4) by (rule pad_step)
  have "Suc (mb_pos mb - start) = mb_pos (snd ?w) - start" using pos Suc.prems(2) by simp
  then have "n = (4 - (mb_pos (snd ?w) - start) mod 4) mod 4" using pad_step(1)[OF Suc.prems(4)] by simp
  then obtain mb' where "rtpext_pad M start (snd ?w) 0 = Some (0, mb')" "mb_at_end mb'"
    "mb_data mb' = mb_data (snd ?w) @ replicate n 0"
    using Suc.IH[of "snd ?w"] e(1) Suc.prems(2,3) pos by auto
  moreover have "rtpext_pad M start mb 0 = rtpext_pad M start (snd ?w) 0"
    using Suc.prems(2,3) ne by (subst rtpext_pad.simps, subst w) (simp add: size_sub_le)
  ultimately show ?case using e(2) by simp
qed

lemma rtpext_skip_zeros:
  assumes "mbuf_laws M" "mb_wf mb" "mb_unread mb = replicate n 0 @ rest" "rest = [] \<or> hd rest \<noteq> 0"
  shows "\<exists>mb'. rtpext_skip M mb = Some mb' \<and> mb_wf mb' \<and> mb_unread mb' = rest"
  using assms(2,3)
proof (induction n arbitrary: mb)
  case 0
  then have "m_get_left M mb = length rest" "m_rest M mb = rest"
    using assms(1) by (simp_all add: m_get_left_unread m_rest_unread)
  then have "rtpext_skip M mb = Some mb"
    using assms(4) by (subst rtpext_skip.simps) (auto simp: hd_conv_nth)
  then show ?case using 0 by simp
next
  case (Suc n)
  let ?m = "m_advance M mb 1"
  have m: "?m = mb\<lparr>mb_pos := mb_pos mb + 1\<rparr>" using assms(1) Suc.prems(1) by (simp add: mbuf_laws_def)
  have u: "mb_unread ?m = replicate n 0 @ rest" unfolding m mb_unread_drop Suc.prems(2) by simp
  have wf: "mb_wf ?m"
    using mb_unread_length[OF Suc.prems(1)] Suc.prems unfolding m by (simp add: mb_wf_def)
  have "rtpext_skip M mb = rtpext_skip M ?m"
    using assms(1) Suc.prems by (subst rtpext_skip.simps) (simp add: m_get_left_unread m_rest_unread)
  then show ?case using Suc.IH[OF wf u] by simp
qed

lemma ext_header_fields:
  assumes "1 \<le> extid" "extid \<le> 14" "1 \<le> len" "len \<le> 16"
  defines "v \<equiv> push_bit 4 (of_nat extid) OR of_nat (len - 1) :: u8"
  shows "ucast (drop_bit 4 v) = (of_nat extid :: 4 word)" "ucast ((v AND 0x0f) + 1) = (of_nat len :: 4 word)"
proof -
  have "extid \<in> {1..<15}" "len \<in> {1..<17}" using assms(1-4) by auto
  then have "extid \<in> {1,2,3,4,5,6,7,8,9,10,11,12,13,14}"
    "len \<in> {1,2,3,4,5,6,7,8,9,10,11,12,13,14,15,16}" by (simp_all add: atLeastLessThan_iff) presburger+
  then show "ucast (drop_bit 4 v) = (of_nat extid :: 4 word)" "ucast ((v AND 0x0f) + 1) = (of_nat len :: 4 word)"
    unfolding v_def by (elim insertE emptyE; simp)+
qed

definition ext_of :: "nat \<times> u8 list \<Rightarrow> rtpext" where
  "ext_of x = \<lparr>ex_id = of_nat (fst x), ex_len = of_nat (length (snd x)),
              ex_data = snd x @ replicate (16 - length (snd x)) 0\<rparr>"

definition ext_valid :: "nat \<times> u8 list \<Rightarrow> bool" where
  "ext_valid x = (1 \<le> fst x \<and> fst x \<le> 14 \<and> 1 \<le> length (snd x) \<and> length (snd x) \<le> 15)"

lemma rtpext_decode_ext:
  assumes "mbuf_laws M" "ext_valid (extid, d)"
    "mb_wf src" "mb_unread src = ext_bytes extid d @ rest" "rest = [] \<or> hd rest \<noteq> 0"
  obtains src' where "rtpext_decode M (Some src) = Some (0, Some (ext_of (extid, d)), Some src')"
    "mb_wf src'" "mb_unread src' = rest"
proof -
  let ?v = "push_bit 4 (of_nat extid) OR of_nat (length d - 1) :: u8"
  let ?n = "(4 - Suc (length d) mod 4) mod 4"
  have v: "1 \<le> extid" "extid \<le> 14" "1 \<le> length d" "length d \<le> 15" using assms(2) by (simp_all add: ext_valid_def)
  have hdr: "ucast (drop_bit 4 ?v) = (of_nat extid :: 4 word)"
    "ucast ((?v AND 0x0f) + 1) = (of_nat (length d) :: 4 word)"
    by (rule ext_header_fields; use v in simp)+
  have un: "unat (of_nat extid :: 4 word) = extid" "unat (of_nat (length d) :: 4 word) = length d"
    using v by (simp_all add: unat_of_nat)
  from assms(4) have u: "mb_unread src = ?v # d @ replicate ?n 0 @ rest" by (simp add: ext_bytes_def)
  obtain s1 where s1: "m_read_u8 M src = (?v, s1)" "\<not> m_get_left M src < 1" "mb_wf s1"
    "mb_unread s1 = d @ replicate ?n 0 @ rest"
    using m_read_u8_Cons[OF assms(1,3) u] by blast
  let ?s2 = "s1\<lparr>mb_pos := mb_pos s1 + length d\<rparr>"
  have left: "mb_pos s1 + length d \<le> mb_end s1" "m_get_left M s1 = length d + (?n + length rest)"
    using mb_unread_length[OF s1(3)] s1(4) m_get_left_unread[OF assms(1) s1(3)] v(3) by simp_all
  then have r: "m_read_mem M s1 (length d) = (0, d, ?s2)"
    using assms(1) s1(3,4) by (simp add: mbuf_laws_def)
  have "mb_wf ?s2" using s1(3) left(1) by (simp add: mb_wf_def)
  moreover have "mb_unread ?s2 = replicate ?n 0 @ rest" unfolding mb_unread_drop s1(4) by simp
  ultimately obtain src' where sk: "rtpext_skip M ?s2 = Some src'" "mb_wf src'" "mb_unread src' = rest"
    using rtpext_skip_zeros[OF assms(1) _ _ assms(5)] by blast
  have "rtpext_decode M (Some src) = Some (0, Some (ext_of (extid, d)), Some src')"
    using s1(1,2) r sk(1) left(2) v(1,2)
    unfolding rtpext_decode_def option.case Let_def s1(1) prod.case hdr ext_of_def fst_conv snd_conv
    by (simp add: hdr un rtpext_defs)
  with sk(2,3) show ?thesis by (rule_tac that)
qed

lemma ext_bytes_length: "4 dvd length (ext_bytes extid d)"
proof -
  have "length (ext_bytes extid d) = Suc (length d) + (4 - Suc (length d) mod 4) mod 4"
    by (simp only: ext_bytes_def list.size length_append length_replicate)
  then show ?thesis using pad_total[of "Suc (length d)"] by (simp only: dvd_eq_mod_eq_0)
qed

text \<open>
  C19: an extension of 1 to 15 bytes with an id from 1 to 14 is appended to the buffer with its
  padding, which takes the buffer by a multiple of 4 bytes, and is decoded again to the
  same id, length and data, up to the next extension.
\<close>

theorem rtpext_roundtrip:
  assumes "mbuf_laws M" "mbuf_no_oom M" "mb_at_end mb" "mb_end mb < 2 ^ 62" "ext_valid (extid, d)"
    "mb_wf src" "mb_unread src = ext_bytes extid d @ rest" "rest = [] \<or> hd rest \<noteq> 0"
  shows "\<exists>mb' src'. rtpext_encode M (Some mb) extid (length d) (Some d) = Some (0, Some mb') \<and>
           mb_at_end mb' \<and> mb_data mb' = mb_data mb @ ext_bytes extid d \<and> 4 dvd length (ext_bytes extid d) \<and>
           rtpext_decode M (Some src) = Some (0, Some (ext_of (extid, d)), Some src') \<and>
           mb_unread src' = rest"
proof -
  let ?v = "push_bit 4 (of_nat extid) OR of_nat (length d - 1) :: u8"
  let ?n = "(4 - Suc (length d) mod 4) mod 4"
  have v: "1 \<le> extid" "extid \<le> 14" "1 \<le> length d" "length d \<le> 15" using assms(5) by (simp_all add: ext_valid_def)
  have bytes: "ext_bytes extid d = ?v # d @ replicate ?n 0" by (simp add: ext_bytes_def)
  have wf: "mb_wf mb" using assms(3) by (simp add: mb_at_end_def)
  obtain m1 where w1: "m_write_u8 M mb ?v = (0, m1)"
    using assms(2) wf unfolding mbuf_no_oom_def by (metis prod.collapse)
  note e1 = mb_written_at_end[OF assms(3) m_write_u8_written[OF assms(1) wf w1]]
  obtain m2 where w2: "m_write_mem M m1 d = (0, m2)" "mb_at_end m2" "mb_data m2 = mb_data m1 @ d"
    "mb_end m2 = mb_end m1 + length d"
    using m_write_mem_append[OF assms(1,2) e1(1)] by blast
  have pos: "mb_pos m2 = mb_pos mb + Suc (length d)"
    using w2(2,4) e1(3) assms(3) by (simp add: mb_at_end_def)
  have diff: "mb_pos m2 - mb_pos mb = Suc (length d)" and le: "mb_pos mb \<le> mb_pos m2" using pos by simp_all
  have "?n < 4" by simp
  then have "mb_pos m2 + ?n < 2 ^ 63" using pos assms(3,4) v by (simp add: mb_at_end_def)
  from rtpext_pad_runs[OF assms(1,2) w2(2) le this] diff
  obtain mb' where p: "rtpext_pad M (mb_pos mb) m2 0 = Some (0, mb')" "mb_at_end mb'"
    "mb_data mb' = mb_data m2 @ replicate ?n 0"
    by auto
  have enc: "rtpext_encode M (Some mb) extid (length d) (Some d) = Some (0, Some mb')"
  proof -
    have g: "\<not> (extid < RTPEXT_ID_MIN \<or> extid > RTPEXT_ID_MAX)"
      "\<not> (length d < RTPEXT_LEN_MIN \<or> length d > RTPEXT_LEN_MAX)"
      using v by (cases d; simp add: rtpext_defs)+
    show ?thesis
      unfolding rtpext_encode_def prod.case option.case Let_def w1 if_not_P[OF g(1)] if_not_P[OF g(2)]
      using w2(1) p(1) by simp
  qed
  have data: "mb_data mb' = mb_data mb @ ext_bytes extid d" using p(3) w2(3) e1(2) bytes by simp
  obtain src' where "rtpext_decode M (Some src) = Some (0, Some (ext_of (extid, d)), Some src')" "mb_unread src' = rest"
    using rtpext_decode_ext[OF assms(1,5-8)] by blast
  with enc p(2) data ext_bytes_length show ?thesis by blast
qed

definition ext_mb :: mbuf where
  "ext_mb = mbuf_of []"

theorem rtpext_roundtrip_witness:
  "\<exists>mb' src'. rtpext_encode ref_mbuf (Some ext_mb) 3 (length [7::u8, 9]) (Some [7, 9]) = Some (0, Some mb') \<and>
     mb_data mb' = ext_bytes 3 [7, 9] \<and>
     rtpext_decode ref_mbuf (Some (mbuf_of (ext_bytes 3 [7, 9] @ [0x51]))) =
       Some (0, Some (ext_of (3, [7, 9])), Some src') \<and>
     mb_unread src' = [0x51]"
proof -
  have "mb_at_end ext_mb" "mb_end ext_mb < 2 ^ 62" by (simp_all add: ext_mb_def mb_at_end_def mbuf_of_def mb_wf_def)
  from rtpext_roundtrip[OF ref_mbuf_laws ref_mbuf_no_oom this, of 3 "[7, 9]" "mbuf_of (ext_bytes 3 [7, 9] @ [0x51])" "[0x51]"]
  show ?thesis by (auto simp: ext_mb_def ext_valid_def)
qed

text \<open>
  an extension of the maximal length, 16 bytes, is encoded, but decoded with length 0 and no
  data: the decoder keeps the length in 4 bits, and goes on at the first data byte.
\<close>

theorem rtpext_max_length_lost:
  assumes "mbuf_laws M" "1 \<le> extid" "extid \<le> 14" "length d = RTPEXT_LEN_MAX" "hd d \<noteq> 0"
    "mb_wf src" "mb_unread src = ext_bytes extid d @ rest"
  shows "\<exists>src'. rtpext_decode M (Some src) =
           Some (0, Some \<lparr>ex_id = of_nat extid, ex_len = 0, ex_data = replicate 16 0\<rparr>, Some src') \<and>
         mb_unread src' = tl (ext_bytes extid d) @ rest"
proof -
  let ?v = "push_bit 4 (of_nat extid) OR of_nat (length d - 1) :: u8"
  let ?t = "tl (ext_bytes extid d) @ rest"
  have len: "length d = 16" using assms(4) by (simp add: RTPEXT_LEN_MAX_def)
  have u: "mb_unread src = ?v # ?t" using assms(7) by (simp add: ext_bytes_def)
  obtain s1 where s1: "m_read_u8 M src = (?v, s1)" "\<not> m_get_left M src < 1" "mb_wf s1" "mb_unread s1 = ?t"
    using m_read_u8_Cons[OF assms(1,6) u] by blast
  have hdr: "ucast (drop_bit 4 ?v) = (of_nat extid :: 4 word)" "ucast ((?v AND 0x0f) + 1) = (of_nat (length d) :: 4 word)"
    by (rule ext_header_fields; use assms(2,3) len in simp)+
  have un: "unat (of_nat extid :: 4 word) = extid" using assms(3) by (simp add: unat_of_nat)
  have zero: "(of_nat (length d) :: 4 word) = 0" by (simp add: len)
  have ne: "hd ?t \<noteq> 0" using assms(5) len by (cases d) (simp_all add: ext_bytes_def)
  have "mb_pos s1 \<le> mb_end s1" using s1(3) by (simp add: mb_wf_def)
  then have r: "m_read_mem M s1 0 = (0, [], s1)"
    using assms(1) s1(3) by (simp add: mbuf_laws_def)
  obtain src' where sk: "rtpext_skip M s1 = Some src'" "mb_unread src' = ?t"
    using rtpext_skip_zeros[OF assms(1) s1(3), of 0 ?t] s1(4) ne by auto
  have "rtpext_decode M (Some src) =
      Some (0, Some \<lparr>ex_id = of_nat extid, ex_len = 0, ex_data = replicate 16 0\<rparr>, Some src')"
    using s1(2) r sk(1) assms(2,3) unfolding rtpext_decode_def option.case Let_def s1(1) prod.case hdr zero
    by (simp add: hdr zero un rtpext_defs)
  with sk(2) show ?thesis by blast
qed

theorem rtpext_max_length_lost_witness:
  "\<exists>src'. rtpext_decode ref_mbuf (Some (mbuf_of (ext_bytes 5 (replicate 16 1) @ []))) =
     Some (0, Some \<lparr>ex_id = 5, ex_len = 0, ex_data = replicate 16 0\<rparr>, Some src')"
  using rtpext_max_length_lost[OF ref_mbuf_laws, of 5 "replicate 16 1" "mbuf_of (ext_bytes 5 (replicate 16 1) @ [])" "[]"]
  by (auto simp: RTPEXT_LEN_MAX_def)

subsection \<open>The bitrate timer\<close>

lemma metric_adds:
  "me_started m \<Longrightarrow>
     foldl (\<lambda>m (now, sz). metric_add_packet now m sz) m ps =
       m\<lparr>me_n_bytes := me_n_bytes m + of_nat (sum_list (map snd ps)),
         me_n_packets := me_n_packets m + of_nat (length ps)\<rparr>"
proof (induction ps arbitrary: m)
  case (Cons p ps)
  let ?m = "metric_add_packet (fst p) m (snd p)"
  have m: "?m = m\<lparr>me_n_bytes := me_n_bytes m + of_nat (snd p), me_n_packets := me_n_packets m + 1\<rparr>"
    using Cons.prems by (simp add: metric_add_packet_def)
  then have "me_started ?m" using Cons.prems by simp
  from Cons.IH[OF this] show ?case unfolding m by (simp add: case_prod_beta m algebra_simps)
qed simp

text \<open>
  between two ticks of the timer the packets and bytes are counted, and the tick computes the
  bitrate from the bytes of the interval, modulo the 32-bit product: it is the bitrate of the
  interval exactly as long as less than 2^32 / 8000 bytes, about 1.4 Mbit/s for the interval of
  3 seconds, were counted; and 600000 bytes in 3 seconds are reported as 168344 bit/s
  instead of 1600000.
\<close>

theorem metric_bitrate:
  assumes "me_started m" "me_ts_last m \<noteq> 0" "me_n_bytes_last m = me_n_bytes m"
    "now = me_ts_last m + of_nat ms" "0 < ms" "ms < 2 ^ 32" "unat (me_ts_last m) + ms < 2 ^ 64"
    "sum_list (map snd ps) < 2 ^ 32"
  defines "m' \<equiv> metric_tmr_handler now (foldl (\<lambda>m (now, sz). metric_add_packet now m sz) m ps)"
  shows "unat (me_cur_bitrate m') = (8000 * sum_list (map snd ps)) mod 2 ^ 32 div ms \<and>
         me_n_bytes_last m' = me_n_bytes m' \<and> me_ts_last m' = now \<and>
         me_n_packets m' = me_n_packets m + of_nat (length ps)"
proof -
  let ?b = "sum_list (map snd ps)"
  have un: "unat now = unat (me_ts_last m) + ms"
    using assms(4,7) by (simp add: unat_word_ariths unat_of_nat)
  have lt: "\<not> now \<le> me_ts_last m" using un assms(5) by (simp add: word_le_nat_alt)
  have d: "unat (ucast (now - me_ts_last m) :: u32) = ms"
    using assms(4,6) by (simp add: unsigned_ucast_eq unsigned_of_nat take_bit_nat_eq_self)
  have "unat (1000 * 8 * of_nat ?b :: u32) = (8000 * ?b) mod 2 ^ 32"
  proof -
    have "(1000 * 8 * of_nat ?b :: u32) = of_nat (8000 * ?b)" by simp
    then show ?thesis by (simp only: unat_of_nat) (simp add: take_bit_nat_def)
  qed
  then have rate: "unat (1000 * 8 * of_nat ?b div (ucast (now - me_ts_last m) :: u32)) = (8000 * ?b) mod 2 ^ 32 div ms"
    by (simp only: unat_div_distrib d)
  show ?thesis
    using assms(1-3) lt rate by (simp add: m'_def metric_adds metric_tmr_handler_def)
qed

definition running_metric :: metric where
  "running_metric = \<lparr>me_ts_start = 1, me_started = True, me_n_packets = 0, me_n_bytes = 0, me_n_err = 0,
     me_cur_bitrate = 0, me_ts_last = 1000, me_n_bytes_last = 0, me_tmr = True\<rparr>"

theorem metric_bitrate_witness:
  "unat (me_cur_bitrate (metric_tmr_handler 4000
     (foldl (\<lambda>m (now, sz). metric_add_packet now m sz) running_metric [(2000, 300000), (3000, 300000)]))) = 168344"
proof -
  have "me_started running_metric" "me_ts_last running_metric \<noteq> 0"
    "me_n_bytes_last running_metric = me_n_bytes running_metric"
    "4000 = me_ts_last running_metric + of_nat 3000" "unat (me_ts_last running_metric) + 3000 < 2 ^ 64"
    by (simp_all add: running_metric_def)
  from metric_bitrate[OF this(1-4) _ _ this(5), of "[(2000, 300000), (3000, 300000)]"]
  show ?thesis by simp
qed

end
