(* ===== verification/Stream.thy ===== *)
theory Stream
  imports Rtp
begin

text \<open>
  The generic media stream, \<open>src/stream.c\<close>: readiness (media NAT, encryption, remote
  address), sending, receiving through the jitter buffer, loss counting, header extensions,
  the RTP timeout, hold and direction.

  The SDP media line, the jitter buffer, socket addresses and the sockets belong to libre.
  The first three are abstract types whose functions are fields of \<open>strm_env\<close>.  What the
  stream sends, and the handlers it calls, are recorded in the log \<open>st_out\<close>; the result
  of such a call is a function of the log, so it may depend on everything that happened
  before.  Handlers do not call back into the stream.
\<close>

subsection \<open>Data\<close>

datatype sdp_dir = SDP_INACTIVE | SDP_RECVONLY | SDP_SENDONLY | SDP_SENDRECV

text \<open>The two bits of a direction.\<close>

fun dir_recv :: "sdp_dir \<Rightarrow> bool" where
  "dir_recv d = (d = SDP_RECVONLY \<or> d = SDP_SENDRECV)"

fun dir_send :: "sdp_dir \<Rightarrow> bool" where
  "dir_send d = (d = SDP_SENDONLY \<or> d = SDP_SENDRECV)"

datatype media_type = MEDIA_AUDIO | MEDIA_VIDEO

datatype jbuf_type = JBUF_OFF | JBUF_FIXED | JBUF_ADAPTIVE

record rtp_header =
  rh_ext :: bool
  rh_x_type :: u16
  rh_x_len :: u16
  rh_m :: bool
  rh_pt :: u8
  rh_seq :: u16
  rh_ts :: u32
  rh_ssrc :: u32

record config_avt =
  cf_rtcp_mux :: bool
  cf_jbtype :: jbuf_type
  cf_jbuf_del_min :: u32
  cf_jbuf_del_max :: u32
  cf_jbuf_wish :: u32

record strm_menc =
  mc_wait_secure :: bool
  mc_mediah :: bool
  mc_sdp_proto :: bool

text \<open>What a stream does to the outside.\<close>

datatype 'a strm_out =
    OutRtp 'a bool bool int u32 "u8 list"
  | OutRtcpStart 'a
  | OutRtcpApp
  | OutRtcpMux bool
  | OutFir
  | OutPli
  | OutSrateTx u32
  | OutSrateRx u32
  | OutMediaEnc
  | OutListen
  | OutSdpAdd bool
  | OutSdpAttr string
  | OutMnatMedia
  | CallFrame rtp_header "rtpext list" "mbuf option" nat
  | CallPt u8
  | CallEstab
  | CallMnatConn
  | CallError err
  | CallRtcp
  | CallSessRtcp

record ('m, 'j, 'a) strm =
  st_cfg :: config_avt
  st_sdp :: 'm
  st_ldir :: sdp_dir
  st_rtp :: bool
  st_jbuf :: "'j option"
  st_mnat :: "bool option"
  st_menc :: "strm_menc option"
  st_mencs :: bool
  st_metric_tx :: metric
  st_metric_rx :: metric
  st_raddr_rtp :: 'a
  st_raddr_rtcp :: 'a
  st_type :: media_type
  st_ssrc_rx :: u32
  st_pseq :: u32
  st_pseq_set :: bool
  st_pt_enc :: int
  st_pt_dec :: int
  st_rtcp_mux :: bool
  st_jbuf_started :: bool
  st_tmr_rtp :: "nat option"
  st_ts_last :: u64
  st_terminated :: bool
  st_rtp_timeout_ms :: u32
  st_rtp_estab :: bool
  st_hold :: bool
  st_mnat_connected :: bool
  st_menc_secure :: bool
  st_rtcph :: bool
  st_mnatconnh :: bool
  st_rtpestabh :: bool
  st_sessrtcph :: bool
  st_errorh :: bool
  st_out :: "'a strm_out list"

text \<open>\<open>st_mnat\<close> is \<open>wait_connected\<close> of the NAT method, if there is one; the handlers are set or NULL.\<close>

record ('m, 'j, 'a) strm_env =
  se_mbuf :: mbuf_ops
  se_ret :: "'a strm_out list \<Rightarrow> err"
  se_ldir :: "'m \<Rightarrow> sdp_dir"
  se_rdir :: "'m \<Rightarrow> sdp_dir"
  se_dir :: "'m \<Rightarrow> sdp_dir"
  se_set_ldir :: "'m \<Rightarrow> sdp_dir \<Rightarrow> 'm"
  se_set_disabled :: "'m \<Rightarrow> bool \<Rightarrow> 'm"
  se_set_lbandwidth :: "'m \<Rightarrow> u32 \<Rightarrow> 'm"
  se_has_media :: "'m \<Rightarrow> bool"
  se_rformat :: "'m \<Rightarrow> int option"
  se_rattr :: "'m \<Rightarrow> string \<Rightarrow> bool"
  se_raddr :: "'m \<Rightarrow> 'a"
  se_raddr_rtcp :: "'m \<Rightarrow> 'a"
  se_isset :: "'a \<Rightarrow> bool"
  se_jput :: "'j \<Rightarrow> rtp_header \<Rightarrow> mbuf \<Rightarrow> err \<times> 'j"
  se_jget :: "'j \<Rightarrow> err \<times> rtp_header \<times> mbuf option \<times> 'j"
  se_jflush :: "'j \<Rightarrow> 'j"

abbreviation (input) EINTR :: err where "EINTR \<equiv> 4"
abbreviation (input) EAGAIN :: err where "EAGAIN \<equiv> 11"
abbreviation (input) ETIMEDOUT :: err where "ETIMEDOUT \<equiv> 110"

definition st_emit :: "'a strm_out \<Rightarrow> ('m, 'j, 'a) strm \<Rightarrow> ('m, 'j, 'a) strm" where
  "st_emit x s = s\<lparr>st_out := st_out s @ [x]\<rparr>"

text \<open>A call whose result matters: it is logged, and returns what the environment says.\<close>

definition st_call ::
  "('m, 'j, 'a) strm_env \<Rightarrow> 'a strm_out \<Rightarrow> ('m, 'j, 'a) strm \<Rightarrow> err \<times> ('m, 'j, 'a) strm" where
  "st_call E x s = (se_ret E (st_out s @ [x]), st_emit x s)"

definition media_name :: "media_type \<Rightarrow> string" where
  "media_name t = (case t of MEDIA_AUDIO \<Rightarrow> ''audio'' | MEDIA_VIDEO \<Rightarrow> ''video'')"

subsection \<open>Readiness\<close>

definition mnat_ready :: "('m, 'j, 'a) strm \<Rightarrow> bool" where
  "mnat_ready strm = (if st_mnat strm = Some True then st_mnat_connected strm else True)"

definition stream_is_ready :: "('m, 'j, 'a) strm_env \<Rightarrow> ('m, 'j, 'a) strm \<Rightarrow> bool" where
  "stream_is_ready E strm =
     (if st_mnat strm \<noteq> None \<and> \<not> mnat_ready strm then False
      else if (case st_menc strm of None \<Rightarrow> False | Some mc \<Rightarrow> mc_wait_secure mc) \<and> \<not> st_menc_secure strm then False
      else if \<not> se_isset E (st_raddr_rtp strm) then False
      else \<not> st_terminated strm)"

definition stream_set_secure :: "('m, 'j, 'a) strm \<Rightarrow> bool \<Rightarrow> ('m, 'j, 'a) strm" where
  "stream_set_secure strm secure = strm\<lparr>st_menc_secure := secure\<rparr>"

definition stream_is_secure :: "('m, 'j, 'a) strm option \<Rightarrow> bool" where
  "stream_is_secure strm = (case strm of None \<Rightarrow> False | Some s \<Rightarrow> st_menc_secure s)"

definition stream_start ::
  "('m, 'j, 'a) strm_env \<Rightarrow> ('m, 'j, 'a) strm \<Rightarrow> err \<times> ('m, 'j, 'a) strm" where
  "stream_start E strm =
     (let strm = st_emit (OutRtcpStart (st_raddr_rtcp strm)) strm
      in if st_mnat strm = None then st_call E OutRtcpApp strm else (0, strm))"

definition stream_start_mediaenc ::
  "('m, 'j, 'a) strm_env \<Rightarrow> ('m, 'j, 'a) strm \<Rightarrow> err \<times> ('m, 'j, 'a) strm" where
  "stream_start_mediaenc E strm =
     (case st_menc strm of
        Some mc \<Rightarrow> if mc_mediah mc then st_call E OutMediaEnc strm else (0, strm)
      | None \<Rightarrow> (0, strm))"

definition mnat_connected_handler ::
  "('m, 'j, 'a) strm_env \<Rightarrow> 'a \<Rightarrow> 'a option \<Rightarrow> ('m, 'j, 'a) strm \<Rightarrow> ('m, 'j, 'a) strm" where
  "mnat_connected_handler E raddr1 raddr2 strm =
     (let strm = strm\<lparr>st_raddr_rtp := raddr1\<rparr>;
          strm = (if st_rtcp_mux strm then strm\<lparr>st_raddr_rtcp := raddr1\<rparr>
                  else case raddr2 of None \<Rightarrow> strm | Some a \<Rightarrow> strm\<lparr>st_raddr_rtcp := a\<rparr>);
          strm = strm\<lparr>st_mnat_connected := True\<rparr>;
          strm = (if stream_is_ready E strm then snd (stream_start E strm) else strm)
      in if st_mnatconnh strm then st_emit CallMnatConn strm else strm)"

subsection \<open>Sending\<close>

definition stream_send ::
  "('m, 'j, 'a) strm_env \<Rightarrow> u64 \<Rightarrow> ('m, 'j, 'a) strm \<Rightarrow> bool \<Rightarrow> bool \<Rightarrow> int \<Rightarrow> u32 \<Rightarrow> mbuf
     \<Rightarrow> err \<times> ('m, 'j, 'a) strm" where
  "stream_send E now s ext marker pt ts mb =
     (if \<not> se_isset E (st_raddr_rtp s) then (0, s)
      else if \<not> dir_send (se_rdir E (st_sdp s)) then (0, s)
      else if se_ldir E (st_sdp s) = SDP_RECVONLY then (0, s)
      else if se_ldir E (st_sdp s) = SDP_INACTIVE then (0, s)
      else if st_hold s then (0, s)
      else if \<not> stream_is_ready E s then (EINTR, s)
      else
        let s = s\<lparr>st_metric_tx := metric_add_packet now (st_metric_tx s) (m_get_left (se_mbuf E) mb)\<rparr>;
            pt = (if pt < 0 then st_pt_enc s else pt)
        in if pt \<ge> 0
           then
             let (err, s) = st_call E (OutRtp (st_raddr_rtp s) ext marker pt ts (m_rest (se_mbuf E) mb)) s
             in (err, if err \<noteq> 0
                      then s\<lparr>st_metric_tx := (st_metric_tx s)\<lparr>me_n_err := me_n_err (st_metric_tx s) + 1\<rparr>\<rparr>
                      else s)
           else (0, s))"

definition stream_send_fir ::
  "('m, 'j, 'a) strm_env \<Rightarrow> ('m, 'j, 'a) strm \<Rightarrow> bool \<Rightarrow> ('m, 'j, 'a) strm" where
  "stream_send_fir E s pli =
     (let (err, s) = st_call E (if pli then OutPli else OutFir) s
      in if err \<noteq> 0 then s\<lparr>st_metric_tx := (st_metric_tx s)\<lparr>me_n_err := me_n_err (st_metric_tx s) + 1\<rparr>\<rparr> else s)"

text \<open>\<open>mb_alloc\<close> is the result of \<open>mbuf_alloc\<close>: whether memory was available.\<close>

definition stream_open_natpinhole ::
  "('m, 'j, 'a) strm_env \<Rightarrow> bool \<Rightarrow> ('m, 'j, 'a) strm \<Rightarrow> err \<times> ('m, 'j, 'a) strm" where
  "stream_open_natpinhole E mb_alloc strm =
     (if st_mnat strm \<noteq> None then (0, strm)
      else case se_rformat E (st_sdp strm) of
             None \<Rightarrow> (EINVAL, strm)
           | Some pt \<Rightarrow>
               if \<not> mb_alloc then (ENOMEM, strm)
               else st_call E (OutRtp (st_raddr_rtp strm) False False pt 0 []) strm)"

subsection \<open>Direction, hold and settings\<close>

definition stream_reset :: "('m, 'j, 'a) strm_env \<Rightarrow> ('m, 'j, 'a) strm \<Rightarrow> ('m, 'j, 'a) strm" where
  "stream_reset E s =
     (if st_jbuf s \<noteq> None \<and> st_jbuf_started s then s\<lparr>st_jbuf := map_option (se_jflush E) (st_jbuf s)\<rparr> else s)"

definition stream_hold ::
  "('m, 'j, 'a) strm_env \<Rightarrow> ('m, 'j, 'a) strm \<Rightarrow> bool \<Rightarrow> ('m, 'j, 'a) strm" where
  "stream_hold E s hold =
     (let s = s\<lparr>st_hold := hold\<rparr>;
          s = s\<lparr>st_sdp := se_set_ldir E (st_sdp s) (if hold then SDP_SENDONLY else st_ldir s)\<rparr>
      in stream_reset E s)"

definition stream_set_ldir ::
  "('m, 'j, 'a) strm_env \<Rightarrow> ('m, 'j, 'a) strm \<Rightarrow> sdp_dir \<Rightarrow> ('m, 'j, 'a) strm" where
  "stream_set_ldir E s dir =
     (let s = s\<lparr>st_ldir := dir\<rparr>;
          s = s\<lparr>st_sdp := se_set_disabled E (st_sdp s) (dir = SDP_INACTIVE)\<rparr>;
          s = s\<lparr>st_sdp := se_set_ldir E (st_sdp s) dir\<rparr>
      in stream_reset E s)"

definition stream_set_srate :: "('m, 'j, 'a) strm \<Rightarrow> u32 \<Rightarrow> u32 \<Rightarrow> ('m, 'j, 'a) strm" where
  "stream_set_srate s srate_tx srate_rx =
     (let s = (if srate_tx \<noteq> 0 then st_emit (OutSrateTx srate_tx) s else s)
      in if srate_rx \<noteq> 0 then st_emit (OutSrateRx srate_rx) s else s)"

definition stream_set_bw ::
  "('m, 'j, 'a) strm_env \<Rightarrow> ('m, 'j, 'a) strm \<Rightarrow> u32 \<Rightarrow> ('m, 'j, 'a) strm" where
  "stream_set_bw E s bps = s\<lparr>st_sdp := se_set_lbandwidth E (st_sdp s) (bps div 1000)\<rparr>"

definition stream_update_encoder :: "('m, 'j, 'a) strm \<Rightarrow> int \<Rightarrow> ('m, 'j, 'a) strm" where
  "stream_update_encoder s pt_enc = (if pt_enc \<ge> 0 then s\<lparr>st_pt_enc := pt_enc\<rparr> else s)"

definition stream_remote_set :: "('m, 'j, 'a) strm_env \<Rightarrow> ('m, 'j, 'a) strm \<Rightarrow> ('m, 'j, 'a) strm" where
  "stream_remote_set E s =
     (let s = (if cf_rtcp_mux (st_cfg s) \<and> se_rattr E (st_sdp s) ''rtcp-mux''
               then st_emit (OutSdpAttr ''rtcp-mux'') (s\<lparr>st_rtcp_mux := True\<rparr>) else s);
          s = st_emit (OutRtcpMux (st_rtcp_mux s)) s;
          s = s\<lparr>st_raddr_rtp := se_raddr E (st_sdp s)\<rparr>;
          s = s\<lparr>st_raddr_rtcp := (if st_rtcp_mux s then st_raddr_rtp s else se_raddr_rtcp E (st_sdp s))\<rparr>
      in if stream_is_ready E s then snd (stream_start E s) else s)"

definition stream_update :: "('m, 'j, 'a) strm_env \<Rightarrow> ('m, 'j, 'a) strm \<Rightarrow> ('m, 'j, 'a) strm" where
  "stream_update E s =
     (let s = s\<lparr>st_pt_enc := (case se_rformat E (st_sdp s) of None \<Rightarrow> - 1 | Some pt \<Rightarrow> pt)\<rparr>;
          s = (if se_has_media E (st_sdp s) then stream_remote_set E s else s)
      in if st_mencs s \<and> mnat_ready s then snd (stream_start_mediaenc E s) else s)"

text \<open>The handlers of the session, set or NULL.\<close>

definition stream_set_session_handlers ::
  "('m, 'j, 'a) strm \<Rightarrow> bool \<Rightarrow> bool \<Rightarrow> bool \<Rightarrow> bool \<Rightarrow> ('m, 'j, 'a) strm" where
  "stream_set_session_handlers strm mnatconnh rtpestabh rtcph errorh =
     strm\<lparr>st_mnatconnh := mnatconnh, st_rtpestabh := rtpestabh, st_sessrtcph := rtcph, st_errorh := errorh\<rparr>"

subsection \<open>RTP timeout\<close>

definition RTP_CHECK_INTERVAL :: nat where "RTP_CHECK_INTERVAL = 1000"

definition stream_close ::
  "('m, 'j, 'a) strm_env \<Rightarrow> ('m, 'j, 'a) strm \<Rightarrow> err \<Rightarrow> ('m, 'j, 'a) strm" where
  "stream_close E strm err =
     (let errorh = st_errorh strm;
          strm = strm\<lparr>st_terminated := True, st_errorh := False, st_jbuf_started := False,
                      st_jbuf := map_option (se_jflush E) (st_jbuf strm)\<rparr>
      in if errorh then st_emit (CallError err) strm else strm)"

text \<open>The timer handler at time \<open>now\<close>; \<open>diff_ms\<close> and the timeout are converted to \<open>int\<close>.\<close>

definition check_rtp_handler ::
  "('m, 'j, 'a) strm_env \<Rightarrow> u64 \<Rightarrow> ('m, 'j, 'a) strm \<Rightarrow> ('m, 'j, 'a) strm" where
  "check_rtp_handler E now strm =
     (let strm = strm\<lparr>st_tmr_rtp := Some RTP_CHECK_INTERVAL\<rparr>
      in if st_ts_last strm = 0 then strm
         else if se_dir E (st_sdp strm) = SDP_SENDRECV
         then
           let diff_ms = sint (ucast (now - st_ts_last strm) :: u32)
           in if diff_ms > 3600 * 1000 then strm\<lparr>st_ts_last := 0\<rparr>
              else if diff_ms > sint (st_rtp_timeout_ms strm) then stream_close E strm ETIMEDOUT
              else strm
         else strm)"

definition stream_enable_rtp_timeout ::
  "u64 \<Rightarrow> ('m, 'j, 'a) strm \<Rightarrow> u32 \<Rightarrow> ('m, 'j, 'a) strm" where
  "stream_enable_rtp_timeout now strm timeout_ms =
     (let strm = strm\<lparr>st_rtp_timeout_ms := timeout_ms, st_tmr_rtp := None\<rparr>
      in if timeout_ms \<noteq> 0 then strm\<lparr>st_ts_last := now, st_tmr_rtp := Some 10\<rparr> else strm)"

subsection \<open>Receiving\<close>

text \<open>The number of packets lost before \<open>seq\<close>, -1 for a repeated and -2 for an old packet.\<close>

definition lostcalc :: "('m, 'j, 'a) strm \<Rightarrow> u16 \<Rightarrow> int \<times> ('m, 'j, 'a) strm" where
  "lostcalc s seq =
     (let delta = seq - ucast (st_pseq s)
      in if st_pseq s = - 1 then (0, s\<lparr>st_pseq := ucast seq\<rparr>)
         else if delta = 0 then (- 1, s)
         else if delta < 3000 then (uint delta - 1, s\<lparr>st_pseq := ucast seq\<rparr>)
         else if delta < 0xff9c then (0, s\<lparr>st_pseq := ucast seq\<rparr>)
         else (- 2, s))"

text \<open>
  At most \<open>n\<close> extensions are decoded; \<open>Inl\<close> is a decoding error.  None stands for a
  decoder that does not return.
\<close>

fun decode_exts ::
  "mbuf_ops \<Rightarrow> nat \<Rightarrow> rtpext list \<Rightarrow> mbuf \<Rightarrow> (err + rtpext list) option" where
  "decode_exts M 0 extv mb = Some (Inr extv)"
| "decode_exts M (Suc n) extv mb =
     (if m_get_left M mb = 0 then Some (Inr extv)
      else Option.bind (rtpext_decode M (Some mb)) (\<lambda>(err, ext, mb').
             if err \<noteq> 0 then Some (Inl err)
             else case (ext, mb') of
                    (Some e, Some m) \<Rightarrow> decode_exts M n (extv @ [e]) m
                  | _ \<Rightarrow> Some (Inl EINVAL)))"

definition handle_rtp ::
  "('m, 'j, 'a) strm_env \<Rightarrow> ('m, 'j, 'a) strm \<Rightarrow> rtp_header \<Rightarrow> mbuf option \<Rightarrow> nat
     \<Rightarrow> ('m, 'j, 'a) strm option" where
  "handle_rtp E s hdr mb lostc =
     (case mb of
        Some m \<Rightarrow>
          if rh_ext hdr \<and> rh_x_len hdr \<noteq> 0
          then
            if rh_x_type hdr \<noteq> RTPEXT_TYPE_MAGIC then Some (st_emit (CallFrame hdr [] mb lostc) s)
            else
              let ext_len = unat (rh_x_len hdr) * 4
              in if mb_pos m < ext_len then Some s
                 else Option.bind
                        (decode_exts (se_mbuf E) 8 [] (m\<lparr>mb_pos := mb_pos m - ext_len, mb_end := mb_pos m\<rparr>))
                        (\<lambda>r. case r of
                               Inl err \<Rightarrow> Some s
                             | Inr extv \<Rightarrow> Some (st_emit (CallFrame hdr extv mb lostc) s))
          else Some (st_emit (CallFrame hdr [] mb lostc) s)
      | None \<Rightarrow> Some (st_emit (CallFrame hdr [] mb lostc) s))"

definition is_rtcp_packet :: "u8 \<Rightarrow> bool" where
  "is_rtcp_packet pt = (64 \<le> pt \<and> pt \<le> 95)"

definition stream_decode ::
  "('m, 'j, 'a) strm_env \<Rightarrow> ('m, 'j, 'a) strm \<Rightarrow> (err \<times> ('m, 'j, 'a) strm) option" where
  "stream_decode E s =
     (case st_jbuf s of
        None \<Rightarrow> Some (ENOENT, s)
      | Some j \<Rightarrow>
          (case se_jget E j of
             (err, hdr, mb, j) \<Rightarrow>
               let s = s\<lparr>st_jbuf := Some j\<rparr>
               in if err \<noteq> 0 \<and> err \<noteq> EAGAIN then Some (ENOENT, s)
                  else
                    let (lostc, s) = lostcalc s (rh_seq hdr);
                        s = s\<lparr>st_jbuf_started := True\<rparr>
                    in map_option (\<lambda>s. (err, s)) (handle_rtp E s hdr mb (if lostc > 0 then nat lostc else 0))))"

text \<open>The steps of \<open>rtp_handler\<close> before the packet goes to the jitter buffer.\<close>

definition rtp_source ::
  "rtp_header \<Rightarrow> ('m, 'j, 'a) strm \<Rightarrow> bool \<times> ('m, 'j, 'a) strm" where
  "rtp_source hdr s =
     (if \<not> st_pseq_set s
      then (False, s\<lparr>st_ssrc_rx := rh_ssrc hdr, st_pseq := ucast (rh_seq hdr) - 1, st_pseq_set := True\<rparr>)
      else if rh_ssrc hdr \<noteq> st_ssrc_rx s
      then (True, s\<lparr>st_ssrc_rx := rh_ssrc hdr, st_pseq := ucast (rh_seq hdr) - 1\<rparr>)
      else (False, s))"

definition rtp_input ::
  "('m, 'j, 'a) strm_env \<Rightarrow> bool \<Rightarrow> rtp_header \<Rightarrow> mbuf \<Rightarrow> ('m, 'j, 'a) strm \<Rightarrow> ('m, 'j, 'a) strm option" where
  "rtp_input E flush hdr mb s =
     (case st_jbuf s of
        None \<Rightarrow> handle_rtp E s hdr (Some mb) 0
      | Some j \<Rightarrow>
          let (j, s) = (if flush then (se_jflush E j, s\<lparr>st_jbuf_started := False\<rparr>) else (j, s));
              (err, j) = se_jput E j hdr mb;
              s = s\<lparr>st_jbuf := Some j\<rparr>;
              s = (if err \<noteq> 0
                   then s\<lparr>st_metric_rx := (st_metric_rx s)\<lparr>me_n_err := me_n_err (st_metric_rx s) + 1\<rparr>\<rparr> else s)
          in if st_type s = MEDIA_VIDEO \<or> cf_jbtype (st_cfg s) = JBUF_FIXED
             then Option.bind (stream_decode E s) (\<lambda>(err, s).
                    if err = EAGAIN then map_option snd (stream_decode E s) else Some s)
             else Some s)"

definition rtp_handler ::
  "('m, 'j, 'a) strm_env \<Rightarrow> u64 \<Rightarrow> rtp_header \<Rightarrow> mbuf \<Rightarrow> ('m, 'j, 'a) strm \<Rightarrow> ('m, 'j, 'a) strm option" where
  "rtp_handler E now hdr mb s =
     (if is_rtcp_packet (rh_pt hdr) then Some s
      else
        let s = s\<lparr>st_ts_last := now\<rparr>
        in if m_get_left (se_mbuf E) mb = 0 then Some s
           else if \<not> dir_recv (se_ldir E (st_sdp s)) then Some s
           else
             let s = s\<lparr>st_metric_rx := metric_add_packet now (st_metric_rx s) (m_get_left (se_mbuf E) mb)\<rparr>;
                 s = (if \<not> st_rtp_estab s
                      then let s = s\<lparr>st_rtp_estab := True\<rparr> in if st_rtpestabh s then st_emit CallEstab s else s
                      else s);
                 (flush, s) = rtp_source hdr s
             in if st_pt_dec s \<noteq> uint (rh_pt hdr)
                then
                  let s = s\<lparr>st_pt_dec := uint (rh_pt hdr)\<rparr>;
                      (err, s) = st_call E (CallPt (rh_pt hdr)) s
                  in if err \<noteq> 0 then Some s else rtp_input E flush hdr mb s
                else rtp_input E flush hdr mb s)"

definition rtcp_handler :: "u64 \<Rightarrow> ('m, 'j, 'a) strm \<Rightarrow> ('m, 'j, 'a) strm" where
  "rtcp_handler now s =
     (let s = s\<lparr>st_ts_last := now\<rparr>;
          s = (if st_rtcph s then st_emit CallRtcp s else s)
      in if st_sessrtcph s then st_emit CallSessRtcp s else s)"

subsection \<open>Counters and names\<close>

definition stream_metric_get_tx_n_packets :: "('m, 'j, 'a) strm option \<Rightarrow> u32" where
  "stream_metric_get_tx_n_packets strm = (case strm of None \<Rightarrow> 0 | Some s \<Rightarrow> me_n_packets (st_metric_tx s))"
definition stream_metric_get_tx_n_bytes :: "('m, 'j, 'a) strm option \<Rightarrow> u32" where
  "stream_metric_get_tx_n_bytes strm = (case strm of None \<Rightarrow> 0 | Some s \<Rightarrow> me_n_bytes (st_metric_tx s))"
definition stream_metric_get_tx_n_err :: "('m, 'j, 'a) strm option \<Rightarrow> u32" where
  "stream_metric_get_tx_n_err strm = (case strm of None \<Rightarrow> 0 | Some s \<Rightarrow> me_n_err (st_metric_tx s))"
definition stream_metric_get_rx_n_packets :: "('m, 'j, 'a) strm option \<Rightarrow> u32" where
  "stream_metric_get_rx_n_packets strm = (case strm of None \<Rightarrow> 0 | Some s \<Rightarrow> me_n_packets (st_metric_rx s))"
definition stream_metric_get_rx_n_bytes :: "('m, 'j, 'a) strm option \<Rightarrow> u32" where
  "stream_metric_get_rx_n_bytes strm = (case strm of None \<Rightarrow> 0 | Some s \<Rightarrow> me_n_bytes (st_metric_rx s))"
definition stream_metric_get_rx_n_err :: "('m, 'j, 'a) strm option \<Rightarrow> u32" where
  "stream_metric_get_rx_n_err strm = (case strm of None \<Rightarrow> 0 | Some s \<Rightarrow> me_n_err (st_metric_rx s))"

definition stream_name :: "('m, 'j, 'a) strm option \<Rightarrow> string option" where
  "stream_name strm = map_option (\<lambda>s. media_name (st_type s)) strm"

subsection \<open>Allocation\<close>

text \<open>
  The results of the library calls: \<open>zalloc\<close> (memory for the stream), \<open>dup\<close> (error of
  \<open>str_dup\<close>), \<open>jb\<close> (error and jitter buffer), \<open>metric_err\<close> (of the two \<open>metric_init\<close>).
  \<open>sdp\<close> is the media line \<open>sdp_media_add\<close> creates, \<open>unset\<close> the address with no family.
\<close>

definition stream_new ::
  "config_avt \<Rightarrow> media_type \<Rightarrow> bool \<Rightarrow> 'm \<Rightarrow> 'a \<Rightarrow> ('m, 'j, 'a) strm" where
  "stream_new cfg typ rtcph sdp unset =
     (let m = \<lparr>me_ts_start = 0, me_started = False, me_n_packets = 0, me_n_bytes = 0, me_n_err = 0,
               me_cur_bitrate = 0, me_ts_last = 0, me_n_bytes_last = 0, me_tmr = False\<rparr>
      in \<lparr>st_cfg = cfg, st_sdp = sdp, st_ldir = SDP_SENDRECV, st_rtp = False, st_jbuf = None,
          st_mnat = None, st_menc = None, st_mencs = False, st_metric_tx = m, st_metric_rx = m,
          st_raddr_rtp = unset, st_raddr_rtcp = unset, st_type = typ, st_ssrc_rx = 0, st_pseq = - 1,
          st_pseq_set = False, st_pt_enc = 0, st_pt_dec = - 1, st_rtcp_mux = False, st_jbuf_started = False,
          st_tmr_rtp = None, st_ts_last = 0, st_terminated = False, st_rtp_timeout_ms = 0,
          st_rtp_estab = False, st_hold = False, st_mnat_connected = False, st_menc_secure = False,
          st_rtcph = rtcph, st_mnatconnh = False, st_rtpestabh = False, st_sessrtcph = False,
          st_errorh = False, st_out = []\<rparr>)"

definition stream_attr ::
  "('m, 'j, 'a) strm_env \<Rightarrow> bool \<Rightarrow> string \<Rightarrow> err \<times> ('m, 'j, 'a) strm \<Rightarrow> err \<times> ('m, 'j, 'a) strm" where
  "stream_attr E wanted name r =
     (case r of (err, s) \<Rightarrow>
        if wanted then (let (e, s) = st_call E (OutSdpAttr name) s in (err OR e, s)) else (err, s))"

definition stream_alloc ::
  "('m, 'j, 'a) strm_env \<Rightarrow> bool \<Rightarrow> err \<Rightarrow> err \<times> 'j \<Rightarrow> err \<Rightarrow> 'm \<Rightarrow> 'a \<Rightarrow> bool \<Rightarrow> config_avt \<Rightarrow> media_type
     \<Rightarrow> int \<Rightarrow> bool option \<Rightarrow> strm_menc option \<Rightarrow> bool \<Rightarrow> bool \<Rightarrow> bool \<Rightarrow> err \<times> ('m, 'j, 'a) strm option" where
  "stream_alloc E zalloc dup jb metric_err sdp unset use_rtp cfg typ label mnat menc mencs offerer rtcph =
     (if \<not> zalloc then (ENOMEM, None)
      else
        let s = stream_new cfg typ rtcph sdp unset;
            (err, s) = (if use_rtp then st_call E OutListen s else (0, s))
        in if err \<noteq> 0 then (err, None)
           else if dup \<noteq> 0 then (dup, None)
           else
             let s = s\<lparr>st_rtp := use_rtp\<rparr>;
                 jbuf = cf_jbtype cfg \<noteq> JBUF_OFF \<and> cf_jbuf_del_min cfg \<noteq> 0 \<and> cf_jbuf_del_max cfg \<noteq> 0
             in if jbuf \<and> fst jb \<noteq> 0 then (fst jb, None)
                else
                  let s = (if jbuf then s\<lparr>st_jbuf := Some (snd jb)\<rparr> else s);
                      proto = (case menc of None \<Rightarrow> False | Some mc \<Rightarrow> mc_sdp_proto mc);
                      (err, s) = st_call E (OutSdpAdd proto) s
                  in if err \<noteq> 0 then (err, None)
                     else
                       let (err, s) =
                         stream_attr E (cf_rtcp_mux cfg \<and> (offerer \<or> se_rattr E (st_sdp s) ''rtcp-mux'')) ''rtcp-mux''
                           (stream_attr E True ''ssrc''
                             (stream_attr E (offerer \<or> se_rattr E (st_sdp s) ''rtcp-rsize'') ''rtcp-rsize''
                               (stream_attr E (label \<noteq> 0) ''label'' (0, s))))
                       in if err \<noteq> 0 then (err, None)
                          else
                            let (err, s) = (if mnat \<noteq> None \<and> st_rtp s
                                            then st_call E OutMnatMedia (s\<lparr>st_mnat := mnat\<rparr>) else (0, s))
                            in if err \<noteq> 0 then (err, None)
                               else
                                 let (err, s) = (if menc \<noteq> None \<and> st_rtp s
                                                 then stream_start_mediaenc E (s\<lparr>st_menc := menc, st_mencs := mencs\<rparr>)
                                                 else (0, s))
                                 in if err \<noteq> 0 then (err, None)
                                    else
                                      let s = s\<lparr>st_pt_enc := - 1,
                                                st_metric_tx := (st_metric_tx s)\<lparr>me_tmr := True\<rparr>,
                                                st_metric_rx := (st_metric_rx s)\<lparr>me_tmr := True\<rparr>\<rparr>
                                      in if metric_err \<noteq> 0 then (metric_err, None) else (0, Some s))"

subsection \<open>Nothing leaves before the stream is ready\<close>

text \<open>
  C12: the stream sends an RTP packet exactly when both ends allow the direction, it is not on hold
  and not terminated, the remote address is known, a NAT method that has to connect first
  is connected, an encryption that has to be established first is secure, and a payload
  type is chosen; the packet goes to the remote address and carries the payload.
\<close>

theorem stream_send_guarded:
  assumes "stream_send E now s ext marker pt ts mb = (err, s')"
  defines "p \<equiv> (if pt < 0 then st_pt_enc s else pt)"
  shows "st_out s' =
    (if se_isset E (st_raddr_rtp s) \<and> dir_send (se_rdir E (st_sdp s)) \<and> dir_send (se_ldir E (st_sdp s)) \<and>
        \<not> st_hold s \<and> \<not> st_terminated s \<and> (st_mnat s \<noteq> Some True \<or> st_mnat_connected s) \<and>
        ((\<exists>mc. st_menc s = Some mc \<and> mc_wait_secure mc) \<longrightarrow> st_menc_secure s) \<and> p \<ge> 0
     then st_out s @ [OutRtp (st_raddr_rtp s) ext marker p ts (m_rest (se_mbuf E) mb)]
     else st_out s)"
proof -
  have ready: "stream_is_ready E s \<longleftrightarrow> se_isset E (st_raddr_rtp s) \<and> \<not> st_terminated s \<and>
      (st_mnat s \<noteq> Some True \<or> st_mnat_connected s) \<and>
      ((\<exists>mc. st_menc s = Some mc \<and> mc_wait_secure mc) \<longrightarrow> st_menc_secure s)"
    by (auto simp: stream_is_ready_def mnat_ready_def split: option.splits)
  let ?out = "st_out s @ [OutRtp (st_raddr_rtp s) ext marker p ts (m_rest (se_mbuf E) mb)]"
  let ?go = "se_isset E (st_raddr_rtp s) \<and> dir_send (se_rdir E (st_sdp s)) \<and> se_ldir E (st_sdp s) \<noteq> SDP_RECVONLY \<and>
      se_ldir E (st_sdp s) \<noteq> SDP_INACTIVE \<and> \<not> st_hold s \<and> stream_is_ready E s"
  have "st_out (snd (stream_send E now s ext marker pt ts mb)) = (if ?go \<and> p \<ge> 0 then ?out else st_out s)"
  proof (cases ?go)
    case True
    then show ?thesis
      by (cases "pt < 0") (auto simp: stream_send_def st_call_def st_emit_def Let_def p_def)
  next
    case False
    then show ?thesis by (auto simp: stream_send_def)
  qed
  moreover have "dir_send (se_ldir E (st_sdp s)) \<longleftrightarrow>
      se_ldir E (st_sdp s) \<noteq> SDP_RECVONLY \<and> se_ldir E (st_sdp s) \<noteq> SDP_INACTIVE"
    by (cases "se_ldir E (st_sdp s)") auto
  moreover have "snd (stream_send E now s ext marker pt ts mb) = s'" by (simp add: assms(1))
  ultimately show ?thesis using ready by (auto simp del: dir_send.simps)
qed

subsection \<open>Counting lost packets\<close>

fun lost_counts :: "('m, 'j, 'a) strm \<Rightarrow> u16 list \<Rightarrow> int list" where
  "lost_counts s [] = []"
| "lost_counts s (q # qs) = (case lostcalc s q of (n, s') \<Rightarrow> n # lost_counts s' qs)"

text \<open>Sequence numbers without their wrap, each less than 3000 after the one before.\<close>

fun gaps_ok :: "nat \<Rightarrow> nat list \<Rightarrow> bool" where
  "gaps_ok T [] = True"
| "gaps_ok T (U # Us) = (T < U \<and> U < T + 3000 \<and> gaps_ok U Us)"

lemma u16_down: "(ucast (ucast (q :: u16) :: u32) :: u16) = q"
  by (simp add: u16_eq_iff bit_simps)

lemma ucast_u16_not_minus: "(ucast (q :: u16) :: u32) \<noteq> - 1"
proof
  assume "(ucast q :: u32) = - 1"
  then have "bit (ucast q :: u32) 20 = bit (- 1 :: u32) 20" by simp
  then show False using bit_imp_le_length[of q 20] by (simp add: bit_simps)
qed

lemma lostcalc_step:
  assumes "st_pseq s = ucast (of_nat T :: u16)" "T < U" "U < T + 3000"
  shows "lostcalc s (of_nat U) = (int U - int T - 1, s\<lparr>st_pseq := ucast (of_nat U :: u16)\<rparr>)"
proof -
  have d: "of_nat U - ucast (st_pseq s) = (of_nat (U - T) :: u16)"
    using assms(1,2) by (simp add: u16_down of_nat_diff)
  have u: "unat (of_nat (U - T) :: u16) = U - T" using assms(3) by (simp add: unat_of_nat)
  have "(of_nat (U - T) :: u16) \<noteq> 0" using u assms(2) by (metis unat_0 zero_less_diff less_numeral_extra(3))
  moreover have "(of_nat (U - T) :: u16) < 3000" using u assms(2,3) by (simp add: word_less_nat_alt)
  moreover have "uint (of_nat (U - T) :: u16) = int U - int T" using u assms(2) by (metis of_nat_diff order_less_imp_le uint_nat)
  moreover have "st_pseq s \<noteq> - 1" using assms(1) ucast_u16_not_minus by simp
  ultimately show ?thesis unfolding lostcalc_def d Let_def by simp
qed

lemma lost_counts_run:
  "st_pseq s = ucast (of_nat T :: u16) \<Longrightarrow> gaps_ok T Us \<Longrightarrow>
     sum_list (lost_counts s (map of_nat Us)) = int (last (T # Us)) - int T - int (length Us) \<and>
     (\<forall>n\<in>set (lost_counts s (map of_nat Us)). 0 \<le> n)"
proof (induction Us arbitrary: s T)
  case (Cons U Us)
  let ?s = "s\<lparr>st_pseq := ucast (of_nat U :: u16)\<rparr>"
  have "lostcalc s (of_nat U) = (int U - int T - 1, ?s)"
    using Cons.prems by (intro lostcalc_step) auto
  moreover have "sum_list (lost_counts ?s (map of_nat Us)) = int (last (U # Us)) - int U - int (length Us) \<and>
      (\<forall>n\<in>set (lost_counts ?s (map of_nat Us)). 0 \<le> n)"
    using Cons.prems(2) by (intro Cons.IH) simp_all
  ultimately show ?case using Cons.prems(2) by auto
qed simp

lemma u32_pred_down: "(ucast (a - 1 :: u32) :: u16) = ucast a - 1"
proof (transfer, goal_cases)
  case (1 a)
  have "(a mod 4294967296 - 1) mod 65536 = (a mod 4294967296 mod 65536 - 1) mod 65536"
    by (simp only: mod_diff_left_eq)
  also have "a mod 4294967296 mod 65536 = a mod 65536" by (simp add: mod_mod_cancel)
  finally show ?case
    using mod_diff_left_eq[of a 65536 1] by (simp add: take_bit_eq_mod mod_mod_cancel)
qed

text \<open>
  C15: from the first packet of a stream on, whatever its sequence number and however often the
  16-bit numbers wrap, the losses reported for packets in order add up to the packets that
  are missing; a repeated packet and one that is up to 100 late are recognised, and do not
  disturb the count.
\<close>

theorem lost_packets_counted:
  assumes "\<not> st_pseq_set s" "rh_seq hdr = of_nat T0" "gaps_ok T0 Ts"
    "st_pseq s1 = ucast (of_nat T :: u16)" "1 \<le> k" "k \<le> 100" "k \<le> T"
  shows "sum_list (lost_counts (snd (rtp_source hdr s)) (map of_nat (T0 # Ts))) =
           int (last (T0 # Ts)) - int T0 - int (length Ts) \<and>
         (\<forall>n\<in>set (lost_counts (snd (rtp_source hdr s)) (map of_nat (T0 # Ts))). 0 \<le> n) \<and>
         lostcalc s1 (of_nat T) = (- 1, s1) \<and> lostcalc s1 (of_nat (T - k)) = (- 2, s1)"
proof -
  let ?s = "snd (rtp_source hdr s)"
  have p: "st_pseq ?s = ucast (of_nat T0 :: u16) - 1" using assms(1,2) by (simp add: rtp_source_def)
  have first: "lostcalc ?s (of_nat T0) = (0, ?s\<lparr>st_pseq := ucast (of_nat T0 :: u16)\<rparr>)"
    using p by (simp add: lostcalc_def u32_pred_down u16_down)
  have run: "sum_list (lost_counts (?s\<lparr>st_pseq := ucast (of_nat T0 :: u16)\<rparr>) (map of_nat Ts)) =
      int (last (T0 # Ts)) - int T0 - int (length Ts) \<and>
      (\<forall>n\<in>set (lost_counts (?s\<lparr>st_pseq := ucast (of_nat T0 :: u16)\<rparr>) (map of_nat Ts)). 0 \<le> n)"
    using assms(3) by (intro lost_counts_run) simp_all
  have rep: "lostcalc s1 (of_nat T) = (- 1, s1)"
    using assms(4) ucast_u16_not_minus by (simp add: lostcalc_def u16_down)
  have d: "(of_nat (T - k) - ucast (st_pseq s1) :: u16) = of_nat (65536 - k)"
    using assms(4,6,7) by (simp add: u16_down of_nat_diff)
  have "unat (of_nat (65536 - k) :: u16) = 65536 - k" using assms(5) by (simp add: unat_of_nat)
  then have "(of_nat (65536 - k) :: u16) \<noteq> 0" "\<not> (of_nat (65536 - k) :: u16) < 3000"
    "\<not> (of_nat (65536 - k) :: u16) < 0xff9c"
    using assms(5,6) by (auto simp: word_less_nat_alt simp del: of_nat_diff)
  moreover have "st_pseq s1 \<noteq> - 1" using assms(4) ucast_u16_not_minus by simp
  ultimately have old: "lostcalc s1 (of_nat (T - k)) = (- 2, s1)" unfolding lostcalc_def d Let_def by simp
  show ?thesis using first run rep old by simp
qed

subsection \<open>The life of a stream\<close>

text \<open>Everything that happens to a stream after it was set up.\<close>

inductive strm_step :: "('m, 'j, 'a) strm_env \<Rightarrow> ('m, 'j, 'a) strm \<Rightarrow> ('m, 'j, 'a) strm \<Rightarrow> bool" for E where
  step_send: "stream_send E now s ext marker pt ts mb = (err, s') \<Longrightarrow> strm_step E s s'"
| step_fir: "strm_step E s (stream_send_fir E s pli)"
| step_pinhole: "stream_open_natpinhole E ok s = (err, s') \<Longrightarrow> strm_step E s s'"
| step_hold: "strm_step E s (stream_hold E s hold)"
| step_ldir: "strm_step E s (stream_set_ldir E s dir)"
| step_srate: "strm_step E s (stream_set_srate s tx rx)"
| step_bw: "strm_step E s (stream_set_bw E s bps)"
| step_encoder: "strm_step E s (stream_update_encoder s ptn)"
| step_update: "strm_step E s (stream_update E s)"
| step_secure: "strm_step E s (stream_set_secure s secure)"
| step_mnat: "strm_step E s (mnat_connected_handler E a1 a2 s)"
| step_start: "stream_start E s = (err, s') \<Longrightarrow> strm_step E s s'"
| step_mediaenc: "stream_start_mediaenc E s = (err, s') \<Longrightarrow> strm_step E s s'"
| step_tick: "strm_step E s (check_rtp_handler E now s)"
| step_timeout: "strm_step E s (stream_enable_rtp_timeout now s ms)"
| step_rtp: "rtp_handler E now hdr mb s = Some s' \<Longrightarrow> strm_step E s s'"
| step_decode: "stream_decode E s = Some (err, s') \<Longrightarrow> strm_step E s s'"
| step_rtcp: "strm_step E s (rtcp_handler now s)"

inductive strm_run :: "('m, 'j, 'a) strm_env \<Rightarrow> ('m, 'j, 'a) strm \<Rightarrow> ('m, 'j, 'a) strm \<Rightarrow> bool" for E where
  run_refl: "strm_run E s s"
| run_step: "strm_run E s s' \<Longrightarrow> strm_step E s' s'' \<Longrightarrow> strm_run E s s''"

fun is_error_call :: "'a strm_out \<Rightarrow> bool" where
  "is_error_call (CallError err) = True"
| "is_error_call _ = False"

definition err_calls :: "'a strm_out list \<Rightarrow> nat" where
  "err_calls out = length (filter is_error_call out)"

text \<open>A step that neither ends the stream nor calls its error handler.\<close>

definition quiet :: "('m, 'j, 'a) strm \<Rightarrow> ('m, 'j, 'a) strm \<Rightarrow> bool" where
  "quiet s s' = (st_terminated s' = st_terminated s \<and> st_errorh s' = st_errorh s \<and>
     err_calls (st_out s') = err_calls (st_out s))"

named_theorems quiets \<open>operations that do not end the stream\<close>

lemma quiet_refl [quiets]: "quiet s s"
  by (simp add: quiet_def)

lemma quiet_trans: "quiet s s' \<Longrightarrow> quiet s' s'' \<Longrightarrow> quiet s s''"
  by (simp add: quiet_def)

lemma quiet_emit [simp]: "\<not> is_error_call x \<Longrightarrow> quiet s (st_emit x s') = quiet s s'"
  by (simp add: quiet_def st_emit_def err_calls_def)

lemma quiet_call [simp]: "\<not> is_error_call x \<Longrightarrow> quiet s (snd (st_call E x s')) = quiet s s'"
  by (simp add: st_call_def)

lemma quiet_send [quiets]: "quiet s (snd (stream_send E now s ext marker pt ts mb))"
  by (auto simp: stream_send_def st_call_def st_emit_def quiet_def err_calls_def Let_def)

lemma quiet_fir [quiets]: "quiet s (stream_send_fir E s pli)"
  by (auto simp: stream_send_fir_def st_call_def st_emit_def quiet_def err_calls_def)

lemma quiet_pinhole [quiets]: "quiet s (snd (stream_open_natpinhole E ok s))"
  by (auto simp: stream_open_natpinhole_def quiet_refl split: option.split)

lemma quiet_reset: "quiet s (stream_reset E s') = quiet s s'"
  by (simp add: stream_reset_def quiet_def)

lemma quiet_hold [quiets]: "quiet s (stream_hold E s hold)"
  unfolding stream_hold_def Let_def quiet_reset by (simp add: quiet_def)

lemma quiet_ldir [quiets]: "quiet s (stream_set_ldir E s dir)"
  unfolding stream_set_ldir_def Let_def quiet_reset by (simp add: quiet_def)

lemma quiet_srate [quiets]: "quiet s (stream_set_srate s tx rx)"
  by (simp add: stream_set_srate_def quiet_refl Let_def)

lemma quiet_settings [quiets]:
  "quiet s (stream_set_bw E s bps)" "quiet s (stream_update_encoder s ptn)" "quiet s (stream_set_secure s secure)"
  "quiet s (stream_enable_rtp_timeout now s ms)"
  by (simp_all add: stream_set_bw_def stream_update_encoder_def stream_set_secure_def
      stream_enable_rtp_timeout_def quiet_def Let_def)

lemma quiet_start [quiets]: "quiet s (snd (stream_start E s))"
  by (simp add: stream_start_def quiet_refl Let_def)

lemma quiet_mediaenc [quiets]: "quiet s (snd (stream_start_mediaenc E s))"
  by (simp add: stream_start_mediaenc_def quiet_refl split: option.split)

text \<open>Changes of other fields do not matter.\<close>

lemma quiet_fields [simp]:
  "quiet s (s'\<lparr>st_raddr_rtp := a\<rparr>) = quiet s s'" "quiet s (s'\<lparr>st_raddr_rtcp := a\<rparr>) = quiet s s'"
  "quiet s (s'\<lparr>st_mnat_connected := b\<rparr>) = quiet s s'" "quiet s (s'\<lparr>st_rtcp_mux := b\<rparr>) = quiet s s'"
  "quiet s (s'\<lparr>st_pt_enc := n\<rparr>) = quiet s s'" "quiet s (s'\<lparr>st_pt_dec := n\<rparr>) = quiet s s'"
  "quiet s (s'\<lparr>st_jbuf := j\<rparr>) = quiet s s'" "quiet s (s'\<lparr>st_jbuf_started := b\<rparr>) = quiet s s'"
  "quiet s (s'\<lparr>st_pseq := u\<rparr>) = quiet s s'" "quiet s (s'\<lparr>st_ts_last := t\<rparr>) = quiet s s'"
  "quiet s (s'\<lparr>st_metric_rx := m\<rparr>) = quiet s s'" "quiet s (s'\<lparr>st_rtp_estab := b\<rparr>) = quiet s s'"
  "quiet s (s'\<lparr>st_ssrc_rx := u\<rparr>) = quiet s s'" "quiet s (s'\<lparr>st_pseq_set := b\<rparr>) = quiet s s'"
  by (simp_all add: quiet_def)

lemma quiet_update [quiets]: "quiet s (stream_update E s)"
proof -
  have remote: "quiet s (stream_remote_set E s')" if "quiet s s'" for s s'
    unfolding stream_remote_set_def Let_def
    using that by (auto intro!: quiet_trans[OF _ quiet_start])
  show ?thesis
    unfolding stream_update_def Let_def
    using remote by (auto simp: quiet_refl intro!: quiet_trans[OF _ quiet_mediaenc])
qed

lemma quiet_mnat [quiets]: "quiet s (mnat_connected_handler E a1 a2 s)"
  unfolding mnat_connected_handler_def Let_def
  by (auto simp: quiet_refl intro!: quiet_trans[OF _ quiet_start] split: option.split)

lemma quiet_handle_rtp: "handle_rtp E s hdr mb lostc = Some s' \<Longrightarrow> quiet s s'"
  by (auto simp: handle_rtp_def Let_def quiet_refl split: option.splits if_splits sum.splits bind_splits)

lemma quiet_lostcalc: "quiet s (snd (lostcalc s seq))"
  by (simp add: lostcalc_def quiet_refl Let_def)

lemma quiet_decode: "stream_decode E s = Some (err, s') \<Longrightarrow> quiet s s'"
proof -
  assume a: "stream_decode E s = Some (err, s')"
  show ?thesis
  proof (cases "st_jbuf s")
    case None
    then show ?thesis using a by (simp add: stream_decode_def quiet_refl)
  next
    case (Some j)
    obtain er hdr mb j' where j: "se_jget E j = (er, hdr, mb, j')" by (metis prod_cases4)
    let ?s = "s\<lparr>st_jbuf := Some j'\<rparr>"
    obtain n s1 where l: "lostcalc ?s (rh_seq hdr) = (n, s1)" by fastforce
    have q: "quiet s s1" using quiet_lostcalc[of ?s "rh_seq hdr"] l by (auto intro: quiet_trans[rotated] simp: quiet_refl)
    show ?thesis
    proof (cases "er \<noteq> 0 \<and> er \<noteq> EAGAIN")
      case True
      then show ?thesis using a Some j by (auto simp: stream_decode_def quiet_refl)
    next
      case False
      then have "handle_rtp E (s1\<lparr>st_jbuf_started := True\<rparr>) hdr mb (if n > 0 then nat n else 0) = Some s'"
        using a Some j l by (auto simp: stream_decode_def)
      moreover have "quiet s (s1\<lparr>st_jbuf_started := True\<rparr>)" using q by simp
      ultimately show ?thesis by (blast intro: quiet_trans quiet_handle_rtp)
    qed
  qed
qed

lemma quiet_input: "rtp_input E flush hdr mb s = Some s' \<Longrightarrow> quiet s s'"
proof -
  assume a: "rtp_input E flush hdr mb s = Some s'"
  show ?thesis
  proof (cases "st_jbuf s")
    case None
    then show ?thesis using a by (auto simp: rtp_input_def intro: quiet_handle_rtp)
  next
    case (Some j)
    define s0 where "s0 = (if flush then s\<lparr>st_jbuf_started := False\<rparr> else s)"
    obtain er j' where j: "se_jput E (if flush then se_jflush E j else j) hdr mb = (er, j')" by fastforce
    define s1 where "s1 = (if er \<noteq> 0
        then s0\<lparr>st_jbuf := Some j', st_metric_rx := (st_metric_rx s0)\<lparr>me_n_err := me_n_err (st_metric_rx s0) + 1\<rparr>\<rparr>
        else s0\<lparr>st_jbuf := Some j'\<rparr>)"
    have q: "quiet s s1" by (simp add: s1_def s0_def quiet_refl)
    have r: "rtp_input E flush hdr mb s =
        (if st_type s1 = MEDIA_VIDEO \<or> cf_jbtype (st_cfg s1) = JBUF_FIXED
         then Option.bind (stream_decode E s1) (\<lambda>(err, s).
                if err = EAGAIN then map_option snd (stream_decode E s) else Some s)
         else Some s1)"
      using Some j by (auto simp: rtp_input_def s1_def s0_def Let_def split: prod.splits)
    show ?thesis
    proof (cases "st_type s1 = MEDIA_VIDEO \<or> cf_jbtype (st_cfg s1) = JBUF_FIXED")
      case True
      then obtain e1 s2 where d: "stream_decode E s1 = Some (e1, s2)"
        "(if e1 = EAGAIN then map_option snd (stream_decode E s2) else Some s2) = Some s'"
        using a r by (auto simp: bind_eq_Some_conv)
      have "quiet s s2" using quiet_trans[OF q quiet_decode[OF d(1)]] .
      then show ?thesis using d(2) by (auto split: if_splits intro: quiet_trans quiet_decode)
    next
      case False
      then show ?thesis using a r q by simp
    qed
  qed
qed

lemma quiet_source: "quiet s (snd (rtp_source hdr s))"
  by (simp add: rtp_source_def quiet_refl)

lemma quiet_rtp: "rtp_handler E now hdr mb s = Some s' \<Longrightarrow> quiet s s'"
proof -
  assume a: "rtp_handler E now hdr mb s = Some s'"
  define s0 where "s0 = s\<lparr>st_ts_last := now\<rparr>"
  define s1 where "s1 = s0\<lparr>st_metric_rx := metric_add_packet now (st_metric_rx s0) (m_get_left (se_mbuf E) mb)\<rparr>"
  define s2 where "s2 = (if \<not> st_rtp_estab s1
      then let s = s1\<lparr>st_rtp_estab := True\<rparr> in if st_rtpestabh s then st_emit CallEstab s else s else s1)"
  obtain flush s3 where s3: "rtp_source hdr s2 = (flush, s3)" by fastforce
  define s4 where "s4 = s3\<lparr>st_pt_dec := uint (rh_pt hdr)\<rparr>"
  obtain er s5 where s5: "st_call E (CallPt (rh_pt hdr)) s4 = (er, s5)" by fastforce
  have q0: "quiet s s0" "quiet s s1" "quiet s s2"
    by (simp_all add: s0_def s1_def s2_def Let_def quiet_refl)
  have q3: "quiet s s3" using quiet_trans[OF q0(3) quiet_source[of s2 hdr]] s3 by simp
  have "quiet s (snd (st_call E (CallPt (rh_pt hdr)) s4))" using q3 by (simp add: s4_def)
  then have q5: "quiet s s5" unfolding s5 by simp
  have "rtp_handler E now hdr mb s =
      (if is_rtcp_packet (rh_pt hdr) then Some s
       else if m_get_left (se_mbuf E) mb = 0 then Some s0
       else if \<not> dir_recv (se_ldir E (st_sdp s0)) then Some s0
       else if st_pt_dec s3 \<noteq> uint (rh_pt hdr)
       then if er \<noteq> 0 then Some s5 else rtp_input E flush hdr mb s5
       else rtp_input E flush hdr mb s3)"
    unfolding rtp_handler_def Let_def s0_def[symmetric] s1_def[symmetric] s2_def[unfolded Let_def, symmetric]
      s3 prod.case s4_def[symmetric] s5 ..
  with a show ?thesis
    using q0(1) q3 q5 by (auto simp: quiet_refl split: if_splits intro: quiet_trans quiet_input)
qed

lemma quiet_rtcp [quiets]: "quiet s (rtcp_handler now s)"
  by (simp add: rtcp_handler_def quiet_refl Let_def)

text \<open>Every step but the timer is quiet; the timer may end the stream, once.\<close>

lemma check_rtp_cases:
  obtains "quiet s (check_rtp_handler E now s)"
  | s1 where "quiet s s1" "check_rtp_handler E now s = stream_close E s1 ETIMEDOUT"
proof -
  let ?s = "s\<lparr>st_tmr_rtp := Some RTP_CHECK_INTERVAL\<rparr>"
  have q: "quiet s ?s" "quiet s (?s\<lparr>st_ts_last := 0\<rparr>)" by (simp_all add: quiet_def)
  show ?thesis
  proof (cases "check_rtp_handler E now s = stream_close E ?s ETIMEDOUT")
    case True
    with q(1) show ?thesis by (rule that(2))
  next
    case False
    then have "check_rtp_handler E now s = ?s \<or> check_rtp_handler E now s = ?s\<lparr>st_ts_last := 0\<rparr>"
      by (auto simp: check_rtp_handler_def Let_def)
    then show ?thesis using q by (intro that(1)) auto
  qed
qed

lemma strm_step_cases:
  assumes "strm_step E s s'"
  obtains "quiet s s'" | s1 where "quiet s s1" "s' = stream_close E s1 ETIMEDOUT"
proof -
  have "quiet s s' \<or> (\<exists>now. s' = check_rtp_handler E now s)"
    using assms
  proof cases
    case step_send
    then show ?thesis using quiet_send by (metis snd_conv)
  next
    case step_pinhole
    then show ?thesis using quiet_pinhole by (metis snd_conv)
  next
    case step_start
    then show ?thesis using quiet_start by (metis snd_conv)
  next
    case step_mediaenc
    then show ?thesis using quiet_mediaenc by (metis snd_conv)
  qed (auto intro: quiets quiet_rtp quiet_decode)
  then show ?thesis
  proof (elim disjE exE)
    fix now assume s': "s' = check_rtp_handler E now s"
    show ?thesis by (rule check_rtp_cases[of s E now]) (rule that; simp add: s')+
  qed (rule that(1))
qed

lemma close_effect:
  "st_terminated (stream_close E s err)" "\<not> st_errorh (stream_close E s err)"
  "err_calls (st_out (stream_close E s err)) = err_calls (st_out s) + (if st_errorh s then 1 else 0)"
  by (simp_all add: stream_close_def Let_def st_emit_def err_calls_def)

text \<open>
  C13: in the whole life of a stream the error handler is called at most once, exactly when the stream
  was ended by the RTP timeout; an ended stream has no error handler and stays ended.
\<close>

theorem stream_error_once:
  assumes "strm_run E s s'" "\<not> st_terminated s" "err_calls (st_out s) = 0"
  shows "err_calls (st_out s') = (if st_terminated s' \<and> st_errorh s then 1 else 0) \<and>
         st_errorh s' = (st_errorh s \<and> \<not> st_terminated s') \<and>
         (\<forall>s''. strm_run E s' s'' \<longrightarrow> st_terminated s' \<longrightarrow> st_terminated s'')"
proof -
  have stays: "strm_run E a b \<Longrightarrow> st_terminated a \<Longrightarrow> st_terminated b" for a b
  proof (induction rule: strm_run.induct)
    case (run_step s s' s'')
    from run_step(2) show ?case
      using run_step.IH run_step.prems by (cases rule: strm_step_cases) (auto simp: quiet_def close_effect)
  qed simp
  have "err_calls (st_out s') = (if st_terminated s' \<and> st_errorh s then 1 else 0) \<and>
      st_errorh s' = (st_errorh s \<and> \<not> st_terminated s')"
    using assms
  proof (induction rule: strm_run.induct)
    case (run_step s s' s'')
    from run_step(2) show ?case
      using run_step.IH[OF run_step.prems]
      by (cases rule: strm_step_cases) (auto simp: quiet_def close_effect)
  qed simp
  with stays show ?thesis by blast
qed

subsection \<open>Silence ends the stream\<close>

definition ticks :: "('m, 'j, 'a) strm_env \<Rightarrow> u64 \<Rightarrow> nat \<Rightarrow> ('m, 'j, 'a) strm \<Rightarrow> ('m, 'j, 'a) strm" where
  "ticks E t0 n s = foldl (\<lambda>s k. check_rtp_handler E (t0 + of_nat (1000 * k)) s) s [1..<Suc n]"

lemma ticks_Suc: "ticks E t0 (Suc n) s = check_rtp_handler E (t0 + of_nat (1000 * Suc n)) (ticks E t0 n s)"
  by (simp add: ticks_def)

lemma tick_diff:
  assumes "1000 * k < 2 ^ 31"
  shows "sint (ucast (t0 + of_nat (1000 * k) - t0 :: u64) :: u32) = int (1000 * k)"
proof -
  have c: "(ucast (t0 + of_nat (1000 * k) - t0 :: u64) :: u32) = of_nat (1000 * k)"
    using assms by (simp add: unsigned_of_nat take_bit_nat_eq_self del: of_nat_mult)
  have m: "1000 * k = unat (of_nat (1000 * k) :: u32)"
    using assms unfolding unat_of_nat by (simp add: take_bit_nat_eq_self)
  show ?thesis unfolding c u32_sint[OF m] using assms by simp
qed

lemma tick_waits:
  assumes "se_dir E (st_sdp s) = SDP_SENDRECV" "st_ts_last s = t0" "t0 \<noteq> 0"
    "1000 * k \<le> unat (st_rtp_timeout_ms s)" "unat (st_rtp_timeout_ms s) < 2 ^ 31" "1000 * k \<le> 3600000"
  shows "check_rtp_handler E (t0 + of_nat (1000 * k)) s = s\<lparr>st_tmr_rtp := Some RTP_CHECK_INTERVAL\<rparr>"
proof -
  define T where "T = unat (st_rtp_timeout_ms s)"
  have "1000 * k \<le> T" "T < 2 ^ 31" using assms(4,5) by (simp_all add: T_def)
  moreover from u32_sint[OF T_def] this have "sint (st_rtp_timeout_ms s) = int T" by simp
  moreover have "sint (ucast (t0 + of_nat (1000 * k) - t0 :: u64) :: u32) = int (1000 * k)"
    using assms(6) by (intro tick_diff) simp
  ultimately show ?thesis using assms(1-3,6) unfolding check_rtp_handler_def Let_def by simp
qed

lemma ticks_wait:
  assumes "se_dir E (st_sdp s) = SDP_SENDRECV" "st_ts_last s = t0" "t0 \<noteq> 0"
    "1000 * n \<le> unat (st_rtp_timeout_ms s)" "unat (st_rtp_timeout_ms s) < 2 ^ 31" "1000 * n \<le> 3600000"
  shows "\<exists>tmr. ticks E t0 n s = s\<lparr>st_tmr_rtp := tmr\<rparr>"
  using assms(4,6)
proof (induction n)
  case 0
  then show ?case by (intro exI[of _ "st_tmr_rtp s"]) (simp add: ticks_def)
next
  case (Suc n)
  then obtain tmr where "ticks E t0 n s = s\<lparr>st_tmr_rtp := tmr\<rparr>" by auto
  then show ?case
    unfolding ticks_Suc using tick_waits[of E "s\<lparr>st_tmr_rtp := tmr\<rparr>" t0 "Suc n"] assms(1-3,5) Suc.prems
    by (intro exI[of _ "Some RTP_CHECK_INTERVAL"]) simp
qed

lemma ticks_end:
  assumes "se_dir E (st_sdp s) = SDP_SENDRECV" "st_ts_last s = t0" "t0 \<noteq> 0"
    "1000 * n \<le> unat (st_rtp_timeout_ms s)" "unat (st_rtp_timeout_ms s) < 1000 * Suc n" "1000 * Suc n \<le> 3600000"
  shows "ticks E t0 (Suc n) s = stream_close E (s\<lparr>st_tmr_rtp := Some RTP_CHECK_INTERVAL\<rparr>) ETIMEDOUT"
proof -
  have T: "unat (st_rtp_timeout_ms s) < 2 ^ 31" using assms(5,6) by simp
  obtain tmr where w: "ticks E t0 n s = s\<lparr>st_tmr_rtp := tmr\<rparr>"
    using ticks_wait[OF assms(1-4) T] assms(6) by auto
  define T where "T = unat (st_rtp_timeout_ms s)"
  have "T < 1000 * Suc n" "T < 2 ^ 31" using assms(5) T by (simp_all add: T_def)
  moreover from u32_sint[OF T_def] this have "sint (st_rtp_timeout_ms s) = int T" by simp
  moreover have "sint (ucast (t0 + of_nat (1000 * Suc n) - t0 :: u64) :: u32) = int (1000 * Suc n)"
    using assms(6) by (intro tick_diff) simp
  ultimately show ?thesis
    using assms(1-3,6) unfolding ticks_Suc w check_rtp_handler_def Let_def by simp
qed


subsection \<open>Header extensions of a packet\<close>

lemma ext_bytes_hd:
  assumes "ext_valid (extid, d)"
  shows "ext_bytes extid d \<noteq> []" "hd (ext_bytes extid d) \<noteq> 0"
proof -
  define v where "v = (push_bit 4 (of_nat extid) OR of_nat (length d - 1) :: u8)"
  have "ucast (drop_bit 4 v) = (of_nat extid :: 4 word)"
    unfolding v_def by (rule ext_header_fields; use assms in \<open>simp add: ext_valid_def\<close>)
  moreover have "unat (of_nat extid :: 4 word) = extid" using assms by (simp add: unat_of_nat ext_valid_def)
  ultimately have "v \<noteq> 0" using assms by (auto simp: ext_valid_def)
  then show "hd (ext_bytes extid d) \<noteq> 0" unfolding v_def ext_bytes_def list.sel .
  show "ext_bytes extid d \<noteq> []" by (simp add: ext_bytes_def)
qed

definition exts_bytes :: "(nat \<times> u8 list) list \<Rightarrow> u8 list" where
  "exts_bytes xs = concat (map (\<lambda>(i, d). ext_bytes i d) xs)"

lemma decode_exts_all:
  assumes "mbuf_laws M"
  shows "mb_wf src \<Longrightarrow> mb_unread src = exts_bytes xs \<Longrightarrow> \<forall>x\<in>set xs. ext_valid x \<Longrightarrow> length xs \<le> n \<Longrightarrow>
    decode_exts M n extv src = Some (Inr (extv @ map ext_of xs))"
proof (induction xs arbitrary: src n extv)
  case Nil
  then have "m_get_left M src = 0" using assms by (simp add: m_get_left_unread exts_bytes_def)
  then show ?case by (cases n) simp_all
next
  case (Cons x xs)
  obtain i d where x: "x = (i, d)" by fastforce
  obtain k where n: "n = Suc k" using Cons.prems(4) by (cases n) auto
  have v: "ext_valid (i, d)" using Cons.prems(3) x by simp
  have u: "mb_unread src = ext_bytes i d @ exts_bytes xs" using Cons.prems(2) x by (simp add: exts_bytes_def)
  have rest: "exts_bytes xs = [] \<or> hd (exts_bytes xs) \<noteq> 0"
    using Cons.prems(3) ext_bytes_hd by (cases xs) (auto simp: exts_bytes_def)
  obtain src' where s': "rtpext_decode M (Some src) = Some (0, Some (ext_of (i, d)), Some src')" "mb_wf src'"
    "mb_unread src' = exts_bytes xs"
    using rtpext_decode_ext[OF assms v Cons.prems(1) u rest] by blast
  have "m_get_left M src \<noteq> 0"
    using m_get_left_unread[OF assms Cons.prems(1)] u ext_bytes_hd(1)[OF v] by simp
  then show ?case
    using s'(1) Cons.IH[OF s'(2,3), of k "extv @ [ext_of (i, d)]"] Cons.prems(3,4) by (simp add: n x)
qed

text \<open>
  a packet whose header announces extensions of RFC 5285, at most 8 of them, is delivered with
  exactly these extensions and its payload untouched; a packet that announces more
  extension words than there are bytes before the payload is dropped.
\<close>

theorem rtp_extensions_delivered:
  assumes "mbuf_laws (se_mbuf E)" "mb_wf mb" "take (mb_pos mb) (mb_data mb) = pre @ exts_bytes xs"
    "\<forall>x\<in>set xs. ext_valid x" "length xs \<le> 8"
    "rh_ext hdr" "rh_x_type hdr = RTPEXT_TYPE_MAGIC" "rh_x_len hdr \<noteq> 0"
  shows "(unat (rh_x_len hdr) * 4 = length (exts_bytes xs) \<longrightarrow>
            handle_rtp E s hdr (Some mb) lostc =
              Some (st_emit (CallFrame hdr (map ext_of xs) (Some mb) lostc) s)) \<and>
         (mb_pos mb < unat (rh_x_len hdr) * 4 \<longrightarrow> handle_rtp E s hdr (Some mb) lostc = Some s)"
proof (intro conjI impI)
  assume len: "unat (rh_x_len hdr) * 4 = length (exts_bytes xs)"
  let ?m = "mb\<lparr>mb_pos := mb_pos mb - length (exts_bytes xs), mb_end := mb_pos mb\<rparr>"
  have b: "mb_pos mb \<le> mb_end mb" "mb_end mb \<le> length (mb_buf mb)" using assms(2) by (simp_all add: mb_wf_def)
  have t: "take (mb_pos mb) (mb_buf mb) = pre @ exts_bytes xs"
    using assms(3) b by (simp add: mb_data_def min_def)
  have pos: "mb_pos mb = length pre + length (exts_bytes xs)"
    using arg_cong[OF t, of length] b by simp
  have "mb_wf ?m" using b by (simp add: mb_wf_def)
  moreover have "mb_unread ?m = exts_bytes xs"
    using t pos by (simp add: mb_unread_def mb_data_def)
  ultimately have "decode_exts (se_mbuf E) 8 [] ?m = Some (Inr (map ext_of xs))"
    using decode_exts_all[OF assms(1), of ?m xs 8 "[]"] assms(4,5) by simp
  then show "handle_rtp E s hdr (Some mb) lostc = Some (st_emit (CallFrame hdr (map ext_of xs) (Some mb) lostc) s)"
    using assms(6-8) pos len by (simp add: handle_rtp_def Let_def)
next
  assume "mb_pos mb < unat (rh_x_len hdr) * 4"
  then show "handle_rtp E s hdr (Some mb) lostc = Some s"
    using assms(6-8) by (simp add: handle_rtp_def)
qed

subsection \<open>A concrete stream\<close>

text \<open>The media line is its direction, an address is whether it is set, every call succeeds.\<close>

definition ref_hdr :: rtp_header where
  "ref_hdr = \<lparr>rh_ext = True, rh_x_type = RTPEXT_TYPE_MAGIC, rh_x_len = 1, rh_m = False, rh_pt = 0,
              rh_seq = 65535, rh_ts = 160, rh_ssrc = 7\<rparr>"

definition ref_strm_env :: "(sdp_dir, unit, bool) strm_env" where
  "ref_strm_env = \<lparr>se_mbuf = ref_mbuf, se_ret = (\<lambda>out. 0), se_ldir = (\<lambda>d. d), se_rdir = (\<lambda>d. SDP_SENDRECV),
     se_dir = (\<lambda>d. d), se_set_ldir = (\<lambda>m d. d), se_set_disabled = (\<lambda>m b. m), se_set_lbandwidth = (\<lambda>m b. m),
     se_has_media = (\<lambda>m. True), se_rformat = (\<lambda>m. Some 0), se_rattr = (\<lambda>m n. False), se_raddr = (\<lambda>m. True),
     se_raddr_rtcp = (\<lambda>m. True), se_isset = (\<lambda>a. a), se_jput = (\<lambda>j h m. (0, j)),
     se_jget = (\<lambda>j. (ENOENT, ref_hdr, None, j)), se_jflush = (\<lambda>j. j)\<rparr>"

definition ref_strm :: "(sdp_dir, unit, bool) strm" where
  "ref_strm = (stream_new \<lparr>cf_rtcp_mux = False, cf_jbtype = JBUF_OFF, cf_jbuf_del_min = 0, cf_jbuf_del_max = 0,
      cf_jbuf_wish = 0\<rparr> MEDIA_AUDIO False SDP_SENDRECV True)
     \<lparr>st_menc := Some \<lparr>mc_wait_secure = True, mc_mediah = True, mc_sdp_proto = True\<rparr>, st_errorh := True,
      st_ts_last := 500, st_rtp_timeout_ms := 2500\<rparr>"

theorem stream_send_guarded_witness:
  "st_out (snd (stream_send ref_strm_env 9 ref_strm False True 8 160 (mbuf_of [1, 2]))) = [] \<and>
   st_out (snd (stream_send ref_strm_env 9 (stream_set_secure ref_strm True) False True 8 160 (mbuf_of [1, 2]))) =
     [OutRtp True False True 8 160 [1, 2]]"
proof -
  have m: "m_rest ref_mbuf (mbuf_of [1, 2]) = [1, 2]" by (simp add: ref_mbuf_def mbuf_of_def)
  obtain e1 s1 where 1: "stream_send ref_strm_env 9 ref_strm False True 8 160 (mbuf_of [1, 2]) = (e1, s1)"
    by fastforce
  obtain e2 s2 where 2: "stream_send ref_strm_env 9 (stream_set_secure ref_strm True) False True 8 160 (mbuf_of [1, 2]) = (e2, s2)"
    by fastforce
  show ?thesis
    using stream_send_guarded[OF 1] stream_send_guarded[OF 2] 1 2 m
    by (simp add: ref_strm_env_def ref_strm_def stream_new_def stream_set_secure_def Let_def)
qed

theorem lost_packets_counted_witness:
  "sum_list (lost_counts (snd (rtp_source ref_hdr ref_strm)) (map of_nat (65535 # [65536, 65539, 65540]))) = 2"
proof -
  have "\<not> st_pseq_set ref_strm" "rh_seq ref_hdr = of_nat 65535" "gaps_ok 65535 [65536, 65539, 65540]"
    "st_pseq (ref_strm\<lparr>st_pseq := ucast (of_nat 7 :: u16)\<rparr>) = ucast (of_nat 7 :: u16)"
    by (simp_all add: ref_hdr_def ref_strm_def stream_new_def Let_def)
  from lost_packets_counted[OF this, of 2] show ?thesis by (simp del: lost_counts.simps list.map)
qed


theorem stream_error_once_witness:
  "err_calls (st_out (check_rtp_handler ref_strm_env 9000 (check_rtp_handler ref_strm_env 5000 ref_strm))) = 1"
proof -
  let ?s1 = "check_rtp_handler ref_strm_env 5000 ref_strm"
  let ?s2 = "check_rtp_handler ref_strm_env 9000 ?s1"
  have run: "strm_run ref_strm_env ref_strm ?s2"
    using run_step[OF run_step[OF run_refl step_tick] step_tick] .
  have t: "st_terminated ?s2"
    by (simp add: check_rtp_handler_def ref_strm_env_def ref_strm_def stream_new_def Let_def stream_close_def st_emit_def)
  have s: "\<not> st_terminated ref_strm" "err_calls (st_out ref_strm) = 0" "st_errorh ref_strm"
    by (simp_all add: ref_strm_def stream_new_def Let_def err_calls_def)
  show ?thesis using stream_error_once[OF run s(1,2)] t s(3) by simp
qed

theorem rtp_extensions_delivered_witness:
  "handle_rtp ref_strm_env ref_strm ref_hdr (Some \<lparr>mb_buf = exts_bytes [(3, [9])] @ [0, 0, 5], mb_pos = 4, mb_end = 7\<rparr>) 0 =
     Some (st_emit (CallFrame ref_hdr [ext_of (3, [9])]
       (Some \<lparr>mb_buf = exts_bytes [(3, [9])] @ [0, 0, 5], mb_pos = 4, mb_end = 7\<rparr>) 0) ref_strm)"
proof -
  let ?m = "\<lparr>mb_buf = exts_bytes [(3, [9])] @ [0, 0, 5 :: u8], mb_pos = 4, mb_end = 7\<rparr>"
  have "exts_bytes [(3, [9])] = [0x30, 9, 0, 0]"
    by (simp add: exts_bytes_def ext_bytes_def numeral_2_eq_2)
  moreover have "mbuf_laws (se_mbuf ref_strm_env)" by (simp add: ref_strm_env_def ref_mbuf_laws)
  ultimately show ?thesis
    using rtp_extensions_delivered[of ref_strm_env ?m "[]" "[(3, [9])]" ref_hdr ref_strm 0]
    by (simp add: mb_wf_def mb_data_def ext_valid_def ref_hdr_def)
qed

end
