(* ===== verification/Sip.thy ===== *)
theory Sip
  imports Registry
begin

text \<open>
  The vocabulary of the SIP part: addresses and messages as libre hands them over, and
  libre's string functions.

  The structures of libre are records of the fields the sources read.  Its functions are
  the fields of \<open>libre\<close>, an argument of the definitions that call them.  \<open>l_regex\<close> is
  \<open>re_regex\<close>: None when the expression does not match, else the captured groups.
  \<open>l_dup\<close> says whether memory for a copy of the string is available.
\<close>

subsection \<open>Addresses\<close>

record uri =
  u_scheme :: string
  u_user :: string
  u_password :: string
  u_host :: string
  u_af :: int
  u_port :: u16
  u_params :: string
  u_headers :: string

record sip_addr =
  sa_dname :: string
  sa_auri :: string
  sa_uri :: uri
  sa_params :: string

subsection \<open>Messages\<close>

datatype sip_hdrid =
    SIP_HDR_SERVER
  | SIP_HDR_CONTACT
  | SIP_HDR_REQUIRE
  | SIP_HDR_ACCEPT
  | SIP_HDR_REFER_TO

datatype sip_transp =
    SIP_TRANSP_UDP
  | SIP_TRANSP_TCP
  | SIP_TRANSP_TLS
  | SIP_TRANSP_WS
  | SIP_TRANSP_WSS
  | SIP_TRANSP_NONE

text \<open>\<open>sm_hdrs\<close> are the values of the headers of one kind, in the order of the message.\<close>

record sip_msg =
  sm_met :: string
  sm_scode :: u16
  sm_reason :: string
  sm_uri_user :: string
  sm_from_auri :: string
  sm_from_dname :: string
  sm_to_auri :: string
  sm_ctype :: "string \<times> string"
  sm_ctype_params :: string
  sm_hdrs :: "sip_hdrid \<Rightarrow> string list"
  sm_xhdr :: "string \<Rightarrow> (string \<times> string) option"
  sm_mb :: mbuf
  sm_tp :: sip_transp

definition sip_msg_hdr :: "sip_msg \<Rightarrow> sip_hdrid \<Rightarrow> string option" where
  "sip_msg_hdr msg hid = (case sm_hdrs msg hid of [] \<Rightarrow> None | v # _ \<Rightarrow> Some v)"

definition sip_msg_hdr_apply :: "sip_msg \<Rightarrow> sip_hdrid \<Rightarrow> (string \<Rightarrow> bool) \<Rightarrow> string option" where
  "sip_msg_hdr_apply msg hid h = List.find h (sm_hdrs msg hid)"

subsection \<open>String functions of libre\<close>

record libre =
  l_regex :: "string \<Rightarrow> string \<Rightarrow> string list option"
  l_param_decode :: "string \<Rightarrow> string \<Rightarrow> string option"
  l_param_exists :: "string \<Rightarrow> string \<Rightarrow> bool"
  l_u32 :: "string \<Rightarrow> u32"
  l_casecmp :: casecmp
  l_addr_decode :: "string \<Rightarrow> err + sip_addr"
  l_uri_decode :: "string \<Rightarrow> err + uri"
  l_uri_encode :: "uri \<Rightarrow> string"
  l_ctype :: "string \<times> string \<Rightarrow> string \<Rightarrow> string \<Rightarrow> bool"
  l_dup :: "string \<Rightarrow> bool"
  l_zalloc :: bool
  l_snprintf :: "nat \<Rightarrow> string option \<Rightarrow> fmt_arg list \<Rightarrow> string option"

text \<open>
  \<open>str_dup\<close> and \<open>pl_strdup\<close> into a field that holds \<open>old\<close>: a string or ENOMEM.  A NULL
  source is EINVAL.
\<close>

definition str_dup :: "libre \<Rightarrow> string option \<Rightarrow> string option \<Rightarrow> err \<times> string option" where
  "str_dup L old s =
     (case s of
        None \<Rightarrow> (EINVAL, old)
      | Some x \<Rightarrow> if l_dup L x then (0, Some x) else (ENOMEM, old))"

lemma str_dup_ok: "l_dup L x \<Longrightarrow> str_dup L old (Some x) = (0, Some x)"
  by (simp add: str_dup_def)

text \<open>
  \<open>re_snprintf\<close> into a buffer of \<open>n\<close> bytes: None stands for reading an argument that is not
  there.  A format without directives is copied, truncated to the buffer.
\<close>

definition snprintf_laws :: "(nat \<Rightarrow> string option \<Rightarrow> fmt_arg list \<Rightarrow> string option) \<Rightarrow> bool" where
  "snprintf_laws p =
     ((\<forall>n fmt args. 0 < n \<and> CHR 0x25 \<notin> set fmt \<longrightarrow> p n (Some fmt) args = Some (take (n - 1) fmt)) \<and>
      (\<forall>n pre post. 0 < n \<and> CHR 0x25 \<notin> set pre \<longrightarrow> p n (Some (pre @ ''%s'' @ post)) [] = None))"

subsection \<open>Custom headers\<close>

text \<open>
  \<open>src/custom_hdrs.c\<close>: a list of names and values.  When there is no memory for the entry,
  the formatted value is already there and the error code is still 0.
\<close>

definition custom_hdrs_add ::
  "libre \<Rightarrow> (string \<times> string) list \<Rightarrow> string \<Rightarrow> string \<Rightarrow> err \<times> (string \<times> string) list" where
  "custom_hdrs_add L hdrs name v =
     (let err = (if l_dup L v then 0 else ENOMEM)
      in if \<not> l_zalloc L \<or> err \<noteq> 0 then (err, hdrs)
         else if l_dup L name then (0, hdrs @ [(name, v)])
         else (ENOMEM, hdrs))"

fun custom_hdrs_apply :: "(string \<Rightarrow> string \<Rightarrow> 'w \<Rightarrow> err \<times> 'w) \<Rightarrow> (string \<times> string) list \<Rightarrow> 'w \<Rightarrow> err \<times> 'w" where
  "custom_hdrs_apply h [] w = (0, w)"
| "custom_hdrs_apply h ((name, v) # hdrs) w =
     (let (err, w) = h name v w in if err \<noteq> 0 then (err, w) else custom_hdrs_apply h hdrs w)"

definition custom_hdrs_print ::
  "(string \<Rightarrow> fmt_arg list \<Rightarrow> 'w \<Rightarrow> err \<times> 'w) \<Rightarrow> (string \<times> string) list \<Rightarrow> 'w \<Rightarrow> err \<times> 'w" where
  "custom_hdrs_print pr hdrs w =
     custom_hdrs_apply (\<lambda>name v. pr (''%r: %r'' @ [CHR 0x0d, CHR 0x0a]) [FStr name, FStr v]) hdrs w"

subsection \<open>Dictionaries\<close>

text \<open>
  \<open>odict_entry_add\<close> of libre is \<open>od_add\<close>; \<open>od_all\<close> adds several entries and joins the
  error codes, as the sources do with \<open>err |=\<close>.
\<close>

datatype 'od odval = OdStr "string option" | OdInt int | OdBool bool | OdObj 'od | OdArr 'od

type_synonym 'od od_add = "'od \<Rightarrow> string \<Rightarrow> 'od odval \<Rightarrow> err \<times> 'od"

fun od_all :: "'od od_add \<Rightarrow> 'od \<Rightarrow> (string \<times> 'od odval) list \<Rightarrow> err \<Rightarrow> err \<times> 'od" where
  "od_all add od [] err = (err, od)"
| "od_all add od ((k, v) # es) err = (let (e, od) = add od k v in od_all add od es (err OR e))"

text \<open>The dictionary that keeps its entries in a list.\<close>

datatype od_list = Od "(string \<times> od_list odval) list"

fun od_list_add :: "od_list od_add" where
  "od_list_add (Od es) k v = (0, Od (es @ [(k, v)]))"

lemma od_all_list: "od_all od_list_add (Od es) kvs err = (err, Od (es @ kvs))"
  by (induction kvs arbitrary: es) auto

end
