(* ===== verification/Account.thy ===== *)
theory Account
  imports Sip
begin

text \<open>
  STUN/TURN URIs and the SIP account (\<open>src/stunuri.c\<close>, \<open>src/acct.c\<close>): decoding the
  parameters of a SIP address, the setters, and the getters.

  An \<open>account\<close> is the structure of \<open>acct.h\<close>; the static list elements \<open>acv\<close>/\<open>vcv\<close> and the
  lists they form are one list each.  The getters map a NULL account to their default, so
  they take an optional account.  The registries of codecs, NAT methods and encryptions
  (\<open>data_aucodecl()\<close> and so on) are arguments.
\<close>

subsection \<open>STUN URIs\<close>

datatype stun_scheme = STUN_SCHEME_STUN | STUN_SCHEME_STUNS | STUN_SCHEME_TURN | STUN_SCHEME_TURNS

record stun_uri =
  su_scheme :: stun_scheme
  su_host :: "string option"
  su_port :: u16

definition stunuri_decode :: "libre \<Rightarrow> string option \<Rightarrow> err \<times> stun_uri option" where
  "stunuri_decode L pl =
     (case pl of
        None \<Rightarrow> (EINVAL, None)
      | Some x \<Rightarrow>
          (case l_uri_decode L x of
             Inl err \<Rightarrow> (err, None)
           | Inr uri \<Rightarrow>
               let is = (\<lambda>s. l_casecmp L (Some (u_scheme uri)) (Some s) = 0);
                   scheme = (if is ''stun'' then Some STUN_SCHEME_STUN
                             else if is ''stuns'' then Some STUN_SCHEME_STUNS
                             else if is ''turn'' then Some STUN_SCHEME_TURN
                             else if is ''turns'' then Some STUN_SCHEME_TURNS
                             else None)
               in (case scheme of
                     None \<Rightarrow> (ENOTSUP, None)
                   | Some sch \<Rightarrow>
                       if \<not> l_zalloc L then (ENOMEM, None)
                       else
                         let (err, host) = str_dup L None (Some (u_host uri));
                             su = \<lparr>su_scheme = sch, su_host = host, su_port = u_port uri\<rparr>
                         in (err, if err \<noteq> 0 then None else Some su))))"

definition stunuri_set_host :: "libre \<Rightarrow> stun_uri option \<Rightarrow> string option \<Rightarrow> err \<times> stun_uri option" where
  "stunuri_set_host L su host =
     (case su of
        None \<Rightarrow> (EINVAL, su)
      | Some u \<Rightarrow>
          if host = None then (EINVAL, su)
          else let (err, h) = str_dup L None host in (err, Some (u\<lparr>su_host := h\<rparr>)))"

definition stunuri_set_port :: "stun_uri option \<Rightarrow> u16 \<Rightarrow> err \<times> stun_uri option" where
  "stunuri_set_port su port =
     (case su of None \<Rightarrow> (EINVAL, su) | Some u \<Rightarrow> (0, Some (u\<lparr>su_port := port\<rparr>)))"

fun stunuri_scheme_name :: "stun_scheme \<Rightarrow> string" where
  "stunuri_scheme_name STUN_SCHEME_STUN = ''stun''"
| "stunuri_scheme_name STUN_SCHEME_STUNS = ''stuns''"
| "stunuri_scheme_name STUN_SCHEME_TURN = ''turn''"
| "stunuri_scheme_name STUN_SCHEME_TURNS = ''turns''"

text \<open>Printing appends to an output \<open>'w\<close> with the print function \<open>pr\<close>.\<close>

type_synonym 'w printer = "string \<Rightarrow> fmt_arg list \<Rightarrow> 'w \<Rightarrow> err \<times> 'w"

fun print_all :: "'w printer \<Rightarrow> (string \<times> fmt_arg list) list \<Rightarrow> err \<Rightarrow> 'w \<Rightarrow> err \<times> 'w" where
  "print_all pr [] err w = (err, w)"
| "print_all pr ((fmt, args) # ps) err w = (let (e, w) = pr fmt args w in print_all pr ps (err OR e) w)"

definition stunuri_print :: "'w printer \<Rightarrow> stun_uri option \<Rightarrow> 'w \<Rightarrow> err \<times> 'w" where
  "stunuri_print pr su w =
     (case su of
        None \<Rightarrow> (0, w)
      | Some u \<Rightarrow>
          print_all pr [(''scheme=%s'', [FStr (stunuri_scheme_name (su_scheme u))]),
                        ('' host='' @ [CHR 0x27] @ ''%s'' @ [CHR 0x27], [FStr (str_of (su_host u))]),
                        ('' port=%u'', [FNum (unat (su_port u))])] 0 w)"

subsection \<open>Accounts\<close>

datatype answermode = ANSWERMODE_MANUAL | ANSWERMODE_EARLY | ANSWERMODE_AUTO

record account =
  acc_buf :: "string option"
  acc_laddr :: sip_addr
  acc_luri :: uri
  acc_dispname :: "string option"
  acc_aor :: "string option"
  acc_answermode :: answermode
  acc_aucodecl :: "nat aucodec list"
  acc_auth_user :: "string option"
  acc_auth_pass :: "string option"
  acc_mnatid :: "string option"
  acc_mencid :: "string option"
  acc_mnat :: "mnat option"
  acc_menc :: "menc option"
  acc_outbound1 :: "string option"
  acc_outbound2 :: "string option"
  acc_ptime :: u32
  acc_regint :: u32
  acc_fbregint :: u32
  acc_rwait :: u32
  acc_pubint :: u32
  acc_prio :: u32
  acc_regq :: "string option"
  acc_sipnat :: "string option"
  acc_stun_user :: "string option"
  acc_stun_pass :: "string option"
  acc_stun_host :: "stun_uri option"
  acc_vidcodecl :: "nat vidcodec list"
  acc_mwi :: bool
  acc_refer :: bool
  acc_ausrc_mod :: "string option"
  acc_ausrc_dev :: "string option"
  acc_auplay_mod :: "string option"
  acc_auplay_dev :: "string option"
  acc_extra :: "string option"

definition null_uri :: uri where
  "null_uri = \<lparr>u_scheme = [], u_user = [], u_password = [], u_host = [], u_af = 0, u_port = 0,
               u_params = [], u_headers = []\<rparr>"

definition null_addr :: sip_addr where
  "null_addr = \<lparr>sa_dname = [], sa_auri = [], sa_uri = null_uri, sa_params = []\<rparr>"

text \<open>The account as \<open>mem_zalloc\<close> returns it.\<close>

definition null_account :: account where
  "null_account =
     \<lparr>acc_buf = None, acc_laddr = null_addr, acc_luri = null_uri, acc_dispname = None, acc_aor = None,
      acc_answermode = ANSWERMODE_MANUAL, acc_aucodecl = [], acc_auth_user = None, acc_auth_pass = None,
      acc_mnatid = None, acc_mencid = None, acc_mnat = None, acc_menc = None, acc_outbound1 = None,
      acc_outbound2 = None, acc_ptime = 0, acc_regint = 0, acc_fbregint = 0, acc_rwait = 0,
      acc_pubint = 0, acc_prio = 0, acc_regq = None, acc_sipnat = None, acc_stun_user = None,
      acc_stun_pass = None, acc_stun_host = None, acc_vidcodecl = [], acc_mwi = False,
      acc_refer = False, acc_ausrc_mod = None, acc_ausrc_dev = None, acc_auplay_mod = None,
      acc_auplay_dev = None, acc_extra = None\<rparr>"

subsection \<open>Decoding the parameters\<close>

text \<open>A missing parameter leaves the field alone.\<close>

definition param_dstr ::
  "libre \<Rightarrow> string option \<Rightarrow> string \<Rightarrow> string \<Rightarrow> err \<times> string option" where
  "param_dstr L old params name =
     (case l_param_decode L params name of None \<Rightarrow> (0, old) | Some pl \<Rightarrow> str_dup L old (Some pl))"

definition param_u32 :: "libre \<Rightarrow> u32 \<Rightarrow> string \<Rightarrow> string \<Rightarrow> err \<times> u32" where
  "param_u32 L v params name =
     (case l_param_decode L params name of None \<Rightarrow> (0, v) | Some pl \<Rightarrow> (0, l_u32 L pl))"

definition stunsrv_decode :: "libre \<Rightarrow> account \<Rightarrow> sip_addr \<Rightarrow> err \<times> account" where
  "stunsrv_decode L acc aor =
     (let acc = (case l_param_decode L (sa_params aor) ''stunserver'' of
                   None \<Rightarrow> acc
                 | Some srv \<Rightarrow>
                     (case stunuri_decode L (Some srv) of
                        (_, None) \<Rightarrow> acc
                      | (_, Some su) \<Rightarrow> acc\<lparr>acc_stun_host := Some su\<rparr>));
          (err, user) = (if l_param_exists L (sa_params aor) ''stunuser''
                         then param_dstr L (acc_stun_user acc) (sa_params aor) ''stunuser''
                         else str_dup L (acc_stun_user acc) (Some (u_user (sa_uri aor))));
          acc = acc\<lparr>acc_stun_user := user\<rparr>;
          (e, pass) = (if l_param_exists L (sa_params aor) ''stunpass''
                       then param_dstr L (acc_stun_pass acc) (sa_params aor) ''stunpass''
                       else if acc_auth_pass acc \<noteq> None
                       then str_dup L (acc_stun_pass acc) (acc_auth_pass acc)
                       else (0, acc_stun_pass acc))
      in (err OR e, acc\<lparr>acc_stun_pass := pass\<rparr>))"

definition media_decode :: "libre \<Rightarrow> account \<Rightarrow> string \<Rightarrow> err \<times> account" where
  "media_decode L acc prm =
     (let (e1, mencid) = param_dstr L (acc_mencid acc) prm ''mediaenc'';
          (e2, mnatid) = param_dstr L (acc_mnatid acc) prm ''medianat'';
          (e3, ptime) = param_u32 L (acc_ptime acc) prm ''ptime''
      in (e1 OR e2 OR e3, acc\<lparr>acc_mencid := mencid, acc_mnatid := mnatid, acc_ptime := ptime\<rparr>))"

definition extra_decode :: "libre \<Rightarrow> account \<Rightarrow> string \<Rightarrow> err \<times> account" where
  "extra_decode L acc prm =
     (let (err, x) = param_dstr L (acc_extra acc) prm ''extra'' in (err, acc\<lparr>acc_extra := x\<rparr>))"

definition decode_pair ::
  "libre \<Rightarrow> string option \<Rightarrow> string option \<Rightarrow> string \<Rightarrow> string \<Rightarrow> err \<times> string option \<times> string option" where
  "decode_pair L val1 val2 params name =
     (case l_param_decode L params name of
        None \<Rightarrow> (0, val1, val2)
      | Some v \<Rightarrow>
          (case l_regex L v ''[^,]+,[~]*'' of
             Some [pl1, pl2] \<Rightarrow>
               let (e1, val1) = str_dup L val1 (Some pl1);
                   (e2, val2) = str_dup L val2 (Some pl2)
               in (e1 OR e2, val1, val2)
           | _ \<Rightarrow> (ENOENT, val1, val2)))"

definition answermode_decode :: "libre \<Rightarrow> account \<Rightarrow> string \<Rightarrow> account" where
  "answermode_decode L prm pl =
     (let prm = prm\<lparr>acc_answermode := ANSWERMODE_MANUAL\<rparr>
      in case l_param_decode L pl ''answermode'' of
           None \<Rightarrow> prm
         | Some amode \<Rightarrow>
             if l_casecmp L (Some amode) (Some ''manual'') = 0 then prm\<lparr>acc_answermode := ANSWERMODE_MANUAL\<rparr>
             else if l_casecmp L (Some amode) (Some ''early'') = 0 then prm\<lparr>acc_answermode := ANSWERMODE_EARLY\<rparr>
             else if l_casecmp L (Some amode) (Some ''auto'') = 0 then prm\<lparr>acc_answermode := ANSWERMODE_AUTO\<rparr>
             else prm)"

text \<open>
  One value of a comma-separated list, cut to the buffer of \<open>sz\<close> bytes, and the rest of
  the list.
\<close>

definition TAB :: char where "TAB = CHR 0x09"

definition csl_parse :: "libre \<Rightarrow> string \<Rightarrow> nat \<Rightarrow> (string \<times> string) option" where
  "csl_parse L pl sz =
     (case l_regex L pl (''[ '' @ [TAB] @ '']*[^, '' @ [TAB] @ '']+[ '' @ [TAB] @ '']*[,]*'') of
        Some [ws, val, ws2, cma] \<Rightarrow>
          Some (take (sz - 1) val, drop (length ws + length val + length ws2 + length cma) pl)
      | _ \<Rightarrow> None)"

text \<open>The name, sample rate and channel count of an entry \<open>codec/srate/ch\<close>.\<close>

definition aucodec_fields :: "libre \<Rightarrow> string \<Rightarrow> string \<times> u32 \<times> u8" where
  "aucodec_fields L cname =
     (case l_regex L cname ''[^/]+/[0-9]+[/]*[0-9]*'' of
        Some [pl_cname, pl_srate, _, pl_ch] \<Rightarrow>
          (take 63 pl_cname, l_u32 L pl_srate, if pl_ch \<noteq> [] then ucast (l_u32 L pl_ch) else 1)
      | _ \<Rightarrow> (cname, 8000, 1))"

partial_function (option) audio_codecs_loop ::
  "libre \<Rightarrow> nat aucodec list \<Rightarrow> string \<Rightarrow> nat aucodec list \<Rightarrow> nat aucodec list option" where
  "audio_codecs_loop L acl acs l =
     (case csl_parse L acs 64 of
        None \<Rightarrow> Some l
      | Some (cname, acs) \<Rightarrow>
          (case aucodec_fields L cname of (cname, srate, ch) \<Rightarrow>
             (case aucodec_find (l_casecmp L) acl (Some cname) srate ch of
                None \<Rightarrow> audio_codecs_loop L acl acs l
              | Some ac \<Rightarrow>
                  if length (l @ [ac]) \<ge> 16 then Some (l @ [ac])
                  else audio_codecs_loop L acl acs (l @ [ac]))))"

definition audio_codecs_decode ::
  "libre \<Rightarrow> nat aucodec list \<Rightarrow> account \<Rightarrow> string \<Rightarrow> (err \<times> account) option" where
  "audio_codecs_decode L acl acc prm =
     (let acc = acc\<lparr>acc_aucodecl := []\<rparr>
      in if l_param_exists L prm ''audio_codecs''
         then case l_param_decode L prm ''audio_codecs'' of
                None \<Rightarrow> Some (0, acc)
              | Some acs \<Rightarrow>
                  map_option (\<lambda>l. (0, acc\<lparr>acc_aucodecl := l\<rparr>)) (audio_codecs_loop L acl acs [])
         else Some (0, acc))"

partial_function (option) video_codecs_loop ::
  "libre \<Rightarrow> nat vidcodec list \<Rightarrow> string \<Rightarrow> nat vidcodec list \<Rightarrow> nat vidcodec list option" where
  "video_codecs_loop L vcl vcs l =
     (case csl_parse L vcs 64 of
        None \<Rightarrow> Some l
      | Some (cname, vcs) \<Rightarrow>
          (case vidcodec_find (l_casecmp L) vcl (Some cname) None of
             None \<Rightarrow> video_codecs_loop L vcl vcs l
           | Some vc \<Rightarrow>
               if length (l @ [vc]) \<ge> 4 then Some (l @ [vc])
               else video_codecs_loop L vcl vcs (l @ [vc])))"

definition video_codecs_decode ::
  "libre \<Rightarrow> nat vidcodec list \<Rightarrow> account \<Rightarrow> string \<Rightarrow> (err \<times> account) option" where
  "video_codecs_decode L vcl acc prm =
     (let acc = acc\<lparr>acc_vidcodecl := []\<rparr>
      in if l_param_exists L prm ''video_codecs''
         then case l_param_decode L prm ''video_codecs'' of
                None \<Rightarrow> Some (0, acc)
              | Some vcs \<Rightarrow>
                  map_option (\<lambda>l. (0, acc\<lparr>acc_vidcodecl := l\<rparr>)) (video_codecs_loop L vcl vcs [])
         else Some (0, acc))"

definition REG_INTERVAL :: u32 where "REG_INTERVAL = 3600"

text \<open>\<open>rnd\<close> is the random number drawn by \<open>rand_u32\<close>.\<close>

definition sip_params_decode :: "libre \<Rightarrow> u32 \<Rightarrow> account \<Rightarrow> sip_addr \<Rightarrow> err \<times> account" where
  "sip_params_decode L rnd acc aor =
     (let prm = sa_params aor;
          acc = acc\<lparr>acc_regint := REG_INTERVAL + (rnd AND 0xff)\<rparr>;
          (e1, v) = param_u32 L (acc_regint acc) prm ''regint''; acc = acc\<lparr>acc_regint := v\<rparr>;
          (e2, v) = param_u32 L (acc_prio acc) prm ''prio''; acc = acc\<lparr>acc_prio := v\<rparr>;
          (e3, v) = param_u32 L (acc_rwait acc) prm ''rwait''; acc = acc\<lparr>acc_rwait := v\<rparr>;
          acc = (if acc_rwait acc > 95 then acc\<lparr>acc_rwait := 95\<rparr> else acc);
          acc = (if acc_rwait acc \<noteq> 0 \<and> acc_rwait acc < 5 then acc\<lparr>acc_rwait := 5\<rparr> else acc);
          (e4, v) = param_u32 L (acc_fbregint acc) prm ''fbregint''; acc = acc\<lparr>acc_fbregint := v\<rparr>;
          acc = acc\<lparr>acc_pubint := 0\<rparr>;
          (e5, v) = param_u32 L (acc_pubint acc) prm ''pubint''; acc = acc\<lparr>acc_pubint := v\<rparr>;
          (e6, s) = param_dstr L (acc_regq acc) prm ''regq''; acc = acc\<lparr>acc_regq := s\<rparr>;
          (e7, s) = param_dstr L (acc_outbound1 acc) prm ''outbound1''; acc = acc\<lparr>acc_outbound1 := s\<rparr>;
          (e8, s) = param_dstr L (acc_outbound2 acc) prm ''outbound2''; acc = acc\<lparr>acc_outbound2 := s\<rparr>;
          (e9, s) = (if acc_outbound1 acc = None then param_dstr L None prm ''outbound'' else (0, acc_outbound1 acc));
          acc = acc\<lparr>acc_outbound1 := s\<rparr>;
          (e10, s) = param_dstr L (acc_sipnat acc) prm ''sipnat''; acc = acc\<lparr>acc_sipnat := s\<rparr>;
          (e11, s) = param_dstr L (acc_auth_user acc) prm ''auth_user''; acc = acc\<lparr>acc_auth_user := s\<rparr>;
          (e12, s) = (if sa_dname aor \<noteq> [] then str_dup L (acc_dispname acc) (Some (sa_dname aor))
                      else (0, acc_dispname acc));
          acc = acc\<lparr>acc_dispname := s\<rparr>;
          acc = acc\<lparr>acc_mwi := (case l_param_decode L prm ''mwi'' of None \<Rightarrow> True
                               | Some tmp \<Rightarrow> l_casecmp L (Some tmp) (Some ''no'') \<noteq> 0)\<rparr>;
          acc = acc\<lparr>acc_refer := (case l_param_decode L prm ''call_transfer'' of None \<Rightarrow> True
                                 | Some tmp \<Rightarrow> l_casecmp L (Some tmp) (Some ''no'') \<noteq> 0)\<rparr>
      in (e1 OR e2 OR e3 OR e4 OR e5 OR e6 OR e7 OR e8 OR e9 OR e10 OR e11 OR e12, acc))"

definition encode_uri_user :: "libre \<Rightarrow> uri \<Rightarrow> string" where
  "encode_uri_user L uri = l_uri_encode L (uri\<lparr>u_password := [], u_params := [], u_headers := []\<rparr>)"

text \<open>The registries the account refers to.\<close>

record registries =
  rg_aucodecl :: "nat aucodec list"
  rg_vidcodecl :: "nat vidcodec list"
  rg_mnatl :: "mnat list"
  rg_mencl :: "menc list"

text \<open>The last part of \<open>account_alloc\<close>, after the codecs and media parameters were decoded.\<close>

definition account_finish :: "libre \<Rightarrow> registries \<Rightarrow> account \<Rightarrow> err \<times> account option" where
  "account_finish L R acc =
     (let prm = sa_params (acc_laddr acc);
          (e1, m1, d1) = decode_pair L (acc_ausrc_mod acc) (acc_ausrc_dev acc) prm ''audio_source'';
          acc = acc\<lparr>acc_ausrc_mod := m1, acc_ausrc_dev := d1\<rparr>;
          (e2, m2, d2) = decode_pair L (acc_auplay_mod acc) (acc_auplay_dev acc) prm ''audio_player'';
          acc = acc\<lparr>acc_auplay_mod := m2, acc_auplay_dev := d2\<rparr>
      in if e1 OR e2 \<noteq> 0 then (e1 OR e2, None)
         else
           let (err, pass) = param_dstr L (acc_auth_pass acc) prm ''auth_pass'';
               acc = acc\<lparr>acc_auth_pass := pass\<rparr>
           in if err \<noteq> 0 then (err, None)
              else
                let (err, acc) = stunsrv_decode L acc (acc_laddr acc)
                in if err \<noteq> 0 then (err, None)
                   else
                     let acc = (if acc_mnatid acc \<noteq> None
                                then acc\<lparr>acc_mnat := mnat_find (l_casecmp L) (rg_mnatl R) (acc_mnatid acc)\<rparr>
                                else acc);
                         acc = (if acc_mencid acc \<noteq> None
                                then acc\<lparr>acc_menc := menc_find (l_casecmp L) (rg_mencl R) (acc_mencid acc)\<rparr>
                                else acc);
                         (err, acc) = extra_decode L acc prm
                     in if err \<noteq> 0 then (err, None) else (0, Some acc))"

definition account_alloc ::
  "libre \<Rightarrow> registries \<Rightarrow> u32 \<Rightarrow> string option \<Rightarrow> (err \<times> account option) option" where
  "account_alloc L R rnd sipaddr =
     (if sipaddr = None then Some (EINVAL, None)
      else if \<not> l_zalloc L then Some (ENOMEM, None)
      else
        let (err, buf) = str_dup L None sipaddr
        in if err \<noteq> 0 then Some (err, None)
           else
             case l_addr_decode L (str_of buf) of
               Inl err \<Rightarrow> Some (err, None)
             | Inr addr \<Rightarrow>
                 let acc = null_account\<lparr>acc_buf := buf, acc_laddr := addr\<rparr>;
                     acc = acc\<lparr>acc_luri := (sa_uri addr)\<lparr>u_password := []\<rparr>\<rparr>;
                     (err, aor) = str_dup L None (Some (encode_uri_user L (acc_luri acc)))
                 in if err \<noteq> 0 then Some (err, None)
                    else
                      let acc = acc\<lparr>acc_aor := aor, acc_ptime := 20\<rparr>;
                          (e1, acc) = sip_params_decode L rnd acc addr;
                          acc = answermode_decode L acc (sa_params addr)
                      in case audio_codecs_decode L (rg_aucodecl R) acc (sa_params addr) of
                           None \<Rightarrow> None
                         | Some (e2, acc) \<Rightarrow>
                             (case video_codecs_decode L (rg_vidcodecl R) acc (sa_params addr) of
                                None \<Rightarrow> None
                              | Some (e3, acc) \<Rightarrow>
                                  let (e4, acc) = media_decode L acc (sa_params addr)
                                  in if e1 OR e2 OR e3 OR e4 \<noteq> 0 then Some (e1 OR e2 OR e3 OR e4, None)
                                     else Some (account_finish L R acc)))"

subsection \<open>Setters\<close>

text \<open>The setters return EINVAL for a NULL account; they are written for the account itself.\<close>

definition on_account :: "(account \<Rightarrow> err \<times> account) \<Rightarrow> account option \<Rightarrow> err \<times> account option" where
  "on_account f acc = (case acc of None \<Rightarrow> (EINVAL, None) | Some a \<Rightarrow> apsnd Some (f a))"

text \<open>A setter of a string field frees the old string, and copies the new one if there is one.\<close>

definition set_str :: "libre \<Rightarrow> string option \<Rightarrow> err \<times> string option" where
  "set_str L s = (if s \<noteq> None then str_dup L None s else (0, None))"

definition account_set_auth_user :: "libre \<Rightarrow> account \<Rightarrow> string option \<Rightarrow> err \<times> account" where
  "account_set_auth_user L acc user = (let (err, s) = set_str L user in (err, acc\<lparr>acc_auth_user := s\<rparr>))"

definition account_set_auth_pass :: "libre \<Rightarrow> account \<Rightarrow> string option \<Rightarrow> err \<times> account" where
  "account_set_auth_pass L acc pass = (let (err, s) = set_str L pass in (err, acc\<lparr>acc_auth_pass := s\<rparr>))"

definition account_set_outbound :: "libre \<Rightarrow> account \<Rightarrow> string option \<Rightarrow> nat \<Rightarrow> err \<times> account" where
  "account_set_outbound L acc ob ix =
     (if ix \<ge> 2 then (EINVAL, acc)
      else let (err, s) = set_str L ob
           in (err, if ix = 0 then acc\<lparr>acc_outbound1 := s\<rparr> else acc\<lparr>acc_outbound2 := s\<rparr>))"

definition account_set_sipnat :: "libre \<Rightarrow> account \<Rightarrow> string option \<Rightarrow> err \<times> account" where
  "account_set_sipnat L acc sipnat = (let (err, s) = set_str L sipnat in (err, acc\<lparr>acc_sipnat := s\<rparr>))"

definition account_set_regint :: "account \<Rightarrow> u32 \<Rightarrow> err \<times> account" where
  "account_set_regint acc regint = (0, acc\<lparr>acc_regint := regint\<rparr>)"

definition account_set_stun_uri :: "libre \<Rightarrow> account \<Rightarrow> string option \<Rightarrow> err \<times> account" where
  "account_set_stun_uri L acc uri =
     (let acc = acc\<lparr>acc_stun_host := None\<rparr>
      in if uri = None then (0, acc)
         else let (err, su) = stunuri_decode L uri in (err, acc\<lparr>acc_stun_host := su\<rparr>))"

definition account_set_stun_host :: "libre \<Rightarrow> account \<Rightarrow> string option \<Rightarrow> err \<times> account" where
  "account_set_stun_host L acc host =
     (if acc_stun_host acc \<noteq> None
      then let (err, su) = stunuri_set_host L (acc_stun_host acc) host in (err, acc\<lparr>acc_stun_host := su\<rparr>)
      else (0, acc))"

definition account_set_stun_port :: "account \<Rightarrow> u16 \<Rightarrow> err \<times> account" where
  "account_set_stun_port acc port =
     (if acc_stun_host acc \<noteq> None
      then let (err, su) = stunuri_set_port (acc_stun_host acc) port in (err, acc\<lparr>acc_stun_host := su\<rparr>)
      else (0, acc))"

definition account_set_stun_user :: "libre \<Rightarrow> account \<Rightarrow> string option \<Rightarrow> err \<times> account" where
  "account_set_stun_user L acc user = (let (err, s) = set_str L user in (err, acc\<lparr>acc_stun_user := s\<rparr>))"

definition account_set_stun_pass :: "libre \<Rightarrow> account \<Rightarrow> string option \<Rightarrow> err \<times> account" where
  "account_set_stun_pass L acc pass = (let (err, s) = set_str L pass in (err, acc\<lparr>acc_stun_pass := s\<rparr>))"

definition account_set_mediaenc :: "libre \<Rightarrow> registries \<Rightarrow> account \<Rightarrow> string option \<Rightarrow> err \<times> account" where
  "account_set_mediaenc L R acc mencid =
     (if mencid = None then (0, acc\<lparr>acc_mencid := None, acc_menc := None\<rparr>)
      else case menc_find (l_casecmp L) (rg_mencl R) mencid of
             None \<Rightarrow> (EINVAL, acc)
           | Some menc \<Rightarrow>
               let (err, s) = str_dup L None mencid in (err, acc\<lparr>acc_mencid := s, acc_menc := Some menc\<rparr>))"

definition account_set_medianat :: "libre \<Rightarrow> registries \<Rightarrow> account \<Rightarrow> string option \<Rightarrow> err \<times> account" where
  "account_set_medianat L R acc mnatid =
     (if mnatid = None then (0, acc\<lparr>acc_mnatid := None, acc_mnat := None\<rparr>)
      else case mnat_find (l_casecmp L) (rg_mnatl R) mnatid of
             None \<Rightarrow> (EINVAL, acc)
           | Some mnat \<Rightarrow>
               let (err, s) = str_dup L None mnatid in (err, acc\<lparr>acc_mnatid := s, acc_mnat := Some mnat\<rparr>))"

text \<open>The buffer of 256 bytes cuts a long list of codecs.\<close>

definition account_set_audio_codecs ::
  "libre \<Rightarrow> registries \<Rightarrow> account \<Rightarrow> string option \<Rightarrow> (err \<times> account) option" where
  "account_set_audio_codecs L R acc codecs =
     (let acc = acc\<lparr>acc_aucodecl := []\<rparr>
      in case codecs of
           None \<Rightarrow> Some (0, acc)
         | Some s \<Rightarrow> audio_codecs_decode L (rg_aucodecl R) acc (take 255 ('';audio_codecs='' @ s)))"

definition account_set_video_codecs ::
  "libre \<Rightarrow> registries \<Rightarrow> account \<Rightarrow> string option \<Rightarrow> (err \<times> account) option" where
  "account_set_video_codecs L R acc codecs =
     (let acc = acc\<lparr>acc_vidcodecl := []\<rparr>
      in case codecs of
           None \<Rightarrow> Some (0, acc)
         | Some s \<Rightarrow> video_codecs_decode L (rg_vidcodecl R) acc (take 255 ('';video_codecs='' @ s)))"

definition account_set_display_name :: "libre \<Rightarrow> account \<Rightarrow> string option \<Rightarrow> err \<times> account" where
  "account_set_display_name L acc dname = (let (err, s) = set_str L dname in (err, acc\<lparr>acc_dispname := s\<rparr>))"

definition account_set_mwi :: "libre \<Rightarrow> account \<Rightarrow> string option \<Rightarrow> err \<times> account" where
  "account_set_mwi L acc v =
     (if l_casecmp L v (Some ''yes'') = 0 then (0, acc\<lparr>acc_mwi := True\<rparr>)
      else if l_casecmp L v (Some ''no'') = 0 then (0, acc\<lparr>acc_mwi := False\<rparr>)
      else (EINVAL, acc))"

definition account_set_call_transfer :: "libre \<Rightarrow> account \<Rightarrow> string option \<Rightarrow> err \<times> account" where
  "account_set_call_transfer L acc v =
     (if l_casecmp L v (Some ''yes'') = 0 then (0, acc\<lparr>acc_refer := True\<rparr>)
      else if l_casecmp L v (Some ''no'') = 0 then (0, acc\<lparr>acc_refer := False\<rparr>)
      else (EINVAL, acc))"

definition account_set_answermode :: "account \<Rightarrow> answermode \<Rightarrow> err \<times> account" where
  "account_set_answermode acc mode = (0, acc\<lparr>acc_answermode := mode\<rparr>)"

subsection \<open>Getters\<close>

definition account_auth :: "libre \<Rightarrow> account option \<Rightarrow> err \<times> string option \<times> string option" where
  "account_auth L acc =
     (case acc of
        None \<Rightarrow> (EINVAL, None, None)
      | Some a \<Rightarrow>
          let (err, user) = (if acc_auth_user a \<noteq> None then (0, acc_auth_user a)
                             else str_dup L None (Some (u_user (acc_luri a))))
          in (err, user, acc_auth_pass a))"

definition account_aucodecl :: "registries \<Rightarrow> account option \<Rightarrow> nat aucodec list" where
  "account_aucodecl R acc =
     (case acc of None \<Rightarrow> rg_aucodecl R
      | Some a \<Rightarrow> if acc_aucodecl a \<noteq> [] then acc_aucodecl a else rg_aucodecl R)"

definition account_vidcodecl :: "registries \<Rightarrow> account option \<Rightarrow> nat vidcodec list" where
  "account_vidcodecl R acc =
     (case acc of None \<Rightarrow> rg_vidcodecl R
      | Some a \<Rightarrow> if acc_vidcodecl a \<noteq> [] then acc_vidcodecl a else rg_vidcodecl R)"

text \<open>A getter of one field, with the value for a NULL account.\<close>

definition acc_get :: "'v \<Rightarrow> (account \<Rightarrow> 'v) \<Rightarrow> account option \<Rightarrow> 'v" where
  "acc_get d f acc = (case acc of None \<Rightarrow> d | Some a \<Rightarrow> f a)"

definition account_laddr :: "account option \<Rightarrow> sip_addr option" where "account_laddr = map_option acc_laddr"
definition account_luri :: "account option \<Rightarrow> uri option" where "account_luri = map_option acc_luri"
definition account_regint :: "account option \<Rightarrow> u32" where "account_regint = acc_get 0 acc_regint"
definition account_fbregint :: "account option \<Rightarrow> u32" where "account_fbregint = acc_get 0 acc_fbregint"
definition account_prio :: "account option \<Rightarrow> u32" where "account_prio = acc_get 0 acc_prio"
definition account_pubint :: "account option \<Rightarrow> u32" where "account_pubint = acc_get 0 acc_pubint"
definition account_ptime :: "account option \<Rightarrow> u32" where "account_ptime = acc_get 0 acc_ptime"

definition account_answermode :: "account option \<Rightarrow> answermode" where
  "account_answermode = acc_get ANSWERMODE_MANUAL acc_answermode"

definition account_display_name :: "account option \<Rightarrow> string option" where
  "account_display_name = acc_get None acc_dispname"

definition account_aor :: "account option \<Rightarrow> string option" where "account_aor = acc_get None acc_aor"

definition account_auth_user :: "account option \<Rightarrow> string option" where
  "account_auth_user = acc_get None acc_auth_user"

definition account_auth_pass :: "account option \<Rightarrow> string option" where
  "account_auth_pass = acc_get None acc_auth_pass"

definition account_outbound :: "account option \<Rightarrow> nat \<Rightarrow> string option" where
  "account_outbound acc ix =
     (case acc of None \<Rightarrow> None
      | Some a \<Rightarrow> if ix \<ge> 2 then None else if ix = 0 then acc_outbound1 a else acc_outbound2 a)"

definition account_sipnat :: "account option \<Rightarrow> string option" where "account_sipnat = acc_get None acc_sipnat"

definition account_stun_user :: "account option \<Rightarrow> string option" where
  "account_stun_user = acc_get None acc_stun_user"

definition account_stun_pass :: "account option \<Rightarrow> string option" where
  "account_stun_pass = acc_get None acc_stun_pass"

definition account_stun_uri :: "account option \<Rightarrow> stun_uri option" where
  "account_stun_uri = acc_get None acc_stun_host"

definition account_stun_host :: "account option \<Rightarrow> string option" where
  "account_stun_host acc = (case account_stun_uri acc of None \<Rightarrow> None | Some su \<Rightarrow> su_host su)"

definition account_stun_port :: "account option \<Rightarrow> u16" where
  "account_stun_port acc = (case account_stun_uri acc of None \<Rightarrow> 0 | Some su \<Rightarrow> su_port su)"

definition account_mediaenc :: "account option \<Rightarrow> string option" where "account_mediaenc = acc_get None acc_mencid"
definition account_medianat :: "account option \<Rightarrow> string option" where "account_medianat = acc_get None acc_mnatid"

definition account_mwi :: "account option \<Rightarrow> string" where
  "account_mwi = acc_get ''no'' (\<lambda>a. if acc_mwi a then ''yes'' else ''no'')"

definition account_call_transfer :: "account option \<Rightarrow> string" where
  "account_call_transfer = acc_get ''no'' (\<lambda>a. if acc_refer a then ''yes'' else ''no'')"

definition account_extra :: "account option \<Rightarrow> string option" where "account_extra = acc_get None acc_extra"

fun answermode_str :: "answermode \<Rightarrow> string" where
  "answermode_str ANSWERMODE_MANUAL = ''manual''"
| "answermode_str ANSWERMODE_EARLY = ''early''"
| "answermode_str ANSWERMODE_AUTO = ''auto''"


subsection \<open>Printing\<close>

definition account_lines :: "libre \<Rightarrow> account \<Rightarrow> (string \<times> fmt_arg list) list" where
  "account_lines L a =
     (let nl = [CHR 0x0a]; s = (\<lambda>x. [FStr (str_of x)]); u = (\<lambda>x. [FNum (unat (x :: u32))]);
          dflt = (\<lambda>x. [FStr (case x of None \<Rightarrow> ''none'' | Some y \<Rightarrow> y)])
      in [(nl @ ''Account:'' @ nl, []),
          ('' address:      %s'' @ nl, s (acc_buf a)),
          ('' luri:         %H'' @ nl, [FStr (l_uri_encode L (acc_luri a))]),
          ('' aor:          %s'' @ nl, s (acc_aor a)),
          ('' dispname:     %s'' @ nl, s (acc_dispname a)),
          ('' answermode:   %s'' @ nl, [FStr (answermode_str (acc_answermode a))])] @
         (if acc_aucodecl a \<noteq> []
          then ('' audio_codecs:'', []) #
               map (\<lambda>ac. ('' %s/%u/%u'', [FStr (str_of (ac_name ac)), FNum (unat (ac_srate ac)), FNum (unat (ac_ch ac))]))
                 (acc_aucodecl a) @ [(nl, [])]
          else []) @
         [('' auth_user:    %s'' @ nl, s (acc_auth_user a)),
          ('' mediaenc:     %s'' @ nl, dflt (acc_mencid a)),
          ('' medianat:     %s'' @ nl, dflt (acc_mnatid a))] @
         (if acc_outbound1 a \<noteq> None then [('' outbound%d:    %s'' @ nl, [FNum 1, FStr (str_of (acc_outbound1 a))])] else []) @
         (if acc_outbound2 a \<noteq> None then [('' outbound%d:    %s'' @ nl, [FNum 2, FStr (str_of (acc_outbound2 a))])] else []) @
         [('' mwi:          %s'' @ nl, [FStr (account_mwi (Some a))]),
          ('' ptime:        %u'' @ nl, u (acc_ptime a)),
          ('' regint:       %u'' @ nl, u (acc_regint a)),
          ('' prio:         %u'' @ nl, u (acc_prio a)),
          ('' pubint:       %u'' @ nl, u (acc_pubint a)),
          ('' regq:         %s'' @ nl, s (acc_regq a)),
          ('' sipnat:       %s'' @ nl, s (acc_sipnat a)),
          ('' stunuser:     %s'' @ nl, s (acc_stun_user a))])"

definition account_debug :: "libre \<Rightarrow> 'w printer \<Rightarrow> account option \<Rightarrow> 'w \<Rightarrow> err \<times> 'w" where
  "account_debug L pr acc w =
     (case acc of
        None \<Rightarrow> (0, w)
      | Some a \<Rightarrow>
          let nl = [CHR 0x0a];
              (e1, w) = print_all pr (account_lines L a) 0 w;
              (e2, w) = pr '' stunserver:   '' [] w;
              (e3, w) = stunuri_print pr (acc_stun_host a) w;
              (e4, w) = print_all pr
                ((nl, []) #
                 (if acc_vidcodecl a \<noteq> []
                  then ('' video_codecs:'', []) #
                       map (\<lambda>vc. ('' %s'', [FStr (str_of (vc_name vc))])) (acc_vidcodecl a) @ [(nl, [])]
                  else []) @
                 [('' call_transfer:%s'' @ nl, [FStr (account_call_transfer (Some a))]),
                  ('' extra:        %s'' @ nl, [FStr (case acc_extra a of None \<Rightarrow> ''none'' | Some x \<Rightarrow> x)])]) 0 w
          in (e1 OR e2 OR e3 OR e4, w))"

text \<open>\<open>obn\<close> is the result of \<open>odict_alloc\<close> for the list of outbound proxies.\<close>

definition account_json_api ::
  "'od od_add \<Rightarrow> err \<times> 'od \<Rightarrow> 'od \<Rightarrow> 'od \<Rightarrow> account option \<Rightarrow> err \<times> 'od \<times> 'od" where
  "account_json_api add obn od odcfg acc =
     (case acc of
        None \<Rightarrow> (0, od, odcfg)
      | Some a \<Rightarrow>
          let opt = (\<lambda>k v. if v \<noteq> None then [(k, OdStr v)] else []);
              (e1, od) = od_all add od
                ((''aor'', OdStr (acc_aor a)) # opt ''display_name'' (acc_dispname a)) 0;
              (e2, odcfg) = od_all add odcfg (opt ''sip_nat'' (acc_sipnat a)) 0;
              (e3, ob) = obn;
              (e4, ob) = od_all add ob
                (opt ''outbound'' (acc_outbound1 a) @ opt ''outbound'' (acc_outbound2 a)) 0;
              (e5, odcfg) = od_all add odcfg
                ([(''sip_nat_outbound'', OdArr ob),
                  (''stun_host'', OdStr (Some (str_of (account_stun_host (Some a))))),
                  (''stun_port'', OdInt (uint (account_stun_port (Some a))))] @
                 opt ''stun_user'' (acc_stun_user a) @
                 [(''answer_mode'', OdStr (Some (answermode_str (acc_answermode a)))),
                  (''call_transfer'', OdBool (acc_refer a)),
                  (''packet_time'', OdInt (uint (acc_ptime a)))]) 0
          in (e1 OR e2 OR e3 OR e4 OR e5, od, odcfg))"

subsection \<open>Decoding a list of codecs\<close>

text \<open>
  An entry is at least one character long, and lies in the text that was searched.
\<close>

definition csl_laws :: "libre \<Rightarrow> bool" where
  "csl_laws L =
     (\<forall>pl gs. l_regex L pl (''[ '' @ [TAB] @ '']*[^, '' @ [TAB] @ '']+[ '' @ [TAB] @ '']*[,]*'') = Some gs \<longrightarrow>
        pl \<noteq> [] \<and> (\<exists>ws val ws2 cma. gs = [ws, val, ws2, cma] \<and> val \<noteq> []))"

lemma csl_parse_shorter:
  "csl_laws L \<Longrightarrow> csl_parse L pl sz = Some (s, pl') \<Longrightarrow> length pl' < length pl"
  unfolding csl_laws_def csl_parse_def
  by (fastforce split: option.splits list.splits simp: length_drop)

lemma aucodec_find_in: "aucodec_find sc l name srate ch = Some ac \<Longrightarrow> ac \<in> set l"
  by (induction l) (auto split: if_splits)

lemma vidcodec_find_in: "vidcodec_find sc l name variant = Some vc \<Longrightarrow> vc \<in> set l"
  by (induction l) (auto split: if_splits)

text \<open>The loop returns, with at most 16 registered codecs.\<close>

lemma audio_codecs_loop_ok:
  assumes "csl_laws L"
  shows "set l \<subseteq> set acl \<Longrightarrow> length l < 16 \<Longrightarrow>
    \<exists>l'. audio_codecs_loop L acl cs l = Some l' \<and> set l' \<subseteq> set acl \<and> length l' \<le> 16"
proof (induction "length cs" arbitrary: cs l rule: less_induct)
  case less
  show ?case
  proof (cases "csl_parse L cs 64")
    case None
    then show ?thesis using less.prems by (subst audio_codecs_loop.simps) simp
  next
    case (Some p)
    obtain cname rest where p: "p = (cname, rest)" by fastforce
    have lt: "length rest < length cs" using csl_parse_shorter[OF assms] Some p by blast
    note IH = less.hyps[OF lt]
    obtain name srate ch where f: "aucodec_fields L cname = (name, srate, ch)" by (metis prod_cases3)
    show ?thesis
    proof (cases "aucodec_find (l_casecmp L) acl (Some name) srate ch")
      case None
      then show ?thesis
        using IH[of l] less.prems Some p f by (subst audio_codecs_loop.simps) simp
    next
      case (Some ac)
      then have "ac \<in> set acl" by (rule aucodec_find_in)
      then show ?thesis
        using IH[of "l @ [ac]"] less.prems \<open>csl_parse L cs 64 = Some p\<close> p f Some
        by (subst audio_codecs_loop.simps) simp
    qed
  qed
qed

text \<open>The loop returns, with at most 4 registered codecs.\<close>

lemma video_codecs_loop_ok:
  assumes "csl_laws L"
  shows "set l \<subseteq> set vcl \<Longrightarrow> length l < 4 \<Longrightarrow>
    \<exists>l'. video_codecs_loop L vcl cs l = Some l' \<and> set l' \<subseteq> set vcl \<and> length l' \<le> 4"
proof (induction "length cs" arbitrary: cs l rule: less_induct)
  case less
  show ?case
  proof (cases "csl_parse L cs 64")
    case None
    then show ?thesis using less.prems by (subst video_codecs_loop.simps) simp
  next
    case (Some p)
    obtain cname rest where p: "p = (cname, rest)" by fastforce
    have lt: "length rest < length cs" using csl_parse_shorter[OF assms] Some p by blast
    note IH = less.hyps[OF lt]
    show ?thesis
    proof (cases "vidcodec_find (l_casecmp L) vcl (Some cname) None")
      case None
      then show ?thesis
        using IH[of l] less.prems Some p by (subst video_codecs_loop.simps) simp
    next
      case (Some vc)
      then have "vc \<in> set vcl" by (rule vidcodec_find_in)
      then show ?thesis
        using IH[of "l @ [vc]"] less.prems \<open>csl_parse L cs 64 = Some p\<close> p Some
        by (subst video_codecs_loop.simps) simp
    qed
  qed
qed


subsection \<open>Well-formed accounts\<close>

definition rwait_ok :: "u32 \<Rightarrow> bool" where
  "rwait_ok r = (r = 0 \<or> 5 \<le> r \<and> r \<le> 95)"

definition method_ok :: "libre \<Rightarrow> ('m \<Rightarrow> string option) \<Rightarrow> 'm list \<Rightarrow> string option \<Rightarrow> 'm option \<Rightarrow> bool" where
  "method_ok L name ms sid m =
     (case m of None \<Rightarrow> True
      | Some x \<Rightarrow> x \<in> set ms \<and> (sid \<noteq> None \<longrightarrow> l_casecmp L (name x) sid = 0 \<or> l_casecmp L sid (name x) = 0))"

definition acc_wf :: "libre \<Rightarrow> registries \<Rightarrow> account \<Rightarrow> bool" where
  "acc_wf L R a =
     (rwait_ok (acc_rwait a) \<and>
      set (acc_aucodecl a) \<subseteq> set (rg_aucodecl R) \<and> length (acc_aucodecl a) \<le> 16 \<and>
      set (acc_vidcodecl a) \<subseteq> set (rg_vidcodecl R) \<and> length (acc_vidcodecl a) \<le> 4 \<and>
      method_ok L mn_id (rg_mnatl R) (acc_mnatid a) (acc_mnat a) \<and>
      method_ok L me_id (rg_mencl R) (acc_mencid a) (acc_menc a))"

lemma mnat_find_ok: "mnat_find sc l nid = Some m \<Longrightarrow> m \<in> set l \<and> sc (mn_id m) nid = 0"
  by (induction l) (auto split: if_splits)

lemma menc_find_ok: "menc_find sc l nid = Some m \<Longrightarrow> m \<in> set l \<and> sc nid (me_id m) = 0"
  by (induction l) (auto split: if_splits)

lemma method_ok_None [simp]: "method_ok L name ms sid None"
  by (simp add: method_ok_def)

lemma method_ok_mnat: "method_ok L mn_id ms sid (mnat_find (l_casecmp L) ms sid)"
  by (auto simp: method_ok_def split: option.splits dest: mnat_find_ok)

lemma method_ok_menc: "method_ok L me_id ms sid (menc_find (l_casecmp L) ms sid)"
  by (auto simp: method_ok_def split: option.splits dest: menc_find_ok)

text \<open>What an account is made of, as far as well-formedness goes.\<close>

definition acc_core ::
  "account \<Rightarrow> u32 \<times> nat aucodec list \<times> nat vidcodec list \<times> mnat option \<times> menc option" where
  "acc_core a = (acc_rwait a, acc_aucodecl a, acc_vidcodecl a, acc_mnat a, acc_menc a)"

lemma sip_params_decode_core:
  assumes "sip_params_decode L rnd acc aor = (err, acc')"
  shows "rwait_ok (acc_rwait acc') \<and> acc_aucodecl acc' = acc_aucodecl acc \<and>
    acc_vidcodecl acc' = acc_vidcodecl acc \<and> acc_mnat acc' = acc_mnat acc \<and> acc_menc acc' = acc_menc acc"
  using assms unfolding sip_params_decode_def Let_def
  by (auto simp: rwait_ok_def split: prod.splits)

lemma answermode_decode_core [simp]: "acc_core (answermode_decode L a prm) = acc_core a"
  by (simp add: answermode_decode_def acc_core_def Let_def split: option.splits)

lemma media_decode_core: "media_decode L a prm = (err, a') \<Longrightarrow> acc_core a' = acc_core a"
  by (auto simp: media_decode_def acc_core_def Let_def split: prod.splits)

lemma extra_decode_core:
  "extra_decode L a prm = (err, a') \<Longrightarrow>
   acc_core a' = acc_core a \<and> acc_mnatid a' = acc_mnatid a \<and> acc_mencid a' = acc_mencid a"
  by (auto simp: extra_decode_def acc_core_def Let_def split: prod.splits)

lemma stunsrv_decode_core: "stunsrv_decode L a aor = (err, a') \<Longrightarrow> acc_core a' = acc_core a"
  by (auto simp: stunsrv_decode_def acc_core_def Let_def split: prod.splits option.splits if_splits)

lemma audio_codecs_decode_core:
  assumes "csl_laws L"
  shows "\<exists>l. audio_codecs_decode L acl acc prm = Some (0, acc\<lparr>acc_aucodecl := l\<rparr>) \<and>
    set l \<subseteq> set acl \<and> length l \<le> 16"
  using audio_codecs_loop_ok[OF assms, of "[]" acl]
  by (auto simp: audio_codecs_decode_def Let_def split: option.splits) metis+

lemma video_codecs_decode_core:
  assumes "csl_laws L"
  shows "\<exists>l. video_codecs_decode L vcl acc prm = Some (0, acc\<lparr>acc_vidcodecl := l\<rparr>) \<and>
    set l \<subseteq> set vcl \<and> length l \<le> 4"
  using video_codecs_loop_ok[OF assms, of "[]" vcl]
  by (auto simp: video_codecs_decode_def Let_def split: option.splits) metis+

lemma account_finish_wf:
  assumes "account_finish L R a = (err, Some a')"
    and "rwait_ok (acc_rwait a)" "acc_mnat a = None" "acc_menc a = None"
    and "set (acc_aucodecl a) \<subseteq> set (rg_aucodecl R)" "length (acc_aucodecl a) \<le> 16"
    and "set (acc_vidcodecl a) \<subseteq> set (rg_vidcodecl R)" "length (acc_vidcodecl a) \<le> 4"
  shows "err = 0 \<and> acc_wf L R a'"
proof -
  show ?thesis
    using assms unfolding account_finish_def Let_def
    by (auto simp: acc_wf_def acc_core_def method_ok_mnat method_ok_menc
        split: prod.splits if_splits dest!: stunsrv_decode_core extra_decode_core)
qed


lemma account_alloc_ok:
  assumes csl: "csl_laws L" and addr: "\<forall>s. l_addr_decode L s \<noteq> Inl 0"
  shows "\<exists>err acc. account_alloc L R rnd sipaddr = Some (err, acc) \<and> (err = 0 \<longleftrightarrow> acc \<noteq> None) \<and>
    (\<forall>a. acc = Some a \<longrightarrow> acc_wf L R a)"
proof (cases "sipaddr = None \<or> \<not> l_zalloc L")
  case True
  then show ?thesis by (auto simp: account_alloc_def)
next
  case nn: False
  obtain e0 buf where buf: "str_dup L None sipaddr = (e0, buf)" by fastforce
  show ?thesis
  proof (cases "e0 = 0")
    case False
    then show ?thesis using nn buf by (auto simp: account_alloc_def)
  next
    case e0: True
    show ?thesis
    proof (cases "l_addr_decode L (str_of buf)")
      case (Inl e)
      then show ?thesis using nn buf e0 addr by (auto simp: account_alloc_def)
    next
      case (Inr ad)
      define acc0 where "acc0 = null_account\<lparr>acc_buf := buf, acc_laddr := ad, acc_luri := (sa_uri ad)\<lparr>u_password := []\<rparr>\<rparr>"
      obtain ea aor where aor: "str_dup L None (Some (encode_uri_user L (acc_luri acc0))) = (ea, aor)"
        by fastforce
      show ?thesis
      proof (cases "ea = 0")
        case False
        then show ?thesis using nn buf e0 Inr aor by (auto simp: account_alloc_def Let_def acc0_def)
      next
        case ea: True
        obtain e1 acc1 where p: "sip_params_decode L rnd (acc0\<lparr>acc_aor := aor, acc_ptime := 20\<rparr>) ad = (e1, acc1)"
          by fastforce
        define acc2 where "acc2 = answermode_decode L acc1 (sa_params ad)"
        obtain al where al: "audio_codecs_decode L (rg_aucodecl R) acc2 (sa_params ad) = Some (0, acc2\<lparr>acc_aucodecl := al\<rparr>)"
            "set al \<subseteq> set (rg_aucodecl R)" "length al \<le> 16"
          using audio_codecs_decode_core[OF csl] by blast
        obtain vl where vl: "video_codecs_decode L (rg_vidcodecl R) (acc2\<lparr>acc_aucodecl := al\<rparr>) (sa_params ad) =
            Some (0, acc2\<lparr>acc_aucodecl := al, acc_vidcodecl := vl\<rparr>)"
            "set vl \<subseteq> set (rg_vidcodecl R)" "length vl \<le> 4"
          using video_codecs_decode_core[OF csl, of "rg_vidcodecl R" "acc2\<lparr>acc_aucodecl := al\<rparr>" "sa_params ad"] by auto
        obtain e4 acc3 where m: "media_decode L (acc2\<lparr>acc_aucodecl := al, acc_vidcodecl := vl\<rparr>) (sa_params ad) = (e4, acc3)"
          by fastforce
        have alloc: "account_alloc L R rnd sipaddr =
            (if e1 OR 0 OR 0 OR e4 \<noteq> 0 then Some (e1 OR 0 OR 0 OR e4, None) else Some (account_finish L R acc3))"
          using nn buf e0 Inr aor ea p al(1) vl(1) m by (auto simp: account_alloc_def Let_def acc0_def acc2_def)
        have "acc_core acc2 = acc_core acc1" by (simp add: acc2_def)
        then have "rwait_ok (acc_rwait acc3) \<and> acc_mnat acc3 = None \<and> acc_menc acc3 = None \<and>
            acc_aucodecl acc3 = al \<and> acc_vidcodecl acc3 = vl"
          using media_decode_core[OF m] sip_params_decode_core[OF p]
          by (simp add: acc_core_def acc0_def null_account_def)
        then have wf: "\<And>err a. account_finish L R acc3 = (err, Some a) \<Longrightarrow> err = 0 \<and> acc_wf L R a"
          using account_finish_wf[of L R acc3] al(2,3) vl(2,3) by simp
        have "fst (account_finish L R acc3) = 0 \<longleftrightarrow> snd (account_finish L R acc3) \<noteq> None"
          by (simp add: account_finish_def Let_def split: prod.split)
        then show ?thesis using alloc wf by (cases "account_finish L R acc3") auto
      qed
    qed
  qed
qed

text \<open>Everything that can be done to an account.\<close>

inductive acc_step :: "libre \<Rightarrow> registries \<Rightarrow> account \<Rightarrow> account \<Rightarrow> bool" for L R where
  auth_user: "account_set_auth_user L a s = (err, a') \<Longrightarrow> acc_step L R a a'"
| auth_pass: "account_set_auth_pass L a s = (err, a') \<Longrightarrow> acc_step L R a a'"
| outbound: "account_set_outbound L a s ix = (err, a') \<Longrightarrow> acc_step L R a a'"
| sipnat: "account_set_sipnat L a s = (err, a') \<Longrightarrow> acc_step L R a a'"
| regint: "account_set_regint a n = (err, a') \<Longrightarrow> acc_step L R a a'"
| stun_uri: "account_set_stun_uri L a s = (err, a') \<Longrightarrow> acc_step L R a a'"
| stun_host: "account_set_stun_host L a s = (err, a') \<Longrightarrow> acc_step L R a a'"
| stun_port: "account_set_stun_port a p = (err, a') \<Longrightarrow> acc_step L R a a'"
| stun_user: "account_set_stun_user L a s = (err, a') \<Longrightarrow> acc_step L R a a'"
| stun_pass: "account_set_stun_pass L a s = (err, a') \<Longrightarrow> acc_step L R a a'"
| mediaenc: "account_set_mediaenc L R a s = (err, a') \<Longrightarrow> acc_step L R a a'"
| medianat: "account_set_medianat L R a s = (err, a') \<Longrightarrow> acc_step L R a a'"
| audio_codecs: "account_set_audio_codecs L R a s = Some (err, a') \<Longrightarrow> acc_step L R a a'"
| video_codecs: "account_set_video_codecs L R a s = Some (err, a') \<Longrightarrow> acc_step L R a a'"
| display_name: "account_set_display_name L a s = (err, a') \<Longrightarrow> acc_step L R a a'"
| mwi: "account_set_mwi L a s = (err, a') \<Longrightarrow> acc_step L R a a'"
| call_transfer: "account_set_call_transfer L a s = (err, a') \<Longrightarrow> acc_step L R a a'"
| answermode: "account_set_answermode a m = (err, a') \<Longrightarrow> acc_step L R a a'"

inductive account_reach :: "libre \<Rightarrow> registries \<Rightarrow> account \<Rightarrow> bool" for L R where
  alloc: "account_alloc L R rnd s = Some (err, Some a) \<Longrightarrow> account_reach L R a"
| set: "account_reach L R a \<Longrightarrow> acc_step L R a a' \<Longrightarrow> account_reach L R a'"

named_theorems acc_setters \<open>the setters of the account that do not touch methods and codecs\<close>

lemmas [acc_setters] =
  account_set_auth_user_def account_set_auth_pass_def account_set_outbound_def account_set_sipnat_def
  account_set_regint_def account_set_stun_uri_def account_set_stun_host_def account_set_stun_port_def
  account_set_stun_user_def account_set_stun_pass_def account_set_display_name_def account_set_mwi_def
  account_set_call_transfer_def account_set_answermode_def

definition acc_frame :: "account \<Rightarrow> _" where
  "acc_frame a = (acc_core a, acc_mnatid a, acc_mencid a)"

lemma acc_wf_frame: "acc_frame a' = acc_frame a \<Longrightarrow> acc_wf L R a \<Longrightarrow> acc_wf L R a'"
  by (simp add: acc_wf_def acc_frame_def acc_core_def)

lemma setters_frame:
  "acc_frame (snd (account_set_auth_user L a s)) = acc_frame a"
  "acc_frame (snd (account_set_auth_pass L a s)) = acc_frame a"
  "acc_frame (snd (account_set_outbound L a s ix)) = acc_frame a"
  "acc_frame (snd (account_set_sipnat L a s)) = acc_frame a"
  "acc_frame (snd (account_set_regint a n)) = acc_frame a"
  "acc_frame (snd (account_set_stun_uri L a s)) = acc_frame a"
  "acc_frame (snd (account_set_stun_host L a s)) = acc_frame a"
  "acc_frame (snd (account_set_stun_port a p)) = acc_frame a"
  "acc_frame (snd (account_set_stun_user L a s)) = acc_frame a"
  "acc_frame (snd (account_set_stun_pass L a s)) = acc_frame a"
  "acc_frame (snd (account_set_display_name L a s)) = acc_frame a"
  "acc_frame (snd (account_set_mwi L a s)) = acc_frame a"
  "acc_frame (snd (account_set_call_transfer L a s)) = acc_frame a"
  "acc_frame (snd (account_set_answermode a m)) = acc_frame a"
  by (simp_all add: acc_setters acc_frame_def acc_core_def Let_def split: prod.split)

lemma str_dup_cases: "str_dup L None (Some s) = (err, s') \<Longrightarrow> s' = None \<or> s' = Some s"
  by (auto simp: str_dup_def split: if_splits)

lemma acc_step_wf:
  assumes csl: "csl_laws L" and "acc_step L R a a'" "acc_wf L R a"
  shows "acc_wf L R a'"
  using assms(2,3)
proof (cases rule: acc_step.cases)
  case (mediaenc s err)
  show ?thesis
  proof (cases s)
    case None
    then show ?thesis using mediaenc assms(3) by (auto simp: account_set_mediaenc_def acc_wf_def)
  next
    case (Some x)
    show ?thesis
    proof (cases "menc_find (l_casecmp L) (rg_mencl R) (Some x)")
      case None
      then show ?thesis using mediaenc assms(3) \<open>s = Some x\<close> by (simp add: account_set_mediaenc_def)
    next
      case (Some m)
      obtain e s' where d: "str_dup L None (Some x) = (e, s')" by fastforce
      then have "a' = a\<lparr>acc_mencid := s', acc_menc := Some m\<rparr>"
        using mediaenc Some \<open>s = Some x\<close> by (simp add: account_set_mediaenc_def)
      then show ?thesis
        using assms(3) menc_find_ok[OF Some] str_dup_cases[OF d] by (auto simp: acc_wf_def method_ok_def)
    qed
  qed
next
  case (medianat s err)
  show ?thesis
  proof (cases s)
    case None
    then show ?thesis using medianat assms(3) by (auto simp: account_set_medianat_def acc_wf_def)
  next
    case (Some x)
    show ?thesis
    proof (cases "mnat_find (l_casecmp L) (rg_mnatl R) (Some x)")
      case None
      then show ?thesis using medianat assms(3) \<open>s = Some x\<close> by (simp add: account_set_medianat_def)
    next
      case (Some m)
      obtain e s' where d: "str_dup L None (Some x) = (e, s')" by fastforce
      then have "a' = a\<lparr>acc_mnatid := s', acc_mnat := Some m\<rparr>"
        using medianat Some \<open>s = Some x\<close> by (simp add: account_set_medianat_def)
      then show ?thesis
        using assms(3) mnat_find_ok[OF Some] str_dup_cases[OF d] by (auto simp: acc_wf_def method_ok_def)
    qed
  qed
next
  case (audio_codecs s err)
  then show ?thesis
    using assms(3) audio_codecs_decode_core[OF csl, of "rg_aucodecl R" "a\<lparr>acc_aucodecl := []\<rparr>"
        "take 255 ('';audio_codecs='' @ str_of s)"]
    by (cases s) (auto simp: account_set_audio_codecs_def acc_wf_def str_of_def)
next
  case (video_codecs s err)
  then show ?thesis
    using assms(3) video_codecs_decode_core[OF csl, of "rg_vidcodecl R" "a\<lparr>acc_vidcodecl := []\<rparr>"
        "take 255 ('';video_codecs='' @ str_of s)"]
    by (cases s) (auto simp: account_set_video_codecs_def acc_wf_def str_of_def)
qed (drule arg_cong[where f = "\<lambda>x. acc_frame (snd x)"], rule acc_wf_frame[OF _ assms(3)], simp add: setters_frame)+

text \<open>
  C20: Decoding an account always returns, with an account exactly if there was no error.  In every
  account that can be reached from there with the setters, the waiting time of a registration
  is 0 or between 5 and 95 percent, there are at most 16 audio and 4 video codecs, all
  registered, and the NAT and encryption methods are registered under the stored names.
\<close>
theorem account_well_formed:
  assumes "csl_laws L" "\<forall>s. l_addr_decode L s \<noteq> Inl 0"
  shows "(\<exists>err acc. account_alloc L R rnd sipaddr = Some (err, acc) \<and> (err = 0 \<longleftrightarrow> acc \<noteq> None)) \<and>
    (account_reach L R a \<longrightarrow> acc_wf L R a)"
proof -
  have "acc_wf L R a" if "account_reach L R a"
    using that
  proof (induction rule: account_reach.induct)
    case (alloc rnd s err a)
    then show ?case using account_alloc_ok[OF assms, of R rnd s] by auto
  next
    case (set a a')
    then show ?case using acc_step_wf[OF assms(1)] by blast
  qed
  then show ?thesis using account_alloc_ok[OF assms, of R rnd sipaddr] by blast
qed


definition is_blank :: "char \<Rightarrow> bool" where
  "is_blank c = (c = CHR 0x20 \<or> c = TAB)"

text \<open>A reference matcher for the one expression the codec lists are split with.\<close>

definition ref_regex :: "string \<Rightarrow> string \<Rightarrow> string list option" where
  "ref_regex pl re =
     (if re = ''[ '' @ [TAB] @ '']*[^, '' @ [TAB] @ '']+[ '' @ [TAB] @ '']*[,]*''
      then let ws = takeWhile is_blank pl; r1 = dropWhile is_blank pl;
               val = takeWhile (\<lambda>c. \<not> is_blank c \<and> c \<noteq> CHR '','') r1;
               r2 = dropWhile (\<lambda>c. \<not> is_blank c \<and> c \<noteq> CHR '','') r1;
               ws2 = takeWhile is_blank r2; cma = takeWhile (\<lambda>c. c = CHR '','') (dropWhile is_blank r2)
           in if val = [] then None else Some [ws, val, ws2, cma]
      else None)"

definition ref_libre :: libre where
  "ref_libre =
     \<lparr>l_regex = ref_regex,
      l_param_decode = (\<lambda>prm name. map_of [(''rwait'', ''99''), (''audio_codecs'', ''opus,g729, pcmu'')] name),
      l_param_exists = (\<lambda>prm name. name = ''audio_codecs''),
      l_u32 = (\<lambda>s. fold (\<lambda>c n. 10 * n + of_nat (of_char c - 48)) s 0),
      l_casecmp = ref_casecmp,
      l_addr_decode = (\<lambda>s. Inr (null_addr\<lparr>sa_auri := s\<rparr>)),
      l_uri_decode = (\<lambda>s. Inr null_uri),
      l_uri_encode = u_host,
      l_ctype = (\<lambda>ct t s. ct = (t, s)),
      l_dup = (\<lambda>s. True),
      l_zalloc = True,
      l_snprintf = (\<lambda>n fmt args. map_option (take (n - 1)) fmt)\<rparr>"

definition ref_aucodec :: "nat \<Rightarrow> string \<Rightarrow> nat aucodec" where
  "ref_aucodec a name =
     \<lparr>ac_addr = a, ac_pt = None, ac_name = Some name, ac_srate = 8000, ac_crate = 8000, ac_ch = 1,
      ac_pch = 1, ac_ptime = 0, ac_fmtp = None, ac_encupdh = None, ac_ench = None, ac_decupdh = None,
      ac_dech = None, ac_plch = None\<rparr>"

definition ref_regs :: registries where
  "ref_regs = \<lparr>rg_aucodecl = [ref_aucodec 1 ''PCMU'', ref_aucodec 2 ''opus''], rg_vidcodecl = [],
               rg_mnatl = [], rg_mencl = []\<rparr>"

lemma ref_libre_csl: "csl_laws ref_libre"
  by (auto simp: csl_laws_def ref_libre_def ref_regex_def Let_def split: if_splits)

lemma ref_codecs_loop:
  "audio_codecs_loop ref_libre (rg_aucodecl ref_regs) ''opus,g729, pcmu'' [] =
     Some [ref_aucodec 2 ''opus'', ref_aucodec 1 ''PCMU'']"
proof -
  have p: "csl_parse ref_libre ''opus,g729, pcmu'' 64 = Some (''opus'', ''g729, pcmu'')"
      "csl_parse ref_libre ''g729, pcmu'' 64 = Some (''g729'', '' pcmu'')"
      "csl_parse ref_libre '' pcmu'' 64 = Some (''pcmu'', [])"
      "csl_parse ref_libre [] 64 = None"
    by code_simp+
  have f: "aucodec_fields ref_libre s = (s, 8000, 1)" for s
    by (simp add: aucodec_fields_def ref_libre_def ref_regex_def)
  have g: "aucodec_find (l_casecmp ref_libre) (rg_aucodecl ref_regs) (Some ''opus'') 8000 1 = Some (ref_aucodec 2 ''opus'')"
      "aucodec_find (l_casecmp ref_libre) (rg_aucodecl ref_regs) (Some ''g729'') 8000 1 = None"
      "aucodec_find (l_casecmp ref_libre) (rg_aucodecl ref_regs) (Some ''pcmu'') 8000 1 = Some (ref_aucodec 1 ''PCMU'')"
    by code_simp+
  show ?thesis
    by (simp add: audio_codecs_loop.simps[of _ _ "_ # _"] audio_codecs_loop.simps[of _ _ "[]"] p f g)
qed

definition ref_account :: account where
  "ref_account =
     (case account_alloc ref_libre ref_regs 7 (Some ''sip:a@b'') of Some (_, Some a) \<Rightarrow> a | _ \<Rightarrow> null_account)"

lemma ref_account_alloc:
  "account_alloc ref_libre ref_regs 7 (Some ''sip:a@b'') = Some (0, Some ref_account) \<and>
   map ac_addr (acc_aucodecl ref_account) = [2, 1] \<and> acc_rwait ref_account = 95"
proof -
  have d: "l_param_decode ref_libre prm name = map_of [(''rwait'', ''99''), (''audio_codecs'', ''opus,g729, pcmu'')] name"
    "l_param_exists ref_libre prm name = (name = ''audio_codecs'')" "l_zalloc ref_libre" "l_dup ref_libre s"
    "l_addr_decode ref_libre s = Inr (null_addr\<lparr>sa_auri := s\<rparr>)" "l_u32 ref_libre ''99'' = 99" for prm name s
    by (simp_all add: ref_libre_def)
  show ?thesis
    unfolding ref_account_def account_alloc_def account_finish_def sip_params_decode_def stunsrv_decode_def
      audio_codecs_decode_def video_codecs_decode_def media_decode_def answermode_decode_def
      extra_decode_def decode_pair_def param_u32_def param_dstr_def str_dup_def
    by (simp add: d ref_codecs_loop Let_def null_addr_def null_account_def ref_aucodec_def)
qed

theorem account_well_formed_witness:
  "account_reach ref_libre ref_regs ref_account \<and> map ac_addr (acc_aucodecl ref_account) = [2, 1] \<and>
   acc_rwait ref_account = 95 \<and> acc_wf ref_libre ref_regs ref_account"
proof -
  have asm: "csl_laws ref_libre" "\<forall>s. l_addr_decode ref_libre s \<noteq> Inl 0"
    by (rule ref_libre_csl, simp add: ref_libre_def)
  have "account_reach ref_libre ref_regs ref_account"
    using ref_account_alloc by (blast intro: account_reach.alloc)
  moreover have "acc_wf ref_libre ref_regs ref_account"
    using account_well_formed[OF asm, of ref_regs 7 None ref_account] calculation by blast
  ultimately show ?thesis using ref_account_alloc by blast
qed


end
