(* ===== verification/Event.thy ===== *)
theory Event
  imports Sip
begin

text \<open>
  The events of the user agents and the registry of their handlers (\<open>src/ev.c\<close>).

  A handler is identified by the address \<open>eh_h\<close> of its function; what it does to the world
  \<open>'w\<close> is the argument \<open>run\<close> of \<open>ua_event\<close>.  Handlers do not change the registry while
  an event is delivered.
\<close>

datatype ua_event =
    UA_EVENT_REGISTERING
  | UA_EVENT_REGISTER_OK
  | UA_EVENT_REGISTER_FAIL
  | UA_EVENT_UNREGISTERING
  | UA_EVENT_FALLBACK_OK
  | UA_EVENT_FALLBACK_FAIL
  | UA_EVENT_MWI_NOTIFY
  | UA_EVENT_SHUTDOWN
  | UA_EVENT_EXIT
  | UA_EVENT_CALL_INCOMING
  | UA_EVENT_CALL_RINGING
  | UA_EVENT_CALL_PROGRESS
  | UA_EVENT_CALL_ESTABLISHED
  | UA_EVENT_CALL_CLOSED
  | UA_EVENT_CALL_TRANSFER
  | UA_EVENT_CALL_TRANSFER_FAILED
  | UA_EVENT_CALL_DTMF_START
  | UA_EVENT_CALL_DTMF_END
  | UA_EVENT_CALL_RTPESTAB
  | UA_EVENT_CALL_RTCP
  | UA_EVENT_CALL_MENC
  | UA_EVENT_VU_TX
  | UA_EVENT_VU_RX
  | UA_EVENT_AUDIO_ERROR
  | UA_EVENT_CALL_LOCAL_SDP
  | UA_EVENT_CALL_REMOTE_SDP
  | UA_EVENT_MAX

definition event_class_name :: "ua_event \<Rightarrow> string" where
  "event_class_name ev =
     (if ev \<in> {UA_EVENT_REGISTERING, UA_EVENT_REGISTER_OK, UA_EVENT_REGISTER_FAIL,
                UA_EVENT_UNREGISTERING, UA_EVENT_FALLBACK_OK, UA_EVENT_FALLBACK_FAIL} then ''register''
      else if ev = UA_EVENT_MWI_NOTIFY then ''mwi''
      else if ev \<in> {UA_EVENT_SHUTDOWN, UA_EVENT_EXIT} then ''application''
      else if ev \<in> {UA_EVENT_CALL_INCOMING, UA_EVENT_CALL_RINGING, UA_EVENT_CALL_PROGRESS,
                     UA_EVENT_CALL_ESTABLISHED, UA_EVENT_CALL_CLOSED, UA_EVENT_CALL_TRANSFER,
                     UA_EVENT_CALL_TRANSFER_FAILED, UA_EVENT_CALL_DTMF_START, UA_EVENT_CALL_DTMF_END,
                     UA_EVENT_CALL_RTCP, UA_EVENT_CALL_MENC} then ''call''
      else if ev \<in> {UA_EVENT_VU_RX, UA_EVENT_VU_TX} then ''VU_REPORT''
      else ''other'')"

fun uag_event_str :: "ua_event \<Rightarrow> string" where
  "uag_event_str UA_EVENT_REGISTERING = ''REGISTERING''"
| "uag_event_str UA_EVENT_REGISTER_OK = ''REGISTER_OK''"
| "uag_event_str UA_EVENT_REGISTER_FAIL = ''REGISTER_FAIL''"
| "uag_event_str UA_EVENT_FALLBACK_OK = ''FALLBACK_OK''"
| "uag_event_str UA_EVENT_FALLBACK_FAIL = ''FALLBACK_FAIL''"
| "uag_event_str UA_EVENT_UNREGISTERING = ''UNREGISTERING''"
| "uag_event_str UA_EVENT_MWI_NOTIFY = ''MWI_NOTIFY''"
| "uag_event_str UA_EVENT_SHUTDOWN = ''SHUTDOWN''"
| "uag_event_str UA_EVENT_EXIT = ''EXIT''"
| "uag_event_str UA_EVENT_CALL_INCOMING = ''CALL_INCOMING''"
| "uag_event_str UA_EVENT_CALL_RINGING = ''CALL_RINGING''"
| "uag_event_str UA_EVENT_CALL_PROGRESS = ''CALL_PROGRESS''"
| "uag_event_str UA_EVENT_CALL_ESTABLISHED = ''CALL_ESTABLISHED''"
| "uag_event_str UA_EVENT_CALL_CLOSED = ''CALL_CLOSED''"
| "uag_event_str UA_EVENT_CALL_TRANSFER = ''TRANSFER''"
| "uag_event_str UA_EVENT_CALL_TRANSFER_FAILED = ''TRANSFER_FAILED''"
| "uag_event_str UA_EVENT_CALL_DTMF_START = ''CALL_DTMF_START''"
| "uag_event_str UA_EVENT_CALL_DTMF_END = ''CALL_DTMF_END''"
| "uag_event_str UA_EVENT_CALL_RTPESTAB = ''CALL_RTPESTAB''"
| "uag_event_str UA_EVENT_CALL_RTCP = ''CALL_RTCP''"
| "uag_event_str UA_EVENT_CALL_MENC = ''CALL_MENC''"
| "uag_event_str UA_EVENT_VU_TX = ''VU_TX_REPORT''"
| "uag_event_str UA_EVENT_VU_RX = ''VU_RX_REPORT''"
| "uag_event_str UA_EVENT_AUDIO_ERROR = ''AUDIO_ERROR''"
| "uag_event_str UA_EVENT_CALL_LOCAL_SDP = ''CALL_LOCAL_SDP''"
| "uag_event_str UA_EVENT_CALL_REMOTE_SDP = ''CALL_REMOTE_SDP''"
| "uag_event_str UA_EVENT_MAX = ''?''"

subsection \<open>Handlers\<close>

record 'arg ua_eh =
  eh_h :: nat
  eh_arg :: 'arg

text \<open>The first handler with this function is removed.\<close>

fun uag_event_unregister :: "'arg ua_eh list \<Rightarrow> nat \<Rightarrow> 'arg ua_eh list" where
  "uag_event_unregister [] h = []"
| "uag_event_unregister (eh # ehl) h = (if eh_h eh = h then ehl else eh # uag_event_unregister ehl h)"

text \<open>Address 0 is NULL; \<open>zalloc\<close> says whether memory is available.\<close>

definition uag_event_register :: "bool \<Rightarrow> 'arg ua_eh list \<Rightarrow> nat \<Rightarrow> 'arg \<Rightarrow> err \<times> 'arg ua_eh list" where
  "uag_event_register zalloc ehl h arg =
     (if h = 0 then (EINVAL, ehl)
      else
        let ehl = uag_event_unregister ehl h
        in if \<not> zalloc then (ENOMEM, ehl) else (0, ehl @ [\<lparr>eh_h = h, eh_arg = arg\<rparr>]))"

definition ua_event ::
  "libre \<Rightarrow> (nat \<Rightarrow> 'arg \<Rightarrow> 'ua option \<Rightarrow> ua_event \<Rightarrow> 'call option \<Rightarrow> string option \<Rightarrow> 'w \<Rightarrow> 'w)
     \<Rightarrow> 'arg ua_eh list \<Rightarrow> 'ua option \<Rightarrow> ua_event \<Rightarrow> 'call option \<Rightarrow> string option \<Rightarrow> fmt_arg list \<Rightarrow> 'w \<Rightarrow> 'w" where
  "ua_event L run ehl ua ev call fmt args w =
     (let buf = l_snprintf L 256 fmt args
      in fold (\<lambda>eh. run (eh_h eh) (eh_arg eh) ua ev call buf) ehl w)"

subsection \<open>Events as dictionaries\<close>

record rtcp_stats =
  rs_tx_sent :: u32
  rs_tx_lost :: int
  rs_tx_jit :: u32
  rs_rx_sent :: u32
  rs_rx_lost :: int
  rs_rx_jit :: u32
  rs_rtt :: u32

text \<open>\<open>new n\<close> is the result of the \<open>n\<close>-th call of \<open>odict_alloc\<close>.\<close>

definition add_rtcp_stats ::
  "'od od_add \<Rightarrow> (nat \<Rightarrow> err \<times> 'od) \<Rightarrow> 'od \<Rightarrow> rtcp_stats option \<Rightarrow> err \<times> 'od" where
  "add_rtcp_stats add new od_parent rs =
     (case rs of
        None \<Rightarrow> (EINVAL, od_parent)
      | Some r \<Rightarrow>
          let (e0, od) = new 0; (e1, tx) = new 1; (e2, rx) = new 2
          in if e0 OR e1 OR e2 \<noteq> 0 then (e0 OR e1 OR e2, od_parent)
             else
               let (err, tx) = od_all add tx [(''sent'', OdInt (uint (rs_tx_sent r))),
                                              (''lost'', OdInt (rs_tx_lost r)),
                                              (''jit'', OdInt (uint (rs_tx_jit r)))] 0
               in if err \<noteq> 0 then (err, od_parent)
                  else
                    let (err, rx) = od_all add rx [(''sent'', OdInt (uint (rs_rx_sent r))),
                                                   (''lost'', OdInt (rs_rx_lost r)),
                                                   (''jit'', OdInt (uint (rs_rx_jit r)))] 0
                    in if err \<noteq> 0 then (err, od_parent)
                       else
                         let (err, od) = od_all add od [(''tx'', OdObj tx), (''rx'', OdObj rx),
                                                        (''rtt'', OdInt (uint (rs_rtt r)))] 0
                         in if err \<noteq> 0 then (err, od_parent)
                            else add od_parent ''rtcp_stats'' (OdObj od))"

text \<open>What the event shows of a call: direction, peer, identifier, and the statistics of its streams.\<close>

record call_view =
  cv_outgoing :: bool
  cv_peeruri :: "string option"
  cv_peername :: "string option"
  cv_id :: "string option"
  cv_audio_stats :: "rtcp_stats option"
  cv_video_stats :: "rtcp_stats option"

definition event_encode_dict ::
  "libre \<Rightarrow> 'od od_add \<Rightarrow> (nat \<Rightarrow> err \<times> 'od) \<Rightarrow> 'od option \<Rightarrow> string option option \<Rightarrow> ua_event \<Rightarrow>
   call_view option \<Rightarrow> string option \<Rightarrow> err \<times> 'od option" where
  "event_encode_dict L add new odp ua_aor ev call prm =
     (case odp of
        None \<Rightarrow> (EINVAL, None)
      | Some od \<Rightarrow>
          let (err, od) = od_all add od
                ([(''type'', OdStr (Some (uag_event_str ev))), (''class'', OdStr (Some (event_class_name ev)))] @
                 (case ua_aor of None \<Rightarrow> [] | Some aor \<Rightarrow> [(''accountaor'', OdStr aor)])) 0
          in if err \<noteq> 0 then (err, Some od)
             else
               let opt = (\<lambda>k v. if v \<noteq> None then [(k, OdStr v)] else []);
                   (err, od) = (case call of
                      None \<Rightarrow> (0, od)
                    | Some c \<Rightarrow> od_all add od
                        ([(''direction'', OdStr (Some (if cv_outgoing c then ''outgoing'' else ''incoming''))),
                          (''peeruri'', OdStr (cv_peeruri c))] @
                         opt ''peerdisplayname'' (cv_peername c) @ opt ''id'' (cv_id c)) 0)
               in if err \<noteq> 0 then (err, Some od)
                  else
                    let (err, od) = (if str_isset prm then add od ''param'' (OdStr prm) else (err, od))
                    in if err \<noteq> 0 then (err, Some od)
                       else if ev = UA_EVENT_CALL_RTCP
                       then
                         let stats = (if l_casecmp L prm (Some ''audio'') = 0
                                      then Option.bind call cv_audio_stats
                                      else if l_casecmp L prm (Some ''video'') = 0
                                      then Option.bind call cv_video_stats
                                      else None);
                             (err, od) = add_rtcp_stats add new od stats
                         in (err, Some od)
                       else (err, Some od))"

definition event_add_au_jb_stat :: "'od od_add \<Rightarrow> int \<Rightarrow> 'od \<Rightarrow> err \<times> 'od" where
  "event_add_au_jb_stat add jb_ms od_parent = add od_parent ''audio_jb_ms'' (OdInt jb_ms)"

subsection \<open>Handlers are called once, in the order of registration\<close>

lemma unregister_other: "h \<notin> eh_h ` set ehl \<Longrightarrow> uag_event_unregister ehl h = ehl"
  by (induction ehl) auto

lemma filter_other: "h \<notin> eh_h ` set ehl \<Longrightarrow> filter (\<lambda>eh. eh_h eh \<noteq> h) ehl = ehl"
  by (induction ehl) auto

lemma unregister_distinct:
  "distinct (map eh_h ehl) \<Longrightarrow> uag_event_unregister ehl h = filter (\<lambda>eh. eh_h eh \<noteq> h) ehl"
  by (induction ehl) (auto simp: filter_other)

inductive ehl_reach :: "'arg ua_eh list \<Rightarrow> bool" where
  init: "ehl_reach []"
| reg: "ehl_reach ehl \<Longrightarrow> uag_event_register zalloc ehl h arg = (err, ehl') \<Longrightarrow> ehl_reach ehl'"
| unreg: "ehl_reach ehl \<Longrightarrow> ehl_reach (uag_event_unregister ehl h)"

lemma ehl_reach_distinct: "ehl_reach ehl \<Longrightarrow> distinct (map eh_h ehl) \<and> 0 \<notin> eh_h ` set ehl"
proof (induction rule: ehl_reach.induct)
  case init
  show ?case by simp
next
  case (reg ehl zalloc h arg err ehl')
  then have d: "distinct (map eh_h (filter (\<lambda>eh. eh_h eh \<noteq> h) ehl))" by (simp add: distinct_map_filter)
  from reg show ?case
    by (cases zalloc) (auto simp: uag_event_register_def Let_def unregister_distinct d split: if_splits)
next
  case (unreg ehl h)
  then show ?case by (auto simp: unregister_distinct distinct_map_filter)
qed

text \<open>
  In every reachable registry, registering a handler makes it the last one and leaves one
  entry of it, keeping the others in order; an event then runs every handler once, in the
  order of registration, with the formatted text.  When no memory is left, an earlier
  registration of the same handler is lost.
\<close>
theorem event_handlers:
  assumes "ehl_reach ehl" "h \<noteq> 0"
  shows "uag_event_register True ehl h arg =
        (0, filter (\<lambda>eh. eh_h eh \<noteq> h) ehl @ [\<lparr>eh_h = h, eh_arg = arg\<rparr>]) \<and>
      uag_event_register False ehl h arg = (ENOMEM, filter (\<lambda>eh. eh_h eh \<noteq> h) ehl) \<and>
      ua_event L (\<lambda>f x ua ev call prm calls. calls @ [(f, x, prm)]) ehl ua ev call fmt args [] =
        map (\<lambda>eh. (eh_h eh, eh_arg eh, l_snprintf L 256 fmt args)) ehl \<and>
      distinct (map eh_h ehl)"
proof -
  have d: "distinct (map eh_h ehl)" using ehl_reach_distinct[OF assms(1)] by blast
  have f: "fold (\<lambda>eh calls. calls @ [(eh_h eh, eh_arg eh, b)]) l acc = acc @ map (\<lambda>eh. (eh_h eh, eh_arg eh, b)) l"
    for l acc b
    by (induction l arbitrary: acc) auto
  show ?thesis
    using assms(2) by (simp add: uag_event_register_def unregister_distinct[OF d] ua_event_def f d)
qed

theorem event_handlers_witness:
  "\<exists>ehl :: unit ua_eh list. uag_event_register True [] 5 () = (0, ehl) \<and> ehl_reach ehl \<and>
     uag_event_register True ehl 7 () = (0, filter (\<lambda>eh. eh_h eh \<noteq> 7) ehl @ [\<lparr>eh_h = 7, eh_arg = ()\<rparr>])"
proof -
  define ehl :: "unit ua_eh list" where "ehl = snd (uag_event_register True [] 5 ())"
  have e: "uag_event_register True [] 5 () = (0, ehl)" by (simp add: ehl_def uag_event_register_def)
  have r: "ehl_reach ehl" by (rule ehl_reach.reg[OF ehl_reach.init e])
  have "uag_event_register True ehl 7 () = (0, filter (\<lambda>eh. eh_h eh \<noteq> 7) ehl @ [\<lparr>eh_h = 7, eh_arg = ()\<rparr>])"
    by (rule conjunct1[OF event_handlers[OF r]]) simp
  then show ?thesis using e r by blast
qed

end
