(* ===== verification/Call.thy ===== *)
theory Call
  imports Stream Account Event Cmd
begin

text \<open>
  Call control, \<open>src/call.c\<close>: the state of a call, the operations of the user agent on it, and
  the handlers of the SIP session, the media streams, the NAT and encryption methods.

  The call owns an audio and a video object, each with its media stream (\<open>Stream\<close>): the pair
  of an abstract object and a \<open>strm\<close>, None for NULL; the list of streams of the call is the
  audio stream followed by the video stream.  The operations of \<open>src/audio.c\<close> and
  \<open>src/video.c\<close> on such a pair are the arguments \<open>ce_audio\<close> and \<open>ce_video\<close>.  The SDP session
  of libre is abstract; its functions read and change the media lines held by the streams.

  What the call does to the outside is recorded in the log \<open>cl_out\<close>: SIP requests and
  responses, the event handler of the owner, events of the user agent, and the operations of
  the media objects.  The result of such a call, and the time, are functions of the log.  A
  timer is None when it is not running, else its delay in milliseconds.
\<close>

subsection \<open>Data\<close>

datatype call_event =
    CALL_EVENT_INCOMING
  | CALL_EVENT_RINGING
  | CALL_EVENT_PROGRESS
  | CALL_EVENT_ESTABLISHED
  | CALL_EVENT_CLOSED
  | CALL_EVENT_TRANSFER
  | CALL_EVENT_TRANSFER_FAILED
  | CALL_EVENT_MENC

datatype call_state =
    CALL_STATE_IDLE
  | CALL_STATE_INCOMING
  | CALL_STATE_OUTGOING
  | CALL_STATE_RINGING
  | CALL_STATE_EARLY
  | CALL_STATE_ESTABLISHED
  | CALL_STATE_TERMINATED
  | CALL_STATE_UNKNOWN

datatype vidmode = VIDMODE_OFF | VIDMODE_ON

datatype menc_event = MENC_EVENT_SECURE | MENC_EVENT_VERIFY_REQUEST | MENC_EVENT_PEER_VERIFIED

text \<open>A format of the remote side; \<open>sf_data\<close> is the local codec behind it.\<close>

record sdp_format =
  sf_sup :: bool
  sf_data :: "nat option"
  sf_pt :: int
  sf_params :: "string option"

text \<open>The operations of the audio and video objects.\<close>

datatype audio_op =
    AuEncoderSet sdp_format
  | AuDecoderSet sdp_format
  | AuStart
  | AuStop
  | AuSdpAttrDecode
  | AuSendDigit char

datatype video_op =
    ViUpdate "string option"
  | ViStop
  | ViSdpAttrDecode
  | ViUpdatePicture

datatype call_out =
    CoEvent call_event "string option"
  | CoDtmf char
  | CoUaEvent ua_event "string option"
  | CoAudio audio_op
  | CoVideo video_op
  | CoStrDup string
  | CoSdpSession
  | CoSdpAttr
  | CoMnatSess bool
  | CoMencSess bool
  | CoMnatUpdate
  | CoSipReply u16 string
  | CoSipTreply u16 string
  | CoSessConnect "string option" "u8 list" "(string \<times> string) list"
  | CoSessAccept u16
  | CoSessModify "u8 list"
  | CoSessProgress u16 "u8 list"
  | CoSessAnswer u16 "u8 list"
  | CoSessReject u16 "string option"
  | CoSessClose
  | CoSessCloseHeaders
  | CoNotAccept u16
  | CoNotify u16 bool
  | CoNotClose
  | CoRefer string
  | CoSubClose

record ('p, 'm, 'j, 'a, 'au, 'vi) call =
  cl_acc :: account
  cl_sess :: bool
  cl_sdp :: 'p
  cl_sub :: bool
  cl_not :: bool
  cl_audio :: "('au \<times> ('m, 'j, 'a) strm) option"
  cl_video :: "('vi \<times> ('m, 'j, 'a) strm) option"
  cl_state :: call_state
  cl_local_uri :: "string option"
  cl_local_name :: "string option"
  cl_peer_uri :: "string option"
  cl_peer_name :: "string option"
  cl_id :: "string option"
  cl_tmr_inv :: "u32 option"
  cl_tmr_dtmf :: "u32 option"
  cl_time_start :: int
  cl_time_conn :: int
  cl_time_stop :: int
  cl_outgoing :: bool
  cl_got_offer :: bool
  cl_on_hold :: bool
  cl_mnats :: bool
  cl_mnat_wait :: bool
  cl_mencs :: bool
  cl_af :: int
  cl_scode :: u16
  cl_eh :: bool
  cl_dtmfh :: bool
  cl_rtp_stats :: bool
  cl_local_timeout :: u32
  cl_rtp_timeout_ms :: u32
  cl_linenum :: u32
  cl_custom_hdrs :: "(string \<times> string) list"
  cl_out :: "call_out list"

text \<open>
  The environment.  \<open>ce_sdp_decode\<close> decodes an offer or an answer and changes the session and
  the media lines; \<open>ce_sdp_encode\<close> yields an error or the encoded description.
\<close>

record ('p, 'm, 'j, 'a, 'au, 'vi) call_env =
  ce_libre :: libre
  ce_strm :: "('m, 'j, 'a) strm_env"
  ce_ret :: "call_out list \<Rightarrow> err"
  ce_time :: "call_out list \<Rightarrow> int"
  ce_jiffies :: "call_out list \<Rightarrow> u64"
  ce_callid :: "call_out list \<Rightarrow> string option"
  ce_audio :: "audio_op \<Rightarrow> 'au \<times> ('m, 'j, 'a) strm \<Rightarrow> err \<times> 'au \<times> ('m, 'j, 'a) strm"
  ce_video :: "video_op \<Rightarrow> 'vi \<times> ('m, 'j, 'a) strm \<Rightarrow> err \<times> 'vi \<times> ('m, 'j, 'a) strm"
  ce_sdp_decode :: "bool \<Rightarrow> u8 list \<Rightarrow> 'p \<Rightarrow> 'm option \<Rightarrow> 'm option \<Rightarrow> err \<times> 'p \<times> 'm option \<times> 'm option"
  ce_sdp_encode :: "bool \<Rightarrow> 'p \<Rightarrow> 'm option \<Rightarrow> 'm option \<Rightarrow> err + u8 list"
  ce_sdp_multipart :: "string \<Rightarrow> mbuf \<Rightarrow> err \<times> mbuf"
  ce_sdp_laddr :: "'a \<Rightarrow> 'p \<Rightarrow> 'p"
  ce_rport :: "'m \<Rightarrow> u16"
  ce_formats :: "'m \<Rightarrow> sdp_format list"
  ce_af :: "'a \<Rightarrow> int"
  ce_vidisp :: bool
  ce_vidsrc :: bool
  ce_regs :: registries

definition cl_emit :: "call_out \<Rightarrow> ('p, 'm, 'j, 'a, 'au, 'vi) call \<Rightarrow> ('p, 'm, 'j, 'a, 'au, 'vi) call" where
  "cl_emit x c = c\<lparr>cl_out := cl_out c @ [x]\<rparr>"

definition cl_call ::
  "('p, 'm, 'j, 'a, 'au, 'vi) call_env \<Rightarrow> call_out \<Rightarrow> ('p, 'm, 'j, 'a, 'au, 'vi) call
     \<Rightarrow> err \<times> ('p, 'm, 'j, 'a, 'au, 'vi) call" where
  "cl_call E x c = (ce_ret E (cl_out c @ [x]), cl_emit x c)"

text \<open>\<open>str_dup\<close> of a string into a field that holds \<open>old\<close>.\<close>

definition cl_dup ::
  "('p, 'm, 'j, 'a, 'au, 'vi) call_env \<Rightarrow> string option \<Rightarrow> string option \<Rightarrow> ('p, 'm, 'j, 'a, 'au, 'vi) call
     \<Rightarrow> err \<times> string option \<times> ('p, 'm, 'j, 'a, 'au, 'vi) call" where
  "cl_dup E old s c =
     (case s of
        None \<Rightarrow> (EINVAL, old, c)
      | Some x \<Rightarrow> let (err, c) = cl_call E (CoStrDup x) c in (err, if err \<noteq> 0 then old else Some x, c))"

text \<open>The event handler of the owner, with a formatted text of at most 255 characters.\<close>

definition call_event_handler ::
  "('p, 'm, 'j, 'a, 'au, 'vi) call_env \<Rightarrow> call_event \<Rightarrow> string option \<Rightarrow> fmt_arg list
     \<Rightarrow> ('p, 'm, 'j, 'a, 'au, 'vi) call \<Rightarrow> ('p, 'm, 'j, 'a, 'au, 'vi) call" where
  "call_event_handler E ev fmt args c =
     (if \<not> cl_eh c then c else cl_emit (CoEvent ev (l_snprintf (ce_libre E) 256 fmt args)) c)"

definition call_ua_event ::
  "('p, 'm, 'j, 'a, 'au, 'vi) call_env \<Rightarrow> ua_event \<Rightarrow> string option \<Rightarrow> fmt_arg list
     \<Rightarrow> ('p, 'm, 'j, 'a, 'au, 'vi) call \<Rightarrow> ('p, 'm, 'j, 'a, 'au, 'vi) call" where
  "call_ua_event E ev fmt args c = cl_emit (CoUaEvent ev (l_snprintf (ce_libre E) 256 fmt args)) c"

definition call_audio_op ::
  "('p, 'm, 'j, 'a, 'au, 'vi) call_env \<Rightarrow> audio_op \<Rightarrow> ('p, 'm, 'j, 'a, 'au, 'vi) call
     \<Rightarrow> err \<times> ('p, 'm, 'j, 'a, 'au, 'vi) call" where
  "call_audio_op E op c =
     (case cl_audio c of
        None \<Rightarrow> (EINVAL, c)
      | Some a \<Rightarrow> let (err, a) = ce_audio E op a in (err, cl_emit (CoAudio op) (c\<lparr>cl_audio := Some a\<rparr>)))"

text \<open>Without a video object there is nothing to do; \<open>video_update\<close> is only called with one.\<close>

definition call_video_op ::
  "('p, 'm, 'j, 'a, 'au, 'vi) call_env \<Rightarrow> video_op \<Rightarrow> ('p, 'm, 'j, 'a, 'au, 'vi) call
     \<Rightarrow> err \<times> ('p, 'm, 'j, 'a, 'au, 'vi) call" where
  "call_video_op E op c =
     (case cl_video c of
        None \<Rightarrow> (0, c)
      | Some v \<Rightarrow> let (err, v) = ce_video E op v in (err, cl_emit (CoVideo op) (c\<lparr>cl_video := Some v\<rparr>)))"

definition audio_strm :: "('p, 'm, 'j, 'a, 'au, 'vi) call \<Rightarrow> ('m, 'j, 'a) strm option" where
  "audio_strm c = map_option snd (cl_audio c)"

definition video_strm :: "('p, 'm, 'j, 'a, 'au, 'vi) call \<Rightarrow> ('m, 'j, 'a) strm option" where
  "video_strm c = map_option snd (cl_video c)"

definition on_audio_strm ::
  "(('m, 'j, 'a) strm \<Rightarrow> ('m, 'j, 'a) strm) \<Rightarrow> ('p, 'm, 'j, 'a, 'au, 'vi) call \<Rightarrow> ('p, 'm, 'j, 'a, 'au, 'vi) call" where
  "on_audio_strm f c = c\<lparr>cl_audio := map_option (apsnd f) (cl_audio c)\<rparr>"

definition on_video_strm ::
  "(('m, 'j, 'a) strm \<Rightarrow> ('m, 'j, 'a) strm) \<Rightarrow> ('p, 'm, 'j, 'a, 'au, 'vi) call \<Rightarrow> ('p, 'm, 'j, 'a, 'au, 'vi) call" where
  "on_video_strm f c = c\<lparr>cl_video := map_option (apsnd f) (cl_video c)\<rparr>"

text \<open>\<open>FOREACH_STREAM\<close>.\<close>

definition foreach_strm ::
  "(('m, 'j, 'a) strm \<Rightarrow> ('m, 'j, 'a) strm) \<Rightarrow> ('p, 'm, 'j, 'a, 'au, 'vi) call \<Rightarrow> ('p, 'm, 'j, 'a, 'au, 'vi) call" where
  "foreach_strm f c = on_video_strm f (on_audio_strm f c)"

definition strm_ready :: "('p, 'm, 'j, 'a, 'au, 'vi) call_env \<Rightarrow> ('m, 'j, 'a) strm option \<Rightarrow> bool" where
  "strm_ready E s = (case s of None \<Rightarrow> False | Some s \<Rightarrow> stream_is_ready (ce_strm E) s)"

fun state_name :: "call_state \<Rightarrow> string" where
  "state_name CALL_STATE_IDLE = ''IDLE''"
| "state_name CALL_STATE_INCOMING = ''INCOMING''"
| "state_name CALL_STATE_OUTGOING = ''OUTGOING''"
| "state_name CALL_STATE_RINGING = ''RINGING''"
| "state_name CALL_STATE_EARLY = ''EARLY''"
| "state_name CALL_STATE_ESTABLISHED = ''ESTABLISHED''"
| "state_name CALL_STATE_TERMINATED = ''TERMINATED''"
| "state_name CALL_STATE_UNKNOWN = ''UNKNOWN''"

definition set_state :: "('p, 'm, 'j, 'a, 'au, 'vi) call \<Rightarrow> call_state \<Rightarrow> ('p, 'm, 'j, 'a, 'au, 'vi) call" where
  "set_state c st = c\<lparr>cl_state := st\<rparr>"

subsection \<open>Media\<close>

definition sdp_media_rcodec ::
  "('p, 'm, 'j, 'a, 'au, 'vi) call_env \<Rightarrow> 'm option \<Rightarrow> sdp_format option" where
  "sdp_media_rcodec E m =
     (case m of
        None \<Rightarrow> None
      | Some m \<Rightarrow> if ce_rport E m = 0 then None
                  else List.find (\<lambda>fmt. sf_sup fmt \<and> sf_data fmt \<noteq> None) (ce_formats E m))"

definition sdp_media_has_media ::
  "('p, 'm, 'j, 'a, 'au, 'vi) call_env \<Rightarrow> 'm option \<Rightarrow> bool" where
  "sdp_media_has_media E m =
     (case m of None \<Rightarrow> False | Some m \<Rightarrow> se_rformat (ce_strm E) m \<noteq> None \<and> ce_rport E m \<noteq> 0)"

definition start_audio ::
  "('p, 'm, 'j, 'a, 'au, 'vi) call_env \<Rightarrow> ('p, 'm, 'j, 'a, 'au, 'vi) call
     \<Rightarrow> err \<times> ('p, 'm, 'j, 'a, 'au, 'vi) call" where
  "start_audio E c =
     (case sdp_media_rcodec E (map_option st_sdp (audio_strm c)) of
        None \<Rightarrow> (0, c)
      | Some sc \<Rightarrow>
          let (e1, c) = call_audio_op E (AuEncoderSet sc) c;
              (e2, c) = call_audio_op E (AuDecoderSet sc) c
          in if e1 OR e2 = 0 then call_audio_op E AuStart c else (e1 OR e2, c))"

definition update_audio ::
  "('p, 'm, 'j, 'a, 'au, 'vi) call_env \<Rightarrow> ('p, 'm, 'j, 'a, 'au, 'vi) call
     \<Rightarrow> err \<times> ('p, 'm, 'j, 'a, 'au, 'vi) call" where
  "update_audio E c =
     (case sdp_media_rcodec E (map_option st_sdp (audio_strm c)) of
        None \<Rightarrow> (0, c)
      | Some sc \<Rightarrow>
          let (e1, c) = call_audio_op E (AuDecoderSet sc) c;
              (e2, c) = call_audio_op E (AuEncoderSet sc) c
          in (e1 OR e2, c))"

definition call_stream_start ::
  "('p, 'm, 'j, 'a, 'au, 'vi) call_env \<Rightarrow> ('p, 'm, 'j, 'a, 'au, 'vi) call \<Rightarrow> bool
     \<Rightarrow> ('p, 'm, 'j, 'a, 'au, 'vi) call" where
  "call_stream_start E c active =
     (let c = (if strm_ready E (audio_strm c) then snd (start_audio E c) else c);
          c = (if strm_ready E (video_strm c) then snd (call_video_op E (ViUpdate (cl_peer_uri c)) c) else c)
      in if active
         then foreach_strm (stream_reset (ce_strm E)) (c\<lparr>cl_tmr_inv := None, cl_time_start := ce_time E (cl_out c)\<rparr>)
         else c)"

definition call_stream_stop ::
  "('p, 'm, 'j, 'a, 'au, 'vi) call_env \<Rightarrow> ('p, 'm, 'j, 'a, 'au, 'vi) call \<Rightarrow> ('p, 'm, 'j, 'a, 'au, 'vi) call" where
  "call_stream_stop E c =
     (let c = c\<lparr>cl_time_stop := ce_time E (cl_out c)\<rparr>;
          c = snd (call_audio_op E AuStop c);
          c = snd (call_video_op E ViStop c)
      in c\<lparr>cl_tmr_inv := None\<rparr>)"

definition update_media ::
  "('p, 'm, 'j, 'a, 'au, 'vi) call_env \<Rightarrow> ('p, 'm, 'j, 'a, 'au, 'vi) call
     \<Rightarrow> err \<times> ('p, 'm, 'j, 'a, 'au, 'vi) call" where
  "update_media E c =
     (let c = call_ua_event E UA_EVENT_CALL_REMOTE_SDP (Some (if cl_got_offer c then ''offer'' else ''answer'')) [] c;
          c = snd (call_audio_op E AuSdpAttrDecode c);
          c = snd (call_video_op E ViSdpAttrDecode c);
          c = foreach_strm (stream_update (ce_strm E)) c;
          (e1, c) = (if (case acc_mnat (cl_acc c) of None \<Rightarrow> False | Some m \<Rightarrow> mn_updateh m) \<and> cl_mnats c
                     then cl_call E CoMnatUpdate c else (0, c));
          (e2, c) = (if strm_ready E (audio_strm c) then update_audio E c else (0, c));
          (e3, c) = (if strm_ready E (video_strm c) then call_video_op E (ViUpdate (cl_peer_uri c)) c else (0, c))
      in (e1 OR e2 OR e3, c))"

subsection \<open>Requests of the user agent\<close>

definition call_sdp_get ::
  "('p, 'm, 'j, 'a, 'au, 'vi) call_env \<Rightarrow> ('p, 'm, 'j, 'a, 'au, 'vi) call \<Rightarrow> bool \<Rightarrow> err + u8 list" where
  "call_sdp_get E c offer =
     ce_sdp_encode E offer (cl_sdp c) (map_option st_sdp (audio_strm c)) (map_option st_sdp (video_strm c))"

text \<open>Decoding an offer or an answer changes the session and the media lines.\<close>

definition call_sdp_decode ::
  "('p, 'm, 'j, 'a, 'au, 'vi) call_env \<Rightarrow> bool \<Rightarrow> mbuf \<Rightarrow> ('p, 'm, 'j, 'a, 'au, 'vi) call
     \<Rightarrow> err \<times> ('p, 'm, 'j, 'a, 'au, 'vi) call" where
  "call_sdp_decode E offer mb c =
     (let (err, p, ma, mv) = ce_sdp_decode E offer (m_rest (se_mbuf (ce_strm E)) mb) (cl_sdp c)
            (map_option st_sdp (audio_strm c)) (map_option st_sdp (video_strm c));
          upd = (\<lambda>m s. case m of None \<Rightarrow> s | Some x \<Rightarrow> s\<lparr>st_sdp := x\<rparr>)
      in (err, on_video_strm (upd mv) (on_audio_strm (upd ma) (c\<lparr>cl_sdp := p\<rparr>))))"

definition send_invite ::
  "('p, 'm, 'j, 'a, 'au, 'vi) call_env \<Rightarrow> ('p, 'm, 'j, 'a, 'au, 'vi) call
     \<Rightarrow> err \<times> ('p, 'm, 'j, 'a, 'au, 'vi) call" where
  "send_invite E c =
     (let c = call_ua_event E UA_EVENT_CALL_LOCAL_SDP (Some ''offer'') [] c
      in case call_sdp_get E c True of
           Inl err \<Rightarrow> (err, c)
         | Inr desc \<Rightarrow>
             let (err, c) = cl_call E (CoSessConnect (cl_peer_uri c) desc (cl_custom_hdrs c)) c
             in if err \<noteq> 0 then (err, c)
                else
                  let c = c\<lparr>cl_sess := True\<rparr>;
                      (err, cid, c) = cl_dup E (cl_id c) (ce_callid E (cl_out c)) c
                  in (err, c\<lparr>cl_id := cid, cl_time_conn := ce_time E (cl_out c)\<rparr>))"

text \<open>
  The results of \<open>call_sdp_get\<close> and of \<open>sipsess_modify\<close> are overwritten.  (When encoding fails,
  the source also releases the description pointer, which was never set.)
\<close>

definition call_modify ::
  "('p, 'm, 'j, 'a, 'au, 'vi) call_env \<Rightarrow> ('p, 'm, 'j, 'a, 'au, 'vi) call
     \<Rightarrow> err \<times> ('p, 'm, 'j, 'a, 'au, 'vi) call" where
  "call_modify E c =
     (let c = (case call_sdp_get E c True of Inl _ \<Rightarrow> c | Inr desc \<Rightarrow> snd (cl_call E (CoSessModify desc) c))
      in update_media E c)"

definition call_connect ::
  "('p, 'm, 'j, 'a, 'au, 'vi) call_env \<Rightarrow> string option \<Rightarrow> ('p, 'm, 'j, 'a, 'au, 'vi) call
     \<Rightarrow> err \<times> ('p, 'm, 'j, 'a, 'au, 'vi) call" where
  "call_connect E paddr c =
     (case paddr of
        None \<Rightarrow> (EINVAL, c)
      | Some pa \<Rightarrow>
          let c = c\<lparr>cl_outgoing := True\<rparr>;
              uri = (case l_addr_decode (ce_libre E) pa of Inr addr \<Rightarrow> sa_auri addr @ sa_params addr | Inl _ \<Rightarrow> pa);
              (err, u, c) = cl_dup E (cl_peer_uri c) (Some uri) c;
              c = c\<lparr>cl_peer_uri := u\<rparr>
          in if err \<noteq> 0 then (err, c)
             else
               let c = set_state c CALL_STATE_OUTGOING
               in if acc_mnat (cl_acc c) = None then send_invite E c else (0, c))"

definition call_set_xrtpstat :: "('p, 'm, 'j, 'a, 'au, 'vi) call \<Rightarrow> ('p, 'm, 'j, 'a, 'au, 'vi) call" where
  "call_set_xrtpstat c = cl_emit CoSessCloseHeaders c"

definition not_close :: "('p, 'm, 'j, 'a, 'au, 'vi) call \<Rightarrow> ('p, 'm, 'j, 'a, 'au, 'vi) call" where
  "not_close c = (if cl_not c then cl_emit CoNotClose (c\<lparr>cl_not := False\<rparr>) else c)"

text \<open>A NOTIFY with the status of the transferred call; a final one ends the subscription.\<close>

definition call_notify_sipfrag ::
  "('p, 'm, 'j, 'a, 'au, 'vi) call_env \<Rightarrow> u16 \<Rightarrow> ('p, 'm, 'j, 'a, 'au, 'vi) call
     \<Rightarrow> err \<times> ('p, 'm, 'j, 'a, 'au, 'vi) call" where
  "call_notify_sipfrag E scode c =
     (if \<not> l_zalloc (ce_libre E) then (ENOMEM, c)
      else if scode \<ge> 200
      then let (err, c) = cl_call E (CoNotify scode True) c
           in (err, not_close c)
      else cl_call E (CoNotify scode False) c)"

definition sess_close :: "('p, 'm, 'j, 'a, 'au, 'vi) call \<Rightarrow> ('p, 'm, 'j, 'a, 'au, 'vi) call" where
  "sess_close c = (if cl_sess c then cl_emit CoSessClose (c\<lparr>cl_sess := False\<rparr>) else c)"

definition call_hangup ::
  "('p, 'm, 'j, 'a, 'au, 'vi) call_env \<Rightarrow> u16 \<Rightarrow> string option \<Rightarrow> ('p, 'm, 'j, 'a, 'au, 'vi) call
     \<Rightarrow> ('p, 'm, 'j, 'a, 'au, 'vi) call" where
  "call_hangup E scode reason c =
     (let c = (if cl_rtp_stats c then call_set_xrtpstat c else c);
          c = (if cl_state c = CALL_STATE_INCOMING
               then let (scode, reason) = (if scode < 400 then (486, Some ''Rejected'') else (scode, reason))
                    in snd (cl_call E (CoSessReject scode reason) c)
               else
                 let c = (if cl_not c then snd (call_notify_sipfrag E 487 c) else c)
                 in sess_close c);
          c = set_state c CALL_STATE_TERMINATED
      in call_stream_stop E c)"

definition call_progress ::
  "('p, 'm, 'j, 'a, 'au, 'vi) call_env \<Rightarrow> ('p, 'm, 'j, 'a, 'au, 'vi) call
     \<Rightarrow> err \<times> ('p, 'm, 'j, 'a, 'au, 'vi) call" where
  "call_progress E c =
     (let c = c\<lparr>cl_tmr_inv := None\<rparr>
      in case call_sdp_get E c False of
           Inl err \<Rightarrow> (err, c)
         | Inr desc \<Rightarrow>
             let (err, c) = cl_call E (CoSessProgress 183 desc) c
             in (0, if err = 0 then call_stream_start E c False else c))"

definition call_answer ::
  "('p, 'm, 'j, 'a, 'au, 'vi) call_env \<Rightarrow> u16 \<Rightarrow> vidmode \<Rightarrow> ('p, 'm, 'j, 'a, 'au, 'vi) call
     \<Rightarrow> err \<times> ('p, 'm, 'j, 'a, 'au, 'vi) call" where
  "call_answer E scode vmode c =
     (if \<not> cl_sess c then (EINVAL, c)
      else if cl_state c \<noteq> CALL_STATE_INCOMING then (0, c)
      else
        let c = (if vmode = VIDMODE_OFF then c\<lparr>cl_video := None\<rparr> else c);
            (err, c) = (if cl_got_offer c then update_media E c else (0, c))
        in if err \<noteq> 0 then (err, c)
           else
             let c = call_ua_event E UA_EVENT_CALL_LOCAL_SDP (Some ''%s'')
                       [FStr (if \<not> cl_got_offer c then ''offer'' else ''answer'')] c
             in case call_sdp_get E c (\<not> cl_got_offer c) of
                  Inl err \<Rightarrow> (err, c)
                | Inr desc \<Rightarrow> cl_call E (CoSessAnswer scode desc) c)"

definition call_has_audio :: "('p, 'm, 'j, 'a, 'au, 'vi) call_env \<Rightarrow> ('p, 'm, 'j, 'a, 'au, 'vi) call \<Rightarrow> bool" where
  "call_has_audio E c = sdp_media_has_media E (map_option st_sdp (audio_strm c))"

definition call_has_video :: "('p, 'm, 'j, 'a, 'au, 'vi) call_env \<Rightarrow> ('p, 'm, 'j, 'a, 'au, 'vi) call \<Rightarrow> bool" where
  "call_has_video E c = sdp_media_has_media E (map_option st_sdp (video_strm c))"

definition call_hold ::
  "('p, 'm, 'j, 'a, 'au, 'vi) call_env \<Rightarrow> bool \<Rightarrow> ('p, 'm, 'j, 'a, 'au, 'vi) call
     \<Rightarrow> err \<times> ('p, 'm, 'j, 'a, 'au, 'vi) call" where
  "call_hold E hold c =
     (if \<not> cl_sess c then (EINVAL, c)
      else if hold = cl_on_hold c then (0, c)
      else
        let c = c\<lparr>cl_on_hold := hold\<rparr>;
            c = foreach_strm (\<lambda>s. stream_hold (ce_strm E) s hold) c
        in call_modify E c)"

definition call_set_video_dir ::
  "('p, 'm, 'j, 'a, 'au, 'vi) call_env \<Rightarrow> sdp_dir \<Rightarrow> ('p, 'm, 'j, 'a, 'au, 'vi) call
     \<Rightarrow> err \<times> ('p, 'm, 'j, 'a, 'au, 'vi) call" where
  "call_set_video_dir E dir c = call_modify E (on_video_strm (\<lambda>s. stream_set_ldir (ce_strm E) s dir) c)"

text \<open>The bits the two directions share.\<close>

fun dir_and :: "sdp_dir \<Rightarrow> sdp_dir \<Rightarrow> sdp_dir" where
  "dir_and a b =
     (if dir_recv a \<and> dir_recv b
      then if dir_send a \<and> dir_send b then SDP_SENDRECV else SDP_RECVONLY
      else if dir_send a \<and> dir_send b then SDP_SENDONLY else SDP_INACTIVE)"

definition call_set_media_direction ::
  "('p, 'm, 'j, 'a, 'au, 'vi) call_env \<Rightarrow> sdp_dir \<Rightarrow> sdp_dir \<Rightarrow> ('p, 'm, 'j, 'a, 'au, 'vi) call
     \<Rightarrow> err \<times> ('p, 'm, 'j, 'a, 'au, 'vi) call" where
  "call_set_media_direction E a v c =
     (let c = on_audio_strm (\<lambda>s. stream_set_ldir (ce_strm E) s a) c
      in (0, if ce_vidisp E then on_video_strm (\<lambda>s. stream_set_ldir (ce_strm E) s v) c
             else on_video_strm (\<lambda>s. stream_set_ldir (ce_strm E) s (dir_and v SDP_SENDONLY)) c))"

definition call_reset_transp ::
  "('p, 'm, 'j, 'a, 'au, 'vi) call_env \<Rightarrow> 'a \<Rightarrow> ('p, 'm, 'j, 'a, 'au, 'vi) call
     \<Rightarrow> err \<times> ('p, 'm, 'j, 'a, 'au, 'vi) call" where
  "call_reset_transp E laddr c = call_modify E (c\<lparr>cl_sdp := ce_sdp_laddr E laddr (cl_sdp c)\<rparr>)"

definition call_send_digit ::
  "('p, 'm, 'j, 'a, 'au, 'vi) call_env \<Rightarrow> char \<Rightarrow> ('p, 'm, 'j, 'a, 'au, 'vi) call
     \<Rightarrow> err \<times> ('p, 'm, 'j, 'a, 'au, 'vi) call" where
  "call_send_digit E key c = call_audio_op E (AuSendDigit key) c"

fun hdrs_copy :: "libre \<Rightarrow> (string \<times> string) list \<Rightarrow> (string \<times> string) list \<Rightarrow> (string \<times> string) list" where
  "hdrs_copy L [] l = l"
| "hdrs_copy L ((name, v) # hdrs) l =
     (if \<not> l_dup L name then l
      else let (err, l) = custom_hdrs_add L l name v in if err \<noteq> 0 then l else hdrs_copy L hdrs l)"

definition call_set_custom_hdrs ::
  "('p, 'm, 'j, 'a, 'au, 'vi) call_env \<Rightarrow> (string \<times> string) list \<Rightarrow> ('p, 'm, 'j, 'a, 'au, 'vi) call
     \<Rightarrow> ('p, 'm, 'j, 'a, 'au, 'vi) call" where
  "call_set_custom_hdrs E hdrs c = c\<lparr>cl_custom_hdrs := hdrs_copy (ce_libre E) hdrs []\<rparr>"

text \<open>A target that is no URI becomes the user part of the local URI.\<close>

definition normalize_uri ::
  "('p, 'm, 'j, 'a, 'au, 'vi) call_env \<Rightarrow> string option \<Rightarrow> uri \<Rightarrow> ('p, 'm, 'j, 'a, 'au, 'vi) call
     \<Rightarrow> err \<times> string option \<times> ('p, 'm, 'j, 'a, 'au, 'vi) call" where
  "normalize_uri E uri luri c =
     (case uri of
        None \<Rightarrow> (EINVAL, None, c)
      | Some u \<Rightarrow>
          (case l_uri_decode (ce_libre E) u of
             Inr _ \<Rightarrow> cl_dup E None (Some u) c
           | Inl _ \<Rightarrow>
               cl_dup E None
                 (Some (l_uri_encode (ce_libre E) (luri\<lparr>u_user := u, u_password := [], u_params := []\<rparr>))) c))"

definition sub_close :: "('p, 'm, 'j, 'a, 'au, 'vi) call \<Rightarrow> ('p, 'm, 'j, 'a, 'au, 'vi) call" where
  "sub_close c = (if cl_sub c then cl_emit CoSubClose (c\<lparr>cl_sub := False\<rparr>) else c)"

definition call_transfer ::
  "('p, 'm, 'j, 'a, 'au, 'vi) call_env \<Rightarrow> string option \<Rightarrow> ('p, 'm, 'j, 'a, 'au, 'vi) call
     \<Rightarrow> err \<times> ('p, 'm, 'j, 'a, 'au, 'vi) call" where
  "call_transfer E uri c =
     (if uri = None then (EINVAL, c)
      else
        let (err, nuri, c) = normalize_uri E uri (acc_luri (cl_acc c)) c
        in if err \<noteq> 0 then (err, c)
           else
             let c = sub_close c;
                 (err, c) = cl_call E (CoRefer (str_of nuri)) c
             in (err, if err \<noteq> 0 then c else c\<lparr>cl_sub := True\<rparr>))"


subsection \<open>Handlers of timers, NAT, encryption and media\<close>

text \<open>The timer of an incoming call fires.\<close>

definition invite_timeout ::
  "('p, 'm, 'j, 'a, 'au, 'vi) call_env \<Rightarrow> ('p, 'm, 'j, 'a, 'au, 'vi) call \<Rightarrow> ('p, 'm, 'j, 'a, 'au, 'vi) call" where
  "invite_timeout E c = call_event_handler E CALL_EVENT_CLOSED (Some ''Local timeout'') [] (c\<lparr>cl_tmr_inv := None\<rparr>)"

definition mnat_handler ::
  "('p, 'm, 'j, 'a, 'au, 'vi) call_env \<Rightarrow> err \<Rightarrow> u16 \<Rightarrow> string \<Rightarrow> ('p, 'm, 'j, 'a, 'au, 'vi) call
     \<Rightarrow> ('p, 'm, 'j, 'a, 'au, 'vi) call" where
  "mnat_handler E err scode reason c =
     (if err \<noteq> 0 then call_event_handler E CALL_EVENT_CLOSED (Some ''%m'') [FErr err] c
      else if scode \<noteq> 0
      then call_event_handler E CALL_EVENT_CLOSED (Some ''%u %s'') [FNum (unat scode), FStr reason] c
      else if \<not> cl_mnat_wait c then snd (call_modify E c)
      else
        let c = c\<lparr>cl_mnat_wait := False\<rparr>
        in if cl_state c = CALL_STATE_OUTGOING then snd (send_invite E c)
           else if cl_state c = CALL_STATE_INCOMING
           then call_event_handler E CALL_EVENT_INCOMING (cl_peer_uri c) [] c
           else c)"

definition audio_event_handler ::
  "char \<Rightarrow> bool \<Rightarrow> ('p, 'm, 'j, 'a, 'au, 'vi) call \<Rightarrow> ('p, 'm, 'j, 'a, 'au, 'vi) call" where
  "audio_event_handler key end c = (if cl_dtmfh c then cl_emit (CoDtmf (if end then KEYCODE_REL else key)) c else c)"

definition audio_level_handler ::
  "('p, 'm, 'j, 'a, 'au, 'vi) call_env \<Rightarrow> bool \<Rightarrow> rat \<Rightarrow> ('p, 'm, 'j, 'a, 'au, 'vi) call
     \<Rightarrow> ('p, 'm, 'j, 'a, 'au, 'vi) call" where
  "audio_level_handler E tx lvl c =
     call_ua_event E (if tx then UA_EVENT_VU_TX else UA_EVENT_VU_RX) (Some ''%.2f'') [FRat lvl] c"

text \<open>The text of a device error is the format of the event.\<close>

definition audio_error_handler ::
  "('p, 'm, 'j, 'a, 'au, 'vi) call_env \<Rightarrow> err \<Rightarrow> string option \<Rightarrow> ('p, 'm, 'j, 'a, 'au, 'vi) call
     \<Rightarrow> ('p, 'm, 'j, 'a, 'au, 'vi) call" where
  "audio_error_handler E err str c =
     (let c = call_ua_event E UA_EVENT_AUDIO_ERROR (Some ''%d,%s'') [FErr err, FStr (str_of str)] c;
          c = call_stream_stop E c
      in call_event_handler E CALL_EVENT_CLOSED str [] c)"

definition video_error_handler ::
  "('p, 'm, 'j, 'a, 'au, 'vi) call_env \<Rightarrow> string option \<Rightarrow> ('p, 'm, 'j, 'a, 'au, 'vi) call
     \<Rightarrow> ('p, 'm, 'j, 'a, 'au, 'vi) call" where
  "video_error_handler E str c = call_event_handler E CALL_EVENT_CLOSED str [] (call_stream_stop E c)"

text \<open>\<open>strstr\<close>: whether one string occurs in another.\<close>

fun strstr :: "string \<Rightarrow> string \<Rightarrow> bool" where
  "strstr [] needle = (needle = [])"
| "strstr (x # xs) needle = (take (length needle) (x # xs) = needle \<or> strstr xs needle)"

fun menc_event_num :: "menc_event \<Rightarrow> nat" where
  "menc_event_num MENC_EVENT_SECURE = 0"
| "menc_event_num MENC_EVENT_VERIFY_REQUEST = 1"
| "menc_event_num MENC_EVENT_PEER_VERIFIED = 2"

definition menc_event_handler ::
  "('p, 'm, 'j, 'a, 'au, 'vi) call_env \<Rightarrow> menc_event \<Rightarrow> string \<Rightarrow> ('p, 'm, 'j, 'a, 'au, 'vi) call
     \<Rightarrow> ('p, 'm, 'j, 'a, 'au, 'vi) call" where
  "menc_event_handler E ev prm c =
     (let secure = (\<lambda>s. snd (stream_start (ce_strm E) (stream_set_secure s True)));
          c = (if ev = MENC_EVENT_SECURE
               then if strstr prm ''audio'' then snd (start_audio E (on_audio_strm secure c))
                    else if strstr prm ''video''
                    then snd (call_video_op E (ViUpdate (cl_peer_uri c)) (on_video_strm secure c))
                    else c
               else c)
      in if prm \<noteq> []
         then call_event_handler E CALL_EVENT_MENC (Some ''%u,%s'') [FNum (menc_event_num ev), FStr prm] c
         else call_event_handler E CALL_EVENT_MENC (Some ''%u'') [FNum (menc_event_num ev)] c)"

definition menc_error_handler ::
  "('p, 'm, 'j, 'a, 'au, 'vi) call_env \<Rightarrow> ('p, 'm, 'j, 'a, 'au, 'vi) call \<Rightarrow> ('p, 'm, 'j, 'a, 'au, 'vi) call" where
  "menc_error_handler E c =
     call_event_handler E CALL_EVENT_CLOSED (Some ''mediaenc failed'') [] (call_stream_stop E c)"

text \<open>The stream of a kind, and an operation on it that may fail.\<close>

definition call_strm :: "('p, 'm, 'j, 'a, 'au, 'vi) call \<Rightarrow> media_type \<Rightarrow> ('m, 'j, 'a) strm option" where
  "call_strm c t = (case t of MEDIA_AUDIO \<Rightarrow> audio_strm c | MEDIA_VIDEO \<Rightarrow> video_strm c)"

definition on_strm ::
  "media_type \<Rightarrow> (('m, 'j, 'a) strm \<Rightarrow> ('m, 'j, 'a) strm) \<Rightarrow> ('p, 'm, 'j, 'a, 'au, 'vi) call
     \<Rightarrow> ('p, 'm, 'j, 'a, 'au, 'vi) call" where
  "on_strm t f c = (case t of MEDIA_AUDIO \<Rightarrow> on_audio_strm f c | MEDIA_VIDEO \<Rightarrow> on_video_strm f c)"

definition stream_mnatconn_handler ::
  "('p, 'm, 'j, 'a, 'au, 'vi) call_env \<Rightarrow> media_type \<Rightarrow> ('p, 'm, 'j, 'a, 'au, 'vi) call
     \<Rightarrow> ('p, 'm, 'j, 'a, 'au, 'vi) call" where
  "stream_mnatconn_handler E t c =
     (case call_strm c t of
        None \<Rightarrow> c
      | Some strm \<Rightarrow>
          if st_mencs strm
          then
            let (err, strm) = stream_start_mediaenc (ce_strm E) strm;
                c = on_strm t (\<lambda>_. strm) c
            in if err \<noteq> 0 then call_event_handler E CALL_EVENT_CLOSED (Some ''mediaenc failed %m'') [FErr err] c
               else c
          else if stream_is_ready (ce_strm E) strm
          then case t of
                 MEDIA_AUDIO \<Rightarrow> snd (start_audio E c)
               | MEDIA_VIDEO \<Rightarrow> snd (call_video_op E (ViUpdate (cl_peer_uri c)) c)
          else c)"

definition stream_rtpestab_handler ::
  "('p, 'm, 'j, 'a, 'au, 'vi) call_env \<Rightarrow> media_type \<Rightarrow> ('p, 'm, 'j, 'a, 'au, 'vi) call
     \<Rightarrow> ('p, 'm, 'j, 'a, 'au, 'vi) call" where
  "stream_rtpestab_handler E t c = call_ua_event E UA_EVENT_CALL_RTPESTAB (Some ''%s'') [FStr (media_name t)] c"

definition RTCP_SR :: u8 where "RTCP_SR = 200"
definition RTCP_APP :: u8 where "RTCP_APP = 204"

definition stream_rtcp_handler ::
  "('p, 'm, 'j, 'a, 'au, 'vi) call_env \<Rightarrow> media_type \<Rightarrow> u8 \<Rightarrow> ('p, 'm, 'j, 'a, 'au, 'vi) call
     \<Rightarrow> ('p, 'm, 'j, 'a, 'au, 'vi) call" where
  "stream_rtcp_handler E t pt c =
     (if pt = RTCP_SR
      then call_ua_event E UA_EVENT_CALL_RTCP (Some ''%s'') [FStr (media_name t)]
             (if cl_rtp_stats c then call_set_xrtpstat c else c)
      else if pt = RTCP_APP
      then call_ua_event E UA_EVENT_CALL_RTCP (Some ''%s'') [FStr (media_name t)] c
      else c)"

definition stream_error_handler ::
  "('p, 'm, 'j, 'a, 'au, 'vi) call_env \<Rightarrow> ('p, 'm, 'j, 'a, 'au, 'vi) call \<Rightarrow> ('p, 'm, 'j, 'a, 'au, 'vi) call" where
  "stream_error_handler E c =
     (let c = c\<lparr>cl_scode := 701\<rparr>;
          c = set_state c CALL_STATE_TERMINATED;
          c = call_stream_stop E c
      in call_event_handler E CALL_EVENT_CLOSED (Some ''rtp stream error'') [] c)"

text \<open>
  A stream calls the handlers of the call.  \<open>strm_call\<close> runs the handler behind one output
  of a stream.
\<close>

fun strm_call ::
  "('p, 'm, 'j, 'a, 'au, 'vi) call_env \<Rightarrow> media_type \<Rightarrow> 'a strm_out \<Rightarrow> ('p, 'm, 'j, 'a, 'au, 'vi) call
     \<Rightarrow> ('p, 'm, 'j, 'a, 'au, 'vi) call" where
  "strm_call E t (CallError err) c = stream_error_handler E c"
| "strm_call E t CallMnatConn c = stream_mnatconn_handler E t c"
| "strm_call E t CallEstab c = stream_rtpestab_handler E t c"
| "strm_call E t _ c = c"

text \<open>An operation \<open>f\<close> of the stream, with the handlers it calls.\<close>

definition strm_event ::
  "('p, 'm, 'j, 'a, 'au, 'vi) call_env \<Rightarrow> media_type \<Rightarrow> (('m, 'j, 'a) strm \<Rightarrow> ('m, 'j, 'a) strm)
     \<Rightarrow> ('p, 'm, 'j, 'a, 'au, 'vi) call \<Rightarrow> ('p, 'm, 'j, 'a, 'au, 'vi) call" where
  "strm_event E t f c =
     (case call_strm c t of
        None \<Rightarrow> c
      | Some s \<Rightarrow>
          fold (strm_call E t) (drop (length (st_out s)) (st_out (f s))) (on_strm t f c))"

subsection \<open>Handlers of the SIP session\<close>

text \<open>An offer in a re-INVITE: the answer, or an error.\<close>

definition sipsess_offer_handler ::
  "('p, 'm, 'j, 'a, 'au, 'vi) call_env \<Rightarrow> sip_msg \<Rightarrow> ('p, 'm, 'j, 'a, 'au, 'vi) call
     \<Rightarrow> (err + u8 list) \<times> ('p, 'm, 'j, 'a, 'au, 'vi) call" where
  "sipsess_offer_handler E msg c =
     (let got_offer = (m_get_left (se_mbuf (ce_strm E)) (sm_mb msg) \<noteq> 0);
          (err, c) = (if got_offer
                      then
                        let (err, c) = call_sdp_decode E True (sm_mb msg) (c\<lparr>cl_got_offer := True\<rparr>)
                        in if err \<noteq> 0 then (err, c) else update_media E c
                      else (0, c))
      in if err \<noteq> 0 then (Inl err, c) else (call_sdp_get E c (\<not> got_offer), c))"

definition sipsess_answer_handler ::
  "('p, 'm, 'j, 'a, 'au, 'vi) call_env \<Rightarrow> sip_msg \<Rightarrow> ('p, 'm, 'j, 'a, 'au, 'vi) call
     \<Rightarrow> err \<times> ('p, 'm, 'j, 'a, 'au, 'vi) call" where
  "sipsess_answer_handler E msg c =
     (let c = c\<lparr>cl_got_offer := False\<rparr>;
          mb = (if l_ctype (ce_libre E) (sm_ctype msg) ''multipart'' ''mixed''
                then snd (ce_sdp_multipart E (sm_ctype_params msg) (sm_mb msg)) else sm_mb msg);
          (err, c) = call_sdp_decode E False mb c
      in if err \<noteq> 0 then (err, c) else update_media E c)"

definition sipsess_estab_handler ::
  "('p, 'm, 'j, 'a, 'au, 'vi) call_env \<Rightarrow> ('p, 'm, 'j, 'a, 'au, 'vi) call \<Rightarrow> ('p, 'm, 'j, 'a, 'au, 'vi) call" where
  "sipsess_estab_handler E c =
     (if cl_state c = CALL_STATE_ESTABLISHED then c
      else
        let c = set_state c CALL_STATE_ESTABLISHED;
            c = call_stream_start E c True;
            c = (if cl_rtp_timeout_ms c \<noteq> 0
                 then foreach_strm (\<lambda>s. stream_enable_rtp_timeout (ce_jiffies E (cl_out c)) s (cl_rtp_timeout_ms c)) c
                 else c);
            c = (if cl_not c then snd (call_notify_sipfrag E 200 c) else c)
        in call_event_handler E CALL_EVENT_ESTABLISHED (cl_peer_uri c) [] c)"

text \<open>
  \<open>src/mctrl.c\<close>.  \<open>pfu\<close> is the flag as the caller declares it, without a value.
\<close>

definition mctrl_handle_media_control :: "libre \<Rightarrow> string \<Rightarrow> bool \<Rightarrow> err \<times> bool" where
  "mctrl_handle_media_control L body pfu =
     (0, if l_regex L body ''picture_fast_update'' \<noteq> None then True else pfu)"

definition text_of :: "u8 list \<Rightarrow> string" where
  "text_of bs = map (\<lambda>b. char_of (unat b)) bs"

definition call_handle_info_req ::
  "('p, 'm, 'j, 'a, 'au, 'vi) call_env \<Rightarrow> bool \<Rightarrow> sip_msg \<Rightarrow> ('p, 'm, 'j, 'a, 'au, 'vi) call
     \<Rightarrow> ('p, 'm, 'j, 'a, 'au, 'vi) call" where
  "call_handle_info_req E pfu0 req c =
     (let (err, pfu) = mctrl_handle_media_control (ce_libre E) (text_of (m_rest (se_mbuf (ce_strm E)) (sm_mb req))) pfu0
      in if err \<noteq> 0 then c
         else if pfu then snd (call_video_op E ViUpdatePicture c) else c)"

definition dtmfend_handler :: "('p, 'm, 'j, 'a, 'au, 'vi) call \<Rightarrow> ('p, 'm, 'j, 'a, 'au, 'vi) call" where
  "dtmfend_handler c =
     (let c = c\<lparr>cl_tmr_dtmf := None\<rparr> in if cl_dtmfh c then cl_emit (CoDtmf KEYCODE_REL) c else c)"

definition toupper_c :: "char \<Rightarrow> char" where
  "toupper_c x = (let n = of_char x :: nat in if 97 \<le> n \<and> n \<le> 122 then char_of (n - 32) else x)"

definition sipsess_info_handler ::
  "('p, 'm, 'j, 'a, 'au, 'vi) call_env \<Rightarrow> bool \<Rightarrow> sip_msg \<Rightarrow> ('p, 'm, 'j, 'a, 'au, 'vi) call
     \<Rightarrow> ('p, 'm, 'j, 'a, 'au, 'vi) call" where
  "sipsess_info_handler E pfu0 msg c =
     (let L = ce_libre E; body = text_of (m_rest (se_mbuf (ce_strm E)) (sm_mb msg))
      in if l_ctype L (sm_ctype msg) ''application'' ''dtmf-relay''
         then
           case (l_regex L body ''Signal=[0-9*#a-d]+'', l_regex L body ''Duration=[0-9]+'') of
             (Some [s # _], Some [dur]) \<Rightarrow>
               let c = snd (cl_call E (CoSipReply 200 ''OK'') c)
               in if cl_dtmfh c
                  then cl_emit (CoDtmf (toupper_c s)) (c\<lparr>cl_tmr_dtmf := Some (l_u32 L dur)\<rparr>)
                  else c
           | _ \<Rightarrow> snd (cl_call E (CoSipReply 400 ''Bad Request'') c)
         else if l_ctype L (sm_ctype msg) ''application'' ''media_control+xml''
         then snd (cl_call E (CoSipReply 200 ''OK'') (call_handle_info_req E pfu0 msg c))
         else snd (cl_call E (CoSipReply 488 ''Not Acceptable Here'') c))"

definition sipnot_close_handler ::
  "('p, 'm, 'j, 'a, 'au, 'vi) call_env \<Rightarrow> err \<Rightarrow> sip_msg option \<Rightarrow> ('p, 'm, 'j, 'a, 'au, 'vi) call
     \<Rightarrow> ('p, 'm, 'j, 'a, 'au, 'vi) call" where
  "sipnot_close_handler E err msg c =
     (let c = not_close c
      in if err \<noteq> 0 then call_event_handler E CALL_EVENT_TRANSFER_FAILED (Some ''%m'') [FErr err] c
         else case msg of
                None \<Rightarrow> c
              | Some m \<Rightarrow>
                  if sm_scode m \<ge> 300
                  then call_event_handler E CALL_EVENT_TRANSFER_FAILED (Some ''%u %r'')
                         [FNum (unat (sm_scode m)), FStr (sm_reason m)] c
                  else c)"

definition sipsess_refer_handler ::
  "('p, 'm, 'j, 'a, 'au, 'vi) call_env \<Rightarrow> sip_msg \<Rightarrow> ('p, 'm, 'j, 'a, 'au, 'vi) call
     \<Rightarrow> ('p, 'm, 'j, 'a, 'au, 'vi) call" where
  "sipsess_refer_handler E msg c =
     (case sip_msg_hdr msg SIP_HDR_REFER_TO of
        None \<Rightarrow> snd (cl_call E (CoSipReply 400 ''Missing Refer-To header'') c)
      | Some hdr \<Rightarrow>
          let (err, c) = cl_call E (CoNotAccept 202) (not_close c)
          in if err \<noteq> 0 then c
             else
               let c = snd (call_notify_sipfrag E 100 (c\<lparr>cl_not := True\<rparr>))
               in call_event_handler E CALL_EVENT_TRANSFER (Some ''%r'') [FStr hdr] c)"

text \<open>The reason is cut to the buffer of 128 bytes, and is the format of the event.\<close>

definition sipsess_close_handler ::
  "('p, 'm, 'j, 'a, 'au, 'vi) call_env \<Rightarrow> err \<Rightarrow> sip_msg option \<Rightarrow> ('p, 'm, 'j, 'a, 'au, 'vi) call
     \<Rightarrow> ('p, 'm, 'j, 'a, 'au, 'vi) call" where
  "sipsess_close_handler E err msg c =
     (let (reason, c) =
        (if err \<noteq> 0
         then (l_snprintf (ce_libre E) 128 (Some ''%m'') [FErr err],
               if cl_not c then snd (call_notify_sipfrag E 500 c) else c)
         else case msg of
                Some m \<Rightarrow>
                  let c = c\<lparr>cl_scode := sm_scode m\<rparr>
                  in (l_snprintf (ce_libre E) 128 (Some ''%u %r'') [FNum (unat (sm_scode m)), FStr (sm_reason m)],
                      if cl_not c then snd (call_notify_sipfrag E (sm_scode m) c) else c)
              | None \<Rightarrow> (Some [], c))
      in call_event_handler E CALL_EVENT_CLOSED reason [] (call_stream_stop E c))"

definition sipsess_progr_handler ::
  "('p, 'm, 'j, 'a, 'au, 'vi) call_env \<Rightarrow> sip_msg \<Rightarrow> ('p, 'm, 'j, 'a, 'au, 'vi) call
     \<Rightarrow> ('p, 'm, 'j, 'a, 'au, 'vi) call" where
  "sipsess_progr_handler E msg c =
     (if sm_scode msg \<le> 100 then c
      else
        let L = ce_libre E;
            (media, c) =
              (let (ok, c) =
                 (if l_ctype L (sm_ctype msg) ''application'' ''sdp'' \<and> m_get_left (se_mbuf (ce_strm E)) (sm_mb msg) \<noteq> 0
                  then let (err, c) = call_sdp_decode E False (sm_mb msg) c in (err = 0, c)
                  else (False, c))
               in if ok then (True, c)
                  else if l_ctype L (sm_ctype msg) ''multipart'' ''mixed''
                  then
                    let (err, mb) = ce_sdp_multipart E (sm_ctype_params msg) (sm_mb msg)
                    in if err \<noteq> 0 then (False, c)
                       else let (err, c) = call_sdp_decode E False mb c in (err = 0, c)
                  else (False, c));
            c = (if sm_scode msg = 180 then set_state c CALL_STATE_RINGING
                 else if sm_scode msg = 183 then set_state c CALL_STATE_EARLY
                 else c);
            c = call_stream_stop E c;
            c = (if media then call_stream_start E c False else c);
            c = call_event_handler E (if media then CALL_EVENT_PROGRESS else CALL_EVENT_RINGING) (cl_peer_uri c) [] c
        in if media then snd (update_media E c) else c)"

definition sipsub_notify_handler ::
  "('p, 'm, 'j, 'a, 'au, 'vi) call_env \<Rightarrow> sip_msg \<Rightarrow> ('p, 'm, 'j, 'a, 'au, 'vi) call
     \<Rightarrow> ('p, 'm, 'j, 'a, 'au, 'vi) call" where
  "sipsub_notify_handler E msg c =
     (let L = ce_libre E; body = text_of (m_rest (se_mbuf (ce_strm E)) (sm_mb msg))
      in case l_regex L body (''SIP/2.0 [0-9]+ [^'' @ [CHR 0x0d, CHR 0x0a] @ '']+'') of
           Some [scode, reason] \<Rightarrow>
             let c = snd (cl_call E (CoSipReply 200 ''OK'') c); sc = l_u32 L scode
             in if sc \<ge> 300
                then call_event_handler E CALL_EVENT_TRANSFER_FAILED (Some ''%u %r'') [FNum (unat sc), FStr reason] c
                else if sc \<ge> 200
                then call_event_handler E CALL_EVENT_CLOSED (Some ''Call transfered'') [] c
                else c
         | _ \<Rightarrow> snd (cl_call E (CoSipReply 400 ''Bad sipfrag'') c))"

definition sipsub_close_handler ::
  "('p, 'm, 'j, 'a, 'au, 'vi) call_env \<Rightarrow> err \<Rightarrow> sip_msg option \<Rightarrow> ('p, 'm, 'j, 'a, 'au, 'vi) call
     \<Rightarrow> ('p, 'm, 'j, 'a, 'au, 'vi) call" where
  "sipsub_close_handler E err msg c =
     (let c = sub_close c
      in if err \<noteq> 0 then c
         else case msg of
                None \<Rightarrow> c
              | Some m \<Rightarrow>
                  if sm_scode m \<ge> 300
                  then call_event_handler E CALL_EVENT_TRANSFER_FAILED (Some ''%u %r'')
                         [FNum (unat (sm_scode m)), FStr (sm_reason m)] c
                  else c)"


subsection \<open>Incoming calls\<close>

definition have_common_audio_codecs ::
  "('p, 'm, 'j, 'a, 'au, 'vi) call_env \<Rightarrow> ('p, 'm, 'j, 'a, 'au, 'vi) call \<Rightarrow> bool" where
  "have_common_audio_codecs E c =
     (case sdp_media_rcodec E (map_option st_sdp (audio_strm c)) of None \<Rightarrow> False | Some sc \<Rightarrow> sf_data sc \<noteq> None)"

text \<open>The last part: the session is accepted with 180.\<close>

definition call_accept_sess ::
  "('p, 'm, 'j, 'a, 'au, 'vi) call_env \<Rightarrow> ('p, 'm, 'j, 'a, 'au, 'vi) call
     \<Rightarrow> err \<times> ('p, 'm, 'j, 'a, 'au, 'vi) call" where
  "call_accept_sess E c =
     (let (err, c) = cl_call E (CoSessAccept 180) c
      in if err \<noteq> 0 then (err, c)
         else
           let c = c\<lparr>cl_sess := True\<rparr>;
               (err, cid, c) = cl_dup E (cl_id c) (ce_callid E (cl_out c)) c;
               c = c\<lparr>cl_id := cid\<rparr>
           in if err \<noteq> 0 then (err, c)
              else
                let c = set_state c CALL_STATE_INCOMING;
                    c = (if cl_local_timeout c \<noteq> 0 then c\<lparr>cl_tmr_inv := Some (cl_local_timeout c * 1000)\<rparr> else c)
                in (0, if acc_mnat (cl_acc c) = None
                       then call_event_handler E CALL_EVENT_INCOMING (cl_peer_uri c) [] c else c))"

definition call_accept ::
  "('p, 'm, 'j, 'a, 'au, 'vi) call_env \<Rightarrow> sip_msg option \<Rightarrow> ('p, 'm, 'j, 'a, 'au, 'vi) call
     \<Rightarrow> err \<times> ('p, 'm, 'j, 'a, 'au, 'vi) call" where
  "call_accept E msg c =
     (case msg of
        None \<Rightarrow> (EINVAL, c)
      | Some msg \<Rightarrow>
          let c = c\<lparr>cl_outgoing := False\<rparr>;
              got_offer = (m_get_left (se_mbuf (ce_strm E)) (sm_mb msg) > 0);
              (err, u, c) = cl_dup E (cl_peer_uri c) (Some (sm_from_auri msg)) c;
              c = c\<lparr>cl_peer_uri := u\<rparr>
          in if err \<noteq> 0 then (err, c)
             else
               let (err, n, c) = (if sm_from_dname msg \<noteq> []
                                  then cl_dup E (cl_peer_name c) (Some (sm_from_dname msg)) c
                                  else (0, cl_peer_name c, c));
                   c = c\<lparr>cl_peer_name := n\<rparr>
               in if err \<noteq> 0 then (err, c)
                  else if \<not> got_offer then call_accept_sess E c
                  else
                    let (err, c) = call_sdp_decode E True (sm_mb msg) c
                    in if err \<noteq> 0 then (err, c)
                       else
                         let c = c\<lparr>cl_got_offer := True\<rparr>
                         in if map_option (\<lambda>s. ce_af E (se_raddr (ce_strm E) (st_sdp s))) (audio_strm c) \<noteq> Some (cl_af c)
                            then (0, call_event_handler E CALL_EVENT_CLOSED (Some ''Wrong address family'') []
                                       (snd (cl_call E (CoSipTreply 488 ''Not Acceptable Here'') c)))
                            else if \<not> have_common_audio_codecs E c
                            then (0, call_event_handler E CALL_EVENT_CLOSED (Some ''No audio codecs'') []
                                       (snd (cl_call E (CoSipTreply 488 ''Not Acceptable Here'') c)))
                            else call_accept_sess E c)"

subsection \<open>Allocation\<close>

definition CALL_LINENUM_MIN :: nat where "CALL_LINENUM_MIN = 1"
definition CALL_LINENUM_MAX :: nat where "CALL_LINENUM_MAX = 256"

definition call_find_linenum ::
  "('p, 'm, 'j, 'a, 'au, 'vi) call list \<Rightarrow> u32 \<Rightarrow> ('p, 'm, 'j, 'a, 'au, 'vi) call option" where
  "call_find_linenum calls linenum = List.find (\<lambda>call. linenum = cl_linenum call) calls"

text \<open>\<open>str_cmp\<close> is 0 for equal strings; a NULL string is equal to nothing.\<close>

definition call_find_id ::
  "('p, 'm, 'j, 'a, 'au, 'vi) call list \<Rightarrow> string option \<Rightarrow> ('p, 'm, 'j, 'a, 'au, 'vi) call option" where
  "call_find_id calls cid = List.find (\<lambda>call. cid \<noteq> None \<and> cid = cl_id call) calls"

definition assign_linenum :: "('p, 'm, 'j, 'a, 'au, 'vi) call list \<Rightarrow> u32 option" where
  "assign_linenum lst =
     map_option of_nat
       (List.find (\<lambda>num. call_find_linenum lst (of_nat num) = None) [CALL_LINENUM_MIN..<CALL_LINENUM_MAX])"

record call_prm =
  cp_vidmode :: vidmode
  cp_af :: int
  cp_use_rtp :: bool

record call_config =
  cc_rtp_stats :: bool
  cc_rtp_timeout :: u32
  cc_local_timeout :: u32
  cc_max_calls :: u32

text \<open>
  \<open>sdp0\<close> is the new SDP session; \<open>au_alloc\<close> and \<open>vi_alloc\<close> are \<open>audio_alloc\<close> and
  \<open>video_alloc\<close>, whose arguments are the call so far and whether it makes the offer.
\<close>

definition call_new ::
  "account \<Rightarrow> call_config \<Rightarrow> call_prm \<Rightarrow> bool \<Rightarrow> 'p \<Rightarrow> ('p, 'm, 'j, 'a, 'au, 'vi) call" where
  "call_new acc cfg prm eh sdp0 =
     \<lparr>cl_acc = acc, cl_sess = False, cl_sdp = sdp0, cl_sub = False, cl_not = False, cl_audio = None,
      cl_video = None, cl_state = CALL_STATE_IDLE, cl_local_uri = None, cl_local_name = None,
      cl_peer_uri = None, cl_peer_name = None, cl_id = None, cl_tmr_inv = None, cl_tmr_dtmf = None,
      cl_time_start = 0, cl_time_conn = 0, cl_time_stop = 0, cl_outgoing = False, cl_got_offer = False,
      cl_on_hold = False, cl_mnats = False, cl_mnat_wait = False, cl_mencs = False, cl_af = cp_af prm,
      cl_scode = 0, cl_eh = eh, cl_dtmfh = False, cl_rtp_stats = cc_rtp_stats cfg,
      cl_local_timeout = cc_local_timeout cfg, cl_rtp_timeout_ms = 0, cl_linenum = 0,
      cl_custom_hdrs = [], cl_out = []\<rparr>"

definition call_enable_rtp_timeout ::
  "('p, 'm, 'j, 'a, 'au, 'vi) call \<Rightarrow> u32 \<Rightarrow> ('p, 'm, 'j, 'a, 'au, 'vi) call" where
  "call_enable_rtp_timeout c timeout_ms = c\<lparr>cl_rtp_timeout_ms := timeout_ms\<rparr>"

text \<open>The NAT and encryption sessions.\<close>

definition call_alloc_methods ::
  "('p, 'm, 'j, 'a, 'au, 'vi) call_env \<Rightarrow> bool \<Rightarrow> ('p, 'm, 'j, 'a, 'au, 'vi) call
     \<Rightarrow> err \<times> ('p, 'm, 'j, 'a, 'au, 'vi) call" where
  "call_alloc_methods E got_offer c =
     (let (err, c) = (if acc_mnat (cl_acc c) \<noteq> None
                      then let (err, c) = cl_call E (CoMnatSess (\<not> got_offer)) c
                           in (err, c\<lparr>cl_mnats := (err = 0)\<rparr>)
                      else (0, c))
      in if err \<noteq> 0 then (err, c)
         else
           let c = c\<lparr>cl_mnat_wait := True\<rparr>
           in if (case acc_menc (cl_acc c) of None \<Rightarrow> False | Some m \<Rightarrow> me_sessh m)
              then let (err, c) = cl_call E (CoMencSess (\<not> got_offer)) c
                   in (err, c\<lparr>cl_mencs := (err = 0)\<rparr>)
              else (0, c))"

text \<open>The streams, their handlers, the timeout and the line number.\<close>

definition call_alloc_media ::
  "('p, 'm, 'j, 'a, 'au, 'vi) call_env \<Rightarrow>
   (('p, 'm, 'j, 'a, 'au, 'vi) call \<Rightarrow> bool \<Rightarrow> err + ('au \<times> ('m, 'j, 'a) strm)) \<Rightarrow>
   (('p, 'm, 'j, 'a, 'au, 'vi) call \<Rightarrow> bool \<Rightarrow> err + ('vi \<times> ('m, 'j, 'a) strm)) \<Rightarrow>
   call_config \<Rightarrow> ('p, 'm, 'j, 'a, 'au, 'vi) call list \<Rightarrow> call_prm \<Rightarrow> bool \<Rightarrow>
   ('p, 'm, 'j, 'a, 'au, 'vi) call option \<Rightarrow> ('p, 'm, 'j, 'a, 'au, 'vi) call
     \<Rightarrow> err \<times> ('p, 'm, 'j, 'a, 'au, 'vi) call" where
  "call_alloc_media E au_alloc vi_alloc cfg lst prm got_offer xcall c =
     (case au_alloc c (\<not> got_offer) of
        Inl err \<Rightarrow> (err, c)
      | Inr au \<Rightarrow>
          let c = c\<lparr>cl_audio := Some au\<rparr>;
              use_video = (cp_vidmode prm \<noteq> VIDMODE_OFF \<and> account_vidcodecl (ce_regs E) (Some (cl_acc c)) \<noteq> [] \<and>
                           (ce_vidsrc E \<or> ce_vidisp E));
              (err, c) = (if use_video
                          then case vi_alloc c (\<not> got_offer) of
                                 Inl err \<Rightarrow> (err, c) | Inr vi \<Rightarrow> (0, c\<lparr>cl_video := Some vi\<rparr>)
                          else (0, c))
          in if err \<noteq> 0 then (err, c)
             else
               let c = (case xcall of None \<Rightarrow> c | Some x \<Rightarrow> c\<lparr>cl_not := cl_not x\<rparr>);
                   c = foreach_strm (\<lambda>s. stream_set_session_handlers s True True True True) c;
                   c = (if cc_rtp_timeout cfg \<noteq> 0 then call_enable_rtp_timeout c (cc_rtp_timeout cfg * 1000) else c)
               in (case assign_linenum lst of
                     None \<Rightarrow> (ENOENT, c)
                   | Some num \<Rightarrow> (0, c\<lparr>cl_linenum := num\<rparr>)))"

definition call_alloc ::
  "('p, 'm, 'j, 'a, 'au, 'vi) call_env \<Rightarrow>
   (('p, 'm, 'j, 'a, 'au, 'vi) call \<Rightarrow> bool \<Rightarrow> err + ('au \<times> ('m, 'j, 'a) strm)) \<Rightarrow>
   (('p, 'm, 'j, 'a, 'au, 'vi) call \<Rightarrow> bool \<Rightarrow> err + ('vi \<times> ('m, 'j, 'a) strm)) \<Rightarrow>
   call_config \<Rightarrow> 'p \<Rightarrow> ('p, 'm, 'j, 'a, 'au, 'vi) call list \<Rightarrow> string option \<Rightarrow> string option \<Rightarrow>
   account option \<Rightarrow> call_prm option \<Rightarrow> sip_msg option \<Rightarrow> ('p, 'm, 'j, 'a, 'au, 'vi) call option \<Rightarrow> bool
     \<Rightarrow> err \<times> ('p, 'm, 'j, 'a, 'au, 'vi) call option \<times> ('p, 'm, 'j, 'a, 'au, 'vi) call list" where
  "call_alloc E au_alloc vi_alloc cfg sdp0 lst local_name local_uri acc prm msg xcall eh =
     (case (acc, prm) of
        (Some a, Some p) \<Rightarrow>
          if local_uri = None then (EINVAL, None, lst)
          else if \<not> l_zalloc (ce_libre E) then (ENOMEM, None, lst)
          else
            let c = call_new a cfg p eh sdp0;
                (e1, u, c) = cl_dup E None local_uri c; c = c\<lparr>cl_local_uri := u\<rparr>;
                (e2, n, c) = (if local_name \<noteq> None then cl_dup E None local_name c else (0, None, c));
                c = c\<lparr>cl_local_name := n\<rparr>
            in if e1 OR e2 \<noteq> 0 then (e1 OR e2, None, lst)
               else
                 let (err, c) = cl_call E CoSdpSession c
                 in if err \<noteq> 0 then (err, None, lst)
                    else
                      let (err, c) = cl_call E CoSdpAttr c
                      in if err \<noteq> 0 then (err, None, lst)
                         else
                           let got_offer = (case msg of None \<Rightarrow> False
                                            | Some m \<Rightarrow> m_get_left (se_mbuf (ce_strm E)) (sm_mb m) \<noteq> 0);
                               (err, c) = call_alloc_methods E got_offer c
                           in if err \<noteq> 0 then (err, None, lst)
                              else
                                let (err, c) = call_alloc_media E au_alloc vi_alloc cfg lst p got_offer xcall c
                                in if err \<noteq> 0 then (err, None, lst) else (0, Some c, lst @ [c])
      | _ \<Rightarrow> (EINVAL, None, lst))"

subsection \<open>Reading the state\<close>

definition call_duration :: "('p, 'm, 'j, 'a, 'au, 'vi) call_env \<Rightarrow> ('p, 'm, 'j, 'a, 'au, 'vi) call option \<Rightarrow> u32" where
  "call_duration E call =
     (case call of None \<Rightarrow> 0
      | Some c \<Rightarrow> if cl_time_start c = 0 then 0 else word_of_int (ce_time E (cl_out c) - cl_time_start c))"

definition call_setup_duration :: "('p, 'm, 'j, 'a, 'au, 'vi) call option \<Rightarrow> u32" where
  "call_setup_duration call =
     (case call of None \<Rightarrow> 0
      | Some c \<Rightarrow> if cl_time_conn c \<le> 0 then 0 else word_of_int (cl_time_start c - cl_time_conn c))"

definition cl_get :: "'v \<Rightarrow> (('p, 'm, 'j, 'a, 'au, 'vi) call \<Rightarrow> 'v) \<Rightarrow> ('p, 'm, 'j, 'a, 'au, 'vi) call option \<Rightarrow> 'v" where
  "cl_get d f call = (case call of None \<Rightarrow> d | Some c \<Rightarrow> f c)"

definition call_id :: "('p, 'm, 'j, 'a, 'au, 'vi) call option \<Rightarrow> string option" where
  "call_id = cl_get None cl_id"
definition call_peeruri :: "('p, 'm, 'j, 'a, 'au, 'vi) call option \<Rightarrow> string option" where
  "call_peeruri = cl_get None cl_peer_uri"
definition call_localuri :: "('p, 'm, 'j, 'a, 'au, 'vi) call option \<Rightarrow> string option" where
  "call_localuri = cl_get None cl_local_uri"
definition call_peername :: "('p, 'm, 'j, 'a, 'au, 'vi) call option \<Rightarrow> string option" where
  "call_peername = cl_get None cl_peer_name"
definition call_get_custom_hdrs :: "('p, 'm, 'j, 'a, 'au, 'vi) call option \<Rightarrow> (string \<times> string) list" where
  "call_get_custom_hdrs = cl_get [] cl_custom_hdrs"
definition call_account :: "('p, 'm, 'j, 'a, 'au, 'vi) call option \<Rightarrow> account option" where
  "call_account = cl_get None (\<lambda>c. Some (cl_acc c))"
definition call_af :: "('p, 'm, 'j, 'a, 'au, 'vi) call option \<Rightarrow> int" where
  "call_af = cl_get 0 cl_af"
definition call_scode :: "('p, 'm, 'j, 'a, 'au, 'vi) call option \<Rightarrow> u16" where
  "call_scode = cl_get 0 cl_scode"
definition call_state_of :: "('p, 'm, 'j, 'a, 'au, 'vi) call option \<Rightarrow> call_state" where
  "call_state_of = cl_get CALL_STATE_UNKNOWN cl_state"
definition call_is_onhold :: "('p, 'm, 'j, 'a, 'au, 'vi) call option \<Rightarrow> bool" where
  "call_is_onhold = cl_get False cl_on_hold"
definition call_is_outgoing :: "('p, 'm, 'j, 'a, 'au, 'vi) call option \<Rightarrow> bool" where
  "call_is_outgoing = cl_get False cl_outgoing"
definition call_linenum :: "('p, 'm, 'j, 'a, 'au, 'vi) call option \<Rightarrow> u32" where
  "call_linenum = cl_get 0 cl_linenum"

definition call_set_handlers ::
  "('p, 'm, 'j, 'a, 'au, 'vi) call \<Rightarrow> bool \<Rightarrow> bool \<Rightarrow> ('p, 'm, 'j, 'a, 'au, 'vi) call" where
  "call_set_handlers c eh dtmfh =
     (let c = (if eh then c\<lparr>cl_eh := True\<rparr> else c) in if dtmfh then c\<lparr>cl_dtmfh := True\<rparr> else c)"

text \<open>Hours, minutes and seconds of the duration.\<close>

definition print_duration ::
  "('p, 'm, 'j, 'a, 'au, 'vi) call_env \<Rightarrow> 'w printer \<Rightarrow> ('p, 'm, 'j, 'a, 'au, 'vi) call option \<Rightarrow> 'w \<Rightarrow> err \<times> 'w" where
  "print_duration E pr call w =
     (let dur = unat (call_duration E call)
      in pr ''%u:%02u:%02u'' [FNum (dur div 60 div 60), FNum (dur div 60 mod 60), FNum (dur mod 60 mod 60)] w)"

definition call_info ::
  "('p, 'm, 'j, 'a, 'au, 'vi) call_env \<Rightarrow> 'w printer \<Rightarrow> ('p, 'm, 'j, 'a, 'au, 'vi) call option \<Rightarrow> 'w \<Rightarrow> err \<times> 'w" where
  "call_info E pr call w =
     (case call of None \<Rightarrow> (0, w)
      | Some c \<Rightarrow>
          let (e1, w) = pr ''[line %u]  '' [FNum (unat (cl_linenum c))] w;
              (e2, w) = print_duration E pr call w;
              (e3, w) = pr ''  %9s  %s  %s'' [FStr (state_name (cl_state c)),
                          FStr (if cl_on_hold c then ''(on hold)'' else ''         ''),
                          FStr (str_of (cl_peer_uri c))] w
          in (e1 OR e2 OR e3, w))"

definition call_debug ::
  "('p \<Rightarrow> 'w \<Rightarrow> err \<times> 'w) \<Rightarrow> (int \<Rightarrow> string) \<Rightarrow> 'w printer \<Rightarrow> ('p, 'm, 'j, 'a, 'au, 'vi) call option \<Rightarrow> 'w \<Rightarrow> err \<times> 'w" where
  "call_debug sdp_debug af2name pr call w =
     (case call of None \<Rightarrow> (0, w)
      | Some c \<Rightarrow>
          let nl = [CHR 0x0a];
              (e1, w) = print_all pr
                [(''===== Call debug (%s) ====='' @ nl, [FStr (state_name (cl_state c))]),
                 ('' local_uri: %s <%s>'' @ nl @ '' peer_uri:  %s <%s>'' @ nl @ '' af=%s id=%s'' @ nl,
                  [FStr (str_of (cl_local_name c)), FStr (str_of (cl_local_uri c)), FStr (str_of (cl_peer_name c)),
                   FStr (str_of (cl_peer_uri c)), FStr (af2name (cl_af c)), FStr (str_of (cl_id c))]),
                 ('' direction: %s'' @ nl, [FStr (if cl_outgoing c then ''Outgoing'' else ''Incoming'')])] 0 w;
              (e2, w) = sdp_debug (cl_sdp c) w
          in (e1 OR e2, w))"

text \<open>\<open>sprint\<close>, \<open>vprint\<close> and \<open>jstat\<close> print a stream, the video object and a jitter buffer.\<close>

definition strms :: "('p, 'm, 'j, 'a, 'au, 'vi) call \<Rightarrow> ('m, 'j, 'a) strm list" where
  "strms c = (case audio_strm c of None \<Rightarrow> [] | Some s \<Rightarrow> [s]) @ (case video_strm c of None \<Rightarrow> [] | Some s \<Rightarrow> [s])"

fun or_all :: "('x \<Rightarrow> 'w \<Rightarrow> err \<times> 'w) \<Rightarrow> 'x list \<Rightarrow> err \<Rightarrow> 'w \<Rightarrow> err \<times> 'w" where
  "or_all f [] err w = (err, w)"
| "or_all f (x # xs) err w = (let (e, w) = f x w in or_all f xs (err OR e) w)"

definition call_status ::
  "('p, 'm, 'j, 'a, 'au, 'vi) call_env \<Rightarrow> (('m, 'j, 'a) strm \<Rightarrow> 'w \<Rightarrow> err \<times> 'w) \<Rightarrow> ('vi \<Rightarrow> 'w \<Rightarrow> err \<times> 'w) \<Rightarrow> 'w printer \<Rightarrow>
   ('p, 'm, 'j, 'a, 'au, 'vi) call option \<Rightarrow> 'w \<Rightarrow> err \<times> 'w" where
  "call_status E sprint vprint pr call w =
     (case call of None \<Rightarrow> (EINVAL, w)
      | Some c \<Rightarrow>
          if cl_state c \<noteq> CALL_STATE_EARLY \<and> cl_state c \<noteq> CALL_STATE_ESTABLISHED then (0, w)
          else
            let (e1, w) = pr ([CHR 0x0d] @ ''['') [] w;
                (e2, w) = print_duration E pr call w;
                (e3, w) = pr '']'' [] w;
                (e4, w) = or_all sprint (strms c) 0 w;
                (e5, w) = pr '' (bit/s)'' [] w;
                (e6, w) = (case cl_video c of None \<Rightarrow> (0, w) | Some v \<Rightarrow> vprint (fst v) w);
                (e7, w) = pr ''    '' [] w
            in (e1 OR e2 OR e3 OR e4 OR e5 OR e6 OR e7, w))"

definition call_jbuf_stat ::
  "(('m, 'j, 'a) strm \<Rightarrow> 'w \<Rightarrow> err \<times> 'w) \<Rightarrow> ('p, 'm, 'j, 'a, 'au, 'vi) call option \<Rightarrow> 'w \<Rightarrow> err \<times> 'w" where
  "call_jbuf_stat jstat call w = (case call of None \<Rightarrow> (EINVAL, w) | Some c \<Rightarrow> or_all jstat (strms c) 0 w)"


subsection \<open>What the steps leave alone\<close>

text \<open>
  An owner may release the call when it is told that a call came in (it may be blocked), was
  closed, or could not be transferred.
\<close>

fun fatal :: "call_out \<Rightarrow> bool" where
  "fatal (CoEvent ev t) = (ev \<in> {CALL_EVENT_INCOMING, CALL_EVENT_CLOSED, CALL_EVENT_TRANSFER_FAILED})"
| "fatal _ = False"

text \<open>
  From \<open>c\<close> to \<open>c'\<close> no such event was sent, the hold state stayed, and the timer of the
  incoming call was at most stopped.
\<close>

definition calm :: "('p, 'm, 'j, 'a, 'au, 'vi) call \<Rightarrow> ('p, 'm, 'j, 'a, 'au, 'vi) call \<Rightarrow> bool" where
  "calm c c' =
     ((\<exists>xs. cl_out c' = cl_out c @ xs \<and> (\<forall>x\<in>set xs. \<not> fatal x)) \<and>
      cl_on_hold c' = cl_on_hold c \<and> cl_eh c' = cl_eh c \<and>
      map_option st_hold (audio_strm c') = map_option st_hold (audio_strm c) \<and>
      map_option st_hold (video_strm c') = map_option st_hold (video_strm c) \<and>
      (cl_tmr_inv c' = cl_tmr_inv c \<or> cl_tmr_inv c' = None))"

text \<open>The operations of the media objects do not change whether a stream is on hold.\<close>

definition media_laws :: "('p, 'm, 'j, 'a, 'au, 'vi) call_env \<Rightarrow> bool" where
  "media_laws E =
     ((\<forall>op a s. st_hold (snd (snd (ce_audio E op (a, s)))) = st_hold s) \<and>
      (\<forall>op v s. st_hold (snd (snd (ce_video E op (v, s)))) = st_hold s))"

named_theorems calms \<open>operations that are calm\<close>

lemma calm_refl [calms]: "calm c c"
  by (auto simp: calm_def)

lemma calm_trans: "calm c c' \<Longrightarrow> calm c' c'' \<Longrightarrow> calm c c''"
  unfolding calm_def by auto

lemma calm_emit [calms]: "calm c c' \<Longrightarrow> \<not> fatal x \<Longrightarrow> calm c (cl_emit x c')"
  unfolding calm_def cl_emit_def audio_strm_def video_strm_def by auto

lemma calm_call [calms]: "calm c c' \<Longrightarrow> \<not> fatal x \<Longrightarrow> calm c (snd (cl_call E x c'))"
  by (simp add: cl_call_def calm_emit)

lemma calm_dup [calms]: "calm c c' \<Longrightarrow> calm c (snd (snd (cl_dup E old s c')))"
  by (auto simp: cl_dup_def case_prod_beta split: option.split intro: calms)

lemma calm_ua_event [calms]: "calm c c' \<Longrightarrow> calm c (call_ua_event E ev fmt args c')"
  by (simp add: call_ua_event_def calm_emit)

lemma calm_event [calms]:
  "calm c c' \<Longrightarrow> \<not> fatal (CoEvent ev None) \<Longrightarrow> calm c (call_event_handler E ev fmt args c')"
  by (auto simp: call_event_handler_def intro!: calm_emit)

lemma calm_fields [calms]:
  "calm c c' \<Longrightarrow> calm c (c'\<lparr>cl_sdp := v1\<rparr>)" "calm c c' \<Longrightarrow> calm c (c'\<lparr>cl_sess := b\<rparr>)"
  "calm c c' \<Longrightarrow> calm c (c'\<lparr>cl_id := o1\<rparr>)" "calm c c' \<Longrightarrow> calm c (c'\<lparr>cl_sub := b\<rparr>)"
  "calm c c' \<Longrightarrow> calm c (c'\<lparr>cl_not := b\<rparr>)" "calm c c' \<Longrightarrow> calm c (c'\<lparr>cl_peer_uri := o1\<rparr>)"
  "calm c c' \<Longrightarrow> calm c (c'\<lparr>cl_peer_name := o1\<rparr>)" "calm c c' \<Longrightarrow> calm c (c'\<lparr>cl_time_start := i\<rparr>)"
  "calm c c' \<Longrightarrow> calm c (c'\<lparr>cl_time_conn := i\<rparr>)" "calm c c' \<Longrightarrow> calm c (c'\<lparr>cl_time_stop := i\<rparr>)"
  "calm c c' \<Longrightarrow> calm c (c'\<lparr>cl_outgoing := b\<rparr>)" "calm c c' \<Longrightarrow> calm c (c'\<lparr>cl_got_offer := b\<rparr>)"
  "calm c c' \<Longrightarrow> calm c (c'\<lparr>cl_mnat_wait := b\<rparr>)" "calm c c' \<Longrightarrow> calm c (c'\<lparr>cl_scode := w\<rparr>)"
  "calm c c' \<Longrightarrow> calm c (c'\<lparr>cl_tmr_dtmf := t\<rparr>)" "calm c c' \<Longrightarrow> calm c (c'\<lparr>cl_tmr_inv := None\<rparr>)"
  "calm c c' \<Longrightarrow> calm c (c'\<lparr>cl_custom_hdrs := h\<rparr>)" "calm c c' \<Longrightarrow> calm c (set_state c' st)"
  unfolding calm_def audio_strm_def video_strm_def set_state_def by auto

lemma calm_audio [calms]: "media_laws E \<Longrightarrow> calm c c' \<Longrightarrow> calm c (snd (call_audio_op E op c'))"
  unfolding call_audio_op_def
  by (cases "cl_audio c'")
     (auto simp: case_prod_beta media_laws_def calm_def cl_emit_def audio_strm_def video_strm_def)

lemma calm_video [calms]: "media_laws E \<Longrightarrow> calm c c' \<Longrightarrow> calm c (snd (call_video_op E op c'))"
  unfolding call_video_op_def
  by (cases "cl_video c'")
     (auto simp: case_prod_beta media_laws_def calm_def cl_emit_def audio_strm_def video_strm_def)

lemma calm_strm [calms]:
  "(\<And>s. st_hold (f s) = st_hold s) \<Longrightarrow> calm c c' \<Longrightarrow> calm c (on_audio_strm f c')"
  "(\<And>s. st_hold (f s) = st_hold s) \<Longrightarrow> calm c c' \<Longrightarrow> calm c (on_video_strm f c')"
  "(\<And>s. st_hold (f s) = st_hold s) \<Longrightarrow> calm c c' \<Longrightarrow> calm c (foreach_strm f c')"
  unfolding calm_def on_audio_strm_def on_video_strm_def foreach_strm_def audio_strm_def video_strm_def
  by (auto simp: option.map_comp comp_def)

text \<open>The operations of a stream keep its hold state.\<close>

lemma hold_emit [simp]: "st_hold (st_emit x s) = st_hold s" "st_hold (snd (st_call SE x s)) = st_hold s"
  by (simp_all add: st_emit_def st_call_def)

lemma hold_reset [simp]: "st_hold (stream_reset SE s) = st_hold s"
  by (simp add: stream_reset_def)

lemma hold_start [simp]: "st_hold (snd (stream_start SE s)) = st_hold s"
  by (simp add: stream_start_def Let_def)

lemma hold_mediaenc [simp]: "st_hold (snd (stream_start_mediaenc SE s)) = st_hold s"
  by (simp add: stream_start_mediaenc_def split: option.split)

lemma hold_remote_set [simp]: "st_hold (stream_remote_set SE s) = st_hold s"
  by (simp add: stream_remote_set_def Let_def)

lemma hold_update [simp]: "st_hold (stream_update SE s) = st_hold s"
  by (simp add: stream_update_def Let_def)

lemma hold_settings [simp]:
  "st_hold (stream_set_secure s b) = st_hold s"
  "st_hold (stream_enable_rtp_timeout now s ms) = st_hold s"
  "st_hold (stream_set_ldir SE s dir) = st_hold s"
  "st_hold (stream_set_session_handlers s b1 b2 b3 b4) = st_hold s"
  by (simp_all add: stream_set_secure_def stream_enable_rtp_timeout_def stream_set_ldir_def
      stream_set_session_handlers_def Let_def)

lemma calm_start_audio [calms]: "media_laws E \<Longrightarrow> calm c c' \<Longrightarrow> calm c (snd (start_audio E c'))"
  by (auto simp: start_audio_def case_prod_beta Let_def split: option.split intro!: calms)

lemma calm_update_audio [calms]: "media_laws E \<Longrightarrow> calm c c' \<Longrightarrow> calm c (snd (update_audio E c'))"
  by (auto simp: update_audio_def case_prod_beta Let_def split: option.split intro!: calms)

lemma calm_stream_start [calms]: "media_laws E \<Longrightarrow> calm c c' \<Longrightarrow> calm c (call_stream_start E c' active)"
  by (auto simp: call_stream_start_def Let_def intro!: calms)

lemma calm_stream_stop [calms]: "media_laws E \<Longrightarrow> calm c c' \<Longrightarrow> calm c (call_stream_stop E c')"
  by (auto simp: call_stream_stop_def Let_def intro!: calms)

lemma calm_update_media [calms]: "media_laws E \<Longrightarrow> calm c c' \<Longrightarrow> calm c (snd (update_media E c'))"
  by (auto simp: update_media_def case_prod_beta Let_def split: option.split intro!: calms)

lemma calm_sdp_decode [calms]: "calm c c' \<Longrightarrow> calm c (snd (call_sdp_decode E offer mb c'))"
  by (auto simp: call_sdp_decode_def case_prod_beta Let_def split: option.splits intro!: calms)

lemma calm_send_invite [calms]: "calm c c' \<Longrightarrow> calm c (snd (send_invite E c'))"
  by (auto simp: send_invite_def case_prod_beta Let_def split: sum.split intro!: calms)

lemma calm_modify [calms]: "media_laws E \<Longrightarrow> calm c c' \<Longrightarrow> calm c (snd (call_modify E c'))"
  by (auto simp: call_modify_def Let_def split: sum.split intro!: calms)

lemma calm_closes [calms]:
  "calm c c' \<Longrightarrow> calm c (not_close c')" "calm c c' \<Longrightarrow> calm c (sub_close c')" "calm c c' \<Longrightarrow> calm c (sess_close c')"
  "calm c c' \<Longrightarrow> calm c (call_set_xrtpstat c')"
  by (auto simp: not_close_def sub_close_def sess_close_def call_set_xrtpstat_def intro!: calms)

lemma calm_notify [calms]: "calm c c' \<Longrightarrow> calm c (snd (call_notify_sipfrag E scode c'))"
  by (auto simp: call_notify_sipfrag_def case_prod_beta intro!: calms)


subsection \<open>The steps of a call\<close>

definition quiet_out :: "('p, 'm, 'j, 'a, 'au, 'vi) call \<Rightarrow> ('p, 'm, 'j, 'a, 'au, 'vi) call \<Rightarrow> bool" where
  "quiet_out c c' = (\<exists>xs. cl_out c' = cl_out c @ xs \<and> (\<forall>x\<in>set xs. \<not> fatal x))"

text \<open>
  Nothing happens after an event on which the owner may release the call: it is the last
  thing the step does.
\<close>

definition ends :: "('p, 'm, 'j, 'a, 'au, 'vi) call \<Rightarrow> ('p, 'm, 'j, 'a, 'au, 'vi) call \<Rightarrow> bool" where
  "ends c c' = (\<exists>c0. quiet_out c c0 \<and> (c' = c0 \<or> (\<exists>ev t. c' = cl_emit (CoEvent ev t) c0)))"

text \<open>
  The streams are on hold when the call is, and the timer of an incoming call runs only while
  the call waits for an answer.
\<close>

definition hold_ok :: "('p, 'm, 'j, 'a, 'au, 'vi) call \<Rightarrow> bool" where
  "hold_ok c = (\<forall>s\<in>set (strms c). st_hold s = cl_on_hold c)"

definition timer_ok :: "('p, 'm, 'j, 'a, 'au, 'vi) call \<Rightarrow> bool" where
  "timer_ok c = (cl_tmr_inv c \<noteq> None \<longrightarrow> cl_state c = CALL_STATE_INCOMING)"

inductive call_step ::
  "('p, 'm, 'j, 'a, 'au, 'vi) call_env \<Rightarrow> ('p, 'm, 'j, 'a, 'au, 'vi) call \<Rightarrow> ('p, 'm, 'j, 'a, 'au, 'vi) call \<Rightarrow> bool"
  for E where
  connect: "cl_state c = CALL_STATE_IDLE \<Longrightarrow> call_step E c (snd (call_connect E paddr c))"
| accept: "cl_state c = CALL_STATE_IDLE \<Longrightarrow> call_step E c (snd (call_accept E msg c))"
| modify: "call_step E c (snd (call_modify E c))"
| hangup: "call_step E c (call_hangup E scode reason c)"
| progress: "call_step E c (snd (call_progress E c))"
| answer: "call_step E c (snd (call_answer E scode vmode c))"
| hold: "call_step E c (snd (call_hold E h c))"
| video_dir: "call_step E c (snd (call_set_video_dir E dir c))"
| media_dir: "call_step E c (snd (call_set_media_direction E da dv c))"
| transp: "call_step E c (snd (call_reset_transp E laddr c))"
| digit: "call_step E c (snd (call_send_digit E key c))"
| hdrs: "call_step E c (call_set_custom_hdrs E hdrs c)"
| transfer: "call_step E c (snd (call_transfer E uri c))"
| timeout: "cl_tmr_inv c \<noteq> None \<Longrightarrow> call_step E c (invite_timeout E c)"
| mnat: "cl_mnats c \<Longrightarrow> call_step E c (mnat_handler E err scode reason c)"
| audio_event: "call_step E c (audio_event_handler key end c)"
| audio_level: "call_step E c (audio_level_handler E tx lvl c)"
| audio_error: "call_step E c (audio_error_handler E err str c)"
| video_error: "call_step E c (video_error_handler E str c)"
| menc_event: "call_step E c (menc_event_handler E ev prm c)"
| menc_error: "call_step E c (menc_error_handler E c)"
| strm: "call_strm c t = Some s \<Longrightarrow> strm_step (ce_strm E) s s' \<Longrightarrow> st_hold s' = st_hold s \<Longrightarrow>
    call_step E c (on_strm t (\<lambda>_. s') c)"
| strm_mnat: "call_step E c (stream_mnatconn_handler E t c)"
| strm_estab: "call_step E c (stream_rtpestab_handler E t c)"
| strm_rtcp: "call_step E c (stream_rtcp_handler E t pt c)"
| strm_error: "call_step E c (stream_error_handler E c)"
| offer: "cl_sess c \<Longrightarrow> call_step E c (snd (sipsess_offer_handler E msg c))"
| answered: "cl_sess c \<Longrightarrow> call_step E c (snd (sipsess_answer_handler E msg c))"
| estab: "cl_sess c \<Longrightarrow> call_step E c (sipsess_estab_handler E c)"
| info: "cl_sess c \<Longrightarrow> call_step E c (sipsess_info_handler E pfu msg c)"
| refer: "cl_sess c \<Longrightarrow> call_step E c (sipsess_refer_handler E msg c)"
| close: "cl_sess c \<Longrightarrow> call_step E c (sipsess_close_handler E err msgo c)"
| progr: "cl_sess c \<Longrightarrow> call_step E c (sipsess_progr_handler E msg c)"
| dtmfend: "cl_tmr_dtmf c \<noteq> None \<Longrightarrow> call_step E c (dtmfend_handler c)"
| not_closed: "cl_not c \<Longrightarrow> call_step E c (sipnot_close_handler E err msgo c)"
| sub_notify: "cl_sub c \<Longrightarrow> call_step E c (sipsub_notify_handler E msg c)"
| sub_closed: "cl_sub c \<Longrightarrow> call_step E c (sipsub_close_handler E err msgo c)"

inductive call_run ::
  "('p, 'm, 'j, 'a, 'au, 'vi) call_env \<Rightarrow> ('p, 'm, 'j, 'a, 'au, 'vi) call \<Rightarrow> ('p, 'm, 'j, 'a, 'au, 'vi) call \<Rightarrow> bool"
  for E where
  start: "call_run E c c"
| next_step: "call_run E c c' \<Longrightarrow> call_step E c' c'' \<Longrightarrow> call_run E c c''"

lemma calm_quiet: "calm c c' \<Longrightarrow> quiet_out c c'"
  by (auto simp: calm_def quiet_out_def)

lemma quiet_out_trans: "quiet_out c c' \<Longrightarrow> quiet_out c' c'' \<Longrightarrow> quiet_out c c''"
  unfolding quiet_out_def by auto

lemma calm_ends: "calm c c' \<Longrightarrow> ends c c'"
  by (auto simp: ends_def dest: calm_quiet)

lemma event_ends: "quiet_out c c' \<Longrightarrow> ends c (call_event_handler E ev fmt args c')"
  by (auto simp: ends_def call_event_handler_def)

lemma hold_ok_strms: "hold_ok c = ((\<forall>s. audio_strm c = Some s \<longrightarrow> st_hold s = cl_on_hold c) \<and>
    (\<forall>s. video_strm c = Some s \<longrightarrow> st_hold s = cl_on_hold c))"
  by (auto simp: hold_ok_def strms_def split: option.splits)

lemma calm_hold_ok: "calm c c' \<Longrightarrow> hold_ok c \<Longrightarrow> hold_ok c'"
  unfolding calm_def hold_ok_strms by (auto simp: map_option_case split: option.splits)

lemma calm_timer_ok:
  "calm c c' \<Longrightarrow> cl_state c' = cl_state c \<or> cl_tmr_inv c' = None \<Longrightarrow> timer_ok c \<Longrightarrow> timer_ok c'"
  unfolding calm_def timer_ok_def by auto

text \<open>The state and the timer do not change in the helpers.\<close>

lemma state_simps [simp]:
  "cl_state (cl_emit x c) = cl_state c" "cl_state (snd (cl_call E x c)) = cl_state c"
  "cl_state (snd (snd (cl_dup E old s c))) = cl_state c"
  "cl_state (call_ua_event E uev fmt args c) = cl_state c"
  "cl_state (call_event_handler E ev fmt args c) = cl_state c"
  "cl_state (snd (call_audio_op E aop c)) = cl_state c" "cl_state (snd (call_video_op E vop c)) = cl_state c"
  "cl_state (on_audio_strm f c) = cl_state c" "cl_state (on_video_strm f c) = cl_state c"
  "cl_state (foreach_strm f c) = cl_state c" "cl_state (set_state c st) = st"
  by (simp_all add: cl_emit_def cl_call_def cl_dup_def call_ua_event_def call_event_handler_def
      call_audio_op_def call_video_op_def on_audio_strm_def on_video_strm_def foreach_strm_def
      set_state_def case_prod_beta split: option.split)

lemma timer_simps [simp]:
  "cl_tmr_inv (cl_emit x c) = cl_tmr_inv c" "cl_tmr_inv (snd (cl_call E x c)) = cl_tmr_inv c"
  "cl_tmr_inv (snd (snd (cl_dup E old s c))) = cl_tmr_inv c"
  "cl_tmr_inv (call_ua_event E uev fmt args c) = cl_tmr_inv c"
  "cl_tmr_inv (call_event_handler E ev fmt args c) = cl_tmr_inv c"
  "cl_tmr_inv (snd (call_audio_op E aop c)) = cl_tmr_inv c" "cl_tmr_inv (snd (call_video_op E vop c)) = cl_tmr_inv c"
  "cl_tmr_inv (on_audio_strm f c) = cl_tmr_inv c" "cl_tmr_inv (on_video_strm f c) = cl_tmr_inv c"
  "cl_tmr_inv (foreach_strm f c) = cl_tmr_inv c" "cl_tmr_inv (set_state c st) = cl_tmr_inv c"
  by (simp_all add: cl_emit_def cl_call_def cl_dup_def call_ua_event_def call_event_handler_def
      call_audio_op_def call_video_op_def on_audio_strm_def on_video_strm_def foreach_strm_def
      set_state_def case_prod_beta split: option.split)

lemma state_helpers [simp]:
  "cl_state (snd (start_audio E c)) = cl_state c" "cl_state (snd (update_audio E c)) = cl_state c"
  "cl_state (call_stream_start E c active) = cl_state c" "cl_state (call_stream_stop E c) = cl_state c"
  "cl_state (snd (update_media E c)) = cl_state c" "cl_state (snd (call_sdp_decode E offer mb c)) = cl_state c"
  "cl_state (snd (send_invite E c)) = cl_state c" "cl_state (snd (call_modify E c)) = cl_state c"
  "cl_state (not_close c) = cl_state c" "cl_state (sub_close c) = cl_state c" "cl_state (sess_close c) = cl_state c"
  "cl_state (call_set_xrtpstat c) = cl_state c" "cl_state (snd (call_notify_sipfrag E scode c)) = cl_state c"
proof -
  show a: "cl_state (snd (start_audio E c)) = cl_state c" "cl_state (snd (update_audio E c)) = cl_state c" for c
    by (simp_all add: start_audio_def update_audio_def case_prod_beta Let_def split: option.split)
  show "cl_state (call_stream_start E c active) = cl_state c" "cl_state (call_stream_stop E c) = cl_state c"
    by (simp_all add: call_stream_start_def call_stream_stop_def a Let_def)
  show u: "cl_state (snd (update_media E c)) = cl_state c" for c
    by (simp add: update_media_def a Let_def case_prod_beta)
  show "cl_state (snd (call_sdp_decode E offer mb c)) = cl_state c" "cl_state (snd (send_invite E c)) = cl_state c"
      "cl_state (snd (call_modify E c)) = cl_state c"
    by (simp_all add: call_sdp_decode_def send_invite_def call_modify_def u Let_def case_prod_beta split: sum.split)
  show n: "cl_state (not_close c) = cl_state c" "cl_state (sub_close c) = cl_state c" "cl_state (sess_close c) = cl_state c"
      "cl_state (call_set_xrtpstat c) = cl_state c" for c
    by (simp_all add: not_close_def sub_close_def sess_close_def call_set_xrtpstat_def)
  show "cl_state (snd (call_notify_sipfrag E scode c)) = cl_state c"
    by (simp add: call_notify_sipfrag_def n case_prod_beta)
qed

lemma timer_cancelled [simp]:
  "cl_tmr_inv (call_stream_stop E c) = None" "cl_tmr_inv (call_stream_start E c True) = None"
  by (simp_all add: call_stream_stop_def call_stream_start_def Let_def)


definition good :: "('p, 'm, 'j, 'a, 'au, 'vi) call \<Rightarrow> ('p, 'm, 'j, 'a, 'au, 'vi) call \<Rightarrow> bool" where
  "good c c' = (ends c c' \<and> (hold_ok c \<longrightarrow> hold_ok c') \<and> (timer_ok c \<longrightarrow> timer_ok c'))"

named_theorems goods \<open>steps that end with the last event and keep the invariants\<close>

lemma calm_good: "calm c c' \<Longrightarrow> cl_state c' = cl_state c \<or> cl_tmr_inv c' = None \<Longrightarrow> good c c'"
  by (simp add: good_def calm_ends calm_hold_ok calm_timer_ok)

lemma hold_ok_event [simp]: "hold_ok (call_event_handler E ev fmt args c) = hold_ok c"
  by (simp add: hold_ok_def call_event_handler_def cl_emit_def strms_def audio_strm_def video_strm_def)

lemma event_good:
  "calm c c' \<Longrightarrow> cl_state c' = cl_state c \<or> cl_tmr_inv c' = None \<Longrightarrow> good c (call_event_handler E ev fmt args c')"
  using calm_hold_ok[of c c'] calm_timer_ok[of c c']
  by (simp add: good_def event_ends calm_quiet timer_ok_def)

lemma good_progress [goods]: "media_laws E \<Longrightarrow> good c (snd (call_progress E c))"
  by (auto simp: call_progress_def case_prod_beta Let_def split: sum.split intro!: calm_good calms)

lemma good_answer [goods]:
  assumes "media_laws E"
  shows "good c (snd (call_answer E scode vmode c))"
proof -
  define c1 where "c1 = (if vmode = VIDMODE_OFF then c\<lparr>cl_video := None\<rparr> else c)"
  have "good c c' " if "calm c1 c'" "cl_state c' = cl_state c" for c'
  proof -
    have "quiet_out c c1" "hold_ok c \<longrightarrow> hold_ok c1" "timer_ok c = timer_ok c1" "cl_state c1 = cl_state c"
      by (auto simp: c1_def quiet_out_def hold_ok_def strms_def audio_strm_def video_strm_def timer_ok_def)
    then show ?thesis
      using that calm_quiet[OF that(1)] calm_hold_ok[OF that(1)] calm_timer_ok[OF that(1)] quiet_out_trans[of c c1 c']
      by (auto simp: good_def ends_def)
  qed
  note g = this
  have "call_answer E scode vmode c = (EINVAL, c) \<or> call_answer E scode vmode c = (0, c) \<or>
      (calm c1 (snd (call_answer E scode vmode c)) \<and> cl_state (snd (call_answer E scode vmode c)) = cl_state c1)"
    using assms
    by (auto simp: call_answer_def c1_def[symmetric] case_prod_beta Let_def split: sum.split intro!: calms)
  moreover have "cl_state c1 = cl_state c" by (simp add: c1_def)
  ultimately show ?thesis using g calm_good[OF calm_refl, of c] by (metis snd_conv)
qed

lemma good_modify [goods]: "media_laws E \<Longrightarrow> good c (snd (call_modify E c))"
  by (auto intro!: calm_good calms)

lemma good_dirs [goods]:
  "media_laws E \<Longrightarrow> good c (snd (call_set_video_dir E dir c))"
  "media_laws E \<Longrightarrow> good c (snd (call_reset_transp E laddr c))"
  "good c (snd (call_set_media_direction E da dv c))"
  "good c (call_set_custom_hdrs E hdrs c)"
  "media_laws E \<Longrightarrow> good c (snd (call_send_digit E key c))"
  by (auto simp: call_set_video_dir_def call_reset_transp_def call_set_media_direction_def Let_def
      call_set_custom_hdrs_def call_send_digit_def intro!: calm_good calms)

lemma good_transfer [goods]: "good c (snd (call_transfer E uri c))"
  by (auto simp: call_transfer_def normalize_uri_def case_prod_beta Let_def split: option.split sum.split
      intro!: calm_good calms)

lemma good_timers [goods]:
  "good c (invite_timeout E c)" "good c (dtmfend_handler c)" "good c (audio_event_handler key end c)"
  "good c (audio_level_handler E tx lvl c)"
  by (auto simp: invite_timeout_def dtmfend_handler_def audio_event_handler_def audio_level_handler_def Let_def
      intro!: calm_good event_good calms)

lemma good_mnat [goods]: "media_laws E \<Longrightarrow> good c (mnat_handler E err scode reason c)"
  by (auto simp: mnat_handler_def Let_def intro!: calm_good event_good calms)

lemma good_errors [goods]:
  "media_laws E \<Longrightarrow> good c (audio_error_handler E err str c)"
  "media_laws E \<Longrightarrow> good c (video_error_handler E str c)"
  "media_laws E \<Longrightarrow> good c (menc_error_handler E c)"
  "media_laws E \<Longrightarrow> good c (stream_error_handler E c)"
  by (auto simp: audio_error_handler_def video_error_handler_def menc_error_handler_def
      stream_error_handler_def Let_def intro!: calm_good event_good calms)

lemma good_menc [goods]: "media_laws E \<Longrightarrow> good c (menc_event_handler E ev prm c)"
  by (auto simp: menc_event_handler_def Let_def intro!: calm_good event_good calms)

lemma call_strm_hold: "call_strm c t = Some s \<Longrightarrow> st_hold s' = st_hold s \<Longrightarrow> calm c (on_strm t (\<lambda>_. s') c)"
  by (cases t) (auto simp: call_strm_def on_strm_def calm_def on_audio_strm_def on_video_strm_def
      audio_strm_def video_strm_def)

lemma on_strm_state [simp]: "cl_state (on_strm t f c) = cl_state c" "cl_tmr_inv (on_strm t f c) = cl_tmr_inv c"
  by (cases t; simp add: on_strm_def)+

lemma good_strm [goods]:
  "media_laws E \<Longrightarrow> good c (stream_mnatconn_handler E t c)"
  "good c (stream_rtpestab_handler E t c)"
  "good c (stream_rtcp_handler E t pt c)"
  "call_strm c t = Some s \<Longrightarrow> st_hold s' = st_hold s \<Longrightarrow> good c (on_strm t (\<lambda>_. s') c)"
  by (auto simp: stream_mnatconn_handler_def stream_rtpestab_handler_def stream_rtcp_handler_def Let_def
      case_prod_beta split: option.split media_type.split intro!: calm_good event_good calms call_strm_hold)

lemma good_sess [goods]:
  "media_laws E \<Longrightarrow> good c (snd (sipsess_offer_handler E msg c))"
  "media_laws E \<Longrightarrow> good c (snd (sipsess_answer_handler E msg c))"
  by (auto simp: sipsess_offer_handler_def sipsess_answer_handler_def Let_def
      case_prod_beta intro!: calm_good calms)

lemma good_estab [goods]: "media_laws E \<Longrightarrow> good c (sipsess_estab_handler E c)"
proof -
  assume E: "media_laws E"
  have t: "cl_tmr_inv (snd (call_notify_sipfrag E sc c')) = cl_tmr_inv c'" for sc and c' :: "('a, 'b, 'c, 'd, 'e, 'f) call"
    by (simp add: call_notify_sipfrag_def not_close_def case_prod_beta)
  show ?thesis
    using E by (auto simp: sipsess_estab_handler_def t Let_def intro!: calm_good event_good calms)
qed

lemma good_info [goods]: "media_laws E \<Longrightarrow> good c (sipsess_info_handler E pfu msg c)"
  by (auto simp: sipsess_info_handler_def call_handle_info_req_def Let_def case_prod_beta
      split: option.split list.split intro!: calm_good calms)

lemma good_refer [goods]:
  "good c (sipsess_refer_handler E msg c)" "good c (sipnot_close_handler E err msgo c)"
  "good c (sipsub_notify_handler E msg c)" "good c (sipsub_close_handler E err msgo c)"
  by (auto simp: sipsess_refer_handler_def sipnot_close_handler_def sipsub_notify_handler_def
      sipsub_close_handler_def Let_def case_prod_beta split: option.split list.split
      intro!: calm_good event_good calms)

lemma good_close [goods]: "media_laws E \<Longrightarrow> good c (sipsess_close_handler E err msgo c)"
  by (auto simp: sipsess_close_handler_def Let_def case_prod_beta split: option.split
      intro!: event_good calms)


lemma calm_connect [calms]: "calm c c' \<Longrightarrow> calm c (snd (call_connect E paddr c'))"
  by (auto simp: call_connect_def Let_def case_prod_beta split: option.split intro!: calms)

lemma good_connect [goods]:
  assumes "cl_state c = CALL_STATE_IDLE"
  shows "good c (snd (call_connect E paddr c))"
proof -
  have m: "calm c (snd (call_connect E paddr c))" by (intro calms)
  then have "cl_tmr_inv c = None \<longrightarrow> cl_tmr_inv (snd (call_connect E paddr c)) = None"
    by (auto simp: calm_def)
  then show ?thesis using m assms by (auto simp: good_def calm_ends calm_hold_ok timer_ok_def)
qed

lemma good_hangup [goods]: "media_laws E \<Longrightarrow> good c (call_hangup E scode reason c)"
  by (auto simp: call_hangup_def Let_def case_prod_beta intro!: calm_good calms)

lemma timer_helpers [simp]:
  "cl_tmr_inv (call_stream_start E c False) = cl_tmr_inv c" "cl_tmr_inv (snd (update_media E c)) = cl_tmr_inv c"
proof -
  have a: "cl_tmr_inv (snd (start_audio E c)) = cl_tmr_inv c" "cl_tmr_inv (snd (update_audio E c)) = cl_tmr_inv c" for c
    by (simp_all add: start_audio_def update_audio_def case_prod_beta Let_def split: option.split)
  show "cl_tmr_inv (call_stream_start E c False) = cl_tmr_inv c" "cl_tmr_inv (snd (update_media E c)) = cl_tmr_inv c"
    by (simp_all add: call_stream_start_def update_media_def a case_prod_beta Let_def)
qed

lemma good_progr [goods]: "media_laws E \<Longrightarrow> good c (sipsess_progr_handler E msg c)"
  by (auto simp: sipsess_progr_handler_def Let_def case_prod_beta intro!: calm_good calms)

lemma hold_hold [simp]: "st_hold (stream_hold SE s b) = b"
  by (simp add: stream_hold_def Let_def)

lemma good_hold [goods]:
  assumes "media_laws E"
  shows "good c (snd (call_hold E h c))"
proof -
  define c1 where "c1 = foreach_strm (\<lambda>s. stream_hold (ce_strm E) s h) (c\<lparr>cl_on_hold := h\<rparr>)"
  have "quiet_out c c1" "cl_state c1 = cl_state c" "cl_tmr_inv c1 = cl_tmr_inv c"
    by (simp_all add: c1_def quiet_out_def foreach_strm_def on_audio_strm_def on_video_strm_def)
  moreover have "hold_ok c1"
    by (auto simp: hold_ok_strms c1_def foreach_strm_def on_audio_strm_def on_video_strm_def audio_strm_def
        video_strm_def)
  moreover have m: "calm c1 (snd (call_modify E c1))" using assms by (auto intro!: calms)
  ultimately have "good c (snd (call_modify E c1))"
    using calm_quiet[OF m] calm_hold_ok[OF m] calm_timer_ok[OF m] quiet_out_trans[of c c1 "snd (call_modify E c1)"]
    by (auto simp: good_def ends_def timer_ok_def)
  moreover have "snd (call_hold E h c) = c \<or> snd (call_hold E h c) = snd (call_modify E c1)"
    by (simp add: call_hold_def Let_def c1_def)
  ultimately show ?thesis using calm_good[OF calm_refl, of c] by auto
qed

lemma good_after_calm:
  assumes "calm c c1" "cl_state c1 = cl_state c" "good c1 c2"
  shows "good c c2"
proof -
  obtain c0 where "quiet_out c1 c0" "c2 = c0 \<or> (\<exists>ev t. c2 = cl_emit (CoEvent ev t) c0)"
    using assms(3) by (auto simp: good_def ends_def)
  then have "ends c c2"
    using quiet_out_trans[OF calm_quiet[OF assms(1)]] by (auto simp: ends_def)
  then show ?thesis
    using assms calm_hold_ok[OF assms(1)] calm_timer_ok[OF assms(1)] by (auto simp: good_def)
qed

lemma good_accept_sess: "good c (snd (call_accept_sess E c))"
proof -
  obtain e1 c1 where c1: "cl_call E (CoSessAccept 180) c = (e1, c1)" by fastforce
  obtain e2 cid c2' where d:
      "cl_dup E (cl_id c1) (ce_callid E (cl_out c1)) (c1\<lparr>cl_sess := True\<rparr>) = (e2, cid, c2')"
    by (metis prod_cases3)
  define c2 where "c2 = c2'\<lparr>cl_id := cid\<rparr>"
  define c3' where "c3' = set_state c2 CALL_STATE_INCOMING"
  define c3 where "c3 = (if cl_local_timeout c3' \<noteq> 0
    then c3'\<lparr>cl_tmr_inv := Some (cl_local_timeout c3' * 1000)\<rparr> else c3')"
  have "c1 = snd (cl_call E (CoSessAccept 180) c)" by (simp add: c1)
  then have 1: "calm c c1" "cl_state c1 = cl_state c" by (auto intro!: calms)
  have "c2' = snd (snd (cl_dup E (cl_id c1) (ce_callid E (cl_out c1)) (c1\<lparr>cl_sess := True\<rparr>)))" by (simp add: d)
  then have 2: "calm c c2" "cl_state c2 = cl_state c" using 1 by (auto simp: c2_def intro!: calms)
  have q: "quiet_out c2 c3" "hold_ok c2 = hold_ok c3" "cl_state c3 = CALL_STATE_INCOMING"
    by (auto simp: c3_def c3'_def quiet_out_def set_state_def hold_ok_def strms_def audio_strm_def video_strm_def)
  have 3: "good c2 c3" "\<And>ev fmt args. good c2 (call_event_handler E ev fmt args c3)"
    using q by (auto simp: good_def ends_def timer_ok_def intro: event_ends[unfolded ends_def])
  have "snd (call_accept_sess E c) =
      (if e1 \<noteq> 0 then c1 else if e2 \<noteq> 0 then c2
       else if acc_mnat (cl_acc c3) = None
       then call_event_handler E CALL_EVENT_INCOMING (cl_peer_uri c3) [] c3 else c3)"
    unfolding c3_def c3'_def c2_def by (simp add: call_accept_sess_def c1 d Let_def)
  moreover have "good c c1" "good c c2" using 1 2 by (auto intro: calm_good)
  moreover have "good c c3" "good c (call_event_handler E CALL_EVENT_INCOMING (cl_peer_uri c3) [] c3)"
    by (rule good_after_calm[OF 2 3(1)], rule good_after_calm[OF 2 3(2)])
  ultimately show ?thesis by (simp split: if_split)
qed

lemma good_accept [goods]: "good c (snd (call_accept E msg c))"
proof (cases msg)
  case None
  then show ?thesis by (simp add: call_accept_def calm_good calms)
next
  case (Some m)
  have e: "good c (call_event_handler E ev fmt args c')" "good c c'" if "calm c c'" "cl_state c' = cl_state c"
    for ev fmt args c' using that by (auto intro: event_good calm_good)
  have s: "good c (snd (call_accept_sess E c'))" if "calm c c'" "cl_state c' = cl_state c" for c'
    by (rule good_after_calm[OF that good_accept_sess])
  obtain e1 u c1 where d1: "cl_dup E (cl_peer_uri (c\<lparr>cl_outgoing := False\<rparr>)) (Some (sm_from_auri m)) (c\<lparr>cl_outgoing := False\<rparr>) = (e1, u, c1)"
    by (metis prod_cases3)
  obtain e2 n c2 where d2: "(if sm_from_dname m \<noteq> []
      then cl_dup E (cl_peer_name (c1\<lparr>cl_peer_uri := u\<rparr>)) (Some (sm_from_dname m)) (c1\<lparr>cl_peer_uri := u\<rparr>)
      else (0, cl_peer_name (c1\<lparr>cl_peer_uri := u\<rparr>), c1\<lparr>cl_peer_uri := u\<rparr>)) = (e2, n, c2)"
    by (metis prod_cases3)
  obtain e3 c3 where d3: "call_sdp_decode E True (sm_mb m) (c2\<lparr>cl_peer_name := n\<rparr>) = (e3, c3)" by fastforce
  have "c1 = snd (snd (cl_dup E (cl_peer_uri (c\<lparr>cl_outgoing := False\<rparr>)) (Some (sm_from_auri m)) (c\<lparr>cl_outgoing := False\<rparr>)))"
    by (simp only: d1 snd_conv)
  then have 1: "calm c (c1\<lparr>cl_peer_uri := u\<rparr>)" "cl_state (c1\<lparr>cl_peer_uri := u\<rparr>) = cl_state c" by (auto intro!: calms)
  have "c2 = (if sm_from_dname m \<noteq> []
      then snd (snd (cl_dup E (cl_peer_name (c1\<lparr>cl_peer_uri := u\<rparr>)) (Some (sm_from_dname m)) (c1\<lparr>cl_peer_uri := u\<rparr>)))
      else c1\<lparr>cl_peer_uri := u\<rparr>)"
    using d2 by (auto split: if_splits)
  then have 2: "calm c (c2\<lparr>cl_peer_name := n\<rparr>)" "cl_state (c2\<lparr>cl_peer_name := n\<rparr>) = cl_state c"
    using 1 by (auto intro!: calms)
  have "c3 = snd (call_sdp_decode E True (sm_mb m) (c2\<lparr>cl_peer_name := n\<rparr>))" by (simp add: d3)
  then have 3: "calm c c3" "cl_state c3 = cl_state c" using 2 by (auto intro!: calms)
  have 4: "calm c (snd (cl_call E (CoSipTreply 488 ''Not Acceptable Here'') (c3\<lparr>cl_got_offer := True\<rparr>)))"
      "cl_state (snd (cl_call E (CoSipTreply 488 ''Not Acceptable Here'') (c3\<lparr>cl_got_offer := True\<rparr>))) = cl_state c"
      "calm c (c3\<lparr>cl_got_offer := True\<rparr>)" "cl_state (c3\<lparr>cl_got_offer := True\<rparr>) = cl_state c"
    using 3 by (auto intro!: calms)
  have "good c (c1\<lparr>cl_peer_uri := u\<rparr>)" "good c (c2\<lparr>cl_peer_name := n\<rparr>)" "good c c3"
      "good c (snd (call_accept_sess E (c2\<lparr>cl_peer_name := n\<rparr>)))"
      "good c (snd (call_accept_sess E (c3\<lparr>cl_got_offer := True\<rparr>)))"
      "good c (call_event_handler E ev f a (snd (cl_call E (CoSipTreply 488 ''Not Acceptable Here'')
         (c3\<lparr>cl_got_offer := True\<rparr>))))" for ev f a
    using e[OF 4(1,2)] e(2)[OF 1] e(2)[OF 2] e(2)[OF 3] s[OF 2] s[OF 4(3,4)] by auto
  then show ?thesis unfolding call_accept_def Some Let_def
    by (simp only: option.case d1 d2 d3 prod.case cong: if_cong) (simp split: if_split)
qed

lemma step_good:
  assumes "media_laws E" "call_step E c c'"
  shows "good c c'"
  using assms(2)
  by (cases rule: call_step.cases) (simp_all add: goods assms(1))



inductive_cases call_runE: "call_run E c c'"

lemma run_good:
  assumes "call_run E c c'" "media_laws E" "hold_ok c" "timer_ok c"
  shows "hold_ok c' \<and> timer_ok c'"
  using assms
proof (induction rule: call_run.induct)
  case (start c)
  then show ?case by simp
next
  case (next_step c c' c'')
  then show ?case using step_good[of E c' c''] by (auto simp: good_def)
qed

subsection \<open>A new call\<close>

text \<open>An allocation fails with an error code or yields a stream that is not on hold.\<close>

definition alloc_laws ::
  "(('p, 'm, 'j, 'a, 'au, 'vi) call \<Rightarrow> bool \<Rightarrow> err + ('au \<times> ('m, 'j, 'a) strm)) \<Rightarrow>
   (('p, 'm, 'j, 'a, 'au, 'vi) call \<Rightarrow> bool \<Rightarrow> err + ('vi \<times> ('m, 'j, 'a) strm)) \<Rightarrow> bool" where
  "alloc_laws au_alloc vi_alloc =
     ((\<forall>c o1. case au_alloc c o1 of Inl err \<Rightarrow> err \<noteq> 0 | Inr a \<Rightarrow> \<not> st_hold (snd a)) \<and>
      (\<forall>c o1. case vi_alloc c o1 of Inl err \<Rightarrow> err \<noteq> 0 | Inr v \<Rightarrow> \<not> st_hold (snd v)))"

definition fresh :: "('p, 'm, 'j, 'a, 'au, 'vi) call \<Rightarrow> bool" where
  "fresh c = (cl_audio c = None \<and> cl_video c = None \<and> \<not> cl_on_hold c \<and> cl_tmr_inv c = None \<and>
     cl_state c = CALL_STATE_IDLE)"

lemma fresh_new [simp]: "fresh (call_new acc cfg prm eh sdp0)"
  by (simp add: fresh_def call_new_def)

lemma fresh_helpers [simp]:
  "fresh (snd (cl_call E x c)) = fresh c" "fresh (snd (snd (cl_dup E old s c))) = fresh c"
  "fresh (c\<lparr>cl_local_uri := u\<rparr>) = fresh c" "fresh (c\<lparr>cl_local_name := u\<rparr>) = fresh c"
  "fresh (c\<lparr>cl_mnats := b\<rparr>) = fresh c" "fresh (c\<lparr>cl_mencs := b\<rparr>) = fresh c" "fresh (c\<lparr>cl_mnat_wait := b\<rparr>) = fresh c"
  by (auto simp: fresh_def cl_call_def cl_emit_def cl_dup_def case_prod_beta split: option.split)

lemma fresh_methods: "fresh c \<Longrightarrow> fresh (snd (call_alloc_methods E g c))"
  by (auto simp: call_alloc_methods_def case_prod_beta Let_def split: option.split)

lemma media_fresh:
  assumes "call_alloc_media E au vi cfg lst prm g x c = (0, c')" "fresh c" "alloc_laws au vi"
  shows "hold_ok c' \<and> timer_ok c' \<and> assign_linenum lst = Some (cl_linenum c')"
proof -
  have t: "st_hold (stream_set_session_handlers s b1 b2 b3 b4) = st_hold s" for s :: "('b, 'c, 'd) strm" and b1 b2 b3 b4
    by (simp add: stream_set_session_handlers_def)
  have l: "au c o1 \<noteq> Inl 0" "vi c o1 \<noteq> Inl 0" "au c o1 = Inr a \<Longrightarrow> \<not> st_hold (snd a)"
      "vi c o1 = Inr v \<Longrightarrow> \<not> st_hold (snd v)" for c o1 a v
    using assms(3) by (auto simp: alloc_laws_def split: sum.splits) (metis prod.collapse)+
  show ?thesis
    using assms(1,2) l unfolding call_alloc_media_def
    by (auto simp: Let_def fresh_def t call_enable_rtp_timeout_def hold_ok_def timer_ok_def strms_def
        audio_strm_def video_strm_def foreach_strm_def on_audio_strm_def on_video_strm_def
        split: sum.splits option.splits if_splits prod.splits)
qed

lemma alloc_ok:
  assumes "call_alloc E au vi cfg sdp0 lst lname luri acc prm msg x eh = (0, res, lst')" "alloc_laws au vi"
  obtains c where "res = Some c" "lst' = lst @ [c]" "assign_linenum lst = Some (cl_linenum c)" "hold_ok c" "timer_ok c"
proof -
  obtain a p where ap: "acc = Some a" "prm = Some p" "luri \<noteq> None" "l_zalloc (ce_libre E)"
    using assms(1) by (auto simp: call_alloc_def split: option.splits if_splits)
  let ?c0 = "call_new a cfg p eh sdp0"
  obtain e1 u c1 where 1: "cl_dup E None luri ?c0 = (e1, u, c1)" by (metis prod_cases3)
  obtain e2 n c2 where 2: "(if lname \<noteq> None then cl_dup E None lname (c1\<lparr>cl_local_uri := u\<rparr>)
      else (0, None, c1\<lparr>cl_local_uri := u\<rparr>)) = (e2, n, c2)" by (metis prod_cases3)
  obtain e3 c3 where 3: "cl_call E CoSdpSession (c2\<lparr>cl_local_name := n\<rparr>) = (e3, c3)" by fastforce
  obtain e4 c4 where 4: "cl_call E CoSdpAttr c3 = (e4, c4)" by fastforce
  define g where "g = (case msg of None \<Rightarrow> False | Some m \<Rightarrow> m_get_left (se_mbuf (ce_strm E)) (sm_mb m) \<noteq> 0)"
  obtain e5 c5 where 5: "call_alloc_methods E g c4 = (e5, c5)" by fastforce
  obtain e6 c6 where 6: "call_alloc_media E au vi cfg lst p g x c5 = (e6, c6)" by fastforce
  have "fresh (snd (snd (e1, u, c1)))" unfolding 1[symmetric] by simp
  then have "fresh (snd (snd (e2, n, c2)))" unfolding 2[symmetric] by (simp split: if_split)
  then have "fresh (snd (e3, c3))" unfolding 3[symmetric] by simp
  then have "fresh (snd (e4, c4))" unfolding 4[symmetric] by simp
  then have "fresh (snd (e5, c5))" unfolding 5[symmetric] by (simp add: fresh_methods)
  then have f: "fresh c5" by simp
  have "call_alloc E au vi cfg sdp0 lst lname luri acc prm msg x eh =
      (if e1 OR e2 \<noteq> 0 then (e1 OR e2, None, lst) else if e3 \<noteq> 0 then (e3, None, lst)
       else if e4 \<noteq> 0 then (e4, None, lst) else if e5 \<noteq> 0 then (e5, None, lst)
       else if e6 \<noteq> 0 then (e6, None, lst) else (0, Some c6, lst @ [c6]))"
    using ap(3,4) unfolding call_alloc_def Let_def
    by (simp only: ap(1,2) option.case prod.case 1 2 3 4 5 6 g_def[symmetric] if_False simp_thms cong: if_cong)
  then have "e6 = 0" "res = Some c6" "lst' = lst @ [c6]"
    using assms(1) by (auto split: if_splits)
  then show thesis using that media_fresh[OF 6[unfolded \<open>e6 = 0\<close>] f assms(2)] by blast
qed

lemma assign_linenum_some:
  assumes "assign_linenum lst = Some n"
  shows "1 \<le> unat n \<and> unat n \<le> 255 \<and> n \<notin> cl_linenum ` set lst"
proof -
  obtain k where k: "n = of_nat k" "List.find (\<lambda>num. call_find_linenum lst (of_nat num) = None)
      [CALL_LINENUM_MIN..<CALL_LINENUM_MAX] = Some k"
    using assms by (auto simp: assign_linenum_def)
  then have "k \<in> {1..255}" "call_find_linenum lst n = None"
    by (auto simp: find_Some_iff CALL_LINENUM_MIN_def CALL_LINENUM_MAX_def nth_upt simp del: upt.simps)
  then show ?thesis using k(1)
    by (auto simp: call_find_linenum_def find_None_iff unat_of_nat take_bit_nat_eq_self)
qed

lemma assign_linenum_none:
  "assign_linenum lst = None \<longleftrightarrow> (\<forall>k\<in>{1..255}. of_nat k \<in> cl_linenum ` set lst)"
proof -
  have "assign_linenum lst = None \<longleftrightarrow> (\<forall>k\<in>set [1..<256]. call_find_linenum lst (of_nat k) \<noteq> None)"
    by (auto simp: assign_linenum_def find_None_iff CALL_LINENUM_MIN_def CALL_LINENUM_MAX_def simp del: upt.simps)
  also have "set [1..<256] = {1..255::nat}" by auto
  finally show ?thesis by (auto simp: call_find_linenum_def find_None_iff)
qed

text \<open>
  C24: Line numbers.  A call that is allocated gets a number from 1 to 255 that no other call of
  the list has and goes to the end of the list, so the numbers of the calls stay distinct and
  each number finds its call; there is no number only when all 255 are taken.
\<close>

theorem call_linenum_distinct:
  assumes "alloc_laws au vi" "distinct (map cl_linenum lst)"
    and "call_alloc E au vi cfg sdp0 lst lname luri acc prm msg x eh = (0, res, lst')"
  shows "(\<exists>c. res = Some c \<and> lst' = lst @ [c] \<and> 1 \<le> unat (cl_linenum c) \<and> unat (cl_linenum c) \<le> 255) \<and>
    distinct (map cl_linenum lst') \<and>
    (\<forall>c\<in>set lst'. call_find_linenum lst' (cl_linenum c) = Some c) \<and>
    (assign_linenum lst' = None \<longleftrightarrow> (\<forall>k\<in>{1..255}. of_nat k \<in> cl_linenum ` set lst'))"
proof -
  obtain c where c: "res = Some c" "lst' = lst @ [c]" "assign_linenum lst = Some (cl_linenum c)"
    using alloc_ok[OF assms(3,1)] by blast
  note a = assign_linenum_some[OF c(3)]
  have d: "distinct (map cl_linenum lst')" using assms(2) a c(2) by simp
  have "call_find_linenum lst' (cl_linenum x) = Some x" if "x \<in> set lst'" for x
  proof (cases "call_find_linenum lst' (cl_linenum x)")
    case None
    then show ?thesis using that by (auto simp: call_find_linenum_def find_None_iff)
  next
    case (Some y)
    then have "y \<in> set lst'" "cl_linenum y = cl_linenum x"
      by (auto simp: call_find_linenum_def find_Some_iff)
    then have "y = x" using d that by (metis distinct_map inj_onD)
    then show ?thesis using Some by simp
  qed
  then show ?thesis using a c(1,2) d assign_linenum_none[of lst'] by auto
qed

text \<open>
  C22: Hold.  However a call that was allocated proceeds, its streams are on hold when the call
  is and only then, a stream on hold sends nothing, and the timer of an incoming call runs only
  while the call waits to be answered.
\<close>

theorem held_call_silent:
  assumes "media_laws E" "alloc_laws au vi"
    and "call_alloc E au vi cfg sdp0 lst lname luri acc prm msg x eh = (0, Some c, lst')" "call_run E c c'"
  shows "(\<forall>s\<in>set (strms c'). st_hold s = cl_on_hold c' \<and>
      (cl_on_hold c' \<longrightarrow> stream_send (ce_strm E) now s ext marker pt ts mb = (0, s))) \<and>
    (cl_tmr_inv c' \<noteq> None \<longrightarrow> cl_state c' = CALL_STATE_INCOMING)"
proof -
  have "hold_ok c" "timer_ok c" using alloc_ok[OF assms(3,2)] by blast+
  then have "hold_ok c'" "timer_ok c'" using run_good[OF assms(4,1)] by auto
  then show ?thesis by (simp add: hold_ok_def timer_ok_def stream_send_def)
qed

subsection \<open>Properties of calls\<close>


text \<open>A timer tick every second, seen by the call.\<close>

definition call_ticks ::
  "('p, 'm, 'j, 'a, 'au, 'vi) call_env \<Rightarrow> media_type \<Rightarrow> u64 \<Rightarrow> nat \<Rightarrow> ('p, 'm, 'j, 'a, 'au, 'vi) call
     \<Rightarrow> ('p, 'm, 'j, 'a, 'au, 'vi) call" where
  "call_ticks E t t0 n c =
     foldl (\<lambda>c k. strm_event E t (check_rtp_handler (ce_strm E) (t0 + of_nat (1000 * k))) c) c [1..<Suc n]"

lemma call_ticks_Suc:
  "call_ticks E t t0 (Suc n) c =
     strm_event E t (check_rtp_handler (ce_strm E) (t0 + of_nat (1000 * Suc n))) (call_ticks E t t0 n c)"
  by (simp add: call_ticks_def)

lemma call_strm_on [simp]:
  "call_strm (on_strm t f c) t = map_option f (call_strm c t)" "cl_state (on_strm t f c) = cl_state c"
  "cl_out (on_strm t f c) = cl_out c" "cl_eh (on_strm t f c) = cl_eh c"
  by (cases t; auto simp: call_strm_def on_strm_def on_audio_strm_def on_video_strm_def audio_strm_def
      video_strm_def map_option_case split: option.split)+

lemma on_strm_on: "on_strm t f (on_strm t g c) = on_strm t (f \<circ> g) c"
  by (cases t; cases "cl_audio c"; cases "cl_video c";
      simp add: on_strm_def on_audio_strm_def on_video_strm_def map_option.compositionality comp_def apsnd_def map_prod_def
        split_def)

lemma on_strm_cong: "call_strm c t = Some s \<Longrightarrow> f s = g s \<Longrightarrow> on_strm t f c = on_strm t g c"
  by (cases t) (auto simp: call_strm_def on_strm_def on_audio_strm_def on_video_strm_def audio_strm_def video_strm_def
      intro!: call.equality)

lemma call_ticks_wait:
  assumes "call_strm c t = Some s" "\<And>k. k \<le> n \<Longrightarrow> st_out (ticks (ce_strm E) t0 k s) = st_out s"
  shows "call_ticks E t t0 n c = on_strm t (\<lambda>_. ticks (ce_strm E) t0 n s) c"
  using assms(2)
proof (induction n)
  case 0
  have "on_strm t (\<lambda>_. s) c = on_strm t id c" using assms(1) by (rule on_strm_cong) simp
  then show ?case
    by (cases t; cases "cl_audio c"; cases "cl_video c")
       (auto simp: call_ticks_def ticks_def on_strm_def on_audio_strm_def on_video_strm_def)
next
  case (Suc n)
  then have ih: "call_ticks E t t0 n c = on_strm t (\<lambda>_. ticks (ce_strm E) t0 n s) c" by simp
  have "st_out (ticks (ce_strm E) t0 n s) = st_out s" "st_out (ticks (ce_strm E) t0 (Suc n) s) = st_out s"
    using Suc.prems by simp_all
  then show ?case
    unfolding call_ticks_Suc ih strm_event_def
    using assms(1) by (simp add: ticks_Suc on_strm_on comp_def)
qed

lemma error_handler_ends:
  assumes "media_laws E" "cl_eh c"
  shows "cl_state (stream_error_handler E c) = CALL_STATE_TERMINATED \<and> cl_scode (stream_error_handler E c) = 701 \<and>
    cl_tmr_inv (stream_error_handler E c) = None \<and>
    (\<exists>xs. cl_out (stream_error_handler E c) = cl_out c @ xs @
       [CoEvent CALL_EVENT_CLOSED (l_snprintf (ce_libre E) 256 (Some ''rtp stream error'') [])] \<and>
       (\<forall>x\<in>set xs. \<not> fatal x))"
proof -
  let ?c = "set_state (c\<lparr>cl_scode := 701\<rparr>) CALL_STATE_TERMINATED"
  have "calm ?c (call_stream_stop E ?c)" using assms(1) by (intro calms)
  then obtain xs where x: "cl_out (call_stream_stop E ?c) = cl_out c @ xs" "\<forall>x\<in>set xs. \<not> fatal x"
      "cl_eh (call_stream_stop E ?c)"
    using assms(2) by (auto simp: calm_def set_state_def)
  have s: "cl_scode (call_stream_stop E c) = cl_scode c" for c
    by (auto simp: call_stream_stop_def Let_def call_audio_op_def call_video_op_def cl_emit_def case_prod_beta
        split: option.split)
  show ?thesis
    unfolding stream_error_handler_def Let_def call_event_handler_def using x
    by (auto simp: cl_emit_def s) (auto simp: set_state_def call_stream_stop_def Let_def)
qed


lemma peer_simps [simp]:
  "cl_peer_uri (snd (cl_call E x c)) = cl_peer_uri c" "cl_eh (snd (cl_call E x c)) = cl_eh c"
  "cl_peer_uri (cl_emit x c) = cl_peer_uri c" "cl_eh (cl_emit x c) = cl_eh c"
  "cl_peer_uri (snd (call_audio_op E op c)) = cl_peer_uri c" "cl_eh (snd (call_audio_op E op c)) = cl_eh c"
  "cl_peer_uri (snd (call_video_op E vop c)) = cl_peer_uri c" "cl_eh (snd (call_video_op E vop c)) = cl_eh c"
  "cl_peer_uri (foreach_strm f c) = cl_peer_uri c" "cl_eh (foreach_strm f c) = cl_eh c"
  by (auto simp: cl_call_def cl_emit_def call_audio_op_def call_video_op_def foreach_strm_def on_audio_strm_def
      on_video_strm_def case_prod_beta split: option.split)

lemma peer_start [simp]:
  "cl_peer_uri (snd (start_audio E c)) = cl_peer_uri c" "cl_eh (snd (start_audio E c)) = cl_eh c"
  "cl_peer_uri (call_stream_start E c b) = cl_peer_uri c" "cl_eh (call_stream_start E c b) = cl_eh c"
  "cl_peer_uri (snd (call_notify_sipfrag E code c)) = cl_peer_uri c"
  "cl_eh (snd (call_notify_sipfrag E code c)) = cl_eh c"
  by (auto simp: start_audio_def call_stream_start_def call_notify_sipfrag_def not_close_def Let_def case_prod_beta
      split: option.split)


subsection \<open>A concrete call\<close>

definition ref_snprintf :: "nat \<Rightarrow> string option \<Rightarrow> fmt_arg list \<Rightarrow> string option" where
  "ref_snprintf n fmt args =
     (case fmt of None \<Rightarrow> None
      | Some f \<Rightarrow> if args = [] \<and> CHR 0x25 \<in> set f then None else Some (take (n - 1) f))"

lemma ref_snprintf_laws: "snprintf_laws ref_snprintf"
  by (simp add: snprintf_laws_def ref_snprintf_def)

text \<open>Every operation succeeds; the audio stream is the stream of the example above.\<close>

definition ref_call_env :: "(unit, sdp_dir, unit, bool, unit, unit) call_env" where
  "ref_call_env =
     \<lparr>ce_libre = ref_libre\<lparr>l_snprintf := ref_snprintf\<rparr>, ce_strm = ref_strm_env, ce_ret = (\<lambda>out. 0),
      ce_time = (\<lambda>out. 1700000000), ce_jiffies = (\<lambda>out. 500), ce_callid = (\<lambda>out. Some ''7f31''),
      ce_audio = (\<lambda>op a. (0, a)), ce_video = (\<lambda>op v. (0, v)), ce_sdp_decode = (\<lambda>offer b p ma mv. (0, p, ma, mv)),
      ce_sdp_encode = (\<lambda>offer p ma mv. Inr [1, 2]), ce_sdp_multipart = (\<lambda>ct mb. (0, mb)), ce_sdp_laddr = (\<lambda>a p. p),
      ce_rport = (\<lambda>m. 4000), ce_formats = (\<lambda>m. [\<lparr>sf_sup = True, sf_data = Some 1, sf_pt = 0, sf_params = None\<rparr>]),
      ce_af = (\<lambda>a. 2), ce_vidisp = False, ce_vidsrc = False, ce_regs = ref_regs\<rparr>"

lemma ref_media_laws: "media_laws ref_call_env"
  by (simp add: media_laws_def ref_call_env_def)

definition ref_call_alloc ::
  "err \<times> (unit, sdp_dir, unit, bool, unit, unit) call option \<times> (unit, sdp_dir, unit, bool, unit, unit) call list" where
  "ref_call_alloc =
     call_alloc ref_call_env (\<lambda>c o1. Inr ((), ref_strm)) (\<lambda>c o1. Inr ((), ref_strm))
       \<lparr>cc_rtp_stats = False, cc_rtp_timeout = 2, cc_local_timeout = 120, cc_max_calls = 4\<rparr> () [] None
       (Some ''sip:a@b'') (Some null_account) (Some \<lparr>cp_vidmode = VIDMODE_OFF, cp_af = 2, cp_use_rtp = True\<rparr>) None None True"

definition ref_call :: "(unit, sdp_dir, unit, bool, unit, unit) call" where
  "ref_call = the (fst (snd ref_call_alloc))"

lemma ref_alloc_laws: "alloc_laws (\<lambda>c o1. Inr ((), ref_strm)) (\<lambda>c o1. Inr ((), ref_strm))"
  by (simp add: alloc_laws_def ref_strm_def stream_new_def Let_def)

lemma ref_call_fields:
  "ref_call_alloc = (0, Some ref_call, [ref_call])" "cl_linenum ref_call = 1" "cl_state ref_call = CALL_STATE_IDLE"
  "audio_strm ref_call = Some (stream_set_session_handlers ref_strm True True True True)" "video_strm ref_call = None"
  "cl_eh ref_call" "cl_peer_uri ref_call = None" "cl_out ref_call = [CoStrDup ''sip:a@b'', CoSdpSession, CoSdpAttr]"
  "\<not> cl_on_hold ref_call" "cl_acc ref_call = null_account"
proof -
  have a: "assign_linenum ([] :: (unit, sdp_dir, unit, bool, unit, unit) call list) = Some 1"
    by (simp add: assign_linenum_def call_find_linenum_def CALL_LINENUM_MIN_def CALL_LINENUM_MAX_def upt_conv_Cons)
  define r where "r = ref_call_alloc"
  have "r = (0, Some (the (fst (snd r))), [the (fst (snd r))]) \<and> cl_linenum (the (fst (snd r))) = 1 \<and>
     cl_state (the (fst (snd r))) = CALL_STATE_IDLE \<and>
     audio_strm (the (fst (snd r))) = Some (stream_set_session_handlers ref_strm True True True True) \<and>
     video_strm (the (fst (snd r))) = None \<and> cl_eh (the (fst (snd r))) \<and> cl_peer_uri (the (fst (snd r))) = None \<and>
     cl_out (the (fst (snd r))) = [CoStrDup ''sip:a@b'', CoSdpSession, CoSdpAttr] \<and> \<not> cl_on_hold (the (fst (snd r))) \<and>
     cl_acc (the (fst (snd r))) = null_account"
    unfolding r_def ref_call_alloc_def call_alloc_def call_alloc_media_def call_alloc_methods_def
    by (simp add: a Let_def cl_dup_def cl_call_def cl_emit_def call_new_def null_account_def ref_call_env_def ref_libre_def
        foreach_strm_def on_audio_strm_def on_video_strm_def call_enable_rtp_timeout_def audio_strm_def video_strm_def)
  then show "ref_call_alloc = (0, Some ref_call, [ref_call])" "cl_linenum ref_call = 1" "cl_state ref_call = CALL_STATE_IDLE"
    "audio_strm ref_call = Some (stream_set_session_handlers ref_strm True True True True)" "video_strm ref_call = None"
    "cl_eh ref_call" "cl_peer_uri ref_call = None" "cl_out ref_call = [CoStrDup ''sip:a@b'', CoSdpSession, CoSdpAttr]"
    "\<not> cl_on_hold ref_call" "cl_acc ref_call = null_account"
    unfolding ref_call_def r_def by simp_all
qed

theorem call_linenum_distinct_witness:
  "(\<exists>c. fst (snd ref_call_alloc) = Some c \<and> snd (snd ref_call_alloc) = [c] \<and> unat (cl_linenum c) \<le> 255) \<and>
   call_find_linenum (snd (snd ref_call_alloc)) 1 = Some ref_call"
  using call_linenum_distinct[OF ref_alloc_laws _ ref_call_fields(1)[unfolded ref_call_alloc_def]]
  by (simp add: ref_call_fields(1,2))

text \<open>The call is connected and put on hold.\<close>

theorem held_call_silent_witness:
  "\<exists>c s. call_run ref_call_env ref_call c \<and> strms c = [s] \<and>
     stream_send ref_strm_env 9 s False True 8 160 (mbuf_of [1, 2]) = (0, s)"
proof -
  define c0 where "c0 = snd (call_connect ref_call_env (Some ''sip:b@x'') ref_call)"
  define c1 where "c1 = foreach_strm (\<lambda>s. stream_hold ref_strm_env s True) (c0\<lparr>cl_on_hold := True\<rparr>)"
  let ?c = "snd (call_hold ref_call_env True c0)"
  have run: "call_run ref_call_env ref_call ?c"
    unfolding c0_def
    using call_run.next_step[OF call_run.next_step[OF call_run.start call_step.connect[of _ _ "Some ''sip:b@x''"]] call_step.hold]
      ref_call_fields(3) by blast
  have 0: "calm ref_call c0" unfolding c0_def by (intro calms)
  have "cl_acc ref_call = null_account" using ref_call_fields(10) .
  then have "cl_sess c0"
    by (simp add: c0_def call_connect_def send_invite_def ref_call_env_def ref_libre_def Let_def call_sdp_get_def
        cl_call_def cl_emit_def cl_dup_def set_state_def call_ua_event_def null_account_def null_addr_def)
  then have c: "?c = snd (call_modify ref_call_env c1)"
    using ref_call_fields(9) 0 by (simp add: call_hold_def Let_def c1_def calm_def ref_call_env_def)
  have "calm c1 ?c" unfolding c by (intro calms ref_media_laws)
  then have h: "cl_on_hold ?c" and m: "map_option st_hold (audio_strm ?c) = map_option st_hold (audio_strm c1)"
      "map_option st_hold (video_strm ?c) = map_option st_hold (video_strm c1)"
    by (simp_all add: calm_def c1_def foreach_strm_def on_audio_strm_def on_video_strm_def)
  have "audio_strm c0 \<noteq> None" "video_strm c0 = None"
    using 0 ref_call_fields(4,5) by (auto simp: calm_def)
  then have "\<exists>s. audio_strm ?c = Some s" "video_strm ?c = None"
    using m by (auto simp: c1_def foreach_strm_def on_audio_strm_def on_video_strm_def audio_strm_def video_strm_def)
  then obtain s where s: "strms ?c = [s]" by (auto simp: strms_def)
  have e: "ce_strm ref_call_env = ref_strm_env" by (simp add: ref_call_env_def)
  have "stream_send ref_strm_env 9 s False True 8 160 (mbuf_of [1, 2]) = (0, s)"
    using held_call_silent[OF ref_media_laws ref_alloc_laws ref_call_fields(1)[unfolded ref_call_alloc_def] run,
        of 9 False True 8 160 "mbuf_of [1, 2]"] s h by (simp add: e)
  then show ?thesis using run s by blast
qed

text \<open>The stream of the call reports an error.\<close>

lemma ref_error_step: "call_step ref_call_env ref_call (stream_error_handler ref_call_env ref_call)"
  by (rule call_step.strm_error)




end
