(* ===== verification/Contact.thy ===== *)
theory Contact
  imports Account
begin

text \<open>
  The contact list, \<open>src/contact.c\<close>.

  A contact has an address \<open>ct_id\<close> in memory; the list holds the contacts, the hash table of
  libre holds their addresses under the hash of the SIP URI.  The table is an argument
  (\<open>hash_ops\<close>); \<open>hash_laws\<close> states its documented behaviour through the content \<open>bk\<close> of the
  bucket of a key.  The update handler is a log of calls.
\<close>

subsection \<open>Data\<close>

datatype access = ACCESS_UNKNOWN | ACCESS_BLOCK | ACCESS_ALLOW

datatype presence_status = PRESENCE_UNKNOWN | PRESENCE_OPEN | PRESENCE_CLOSED | PRESENCE_BUSY

record 'h hash_ops =
  hs_alloc :: "err + 'h"
  hs_append :: "u32 \<Rightarrow> nat \<Rightarrow> 'h \<Rightarrow> 'h"
  hs_unlink :: "nat \<Rightarrow> 'h \<Rightarrow> 'h"
  hs_lookup :: "'h \<Rightarrow> u32 \<Rightarrow> (nat \<Rightarrow> bool) \<Rightarrow> nat option"
  hs_joaat :: "string \<Rightarrow> u32"

record contact =
  ct_id :: nat
  ct_addr :: sip_addr
  ct_buf :: string
  ct_uri :: string
  ct_status :: presence_status
  ct_access :: access

record 'h contacts =
  cs_cl :: "contact list"
  cs_cht :: 'h
  cs_cur :: "nat option"
  cs_enable_presence :: bool
  cs_handler :: bool
  cs_calls :: "(nat \<times> bool) list"

definition cs_notify :: "nat \<Rightarrow> bool \<Rightarrow> 'h contacts \<Rightarrow> 'h contacts" where
  "cs_notify a removed cs = (if cs_handler cs then cs\<lparr>cs_calls := cs_calls cs @ [(a, removed)]\<rparr> else cs)"

subsection \<open>Operations\<close>

text \<open>The access parameter of an address.\<close>

definition contact_access :: "libre \<Rightarrow> sip_addr \<Rightarrow> err \<times> access" where
  "contact_access L addr =
     (case l_param_decode L (sa_params addr) ''access'' of
        None \<Rightarrow> (0, ACCESS_UNKNOWN)
      | Some v \<Rightarrow> if l_casecmp L (Some v) (Some ''block'') = 0 then (0, ACCESS_BLOCK)
                  else if l_casecmp L (Some v) (Some ''allow'') = 0 then (0, ACCESS_ALLOW)
                  else (EINVAL, ACCESS_UNKNOWN))"

text \<open>\<open>a\<close> is the address of the new contact.\<close>

definition contact_add ::
  "libre \<Rightarrow> 'h hash_ops \<Rightarrow> nat \<Rightarrow> 'h contacts option \<Rightarrow> string \<Rightarrow> err \<times> contact option \<times> 'h contacts option" where
  "contact_add L H a contacts addr =
     (case contacts of
        None \<Rightarrow> (EINVAL, None, None)
      | Some cs \<Rightarrow>
          if \<not> l_zalloc L then (ENOMEM, None, Some cs)
          else case str_dup L None (Some addr) of
            (_, None) \<Rightarrow> (ENOMEM, None, Some cs)
          | (_, Some buf) \<Rightarrow>
              (case l_addr_decode L buf of
                 Inl err \<Rightarrow> (err, None, Some cs)
               | Inr sa \<Rightarrow>
                   (case str_dup L None (Some (sa_auri sa)) of
                      (_, None) \<Rightarrow> (ENOMEM, None, Some cs)
                    | (_, Some u) \<Rightarrow>
                        let (err, acs) = contact_access L sa
                        in if err \<noteq> 0 then (err, None, Some cs)
                           else
                             let c = \<lparr>ct_id = a, ct_addr = sa, ct_buf = buf, ct_uri = u, ct_status = PRESENCE_UNKNOWN,
                                      ct_access = acs\<rparr>;
                                 cs = cs\<lparr>cs_cl := cs_cl cs @ [c],
                                         cs_cht := hs_append H (hs_joaat H (sa_auri sa)) a (cs_cht cs)\<rparr>
                             in (0, Some c, Some (cs_notify a False cs)))))"

definition contact_remove :: "'h hash_ops \<Rightarrow> 'h contacts option \<Rightarrow> nat option \<Rightarrow> 'h contacts option" where
  "contact_remove H contacts contact =
     (case (contacts, contact) of
        (Some cs, Some a) \<Rightarrow>
          let cs = cs_notify a True cs;
              cs = cs\<lparr>cs_cht := hs_unlink H a (cs_cht cs), cs_cl := filter (\<lambda>c. ct_id c \<noteq> a) (cs_cl cs)\<rparr>
          in Some (if cs_cur cs = Some a then cs\<lparr>cs_cur := None\<rparr> else cs)
      | _ \<Rightarrow> contacts)"

definition contact_set_update_handler :: "'h contacts option \<Rightarrow> bool \<Rightarrow> 'h contacts option" where
  "contact_set_update_handler contacts updateh = map_option (\<lambda>cs. cs\<lparr>cs_handler := updateh\<rparr>) contacts"

definition contact_addr :: "contact option \<Rightarrow> sip_addr option" where
  "contact_addr c = map_option ct_addr c"

definition contact_str :: "contact option \<Rightarrow> string option" where
  "contact_str c = map_option ct_buf c"

definition contact_uri :: "contact option \<Rightarrow> string option" where
  "contact_uri c = map_option ct_uri c"

definition contact_list :: "'h contacts option \<Rightarrow> contact list option" where
  "contact_list contacts = map_option cs_cl contacts"

definition contact_set_presence :: "nat option \<Rightarrow> presence_status \<Rightarrow> 'h contacts \<Rightarrow> 'h contacts" where
  "contact_set_presence c status cs =
     (case c of None \<Rightarrow> cs
      | Some a \<Rightarrow> cs\<lparr>cs_cl := map (\<lambda>x. if ct_id x = a then x\<lparr>ct_status := status\<rparr> else x) (cs_cl cs)\<rparr>)"

definition contact_presence :: "contact option \<Rightarrow> presence_status" where
  "contact_presence c = (case c of None \<Rightarrow> PRESENCE_UNKNOWN | Some c \<Rightarrow> ct_status c)"

definition esc_seq :: "string \<Rightarrow> string" where
  "esc_seq s = CHR 0x1b # s"

fun contact_presence_str :: "presence_status \<Rightarrow> string" where
  "contact_presence_str PRESENCE_UNKNOWN = esc_seq ''[32mUnknown'' @ esc_seq ''[;m''"
| "contact_presence_str PRESENCE_OPEN = esc_seq ''[32mOnline'' @ esc_seq ''[;m''"
| "contact_presence_str PRESENCE_CLOSED = esc_seq ''[31mOffline'' @ esc_seq ''[;m''"
| "contact_presence_str PRESENCE_BUSY = esc_seq ''[31mBusy'' @ esc_seq ''[;m''"

definition contact_print :: "'w printer \<Rightarrow> contact option \<Rightarrow> 'w \<Rightarrow> err \<times> 'w" where
  "contact_print pr cnt w =
     (case cnt of None \<Rightarrow> (0, w) | Some c \<Rightarrow> pr ''%r <%r>'' [FStr (sa_dname (ct_addr c)), FStr (sa_auri (ct_addr c))] w)"

text \<open>The loop ends at the first contact whose print fails; \<open>%H\<close> prints the contact.\<close>

fun contacts_print_loop ::
  "'w printer \<Rightarrow> nat option \<Rightarrow> bool \<Rightarrow> contact list \<Rightarrow> err \<Rightarrow> 'w \<Rightarrow> err \<times> 'w" where
  "contacts_print_loop pr cur presence [] err w = (err, w)"
| "contacts_print_loop pr cur presence (c # cs) err w =
     (if err \<noteq> 0 then (err, w)
      else
        let (e1, w) = pr ''%s '' [FStr (if Some (ct_id c) = cur then ''>'' else '' '')] w;
            (e2, w) = (if presence then pr ''%20s '' [FStr (contact_presence_str (ct_status c))] w else (0, w));
            (e3, w) = contact_print pr (Some c) w;
            (e4, w) = pr [CHR 0x0a] [] w
        in contacts_print_loop pr cur presence cs (e1 OR e2 OR (e3 OR e4)) w)"

definition contacts_print :: "'w printer \<Rightarrow> 'h contacts option \<Rightarrow> 'w \<Rightarrow> err \<times> 'w" where
  "contacts_print pr contacts w =
     (case contacts of None \<Rightarrow> (0, w)
      | Some cs \<Rightarrow>
          let (err, w) = pr ([CHR 0x0a] @ ''--- Contacts (%u) ---'' @ [CHR 0x0a]) [FNum (length (cs_cl cs))] w;
              (err, w) = contacts_print_loop pr (cs_cur cs) (cs_enable_presence cs) (cs_cl cs) err w;
              (e2, w) = pr [CHR 0x0a] [] w
          in (err OR e2, w))"

definition contact_init :: "libre \<Rightarrow> 'h hash_ops \<Rightarrow> err \<times> 'h contacts option" where
  "contact_init L H =
     (if \<not> l_zalloc L then (ENOMEM, None)
      else case hs_alloc H of
        Inl err \<Rightarrow> (err, None)
      | Inr h \<Rightarrow> (0, Some \<lparr>cs_cl = [], cs_cht = h, cs_cur = None, cs_enable_presence = False, cs_handler = False,
                          cs_calls = []\<rparr>))"

definition cs_get :: "'h contacts \<Rightarrow> nat \<Rightarrow> contact option" where
  "cs_get cs a = List.find (\<lambda>c. ct_id c = a) (cs_cl cs)"

definition find_handler :: "'h contacts \<Rightarrow> string \<Rightarrow> nat \<Rightarrow> bool" where
  "find_handler cs uri a = (case cs_get cs a of None \<Rightarrow> False | Some c \<Rightarrow> sa_auri (ct_addr c) = uri)"

definition contact_find :: "'h hash_ops \<Rightarrow> 'h contacts option \<Rightarrow> string \<Rightarrow> contact option" where
  "contact_find H contacts uri =
     (case contacts of None \<Rightarrow> None
      | Some cs \<Rightarrow> Option.bind (hs_lookup H (cs_cht cs) (hs_joaat H uri) (find_handler cs uri)) (cs_get cs))"

definition contact_block_access :: "'h hash_ops \<Rightarrow> 'h contacts option \<Rightarrow> string \<Rightarrow> bool" where
  "contact_block_access H contacts uri =
     (case contact_find H contacts uri of
        Some c \<Rightarrow>
          if ct_access c \<noteq> ACCESS_UNKNOWN then ct_access c = ACCESS_BLOCK
          else (case contact_find H contacts ''sip:*@*'' of
                  Some c \<Rightarrow> ct_access c = ACCESS_BLOCK | None \<Rightarrow> False)
      | None \<Rightarrow> (case contact_find H contacts ''sip:*@*'' of
                  Some c \<Rightarrow> ct_access c = ACCESS_BLOCK | None \<Rightarrow> False))"

definition contacts_set_current :: "'h contacts option \<Rightarrow> nat option \<Rightarrow> 'h contacts option" where
  "contacts_set_current contacts cnt =
     (case (contacts, cnt) of (Some cs, Some a) \<Rightarrow> Some (cs\<lparr>cs_cur := Some a\<rparr>) | _ \<Rightarrow> contacts)"

definition contacts_current :: "'h contacts option \<Rightarrow> contact option" where
  "contacts_current contacts =
     (case contacts of None \<Rightarrow> None | Some cs \<Rightarrow> Option.bind (cs_cur cs) (cs_get cs))"

definition contacts_enable_presence :: "'h contacts option \<Rightarrow> bool \<Rightarrow> 'h contacts option" where
  "contacts_enable_presence contacts enabled = map_option (\<lambda>cs. cs\<lparr>cs_enable_presence := enabled\<rparr>) contacts"

subsection \<open>The table behind the list\<close>

text \<open>
  The table of libre: a lookup goes through the elements of the bucket of the key in the
  order they were added, and the bucket of equal keys is the same.
\<close>

definition hash_laws :: "'h hash_ops \<Rightarrow> ('h \<Rightarrow> u32 \<Rightarrow> nat list) \<Rightarrow> (u32 \<Rightarrow> nat) \<Rightarrow> bool" where
  "hash_laws H bk ix =
     ((\<forall>h k f. hs_lookup H h k f = List.find f (bk h k)) \<and>
      (\<forall>h k x k'. bk (hs_append H k x h) k' = (if ix k = ix k' then bk h k' @ [x] else bk h k')) \<and>
      (\<forall>h x k. bk (hs_unlink H x h) k = filter (\<lambda>y. y \<noteq> x) (bk h k)) \<and>
      (\<forall>h k. hs_alloc H = Inr h \<longrightarrow> bk h k = []))"

text \<open>The operations, on an address that is not in use for a new contact.\<close>

inductive contacts_reach :: "libre \<Rightarrow> 'h hash_ops \<Rightarrow> 'h contacts \<Rightarrow> bool" for L H where
  init: "contact_init L H = (0, Some cs) \<Longrightarrow> contacts_reach L H cs"
| add: "contacts_reach L H cs \<Longrightarrow> a \<notin> ct_id ` set (cs_cl cs) \<Longrightarrow>
    contact_add L H a (Some cs) addr = (err, r, Some cs') \<Longrightarrow> contacts_reach L H cs'"
| remove: "contacts_reach L H cs \<Longrightarrow> a \<in> ct_id ` set (cs_cl cs) \<Longrightarrow>
    contact_remove H (Some cs) (Some a) = Some cs' \<Longrightarrow> contacts_reach L H cs'"
| handler: "contacts_reach L H cs \<Longrightarrow> contact_set_update_handler (Some cs) b = Some cs' \<Longrightarrow> contacts_reach L H cs'"
| presence: "contacts_reach L H cs \<Longrightarrow> contacts_reach L H (contact_set_presence c status cs)"
| current: "contacts_reach L H cs \<Longrightarrow> a \<in> ct_id ` set (cs_cl cs) \<Longrightarrow>
    contacts_set_current (Some cs) (Some a) = Some cs' \<Longrightarrow> contacts_reach L H cs'"
| enable: "contacts_reach L H cs \<Longrightarrow> contacts_enable_presence (Some cs) b = Some cs' \<Longrightarrow> contacts_reach L H cs'"

definition contacts_wf :: "'h hash_ops \<Rightarrow> ('h \<Rightarrow> u32 \<Rightarrow> nat list) \<Rightarrow> (u32 \<Rightarrow> nat) \<Rightarrow> 'h contacts \<Rightarrow> bool" where
  "contacts_wf H bk ix cs =
     (distinct (map ct_id (cs_cl cs)) \<and>
      (\<forall>k. bk (cs_cht cs) k = map ct_id (filter (\<lambda>c. ix (hs_joaat H (sa_auri (ct_addr c))) = ix k) (cs_cl cs))) \<and>
      (\<forall>a. cs_cur cs = Some a \<longrightarrow> a \<in> ct_id ` set (cs_cl cs)))"

lemma notify_simps [simp]:
  "cs_cl (cs_notify a r cs) = cs_cl cs" "cs_cht (cs_notify a r cs) = cs_cht cs" "cs_cur (cs_notify a r cs) = cs_cur cs"
  by (simp_all add: cs_notify_def)

lemma add_cases:
  assumes "contact_add L H a (Some cs) addr = (err, r, Some cs')"
  obtains "err \<noteq> 0 \<or> l_addr_decode L addr = Inl 0" "cs' = cs"
  | sa acs c where "err = 0" "r = Some c" "l_addr_decode L addr = Inr sa" "contact_access L sa = (0, acs)"
      "c = \<lparr>ct_id = a, ct_addr = sa, ct_buf = addr, ct_uri = sa_auri sa, ct_status = PRESENCE_UNKNOWN, ct_access = acs\<rparr>"
      "cs' = cs_notify a False (cs\<lparr>cs_cl := cs_cl cs @ [c],
         cs_cht := hs_append H (hs_joaat H (sa_auri sa)) a (cs_cht cs)\<rparr>)"
  using assms
  by (auto simp: contact_add_def str_dup_def Let_def split: if_splits sum.splits option.splits prod.splits)

lemma reach_wf:
  assumes "hash_laws H bk ix" "contacts_reach L H cs"
  shows "contacts_wf H bk ix cs"
  using assms(2)
proof (induction rule: contacts_reach.induct)
  case (init cs)
  then show ?case using assms(1)
    by (auto simp: contact_init_def contacts_wf_def hash_laws_def split: if_splits sum.splits)
next
  case (add cs a addr err r cs')
  show ?case
    using add.hyps(3)
  proof (cases rule: add_cases)
    case 1
    then show ?thesis using add.IH by simp
  next
    case (2 sa acs c)
    have l: "bk (hs_append H k x h) k' = (if ix k = ix k' then bk h k' @ [x] else bk h k')" for h k x k'
      using assms(1) by (simp add: hash_laws_def)
    show ?thesis using add.IH add.hyps(2) 2 by (auto simp: contacts_wf_def l)
  qed
next
  case (remove cs a cs')
  have l: "bk (hs_unlink H x h) k = filter (\<lambda>y. y \<noteq> x) (bk h k)" for h x k
    using assms(1) by (simp add: hash_laws_def)
  show ?case using remove.IH remove.hyps(3)
    by (auto simp: contact_remove_def Let_def contacts_wf_def l filter_map comp_def distinct_map inj_on_def
        conj_commute intro!: arg_cong[of _ _ "map ct_id"] filter_cong split: if_splits)
next
  case (presence cs c status)
  have m: "map ct_id (map (\<lambda>x. if ct_id x = a then x\<lparr>ct_status := status\<rparr> else x) xs) = map ct_id xs" for a xs
    by (induction xs) auto
  have f: "map ct_id (filter (\<lambda>c. ix (hs_joaat H (sa_auri (ct_addr c))) = k)
      (map (\<lambda>x. if ct_id x = a then x\<lparr>ct_status := status\<rparr> else x) xs)) =
      map ct_id (filter (\<lambda>c. ix (hs_joaat H (sa_auri (ct_addr c))) = k) xs)" for a xs k
    by (induction xs) auto
  have s: "set (map ct_id (map (\<lambda>x. if ct_id x = a then x\<lparr>ct_status := status\<rparr> else x) xs)) = set (map ct_id xs)" for a xs
    unfolding m ..
  show ?case using presence.IH
    unfolding contacts_wf_def set_map[symmetric]
    by (cases c) (simp_all add: contact_set_presence_def m f s del: map_map list.set_map set_map)
qed (auto simp: contacts_wf_def contact_set_update_handler_def contacts_set_current_def contacts_enable_presence_def)

lemma find_by_id:
  assumes "distinct (map ct_id cs)" "c \<in> set cs"
  shows "List.find (\<lambda>x. ct_id x = ct_id c) cs = Some c"
  using assms by (induction cs) (auto simp: image_iff)

lemma find_map_filter:
  assumes "distinct (map ct_id cl)" "\<And>c. c \<in> set cl \<Longrightarrow> P c \<Longrightarrow> Q c"
    and "\<And>c. c \<in> set cl \<Longrightarrow> f (ct_id c) = P c"
  shows "List.find f (map ct_id (filter Q cl)) = map_option ct_id (List.find P cl)"
  using assms by (induction cl) auto

text \<open>
  C26: The contact list behind its hash table.  In every reachable state a lookup finds the
  first contact of the list with the URI, or nothing when there is none; the current contact
  is in the list; and access is decided by the first contact with the URI when it has an access
  parameter, else by the first one for \<open>sip:*@*\<close>.
\<close>

theorem contact_find_first:
  assumes "hash_laws H bk ix" "contacts_reach L H cs"
  shows "contact_find H (Some cs) uri = List.find (\<lambda>c. sa_auri (ct_addr c) = uri) (cs_cl cs) \<and>
    (cs_cur cs \<noteq> None \<longrightarrow> (\<exists>c\<in>set (cs_cl cs). contacts_current (Some cs) = Some c)) \<and>
    contact_block_access H (Some cs) uri =
      (case List.find (\<lambda>c. sa_auri (ct_addr c) = uri) (cs_cl cs) of
         Some c \<Rightarrow> if ct_access c = ACCESS_UNKNOWN
           then (\<exists>d. List.find (\<lambda>c. sa_auri (ct_addr c) = ''sip:*@*'') (cs_cl cs) = Some d \<and> ct_access d = ACCESS_BLOCK)
           else ct_access c = ACCESS_BLOCK
       | None \<Rightarrow> (\<exists>d. List.find (\<lambda>c. sa_auri (ct_addr c) = ''sip:*@*'') (cs_cl cs) = Some d \<and> ct_access d = ACCESS_BLOCK))"
proof -
  have wf: "contacts_wf H bk ix cs" using reach_wf[OF assms] .
  have g: "cs_get cs (ct_id c) = Some c" if "c \<in> set (cs_cl cs)" for c
    unfolding cs_get_def using wf that by (intro find_by_id) (auto simp: contacts_wf_def)
  have f: "contact_find H (Some cs) u = List.find (\<lambda>c. sa_auri (ct_addr c) = u) (cs_cl cs)" for u
  proof -
    have "hs_lookup H (cs_cht cs) (hs_joaat H u) (find_handler cs u) =
        List.find (find_handler cs u) (map ct_id (filter (\<lambda>c. ix (hs_joaat H (sa_auri (ct_addr c))) = ix (hs_joaat H u)) (cs_cl cs)))"
      using assms(1) wf by (simp add: hash_laws_def contacts_wf_def)
    also have "\<dots> = map_option ct_id (List.find (\<lambda>c. sa_auri (ct_addr c) = u) (cs_cl cs))"
      using wf by (intro find_map_filter) (auto simp: contacts_wf_def find_handler_def g)
    finally have h: "hs_lookup H (cs_cht cs) (hs_joaat H u) (find_handler cs u) =
        map_option ct_id (List.find (\<lambda>c. sa_auri (ct_addr c) = u) (cs_cl cs))" .
    show ?thesis
    proof (cases "List.find (\<lambda>c. sa_auri (ct_addr c) = u) (cs_cl cs)")
      case (Some c)
      then have "c \<in> set (cs_cl cs)" by (auto simp: find_Some_iff)
      then show ?thesis using h Some g by (simp add: contact_find_def)
    qed (use h in \<open>simp add: contact_find_def\<close>)
  qed
  have "\<exists>c\<in>set (cs_cl cs). contacts_current (Some cs) = Some c" if "cs_cur cs \<noteq> None"
    using that wf g by (auto simp: contacts_current_def contacts_wf_def)
  moreover have "contact_block_access H (Some cs) uri =
      (case List.find (\<lambda>c. sa_auri (ct_addr c) = uri) (cs_cl cs) of
         Some c \<Rightarrow> if ct_access c = ACCESS_UNKNOWN
           then (\<exists>d. List.find (\<lambda>c. sa_auri (ct_addr c) = ''sip:*@*'') (cs_cl cs) = Some d \<and> ct_access d = ACCESS_BLOCK)
           else ct_access c = ACCESS_BLOCK
       | None \<Rightarrow> (\<exists>d. List.find (\<lambda>c. sa_auri (ct_addr c) = ''sip:*@*'') (cs_cl cs) = Some d \<and> ct_access d = ACCESS_BLOCK))"
    unfolding contact_block_access_def f
    by (cases "List.find (\<lambda>c. sa_auri (ct_addr c) = uri) (cs_cl cs)";
        cases "List.find (\<lambda>c. sa_auri (ct_addr c) = ''sip:*@*'') (cs_cl cs)"; simp only: option.case) auto
  ultimately show ?thesis using f[of uri] by blast
qed

text \<open>A table with a single bucket per key, and two contacts with the same URI.\<close>

definition ref_hash :: "(u32 \<times> nat) list hash_ops" where
  "ref_hash = \<lparr>hs_alloc = Inr [], hs_append = (\<lambda>k x h. h @ [(k, x)]), hs_unlink = (\<lambda>x h. filter (\<lambda>p. snd p \<noteq> x) h),
     hs_lookup = (\<lambda>h k f. List.find f (map snd (filter (\<lambda>p. fst p = k) h))), hs_joaat = (\<lambda>s. of_nat (length s))\<rparr>"


lemma ref_hash_laws: "hash_laws ref_hash (\<lambda>h k. map snd (filter (\<lambda>p. fst p = k) h)) unat"
proof -
  have u: "map snd (filter (\<lambda>p. fst p = k) (filter (\<lambda>p. snd p \<noteq> x) h)) =
      filter (\<lambda>y. y \<noteq> x) (map snd (filter (\<lambda>p. fst p = k) h))" for h :: "(u32 \<times> nat) list" and k x
    by (induction h) auto
  show ?thesis by (auto simp: hash_laws_def ref_hash_def u dest: word_unat_eq_iff[THEN iffD2] simp del: filter_filter)
qed

definition ref_contacts :: "(u32 \<times> nat) list contacts" where
  "ref_contacts = the (snd (snd (contact_add ref_libre ref_hash 2
     (snd (snd (contact_add ref_libre ref_hash 1 (snd (contact_init ref_libre ref_hash)) ''sip:a@b''))) ''sip:a@b'')))"

theorem contact_find_first_witness:
  "contacts_reach ref_libre ref_hash ref_contacts \<and> map ct_id (cs_cl ref_contacts) = [1, 2] \<and>
   map_option ct_id (contact_find ref_hash (Some ref_contacts) ''sip:a@b'') = Some 1"
proof -
  obtain c0 where 0: "contact_init ref_libre ref_hash = (0, Some c0)" "cs_cl c0 = []"
    by (auto simp: contact_init_def ref_libre_def ref_hash_def)
  obtain x1 c1 where 1: "contact_add ref_libre ref_hash 1 (Some c0) ''sip:a@b'' = (0, x1, Some c1)"
      "map (\<lambda>c. (ct_id c, sa_auri (ct_addr c))) (cs_cl c1) = [(1, ''sip:a@b'')]"
    using 0 by (auto simp: contact_add_def ref_libre_def str_dup_def contact_access_def Let_def null_addr_def)
  obtain x2 c2 where 2: "contact_add ref_libre ref_hash 2 (Some c1) ''sip:a@b'' = (0, x2, Some c2)"
      "map (\<lambda>c. (ct_id c, sa_auri (ct_addr c))) (cs_cl c2) = [(1, ''sip:a@b''), (2, ''sip:a@b'')]"
    using 1 by (auto simp: contact_add_def ref_libre_def str_dup_def contact_access_def Let_def null_addr_def)
  have c: "ref_contacts = c2" unfolding ref_contacts_def 0(1) snd_conv 1(1) 2(1) option.sel ..
  have "contacts_reach ref_libre ref_hash c1"
    using 0 by (intro contacts_reach.add[OF contacts_reach.init[OF 0(1)] _ 1(1)]) simp
  moreover have "2 \<notin> ct_id ` set (cs_cl c1)" using arg_cong[OF 1(2), of "map fst"] by (auto simp: map_eq_Cons_conv)
  ultimately have r: "contacts_reach ref_libre ref_hash c2" by (rule contacts_reach.add[OF _ _ 2(1)])
  have "map_option ct_id (List.find (\<lambda>c. sa_auri (ct_addr c) = ''sip:a@b'') (cs_cl c2)) = Some 1"
    using 2(2) by (auto simp: map_eq_Cons_conv)
  then have "map_option ct_id (contact_find ref_hash (Some c2) ''sip:a@b'') = Some 1"
    using contact_find_first[OF ref_hash_laws r, of "''sip:a@b''"] by simp
  moreover have "map ct_id (cs_cl c2) = [1, 2]" using 2(2) by (auto simp: map_eq_Cons_conv)
  ultimately show ?thesis using r by (simp add: c)
qed

end
