(* ===== verification/Reg.thy ===== *)
theory Reg
  imports Account Event
begin

text \<open>
  The register client, \<open>src/reg.c\<close>.

  The SIP register client of libre is abstract (\<open>'s\<close>); its functions are the fields of
  \<open>sipreg_ops\<close>, with None for the NULL client.  The handler returns what it does to the
  user agent: its public GRUU and the event it sends.
\<close>

subsection \<open>Data\<close>

record sreg_req =
  sq_uri :: string
  sq_to :: "string option"
  sq_dname :: "string option"
  sq_from :: "string option"
  sq_expires :: u32
  sq_cuser :: "string option"
  sq_route :: "string list"
  sq_regid :: int
  sq_params :: "string option"

record 's sipreg_ops =
  sr_register :: "sreg_req \<Rightarrow> err + 's"
  sr_failed :: "'s option \<Rightarrow> bool"
  sr_registered :: "'s \<Rightarrow> bool"
  sr_set_rwait :: "'s \<Rightarrow> u32 \<Rightarrow> err \<times> 's"
  sr_set_fbregint :: "'s \<Rightarrow> u32 \<Rightarrow> err \<times> 's"
  sr_incfailc :: "'s \<Rightarrow> 's"
  sr_expires :: "'s option \<Rightarrow> u32"

record 's reg =
  rg_sipreg :: "'s option"
  rg_id :: int
  rg_regint :: int
  rg_scode :: u16
  rg_srv :: "string option"
  rg_af :: int

text \<open>The local addresses of the sockets a message came through.\<close>

record reg_net =
  rn_udp_local :: "sip_msg \<Rightarrow> err + int"
  rn_tcp_local :: "sip_msg \<Rightarrow> err + int"

datatype reg_out =
    RoGruu string
  | RoEvent ua_event "string option"

subsection \<open>Operations\<close>

definition sipmsg_af :: "reg_net \<Rightarrow> sip_msg option \<Rightarrow> int" where
  "sipmsg_af N msg =
     (case msg of
        None \<Rightarrow> 0
      | Some m \<Rightarrow>
          (case (if sm_tp m = SIP_TRANSP_UDP then Some (rn_udp_local N m)
                 else if sm_tp m \<in> {SIP_TRANSP_TCP, SIP_TRANSP_TLS, SIP_TRANSP_WS, SIP_TRANSP_WSS}
                 then Some (rn_tcp_local N m) else None) of
             Some (Inr af) \<Rightarrow> af
           | _ \<Rightarrow> 0))"

text \<open>\<open>AF_INET\<close> is 2 and \<open>AF_INET6\<close> is 10.\<close>

definition af_name :: "int \<Rightarrow> string" where
  "af_name af = (if af = 2 then ''v4'' else if af = 10 then ''v6'' else ''v?'')"

definition contact_handler :: "libre \<Rightarrow> string option \<Rightarrow> string \<Rightarrow> bool" where
  "contact_handler L cuser v =
     (case l_addr_decode L v of Inl _ \<Rightarrow> False | Inr addr \<Rightarrow> l_casecmp L (Some (u_user (sa_uri addr))) cuser = 0)"

text \<open>
  The response of the registrar; \<open>msg\<close> is None when the request ended with an error.
\<close>

definition register_ok :: "libre \<Rightarrow> reg_net \<Rightarrow> string option \<Rightarrow> sip_msg \<Rightarrow> 's reg \<Rightarrow> 's reg \<times> reg_out list" where
  "register_ok L N cuser msg reg =
     (let evok = (if rg_regint reg \<noteq> 0 then UA_EVENT_REGISTER_OK else UA_EVENT_FALLBACK_OK);
          reg = reg\<lparr>rg_af := sipmsg_af N (Some msg), rg_scode := sm_scode msg\<rparr>;
          gruu = (case sip_msg_hdr_apply msg SIP_HDR_CONTACT (contact_handler L cuser) of
                    None \<Rightarrow> []
                  | Some v \<Rightarrow> (case l_addr_decode L v of
                                 Inl _ \<Rightarrow> []
                               | Inr addr \<Rightarrow> (case l_param_decode L (sa_params addr) ''pub-gruu'' of
                                               None \<Rightarrow> [] | Some g \<Rightarrow> [RoGruu g])))
      in (reg, gruu @ [RoEvent evok (l_snprintf L 256 (Some ''%u %r'') [FNum (unat (sm_scode msg)), FStr (sm_reason msg)])]))"

definition register_handler ::
  "libre \<Rightarrow> reg_net \<Rightarrow> string option \<Rightarrow> err \<Rightarrow> sip_msg \<Rightarrow> 's reg \<Rightarrow> 's reg \<times> reg_out list" where
  "register_handler L N cuser err msg reg =
     (let evfail = (if rg_regint reg \<noteq> 0 then UA_EVENT_REGISTER_FAIL else UA_EVENT_FALLBACK_FAIL)
      in if err \<noteq> 0
         then (reg\<lparr>rg_scode := 999\<rparr>, [RoEvent evfail (l_snprintf L 256 (Some ''%m'') [FErr err])])
         else
           let reg = (case sip_msg_hdr msg SIP_HDR_SERVER of
                        None \<Rightarrow> reg | Some v \<Rightarrow> reg\<lparr>rg_srv := snd (str_dup L None (Some v))\<rparr>)
           in if 200 \<le> sm_scode msg \<and> sm_scode msg \<le> 299 then register_ok L N cuser msg reg
              else if sm_scode msg \<ge> 300
              then (reg\<lparr>rg_scode := sm_scode msg\<rparr>,
                    [RoEvent evfail (l_snprintf L 256 (Some ''%u %r'')
                       [FNum (unat (sm_scode msg)), FStr (sm_reason msg)])])
              else (reg, []))"

definition reg_add :: "libre \<Rightarrow> 's reg list \<Rightarrow> int \<Rightarrow> err \<times> 's reg list" where
  "reg_add L lst regid =
     (if \<not> l_zalloc L then (ENOMEM, lst)
      else (0, lst @ [\<lparr>rg_sipreg = None, rg_id = regid, rg_regint = 0, rg_scode = 0, rg_srv = None, rg_af = 0\<rparr>]))"

text \<open>
  \<open>acc\<close> and \<open>cuser\<close> belong to the user agent.  The result of \<open>sipreg_set_rwait\<close> is lost when
  the account has a fallback interval.
\<close>

definition reg_register ::
  "'s sipreg_ops \<Rightarrow> account \<Rightarrow> string option \<Rightarrow> 's reg \<Rightarrow> string option \<Rightarrow> string \<Rightarrow> u32 \<Rightarrow> string option \<Rightarrow> err \<times> 's reg" where
  "reg_register S acc cuser reg reg_uri params regint outbound =
     (case reg_uri of
        None \<Rightarrow> (EINVAL, reg)
      | Some uri \<Rightarrow>
          let reg = reg\<lparr>rg_scode := 0, rg_regint := sint regint\<rparr>;
              failed = sr_failed S (rg_sipreg reg);
              reg = reg\<lparr>rg_sipreg := None\<rparr>
          in case sr_register S \<lparr>sq_uri = uri, sq_to = acc_aor acc, sq_dname = acc_dispname acc,
                   sq_from = acc_aor acc, sq_expires = regint, sq_cuser = cuser,
                   sq_route = (case outbound of None \<Rightarrow> [] | Some r \<Rightarrow> [r]), sq_regid = rg_id reg,
                   sq_params = (if params = [] then None else Some (tl params))\<rparr> of
               Inl err \<Rightarrow> (err, reg)
             | Inr s \<Rightarrow>
                 let (err, s) = (if acc_rwait acc \<noteq> 0 then sr_set_rwait S s (acc_rwait acc) else (0, s));
                     (err, s) = (if acc_fbregint acc \<noteq> 0 then sr_set_fbregint S s (acc_fbregint acc) else (err, s));
                     s = (if failed then sr_incfailc S s else s)
                 in (err, reg\<lparr>rg_sipreg := Some s\<rparr>))"

definition reg_unregister :: "'s reg \<Rightarrow> 's reg" where
  "reg_unregister reg = reg\<lparr>rg_scode := 0, rg_af := 0, rg_sipreg := None\<rparr>"

definition reg_isok :: "'s sipreg_ops \<Rightarrow> 's reg \<Rightarrow> bool" where
  "reg_isok S reg = (case rg_sipreg reg of None \<Rightarrow> False | Some s \<Rightarrow> sr_registered S s)"

definition reg_failed :: "'s sipreg_ops \<Rightarrow> 's reg \<Rightarrow> bool" where
  "reg_failed S reg = (case rg_sipreg reg of None \<Rightarrow> False | Some s \<Rightarrow> sr_failed S (Some s))"

definition print_scode :: "u16 \<Rightarrow> string" where
  "print_scode scode =
     (if scode = 0 then [CHR 0x1b] @ ''[33mzzz'' @ [CHR 0x1b] @ ''[;m''
      else if scode = 200 then [CHR 0x1b] @ ''[32mOK '' @ [CHR 0x1b] @ ''[;m''
      else [CHR 0x1b] @ ''[31mERR'' @ [CHR 0x1b] @ ''[;m'')"

definition reg_debug :: "'w printer \<Rightarrow> 's reg option \<Rightarrow> 'w \<Rightarrow> err \<times> 'w" where
  "reg_debug pr reg w =
     (case reg of None \<Rightarrow> (0, w)
      | Some r \<Rightarrow>
          let nl = [CHR 0x0a]
          in print_all pr
               [(nl @ ''Register client:'' @ nl, []),
                ('' id:     %d'' @ nl, [FErr (rg_id r)]),
                ('' scode:  %u (%s)'' @ nl, [FNum (unat (rg_scode r)), FStr (print_scode (rg_scode r))]),
                ('' srv:    %s'' @ nl, [FStr (str_of (rg_srv r))]),
                ('' af:     %s'' @ nl, [FStr (af_name (rg_af r))])] 0 w)"

definition reg_json_api :: "'od od_add \<Rightarrow> 's sipreg_ops \<Rightarrow> 'od \<Rightarrow> 's reg option \<Rightarrow> err \<times> 'od" where
  "reg_json_api add S od reg =
     (case reg of None \<Rightarrow> (0, od)
      | Some r \<Rightarrow>
          od_all add od
            ([(''id'', OdInt (rg_id r)), (''state'', OdBool (reg_isok S r)), (''code'', OdInt (uint (rg_scode r)))] @
             (case rg_srv r of None \<Rightarrow> [] | Some s \<Rightarrow> [(''srv'', OdStr (Some s))]) @
             [(''ipv'', OdStr (Some (af_name (rg_af r))))]) 0)"

definition reg_status :: "'w printer \<Rightarrow> 's sipreg_ops \<Rightarrow> 's reg option \<Rightarrow> 'w \<Rightarrow> err \<times> 'w" where
  "reg_status pr S reg w =
     (case reg of None \<Rightarrow> (0, w)
      | Some r \<Rightarrow> pr '' %s %s Expires %us'' [FStr (print_scode (rg_scode r)), FStr (str_of (rg_srv r)),
                    FNum (unat (sr_expires S (rg_sipreg r)))] w)"

definition reg_af :: "'s reg option \<Rightarrow> int" where
  "reg_af reg = (case reg of None \<Rightarrow> 0 | Some r \<Rightarrow> rg_af r)"

subsection \<open>What a response reports\<close>

definition reg_event :: "reg_out \<Rightarrow> ua_event list" where
  "reg_event x = (case x of RoEvent ev _ \<Rightarrow> [ev] | RoGruu _ \<Rightarrow> [])"

text \<open>
  The result of a registration.  A final response, or an error of the request, makes one
  event, and it is a success exactly for a 2xx response; the event is one of the fallback
  events when the request had no interval; the status of the client is the code of the
  response, 999 after an error; a provisional response reports nothing and leaves the status.
\<close>

theorem registration_reported:
  "let (reg', out) = register_handler L N cuser err msg reg;
       ok = (err = 0 \<and> 200 \<le> sm_scode msg \<and> sm_scode msg < 300);
       final = (err \<noteq> 0 \<or> sm_scode msg \<ge> 200)
   in concat (map reg_event out) =
        (if \<not> final then []
         else [if rg_regint reg \<noteq> 0 then (if ok then UA_EVENT_REGISTER_OK else UA_EVENT_REGISTER_FAIL)
               else (if ok then UA_EVENT_FALLBACK_OK else UA_EVENT_FALLBACK_FAIL)]) \<and>
      rg_scode reg' = (if err \<noteq> 0 then 999 else if final then sm_scode msg else rg_scode reg) \<and>
      rg_sipreg reg' = rg_sipreg reg \<and>
      {g. RoGruu g \<in> set out} \<subseteq> (if ok then UNIV else {})"
proof -
  have w: "(x :: u16) \<le> 299 \<longleftrightarrow> x < 300" "300 \<le> x \<longleftrightarrow> \<not> x < 300"
      "\<not> 200 \<le> x \<Longrightarrow> x < 300" for x
    by (simp_all add: word_le_nat_alt word_less_nat_alt, linarith+)
  have r: "rg_regint (case o1 of None \<Rightarrow> reg | Some v \<Rightarrow> reg\<lparr>rg_srv := f v\<rparr>) = rg_regint reg"
      "rg_sipreg (case o1 of None \<Rightarrow> reg | Some v \<Rightarrow> reg\<lparr>rg_srv := f v\<rparr>) = rg_sipreg reg"
      "rg_scode (case o1 of None \<Rightarrow> reg | Some v \<Rightarrow> reg\<lparr>rg_srv := f v\<rparr>) = rg_scode reg" for o1 f
    by (simp_all split: option.split)
  have g: "concat (map reg_event (case o1 of None \<Rightarrow> [] | Some v \<Rightarrow>
      (case F v of Inl e \<Rightarrow> [] | Inr addr \<Rightarrow> (case G addr of None \<Rightarrow> [] | Some g \<Rightarrow> [RoGruu g])))) = []" for o1 F G
    by (auto simp: reg_event_def split: option.split sum.split)
  show ?thesis
    unfolding register_handler_def register_ok_def Let_def
    by (auto simp: w r g reg_event_def split: if_split)
qed


definition ref_answer :: "u16 \<Rightarrow> sip_msg" where
  "ref_answer sc = \<lparr>sm_met = [], sm_scode = sc, sm_reason = ''OK'', sm_uri_user = [], sm_from_auri = [],
     sm_from_dname = [], sm_to_auri = [], sm_ctype = ([], []), sm_ctype_params = [], sm_hdrs = (\<lambda>i. []),
     sm_xhdr = (\<lambda>n. None), sm_mb = mbuf_of [], sm_tp = SIP_TRANSP_UDP\<rparr>"

definition ref_reg :: "unit reg" where
  "ref_reg = \<lparr>rg_sipreg = Some (), rg_id = 0, rg_regint = 60, rg_scode = 0, rg_srv = None, rg_af = 0\<rparr>"

definition ref_regnet :: reg_net where
  "ref_regnet = \<lparr>rn_udp_local = (\<lambda>m. Inr 2), rn_tcp_local = (\<lambda>m. Inr 2)\<rparr>"

theorem registration_reported_witness:
  "concat (map reg_event (snd (register_handler ref_libre ref_regnet None 0 (ref_answer 200) ref_reg))) = [UA_EVENT_REGISTER_OK] \<and>
   rg_scode (fst (register_handler ref_libre ref_regnet None 0 (ref_answer 200) ref_reg)) = 200 \<and>
   concat (map reg_event (snd (register_handler ref_libre ref_regnet None 0 (ref_answer 100) ref_reg))) = []"
  using registration_reported[of ref_libre ref_regnet None 0 "ref_answer 200" ref_reg]
    registration_reported[of ref_libre ref_regnet None 0 "ref_answer 100" ref_reg]
  by (simp add: case_prod_beta ref_answer_def ref_reg_def Let_def)

end
