(* ===== verification/Ua.thy ===== *)
theory Ua
  imports Call Contact Reg
begin

text \<open>
  The user agent, \<open>src/ept.c\<close>, first part: its state, registration, and its calls.

  The global state \<open>uag\<close> holds the user agents in the order of the list, each with its
  address.  A user agent holds its calls in the same way; the last one is the current call.
  What happens outside is the log \<open>ug_out\<close>: events, SIP replies, released calls.  A released
  call is kept in \<open>ug_freed\<close>, as its destructor leaves it; nothing reads it.

  A step of a call (\<open>Call\<close>) logs the handlers it calls; \<open>ua_run_call\<close> runs the handlers of the
  user agent behind that log.  The handlers that can release the call are called last, so it does not
  matter that they run after the step.  (They answer or resume calls, which calls no handler but events.)

  The network is the address of each family that is available; the address families are 2
  (\<open>AF_INET\<close>) and 10 (\<open>AF_INET6\<close>), 0 is \<open>AF_UNSPEC\<close>.
\<close>

subsection \<open>Data\<close>

datatype ua_out =
    UoEvent "nat option" ua_event "nat option" "string option"
  | UoCallFree nat
  | UoTreply u16 string
  | UoBadExtension string
  | UoOptionsReply "u8 list option"
  | UoSubscribe nat
  | UoSipReq string string
  | UoSipClose bool
  | UoSessCloseAll
  | UoTranspFlush
  | UoTransp sip_transp bool
  | UoTlsAlloc "string option"
  | UoTlsCa string
  | UoListen nat
  | UoNetCheck
  | UoExit

record ('p, 'm, 'j, 'a, 'au, 'vi, 's) ua =
  ua_acc :: account
  ua_regl :: "'s reg list"
  ua_calls :: "(nat \<times> ('p, 'm, 'j, 'a, 'au, 'vi) call) list"
  ua_extensionv :: "string list"
  ua_cuser_f :: "string option"
  ua_pub_gruu :: "string option"
  ua_af_media :: int
  ua_my_status :: presence_status
  ua_catchall :: bool
  ua_hdr_filter :: "string list"
  ua_custom_hdrs :: "(string \<times> string) list"

record config_sip =
  cs_uuid :: string
  cs_local :: string
  cs_cert :: string
  cs_cafile :: string

record ('p, 'm, 'j, 'a, 'au, 'vi, 's) uag =
  ug_cfg :: "config_sip option"
  ug_ual :: "(nat \<times> ('p, 'm, 'j, 'a, 'au, 'vi, 's) ua) list"
  ug_sip :: bool
  ug_lsnr :: bool
  ug_sock :: bool
  ug_evsock :: bool
  ug_ua_cur :: "nat option"
  ug_use_udp :: bool
  ug_use_tcp :: bool
  ug_use_tls :: bool
  ug_delayed_close :: bool
  ug_subh :: bool
  ug_exith :: bool
  ug_eprm :: "string option"
  ug_tls :: bool
  ug_freed :: "(nat \<times> ('p, 'm, 'j, 'a, 'au, 'vi) call) list"
  ug_out :: "ua_out list"

text \<open>
  The environment.  \<open>ue_snprintf\<close> is \<open>re_snprintf\<close> where its result is tested (None when it is
  negative), \<open>ue_print\<close> prints into a buffer, \<open>ue_ret\<close> is the result of the last call in the log.
\<close>

record ('p, 'm, 'j, 'a, 'au, 'vi, 's, 'h) ua_env =
  ue_libre :: libre
  ue_call :: "('p, 'm, 'j, 'a, 'au, 'vi) call_env"
  ue_sipreg :: "'s sipreg_ops"
  ue_regnet :: reg_net
  ue_hash :: "'h hash_ops"
  ue_contacts :: "'h contacts option"
  ue_config :: call_config
  ue_af_enabled :: "int \<Rightarrow> bool"
  ue_laddr :: "int \<Rightarrow> 'a option"
  ue_audio_alloc :: "('p, 'm, 'j, 'a, 'au, 'vi) call \<Rightarrow> bool \<Rightarrow> err + ('au \<times> ('m, 'j, 'a) strm)"
  ue_video_alloc :: "('p, 'm, 'j, 'a, 'au, 'vi) call \<Rightarrow> bool \<Rightarrow> err + ('vi \<times> ('m, 'j, 'a) strm)"
  ue_sdp0 :: "'a option \<Rightarrow> 'p"
  ue_snprintf :: "nat \<Rightarrow> string \<Rightarrow> fmt_arg list \<Rightarrow> string option"
  ue_print :: "string printer"
  ue_mbuf_alloc :: bool
  ue_is_ip :: "string \<Rightarrow> bool"
  ue_ret :: "ua_out list \<Rightarrow> err"
  ue_ptr_str :: "nat \<Rightarrow> string"

definition ug_emit :: "ua_out \<Rightarrow> ('p, 'm, 'j, 'a, 'au, 'vi, 's) uag \<Rightarrow> ('p, 'm, 'j, 'a, 'au, 'vi, 's) uag" where
  "ug_emit x g = g\<lparr>ug_out := ug_out g @ [x]\<rparr>"

definition ug_call ::
  "('p, 'm, 'j, 'a, 'au, 'vi, 's, 'h) ua_env \<Rightarrow> ua_out \<Rightarrow> ('p, 'm, 'j, 'a, 'au, 'vi, 's) uag
     \<Rightarrow> err \<times> ('p, 'm, 'j, 'a, 'au, 'vi, 's) uag" where
  "ug_call E x g = (ue_ret E (ug_out g @ [x]), ug_emit x g)"

definition ua_get :: "('p, 'm, 'j, 'a, 'au, 'vi, 's) uag \<Rightarrow> nat \<Rightarrow> ('p, 'm, 'j, 'a, 'au, 'vi, 's) ua option" where
  "ua_get g u = map_of (ug_ual g) u"

definition assoc_upd :: "nat \<Rightarrow> ('x \<Rightarrow> 'x) \<Rightarrow> (nat \<times> 'x) list \<Rightarrow> (nat \<times> 'x) list" where
  "assoc_upd k f = map (\<lambda>(k', x). (k', if k' = k then f x else x))"

definition ua_upd ::
  "nat \<Rightarrow> (('p, 'm, 'j, 'a, 'au, 'vi, 's) ua \<Rightarrow> ('p, 'm, 'j, 'a, 'au, 'vi, 's) ua)
     \<Rightarrow> ('p, 'm, 'j, 'a, 'au, 'vi, 's) uag \<Rightarrow> ('p, 'm, 'j, 'a, 'au, 'vi, 's) uag" where
  "ua_upd u f g = g\<lparr>ug_ual := assoc_upd u f (ug_ual g)\<rparr>"

definition ug_event ::
  "('p, 'm, 'j, 'a, 'au, 'vi, 's, 'h) ua_env \<Rightarrow> nat option \<Rightarrow> ua_event \<Rightarrow> nat option \<Rightarrow> string option \<Rightarrow> fmt_arg list
     \<Rightarrow> ('p, 'm, 'j, 'a, 'au, 'vi, 's) uag \<Rightarrow> ('p, 'm, 'j, 'a, 'au, 'vi, 's) uag" where
  "ug_event E u ev call fmt args g = ug_emit (UoEvent u ev call (l_snprintf (ue_libre E) 256 fmt args)) g"

subsection \<open>Registration\<close>

definition ua_outboundv :: "account \<Rightarrow> nat \<Rightarrow> string option" where
  "ua_outboundv acc i = [acc_outbound1 acc, acc_outbound2 acc] ! i"

text \<open>A piece of the parameters, printed behind what is there into the 256 bytes.\<close>

definition reg_param ::
  "('p, 'm, 'j, 'a, 'au, 'vi, 's, 'h) ua_env \<Rightarrow> string \<Rightarrow> fmt_arg list \<Rightarrow> string \<Rightarrow> string option" where
  "reg_param E fmt args params = map_option ((@) params) (ue_snprintf E (256 - length params) fmt args)"

definition register_params ::
  "('p, 'm, 'j, 'a, 'au, 'vi, 's, 'h) ua_env \<Rightarrow> config_sip option \<Rightarrow> account \<Rightarrow> string option" where
  "register_params E cfg acc =
     Option.bind
       (Option.bind
         (case cfg of
            None \<Rightarrow> Some []
          | Some c \<Rightarrow> if cs_uuid c \<noteq> []
                      then reg_param E ('';+sip.instance='' @ [CHR 0x22] @ ''<urn:uuid:%s>'' @ [CHR 0x22]) [FStr (cs_uuid c)] []
                      else Some [])
         (\<lambda>ps. case acc_regq acc of None \<Rightarrow> Some ps | Some q \<Rightarrow> reg_param E '';q=%s'' [FStr q] ps))
       (\<lambda>ps. case acc_mnat acc of
               None \<Rightarrow> Some ps
             | Some m \<Rightarrow> (case mn_ftag m of None \<Rightarrow> Some ps | Some ft \<Rightarrow> reg_param E '';%s'' [FStr ft] ps))"

text \<open>
  The register clients in the order of the list: the \<open>i\<close>-th client goes to the \<open>i\<close>-th outbound
  proxy of the account.  The loop ends at the first error.
\<close>

fun register_loop ::
  "('p, 'm, 'j, 'a, 'au, 'vi, 's, 'h) ua_env \<Rightarrow> account \<Rightarrow> string option \<Rightarrow> string \<Rightarrow> string \<Rightarrow> bool \<Rightarrow> nat \<Rightarrow> 's reg list
     \<Rightarrow> err \<times> 's reg list" where
  "register_loop E acc cuser reg_uri params fallback i [] = (0, [])"
| "register_loop E acc cuser reg_uri params fallback i (reg # regl) =
     (let (err, reg) = reg_register (ue_sipreg E) acc cuser reg (Some reg_uri) params
                         (if fallback then 0 else acc_regint acc) (ua_outboundv acc i)
      in if err \<noteq> 0 then (err, reg # regl)
         else
           let (err, regl) = register_loop E acc cuser reg_uri params fallback (Suc i) regl
           in (err, reg # regl))"

definition start_register ::
  "('p, 'm, 'j, 'a, 'au, 'vi, 's, 'h) ua_env \<Rightarrow> nat \<Rightarrow> bool \<Rightarrow> ('p, 'm, 'j, 'a, 'au, 'vi, 's) uag
     \<Rightarrow> err \<times> ('p, 'm, 'j, 'a, 'au, 'vi, 's) uag" where
  "start_register E u fallback g =
     (case ua_get g u of
        None \<Rightarrow> (EINVAL, g)
      | Some ua \<Rightarrow>
          let acc = ua_acc ua
          in if acc_regint acc = 0 then (0, g)
             else
               let reg_uri = l_uri_encode (ue_libre E) ((acc_luri acc)\<lparr>u_user := [], u_password := []\<rparr>)
               in if \<not> l_dup (ue_libre E) reg_uri then (ENOMEM, g)
                  else case register_params E (ug_cfg g) acc of
                    None \<Rightarrow> (ENOMEM, g)
                  | Some params \<Rightarrow>
                      let g = (if \<not> fallback then ug_event E (Some u) UA_EVENT_REGISTERING None None [] g else g);
                          (err, regl) = register_loop E acc (ua_cuser_f ua) reg_uri params fallback 0 (ua_regl ua);
                          g = ua_upd u (\<lambda>ua. ua\<lparr>ua_regl := regl\<rparr>) g;
                          g = (if err \<noteq> 0
                               then ug_event E (Some u) (if fallback then UA_EVENT_FALLBACK_FAIL else UA_EVENT_REGISTER_FAIL)
                                      None (Some ''%m'') [FErr err] g
                               else g)
                      in (err, g))"

definition ua_register where "ua_register E u g = start_register E u False g"

definition ua_fallback ::
  "('p, 'm, 'j, 'a, 'au, 'vi, 's, 'h) ua_env \<Rightarrow> nat \<Rightarrow> ('p, 'm, 'j, 'a, 'au, 'vi, 's) uag
     \<Rightarrow> err \<times> ('p, 'm, 'j, 'a, 'au, 'vi, 's) uag" where
  "ua_fallback E u g =
     (case ua_get g u of
        None \<Rightarrow> (0, g)
      | Some ua \<Rightarrow> if acc_fbregint (ua_acc ua) = 0 then (0, g) else start_register E u True g)"

definition ua_unregister ::
  "('p, 'm, 'j, 'a, 'au, 'vi, 's, 'h) ua_env \<Rightarrow> nat \<Rightarrow> ('p, 'm, 'j, 'a, 'au, 'vi, 's) uag
     \<Rightarrow> ('p, 'm, 'j, 'a, 'au, 'vi, 's) uag" where
  "ua_unregister E u g =
     (case ua_get g u of
        None \<Rightarrow> g
      | Some ua \<Rightarrow>
          let g = (if ua_regl ua \<noteq> [] then ug_event E (Some u) UA_EVENT_UNREGISTERING None None [] g else g)
          in ua_upd u (\<lambda>ua. ua\<lparr>ua_regl := map reg_unregister (ua_regl ua)\<rparr>) g)"

definition ua_isregistered :: "'s sipreg_ops \<Rightarrow> ('p, 'm, 'j, 'a, 'au, 'vi, 's) ua option \<Rightarrow> bool" where
  "ua_isregistered S ua = (case ua of None \<Rightarrow> False | Some ua \<Rightarrow> \<exists>reg\<in>set (ua_regl ua). reg_isok S reg)"

definition ua_regfailed :: "'s sipreg_ops \<Rightarrow> ('p, 'm, 'j, 'a, 'au, 'vi, 's) ua option \<Rightarrow> bool" where
  "ua_regfailed S ua = (case ua of None \<Rightarrow> False | Some ua \<Rightarrow> \<forall>reg\<in>set (ua_regl ua). reg_failed S reg)"

text \<open>What a response of the registrar does to the user agent (\<open>ua_pub_gruu_set\<close> and its event).\<close>

definition ua_pub_gruu_set :: "libre \<Rightarrow> ('p, 'm, 'j, 'a, 'au, 'vi, 's) ua \<Rightarrow> string \<Rightarrow> ('p, 'm, 'j, 'a, 'au, 'vi, 's) ua" where
  "ua_pub_gruu_set L ua pval = ua\<lparr>ua_pub_gruu := snd (str_dup L None (Some pval))\<rparr>"

fun ua_reg_out ::
  "('p, 'm, 'j, 'a, 'au, 'vi, 's, 'h) ua_env \<Rightarrow> nat \<Rightarrow> reg_out \<Rightarrow> ('p, 'm, 'j, 'a, 'au, 'vi, 's) uag
     \<Rightarrow> ('p, 'm, 'j, 'a, 'au, 'vi, 's) uag" where
  "ua_reg_out E u (RoGruu v) g = ua_upd u (\<lambda>ua. ua_pub_gruu_set (ue_libre E) ua v) g"
| "ua_reg_out E u (RoEvent ev t) g = ug_emit (UoEvent (Some u) ev None t) g"

definition ua_reg_response ::
  "('p, 'm, 'j, 'a, 'au, 'vi, 's, 'h) ua_env \<Rightarrow> nat \<Rightarrow> nat \<Rightarrow> err \<Rightarrow> sip_msg \<Rightarrow> ('p, 'm, 'j, 'a, 'au, 'vi, 's) uag
     \<Rightarrow> ('p, 'm, 'j, 'a, 'au, 'vi, 's) uag" where
  "ua_reg_response E u i err msg g =
     (case ua_get g u of
        None \<Rightarrow> g
      | Some ua \<Rightarrow>
          if i < length (ua_regl ua)
          then
            let (reg, out) = register_handler (ue_libre E) (ue_regnet E) (ua_cuser_f ua) err msg (ua_regl ua ! i)
            in fold (ua_reg_out E u) out (ua_upd u (\<lambda>ua. ua\<lparr>ua_regl := (ua_regl ua)[i := reg]\<rparr>) g)
          else g)"

subsection \<open>The calls of a user agent\<close>

definition ua_call_get ::
  "('p, 'm, 'j, 'a, 'au, 'vi, 's) uag \<Rightarrow> nat \<Rightarrow> nat \<Rightarrow> ('p, 'm, 'j, 'a, 'au, 'vi) call option" where
  "ua_call_get g u x = Option.bind (ua_get g u) (\<lambda>ua. map_of (ua_calls ua) x)"

definition ua_call_put ::
  "nat \<Rightarrow> nat \<Rightarrow> ('p, 'm, 'j, 'a, 'au, 'vi) call \<Rightarrow> ('p, 'm, 'j, 'a, 'au, 'vi, 's) uag
     \<Rightarrow> ('p, 'm, 'j, 'a, 'au, 'vi, 's) uag" where
  "ua_call_put u x c g = ua_upd u (\<lambda>ua. ua\<lparr>ua_calls := assoc_upd x (\<lambda>_. c) (ua_calls ua)\<rparr>) g"

text \<open>The last reference to a call is dropped: its destructor stops the streams and the timers.\<close>

definition call_destructor ::
  "('p, 'm, 'j, 'a, 'au, 'vi) call_env \<Rightarrow> ('p, 'm, 'j, 'a, 'au, 'vi) call \<Rightarrow> ('p, 'm, 'j, 'a, 'au, 'vi) call" where
  "call_destructor E c = (call_stream_stop E c)\<lparr>cl_tmr_dtmf := None, cl_custom_hdrs := []\<rparr>"

definition ua_call_free ::
  "('p, 'm, 'j, 'a, 'au, 'vi, 's, 'h) ua_env \<Rightarrow> nat \<Rightarrow> nat \<Rightarrow> ('p, 'm, 'j, 'a, 'au, 'vi, 's) uag
     \<Rightarrow> ('p, 'm, 'j, 'a, 'au, 'vi, 's) uag" where
  "ua_call_free E u x g =
     (case ua_call_get g u x of
        None \<Rightarrow> g
      | Some c \<Rightarrow>
          let g = ua_upd u (\<lambda>ua. ua\<lparr>ua_calls := filter (\<lambda>(y, _). y \<noteq> x) (ua_calls ua)\<rparr>) g
          in ug_emit (UoCallFree x) (g\<lparr>ug_freed := ug_freed g @ [(x, call_destructor (ue_call E) c)]\<rparr>))"

text \<open>The events of the user agent that a step of a call sent.\<close>

fun ua_note ::
  "nat \<Rightarrow> nat \<Rightarrow> call_out \<Rightarrow> ('p, 'm, 'j, 'a, 'au, 'vi, 's) uag \<Rightarrow> ('p, 'm, 'j, 'a, 'au, 'vi, 's) uag" where
  "ua_note u x (CoUaEvent ev t) g = ug_emit (UoEvent (Some u) ev (Some x) t) g"
| "ua_note u x (CoSipTreply scode reason) g = ug_emit (UoTreply scode reason) g"
| "ua_note u x _ g = g"

text \<open>An operation \<open>f\<close> of a call that calls no handler but events; a call that is NULL gives EINVAL.\<close>

definition ua_call_op ::
  "nat \<Rightarrow> nat \<Rightarrow> (('p, 'm, 'j, 'a, 'au, 'vi) call \<Rightarrow> err \<times> ('p, 'm, 'j, 'a, 'au, 'vi) call)
     \<Rightarrow> ('p, 'm, 'j, 'a, 'au, 'vi, 's) uag \<Rightarrow> err \<times> ('p, 'm, 'j, 'a, 'au, 'vi, 's) uag" where
  "ua_call_op u x f g =
     (case ua_call_get g u x of
        None \<Rightarrow> (EINVAL, g)
      | Some c \<Rightarrow>
          let (err, c') = f c
          in (err, fold (ua_note u x) (drop (length (cl_out c)) (cl_out c')) (ua_call_put u x c' g)))"

definition ua_find_call_onhold :: "('p, 'm, 'j, 'a, 'au, 'vi, 's) ua \<Rightarrow> nat option" where
  "ua_find_call_onhold ua = map_option fst (List.find (\<lambda>(_, c). cl_on_hold c) (rev (ua_calls ua)))"

definition resume_call ::
  "('p, 'm, 'j, 'a, 'au, 'vi, 's, 'h) ua_env \<Rightarrow> nat \<Rightarrow> ('p, 'm, 'j, 'a, 'au, 'vi, 's) uag
     \<Rightarrow> ('p, 'm, 'j, 'a, 'au, 'vi, 's) uag" where
  "resume_call E u g =
     (case Option.bind (ua_get g u) ua_find_call_onhold of
        None \<Rightarrow> g
      | Some x \<Rightarrow> snd (ua_call_op u x (call_hold (ue_call E) False) g))"

text \<open>\<open>call_event_handler\<close> of \<open>src/ept.c\<close>.\<close>

definition ua_incoming ::
  "('p, 'm, 'j, 'a, 'au, 'vi, 's, 'h) ua_env \<Rightarrow> nat \<Rightarrow> nat \<Rightarrow> string \<Rightarrow> string option \<Rightarrow> answermode
     \<Rightarrow> ('p, 'm, 'j, 'a, 'au, 'vi, 's) uag \<Rightarrow> ('p, 'm, 'j, 'a, 'au, 'vi, 's) uag" where
  "ua_incoming E u x peeruri str amode g =
     (if contact_block_access (ue_hash E) (ue_contacts E) peeruri
      then ua_call_free E u x (ug_event E (Some u) UA_EVENT_CALL_CLOSED (Some x) str [] g)
      else case amode of
        ANSWERMODE_EARLY \<Rightarrow> snd (ua_call_op u x (call_progress (ue_call E)) g)
      | ANSWERMODE_AUTO \<Rightarrow> snd (ua_call_op u x (call_answer (ue_call E) 200 VIDMODE_ON) g)
      | ANSWERMODE_MANUAL \<Rightarrow> ug_event E (Some u) UA_EVENT_CALL_INCOMING (Some x) (Some peeruri) [] g)"

definition ua_call_event_handler ::
  "('p, 'm, 'j, 'a, 'au, 'vi, 's, 'h) ua_env \<Rightarrow> nat \<Rightarrow> nat \<Rightarrow> call_event \<Rightarrow> string option
     \<Rightarrow> ('p, 'm, 'j, 'a, 'au, 'vi, 's) uag \<Rightarrow> ('p, 'm, 'j, 'a, 'au, 'vi, 's) uag" where
  "ua_call_event_handler E u x ev str g =
     (case (ua_get g u, Option.bind (ua_call_get g u x) cl_peer_uri) of
        (Some ua, Some peeruri) \<Rightarrow>
          (case ev of
             CALL_EVENT_INCOMING \<Rightarrow> ua_incoming E u x peeruri str (acc_answermode (ua_acc ua)) g
           | CALL_EVENT_RINGING \<Rightarrow> ug_event E (Some u) UA_EVENT_CALL_RINGING (Some x) (Some peeruri) [] g
           | CALL_EVENT_PROGRESS \<Rightarrow> ug_event E (Some u) UA_EVENT_CALL_PROGRESS (Some x) (Some peeruri) [] g
           | CALL_EVENT_ESTABLISHED \<Rightarrow> ug_event E (Some u) UA_EVENT_CALL_ESTABLISHED (Some x) (Some peeruri) [] g
           | CALL_EVENT_CLOSED \<Rightarrow>
               resume_call E u (ua_call_free E u x (ug_event E (Some u) UA_EVENT_CALL_CLOSED (Some x) str [] g))
           | CALL_EVENT_TRANSFER \<Rightarrow> ug_event E (Some u) UA_EVENT_CALL_TRANSFER (Some x) str [] g
           | CALL_EVENT_TRANSFER_FAILED \<Rightarrow>
               ua_call_free E u x (ug_event E (Some u) UA_EVENT_CALL_TRANSFER_FAILED (Some x) str [] g)
           | CALL_EVENT_MENC \<Rightarrow> ug_event E (Some u) UA_EVENT_CALL_MENC (Some x) str [] g)
      | _ \<Rightarrow> g)"

definition call_dtmf_handler ::
  "('p, 'm, 'j, 'a, 'au, 'vi, 's, 'h) ua_env \<Rightarrow> nat \<Rightarrow> nat \<Rightarrow> char \<Rightarrow> ('p, 'm, 'j, 'a, 'au, 'vi, 's) uag
     \<Rightarrow> ('p, 'm, 'j, 'a, 'au, 'vi, 's) uag" where
  "call_dtmf_handler E u x key g =
     (if key \<noteq> KEYCODE_REL
      then ug_event E (Some u) UA_EVENT_CALL_DTMF_START (Some x) (Some [key]) [] g
      else ug_event E (Some u) UA_EVENT_CALL_DTMF_END (Some x) None [] g)"

text \<open>The handlers behind one entry of the log of a call, and a step of a call with its handlers.\<close>

definition ua_call_out ::
  "('p, 'm, 'j, 'a, 'au, 'vi, 's, 'h) ua_env \<Rightarrow> nat \<Rightarrow> nat \<Rightarrow> call_out \<Rightarrow> ('p, 'm, 'j, 'a, 'au, 'vi, 's) uag
     \<Rightarrow> ('p, 'm, 'j, 'a, 'au, 'vi, 's) uag" where
  "ua_call_out E u x out g =
     (case out of
        CoEvent ev t \<Rightarrow> ua_call_event_handler E u x ev t g
      | CoDtmf key \<Rightarrow> call_dtmf_handler E u x key g
      | _ \<Rightarrow> ua_note u x out g)"

definition ua_run_call ::
  "('p, 'm, 'j, 'a, 'au, 'vi, 's, 'h) ua_env \<Rightarrow> nat \<Rightarrow> nat \<Rightarrow>
   (('p, 'm, 'j, 'a, 'au, 'vi) call \<Rightarrow> err \<times> ('p, 'm, 'j, 'a, 'au, 'vi) call)
     \<Rightarrow> ('p, 'm, 'j, 'a, 'au, 'vi, 's) uag \<Rightarrow> err \<times> ('p, 'm, 'j, 'a, 'au, 'vi, 's) uag" where
  "ua_run_call E u x f g =
     (case ua_call_get g u x of
        None \<Rightarrow> (EINVAL, g)
      | Some c \<Rightarrow>
          let (err, c') = f c
          in (err, fold (ua_call_out E u x) (drop (length (cl_out c)) (cl_out c')) (ua_call_put u x c' g)))"

end
