(* ===== verification/Uag.thy ===== *)
theory Uag
  imports Ua
begin

text \<open>
  The user agent, \<open>src/ept.c\<close>, second part: allocation of calls and user agents, the
  operations of the application, incoming requests, the list of user agents, and start and stop.

  The sources are built with IPv6 and TLS.  A parameter \<open>x\<close> or \<open>u\<close> is the address of a new call
  or user agent.
\<close>

subsection \<open>New calls\<close>

definition best_effort_af where
  "best_effort_af E ua =
     (case List.find (reg_isok (ue_sipreg E)) (ua_regl ua) of
        Some reg \<Rightarrow> rg_af reg
      | None \<Rightarrow> (case List.find (\<lambda>af. ue_af_enabled E af \<and> ue_laddr E af \<noteq> None) [2, 10] of
                    Some af \<Rightarrow> af | None \<Rightarrow> 0))"

definition sdp_af_hint :: "libre \<Rightarrow> mbuf_ops \<Rightarrow> mbuf \<Rightarrow> int" where
  "sdp_af_hint L M mb =
     (case l_regex L (text_of (m_rest M mb)) ''IN IP[46]+'' of
        Some ((ch # _) # _) \<Rightarrow> if ch = CHR ''4'' then 2 else if ch = CHR ''6'' then 10 else 0
      | _ \<Rightarrow> 0)"

text \<open>The address family of a new call.\<close>

definition ua_call_family where
  "ua_call_family E ua msg =
     (let hint = (case msg of None \<Rightarrow> 0 | Some m \<Rightarrow> sdp_af_hint (ue_libre E) (se_mbuf (ce_strm (ue_call E))) (sm_mb m))
      in if hint \<noteq> 0 then hint
         else if ua_af_media ua \<noteq> 0 \<and> ue_laddr E (ua_af_media ua) \<noteq> None then ua_af_media ua
         else best_effort_af E ua)"

definition ua_call_alloc where
  "ua_call_alloc E u x vmode msg xcall local_uri use_rtp g =
     (case ua_get g u of
        None \<Rightarrow> (EINVAL, g)
      | Some ua \<Rightarrow>
          let acc = ua_acc ua;
              af = ua_call_family E ua msg;
              (err, call, _) = call_alloc (ue_call E) (ue_audio_alloc E) (ue_video_alloc E) (ue_config E)
                 (ue_sdp0 E (ue_laddr E af)) (map snd (ua_calls ua)) (acc_dispname acc)
                 (if local_uri \<noteq> None then local_uri else acc_aor acc) (Some acc)
                 (Some \<lparr>cp_vidmode = vmode, cp_af = af, cp_use_rtp = use_rtp\<rparr>) msg xcall True
          in (case call of
                None \<Rightarrow> (err, g)
              | Some c \<Rightarrow> (err, ua_upd u (\<lambda>ua. ua\<lparr>ua_calls := ua_calls ua @ [(x, call_set_handlers c False True)]\<rparr>) g)))"

subsection \<open>OPTIONS\<close>

text \<open>
  The call only serves to make an offer.  When the offer cannot be made, no reply is sent.
\<close>

definition handle_options where
  "handle_options E u x msg g =
     (let accept_sdp = (case sip_msg_hdr msg SIP_HDR_ACCEPT of
                          None \<Rightarrow> True
                        | Some v \<Rightarrow> l_casecmp (ue_libre E) (Some v) (Some ''application/sdp'') = 0)
      in if \<not> accept_sdp then ug_emit (UoOptionsReply None) g
         else
           let (err, g) = ua_call_alloc E u x VIDMODE_ON None None None False g
           in if err \<noteq> 0 then ug_emit (UoTreply 500 ''Call Error'') g
              else
                let g = (case ua_call_get g u x of
                           None \<Rightarrow> g
                         | Some c \<Rightarrow> (case call_sdp_get (ue_call E) c True of
                                        Inl _ \<Rightarrow> g
                                      | Inr desc \<Rightarrow> ug_emit (UoOptionsReply (Some desc)) g))
                in ua_call_free E u x g)"

subsection \<open>The list of user agents\<close>

definition uag_find where
  "uag_find L g cuser =
     (case List.find (\<lambda>(u, ua). l_casecmp L (Some cuser) (ua_cuser_f ua) = 0) (ug_ual g) of
        Some (u, _) \<Rightarrow> Some u
      | None \<Rightarrow>
          (case List.find (\<lambda>(u, ua). l_casecmp L (Some cuser) (Some (u_user (acc_luri (ua_acc ua)))) = 0) (ug_ual g) of
             Some (u, _) \<Rightarrow> Some u
           | None \<Rightarrow> map_option fst (List.find (\<lambda>(u, ua). ua_catchall ua) (ug_ual g))))"

definition uag_find_aor where
  "uag_find_aor g aor =
     map_option fst (List.find (\<lambda>(u, ua). \<not> (str_isset aor \<and> acc_aor (ua_acc ua) \<noteq> aor)) (ug_ual g))"

definition uag_find_param where
  "uag_find_param L g name v =
     map_option fst (List.find (\<lambda>(u, ua).
       let ps = sa_params (acc_laddr (ua_acc ua))
       in case v of
            Some x \<Rightarrow> (case l_param_decode L ps name of None \<Rightarrow> False | Some y \<Rightarrow> l_casecmp L (Some y) (Some x) = 0)
          | None \<Rightarrow> l_param_exists L ps name) (ug_ual g))"

definition uag_current where
  "uag_current g = (if ug_ual g = [] then None else ug_ua_cur g)"

definition uag_current_set where
  "uag_current_set u g = g\<lparr>ug_ua_cur := u\<rparr>"

text \<open>The number of calls, as a 32-bit number.\<close>

definition uag_call_count :: "('p, 'm, 'j, 'a, 'au, 'vi, 's) uag \<Rightarrow> u32" where
  "uag_call_count g = of_nat (sum_list (map (\<lambda>(u, ua). length (ua_calls ua)) (ug_ual g)))"

definition uag_set_sub_handler where "uag_set_sub_handler subh g = g\<lparr>ug_subh := subh\<rparr>"
definition uag_set_exit_handler where "uag_set_exit_handler exith g = g\<lparr>ug_exith := exith\<rparr>"

definition uag_set_extra_params where
  "uag_set_extra_params L eprm g =
     (if eprm = None then (0, g\<lparr>ug_eprm := None\<rparr>)
      else let (err, s) = str_dup L None eprm in (err, g\<lparr>ug_eprm := s\<rparr>))"

definition request_handler where
  "request_handler E x msg g =
     (if sm_met msg \<noteq> ''OPTIONS'' then (False, g)
      else case uag_find (ue_libre E) g (sm_uri_user msg) of
             None \<Rightarrow> (True, ug_emit (UoTreply 404 ''Not Found'') g)
           | Some u \<Rightarrow> (True, handle_options E u x msg g))"

definition sub_handler where
  "sub_handler E msg g =
     (case uag_find (ue_libre E) g (sm_uri_user msg) of
        None \<Rightarrow> (True, ug_emit (UoTreply 404 ''Not Found'') g)
      | Some u \<Rightarrow> (True, if ug_subh g then ug_emit (UoSubscribe u) g else g))"

subsection \<open>New user agents\<close>

definition add_extension where
  "add_extension ext ua =
     (if length (ua_extensionv ua) \<ge> 8 then ua else ua\<lparr>ua_extensionv := ua_extensionv ua @ [ext]\<rparr>)"

text \<open>
  The outbound clients, one for each outbound proxy; the registration id is the number of the
  proxy.
\<close>

fun outbound_loop :: "libre \<Rightarrow> account \<Rightarrow> nat list \<Rightarrow> 's reg list \<Rightarrow> err \<times> 's reg list" where
  "outbound_loop L acc [] regl = (0, regl)"
| "outbound_loop L acc (i # js) regl =
     (if ua_outboundv acc i \<noteq> None \<and> acc_regint acc \<noteq> 0
      then let (err, regl) = reg_add L regl (int i + 1)
           in if err \<noteq> 0 then (err, regl) else outbound_loop L acc js regl
      else outbound_loop L acc js regl)"

text \<open>Without a configuration the outbound branch would read through a null pointer; the UUID is empty here.\<close>

definition create_register_clients where
  "create_register_clients L cfg ua =
     (let uuid = (case cfg of None \<Rightarrow> [] | Some c \<Rightarrow> cs_uuid c);
          ua = (if uuid \<noteq> [] then add_extension ''gruu'' ua else ua)
      in if l_casecmp L (acc_sipnat (ua_acc ua)) (Some ''outbound'') = 0
         then
           let ua = add_extension ''outbound'' (add_extension ''path'' ua)
           in if uuid = [] then (ENOSYS, ua)
              else let (err, regl) = outbound_loop L (ua_acc ua) [0, 1] (ua_regl ua) in (err, ua\<lparr>ua_regl := regl\<rparr>)
         else if acc_regint (ua_acc ua) \<noteq> 0
         then let (err, regl) = reg_add L (ua_regl ua) 0 in (err, ua\<lparr>ua_regl := regl\<rparr>)
         else (0, ua))"

definition ua_flush_calls where
  "ua_flush_calls E ua g =
     fold (\<lambda>(x, c) g. ug_emit (UoCallFree x) (g\<lparr>ug_freed := ug_freed g @ [(x, call_destructor (ue_call E) c)]\<rparr>))
       (ua_calls ua) g"

definition ug_late_close where
  "ug_late_close g = (if ug_delayed_close g \<and> ug_ual g = [] then ug_emit (UoSipClose False) g else g)"

text \<open>
  The destructor of a user agent that is off the list: its clients and calls are released, and
  a delayed stop of the stack is done after the last one.
\<close>

definition ua_destructor where
  "ua_destructor E u ua g =
     (let g = (if ua_regl ua \<noteq> [] then ug_event E (Some u) UA_EVENT_UNREGISTERING None None [] g else g);
          g = ua_flush_calls E ua g
      in ug_late_close g)"

definition ua_new :: "account \<Rightarrow> string \<Rightarrow> ('p, 'm, 'j, 'a, 'au, 'vi, 's) ua" where
  "ua_new acc cuser =
     \<lparr>ua_acc = acc, ua_regl = [], ua_calls = [], ua_extensionv = [], ua_cuser_f = Some cuser, ua_pub_gruu = None,
      ua_af_media = 0, ua_my_status = PRESENCE_UNKNOWN, ua_catchall = False, ua_hdr_filter = [], ua_custom_hdrs = []\<rparr>"

text \<open>
  \<open>rnd\<close> is the random number the account takes.  On an error the new user agent is released,
  which may do the delayed stop.
\<close>

definition ua_alloc where
  "ua_alloc E rnd u aor g =
     (case aor of
        None \<Rightarrow> Some (EINVAL, None, g)
      | Some aor \<Rightarrow>
          let L = ue_libre E
          in if \<not> l_zalloc L then Some (ENOMEM, None, g)
             else
               let aor = (case ug_eprm g of None \<Rightarrow> aor | Some e \<Rightarrow> aor @ '';'' @ e)
               in if ug_eprm g \<noteq> None \<and> \<not> l_dup L aor then Some (ENOMEM, None, ug_late_close g)
                  else case account_alloc L (ce_regs (ue_call E)) rnd (Some aor) of
                    None \<Rightarrow> None
                  | Some (err, None) \<Rightarrow> Some (err, None, ug_late_close g)
                  | Some (_, Some acc) \<Rightarrow>
                        let cuser = u_user (acc_luri acc) @ ''-'' @ ue_ptr_str E u
                        in if \<not> l_dup L cuser then Some (ENOMEM, None, ug_late_close g)
                           else
                             let ua = ua_new acc cuser;
                                 ua = (case acc_mnat acc of
                                         None \<Rightarrow> ua
                                       | Some m \<Rightarrow> if l_casecmp L (mn_id m) (Some ''ice'') = 0 then add_extension ''ice'' ua else ua);
                                 (err, ua) = create_register_clients L (ug_cfg g) ua
                             in if err \<noteq> 0 then Some (err, None, ua_destructor E u ua g)
                                else
                                  let g = g\<lparr>ug_ual := ug_ual g @ [(u, ua)]\<rparr>;
                                      g = (if uag_current g = None then uag_current_set (Some u) g else g)
                                  in Some (0, Some u, g))"

definition ua_update_account where
  "ua_update_account E u g =
     (case ua_get g u of
        None \<Rightarrow> (EINVAL, g)
      | Some ua \<Rightarrow>
          let (err, ua) = create_register_clients (ue_libre E) (ug_cfg g) (ua\<lparr>ua_extensionv := [], ua_regl := []\<rparr>)
          in (err, ua_upd u (\<lambda>_. ua) g))"

text \<open>\<open>refs\<close> is the number of references others hold; a user agent in use stays in memory.\<close>

definition ua_destroy where
  "ua_destroy E refs u g =
     (case ua_get g u of
        None \<Rightarrow> (0, g)
      | Some ua \<Rightarrow>
          let g = g\<lparr>ug_ual := filter (\<lambda>(v, _). v \<noteq> u) (ug_ual g)\<rparr>;
              g = ug_event E (Some u) UA_EVENT_SHUTDOWN None None [] g;
              g = ua_flush_calls E ua g
          in (refs u :: nat, if refs u = 0 then ua_destructor E u (ua\<lparr>ua_calls := []\<rparr>) g else g))"


subsection \<open>Operations of the application\<close>

definition is_space :: "char \<Rightarrow> bool" where
  "is_space c = (c \<in> {CHR '' '', CHR 0x09, CHR 0x0a, CHR 0x0b, CHR 0x0c, CHR 0x0d})"

text \<open>The result is the error and what is in the buffer.\<close>

definition ua_uri_complete where
  "ua_uri_complete E ua buf uri =
     (let pr = ue_print E; L = ue_libre E;
          luri = acc_luri (ua_acc ua);
          uri = dropWhile is_space uri;
          (e1, buf) = (if l_regex L uri ''sip:'' = None then pr ''sip:'' [] buf else (0, buf));
          (e2, buf) = pr ''%s'' [FStr uri] buf;
          uri_is_ip = ue_is_ip E uri
      in if l_regex L uri ''[^@]+@[^]+'' = None \<and> \<not> uri_is_ip
         then
           let (e3, buf) = pr (if u_af luri = 10 then ''@[%r]'' else ''@%r'') [FStr (u_host luri)] buf;
               (e4, buf) = (if u_port luri \<in> {0, 5060} then (0, buf) else pr '':%u'' [FNum (unat (u_port luri))] buf)
           in (e1 OR e2 OR e3 OR e4, buf)
         else (e1 OR e2, buf))"

definition ua_connect_dir where
  "ua_connect_dir E u x from_uri req_uri vmode adir vdir g =
     (case ua_get g u of
        None \<Rightarrow> (EINVAL, None, g)
      | Some ua \<Rightarrow>
          if \<not> str_isset req_uri then (EINVAL, None, g)
          else if \<not> ue_mbuf_alloc E then (ENOMEM, None, g)
          else
            let (e1, buf) = ua_uri_complete E ua [] (str_of req_uri);
                (e2, buf) = ue_print E ''%r'' [FStr (u_params (acc_luri (ua_acc ua)))] buf
            in if e1 OR e2 \<noteq> 0 then (e1 OR e2, None, g)
               else
                 let (err, g) = ua_call_alloc E u x vmode None None from_uri True g
                 in if err \<noteq> 0 then (err, None, g)
                    else
                      let g = (if ua_custom_hdrs ua \<noteq> []
                               then snd (ua_run_call E u x (\<lambda>c. (0, call_set_custom_hdrs (ue_call E) (ua_custom_hdrs ua) c)) g)
                               else g);
                          (err, g) = (if adir \<noteq> SDP_SENDRECV \<or> vdir \<noteq> SDP_SENDRECV
                                      then ua_run_call E u x (call_set_media_direction (ue_call E) adir vdir) g
                                      else (0, g))
                      in if err \<noteq> 0 then (err, None, ua_call_free E u x g)
                         else
                           let (err, g) = ua_run_call E u x (call_connect (ue_call E) (Some buf)) g
                           in if err \<noteq> 0 then (err, None, ua_call_free E u x g) else (0, Some x, g))"

definition ua_connect where
  "ua_connect E u x from_uri req_uri vmode g = ua_connect_dir E u x from_uri req_uri vmode SDP_SENDRECV SDP_SENDRECV g"

text \<open>The current call is the last one of the list, the previous one is the last but one.\<close>

definition ua_call_cur :: "('p, 'm, 'j, 'a, 'au, 'vi, 's) ua \<Rightarrow> nat option" where
  "ua_call_cur ua = (if ua_calls ua = [] then None else Some (fst (last (ua_calls ua))))"

definition ua_prev_call :: "('p, 'm, 'j, 'a, 'au, 'vi, 's) ua \<Rightarrow> nat option" where
  "ua_prev_call ua = (case rev (ua_calls ua) of _ # (x, _) # _ \<Rightarrow> Some x | _ \<Rightarrow> None)"

definition ua_pick_call where
  "ua_pick_call call ua = (if call = None then ua_call_cur ua else call)"

definition ua_hangup where
  "ua_hangup E u call scode reason g =
     (case Option.bind (ua_get g u) (ua_pick_call call) of
        None \<Rightarrow> g
      | Some x \<Rightarrow>
          let g = snd (ua_call_op u x (\<lambda>c. (0, call_hangup (ue_call E) scode reason c)) g);
              g = ug_event E (Some u) UA_EVENT_CALL_CLOSED (Some x)
                    (Some (case reason of None \<Rightarrow> ''Connection reset by user'' | Some r \<Rightarrow> r)) [] g;
              g = ua_call_free E u x g
          in resume_call E u g)"

definition ua_answer where
  "ua_answer E u call vmode g =
     (case ua_get g u of
        None \<Rightarrow> (EINVAL, g)
      | Some ua \<Rightarrow> (case ua_pick_call call ua of
                      None \<Rightarrow> (ENOENT, g)
                    | Some x \<Rightarrow> ua_call_op u x (call_answer (ue_call E) 200 vmode) g))"

definition ua_hold_answer where
  "ua_hold_answer E u call vmode g =
     (case ua_get g u of
        None \<Rightarrow> (EINVAL, g)
      | Some ua \<Rightarrow> (case ua_pick_call call ua of
                      None \<Rightarrow> (ENOENT, g)
                    | Some x \<Rightarrow>
                        let (err, g) = (case ua_prev_call ua of
                                          None \<Rightarrow> (0, g)
                                        | Some y \<Rightarrow> ua_call_op u y (call_hold (ue_call E) True) g)
                        in if err \<noteq> 0 then (err, g) else ua_answer E u (Some x) vmode g))"

definition ua_options_send where
  "ua_options_send E u uri g =
     (case ua_get g u of
        None \<Rightarrow> (EINVAL, g)
      | Some ua \<Rightarrow>
          if \<not> str_isset uri then (EINVAL, g)
          else if \<not> ue_mbuf_alloc E then (ENOMEM, g)
          else let (err, buf) = ua_uri_complete E ua [] (str_of uri)
               in if err \<noteq> 0 then (err, g) else ug_call E (UoSipReq ''OPTIONS'' buf) g)"

definition ua_cuser where
  "ua_cuser ua = (case ua of None \<Rightarrow> None | Some ua \<Rightarrow>
     if str_isset (ua_pub_gruu ua) then ua_pub_gruu ua else ua_cuser_f ua)"

definition ua_local_cuser where
  "ua_local_cuser ua = Option.bind ua ua_cuser_f"

definition ua_account where
  "ua_account ua = map_option ua_acc ua"

definition ua_aor where
  "ua_aor ua = Option.bind ua (\<lambda>ua. acc_aor (ua_acc ua))"

definition ua_outbound where
  "ua_outbound ua = Option.bind ua (\<lambda>ua. ua_outboundv (ua_acc ua) 0)"

definition ua_presence_status where
  "ua_presence_status ua = (case ua of None \<Rightarrow> PRESENCE_UNKNOWN | Some ua \<Rightarrow> ua_my_status ua)"

definition ua_presence_status_set where "ua_presence_status_set u status g = ua_upd u (\<lambda>ua. ua\<lparr>ua_my_status := status\<rparr>) g"
definition ua_set_media_af where "ua_set_media_af u af g = ua_upd u (\<lambda>ua. ua\<lparr>ua_af_media := af\<rparr>) g"
definition ua_set_catchall where "ua_set_catchall u enabled g = ua_upd u (\<lambda>ua. ua\<lparr>ua_catchall := enabled\<rparr>) g"

definition ua_add_xhdr_filter where
  "ua_add_xhdr_filter E u hdr_name g =
     (case ua_get g u of
        None \<Rightarrow> (EINVAL, g)
      | Some _ \<Rightarrow>
          if \<not> l_zalloc (ue_libre E) then (ENOMEM, g)
          else case hdr_name of
            None \<Rightarrow> (ENOMEM, g)
          | Some n \<Rightarrow> if l_dup (ue_libre E) n
                      then (0, ua_upd u (\<lambda>ua. ua\<lparr>ua_hdr_filter := ua_hdr_filter ua @ [n]\<rparr>) g) else (ENOMEM, g))"

text \<open>The headers up to the first one that cannot be copied.\<close>

fun custom_hdrs_copy :: "libre \<Rightarrow> (string \<times> string) list \<Rightarrow> (string \<times> string) list \<Rightarrow> err \<times> (string \<times> string) list" where
  "custom_hdrs_copy L [] acc = (0, acc)"
| "custom_hdrs_copy L ((name, v) # hdrs) acc =
     (if \<not> l_dup L name then (ENOMEM, acc)
      else let (err, acc) = custom_hdrs_add L acc name v
           in if err \<noteq> 0 then (err, acc) else custom_hdrs_copy L hdrs acc)"

definition ua_set_custom_hdrs where
  "ua_set_custom_hdrs E u hdrs g =
     (case ua_get g u of
        None \<Rightarrow> (EINVAL, g)
      | Some _ \<Rightarrow> let (err, hs) = custom_hdrs_copy (ue_libre E) hdrs []
                  in (err, ua_upd u (\<lambda>ua. ua\<lparr>ua_custom_hdrs := hs\<rparr>) g))"

text \<open>\<open>call_set_current\<close> of \<open>src/call.c\<close>: the call moves to the end of the list.\<close>

definition call_set_current where
  "call_set_current x calls =
     (case map_of calls x of None \<Rightarrow> calls | Some c \<Rightarrow> filter (\<lambda>(y, _). y \<noteq> x) calls @ [(x, c)])"

end
