(* ===== verification/Uas.thy ===== *)
theory Uas
  imports Uag
begin

text \<open>
  The user agent, \<open>src/ept.c\<close>, third part: incoming calls, the transports of the SIP stack,
  start and stop, and the printing functions.

  A socket address of libre is abstract (\<open>'sa\<close>), with its functions in \<open>sa_ops\<close>.
\<close>

subsection \<open>Incoming calls\<close>

text \<open>A header field with an option that is not supported.\<close>

definition require_handler where
  "require_handler L ua v = (\<not> (\<exists>e\<in>set (ua_extensionv ua). l_casecmp L (Some v) (Some e) = 0))"

fun filter_hdrs :: "libre \<Rightarrow> sip_msg \<Rightarrow> string list \<Rightarrow> (string \<times> string) list \<Rightarrow> err \<times> (string \<times> string) list" where
  "filter_hdrs L msg [] hdrs = (0, hdrs)"
| "filter_hdrs L msg (n # ns) hdrs =
     (case sm_xhdr msg n of
        None \<Rightarrow> filter_hdrs L msg ns hdrs
      | Some (name, v) \<Rightarrow>
          let (err, hdrs) = custom_hdrs_add L hdrs (take 255 name) v
          in if err \<noteq> 0 then (err, hdrs) else filter_hdrs L msg ns hdrs)"

text \<open>The last part: the call is there and gets its headers and the INVITE.\<close>

definition conn_accept where
  "conn_accept E u x ua msg g =
     (let (err, g) = (if ua_hdr_filter ua \<noteq> []
                      then
                        let (err, hdrs) = filter_hdrs (ue_libre E) msg (ua_hdr_filter ua) []
                        in if err \<noteq> 0 then (err, g)
                           else ua_run_call E u x (\<lambda>c. (0, call_set_custom_hdrs (ue_call E) hdrs c)) g
                      else (0, g));
          (err, g) = (if err \<noteq> 0 then (err, g) else ua_run_call E u x (call_accept (ue_call E) (Some msg)) g)
      in if err \<noteq> 0 then ug_emit (UoTreply 500 ''Call Error'') (ua_call_free E u x g) else g)"

definition af_available where
  "af_available E af = (ue_af_enabled E af \<and> ue_laddr E af \<noteq> None)"

definition sipsess_conn_handler where
  "sipsess_conn_handler E x msg g =
     (case uag_find (ue_libre E) g (sm_uri_user msg) of
        None \<Rightarrow> ug_emit (UoTreply 404 ''Not Found'') g
      | Some u \<Rightarrow>
          (case ua_get g u of
             None \<Rightarrow> g
           | Some ua \<Rightarrow>
               if cc_max_calls (ue_config E) \<noteq> 0 \<and> uag_call_count g + 1 > cc_max_calls (ue_config E)
               then ug_emit (UoTreply 486 ''Max Calls'') g
               else case sip_msg_hdr_apply msg SIP_HDR_REQUIRE (require_handler (ue_libre E) ua) of
                 Some v \<Rightarrow> ug_emit (UoBadExtension v) g
               | None \<Rightarrow>
                   let af = sdp_af_hint (ue_libre E) (se_mbuf (ce_strm (ue_call E))) (sm_mb msg)
                   in if af \<noteq> 0 \<and> \<not> af_available E af then ug_emit (UoTreply 488 ''Not Acceptable Here'') g
                      else
                        let (err, g) = ua_call_alloc E u x VIDMODE_ON (Some msg) None (Some (take 255 (sm_to_auri msg))) True g
                        in if err \<noteq> 0 then ug_emit (UoTreply 500 ''Call Error'') g
                           else conn_accept E u x ua msg g))"

subsection \<open>Transports\<close>

record 'sa sa_ops =
  sx_decode :: "string \<Rightarrow> err + 'sa"
  sx_set_str :: "string \<Rightarrow> err + 'sa"
  sx_isset_addr :: "'sa \<Rightarrow> bool"
  sx_port :: "'sa \<Rightarrow> u16"
  sx_set_port :: "'sa \<Rightarrow> u16 \<Rightarrow> 'sa"
  sx_af :: "'sa \<Rightarrow> int"
  sx_laddr :: "int \<Rightarrow> 'sa"

text \<open>The local address: as configured, with the address of the interface when it has none.\<close>

definition transp_local :: "'sa sa_ops \<Rightarrow> config_sip \<Rightarrow> 'sa \<Rightarrow> err + 'sa" where
  "transp_local A cfg laddr =
     (if cs_local cfg = [] then Inr (sx_set_port A laddr 0)
      else
        let dec = (case sx_decode A (cs_local cfg) of Inr l \<Rightarrow> Inr l | Inl _ \<Rightarrow> sx_set_str A (cs_local cfg))
        in case dec of
             Inl err \<Rightarrow> Inl err
           | Inr l \<Rightarrow> Inr (if \<not> sx_isset_addr A l then sx_set_port A laddr (sx_port A l) else l))"

definition add_tls where
  "add_tls E cfg g =
     (if ug_tls g then (0, g)
      else
        let (err, g) = ug_call E (UoTlsAlloc (if cs_cert cfg \<noteq> [] then Some (cs_cert cfg) else None)) g
        in if err \<noteq> 0 then (err, g)
           else let g = g\<lparr>ug_tls := True\<rparr>
                in if cs_cafile cfg \<noteq> [] then ug_call E (UoTlsCa (cs_cafile cfg)) g else (0, g))"

text \<open>\<open>UoTransp tp b\<close>: a transport, with \<open>b\<close> on the configured port plus one.\<close>

definition add_udp_tcp where
  "add_udp_tcp E g =
     (let (e1, g) = (if ug_use_udp g then ug_call E (UoTransp SIP_TRANSP_UDP False) g else (0, g));
          (e2, g) = (if ug_use_tcp g then ug_call E (UoTransp SIP_TRANSP_TCP False) g else (0, g))
      in (e1 OR e2, g))"

definition add_tls_transp where
  "add_tls_transp E cfg port g =
     (if ug_use_tls g
      then let (err, g) = add_tls E cfg g
           in if err \<noteq> 0 then (err, g) else ug_call E (UoTransp SIP_TRANSP_TLS port) g
      else (0, g))"

definition add_websock where
  "add_websock E moved g =
     (let (err, g) = ug_call E (UoTransp SIP_TRANSP_WS moved) g
      in if err \<noteq> 0 then (err, g) else ug_call E (UoTransp SIP_TRANSP_WSS moved) g)"

definition add_transp_af where
  "add_transp_af E A laddr g =
     (let cfg = (case ug_cfg g of None \<Rightarrow> \<lparr>cs_uuid = [], cs_local = [], cs_cert = [], cs_cafile = []\<rparr> | Some c \<Rightarrow> c)
      in case transp_local A cfg laddr of
           Inl err \<Rightarrow> (err, g)
         | Inr loc \<Rightarrow>
             if cs_local cfg \<noteq> [] \<and> sx_af A laddr \<noteq> sx_af A loc then (0, g)
             else
               let (err, g) = add_udp_tcp E g
               in if err \<noteq> 0 then (err, g)
                  else
                    let port = (sx_port A loc \<noteq> 0);
                        (err, g) = add_tls_transp E cfg port g
                    in if err \<noteq> 0 then (err, g) else add_websock E (ug_use_tls g \<and> port) g)"

definition ua_add_transp where
  "ua_add_transp E A g =
     (let (e1, g) = (if sx_isset_addr A (sx_laddr A 2) then add_transp_af E A (sx_laddr A 2) g else (0, g));
          (e2, g) = (if sx_isset_addr A (sx_laddr A 10) then add_transp_af E A (sx_laddr A 10) g else (0, g))
      in (e1 OR e2, g))"

subsection \<open>Start and stop\<close>

text \<open>The SIP stack is done.\<close>

definition exit_handler where
  "exit_handler E g =
     (let g = ug_event E None UA_EVENT_EXIT None None [] g
      in if ug_exith g then ug_emit UoExit g else g)"

text \<open>The user agents that are still in the list are released; the list is emptied at the end.\<close>

definition ua_close where
  "ua_close E g =
     (let g = g\<lparr>ug_evsock := False, ug_sock := False, ug_lsnr := False, ug_sip := False, ug_eprm := None, ug_tls := False\<rparr>
      in (fold (\<lambda>(u, ua). ua_destructor E u ua) (ug_ual g) g)\<lparr>ug_ual := []\<rparr>)"

text \<open>\<open>UoListen n\<close>: the stack (0), the listener (1), the session (2) and the event socket (3).\<close>

definition ua_init where
  "ua_init E A net cfg udp tcp tls g =
     (if \<not> net then (EINVAL, g)
      else
        let g = g\<lparr>ug_cfg := Some cfg, ug_use_udp := udp, ug_use_tcp := tcp, ug_use_tls := tls, ug_ual := []\<rparr>;
            (err, g) = ug_call E (UoListen 0) g; g = g\<lparr>ug_sip := (err = 0)\<rparr>;
            (err, g) = (if err \<noteq> 0 then (err, g) else ua_add_transp E A g);
            (err, g) = (if err \<noteq> 0 then (err, g)
                        else let (err, g) = ug_call E (UoListen 1) g in (err, g\<lparr>ug_lsnr := (err = 0)\<rparr>));
            (err, g) = (if err \<noteq> 0 then (err, g)
                        else let (err, g) = ug_call E (UoListen 2) g in (err, g\<lparr>ug_sock := (err = 0)\<rparr>));
            (err, g) = (if err \<noteq> 0 then (err, g)
                        else let (err, g) = ug_call E (UoListen 3) g in (err, g\<lparr>ug_evsock := (err = 0)\<rparr>))
        in (err, if err \<noteq> 0 then ua_close E g else g))"

text \<open>The user agents of the list at the start, in its order; the number of those in use.\<close>

fun destroy_all where
  "destroy_all E refs [] ext_ref g = (ext_ref, g)"
| "destroy_all E refs (u # us) ext_ref g =
     (let (n, g) = ua_destroy E refs u g in destroy_all E refs us (if n \<noteq> 0 then ext_ref + 1 else ext_ref) g)"

definition ua_stop_all where
  "ua_stop_all E refs forced g =
     (let (ext_ref, g) = destroy_all E refs (map fst (ug_ual g)) (0 :: nat) g
      in if ext_ref \<noteq> 0 then g\<lparr>ug_delayed_close := True\<rparr>
         else ug_emit (UoSipClose forced) (if forced then ug_emit UoSessCloseAll g else g))"

text \<open>The calls of a user agent get the new local address.\<close>

fun reset_calls where
  "reset_calls E laddr u [] err g = (err, g)"
| "reset_calls E laddr u (x # xs) err g =
     (let (e, g) = ua_run_call E u x (\<lambda>c. call_reset_transp (ue_call E) (laddr (cl_af c)) c) g
      in reset_calls E laddr u xs (err OR e) g)"

fun reset_uas where
  "reset_uas E laddr reg reinvite [] err g = (err, g)"
| "reset_uas E laddr reg reinvite (u # us) err g =
     (case ua_get g u of
        None \<Rightarrow> reset_uas E laddr reg reinvite us err g
      | Some ua \<Rightarrow>
          let acc = ua_acc ua;
              (e, g) = (if reg \<and> acc_regint acc \<noteq> 0 \<and> acc_prio acc = 0 then ua_register E u g
                        else if reg \<and> acc_regint acc \<noteq> 0 then ua_fallback E u g else (0, g));
              (err, g) = (if reinvite then reset_calls E laddr u (map fst (ua_calls ua)) (err OR e) g else (err OR e, g))
          in reset_uas E laddr reg reinvite us err g)"

definition uag_reset_transp where
  "uag_reset_transp E A laddr reg reinvite g =
     (let g = ug_emit UoTranspFlush g;
          g = ug_emit UoNetCheck g;
          (err, g) = ua_add_transp E A g
      in if err \<noteq> 0 then (err, g) else reset_uas E laddr reg reinvite (map fst (ug_ual g)) err g)"

subsection \<open>Printing\<close>

definition ua_print_allowed :: "'w printer \<Rightarrow> ('p, 'm, 'j, 'a, 'au, 'vi, 's) ua option \<Rightarrow> 'w \<Rightarrow> err \<times> 'w" where
  "ua_print_allowed pr ua w =
     (case ua of None \<Rightarrow> (0, w)
      | Some ua \<Rightarrow>
          let (err, w) = pr ''INVITE,ACK,BYE,CANCEL,OPTIONS,NOTIFY,SUBSCRIBE,INFO,MESSAGE'' [] w;
              (e2, w) = (if acc_refer (ua_acc ua) then pr '',REFER'' [] w else (0, w))
          in (err OR e2, w))"

definition ua_print_supported :: "'w printer \<Rightarrow> ('p, 'm, 'j, 'a, 'au, 'vi, 's) ua option \<Rightarrow> 'w \<Rightarrow> err \<times> 'w" where
  "ua_print_supported pr ua w =
     (case ua of None \<Rightarrow> (0, w)
      | Some ua \<Rightarrow>
          print_all pr ([(''Supported:'', [])] @
            map (\<lambda>(i, e). (''%s%r'', [FStr (if i = 0 then '' '' else '',''), FStr e]))
              (zip [0..<length (ua_extensionv ua)] (ua_extensionv ua)) @
            [([CHR 0x0d, CHR 0x0a], [])]) 0 w)"

definition ua_print_status ::
  "'w printer \<Rightarrow> 's sipreg_ops \<Rightarrow> ('p, 'm, 'j, 'a, 'au, 'vi, 's) ua option \<Rightarrow> 'w \<Rightarrow> err \<times> 'w" where
  "ua_print_status pr S ua w =
     (case ua of None \<Rightarrow> (0, w)
      | Some ua \<Rightarrow>
          let (e1, w) = pr ''%-42s'' [FStr (str_of (acc_aor (ua_acc ua)))] w;
              (e2, w) = or_all (\<lambda>reg. reg_status pr S (Some reg)) (ua_regl ua) e1 w;
              (e3, w) = pr [CHR 0x0a] [] w
          in (e2 OR e3, w))"

text \<open>\<open>net_af2name\<close> of libre names an address family.\<close>

definition ua_debug ::
  "libre \<Rightarrow> (int \<Rightarrow> string) \<Rightarrow> 'w printer \<Rightarrow> nat \<Rightarrow> ('p, 'm, 'j, 'a, 'au, 'vi, 's) ua option \<Rightarrow> 'w \<Rightarrow> err \<times> 'w" where
  "ua_debug L af2name pr nrefs ua w =
     (case ua of None \<Rightarrow> (0, w)
      | Some ua \<Rightarrow>
          let nl = [CHR 0x0a];
              (e1, w) = print_all pr
                [(''--- %s ---'' @ nl, [FStr (str_of (acc_aor (ua_acc ua)))]),
                 ('' nrefs:     %u'' @ nl, [FNum nrefs]),
                 ('' cuser:     %s'' @ nl, [FStr (str_of (ua_cuser_f ua))]),
                 ('' pub-gruu:  %s'' @ nl, [FStr (str_of (ua_pub_gruu ua))]),
                 ('' af_media:  %s'' @ nl, [FStr (af2name (ua_af_media ua))]),
                 ('' '', [])] 0 w;
              (e2, w) = ua_print_supported pr (Some ua) w;
              (e3, w) = account_debug L pr (Some (ua_acc ua)) w;
              (e4, w) = or_all (\<lambda>reg. reg_debug pr (Some reg)) (ua_regl ua) 0 w
          in (e1 OR e2 OR e3 OR e4, w))"

text \<open>
  The lines of the calls, by line number; the loop ends when all calls are printed.
\<close>

fun print_calls_loop where
  "print_calls_loop E pr cur calls n [] count err w = (err, w)"
| "print_calls_loop E pr cur calls n (num # nums) count err w =
     (let (count, err, w) = (case List.find (\<lambda>(_, c). of_nat num = cl_linenum c) calls of
                               None \<Rightarrow> (count, err, w)
                             | Some (x, c) \<Rightarrow>
                                 let (e1, w) = pr ''%s '' [FStr (if Some x = cur then ''>'' else '' '')] w;
                                     (e2, w) = call_info E pr (Some c) w;
                                     (e3, w) = pr [CHR 0x0a] [] w
                                 in (count + 1, err OR e1 OR e2 OR e3, w))
      in if count \<ge> n then (err, w) else print_calls_loop E pr cur calls n nums count err w)"

definition ua_print_calls where
  "ua_print_calls E pr ua w =
     (case ua of
        None \<Rightarrow> pr ([CHR 0x0a] @ ''--- No active calls ---'' @ [CHR 0x0a]) [] w
      | Some ua \<Rightarrow>
          let n = length (ua_calls ua);
              (e1, w) = pr ([CHR 0x0a] @ ''--- Active calls (%u) ---'' @ [CHR 0x0a]) [FNum n] w;
              (e2, w) = print_calls_loop (ue_call E) pr (ua_call_cur ua) (ua_calls ua) n
                          [CALL_LINENUM_MIN..<CALL_LINENUM_MAX] (0 :: nat) e1 w;
              (e3, w) = pr [CHR 0x0a] [] w
          in (e2 OR e3, w))"

text \<open>
  \<open>new n\<close> is the \<open>n\<close>-th new dictionary, \<open>obn\<close> the one of the account.  The source passes the
  string of the q value where a floating point number is read: \<open>addq\<close> adds that entry.
\<close>

definition ua_state_json_api where
  "ua_state_json_api add addq new obn S od cur u ua =
     (case ua of None \<Rightarrow> (0, od)
      | Some ua \<Rightarrow>
          let (e1, reg) = new (0 :: nat);
              (e2, cfg) = new 1;
              (e3, od) = od_all add od [(''cuser'', OdStr (ua_cuser_f ua)), (''selected_ua'', OdBool (cur = Some u))] 0;
              (e4, od, cfg) = account_json_api add obn od cfg (Some (ua_acc ua));
              (e5, reg) = or_all (\<lambda>r d. reg_json_api add S d (Some r)) (ua_regl ua) 0 reg;
              (e6, reg) = add reg ''interval'' (OdInt (uint (acc_regint (ua_acc ua))));
              (e8, reg) = addq reg;
              (e7, od) = od_all add od [(''settings'', OdObj cfg), (''registration'', OdObj reg)] 0
          in (e1 OR e2 OR e3 OR e4 OR e5 OR e6 OR e8 OR e7, od))"

end
