(* ===== verification/UaProps.thy ===== *)
theory UaProps
  imports Uas
begin

text \<open>
  What holds of the user agent: which calls a step releases, the limit on the number of calls,
  hanging up, routing of requests, and the life of the list of user agents.
\<close>

subsection \<open>Addresses of calls\<close>

text \<open>The user agents and their calls, by address.\<close>

definition call_ids :: "('p, 'm, 'j, 'a, 'au, 'vi, 's) uag \<Rightarrow> (nat \<times> nat list) list" where
  "call_ids g = map (\<lambda>(u, ua). (u, map fst (ua_calls ua))) (ug_ual g)"

named_theorems ids \<open>operations that keep the addresses of the calls and release nothing\<close>

lemma assoc_upd_fst [simp]: "map fst (assoc_upd k f xs) = map fst xs"
  by (induction xs) (auto simp: assoc_upd_def)

lemma assoc_upd_map_of [simp]: "map_of (assoc_upd k f xs) k' = (if k' = k then map_option f (map_of xs k) else map_of xs k')"
  by (induction xs) (auto simp: assoc_upd_def)

lemma assoc_upd_Nil [simp]: "assoc_upd k f xs = [] \<longleftrightarrow> xs = []"
  by (simp add: assoc_upd_def)

lemma emit_simps [simp]:
  "ug_ual (ug_emit x g) = ug_ual g" "ug_freed (ug_emit x g) = ug_freed g" "ug_out (ug_emit x g) = ug_out g @ [x]"
  "ua_get (ug_emit x g) = ua_get g" "ua_call_get (ug_emit x g) = ua_call_get g" "call_ids (ug_emit x g) = call_ids g"
  by (simp_all add: ug_emit_def fun_eq_iff ua_get_def ua_call_get_def call_ids_def)

lemma freed_simps [simp]:
  "ua_get (g\<lparr>ug_freed := v\<rparr>) = ua_get g" "ua_call_get (g\<lparr>ug_freed := v\<rparr>) = ua_call_get g"
  "call_ids (g\<lparr>ug_freed := v\<rparr>) = call_ids g"
  by (simp_all add: fun_eq_iff ua_get_def ua_call_get_def call_ids_def)

lemma event_simps [simp]:
  "ug_ual (ug_event E u ev c fmt args g) = ug_ual g" "ug_freed (ug_event E u ev c fmt args g) = ug_freed g"
  "ua_get (ug_event E u ev c fmt args g) = ua_get g" "ua_call_get (ug_event E u ev c fmt args g) = ua_call_get g"
  "call_ids (ug_event E u ev c fmt args g) = call_ids g"
  by (simp_all add: ug_event_def)

lemma ua_get_upd [simp]: "ua_get (ua_upd u f g) v = (if v = u then map_option f (ua_get g u) else ua_get g v)"
  by (simp add: ua_get_def ua_upd_def)

lemma upd_freed [simp]: "ug_freed (ua_upd u f g) = ug_freed g" "ug_out (ua_upd u f g) = ug_out g"
  by (simp_all add: ua_upd_def)

lemma call_get_upd:
  "ua_call_get (ua_upd u f g) v x =
     (if v = u then Option.bind (ua_get g u) (\<lambda>ua. map_of (ua_calls (f ua)) x) else ua_call_get g v x)"
  by (simp add: ua_call_get_def) (cases "ua_get g u"; simp)

lemma call_get_put [simp]:
  "ua_call_get (ua_call_put u x c g) v y =
     (if v = u \<and> y = x \<and> ua_call_get g u x \<noteq> None then Some c else ua_call_get g v y)"
  by (cases "ua_get g u"; cases "ua_call_get g u x") (auto simp: ua_call_put_def call_get_upd ua_call_get_def)

lemma put_simps [simp]: "ug_freed (ua_call_put u x c g) = ug_freed g" "ug_out (ua_call_put u x c g) = ug_out g"
  by (simp_all add: ua_call_put_def)

lemma ids_put [simp]: "call_ids (ua_call_put u x c g) = call_ids g"
  by (auto simp: call_ids_def ua_call_put_def ua_upd_def assoc_upd_def)

lemma ids_get: "ua_call_get g u x \<noteq> None \<longleftrightarrow> (\<exists>xs. map_of (call_ids g) u = Some xs \<and> x \<in> set xs)"
proof -
  have "map_of (call_ids g) u = map_option (\<lambda>ua. map fst (ua_calls ua)) (ua_get g u)"
    by (simp add: call_ids_def ua_get_def map_of_map)
  then show ?thesis by (auto simp: ua_call_get_def map_of_eq_None_iff bind_eq_None_conv)
      (metis map_of_eq_None_iff option.distinct(1) image_iff fst_conv)+
qed

lemma note_ids [simp]:
  "call_ids (ua_note u x y g) = call_ids g" "ug_freed (ua_note u x y g) = ug_freed g"
  "ua_call_get (ua_note u x y g) = ua_call_get g"
  by (cases y; simp)+

lemma fold_note [simp]:
  "call_ids (fold (ua_note u x) ys g) = call_ids g" "ug_freed (fold (ua_note u x) ys g) = ug_freed g"
  "ua_call_get (fold (ua_note u x) ys g) = ua_call_get g"
  by (induction ys arbitrary: g) simp_all

lemma op_ids [simp]:
  "call_ids (snd (ua_call_op u x f g)) = call_ids g" "ug_freed (snd (ua_call_op u x f g)) = ug_freed g"
  by (simp_all add: ua_call_op_def case_prod_beta split: option.split)

lemma resume_ids [simp]: "call_ids (resume_call E u g) = call_ids g" "ug_freed (resume_call E u g) = ug_freed g"
  by (simp_all add: resume_call_def split: option.split)

lemma free_effect:
  "call_ids (ua_call_free E u x g) =
     (if ua_call_get g u x = None then call_ids g
      else map (\<lambda>(v, xs). (v, if v = u then filter (\<lambda>y. y \<noteq> x) xs else xs)) (call_ids g))"
  "ug_freed (ua_call_free E u x g) =
     (case ua_call_get g u x of None \<Rightarrow> ug_freed g | Some c \<Rightarrow> ug_freed g @ [(x, call_destructor (ue_call E) c)])"
  by (auto simp: ua_call_free_def Let_def call_ids_def ua_upd_def assoc_upd_def filter_map comp_def case_prod_unfold
      split: option.split)

lemma free_gone [simp]: "ua_call_get (ua_call_free E u x g) u x = None"
  by (cases "ua_get g u")
     (auto simp: ua_call_free_def Let_def call_get_upd map_of_eq_None_iff ua_call_get_def split: option.split)


subsection \<open>When a call is released\<close>

lemma out_quiet:
  assumes "\<not> fatal y"
  shows "call_ids (ua_call_out E u x y g) = call_ids g" "ug_freed (ua_call_out E u x y g) = ug_freed g"
    "ua_call_get (ua_call_out E u x y g) = ua_call_get g"
  using assms
  by (cases y; auto simp: ua_call_out_def ua_call_event_handler_def call_dtmf_handler_def split: option.split call_event.splits)+

lemma fold_quiet:
  assumes "\<forall>y\<in>set ys. \<not> fatal y"
  shows "call_ids (fold (ua_call_out E u x) ys g) = call_ids g \<and> ug_freed (fold (ua_call_out E u x) ys g) = ug_freed g \<and>
    ua_call_get (fold (ua_call_out E u x) ys g) = ua_call_get g"
  using assms by (induction ys arbitrary: g) (simp_all add: out_quiet)

lemma get_some: "ua_call_get g u x = Some c \<Longrightarrow> \<exists>ua. ua_get g u = Some ua"
  by (cases "ua_get g u") (auto simp: ua_call_get_def)

text \<open>Does the last entry of the log of a call release it?\<close>

definition releases ::
  "('p, 'm, 'j, 'a, 'au, 'vi, 's, 'h) ua_env \<Rightarrow> string \<Rightarrow> call_out list \<Rightarrow> bool" where
  "releases E peer out =
     (out \<noteq> [] \<and>
      (case last out of
         CoEvent ev t \<Rightarrow> ev = CALL_EVENT_CLOSED \<or> ev = CALL_EVENT_TRANSFER_FAILED \<or>
           ev = CALL_EVENT_INCOMING \<and> contact_block_access (ue_hash E) (ue_contacts E) peer
       | _ \<Rightarrow> False))"

lemma releases_snoc [simp]:
  "releases E peer (xs @ [y]) =
     (case y of CoEvent ev t \<Rightarrow> ev = CALL_EVENT_CLOSED \<or> ev = CALL_EVENT_TRANSFER_FAILED \<or>
        ev = CALL_EVENT_INCOMING \<and> contact_block_access (ue_hash E) (ue_contacts E) peer | _ \<Rightarrow> False)"
  by (simp add: releases_def)

lemma releases_quiet: "\<forall>y\<in>set ys. \<not> fatal y \<Longrightarrow> \<not> releases E peer ys"
  by (cases ys rule: rev_cases) (auto simp: releases_def[of _ _ "[]"] split: call_out.splits)

lemma resume_gone: "ua_call_get g u x = None \<Longrightarrow> ua_call_get (resume_call E u g) u x = None"
  using ids_get[of g u x] ids_get[of "resume_call E u g" u x] by auto

lemma out_event:
  assumes "ua_call_get g u x = Some c" "cl_peer_uri c = Some peer" "y = CoEvent ev t"
  shows "ug_freed (ua_call_out E u x y g) = ug_freed g @ (if releases E peer [y] then [(x, call_destructor (ue_call E) c)] else [])"
    "ua_call_get (ua_call_out E u x y g) u x = None \<longleftrightarrow> releases E peer [y]"
    "call_ids (ua_call_out E u x y g) =
      (if releases E peer [y] then map (\<lambda>(v, xs). (v, if v = u then filter (\<lambda>z. z \<noteq> x) xs else xs)) (call_ids g)
       else call_ids g)"
proof -
  obtain ua where ua: "ua_get g u = Some ua" using get_some[OF assms(1)] by blast
  have n: "ua_call_get (snd (ua_call_op u x f g)) u x \<noteq> None" for f
    using ids_get[of g u x] ids_get[of "snd (ua_call_op u x f g)" u x] assms(1) by auto
  have r: "releases E peer [y] = (ev = CALL_EVENT_CLOSED \<or> ev = CALL_EVENT_TRANSFER_FAILED \<or>
      ev = CALL_EVENT_INCOMING \<and> contact_block_access (ue_hash E) (ue_contacts E) peer)"
    using releases_snoc[of E peer "[]" y] assms(3) by simp
  note d = ua_call_out_def ua_call_event_handler_def ua_incoming_def
  show "ug_freed (ua_call_out E u x y g) = ug_freed g @ (if releases E peer [y] then [(x, call_destructor (ue_call E) c)] else [])"
    unfolding r using assms ua by (cases ev) (auto simp: d free_effect split: answermode.split)
  show "ua_call_get (ua_call_out E u x y g) u x = None \<longleftrightarrow> releases E peer [y]"
    unfolding r using assms ua n by (cases ev) (auto simp: d resume_gone split: answermode.split)
  show "call_ids (ua_call_out E u x y g) =
      (if releases E peer [y] then map (\<lambda>(v, xs). (v, if v = u then filter (\<lambda>z. z \<noteq> x) xs else xs)) (call_ids g)
       else call_ids g)"
    unfolding r using assms ua by (cases ev) (auto simp: d free_effect split: answermode.split)
qed

text \<open>
  C27: The end of a call.  When a call makes a step, the user agent releases it exactly when the
  step ended with the event that it is closed, could not be transferred, or came in from a
  blocked contact: then it leaves the list, is released once, and in the state the step left
  it in, so nothing used it in between; otherwise it stays in the list.  No other call is released,
  and no list of calls changes otherwise.
\<close>

theorem call_released_once:
  assumes "media_laws (ue_call E)" "ua_call_get g u x = Some c" "f c = (err, c')" "call_step (ue_call E) c c'"
    and "cl_peer_uri c' = Some peer" "rel = releases E peer (drop (length (cl_out c)) (cl_out c'))"
    and "g' = snd (ua_run_call E u x f g)"
  shows "ug_freed g' = ug_freed g @ (if rel then [(x, call_destructor (ue_call E) c')] else []) \<and>
    (ua_call_get g' u x = None \<longleftrightarrow> rel) \<and>
    call_ids g' = (if rel then map (\<lambda>(v, xs). (v, if v = u then filter (\<lambda>z. z \<noteq> x) xs else xs)) (call_ids g)
                   else call_ids g)"
proof -
  obtain c0 xs where o: "cl_out c0 = cl_out c @ xs" "\<forall>y\<in>set xs. \<not> fatal y"
      "c' = c0 \<or> (\<exists>ev t. c' = cl_emit (CoEvent ev t) c0)"
    using step_good[OF assms(1,4)] by (auto simp: good_def ends_def quiet_out_def)
  define h where "h = fold (ua_call_out E u x) xs (ua_call_put u x c' g)"
  have h: "call_ids h = call_ids g" "ug_freed h = ug_freed g" "ua_call_get h u x = Some c'"
    using fold_quiet[OF o(2), of E u x "ua_call_put u x c' g"] assms(2) by (simp_all add: h_def)
  have g': "g' = fold (ua_call_out E u x) (drop (length (cl_out c)) (cl_out c')) (ua_call_put u x c' g)"
    using assms(2,3,7) by (simp add: ua_run_call_def)
  from o(3) show ?thesis
  proof (elim disjE exE)
    assume "c' = c0"
    then have "drop (length (cl_out c)) (cl_out c') = xs" using o(1) by simp
    moreover from this have "\<not> rel" using releases_quiet[OF o(2)] assms(6) by simp
    ultimately show ?thesis using h g' by (simp add: h_def[symmetric])
  next
    fix ev t assume "c' = cl_emit (CoEvent ev t) c0"
    then have d: "drop (length (cl_out c)) (cl_out c') = xs @ [CoEvent ev t]" using o(1) by (simp add: cl_emit_def)
    then have "rel = releases E peer [CoEvent ev t]"
      using assms(6) releases_snoc[of E peer xs] releases_snoc[of E peer "[]"] by simp
    then show ?thesis
      using out_event[OF h(3) assms(5) HOL.refl, of E ev t] h(1,2) g' d by (simp add: h_def[symmetric])
  qed
qed


subsection \<open>The number of calls\<close>

definition n_calls :: "('p, 'm, 'j, 'a, 'au, 'vi, 's) uag \<Rightarrow> nat" where
  "n_calls g = sum_list (map (\<lambda>(u, xs). length xs) (call_ids g))"

lemma call_count: "uag_call_count g = of_nat (n_calls g)"
  by (simp add: uag_call_count_def n_calls_def call_ids_def comp_def case_prod_unfold)

lemma n_calls_ids: "call_ids g = call_ids h \<Longrightarrow> n_calls g = n_calls h"
  by (simp add: n_calls_def)

lemma n_calls_free: "n_calls (ua_call_free E u x g) \<le> n_calls g"
  unfolding n_calls_def free_effect by (auto simp: comp_def case_prod_unfold intro: sum_list_mono)

lemma n_calls_simps [simp]:
  "n_calls (ug_emit y g) = n_calls g" "n_calls (ug_event E u1 ev c fmt args g) = n_calls g"
  "n_calls (snd (ua_call_op u x f g)) = n_calls g" "n_calls (resume_call E u g) = n_calls g"
  "n_calls (ua_call_put u x d g) = n_calls g" "n_calls (ua_note u x z g) = n_calls g"
  by (rule n_calls_ids, simp)+

lemma n_calls_out: "n_calls (ua_call_out E u x y g) \<le> n_calls g"
proof (cases y)
  case (CoEvent ev t)
  have "n_calls (resume_call E u (ua_call_free E u x (ug_event E (Some u) e1 (Some x) t [] g))) \<le> n_calls g"
    "n_calls (ua_call_free E u x (ug_event E (Some u) e1 (Some x) t [] g)) \<le> n_calls g" for e1
    using n_calls_free[of E u x "ug_event E (Some u) e1 (Some x) t [] g"] by simp_all
  then show ?thesis
    using CoEvent by (cases ev)
      (auto simp: ua_call_out_def ua_call_event_handler_def ua_incoming_def split: option.split answermode.split)
qed (simp_all add: ua_call_out_def call_dtmf_handler_def)

lemma n_calls_run: "n_calls (snd (ua_run_call E u x f g)) \<le> n_calls g"
proof -
  have "n_calls (fold (ua_call_out E u x) ys h) \<le> n_calls h" for ys h
  proof (induction ys arbitrary: h)
    case (Cons y ys)
    then show ?case using n_calls_out[of E u x y h] le_trans[OF Cons[of "ua_call_out E u x y h"]] by simp
  qed simp
  note f = this
  show ?thesis
    using f[of "drop (length (cl_out c)) (cl_out c')" "ua_call_put u x c' g" for c c']
    by (auto simp: ua_run_call_def case_prod_beta split: option.split)
qed

lemma map_of_upd_sum:
  assumes "distinct (map fst l)"
  shows "sum_list (map (\<lambda>(u, xs). length xs) (map (\<lambda>(v, xs). (v, if v = u then xs @ [x] else xs)) l)) \<le>
    Suc (sum_list (map (\<lambda>(u, xs). length xs) l))"
proof (cases "u \<in> fst ` set l")
  case False
  then have "map (\<lambda>(v, xs). (v, if v = u then xs @ [x] else xs)) l = l" by (induction l) auto
  then show ?thesis by simp
next
  case True
  then show ?thesis using assms
  proof (induction l)
    case (Cons p l)
    obtain v xs where p: "p = (v, xs)" by fastforce
    show ?case
    proof (cases "v = u")
      case True
      then have "u \<notin> fst ` set l" using Cons.prems p by auto
      then have "map (\<lambda>(v, xs). (v, if v = u then xs @ [x] else xs)) l = l" by (induction l) auto
      then show ?thesis using p True by simp
    next
      case False
      then show ?thesis using Cons p by auto
    qed
  qed simp
qed

lemma alloc_cases:
  obtains "snd (ua_call_alloc E u x vm msg xc luri ur g) = g"
  | c where "snd (ua_call_alloc E u x vm msg xc luri ur g) = ua_upd u (\<lambda>ua. ua\<lparr>ua_calls := ua_calls ua @ [(x, c)]\<rparr>) g"
proof (cases "ua_get g u")
  case None
  then show ?thesis using that(1) by (simp add: ua_call_alloc_def)
next
  case (Some ua)
  obtain err call l where a: "call_alloc (ue_call E) (ue_audio_alloc E) (ue_video_alloc E) (ue_config E)
      (ue_sdp0 E (ue_laddr E (ua_call_family E ua msg))) (map snd (ua_calls ua)) (acc_dispname (ua_acc ua))
      (if luri \<noteq> None then luri else acc_aor (ua_acc ua)) (Some (ua_acc ua))
      (Some \<lparr>cp_vidmode = vm, cp_af = ua_call_family E ua msg, cp_use_rtp = ur\<rparr>) msg xc True = (err, call, l)"
    by (metis prod_cases3)
  show ?thesis
    using that Some by (cases call) (simp_all only: ua_call_alloc_def Let_def a prod.case option.case snd_conv)
qed

lemma ids_append:
  "call_ids (ua_upd u (\<lambda>ua. ua\<lparr>ua_calls := ua_calls ua @ [(x, c)]\<rparr>) g) =
     map (\<lambda>(v, xs). (v, if v = u then xs @ [x] else xs)) (call_ids g)"
  by (auto simp: call_ids_def ua_upd_def assoc_upd_def)

lemma n_calls_alloc:
  assumes "distinct (map fst (ug_ual g))"
  shows "n_calls (snd (ua_call_alloc E u x vm msg xc luri ur g)) \<le> Suc (n_calls g)"
proof (cases rule: alloc_cases[of E u x vm msg xc luri ur g])
  case (2 c)
  have "distinct (map fst (call_ids g))" using assms by (simp add: call_ids_def comp_def case_prod_unfold)
  then show ?thesis unfolding 2 n_calls_def ids_append by (rule map_of_upd_sum)
qed simp

lemma n_calls_conn: "n_calls (conn_accept E u x ua msg g) \<le> n_calls g"
proof -
  have r: "n_calls (snd (ua_run_call E u x f h)) \<le> n_calls g" if "n_calls h \<le> n_calls g" for f h
    using that n_calls_run[of E u x f h] by simp
  have fr: "n_calls (ua_call_free E u x h) \<le> n_calls g" if "n_calls h \<le> n_calls g" for h
    using that n_calls_free[of E u x h] by simp
  show ?thesis
    unfolding conn_accept_def Let_def case_prod_beta
    by (auto intro!: r fr)
qed

text \<open>
  C28: The limit on calls.  An incoming call never brings the number of calls of all user agents
  above the configured maximum; when the maximum is reached, the INVITE gets 486 and nothing
  else happens.  The maximum must be below \<open>2 ^ 32 - 1\<close>: the source adds one to the number of
  calls in 32 bits.
\<close>

theorem max_calls_kept:
  assumes "distinct (map fst (ug_ual g))" "cc_max_calls (ue_config E) \<noteq> 0" "cc_max_calls (ue_config E) \<noteq> - 1"
    and "n_calls g \<le> unat (cc_max_calls (ue_config E))"
  shows "n_calls (sipsess_conn_handler E x msg g) \<le> unat (cc_max_calls (ue_config E)) \<and>
    (n_calls g = unat (cc_max_calls (ue_config E)) \<longrightarrow> uag_find (ue_libre E) g (sm_uri_user msg) \<noteq> None \<longrightarrow>
      sipsess_conn_handler E x msg g = ug_emit (UoTreply 486 ''Max Calls'') g)"
proof -
  let ?m = "cc_max_calls (ue_config E)"
  have m: "unat ?m < 2 ^ 32 - 1"
    using assms(3) unsigned_less[where 'a = nat, of ?m] by (auto simp: word_unat_eq_iff unsigned_minus_1_eq_mask mask_eq_exp_minus_1)
  have c: "uag_call_count g + 1 > ?m \<longleftrightarrow> n_calls g = unat ?m"
    using m assms(4) unfolding call_count word_less_nat_alt
    by (auto simp: unat_word_ariths unat_of_nat take_bit_nat_eq_self)
  show ?thesis
  proof (cases "n_calls g = unat ?m")
    case True
    have "ua_get g u \<noteq> None" if "uag_find (ue_libre E) g (sm_uri_user msg) = Some u" for u
      using that by (auto simp: uag_find_def ua_get_def find_Some_iff map_of_eq_None_iff image_iff split: option.splits)
        (metis nth_mem fst_conv)+
    then show ?thesis using True c assms(2,4)
      by (auto simp: sipsess_conn_handler_def split: option.splits)
  next
    case False
    then have "Suc (n_calls g) \<le> unat ?m" using assms(4) by simp
    then have a: "n_calls (snd (ua_call_alloc E u x vm ms xc luri ur g)) \<le> unat ?m" for u vm ms xc luri ur
      using n_calls_alloc[OF assms(1), of E u x vm ms xc luri ur] by simp
    then have "n_calls (conn_accept E u x ua msg (snd (ua_call_alloc E u x vm ms xc luri ur g))) \<le> unat ?m" for u ua vm ms xc luri ur
      using n_calls_conn[of E u x ua msg] le_trans by blast
    then show ?thesis using a assms(4) False
      by (auto simp: sipsess_conn_handler_def Let_def case_prod_beta split: option.split)
  qed
qed


subsection \<open>Hanging up\<close>

lemma note_out: "\<exists>zs. ug_out (ua_note u x y g) = ug_out g @ zs"
  by (cases y) (simp_all add: exI[of _ "[]"])

lemma fold_note_out: "\<exists>zs. ug_out (fold (ua_note u x) ys g) = ug_out g @ zs"
proof (induction ys arbitrary: g)
  case (Cons y ys)
  obtain as where "ug_out (ua_note u x y g) = ug_out g @ as" using note_out by blast
  then show ?case using Cons[of "ua_note u x y g"] by auto
qed simp

lemma note_ual [simp]: "ug_ual (ua_note u x y g) = ug_ual g"
  by (cases y) simp_all

lemma fold_note_ual [simp]: "ug_ual (fold (ua_note u x) ys g) = ug_ual g"
  by (induction ys arbitrary: g) simp_all

lemma get_ual: "ug_ual g = ug_ual h \<Longrightarrow> ua_get g = ua_get h"
  by (simp add: fun_eq_iff ua_get_def)

lemma op_get:
  assumes "ua_get g u = Some ua" "map_of (ua_calls ua) x = Some c" "f c = (err, c')"
  shows "ua_get (snd (ua_call_op u x f g)) u = Some (ua\<lparr>ua_calls := assoc_upd x (\<lambda>_. c') (ua_calls ua)\<rparr>)"
    "\<exists>zs. ug_out (snd (ua_call_op u x f g)) = ug_out g @ zs"
proof -
  define h where "h = ua_call_put u x c' g"
  have h: "ua_get h u = Some (ua\<lparr>ua_calls := assoc_upd x (\<lambda>_. c') (ua_calls ua)\<rparr>)" "ug_out h = ug_out g"
    using assms(1) by (simp_all add: h_def ua_call_put_def)
  have o: "snd (ua_call_op u x f g) = fold (ua_note u x) (drop (length (cl_out c)) (cl_out c')) h"
    using assms by (simp add: ua_call_op_def ua_call_get_def h_def)
  show "ua_get (snd (ua_call_op u x f g)) u = Some (ua\<lparr>ua_calls := assoc_upd x (\<lambda>_. c') (ua_calls ua)\<rparr>)"
    unfolding o using h(1) get_ual[OF fold_note_ual] by metis
  show "\<exists>zs. ug_out (snd (ua_call_op u x f g)) = ug_out g @ zs"
    unfolding o using fold_note_out[of u x _ h] h(2) by simp
qed

lemma free_get:
  assumes "ua_get g u = Some ua" "map_of (ua_calls ua) x = Some c"
  shows "ua_get (ua_call_free E u x g) u = Some (ua\<lparr>ua_calls := filter (\<lambda>(y, _). y \<noteq> x) (ua_calls ua)\<rparr>)"
    "ug_out (ua_call_free E u x g) = ug_out g @ [UoCallFree x]"
  using assms by (simp_all add: ua_call_free_def ua_call_get_def Let_def)

lemma filter_upd: "filter (\<lambda>(y, _). y \<noteq> x) (assoc_upd x f xs) = filter (\<lambda>(y, _). y \<noteq> x) xs"
  by (induction xs) (auto simp: assoc_upd_def)

lemma hold_off:
  assumes "media_laws E" "cl_sess d"
  shows "\<not> cl_on_hold (snd (call_hold E False d))"
proof -
  have m: "calm c (snd (call_modify E c))" for c using assms(1) by (intro calms)
  show ?thesis using assms(2) m
    by (auto simp: call_hold_def Let_def calm_def foreach_strm_def on_audio_strm_def on_video_strm_def)
qed

text \<open>
  C29: Hanging up.  The call is hung up, its end is reported, and it is released, in this order; after
  that the last call of the list that is on hold is taken off hold, and only that one.
\<close>

theorem hangup_resumes:
  assumes "media_laws (ue_call E)" "ua_get g u = Some ua" "distinct (map fst (ua_calls ua))"
    and "ua_pick_call call ua = Some x" "map_of (ua_calls ua) x = Some c"
    and "rest = filter (\<lambda>(y, _). y \<noteq> x) (ua_calls ua)" "g' = ua_hangup E u call scode reason g"
  shows "(\<exists>zs ws t. ug_out g' = ug_out g @ zs @ [UoEvent (Some u) UA_EVENT_CALL_CLOSED (Some x) t, UoCallFree x] @ ws) \<and>
    ug_freed g' = ug_freed g @ [(x, call_destructor (ue_call E) (call_hangup (ue_call E) scode reason c))] \<and>
    (case List.find (\<lambda>(_, d). cl_on_hold d) (rev rest) of
       None \<Rightarrow> ua_get g' u = Some (ua\<lparr>ua_calls := rest\<rparr>)
     | Some (y, d) \<Rightarrow>
         ua_get g' u = Some (ua\<lparr>ua_calls := assoc_upd y (\<lambda>_. snd (call_hold (ue_call E) False d)) rest\<rparr>) \<and>
         (cl_sess d \<longrightarrow> \<not> cl_on_hold (snd (call_hold (ue_call E) False d))))"
proof -
  define c1 where "c1 = call_hangup (ue_call E) scode reason c"
  define g1 where "g1 = snd (ua_call_op u x (\<lambda>c. (0, call_hangup (ue_call E) scode reason c)) g)"
  define ua1 where "ua1 = ua\<lparr>ua_calls := assoc_upd x (\<lambda>_. c1) (ua_calls ua)\<rparr>"
  define msgt where "msgt = Some (case reason of None \<Rightarrow> ''Connection reset by user'' | Some r \<Rightarrow> r)"
  define g2 where "g2 = ug_event E (Some u) UA_EVENT_CALL_CLOSED (Some x) msgt [] g1"
  define g3 where "g3 = ua_call_free E u x g2"
  have g': "g' = resume_call E u g3"
    using assms(2,4,7) by (simp add: ua_hangup_def g1_def g2_def g3_def msgt_def)
  have 1: "ua_get g1 u = Some ua1" "\<exists>zs. ug_out g1 = ug_out g @ zs"
    using op_get[OF assms(2,5), of "\<lambda>c. (0, call_hangup (ue_call E) scode reason c)" 0 c1]
    by (simp_all add: g1_def ua1_def c1_def)
  have 2: "ua_get g2 u = Some ua1" "\<exists>zs t. ug_out g2 = ug_out g @ zs @ [UoEvent (Some u) UA_EVENT_CALL_CLOSED (Some x) t]"
    using 1 by (auto simp: g2_def ug_event_def)
  have c1: "map_of (ua_calls ua1) x = Some c1" using assms(5) by (simp add: ua1_def)
  have 3: "ua_get g3 u = Some (ua\<lparr>ua_calls := rest\<rparr>)"
      "\<exists>zs t. ug_out g3 = ug_out g @ zs @ [UoEvent (Some u) UA_EVENT_CALL_CLOSED (Some x) t, UoCallFree x]"
    using free_get[OF 2(1) c1, of E] 2(2) assms(6) by (auto simp: g3_def ua1_def filter_upd)
  have f: "ug_freed g3 = ug_freed g @ [(x, call_destructor (ue_call E) c1)]"
    using 2(1) c1 unfolding g3_def free_effect by (simp add: ua_call_get_def g2_def g1_def)
  have d: "distinct (map fst rest)"
    using assms(3,6) by (auto simp: distinct_map inj_on_def)
  show ?thesis
  proof (cases "List.find (\<lambda>(_, d). cl_on_hold d) (rev rest)")
    case None
    then have "g' = g3" using 3(1) by (simp add: g' resume_call_def ua_find_call_onhold_def)
    then show ?thesis using None 3 f by (auto simp: c1_def)
  next
    case (Some p)
    obtain y e where p: "p = (y, e)" by fastforce
    then have "(y, e) \<in> set rest" using Some by (auto simp: find_Some_iff) (metis nth_mem set_rev length_rev)
    then have m: "map_of rest y = Some e" using d by simp
    have r: "g' = snd (ua_call_op u y (call_hold (ue_call E) False) g3)"
      using 3(1) Some p by (simp add: g' resume_call_def ua_find_call_onhold_def)
    obtain er e' where h: "call_hold (ue_call E) False e = (er, e')" by fastforce
    note o = op_get[OF 3(1), of y e "call_hold (ue_call E) False" er e', simplified, OF m h]
    obtain zs t ws where "ug_out g' = (ug_out g @ zs @ [UoEvent (Some u) UA_EVENT_CALL_CLOSED (Some x) t, UoCallFree x]) @ ws"
      using o(2) 3(2) r by auto
    then have "\<exists>zs ws t. ug_out g' = ug_out g @ zs @ [UoEvent (Some u) UA_EVENT_CALL_CLOSED (Some x) t, UoCallFree x] @ ws"
      by (metis append_assoc)
    moreover have "ug_freed g' = ug_freed g3" by (simp add: r)
    ultimately show ?thesis
      using o(1) f Some p h hold_off[OF assms(1), of e] by (simp add: c1_def r)
  qed
qed


subsection \<open>The list of user agents\<close>

text \<open>
  A user agent has at most 8 extensions and 2 register clients (one per outbound proxy), the
  addresses of its calls are distinct, and its contact user ends with its own address.
\<close>

definition ua_ok ::
  "('p, 'm, 'j, 'a, 'au, 'vi, 's, 'h) ua_env \<Rightarrow> nat \<Rightarrow> ('p, 'm, 'j, 'a, 'au, 'vi, 's) ua \<Rightarrow> bool" where
  "ua_ok E u ua =
     (length (ua_extensionv ua) \<le> 8 \<and> length (ua_regl ua) \<le> 2 \<and> distinct (map fst (ua_calls ua)) \<and>
      (\<exists>user. ua_cuser_f ua = Some (user @ ''-'' @ ue_ptr_str E u)))"

definition uag_ok ::
  "('p, 'm, 'j, 'a, 'au, 'vi, 's, 'h) ua_env \<Rightarrow> ('p, 'm, 'j, 'a, 'au, 'vi, 's) uag \<Rightarrow> bool" where
  "uag_ok E g = (distinct (map fst (ug_ual g)) \<and> (\<forall>(u, ua)\<in>set (ug_ual g). ua_ok E u ua))"

named_theorems oks \<open>operations that keep the user agents well-formed\<close>

lemma ok_ual: "ug_ual g = ug_ual h \<Longrightarrow> uag_ok E g = uag_ok E h"
  by (simp add: uag_ok_def)

lemma ok_get: "uag_ok E g \<Longrightarrow> ua_get g u = Some ua \<Longrightarrow> ua_ok E u ua"
  by (auto simp: uag_ok_def ua_get_def dest: map_of_SomeD)

lemma ok_upd:
  assumes "uag_ok E g" "\<And>ua. ua_ok E u ua \<Longrightarrow> ua_get g u = Some ua \<Longrightarrow> ua_ok E u (f ua)"
  shows "uag_ok E (ua_upd u f g)"
proof -
  have "ua_ok E v (if v = u then f ua else ua)" if "(v, ua) \<in> set (ug_ual g)" for v ua
  proof (cases "v = u")
    case True
    then have "ua_get g u = Some ua" using that assms(1) by (simp add: uag_ok_def ua_get_def)
    then show ?thesis using True assms that by (auto simp: uag_ok_def)
  qed (use assms(1) that in \<open>auto simp: uag_ok_def\<close>)
  then show ?thesis using assms(1) by (auto simp: uag_ok_def ua_upd_def assoc_upd_def comp_def case_prod_unfold)
qed

lemma ok_emit [oks]: "uag_ok E g \<Longrightarrow> uag_ok E (ug_emit x g)"
  using ok_ual[of "ug_emit x g" g E] by simp

lemma ok_event [oks]: "uag_ok E g \<Longrightarrow> uag_ok E (ug_event E' u ev c fmt args g)"
  using ok_ual[of "ug_event E' u ev c fmt args g" g E] by simp

lemma ok_call [oks]: "uag_ok E g \<Longrightarrow> uag_ok E (snd (ug_call E' x g))"
  by (simp add: ug_call_def ok_emit)

lemma ok_put [oks]: "uag_ok E g \<Longrightarrow> uag_ok E (ua_call_put u x c g)"
  unfolding ua_call_put_def by (rule ok_upd) (auto simp: ua_ok_def)

lemma ok_note [oks]: "uag_ok E g \<Longrightarrow> uag_ok E (ua_note u x y g)"
  using ok_ual[of "ua_note u x y g" g E] by simp

lemma ok_fold_note [oks]: "uag_ok E g \<Longrightarrow> uag_ok E (fold (ua_note u x) ys g)"
  using ok_ual[of "fold (ua_note u x) ys g" g E] by simp

lemma ok_op [oks]: "uag_ok E g \<Longrightarrow> uag_ok E (snd (ua_call_op u x f g))"
  by (auto simp: ua_call_op_def case_prod_beta split: option.split intro!: oks)

lemma ok_resume [oks]: "uag_ok E g \<Longrightarrow> uag_ok E (resume_call E' u g)"
  by (auto simp: resume_call_def split: option.split intro!: oks)

lemma ok_free [oks]: "uag_ok E g \<Longrightarrow> uag_ok E (ua_call_free E' u x g)"
proof -
  assume g: "uag_ok E g"
  have "uag_ok E (ua_upd u (\<lambda>ua. ua\<lparr>ua_calls := filter (\<lambda>(y, _). y \<noteq> x) (ua_calls ua)\<rparr>) g)"
    using g by (rule ok_upd) (auto simp: ua_ok_def distinct_map inj_on_def)
  then show ?thesis using g
    by (auto simp: ua_call_free_def Let_def split: option.split intro!: oks) (simp add: uag_ok_def)
qed

lemma ok_out [oks]: "uag_ok E g \<Longrightarrow> uag_ok E (ua_call_out E' u x y g)"
  by (auto simp: ua_call_out_def ua_call_event_handler_def ua_incoming_def call_dtmf_handler_def
      split: call_out.split option.split call_event.split answermode.split intro!: oks)

lemma ok_fold_out [oks]: "uag_ok E g \<Longrightarrow> uag_ok E (fold (ua_call_out E' u x) ys g)"
  by (induction ys arbitrary: g) (auto intro!: oks)

lemma ok_run [oks]: "uag_ok E g \<Longrightarrow> uag_ok E (snd (ua_run_call E' u x f g))"
  by (auto simp: ua_run_call_def case_prod_beta split: option.split intro!: oks)

lemma loop_length: "length (snd (register_loop E acc cu ru ps fb i regl)) = length regl"
  by (induction regl arbitrary: i) (auto simp: case_prod_beta Let_def)

lemma ok_start_register [oks]: "uag_ok E g \<Longrightarrow> uag_ok E (snd (start_register E' u fb g))"
proof -
  assume g: "uag_ok E g"
  have u: "uag_ok E (ua_upd u (\<lambda>ua. ua\<lparr>ua_regl := snd (register_loop E' acc cu ru ps b 0 (ua_regl ua0))\<rparr>) h)"
    if "uag_ok E h" "ua_get h u = Some ua0" for h acc cu ru ps b ua0
    using that(1) by (rule ok_upd) (use that(2) in \<open>auto simp: ua_ok_def loop_length\<close>)
  show ?thesis
    unfolding start_register_def Let_def case_prod_beta
    by (auto split: option.split intro!: oks g u)
qed

lemma ok_register [oks]:
  "uag_ok E g \<Longrightarrow> uag_ok E (snd (ua_register E' u g))" "uag_ok E g \<Longrightarrow> uag_ok E (snd (ua_fallback E' u g))"
  by (auto simp: ua_register_def ua_fallback_def split: option.split intro!: oks)

lemma ok_unregister [oks]: "uag_ok E g \<Longrightarrow> uag_ok E (ua_unregister E' u g)"
  by (auto simp: ua_unregister_def Let_def split: option.split intro!: oks ok_upd) (auto simp: ua_ok_def)

lemma ok_reg_out [oks]: "uag_ok E g \<Longrightarrow> uag_ok E (ua_reg_out E' u y g)"
  by (cases y) (auto simp: ua_pub_gruu_set_def ua_ok_def intro!: oks ok_upd)

lemma ok_response [oks]: "uag_ok E g \<Longrightarrow> uag_ok E (ua_reg_response E' u i err msg g)"
proof -
  have f: "uag_ok E h \<Longrightarrow> uag_ok E (fold (ua_reg_out E' u) ys h)" for ys h
    by (induction ys arbitrary: h) (auto intro!: oks)
  assume "uag_ok E g"
  then show ?thesis
    by (auto simp: ua_reg_response_def case_prod_beta split: option.split intro!: f ok_upd) (auto simp: ua_ok_def)
qed

lemma ok_alloc_call [oks]:
  assumes "uag_ok E g" "\<forall>ua. ua_get g u = Some ua \<longrightarrow> x \<notin> fst ` set (ua_calls ua)"
  shows "uag_ok E (snd (ua_call_alloc E' u x vm msg xc luri ur g))"
proof (cases rule: alloc_cases[of E' u x vm msg xc luri ur g])
  case (2 c)
  show ?thesis unfolding 2 using assms(1) by (rule ok_upd) (use assms(2) in \<open>auto simp: ua_ok_def\<close>)
qed (use assms(1) in simp)

lemma ok_hangup [oks]: "uag_ok E g \<Longrightarrow> uag_ok E (ua_hangup E' u call scode reason g)"
  by (auto simp: ua_hangup_def Let_def split: option.split intro!: oks)

lemma ok_answer [oks]:
  "uag_ok E g \<Longrightarrow> uag_ok E (snd (ua_answer E' u call vmode g))"
  by (auto simp: ua_answer_def split: option.split intro!: oks)

lemma ok_hold_answer [oks]: "uag_ok E g \<Longrightarrow> uag_ok E (snd (ua_hold_answer E' u call vmode g))"
  by (auto simp: ua_hold_answer_def Let_def case_prod_beta split: option.split intro!: oks)

lemma ok_options_send [oks]: "uag_ok E g \<Longrightarrow> uag_ok E (snd (ua_options_send E' u uri g))"
  by (auto simp: ua_options_send_def Let_def case_prod_beta split: option.split intro!: oks)

lemma ok_connect [oks]:
  assumes "uag_ok E g" "\<forall>ua. ua_get g u = Some ua \<longrightarrow> x \<notin> fst ` set (ua_calls ua)"
  shows "uag_ok E (snd (snd (ua_connect_dir E' u x furi ruri vmode adir vdir g)))"
  unfolding ua_connect_dir_def Let_def case_prod_beta
  by (auto simp: case_prod_beta split: option.split intro!: oks assms)

lemma ok_options [oks]:
  assumes "uag_ok E g" "\<forall>ua. ua_get g u = Some ua \<longrightarrow> x \<notin> fst ` set (ua_calls ua)"
  shows "uag_ok E (handle_options E' u x msg g)"
  unfolding handle_options_def Let_def case_prod_beta
  by (auto split: option.split sum.split intro!: oks assms)

lemma ok_conn_accept [oks]: "uag_ok E g \<Longrightarrow> uag_ok E (conn_accept E' u x ua msg g)"
  by (auto simp: conn_accept_def Let_def case_prod_beta intro!: oks)

text \<open>The address of a new call is not in use.\<close>

definition fresh_call :: "('p, 'm, 'j, 'a, 'au, 'vi, 's) uag \<Rightarrow> nat \<Rightarrow> bool" where
  "fresh_call g x = (\<forall>u ua. ua_get g u = Some ua \<longrightarrow> x \<notin> fst ` set (ua_calls ua))"

lemma ok_conn [oks]: "uag_ok E g \<Longrightarrow> fresh_call g x \<Longrightarrow> uag_ok E (sipsess_conn_handler E' x msg g)"
  unfolding sipsess_conn_handler_def Let_def case_prod_beta
  by (auto split: option.split intro!: oks simp: fresh_call_def)

lemma ok_request [oks]: "uag_ok E g \<Longrightarrow> fresh_call g x \<Longrightarrow> uag_ok E (snd (request_handler E' x msg g))"
  unfolding request_handler_def by (auto split: option.split intro!: oks simp: fresh_call_def)

lemma ok_subscribe [oks]: "uag_ok E g \<Longrightarrow> uag_ok E (snd (sub_handler E' msg g))"
  unfolding sub_handler_def by (auto split: option.split intro!: oks)

lemma ok_settings [oks]:
  "uag_ok E g \<Longrightarrow> uag_ok E (ua_presence_status_set u st g)" "uag_ok E g \<Longrightarrow> uag_ok E (ua_set_media_af u af g)"
  "uag_ok E g \<Longrightarrow> uag_ok E (ua_set_catchall u b g)" "uag_ok E g \<Longrightarrow> uag_ok E (uag_current_set cu g)"
  "uag_ok E g \<Longrightarrow> uag_ok E (snd (ua_add_xhdr_filter E' u n g))"
  "uag_ok E g \<Longrightarrow> uag_ok E (snd (ua_set_custom_hdrs E' u hdrs g))"
  "uag_ok E g \<Longrightarrow> uag_ok E (snd (uag_set_extra_params L eprm g))"
  by (auto simp: ua_presence_status_set_def ua_set_media_af_def ua_set_catchall_def ua_add_xhdr_filter_def
      ua_set_custom_hdrs_def uag_set_extra_params_def case_prod_beta split: option.split intro!: ok_upd)
     (auto simp: ua_ok_def uag_ok_def uag_current_set_def)

lemma outbound_length: "length (snd (outbound_loop L acc js regl)) \<le> length regl + length js"
proof (induction js arbitrary: regl)
  case (Cons i js)
  show ?case using Cons[of regl] Cons[of "snd (reg_add L regl (int i + 1))"]
    by (auto simp: case_prod_beta reg_add_def)
qed simp

lemma add_ext: "length (ua_extensionv ua) \<le> 8 \<Longrightarrow> length (ua_extensionv (add_extension e ua)) \<le> 8"
  "ua_regl (add_extension e ua) = ua_regl ua" "ua_calls (add_extension e ua) = ua_calls ua"
  "ua_cuser_f (add_extension e ua) = ua_cuser_f ua" "ua_acc (add_extension e ua) = ua_acc ua"
  by (auto simp: add_extension_def)

lemma clients_ok:
  assumes "ua_regl ua = []" "ua_ok E u ua"
  shows "ua_ok E u (snd (create_register_clients L cfg ua))"
proof -
  have o: "length (snd (outbound_loop L acc [0, 1] [])) \<le> 2" for acc
    by (rule order_trans[OF outbound_length]) simp
  show ?thesis
    using assms o unfolding create_register_clients_def Let_def case_prod_beta
    by (auto simp: ua_ok_def add_ext reg_add_def)
qed

lemma flush_ual [simp]: "ug_ual (ua_flush_calls E ua g) = ug_ual g"
proof -
  have "ug_ual (fold (\<lambda>(x, c) g. ug_emit (UoCallFree x) (g\<lparr>ug_freed := ug_freed g @ [(x, call_destructor (ue_call E) c)]\<rparr>)) xs g) =
      ug_ual g" for xs
    by (induction xs arbitrary: g) (auto simp: case_prod_unfold)
  then show ?thesis unfolding ua_flush_calls_def .
qed

lemma late_ual [simp]: "ug_ual (ug_late_close g) = ug_ual g"
  by (simp add: ug_late_close_def)

lemma destructor_ual [simp]: "ug_ual (ua_destructor E u ua g) = ug_ual g"
  by (simp add: ua_destructor_def Let_def)

lemma destroy_ual: "ug_ual (snd (ua_destroy E refs u g)) = filter (\<lambda>(v, _). v \<noteq> u) (ug_ual g)"
proof (cases "ua_get g u")
  case None
  then have "filter (\<lambda>(v, _). v \<noteq> u) (ug_ual g) = ug_ual g"
    by (auto simp: ua_get_def map_of_eq_None_iff image_iff intro!: filter_True)
  then show ?thesis using None by (simp add: ua_destroy_def)
qed (simp add: ua_destroy_def Let_def)

lemma ok_destroy [oks]: "uag_ok E g \<Longrightarrow> uag_ok E (snd (ua_destroy E' refs u g))"
  unfolding uag_ok_def destroy_ual by (auto simp: distinct_map inj_on_def)

lemma alloc_ual:
  assumes "ua_alloc E rnd u aor g = Some (err, r, g')"
  obtains "ug_ual g' = ug_ual g" | ua where "ug_ual g' = ug_ual g @ [(u, ua)]" "ua_ok E u ua" "err = 0"
proof -
  have n: "ua_ok E u (ua_new acc (user @ ''-'' @ ue_ptr_str E u))" for acc user
    by (simp add: ua_ok_def ua_new_def)
  have i: "ua_ok E u ua \<Longrightarrow> ua_ok E u (add_extension e ua)" for e ua by (auto simp: ua_ok_def add_ext)
  have c: "ua_ok E u (snd (create_register_clients L cfg (ua_new acc (user @ CHR ''-'' # ue_ptr_str E u))))"
    "ua_ok E u (snd (create_register_clients L cfg (add_extension e (ua_new acc (user @ CHR ''-'' # ue_ptr_str E u)))))"
    for L cfg acc e user
    using n[of acc user] i[OF n[of acc user]] by (auto intro!: clients_ok simp: add_ext ua_new_def)
  have "ug_ual g' = ug_ual g \<or> (\<exists>ua. ug_ual g' = ug_ual g @ [(u, ua)] \<and> ua_ok E u ua \<and> err = 0)"
    using assms unfolding ua_alloc_def Let_def case_prod_beta
    by (auto simp: uag_current_set_def c split: option.splits if_splits prod.splits)
  then show ?thesis using that by blast
qed


lemma ok_alloc:
  assumes "uag_ok E g" "u \<notin> fst ` set (ug_ual g)" "ua_alloc E rnd u aor g = Some (err, r, g')"
  shows "uag_ok E g'"
  by (cases rule: alloc_ual[OF assms(3)]) (use assms(1,2) in \<open>auto simp: uag_ok_def\<close>)

lemma ok_update [oks]: "uag_ok E g \<Longrightarrow> uag_ok E (snd (ua_update_account E' u g))"
  unfolding ua_update_account_def Let_def case_prod_beta
  by (auto split: option.split intro!: ok_upd clients_ok) (auto simp: ua_ok_def)

lemma ok_set_fields [oks]:
  "uag_ok E g \<Longrightarrow> uag_ok E (g\<lparr>ug_sip := b\<rparr>)" "uag_ok E g \<Longrightarrow> uag_ok E (g\<lparr>ug_lsnr := b\<rparr>)"
  "uag_ok E g \<Longrightarrow> uag_ok E (g\<lparr>ug_sock := b\<rparr>)" "uag_ok E g \<Longrightarrow> uag_ok E (g\<lparr>ug_evsock := b\<rparr>)"
  "uag_ok E g \<Longrightarrow> uag_ok E (g\<lparr>ug_tls := b\<rparr>)" "uag_ok E g \<Longrightarrow> uag_ok E (g\<lparr>ug_delayed_close := b\<rparr>)"
  "uag_ok E g \<Longrightarrow> uag_ok E (uag_set_sub_handler b g)" "uag_ok E g \<Longrightarrow> uag_ok E (uag_set_exit_handler b g)"
  by (simp_all add: uag_ok_def uag_set_sub_handler_def uag_set_exit_handler_def)

lemma ok_tls [oks]: "uag_ok E g \<Longrightarrow> uag_ok E (snd (add_tls E' cfg g))"
  by (auto simp: add_tls_def Let_def case_prod_beta intro!: oks)

lemma ok_transp_parts [oks]:
  "uag_ok E g \<Longrightarrow> uag_ok E (snd (add_udp_tcp E' g))" "uag_ok E g \<Longrightarrow> uag_ok E (snd (add_tls_transp E' cfg b g))"
  "uag_ok E g \<Longrightarrow> uag_ok E (snd (add_websock E' b g))"
  by (auto simp: add_udp_tcp_def add_tls_transp_def add_websock_def Let_def case_prod_beta intro!: oks)

lemma ok_transp [oks]: "uag_ok E g \<Longrightarrow> uag_ok E (snd (add_transp_af E' A laddr g))"
  unfolding add_transp_af_def Let_def case_prod_beta
  by (auto split: sum.split intro!: oks)

lemma ok_add_transp [oks]: "uag_ok E g \<Longrightarrow> uag_ok E (snd (ua_add_transp E' A g))"
  by (auto simp: ua_add_transp_def Let_def case_prod_beta intro!: oks)

lemma ok_exit [oks]: "uag_ok E g \<Longrightarrow> uag_ok E (exit_handler E' g)"
  by (auto simp: exit_handler_def Let_def intro!: oks)

lemma ok_close [oks]: "uag_ok E (ua_close E' g)"
  by (simp add: ua_close_def uag_ok_def)

lemma ok_init [oks]: "uag_ok E g \<Longrightarrow> uag_ok E (snd (ua_init E' A net cfg udp tcp tls g))"
proof -
  assume g: "uag_ok E g"
  have e: "uag_ok E (g\<lparr>ug_cfg := Some cfg, ug_use_udp := udp, ug_use_tcp := tcp, ug_use_tls := tls, ug_ual := []\<rparr>)"
    by (simp add: uag_ok_def)
  show ?thesis
    unfolding ua_init_def Let_def case_prod_beta
    by (auto simp: g intro!: oks e)
qed

lemma ok_destroy_all [oks]: "uag_ok E g \<Longrightarrow> uag_ok E (snd (destroy_all E' refs us n g))"
  by (induction us arbitrary: n g) (simp_all add: case_prod_beta Let_def oks)

lemma ok_stop [oks]: "uag_ok E g \<Longrightarrow> uag_ok E (ua_stop_all E' refs forced g)"
  by (auto simp: ua_stop_all_def Let_def case_prod_beta intro!: oks)

lemma ok_reset_calls [oks]: "uag_ok E g \<Longrightarrow> uag_ok E (snd (reset_calls E' laddr u xs err g))"
  by (induction xs arbitrary: err g) (simp_all add: case_prod_beta Let_def oks)

lemma ok_reset_uas [oks]: "uag_ok E g \<Longrightarrow> uag_ok E (snd (reset_uas E' laddr reg re us err g))"
  by (induction us arbitrary: err g) (simp_all add: case_prod_beta Let_def oks split: option.split)

lemma ok_reset [oks]: "uag_ok E g \<Longrightarrow> uag_ok E (snd (uag_reset_transp E' A laddr reg re g))"
  by (auto simp: uag_reset_transp_def Let_def case_prod_beta intro!: oks)

inductive uag_step ::
  "('p, 'm, 'j, 'a, 'au, 'vi, 's, 'h) ua_env \<Rightarrow> 'sa sa_ops \<Rightarrow> ('p, 'm, 'j, 'a, 'au, 'vi, 's) uag \<Rightarrow>
   ('p, 'm, 'j, 'a, 'au, 'vi, 's) uag \<Rightarrow> bool" for E A where
  ug_init: "uag_step E A g (snd (ua_init E A net (cfg :: config_sip) udp tcp tls g))"
| ug_close: "uag_step E A g (ua_close E g)"
| ug_stop: "uag_step E A g (ua_stop_all E refs forced g)"
| ug_exit: "uag_step E A g (exit_handler E g)"
| ug_reset: "uag_step E A g (snd (uag_reset_transp E A laddr reg re g))"
| ug_alloc: "u \<notin> fst ` set (ug_ual g) \<Longrightarrow> ua_alloc E rnd u aor g = Some (err, r, g') \<Longrightarrow> uag_step E A g g'"
| ug_destroy: "uag_step E A g (snd (ua_destroy E refs u g))"
| ug_update: "uag_step E A g (snd (ua_update_account E u g))"
| ug_register: "uag_step E A g (snd (ua_register E u g))"
| ug_fallback: "uag_step E A g (snd (ua_fallback E u g))"
| ug_unregister: "uag_step E A g (ua_unregister E u g)"
| ug_response: "uag_step E A g (ua_reg_response E u i err (msg :: sip_msg) g)"
| ug_callstep: "ua_call_get g u x = Some c \<Longrightarrow> call_step (ue_call E) c c' \<Longrightarrow>
    uag_step E A g (snd (ua_run_call E u x (\<lambda>_. (err, c')) g))"
| ug_connect: "fresh_call g x \<Longrightarrow> uag_step E A g (snd (snd (ua_connect_dir E u x furi ruri vmode adir vdir g)))"
| ug_hangup: "uag_step E A g (ua_hangup E u call scode reason g)"
| ug_answer: "uag_step E A g (snd (ua_answer E u call vmode g))"
| ug_hold_answer: "uag_step E A g (snd (ua_hold_answer E u call vmode g))"
| ug_options: "uag_step E A g (snd (ua_options_send E u uri g))"
| ug_request: "fresh_call g x \<Longrightarrow> uag_step E A g (snd (request_handler E x (msg :: sip_msg) g))"
| ug_invite: "fresh_call g x \<Longrightarrow> uag_step E A g (sipsess_conn_handler E x (msg :: sip_msg) g)"
| ug_subscribe: "uag_step E A g (snd (sub_handler E (msg :: sip_msg) g))"
| ug_presence: "uag_step E A g (ua_presence_status_set u st g)"
| ug_media_af: "uag_step E A g (ua_set_media_af u af g)"
| ug_catch: "uag_step E A g (ua_set_catchall u b g)"
| ug_filter: "uag_step E A g (snd (ua_add_xhdr_filter E u n g))"
| ug_hdrs: "uag_step E A g (snd (ua_set_custom_hdrs E u hdrs g))"
| ug_current: "uag_step E A g (uag_current_set cu g)"
| ug_extra: "uag_step E A g (snd (uag_set_extra_params (ue_libre E) eprm g))"
| ug_subh: "uag_step E A g (uag_set_sub_handler b g)"
| ug_exith: "uag_step E A g (uag_set_exit_handler b g)"

inductive uag_run ::
  "('p, 'm, 'j, 'a, 'au, 'vi, 's, 'h) ua_env \<Rightarrow> 'sa sa_ops \<Rightarrow> ('p, 'm, 'j, 'a, 'au, 'vi, 's) uag \<Rightarrow>
   ('p, 'm, 'j, 'a, 'au, 'vi, 's) uag \<Rightarrow> bool" for E A where
  ur_start: "uag_run E A g g"
| ur_step: "uag_run E A g g' \<Longrightarrow> uag_step E A g' g'' \<Longrightarrow> uag_run E A g g''"

lemma ok_fresh:
  "fresh_call g x \<Longrightarrow> \<forall>ua. ua_get g u = Some ua \<longrightarrow> x \<notin> fst ` set (ua_calls ua)"
  by (simp add: fresh_call_def)

lemma step_ok: "uag_step E A g g' \<Longrightarrow> uag_ok E g \<Longrightarrow> uag_ok E g'"
  by (erule uag_step.cases) (auto intro: oks ok_alloc ok_connect[OF _ ok_fresh])

lemma run_ok: "uag_run E A g g' \<Longrightarrow> uag_ok E g \<Longrightarrow> uag_ok E g'"
  by (induction rule: uag_run.induct) (auto intro: step_ok)

text \<open>
  C30: The user agents.  However the library is used, starting without user agents: the
  addresses in the list are distinct; every user agent has at most 8 extensions (the length of
  their array), at most 2 register clients (so a client never reads beyond the outbound proxies
  of the account), and calls with distinct addresses.
\<close>

theorem user_agents_ok:
  assumes "uag_run E A g g'" "ug_ual g = []"
  shows "distinct (map fst (ug_ual g')) \<and>
    (\<forall>(u, ua)\<in>set (ug_ual g'). length (ua_extensionv ua) \<le> 8 \<and> length (ua_regl ua) \<le> 2 \<and>
      distinct (map fst (ua_calls ua)) \<and> ua_get g' u = Some ua)"
proof -
  have "uag_ok E g'" using run_ok[OF assms(1)] assms(2) by (simp add: uag_ok_def)
  then show ?thesis by (auto simp: uag_ok_def ua_ok_def ua_get_def)
qed

text \<open>
  C31: Routing.  A request whose user part is the contact user of a user agent in the list is
  routed to that user agent.  (Contact users end with the address of their user agent, which
  has no hyphen and is different from that of the others also when case is ignored.)
\<close>

theorem requests_reach_ua:
  assumes "uag_run E A g g'" "ug_ual g = []" "(u, ua) \<in> set (ug_ual g')" "ua_cuser_f ua = Some cuser"
    and "casecmp_laws (l_casecmp L)"
    and "\<And>v w. fold_case (ue_ptr_str E v) = fold_case (ue_ptr_str E w) \<Longrightarrow> v = w"
    and "\<And>v. CHR ''-'' \<notin> set (ue_ptr_str E v)"
  shows "uag_find L g' cuser = Some u"
proof -
  have ok: "uag_ok E g'" using run_ok[OF assms(1)] assms(2) by (simp add: uag_ok_def)
  have cmp: "l_casecmp L (Some a) (Some b) = 0 \<longleftrightarrow> map tolower_c a = map tolower_c b" for a b
    using assms(5) by (simp add: casecmp_laws_def fold_case_def)
  define hy where "hy = tolower_c (CHR ''-'')"
  have h: "ch = CHR ''-''" if "tolower_c ch = hy" for ch
  proof -
    have "of_char ch = (45 :: nat)" using that by (auto simp: hy_def tolower_c_def Let_def split: if_splits)
    then have "of_char ch = (of_char (CHR ''-'') :: nat)" by simp
    then show ?thesis by (simp only: of_char_eq_iff)
  qed
  have tail: "v = w" if "map tolower_c (a @ ''-'' @ ue_ptr_str E v) = map tolower_c (b @ ''-'' @ ue_ptr_str E w)" for a b v w
  proof -
    have n: "\<forall>x\<in>set (rev (map tolower_c (ue_ptr_str E v))). x \<noteq> hy" for v
      using assms(7)[of v] h by auto
    have "takeWhile (\<lambda>n. n \<noteq> hy) (rev (map tolower_c (ue_ptr_str E v)) @ hy # rev (map tolower_c a)) =
        rev (map tolower_c (ue_ptr_str E v))" for a v
      using n[of v] by (subst takeWhile_append2) auto
    then have "takeWhile (\<lambda>n. n \<noteq> hy) (rev (map tolower_c (a @ ''-'' @ ue_ptr_str E v))) =
        rev (map tolower_c (ue_ptr_str E v))" for a v
      by (simp add: hy_def)
    then have "rev (map tolower_c (ue_ptr_str E v)) = rev (map tolower_c (ue_ptr_str E w))" using that by metis
    then show ?thesis using assms(6) by (simp add: fold_case_def)
  qed
  have one: "v = u" if "(v, ub) \<in> set (ug_ual g')" "l_casecmp L (Some cuser) (ua_cuser_f ub) = 0" for v ub
  proof -
    have "ua_ok E v ub" "ua_ok E u ua" using ok that(1) assms(3) by (auto simp: uag_ok_def)
    then obtain a b where "ua_cuser_f ub = Some (a @ ''-'' @ ue_ptr_str E v)"
        "ua_cuser_f ua = Some (b @ ''-'' @ ue_ptr_str E u)"
      unfolding ua_ok_def by blast
    moreover from this have "cuser = b @ ''-'' @ ue_ptr_str E u" using assms(4) by simp
    ultimately show ?thesis using that(2) cmp tail[of b u a v] by simp
  qed
  have "List.find (\<lambda>(u, ua). l_casecmp L (Some cuser) (ua_cuser_f ua) = 0) (ug_ual g') \<noteq> None"
    using assms(3,4) cmp[of cuser cuser] by (auto simp: find_None_iff intro!: exI[of _ u] exI[of _ ua])
  then obtain v ub where f: "List.find (\<lambda>(u, ua). l_casecmp L (Some cuser) (ua_cuser_f ua) = 0) (ug_ual g') = Some (v, ub)"
    by auto
  then have "(v, ub) \<in> set (ug_ual g')" "l_casecmp L (Some cuser) (ua_cuser_f ub) = 0"
    by (auto simp: find_Some_iff) (metis nth_mem)
  then show ?thesis using one f by (simp add: uag_find_def)
qed

text \<open>
  C32: The current user agent.  Releasing the current user agent while others remain leaves a
  reference to it behind: \<open>uag_current\<close> then yields a user agent that is not in the list any more.
\<close>

theorem current_ua_dangles:
  assumes "ug_ua_cur g = Some u" "(v, ub) \<in> set (ug_ual g)" "v \<noteq> u"
  shows "uag_current (snd (ua_destroy E refs u g)) = Some u \<and> ua_get (snd (ua_destroy E refs u g)) u = None"
proof -
  have f: "ug_ua_cur (ua_flush_calls E ub h) = ug_ua_cur h" for h ub
  proof -
    have "ug_ua_cur (fold (\<lambda>(x, c) g. ug_emit (UoCallFree x) (g\<lparr>ug_freed := ug_freed g @ [(x, call_destructor (ue_call E) c)]\<rparr>)) xs h) =
        ug_ua_cur h" for xs
      by (induction xs arbitrary: h) (auto simp: case_prod_unfold ug_emit_def)
    then show ?thesis unfolding ua_flush_calls_def .
  qed
  have "ug_ua_cur (snd (ua_destroy E refs u g)) = Some u"
    using assms(1)
    by (simp add: ua_destroy_def ua_destructor_def ug_late_close_def Let_def f split: option.split)
       (simp add: ug_event_def ug_emit_def f)
  moreover have "(v, ub) \<in> set (ug_ual (snd (ua_destroy E refs u g)))" using assms(2,3) by (simp add: destroy_ual)
  moreover from this have "ug_ual (snd (ua_destroy E refs u g)) \<noteq> []" by auto
  ultimately show ?thesis
    by (auto simp: uag_current_def ua_get_def map_of_eq_None_iff simp del: destroy_ual) (auto simp: destroy_ual)
qed


text \<open>
  C33: Outbound registration.  With two outbound proxies, the client with id 1 registers through
  the first and the client with id 2 through the second one.  When only the second proxy is
  set, the client with id 2 is the first of the list and takes the first entry: its
  request goes out without a route.  (A SIP client that keeps its request is used to look at it.)
\<close>

theorem outbound_requests:
  assumes "l_casecmp L (acc_sipnat (ua_acc ua)) (Some ''outbound'') = 0" "cs_uuid cfg \<noteq> []" "l_zalloc L"
    and "acc_regint (ua_acc ua) \<noteq> 0" "ua_regl ua = []"
    and "\<And>q. sr_register (ue_sipreg E) q = Inr q" "\<And>s v. sr_set_rwait (ue_sipreg E) s v = (0, s)"
    and "\<And>s v. sr_set_fbregint (ue_sipreg E) s v = (0, s)" "\<And>s. sr_incfailc (ue_sipreg E) s = s"
  shows "map (\<lambda>r. map_option (\<lambda>q. (sq_regid q, sq_route q)) (rg_sipreg r))
      (snd (register_loop E (ua_acc ua) cuser uri params fallback 0
        (ua_regl (snd (create_register_clients L (Some cfg) ua))))) =
    (case (acc_outbound1 (ua_acc ua), acc_outbound2 (ua_acc ua)) of
       (None, None) \<Rightarrow> []
     | (Some a, None) \<Rightarrow> [Some (1, [a])]
     | (Some a, Some b) \<Rightarrow> [Some (1, [a]), Some (2, [b])]
     | (None, Some b) \<Rightarrow> [Some (2, [])])"
  using assms
  by (auto simp: create_register_clients_def add_ext reg_add_def ua_outboundv_def reg_register_def Let_def split: option.split)

subsection \<open>A concrete user agent\<close>

definition ref_sipreg :: "sreg_req sipreg_ops" where
  "ref_sipreg = \<lparr>sr_register = Inr, sr_failed = (\<lambda>s. False), sr_registered = (\<lambda>s. True), sr_set_rwait = (\<lambda>s v. (0, s)),
     sr_set_fbregint = (\<lambda>s v. (0, s)), sr_incfailc = (\<lambda>s. s), sr_expires = (\<lambda>s. 60)\<rparr>"

definition ref_ua_env :: "(unit, sdp_dir, unit, bool, unit, unit, sreg_req, (u32 \<times> nat) list) ua_env" where
  "ref_ua_env =
     \<lparr>ue_libre = ref_libre\<lparr>l_snprintf := ref_snprintf\<rparr>, ue_call = ref_call_env, ue_sipreg = ref_sipreg,
      ue_regnet = \<lparr>rn_udp_local = (\<lambda>m. Inr 2), rn_tcp_local = (\<lambda>m. Inr 2)\<rparr>, ue_hash = ref_hash, ue_contacts = None,
      ue_config = \<lparr>cc_rtp_stats = False, cc_rtp_timeout = 2, cc_local_timeout = 120, cc_max_calls = 1\<rparr>,
      ue_af_enabled = (\<lambda>af. True), ue_laddr = (\<lambda>af. Some True), ue_audio_alloc = (\<lambda>c o1. Inr ((), ref_strm)),
      ue_video_alloc = (\<lambda>c o1. Inr ((), ref_strm)), ue_sdp0 = (\<lambda>a. ()), ue_snprintf = (\<lambda>n fmt args. Some fmt),
      ue_print = (\<lambda>fmt args w. (0, w @ fmt)), ue_mbuf_alloc = True, ue_is_ip = (\<lambda>s. False), ue_ret = (\<lambda>out. 0),
      ue_ptr_str = (\<lambda>a. replicate a CHR ''f'')\<rparr>"

text \<open>The user agent 1 has the call 7, the user agent 2 has no calls.\<close>

definition ref_peer_call :: "(unit, sdp_dir, unit, bool, unit, unit) call" where
  "ref_peer_call = ref_call\<lparr>cl_peer_uri := Some ''sip:b@x''\<rparr>"

definition ref_uag :: "(unit, sdp_dir, unit, bool, unit, unit, sreg_req) uag" where
  "ref_uag =
     \<lparr>ug_cfg = None, ug_ual = [(1, (ua_new null_account ''a-f'')\<lparr>ua_calls := [(7, ref_peer_call)]\<rparr>),
                              (2, ua_new null_account ''b-ff'')],
      ug_sip = True, ug_lsnr = True, ug_sock = True, ug_evsock = True, ug_ua_cur = Some 1, ug_use_udp = True,
      ug_use_tcp = True, ug_use_tls = True, ug_delayed_close = False, ug_subh = False, ug_exith = False,
      ug_eprm = None, ug_tls = False, ug_freed = [], ug_out = []\<rparr>"

lemma ref_ua_call: "ue_call ref_ua_env = ref_call_env"
  by (simp add: ref_ua_env_def)

lemma ref_uag_get:
  "ua_call_get ref_uag 1 7 = Some ref_peer_call" "ug_freed ref_uag = []" "ug_ua_cur ref_uag = Some 1"
  "ua_get ref_uag 1 = Some ((ua_new null_account ''a-f'')\<lparr>ua_calls := [(7, ref_peer_call)]\<rparr>)"
  "n_calls ref_uag = 1" "map fst (ug_ual ref_uag) = [1, 2]"
  by (simp_all add: ref_uag_def ua_call_get_def ua_get_def ua_new_def n_calls_def call_ids_def)

theorem call_released_once_witness:
  "ua_call_get (snd (ua_run_call ref_ua_env 1 7 (\<lambda>c. (0, stream_error_handler ref_call_env c)) ref_uag)) 1 7 = None \<and>
   map fst (ug_freed (snd (ua_run_call ref_ua_env 1 7 (\<lambda>c. (0, stream_error_handler ref_call_env c)) ref_uag))) = [7]"
proof -
  let ?c = "stream_error_handler ref_call_env ref_peer_call"
  have s: "call_step (ue_call ref_ua_env) ref_peer_call ?c" unfolding ref_ua_call by (rule call_step.strm_error)
  have e: "cl_eh ref_peer_call" using ref_call_fields(6) by (simp add: ref_peer_call_def)
  obtain xs where "cl_out ?c = cl_out ref_peer_call @ xs @
      [CoEvent CALL_EVENT_CLOSED (l_snprintf (ce_libre ref_call_env) 256 (Some ''rtp stream error'') [])]"
    using error_handler_ends[OF ref_media_laws e] by auto
  then have d: "drop (length (cl_out ref_peer_call)) (cl_out ?c) =
      xs @ [CoEvent CALL_EVENT_CLOSED (l_snprintf (ce_libre ref_call_env) 256 (Some ''rtp stream error'') [])]" by simp
  have rel: "releases ref_ua_env ''sip:b@x'' (drop (length (cl_out ref_peer_call)) (cl_out ?c))"
    unfolding d by simp
  have p: "cl_peer_uri ?c = Some ''sip:b@x''"
    by (simp add: stream_error_handler_def call_stream_stop_def call_event_handler_def Let_def set_state_def ref_peer_call_def)
  show ?thesis
    using call_released_once[where E = ref_ua_env and g = ref_uag and u = 1 and x = 7 and c = ref_peer_call and err = 0
        and f = "\<lambda>c. (0, stream_error_handler ref_call_env c)" and c' = ?c, OF _ ref_uag_get(1) _ s p HOL.refl HOL.refl]
      ref_media_laws rel
    by (simp add: ref_ua_call ref_uag_get)
qed

text \<open>An INVITE for the contact user of the second user agent, while the only allowed call is there.\<close>

definition ref_invite :: sip_msg where
  "ref_invite = \<lparr>sm_met = ''INVITE'', sm_scode = 0, sm_reason = [], sm_uri_user = ''b-ff'', sm_from_auri = ''sip:c@y'',
     sm_from_dname = [], sm_to_auri = ''sip:b@x'', sm_ctype = ([], []), sm_ctype_params = [], sm_hdrs = (\<lambda>i. []),
     sm_xhdr = (\<lambda>n. None), sm_mb = mbuf_of [], sm_tp = SIP_TRANSP_UDP\<rparr>"

lemma ref_find: "uag_find (ue_libre ref_ua_env) ref_uag ''b-ff'' = Some 2"
  by (simp add: uag_find_def ref_ua_env_def ref_libre_def ref_casecmp_def ref_uag_def ua_new_def fold_case_def tolower_c_def)

theorem max_calls_kept_witness:
  "sipsess_conn_handler ref_ua_env 9 ref_invite ref_uag = ug_emit (UoTreply 486 ''Max Calls'') ref_uag"
proof -
  have m: "cc_max_calls (ue_config ref_ua_env) = 1" by (simp add: ref_ua_env_def)
  have f: "uag_find (ue_libre ref_ua_env) ref_uag (sm_uri_user ref_invite) \<noteq> None"
    using ref_find by (simp add: ref_invite_def)
  show ?thesis
    using max_calls_kept[where E = ref_ua_env and g = ref_uag and x = 9 and msg = ref_invite] f
    by (simp add: m ref_uag_get)
qed

theorem hangup_resumes_witness:
  "map fst (ug_freed (ua_hangup ref_ua_env 1 None 0 None ref_uag)) = [7] \<and>
   map_option ua_calls (ua_get (ua_hangup ref_ua_env 1 None 0 None ref_uag) 1) = Some []"
proof -
  let ?ua = "(ua_new null_account ''a-f'')\<lparr>ua_calls := [(7, ref_peer_call)]\<rparr>"
  have p: "distinct (map fst (ua_calls ?ua))" "ua_pick_call None ?ua = Some 7" "map_of (ua_calls ?ua) 7 = Some ref_peer_call"
    "[] = filter (\<lambda>(y, _). y \<noteq> 7) (ua_calls ?ua)"
    by (simp_all add: ua_new_def ua_pick_call_def ua_call_cur_def)
  have m: "media_laws (ue_call ref_ua_env)" using ref_media_laws by (simp add: ref_ua_call)
  show ?thesis
    using hangup_resumes[OF m ref_uag_get(4) p HOL.refl, of 0 None] by (simp add: ref_uag_get ua_new_def)
qed

theorem current_ua_dangles_witness:
  "uag_current (snd (ua_destroy ref_ua_env (\<lambda>u. 0) 1 ref_uag)) = Some 1 \<and>
   ua_get (snd (ua_destroy ref_ua_env (\<lambda>u. 0) 1 ref_uag)) 1 = None"
proof -
  have "(2, ua_new null_account ''b-ff'') \<in> set (ug_ual ref_uag)" by (simp add: ref_uag_def)
  from current_ua_dangles[OF ref_uag_get(3) this] show ?thesis by simp
qed

theorem outbound_requests_witness:
  "map (\<lambda>r. map_option (\<lambda>q. (sq_regid q, sq_route q)) (rg_sipreg r))
     (snd (register_loop ref_ua_env (null_account\<lparr>acc_sipnat := Some ''outbound'', acc_outbound2 := Some ''sip:p2'',
        acc_regint := 600\<rparr>) None ''sip:x'' [] False 0
       (ua_regl (snd (create_register_clients ref_libre (Some \<lparr>cs_uuid = ''u'', cs_local = [], cs_cert = [], cs_cafile = []\<rparr>)
          (ua_new (null_account\<lparr>acc_sipnat := Some ''outbound'', acc_outbound2 := Some ''sip:p2'', acc_regint := 600\<rparr>) ''a-f''
           :: (unit, sdp_dir, unit, bool, unit, unit, sreg_req) ua)))))) =
   [Some (2, [])]"
proof -
  let ?ua = "ua_new (null_account\<lparr>acc_sipnat := Some ''outbound'', acc_outbound2 := Some ''sip:p2'', acc_regint := 600\<rparr>) ''a-f''
     :: (unit, sdp_dir, unit, bool, unit, unit, sreg_req) ua"
  let ?cfg = "\<lparr>cs_uuid = ''u'', cs_local = [], cs_cert = [], cs_cafile = []\<rparr>"
  have a: "l_casecmp ref_libre (acc_sipnat (ua_acc ?ua)) (Some ''outbound'') = 0" "cs_uuid ?cfg \<noteq> []" "l_zalloc ref_libre"
    "acc_regint (ua_acc ?ua) \<noteq> 0" "ua_regl ?ua = []"
    by (simp_all add: ua_new_def ref_libre_def ref_casecmp_def)
  have s: "ue_sipreg ref_ua_env = ref_sipreg" by (simp add: ref_ua_env_def)
  have n: "acc_outbound1 null_account = None" by (simp add: null_account_def)
  have o: "acc_outbound1 (ua_acc ?ua) = None" "acc_outbound2 (ua_acc ?ua) = Some ''sip:p2''"
    "ua_acc ?ua = null_account\<lparr>acc_sipnat := Some ''outbound'', acc_outbound2 := Some ''sip:p2'', acc_regint := 600\<rparr>"
    by (simp_all add: ua_new_def null_account_def)
  show ?thesis
    using outbound_requests[OF a, of ref_ua_env None "''sip:x''" "[]" False] by (simp add: s ref_sipreg_def o n)
qed


text \<open>A user agent is added to a library without user agents; the SIP URI has no parameters.\<close>

definition ref_plain_libre :: libre where
  "ref_plain_libre = ref_libre\<lparr>l_param_decode := (\<lambda>prm name. None), l_param_exists := (\<lambda>prm name. False)\<rparr>"

definition ref_plain_env :: "(unit, sdp_dir, unit, bool, unit, unit, sreg_req, (u32 \<times> nat) list) ua_env" where
  "ref_plain_env = ref_ua_env\<lparr>ue_libre := ref_plain_libre\<rparr>"

definition ref_empty :: "(unit, sdp_dir, unit, bool, unit, unit, sreg_req) uag" where
  "ref_empty = ref_uag\<lparr>ug_ual := [], ug_ua_cur := None\<rparr>"

lemma ref_plain_account:
  "\<exists>a. account_alloc ref_plain_libre ref_regs 5 (Some ''sip:a@x'') = Some (0, Some a) \<and>
     u_user (acc_luri a) = [] \<and> acc_sipnat a = None \<and> acc_regint a \<noteq> 0 \<and> acc_mnat a = None"
proof -
  have d: "l_param_decode ref_plain_libre prm name = None" "l_param_exists ref_plain_libre prm name = False"
    "l_zalloc ref_plain_libre" "l_dup ref_plain_libre s" "l_addr_decode ref_plain_libre s = Inr (null_addr\<lparr>sa_auri := s\<rparr>)"
    for prm name s
    by (simp_all add: ref_plain_libre_def ref_libre_def)
  have c: "REG_INTERVAL + 5 \<noteq> (0 :: u32)" by (simp add: REG_INTERVAL_def)
  show ?thesis
    unfolding account_alloc_def account_finish_def sip_params_decode_def stunsrv_decode_def
      audio_codecs_decode_def video_codecs_decode_def media_decode_def answermode_decode_def
      extra_decode_def decode_pair_def param_u32_def param_dstr_def str_dup_def
    by (simp add: d c Let_def null_addr_def null_account_def null_uri_def)
qed

definition ref_started :: "(unit, sdp_dir, unit, bool, unit, unit, sreg_req) uag" where
  "ref_started = (case ua_alloc ref_plain_env 5 3 (Some ''sip:a@x'') ref_empty of
     Some (_, _, g) \<Rightarrow> g | None \<Rightarrow> ref_empty)"

lemma ref_plain_fields:
  "l_zalloc ref_plain_libre" "l_dup ref_plain_libre s" "ue_libre ref_plain_env = ref_plain_libre"
  "ce_regs (ue_call ref_plain_env) = ref_regs" "ue_ptr_str ref_plain_env u = replicate u CHR ''f''"
  "l_casecmp ref_plain_libre = ref_casecmp"
  by (simp_all add: ref_plain_env_def ref_plain_libre_def ref_libre_def ref_ua_env_def ref_call_env_def)

lemma ref_empty_fields: "ug_eprm ref_empty = None" "ug_cfg ref_empty = None" "ug_ual ref_empty = []" "ug_ua_cur ref_empty = None"
  by (simp_all add: ref_empty_def ref_uag_def)

lemma ref_alloc:
  "\<exists>ua. ua_alloc ref_plain_env 5 3 (Some ''sip:a@x'') ref_empty = Some (0, Some 3, ref_started) \<and>
     ug_ual ref_started = [(3, ua)] \<and> ua_cuser_f ua = Some ''-fff'' \<and> length (ua_regl ua) = 1"
proof -
  obtain a where a: "account_alloc ref_plain_libre ref_regs 5 (Some ''sip:a@x'') = Some (0, Some a)"
    "u_user (acc_luri a) = []" "acc_sipnat a = None" "acc_regint a \<noteq> 0" "acc_mnat a = None"
    using ref_plain_account by blast
  show ?thesis
    unfolding ref_started_def ua_alloc_def
    by (simp add: a ref_plain_fields ref_empty_fields Let_def ua_new_def create_register_clients_def ref_casecmp_def
        reg_add_def uag_current_def uag_current_set_def numeral_3_eq_3)
qed

lemma ref_run: "uag_run ref_plain_env A ref_empty ref_started"
  using ref_alloc by (intro ur_step[OF ur_start] ug_alloc[where u = 3]) (auto simp: ref_empty_fields)

theorem user_agents_ok_witness:
  "\<exists>ua. ug_ual ref_started = [(3, ua)] \<and> length (ua_extensionv ua) \<le> 8 \<and> length (ua_regl ua) \<le> 2 \<and>
     distinct (map fst (ua_calls ua)) \<and> ua_get ref_started 3 = Some ua"
  using user_agents_ok[OF ref_run ref_empty_fields(3)] ref_alloc by fastforce

theorem requests_reach_ua_witness: "uag_find ref_plain_libre ref_started ''-fff'' = Some 3"
proof -
  obtain ua where u: "ug_ual ref_started = [(3, ua)]" "ua_cuser_f ua = Some ''-fff''" using ref_alloc by blast
  have inj: "v = w" if "fold_case (ue_ptr_str ref_plain_env v) = fold_case (ue_ptr_str ref_plain_env w)" for v w
    using arg_cong[OF that, of size] by (simp add: fold_case_def ref_plain_fields)
  have law: "casecmp_laws (l_casecmp ref_plain_libre)" using ref_casecmp_ok by (simp add: ref_plain_fields)
  show ?thesis
    by (rule requests_reach_ua[OF ref_run ref_empty_fields(3) _ u(2) law inj]) (auto simp: u ref_plain_fields)
qed

end
