(* ===== verification/Message.thy ===== *)
theory Message
  imports Uag
begin

text \<open>
  \<open>src/sipreq.c\<close> and \<open>src/message.c\<close>: SIP requests outside a dialog, and instant messages.

  A request keeps its loop detection, its authentication state and the text of its headers.  The
  SIP stack is \<open>sipreq_ops\<close>; what goes out is a list of \<open>sq_out\<close>.  A request that is released is
  None.  \<open>sip_drequestf\<close> may fail each time it is called: its result is a function of the number
  of requests that were sent before.

  A listener for messages is its handler, an address.  Handlers do not change the list of
  listeners while a message is delivered.
\<close>

subsection \<open>Requests\<close>

record ('ls, 'a) sipreq_ops =
  sp_loops :: "'ls \<Rightarrow> u16 \<Rightarrow> bool \<times> 'ls"
  sp_auth :: "'a \<Rightarrow> sip_msg \<Rightarrow> err \<times> 'a"
  sp_auth_reset :: "'a \<Rightarrow> 'a"
  sp_auth_alloc :: "account \<Rightarrow> err + 'a"
  sp_dialog :: "string \<Rightarrow> string option \<Rightarrow> string list \<Rightarrow> err"
  sp_drequest :: "nat \<Rightarrow> string \<Rightarrow> string option \<Rightarrow> err"
  sp_ls0 :: 'ls
  sp_vsdprintf :: "string \<Rightarrow> fmt_arg list \<Rightarrow> string option"
  sp_EAUTH :: err

record ('ls, 'a) sip_req =
  rq_ls :: 'ls
  rq_auth :: 'a
  rq_method :: string
  rq_fmt :: "string option"
  rq_resph :: bool
  rq_sent :: nat

datatype sq_out = SqRequest string "string option" | SqResp err "sip_msg option" | SqFree

definition request :: "('ls, 'a) sipreq_ops \<Rightarrow> ('ls, 'a) sip_req \<Rightarrow> err \<times> ('ls, 'a) sip_req \<times> sq_out list" where
  "request S sr =
     (let err = sp_drequest S (rq_sent sr) (rq_method sr) (rq_fmt sr)
      in (err, sr\<lparr>rq_sent := rq_sent sr + 1\<rparr>, if err = 0 then [SqRequest (rq_method sr) (rq_fmt sr)] else []))"

definition resp_out :: "('ls, 'a) sip_req \<Rightarrow> err \<Rightarrow> sip_msg option \<Rightarrow> sq_out list" where
  "resp_out sr err msg = (if rq_resph sr then [SqResp err msg] else []) @ [SqFree]"

text \<open>A response, or an error without a message.\<close>

definition resp_handler ::
  "('ls, 'a) sipreq_ops \<Rightarrow> err \<Rightarrow> sip_msg option \<Rightarrow> ('ls, 'a) sip_req \<Rightarrow> ('ls, 'a) sip_req option \<times> sq_out list" where
  "resp_handler S err msg sr =
     (case (if err \<noteq> 0 then None else msg) of
        None \<Rightarrow> (None, resp_out sr err msg)
      | Some m \<Rightarrow>
          let (loop, ls) = sp_loops S (rq_ls sr) (sm_scode m);
              sr = sr\<lparr>rq_ls := ls\<rparr>
          in if loop then (None, resp_out sr 0 msg)
             else if sm_scode m < 200 then (Some sr, [])
             else if sm_scode m < 300 then (None, resp_out sr 0 msg)
             else if sm_scode m = 401 \<or> sm_scode m = 407
             then
               let (err, auth) = sp_auth S (rq_auth sr) m;
                   sr = sr\<lparr>rq_auth := auth\<rparr>
               in if err \<noteq> 0 then (None, resp_out sr (if err = sp_EAUTH S then 0 else err) msg)
                  else
                    let (err, sr, out) = request S sr
                    in if err \<noteq> 0 then (None, resp_out sr err msg) else (Some sr, out)
             else if sm_scode m = 403
             then (None, resp_out (sr\<lparr>rq_auth := sp_auth_reset S (rq_auth sr)\<rparr>) 0 msg)
             else (None, resp_out sr 0 msg))"

definition sip_req_send ::
  "libre \<Rightarrow> ('ls, 'a) sipreq_ops \<Rightarrow> ('p, 'm, 'j, 'au, 'ad, 'vi, 's) ua option \<Rightarrow> string option \<Rightarrow> string option \<Rightarrow> bool
     \<Rightarrow> string option \<Rightarrow> fmt_arg list \<Rightarrow> err \<times> ('ls, 'a) sip_req option \<times> sq_out list" where
  "sip_req_send L S ua met uri resph fmt args =
     (case (ua, met, uri, fmt) of
        (Some ua, Some met, Some uri, Some fmt) \<Rightarrow>
          if \<not> l_zalloc L then (ENOMEM, None, [])
          else case (if l_dup L met then sp_vsdprintf S fmt args else None) of
            None \<Rightarrow> (ENOMEM, None, [SqFree])
          | Some hdrs \<Rightarrow>
              let route = (case ua_outbound (Some ua) of None \<Rightarrow> [] | Some r \<Rightarrow> [r]);
                  err = sp_dialog S uri (acc_aor (ua_acc ua)) route
              in if err \<noteq> 0 then (err, None, [SqFree])
                 else case sp_auth_alloc S (ua_acc ua) of
                   Inl err \<Rightarrow> (err, None, [SqFree])
                 | Inr auth \<Rightarrow>
                     let (err, sr, out) = request S \<lparr>rq_ls = sp_ls0 S, rq_auth = auth, rq_method = met,
                                                     rq_fmt = Some hdrs, rq_resph = resph, rq_sent = 0\<rparr>
                     in if err \<noteq> 0 then (err, None, [SqFree]) else (0, Some sr, out)
      | _ \<Rightarrow> (EINVAL, None, []))"

text \<open>The responses that arrive, in order; a released request gets none.\<close>

fun responses ::
  "('ls, 'a) sipreq_ops \<Rightarrow> (err \<times> sip_msg option) list \<Rightarrow> ('ls, 'a) sip_req option \<Rightarrow> ('ls, 'a) sip_req option \<times> sq_out list" where
  "responses S [] sr = (sr, [])"
| "responses S (x # xs) None = (None, [])"
| "responses S ((err, msg) # xs) (Some sr) =
     (let (sr, out) = resp_handler S err msg sr; (sr, out') = responses S xs sr in (sr, out @ out'))"

subsection \<open>Messages\<close>

record message =
  ms_lsnrl :: "nat list"
  ms_sip_lsnr :: bool

datatype ms_out =
    MoRecv nat nat string mbuf
  | MoReply u16
  | MoReplyAccept u16 string
  | MoTreply u16

definition handle_message :: "libre \<Rightarrow> nat \<Rightarrow> nat \<Rightarrow> sip_msg \<Rightarrow> ms_out list" where
  "handle_message L lsnr u msg =
     (if l_ctype L (sm_ctype msg) ''text'' ''plain''
      then [MoRecv lsnr u (sm_from_auri msg) (sm_mb msg), MoReply 200]
      else [MoReplyAccept 415 ''text/plain''])"

definition message_request_handler where
  "message_request_handler L g message msg =
     (if sm_met msg \<noteq> ''MESSAGE'' then (False, [])
      else case uag_find L g (sm_uri_user msg) of
             None \<Rightarrow> (True, [MoTreply 404])
           | Some u \<Rightarrow> (ms_lsnrl message \<noteq> [], concat (map (\<lambda>lsnr. handle_message L lsnr u msg) (ms_lsnrl message))))"

definition message_init :: "libre \<Rightarrow> err \<times> message option" where
  "message_init L = (if \<not> l_zalloc L then (ENOMEM, None) else (0, Some \<lparr>ms_lsnrl = [], ms_sip_lsnr = False\<rparr>))"

text \<open>\<open>lerr\<close> is the result of \<open>sip_listen\<close>.\<close>

definition message_listen :: "libre \<Rightarrow> err \<Rightarrow> nat option \<Rightarrow> message option \<Rightarrow> err \<times> message option" where
  "message_listen L lerr recvh message =
     (case (message, recvh) of
        (Some m, Some h) \<Rightarrow>
          if \<not> ms_sip_lsnr m \<and> lerr \<noteq> 0 then (lerr, message)
          else if \<not> l_zalloc L then (ENOMEM, Some (m\<lparr>ms_sip_lsnr := True\<rparr>))
          else (0, Some (m\<lparr>ms_sip_lsnr := True, ms_lsnrl := ms_lsnrl m @ [h]\<rparr>))
      | _ \<Rightarrow> (EINVAL, message))"

definition message_unlisten :: "nat \<Rightarrow> message option \<Rightarrow> message option" where
  "message_unlisten recvh = map_option (\<lambda>m. m\<lparr>ms_lsnrl := filter (\<lambda>h. h \<noteq> recvh) (ms_lsnrl m)\<rparr>)"

definition message_text :: string where
  "message_text = ''Accept: text/plain'' @ [CHR 13, CHR 10] @ ''Content-Type: text/plain'' @ [CHR 13, CHR 10] @
     ''Content-Length: %zu'' @ [CHR 13, CHR 10, CHR 13, CHR 10] @ ''%s''"

definition message_send ::
  "libre \<Rightarrow> ('ls, 'a) sipreq_ops \<Rightarrow> ('p, 'm, 'j, 'au, 'ad, 'vi, 's) ua option \<Rightarrow> string option \<Rightarrow> string option \<Rightarrow> bool
     \<Rightarrow> err \<times> ('ls, 'a) sip_req option \<times> sq_out list" where
  "message_send L S ua peer msg resph =
     (case (ua, peer, msg) of
        (Some _, Some peer, Some msg) \<Rightarrow>
          (case l_addr_decode L peer of
             Inl err \<Rightarrow> (err, None, [])
           | Inr addr \<Rightarrow>
               if \<not> l_dup L (sa_auri addr) then (ENOMEM, None, [])
               else sip_req_send L S ua (Some ''MESSAGE'') (Some (sa_auri addr)) resph (Some message_text)
                      [FNum (length msg), FStr msg])
      | _ \<Rightarrow> (EINVAL, None, []))"


subsection \<open>Properties\<close>

text \<open>
  The loop detection of libre: a provisional response does not count, and every other response
  below or above 2xx uses up one of a bounded number of tries, or is recognised as a loop.
\<close>

definition loop_laws :: "('ls, 'a) sipreq_ops \<Rightarrow> ('ls \<Rightarrow> nat) \<Rightarrow> bool" where
  "loop_laws S tries =
     (\<forall>ls sc. (sc < 200 \<longrightarrow> sp_loops S ls sc = (False, ls)) \<and>
        (300 \<le> sc \<longrightarrow> fst (sp_loops S ls sc) \<or> tries (snd (sp_loops S ls sc)) < tries ls))"

definition final_response :: "err \<Rightarrow> sip_msg option \<Rightarrow> bool" where
  "final_response err msg =
     (err \<noteq> 0 \<or> (case msg of None \<Rightarrow> True
                   | Some m \<Rightarrow> 200 \<le> sm_scode m \<and> sm_scode m \<noteq> 401 \<and> sm_scode m \<noteq> 407))"

text \<open>What one response does: release with a report, a further try, or nothing.\<close>

lemma resp_handler_cases:
  assumes "loop_laws S tries"
  obtains (released) e where "resp_handler S err msg sr = (None, resp_out sr e msg)"
  | (retried) sr' where "resp_handler S err msg sr = (Some sr', [SqRequest (rq_method sr) (rq_fmt sr)])"
      "rq_method sr' = rq_method sr" "rq_fmt sr' = rq_fmt sr" "rq_resph sr' = rq_resph sr"
      "tries (rq_ls sr') < tries (rq_ls sr)" "\<not> final_response err msg"
  | (ignored) "resp_handler S err msg sr = (Some sr, [])" "\<not> final_response err msg"
proof (cases "if err \<noteq> 0 then None else msg")
  case None
  then show ?thesis using released[of err] by (simp add: resp_handler_def)
next
  case (Some m)
  then have m: "err = 0" "msg = Some m" by (simp_all split: if_splits)
  obtain loop ls where l: "sp_loops S (rq_ls sr) (sm_scode m) = (loop, ls)" by force
  obtain e auth where a: "sp_auth S (rq_auth sr) m = (e, auth)" by force
  let ?d = "sp_drequest S (rq_sent sr) (rq_method sr) (rq_fmt sr)"
  consider "loop" | "\<not> loop" "sm_scode m < 200" | "\<not> loop" "sm_scode m = 401 \<or> sm_scode m = 407" "e = 0" "?d = 0"
    | "\<not> loop" "sm_scode m = 401 \<or> sm_scode m = 407" "e \<noteq> 0 \<or> ?d \<noteq> 0"
    | "\<not> loop" "\<not> sm_scode m < 200" "sm_scode m \<noteq> 401" "sm_scode m \<noteq> 407" by blast
  then show ?thesis
  proof cases
    case 1
    then show ?thesis using released[of 0] by (simp add: resp_handler_def resp_out_def m l)
  next
    case 2
    then have "ls = rq_ls sr" using assms l by (auto simp: loop_laws_def)
    then have "sr\<lparr>rq_ls := ls\<rparr> = sr" by simp
    then show ?thesis using 2 ignored by (simp add: resp_handler_def m l final_response_def not_le)
  next
    case 3
    then have "300 \<le> sm_scode m" by auto
    then have "tries ls < tries (rq_ls sr)" using assms l 3(1) unfolding loop_laws_def by (metis fst_conv snd_conv)
    then show ?thesis
      using 3 retried[of "sr\<lparr>rq_ls := ls, rq_auth := auth, rq_sent := rq_sent sr + 1\<rparr>"]
      by (auto simp: resp_handler_def m l a request_def Let_def final_response_def)
  next
    case 4
    then show ?thesis
      using released[of "if e = 0 then ?d else if e = sp_EAUTH S then 0 else e"]
      by (auto simp: resp_handler_def resp_out_def m l a request_def Let_def)
  next
    case 5
    then show ?thesis using released[of 0] by (simp add: resp_handler_def resp_out_def m l Let_def)
  qed
qed

text \<open>
  C34: Requests outside a dialog.  Whatever responses arrive, the request is sent again at most as often
  as the loop detection allows, always with the same method and headers; the response handler
  is called exactly once, when the request is released, and nothing follows it; an error and
  a final response other than 401 and 407 release the request.
\<close>

theorem sip_request_answered_once:
  assumes "loop_laws S tries" "responses S rs (Some sr) = (sr', out)"
  shows "(\<exists>n end. n \<le> tries (rq_ls sr) \<and> out = replicate n (SqRequest (rq_method sr) (rq_fmt sr)) @ end \<and>
      (case sr' of Some _ \<Rightarrow> end = [] | None \<Rightarrow> \<exists>e. \<exists>(_, msg)\<in>set rs. end = resp_out sr e msg)) \<and>
    (sr' = None \<or> (\<forall>(err, msg)\<in>set rs. \<not> final_response err msg))"
  using assms(2)
proof (induction rs arbitrary: sr out)
  case Nil
  then show ?case by auto
next
  case (Cons x rs)
  obtain err msg where x: "x = (err, msg)" by force
  obtain sr1 out1 where h: "resp_handler S err msg sr = (sr1, out1)" by force
  obtain out2 where r: "responses S rs sr1 = (sr', out2)" and o: "out = out1 @ out2"
    using Cons.prems by (auto simp: x h split: prod.splits)
  from assms(1) show ?case
  proof (cases rule: resp_handler_cases[where err = err and msg = msg and sr = sr])
    case (released e)
    then have "sr1 = None" "out1 = resp_out sr e msg" using h by simp_all
    moreover from this have "sr' = None" "out2 = []" using r by (cases rs; simp)+
    ultimately show ?thesis by (auto simp: o x intro!: exI[of _ "0 :: nat"] exI[of _ e])
  next
    case (retried s)
    then have s: "sr1 = Some s" "out1 = [SqRequest (rq_method sr) (rq_fmt sr)]" using h by simp_all
    from Cons.IH[OF r[unfolded s]] obtain n e where ih: "n \<le> tries (rq_ls s)"
      "out2 = replicate n (SqRequest (rq_method s) (rq_fmt s)) @ e"
      "case sr' of Some _ \<Rightarrow> e = [] | None \<Rightarrow> \<exists>c. \<exists>(_, msg)\<in>set rs. e = resp_out s c msg"
      "sr' = None \<or> (\<forall>(err, msg)\<in>set rs. \<not> final_response err msg)" by blast
    have "resp_out s c msg = resp_out sr c msg" for c msg using retried by (simp add: resp_out_def)
    then have "case sr' of Some _ \<Rightarrow> e = [] | None \<Rightarrow> \<exists>c. \<exists>(_, msg)\<in>set (x # rs). e = resp_out sr c msg"
      using ih(3) by (auto split: option.splits)
    moreover have "Suc n \<le> tries (rq_ls sr)" "out = replicate (Suc n) (SqRequest (rq_method sr) (rq_fmt sr)) @ e"
      using ih(1,2) retried by (simp_all add: o s)
    ultimately show ?thesis using ih(4) retried(6) by (auto simp: x)
  next
    case ignored
    then have s: "sr1 = Some sr" "out1 = []" using h by simp_all
    from Cons.IH[OF r[unfolded s]] obtain n e where ih: "n \<le> tries (rq_ls sr)"
      "out2 = replicate n (SqRequest (rq_method sr) (rq_fmt sr)) @ e"
      "case sr' of Some _ \<Rightarrow> e = [] | None \<Rightarrow> \<exists>c. \<exists>(_, msg)\<in>set rs. e = resp_out sr c msg"
      "sr' = None \<or> (\<forall>(err, msg)\<in>set rs. \<not> final_response err msg)" by blast
    have "case sr' of Some _ \<Rightarrow> e = [] | None \<Rightarrow> \<exists>c. \<exists>(_, msg)\<in>set (x # rs). e = resp_out sr c msg"
      using ih(3) by (auto split: option.splits)
    moreover have "out = replicate n (SqRequest (rq_method sr) (rq_fmt sr)) @ e" using ih(2) by (simp add: o s)
    ultimately show ?thesis using ih(1,4) ignored(2) by (auto simp: x)
  qed
qed

text \<open>An authenticated request: it is challenged once, then accepted.\<close>

definition ref_sipreq :: "(nat, bool) sipreq_ops" where
  "ref_sipreq =
     \<lparr>sp_loops = (\<lambda>n sc. if sc < 200 then (False, n) else if n = 0 then (True, 0) else (False, n - 1)),
      sp_auth = (\<lambda>a m. (0, True)), sp_auth_reset = (\<lambda>a. False), sp_auth_alloc = (\<lambda>acc. Inr False),
      sp_dialog = (\<lambda>u aor route. 0), sp_drequest = (\<lambda>n met fmt. 0), sp_ls0 = 16,
      sp_vsdprintf = (\<lambda>fmt args. Some fmt), sp_EAUTH = 80\<rparr>"

definition ref_response :: "u16 \<Rightarrow> sip_msg" where
  "ref_response sc = \<lparr>sm_met = [], sm_scode = sc, sm_reason = [], sm_uri_user = [], sm_from_auri = [],
     sm_from_dname = [], sm_to_auri = [], sm_ctype = ([], []), sm_ctype_params = [], sm_hdrs = (\<lambda>i. []),
     sm_xhdr = (\<lambda>n. None), sm_mb = mbuf_of [], sm_tp = SIP_TRANSP_UDP\<rparr>"

definition ref_req :: "(nat, bool) sip_req" where
  "ref_req = \<lparr>rq_ls = 16, rq_auth = False, rq_method = ''MESSAGE'', rq_fmt = Some ''x'', rq_resph = True, rq_sent = 1\<rparr>"

theorem sip_request_answered_once_witness:
  "\<exists>n end. n \<le> 16 \<and>
     snd (responses ref_sipreq [(0, Some (ref_response 401)), (0, Some (ref_response 200))] (Some ref_req)) =
       replicate n (SqRequest ''MESSAGE'' (Some ''x'')) @ end \<and>
     end = [SqResp 0 (Some (ref_response 200)), SqFree]"
proof -
  have "\<not> 300 \<le> sc" if "sc < 200" for sc :: u16
    using le_less_trans[OF _ that, of 300] by auto
  then have l: "loop_laws ref_sipreq id" by (simp add: loop_laws_def ref_sipreq_def)
  have r: "responses ref_sipreq [(0, Some (ref_response 401)), (0, Some (ref_response 200))] (Some ref_req) =
     (None, [SqRequest ''MESSAGE'' (Some ''x''), SqResp 0 (Some (ref_response 200)), SqFree])"
    by (simp add: resp_handler_def ref_sipreq_def ref_response_def ref_req_def request_def resp_out_def)
  obtain n e where "n \<le> 16" "[SqRequest ''MESSAGE'' (Some ''x''), SqResp 0 (Some (ref_response 200)), SqFree] =
      replicate n (SqRequest ''MESSAGE'' (Some ''x'')) @ e"
      "\<exists>c. \<exists>(_, msg)\<in>set [(0 :: err, Some (ref_response 401)), (0, Some (ref_response 200))]. e = resp_out ref_req c msg"
    using sip_request_answered_once[OF l r] by (auto simp: ref_req_def)
  then show ?thesis unfolding r by (intro exI[of _ 1]) auto
qed

text \<open>
  With a text message for a known user agent every listener gets the message, in the order of
  registration, and every listener makes a final reply of its own.
\<close>

lemma message_replies:
  assumes "sm_met msg = ''MESSAGE''" "uag_find L g (sm_uri_user msg) = Some u" "l_ctype L (sm_ctype msg) ''text'' ''plain''"
  shows "message_request_handler L g message msg =
     (ms_lsnrl message \<noteq> [],
      concat (map (\<lambda>l. [MoRecv l u (sm_from_auri msg) (sm_mb msg), MoReply 200]) (ms_lsnrl message)))"
  using assms by (simp add: message_request_handler_def handle_message_def)

end
