(* ===== verification/Sdp.thy ===== *)
theory Sdp
  imports Call
begin

text \<open>
  \<open>src/sdp.c\<close>: decoding of the fingerprint attribute, and the session description in a
  multipart body.

  \<open>hex\<close> is libre's \<open>ch_hex\<close>.  The fingerprint loop reads two characters and skips one; at the end of
  the matched text it reads the characters behind it, which are the argument \<open>nxt\<close>.
  A \<open>pl\<close> into the buffer that reaches to its end is the suffix it denotes, so that its length is its
  position.
\<close>

abbreviation (input) EOVERFLOW :: err where "EOVERFLOW \<equiv> 75"

subsection \<open>Fingerprints\<close>

fun fp_bytes :: "(char \<Rightarrow> u8) \<Rightarrow> char \<Rightarrow> string \<Rightarrow> u8 list" where
  "fp_bytes hex nxt [] = []"
| "fp_bytes hex nxt [a] = [push_bit 4 (hex a) OR hex nxt]"
| "fp_bytes hex nxt [a, b] = [push_bit 4 (hex a) OR hex b]"
| "fp_bytes hex nxt (a # b # _ # cs) = (push_bit 4 (hex a) OR hex b) # fp_bytes hex nxt cs"

definition fp_regex :: string where
  "fp_regex = ''[^ ]+ [0-9A-F:]+''"

text \<open>
  \<open>cap\<close> is the size of the caller's buffer, or None when there is none.  The result has the error, the
  name of the hash, the bytes that are written to the buffer, and the size that is reported.
\<close>

record fp_result =
  fp_err :: err
  fp_hash :: "string option"
  fp_md :: "u8 list"
  fp_sz :: "nat option"

definition sdp_fingerprint_decode :: "libre \<Rightarrow> (char \<Rightarrow> u8) \<Rightarrow> char \<Rightarrow> string option \<Rightarrow> nat option \<Rightarrow> fp_result" where
  "sdp_fingerprint_decode L hex nxt attr cap =
     (case attr of
        None \<Rightarrow> \<lparr>fp_err = EINVAL, fp_hash = None, fp_md = [], fp_sz = cap\<rparr>
      | Some attr \<Rightarrow>
          (case l_regex L attr fp_regex of
             Some [hash, f] \<Rightarrow>
               (case cap of
                  None \<Rightarrow> \<lparr>fp_err = 0, fp_hash = Some hash, fp_md = [], fp_sz = None\<rparr>
                | Some sz \<Rightarrow>
                    if sz < (length f + 1) div 3
                    then \<lparr>fp_err = EOVERFLOW, fp_hash = Some hash, fp_md = [], fp_sz = cap\<rparr>
                    else \<lparr>fp_err = 0, fp_hash = Some hash, fp_md = fp_bytes hex nxt f,
                          fp_sz = Some ((length f + 1) div 3)\<rparr>)
           | _ \<Rightarrow> \<lparr>fp_err = ENOENT, fp_hash = None, fp_md = [], fp_sz = cap\<rparr>))"

subsection \<open>Multipart bodies\<close>

definition crlf2 :: string where "crlf2 = [CHR 13, CHR 10, CHR 13, CHR 10]"

definition decode_part :: "libre \<Rightarrow> nat \<Rightarrow> string \<Rightarrow> nat \<Rightarrow> mbuf \<Rightarrow> mbuf" where
  "decode_part L msize part rest mb =
     (case l_regex L part (crlf2 @ ''[^]+'') of
        Some [body] \<Rightarrow>
          let hdrs = take (length part - length body - 2) part
          in if l_regex L hdrs ''application/sdp'' \<noteq> None
             then mb\<lparr>mb_pos := msize - rest - length body, mb_end := msize - rest\<rparr>
             else mb
      | _ \<Rightarrow> mb)"

text \<open>
  The loop over the parts: \<open>s\<close> is what follows a boundary.  The result says whether a part
  had a length that wrapped, so that memory behind the buffer was read; the loop stops there.
  None is a loop that does not return.
\<close>

partial_function (option) multipart_loop ::
  "libre \<Rightarrow> nat \<Rightarrow> string \<Rightarrow> string \<Rightarrow> string \<Rightarrow> mbuf \<Rightarrow> (bool \<times> mbuf) option" where
  "multipart_loop L msize bnd expr s mb =
     (if length s > 2
      then case l_regex L s expr of
             Some [e] \<Rightarrow>
               let n = size_sub (size_sub (size_sub (length s) (length e + 2)) (length bnd)) 2
               in if n > length s - 2 then Some (True, mb)
                  else multipart_loop L msize bnd expr e
                         (decode_part L msize (take n (drop 2 s)) (length s - 2 - n) mb)
           | _ \<Rightarrow> Some (False, mb)
      else Some (False, mb))"

definition sdp_decode_multipart ::
  "libre \<Rightarrow> mbuf_ops \<Rightarrow> string option \<Rightarrow> mbuf option \<Rightarrow> (err \<times> bool \<times> mbuf option) option" where
  "sdp_decode_multipart L M ctype_prm mb =
     (case (ctype_prm, mb) of
        (Some prm, Some mb) \<Rightarrow>
          (case l_regex L prm ''boundary=[~]+'' of
             Some [bnd] \<Rightarrow>
               let expr = ''--'' @ bnd @ ''[^]+''
               in if length expr > 63 then Some (ENOMEM, False, Some mb)
                  else case l_regex L (text_of (m_rest M mb)) expr of
                         Some [s] \<Rightarrow>
                           map_option (\<lambda>(oob, mb). (0, oob, Some mb)) (multipart_loop L (mb_end mb) bnd expr s mb)
                       | _ \<Rightarrow> Some (ENOENT, False, Some mb)
           | _ \<Rightarrow> Some (ENOENT, False, Some mb))
      | _ \<Rightarrow> Some (EINVAL, False, mb))"

subsection \<open>Properties\<close>

definition hex_digit :: "u8 \<Rightarrow> char" where
  "hex_digit n = ''0123456789ABCDEF'' ! unat n"

text \<open>A fingerprint as it is written: two digits for each byte, with colons between them.\<close>

fun fp_text :: "u8 list \<Rightarrow> string" where
  "fp_text [] = []"
| "fp_text [b] = [hex_digit (drop_bit 4 b), hex_digit (b AND 15)]"
| "fp_text (b # bs) = hex_digit (drop_bit 4 b) # hex_digit (b AND 15) # CHR '':'' # fp_text bs"

definition hex_laws :: "(char \<Rightarrow> u8) \<Rightarrow> bool" where
  "hex_laws hex = (\<forall>n. n < 16 \<longrightarrow> hex (hex_digit n) = n)"

definition fp_chars :: string where
  "fp_chars = ''0123456789ABCDEF:''"

definition fp_regex_laws :: "libre \<Rightarrow> bool" where
  "fp_regex_laws L =
     (\<forall>h f. h \<noteq> [] \<and> CHR '' '' \<notin> set h \<and> f \<noteq> [] \<and> set f \<subseteq> set fp_chars \<longrightarrow>
        l_regex L (h @ '' '' @ f) fp_regex = Some [h, f])"

lemma fp_bytes_length: "length (fp_bytes hex nxt f) = (length f + 2) div 3"
  by (induction hex nxt f rule: fp_bytes.induct) auto

lemma fp_text_length: "bs \<noteq> [] \<Longrightarrow> length (fp_text bs) + 1 = 3 * length bs"
  by (induction bs rule: fp_text.induct) auto

lemma nibbles:
  "(drop_bit 4 b :: u8) < 16" "(b AND 15 :: u8) < 16" "push_bit 4 (drop_bit 4 b) OR (b AND 15) = (b :: u8)"
proof -
  have d: "drop_bit 4 b = drop_bit 4 b AND (15 :: u8)" by (simp add: u8_eq_iff bit_simps u8_bit_high)
  have le: "x AND 15 < (16 :: u8)" for x :: u8 using le_less_trans[OF word_and_le1[of x 15], of 16] by simp
  show "(drop_bit 4 b :: u8) < 16" using le[of "drop_bit 4 b"] d by simp
  show "(b AND 15 :: u8) < 16" by (rule le)
  show "push_bit 4 (drop_bit 4 b) OR (b AND 15) = (b :: u8)" by (simp add: u8_eq_iff bit_simps)
qed

lemma fp_bytes_text: "hex_laws hex \<Longrightarrow> fp_bytes hex nxt (fp_text bs) = bs"
proof (induction bs rule: fp_text.induct)
  case (3 b c bs)
  then show ?case by (cases bs) (simp_all add: hex_laws_def nibbles)
qed (simp_all add: hex_laws_def nibbles)

lemma hex_digit_chars: "n < 16 \<Longrightarrow> hex_digit n \<in> set fp_chars"
proof -
  assume "n < 16"
  then have "unat n < 16" by (simp add: word_less_nat_alt)
  then have "hex_digit n \<in> set ''0123456789ABCDEF''" unfolding hex_digit_def by (intro nth_mem) simp
  then show ?thesis by (auto simp: fp_chars_def)
qed

lemma fp_text_chars: "set (fp_text bs) \<subseteq> set fp_chars"
proof (induction bs rule: fp_text.induct)
  case (3 b c bs)
  have "CHR '':'' \<in> set fp_chars" by (simp add: fp_chars_def)
  with 3 show ?case by (simp add: hex_digit_chars nibbles)
qed (simp_all add: hex_digit_chars nibbles)

text \<open>
  C35: Fingerprints.  A fingerprint as it is written is read back, with its length, whenever the buffer
  is large enough, and is rejected otherwise.  For other texts of the same characters the check of the buffer
  is one byte short: it is passed and a byte behind the buffer is written exactly when the text
  has one character more than a multiple of three and the buffer takes the third of it.
\<close>

theorem fingerprint_decoded:
  assumes "fp_regex_laws L" "hex_laws hex" "h \<noteq> []" "CHR '' '' \<notin> set h" "set f \<subseteq> set fp_chars" "f \<noteq> []"
  shows "(md \<noteq> [] \<longrightarrow>
      sdp_fingerprint_decode L hex nxt (Some (h @ '' '' @ fp_text md)) (Some cap) =
      (if cap < length md
       then \<lparr>fp_err = EOVERFLOW, fp_hash = Some h, fp_md = [], fp_sz = Some cap\<rparr>
       else \<lparr>fp_err = 0, fp_hash = Some h, fp_md = md, fp_sz = Some (length md)\<rparr>)) \<and>
    (length (fp_md (sdp_fingerprint_decode L hex nxt (Some (h @ '' '' @ f)) (Some cap))) > cap \<longleftrightarrow>
       length f mod 3 = 1 \<and> cap = length f div 3)"
proof -
  have r: "l_regex L (h @ '' '' @ g) fp_regex = Some [h, g]" if "g \<noteq> []" "set g \<subseteq> set fp_chars" for g
    using assms(1,3,4) that by (simp add: fp_regex_laws_def)
  have "fp_text md \<noteq> []" if "md \<noteq> []" using fp_text_length[OF that] that by (cases md) auto
  then have 1: "sdp_fingerprint_decode L hex nxt (Some (h @ '' '' @ fp_text md)) (Some cap) =
      (if cap < length md
       then \<lparr>fp_err = EOVERFLOW, fp_hash = Some h, fp_md = [], fp_sz = Some cap\<rparr>
       else \<lparr>fp_err = 0, fp_hash = Some h, fp_md = md, fp_sz = Some (length md)\<rparr>)" if "md \<noteq> []"
    using that r[OF _ fp_text_chars] fp_text_length[OF that]
    by (simp add: sdp_fingerprint_decode_def fp_bytes_text[OF assms(2)])
  have "(length f + 1) div 3 \<le> cap \<and> cap < (length f + 2) div 3 \<longleftrightarrow> length f mod 3 = 1 \<and> cap = length f div 3"
  proof -
    obtain q r where f: "length f = 3 * q + r" "r < 3" by (metis mult_div_mod_eq pos_mod_bound mod_less_divisor zero_less_numeral)
    then consider "r = 0" | "r = 1" | "r = 2" by linarith
    moreover have "Suc (3 * q) div 3 = q" "Suc (Suc (3 * q)) div 3 = q" "Suc (3 * q) mod 3 = 1" "Suc (Suc (3 * q)) mod 3 = 2"
      by presburger+
    ultimately show ?thesis by cases (auto simp: f)
  qed
  then show ?thesis
    using 1 r[OF assms(6,5)] by (auto simp: sdp_fingerprint_decode_def fp_bytes_length not_less)
qed

definition ref_hex :: "char \<Rightarrow> u8" where
  "ref_hex c = (let n = of_char c :: u8 in if n < 65 then n - 48 else n - 55)"

definition ref_fp_libre :: libre where
  "ref_fp_libre = \<lparr>l_regex = (\<lambda>s e. let h = takeWhile (\<lambda>c. c \<noteq> CHR '' '') s in Some [h, drop (Suc (length h)) s]),
     l_param_decode = (\<lambda>p n. None), l_param_exists = (\<lambda>p n. False), l_u32 = (\<lambda>s. 0), l_casecmp = ref_casecmp,
     l_addr_decode = (\<lambda>s. Inl 22), l_uri_decode = (\<lambda>s. Inl 22), l_uri_encode = u_host, l_ctype = (\<lambda>c t s. False),
     l_dup = (\<lambda>s. True), l_zalloc = True, l_snprintf = (\<lambda>n f a. f)\<rparr>"

theorem fingerprint_decoded_witness:
  "sdp_fingerprint_decode ref_fp_libre ref_hex (CHR 0x00) (Some ''sha-1 4A:FB'') (Some 20) =
     \<lparr>fp_err = 0, fp_hash = Some ''sha-1'', fp_md = [0x4a, 0xfb], fp_sz = Some 2\<rparr> \<and>
   length (fp_md (sdp_fingerprint_decode ref_fp_libre ref_hex (CHR 0x00) (Some ''sha-1 4A:F'') (Some 1))) > 1"
proof -
  have "h \<noteq> [] \<Longrightarrow> CHR '' '' \<notin> set h \<Longrightarrow> takeWhile (\<lambda>c. c \<noteq> CHR '' '') (h @ CHR '' '' # f) = h" for h f
    by (subst takeWhile_append2) auto
  then have l: "fp_regex_laws ref_fp_libre" by (simp add: fp_regex_laws_def ref_fp_libre_def Let_def)
  have c: "\<forall>n\<in>set [0..<16]. ref_hex (hex_digit (word_of_nat n)) = word_of_nat n" by code_simp
  have "ref_hex (hex_digit n) = n" if "n < 16" for n
  proof -
    have "unat n \<in> set [0..<16]" using that by (simp add: word_less_nat_alt)
    from bspec[OF c this] show ?thesis by simp
  qed
  then have x: "hex_laws ref_hex" by (simp add: hex_laws_def)
  have t: "fp_text [0x4a, 0xfb] = ''4A:FB''" by code_simp
  show ?thesis
    using fingerprint_decoded[OF l x, of "''sha-1''" "''4A:F''" "[0x4a, 0xfb]" "CHR 0x00" 20]
      fingerprint_decoded[OF l x, of "''sha-1''" "''4A:F''" "[0x4a, 0xfb]" "CHR 0x00" 1]
    unfolding t by (simp add: fp_chars_def)
qed

end
