(* ===== verification/Config.thy ===== *)
theory Config
  imports Ua Netstring
begin

text \<open>
  \<open>src/conf.c\<close> and the configuration structures of \<open>src/data.h\<close>: reading and printing the core
  configuration.

  A parsed configuration file is the function of libre's \<open>conf_get\<close> from a key to the first value
  with it, and \<open>conf_apply\<close>'s list of all values.  The numbers of rem's audio and video formats and
  the names of the video formats are the record \<open>conf_env\<close>, as are libre's conversions of values.
  Frames per second are rationals.  The output of \<open>config_print\<close> is a list of lines, each with
  its key, the tabs, the value, and what follows the value.
\<close>

subsection \<open>Data\<close>

record range =
  rng_min :: u32
  rng_max :: u32

datatype audio_mode = AUDIO_MODE_POLL | AUDIO_MODE_THREAD

record call_conf =
  kc_local_timeout :: u32
  kc_max_calls :: u32

record audio_conf =
  ka_path :: string
  ka_src_mod :: string
  ka_src_dev :: string
  ka_play_mod :: string
  ka_play_dev :: string
  ka_alert_mod :: string
  ka_alert_dev :: string
  ka_srate_play :: u32
  ka_srate_src :: u32
  ka_channels_play :: u32
  ka_channels_src :: u32
  ka_txmode :: audio_mode
  ka_level :: bool
  ka_src_fmt :: int
  ka_play_fmt :: int
  ka_enc_fmt :: int
  ka_dec_fmt :: int
  ka_buffer :: range

record video_conf =
  kv_src_mod :: string
  kv_src_dev :: string
  kv_disp_mod :: string
  kv_disp_dev :: string
  kv_width :: u32
  kv_height :: u32
  kv_bitrate :: u32
  kv_fps :: rat
  kv_fullscreen :: bool
  kv_enc_fmt :: int

record avt_conf =
  kt_rtp_tos :: u8
  kt_rtp_ports :: range
  kt_rtp_bw :: range
  kt_rtcp_mux :: bool
  kt_jbtype :: jbuf_type
  kt_jbuf_del :: range
  kt_jbuf_wish :: u32
  kt_rtp_stats :: bool
  kt_rtp_timeout :: u32

record net_conf =
  kn_af :: int
  kn_ifname :: string
  kn_nsv :: "(string \<times> bool) list"

record config =
  kf_sip :: config_sip
  kf_call :: call_conf
  kf_audio :: audio_conf
  kf_video :: video_conf
  kf_avt :: avt_conf
  kf_net :: net_conf

text \<open>\<open>ke_poll\<close> selects the poll method of the given name: None when there is no such method.\<close>

record conf_env =
  ke_libre :: libre
  ke_dec :: "u32 \<Rightarrow> string"
  ke_true :: "string \<Rightarrow> bool"
  ke_float :: "string \<Rightarrow> rat"
  ke_2f :: "rat \<Rightarrow> string"
  ke_poll :: "string \<Rightarrow> err option"
  ke_s16le :: int
  ke_fmt_float :: int
  ke_s24_3le :: int
  ke_vidfmt_name :: "int \<Rightarrow> string"
  ke_vid_fmt_n :: nat

type_synonym conf = "string \<Rightarrow> string option"

subsection \<open>Values\<close>

text \<open>The result is the error and the new value of what the pointer refers to.\<close>

definition conf_get_str :: "conf \<Rightarrow> string \<Rightarrow> nat \<Rightarrow> string \<Rightarrow> err \<times> string" where
  "conf_get_str conf name sz old = (case conf name of None \<Rightarrow> (ENOENT, old) | Some v \<Rightarrow> (0, take (sz - 1) v))"

definition conf_get_u32 :: "conf_env \<Rightarrow> conf \<Rightarrow> string \<Rightarrow> u32 \<Rightarrow> err \<times> u32" where
  "conf_get_u32 K conf name old = (case conf name of None \<Rightarrow> (ENOENT, old) | Some v \<Rightarrow> (0, l_u32 (ke_libre K) v))"

definition conf_get_bool :: "conf_env \<Rightarrow> conf \<Rightarrow> string \<Rightarrow> bool \<Rightarrow> err \<times> bool" where
  "conf_get_bool K conf name old = (case conf name of None \<Rightarrow> (ENOENT, old) | Some v \<Rightarrow> (0, ke_true K v))"

definition conf_get_range :: "conf_env \<Rightarrow> conf \<Rightarrow> string \<Rightarrow> range \<Rightarrow> err \<times> range" where
  "conf_get_range K conf name rng =
     (case conf name of
        None \<Rightarrow> (ENOENT, rng)
      | Some r \<Rightarrow>
          (case l_regex (ke_libre K) r ''[0-9]+-[0-9]+'' of
             Some [lo, hi] \<Rightarrow>
               let rng = rng\<lparr>rng_min := l_u32 (ke_libre K) lo, rng_max := l_u32 (ke_libre K) hi\<rparr>
               in if rng_min rng > rng_max rng then (EINVAL, rng) else (0, rng)
           | _ \<Rightarrow>
               let (err, v) = conf_get_u32 K conf name 0
               in if err \<noteq> 0 then (err, rng) else (0, rng\<lparr>rng_min := v, rng_max := v\<rparr>)))"

definition conf_get_csv :: "conf_env \<Rightarrow> conf \<Rightarrow> string \<Rightarrow> nat \<Rightarrow> nat \<Rightarrow> string \<times> string \<Rightarrow> err \<times> string \<times> string" where
  "conf_get_csv K conf name sz1 sz2 old =
     (case conf name of
        None \<Rightarrow> (ENOENT, old)
      | Some r \<Rightarrow>
          (case l_regex (ke_libre K) r ''[^,]+,[~]*'' of
             Some [a, b] \<Rightarrow> (0, take (sz1 - 1) a, if b \<noteq> [] then take (sz2 - 1) b else snd old)
           | _ \<Rightarrow> (ENOENT, old)))"

definition conf_get_vidsz :: "conf_env \<Rightarrow> conf \<Rightarrow> string \<Rightarrow> u32 \<times> u32 \<Rightarrow> err \<times> u32 \<times> u32" where
  "conf_get_vidsz K conf name sz =
     (case conf name of
        None \<Rightarrow> (ENOENT, sz)
      | Some r \<Rightarrow>
          (case l_regex (ke_libre K) r ''[0-9]+x[0-9]+'' of
             Some [w, h] \<Rightarrow>
               let sz = (if w \<noteq> [] \<and> h \<noteq> [] then (l_u32 (ke_libre K) w, l_u32 (ke_libre K) h) else sz)
               in if bit (fst sz) 0 \<or> bit (snd sz) 0 then (EINVAL, sz) else (0, sz)
           | _ \<Rightarrow> (ENOENT, sz)))"

definition conf_get_float :: "conf_env \<Rightarrow> conf \<Rightarrow> string \<Rightarrow> rat \<Rightarrow> err \<times> rat" where
  "conf_get_float K conf name old = (case conf name of None \<Rightarrow> (ENOENT, old) | Some v \<Rightarrow> (0, ke_float K v))"

definition conf_get_sa :: "(string \<Rightarrow> err + 'sa) \<Rightarrow> conf option \<Rightarrow> string option \<Rightarrow> err + 'sa" where
  "conf_get_sa sa_decode conf name =
     (case (conf, name) of
        (Some conf, Some name) \<Rightarrow> (case conf name of None \<Rightarrow> Inl ENOENT | Some v \<Rightarrow> sa_decode v)
      | _ \<Rightarrow> Inl EINVAL)"

definition resolve_aufmt :: "conf_env \<Rightarrow> string \<Rightarrow> int" where
  "resolve_aufmt K fmt =
     (let eq = (\<lambda>s. l_casecmp (ke_libre K) (Some fmt) (Some s) = 0)
      in if eq ''s16'' then ke_s16le K
         else if eq ''s16le'' then ke_s16le K
         else if eq ''float'' then ke_fmt_float K
         else if eq ''s24_3le'' then ke_s24_3le K
         else -1)"

definition conf_get_aufmt :: "conf_env \<Rightarrow> conf \<Rightarrow> string \<Rightarrow> int \<Rightarrow> err \<times> int" where
  "conf_get_aufmt K conf name old =
     (case conf name of
        None \<Rightarrow> (ENOENT, old)
      | Some v \<Rightarrow> let fmt = resolve_aufmt K v in if fmt = -1 then (EINVAL, old) else (0, fmt))"

definition conf_get_vidfmt :: "conf_env \<Rightarrow> conf \<Rightarrow> string \<Rightarrow> int \<Rightarrow> err \<times> int" where
  "conf_get_vidfmt K conf name old =
     (case conf name of
        None \<Rightarrow> (ENOENT, old)
      | Some v \<Rightarrow>
          (case List.find (\<lambda>i. l_casecmp (ke_libre K) (Some v) (Some (ke_vidfmt_name K (int i))) = 0) [0..<ke_vid_fmt_n K] of
             None \<Rightarrow> (ENOENT, old)
           | Some i \<Rightarrow> (0, int i)))"

definition jbuf_type_str :: "jbuf_type \<Rightarrow> string" where
  "jbuf_type_str jbtype = (case jbtype of JBUF_OFF \<Rightarrow> ''off'' | JBUF_FIXED \<Rightarrow> ''fixed'' | JBUF_ADAPTIVE \<Rightarrow> ''adaptive'')"

definition resolve_jbuf_type :: "conf_env \<Rightarrow> string \<Rightarrow> jbuf_type" where
  "resolve_jbuf_type K v =
     (let eq = (\<lambda>s. l_casecmp (ke_libre K) (Some v) (Some s) = 0)
      in if eq ''off'' then JBUF_OFF
         else if eq ''fixed'' then JBUF_FIXED
         else if eq ''adaptive'' then JBUF_ADAPTIVE
         else JBUF_FIXED)"

text \<open>At most \<open>NET_MAX_NS\<close> name servers; an address is cut to 63 characters.\<close>

definition NET_MAX_NS :: nat where "NET_MAX_NS = 4"

definition dns_handler :: "string \<Rightarrow> bool \<Rightarrow> net_conf \<Rightarrow> err \<times> net_conf" where
  "dns_handler v fallback cfg =
     (if length (kn_nsv cfg) \<ge> NET_MAX_NS then (75, cfg)
      else (0, cfg\<lparr>kn_nsv := kn_nsv cfg @ [(take 63 v, fallback)]\<rparr>))"

fun conf_apply_dns :: "string list \<Rightarrow> bool \<Rightarrow> net_conf \<Rightarrow> err \<times> net_conf" where
  "conf_apply_dns [] fallback cfg = (0, cfg)"
| "conf_apply_dns (v # vs) fallback cfg =
     (let (err, cfg) = dns_handler v fallback cfg in if err \<noteq> 0 then (err, cfg) else conf_apply_dns vs fallback cfg)"

subsection \<open>Reading the configuration\<close>

definition parse_sip :: "conf \<Rightarrow> config_sip \<Rightarrow> config_sip" where
  "parse_sip conf s =
     (let s = s\<lparr>cs_local := snd (conf_get_str conf ''sip_listen'' 64 (cs_local s))\<rparr>;
          s = s\<lparr>cs_cert := snd (conf_get_str conf ''sip_certificate'' 256 (cs_cert s))\<rparr>
      in s\<lparr>cs_cafile := snd (conf_get_str conf ''sip_cafile'' 256 (cs_cafile s))\<rparr>)"

definition parse_call :: "conf_env \<Rightarrow> conf \<Rightarrow> call_conf \<Rightarrow> call_conf" where
  "parse_call K conf c =
     c\<lparr>kc_local_timeout := snd (conf_get_u32 K conf ''call_local_timeout'' (kc_local_timeout c)),
       kc_max_calls := snd (conf_get_u32 K conf ''call_max_calls'' (kc_max_calls c))\<rparr>"

definition parse_audio_devs :: "conf_env \<Rightarrow> conf \<Rightarrow> audio_conf \<Rightarrow> audio_conf" where
  "parse_audio_devs K conf a =
     (let a = a\<lparr>ka_path := snd (conf_get_str conf ''audio_path'' 256 (ka_path a))\<rparr>;
          (_, m, d) = conf_get_csv K conf ''audio_player'' 16 128 (ka_play_mod a, ka_play_dev a);
          a = a\<lparr>ka_play_mod := m, ka_play_dev := d\<rparr>;
          (_, m, d) = conf_get_csv K conf ''audio_source'' 16 128 (ka_src_mod a, ka_src_dev a);
          a = a\<lparr>ka_src_mod := m, ka_src_dev := d\<rparr>;
          (_, m, d) = conf_get_csv K conf ''audio_alert'' 16 128 (ka_alert_mod a, ka_alert_dev a)
      in a\<lparr>ka_alert_mod := m, ka_alert_dev := d\<rparr>)"

definition parse_txmode :: "conf_env \<Rightarrow> conf \<Rightarrow> audio_mode \<Rightarrow> audio_mode" where
  "parse_txmode K conf old =
     (case conf ''audio_txmode'' of
        None \<Rightarrow> old
      | Some v \<Rightarrow> if l_casecmp (ke_libre K) (Some v) (Some ''poll'') = 0 then AUDIO_MODE_POLL
                  else if l_casecmp (ke_libre K) (Some v) (Some ''thread'') = 0 then AUDIO_MODE_THREAD
                  else old)"

definition parse_audio_fmts :: "conf_env \<Rightarrow> conf \<Rightarrow> audio_conf \<Rightarrow> audio_conf" where
  "parse_audio_fmts K conf a =
     a\<lparr>ka_srate_src := snd (conf_get_u32 K conf ''ausrc_srate'' (ka_srate_src a)),
       ka_srate_play := snd (conf_get_u32 K conf ''auplay_srate'' (ka_srate_play a)),
       ka_channels_src := snd (conf_get_u32 K conf ''ausrc_channels'' (ka_channels_src a)),
       ka_channels_play := snd (conf_get_u32 K conf ''auplay_channels'' (ka_channels_play a)),
       ka_txmode := parse_txmode K conf (ka_txmode a),
       ka_level := snd (conf_get_bool K conf ''audio_level'' (ka_level a)),
       ka_src_fmt := snd (conf_get_aufmt K conf ''ausrc_format'' (ka_src_fmt a)),
       ka_play_fmt := snd (conf_get_aufmt K conf ''auplay_format'' (ka_play_fmt a)),
       ka_enc_fmt := snd (conf_get_aufmt K conf ''auenc_format'' (ka_enc_fmt a)),
       ka_dec_fmt := snd (conf_get_aufmt K conf ''audec_format'' (ka_dec_fmt a)),
       ka_buffer := snd (conf_get_range K conf ''audio_buffer'' (ka_buffer a))\<rparr>"

definition parse_video :: "conf_env \<Rightarrow> conf \<Rightarrow> video_conf \<Rightarrow> video_conf" where
  "parse_video K conf v =
     (let (_, m, d) = conf_get_csv K conf ''video_source'' 16 128 (kv_src_mod v, kv_src_dev v);
          v = v\<lparr>kv_src_mod := m, kv_src_dev := d\<rparr>;
          (_, m, d) = conf_get_csv K conf ''video_display'' 16 128 (kv_disp_mod v, kv_disp_dev v);
          v = v\<lparr>kv_disp_mod := m, kv_disp_dev := d\<rparr>;
          (err, w, h) = conf_get_vidsz K conf ''video_size'' (0, 0);
          v = (if err = 0 then v\<lparr>kv_width := w, kv_height := h\<rparr> else v)
      in v\<lparr>kv_bitrate := snd (conf_get_u32 K conf ''video_bitrate'' (kv_bitrate v)),
           kv_fps := snd (conf_get_float K conf ''video_fps'' (kv_fps v)),
           kv_fullscreen := snd (conf_get_bool K conf ''video_fullscreen'' (kv_fullscreen v)),
           kv_enc_fmt := snd (conf_get_vidfmt K conf ''videnc_format'' (kv_enc_fmt v))\<rparr>)"

definition parse_bw :: "conf_env \<Rightarrow> conf \<Rightarrow> range \<Rightarrow> range" where
  "parse_bw K conf rng =
     (let (err, r) = conf_get_range K conf ''rtp_bandwidth'' rng
      in if err = 0 then r\<lparr>rng_min := rng_min r * 1000, rng_max := rng_max r * 1000\<rparr> else r)"

definition parse_avt :: "conf_env \<Rightarrow> conf \<Rightarrow> avt_conf \<Rightarrow> avt_conf" where
  "parse_avt K conf t =
     t\<lparr>kt_rtp_tos := (let (err, v) = conf_get_u32 K conf ''rtp_tos'' 0 in if err = 0 then ucast v else kt_rtp_tos t),
       kt_rtp_ports := snd (conf_get_range K conf ''rtp_ports'' (kt_rtp_ports t)),
       kt_rtp_bw := parse_bw K conf (kt_rtp_bw t),
       kt_rtcp_mux := snd (conf_get_bool K conf ''rtcp_mux'' (kt_rtcp_mux t)),
       kt_jbtype := (case conf ''jitter_buffer_type'' of None \<Rightarrow> kt_jbtype t | Some v \<Rightarrow> resolve_jbuf_type K v),
       kt_jbuf_del := snd (conf_get_range K conf ''jitter_buffer_delay'' (kt_jbuf_del t)),
       kt_jbuf_wish := snd (conf_get_u32 K conf ''jitter_buffer_wish'' (kt_jbuf_wish t)),
       kt_rtp_stats := snd (conf_get_bool K conf ''rtp_stats'' (kt_rtp_stats t)),
       kt_rtp_timeout := snd (conf_get_u32 K conf ''rtp_timeout'' (kt_rtp_timeout t))\<rparr>"

definition parse_net :: "conf \<Rightarrow> (string \<Rightarrow> string list) \<Rightarrow> net_conf \<Rightarrow> net_conf" where
  "parse_net conf all n =
     (let n = snd (conf_apply_dns (all ''dns_server'') False n);
          n = snd (conf_apply_dns (all ''dns_fallback'') True n)
      in n\<lparr>kn_ifname := snd (conf_get_str conf ''net_interface'' 64 (kn_ifname n))\<rparr>)"

text \<open>An audio buffer of zero ends the reading, with what was read so far in place.\<close>

definition config_parse_conf ::
  "conf_env \<Rightarrow> config option \<Rightarrow> (conf \<times> (string \<Rightarrow> string list)) option \<Rightarrow> err \<times> config option" where
  "config_parse_conf K cfg conf =
     (case (cfg, conf) of
        (Some cfg, Some (conf, all)) \<Rightarrow>
          let err = (case conf ''poll_method'' of None \<Rightarrow> 0 | Some v \<Rightarrow> (case ke_poll K v of None \<Rightarrow> 0 | Some e \<Rightarrow> e));
              cfg = cfg\<lparr>kf_sip := parse_sip conf (kf_sip cfg), kf_call := parse_call K conf (kf_call cfg),
                        kf_audio := parse_audio_fmts K conf (parse_audio_devs K conf (kf_audio cfg))\<rparr>
          in if rng_min (ka_buffer (kf_audio cfg)) = 0 \<or> rng_max (ka_buffer (kf_audio cfg)) = 0
             then (EINVAL, Some cfg)
             else (err, Some (cfg\<lparr>kf_video := parse_video K conf (kf_video cfg), kf_avt := parse_avt K conf (kf_avt cfg),
                                  kf_net := parse_net conf all (kf_net cfg)\<rparr>))
      | _ \<Rightarrow> (EINVAL, cfg))"

subsection \<open>Printing the configuration\<close>

text \<open>
  A line is an entry or anything else.  An entry has its key, the tabs, the text of the value,
  and a comment; \<open>Quoted\<close> entries have quotes around the value.
\<close>

datatype line = Other string | Entry string nat string string | Quoted string nat string

definition range_print :: "conf_env \<Rightarrow> range \<Rightarrow> string" where
  "range_print K rng = ke_dec K (rng_min rng) @ ''-'' @ ke_dec K (rng_max rng)"

definition yesno :: "bool \<Rightarrow> string" where
  "yesno b = (if b then ''yes'' else ''no'')"

definition config_lines :: "conf_env \<Rightarrow> config \<Rightarrow> line list" where
  "config_lines K cfg =
     (let s = kf_sip cfg; c = kf_call cfg; a = kf_audio cfg; v = kf_video cfg; t = kf_avt cfg
      in [Other [], Other ''# SIP'', Entry ''sip_listen'' 2 (cs_local s) [], Entry ''sip_certificate'' 1 (cs_cert s) [],
          Entry ''sip_cafile'' 2 (cs_cafile s) [], Other [],
          Other ''# Call'', Entry ''call_local_timeout'' 1 (ke_dec K (kc_local_timeout c)) [],
          Entry ''call_max_calls'' 2 (ke_dec K (kc_max_calls c)) [], Other [],
          Other ''# Audio'', Entry ''audio_path'' 2 (ka_path a) [],
          Entry ''audio_player'' 2 (ka_play_mod a @ '','' @ ka_play_dev a) [],
          Entry ''audio_source'' 2 (ka_src_mod a @ '','' @ ka_src_dev a) [],
          Entry ''audio_alert'' 2 (ka_alert_mod a @ '','' @ ka_alert_dev a) [],
          Entry ''auplay_srate'' 2 (ke_dec K (ka_srate_play a)) [], Entry ''ausrc_srate'' 2 (ke_dec K (ka_srate_src a)) [],
          Entry ''auplay_channels'' 2 (ke_dec K (ka_channels_play a)) [],
          Entry ''ausrc_channels'' 2 (ke_dec K (ka_channels_src a)) [], Entry ''audio_level'' 2 (yesno (ka_level a)) [], Other [],
          Other ''# Video'', Entry ''video_source'' 2 (kv_src_mod v @ '','' @ kv_src_dev v) [],
          Entry ''video_display'' 2 (kv_disp_mod v @ '','' @ kv_disp_dev v) [],
          Quoted ''video_size'' 2 (ke_dec K (kv_width v) @ ''x'' @ ke_dec K (kv_height v)),
          Entry ''video_bitrate'' 2 (ke_dec K (kv_bitrate v)) [], Entry ''video_fps'' 2 (ke_2f K (kv_fps v)) [],
          Entry ''video_fullscreen'' 1 (yesno (kv_fullscreen v)) [],
          Entry ''videnc_format'' 2 (ke_vidfmt_name K (kv_enc_fmt v)) [], Other [],
          Other ''# AVT'', Entry ''rtp_tos'' 3 (ke_dec K (ucast (kt_rtp_tos t))) [],
          Entry ''rtp_ports'' 2 (range_print K (kt_rtp_ports t)) [], Entry ''rtp_bandwidth'' 2 (range_print K (kt_rtp_bw t)) [],
          Entry ''rtcp_mux'' 2 (yesno (kt_rtcp_mux t)) [], Entry ''jitter_buffer_type'' 1 (jbuf_type_str (kt_jbtype t)) [],
          Entry ''jitter_buffer_delay'' 1 (range_print K (kt_jbuf_del t)) [],
          Entry ''jitter_buffer_wish'' 1 (ke_dec K (kt_jbuf_wish t)) [], Entry ''rtp_stats'' 2 (yesno (kt_rtp_stats t)) [],
          Entry ''rtp_timeout'' 2 (ke_dec K (kt_rtp_timeout t)) '' # in seconds'', Other [],
          Other ''# Network'', Entry ''net_interface'' 2 (kn_ifname (kf_net cfg)) [], Other []])"

fun line_text :: "line \<Rightarrow> string" where
  "line_text (Other s) = s @ [CHR 10]"
| "line_text (Entry k n v c) = k @ replicate n (CHR 9) @ v @ c @ [CHR 10]"
| "line_text (Quoted k n v) = k @ replicate n (CHR 9) @ [CHR 0x22] @ v @ [CHR 0x22] @ [CHR 10]"

definition config_print :: "conf_env \<Rightarrow> 'w printer \<Rightarrow> config option \<Rightarrow> 'w \<Rightarrow> err \<times> 'w" where
  "config_print K pr cfg w =
     (case cfg of None \<Rightarrow> (0, w) | Some cfg \<Rightarrow> pr ''%s'' [FStr (concat (map line_text (config_lines K cfg)))] w)"


subsection \<open>Printing and reading\<close>

definition word_ok :: "string \<Rightarrow> bool" where
  "word_ok v = (v \<noteq> [] \<and> set v \<inter> {CHR 32, CHR 9, CHR 10, CHR 13, CHR 0x22} = {})"

text \<open>
  libre's \<open>conf_get\<close> looks for a line that starts with the key and has tabs or blanks behind it; the
  value is what follows up to the next white space, or what is between quotes; a key without value
  is not found.  The law is about files whose lines are empty, comments, or entries.
\<close>

fun line_ok :: "line \<Rightarrow> bool" where
  "line_ok (Other s) = (s = [] \<or> (hd s = CHR ''#'' \<and> CHR 10 \<notin> set s))"
| "line_ok (Entry k n v c) = (word_ok k \<and> hd k \<noteq> CHR ''#'' \<and> 0 < n \<and> (if v = [] then c = [] else word_ok v) \<and>
     (c = [] \<or> (hd c \<in> {CHR 32, CHR 9} \<and> CHR 10 \<notin> set c)))"
| "line_ok (Quoted k n v) = (word_ok k \<and> hd k \<noteq> CHR ''#'' \<and> 0 < n \<and> word_ok v)"

fun entry_value :: "string \<Rightarrow> line list \<Rightarrow> string option" where
  "entry_value k [] = None"
| "entry_value k (Other s # ls) = entry_value k ls"
| "entry_value k (Entry k' n v c # ls) = (if k' = k \<and> v \<noteq> [] then Some v else entry_value k ls)"
| "entry_value k (Quoted k' n v # ls) = (if k' = k then Some v else entry_value k ls)"

fun entry_values :: "string \<Rightarrow> line list \<Rightarrow> string list" where
  "entry_values k [] = []"
| "entry_values k (Other s # ls) = entry_values k ls"
| "entry_values k (Entry k' n v c # ls) = (if k' = k \<and> v \<noteq> [] then v # entry_values k ls else entry_values k ls)"
| "entry_values k (Quoted k' n v # ls) = (if k' = k then v # entry_values k ls else entry_values k ls)"

definition conf_file_laws :: "(string \<Rightarrow> conf \<times> (string \<Rightarrow> string list)) \<Rightarrow> bool" where
  "conf_file_laws rd =
     (\<forall>s ls. list_all line_ok (Other s # ls) \<longrightarrow>
        (\<forall>k. fst (rd (concat (map line_text (Other s # ls)))) k = entry_value k ls \<and>
             snd (rd (concat (map line_text (Other s # ls)))) k = entry_values k ls))"

definition conf_env_laws :: "conf_env \<Rightarrow> bool" where
  "conf_env_laws K =
     (casecmp_laws (l_casecmp (ke_libre K)) \<and>
      (\<forall>n. l_u32 (ke_libre K) (ke_dec K n) = n \<and> word_ok (ke_dec K n)) \<and>
      (\<forall>a b. l_regex (ke_libre K) (ke_dec K a @ ''-'' @ ke_dec K b) ''[0-9]+-[0-9]+'' = Some [ke_dec K a, ke_dec K b] \<and>
             l_regex (ke_libre K) (ke_dec K a @ ''x'' @ ke_dec K b) ''[0-9]+x[0-9]+'' = Some [ke_dec K a, ke_dec K b]) \<and>
      (\<forall>a b. a \<noteq> [] \<and> CHR '','' \<notin> set a \<and> word_ok b \<longrightarrow>
             l_regex (ke_libre K) (a @ '','' @ b) ''[^,]+,[~]*'' = Some [a, b]) \<and>
      ke_true K ''yes'' \<and> \<not> ke_true K ''no'' \<and>
      (\<forall>x. word_ok (ke_2f K x) \<and> (100 * x \<in> \<int> \<longrightarrow> ke_float K (ke_2f K x) = x)) \<and>
      (\<forall>i j. 0 \<le> i \<and> i < int (ke_vid_fmt_n K) \<and> 0 \<le> j \<and> j < int (ke_vid_fmt_n K) \<and>
             fold_case (ke_vidfmt_name K i) = fold_case (ke_vidfmt_name K j) \<longrightarrow> i = j) \<and>
      (\<forall>i. word_ok (ke_vidfmt_name K i)))"

definition text_field :: "nat \<Rightarrow> string \<Rightarrow> bool" where
  "text_field sz s = (word_ok s \<and> length s < sz)"

definition mod_field :: "string \<Rightarrow> bool" where
  "mod_field s = (text_field 16 s \<and> CHR '','' \<notin> set s)"

definition config_ok :: "conf_env \<Rightarrow> config \<Rightarrow> bool" where
  "config_ok K cfg =
     (let s = kf_sip cfg; a = kf_audio cfg; v = kf_video cfg; t = kf_avt cfg
      in text_field 64 (cs_local s) \<and> text_field 256 (cs_cert s) \<and> text_field 256 (cs_cafile s) \<and>
         text_field 256 (ka_path a) \<and>
         list_all mod_field [ka_play_mod a, ka_src_mod a, ka_alert_mod a, kv_src_mod v, kv_disp_mod v] \<and>
         list_all (text_field 128) [ka_play_dev a, ka_src_dev a, ka_alert_dev a, kv_src_dev v, kv_disp_dev v] \<and>
         \<not> bit (kv_width v) 0 \<and> \<not> bit (kv_height v) 0 \<and> 100 * kv_fps v \<in> \<int> \<and>
         0 \<le> kv_enc_fmt v \<and> kv_enc_fmt v < int (ke_vid_fmt_n K) \<and>
         rng_min (kt_rtp_ports t) \<le> rng_max (kt_rtp_ports t) \<and> rng_min (kt_rtp_bw t) \<le> rng_max (kt_rtp_bw t) \<and>
         rng_min (kt_jbuf_del t) \<le> rng_max (kt_jbuf_del t) \<and> text_field 64 (kn_ifname (kf_net cfg)))"

lemma entry_values_none: "entry_value k ls = None \<longleftrightarrow> entry_values k ls = []"
  by (induction k ls rule: entry_value.induct) auto

lemma word_ok_simps [simp]:
  "word_ok (a @ b) = (a @ b \<noteq> [] \<and> (a \<noteq> [] \<longrightarrow> word_ok a) \<and> (b \<noteq> [] \<longrightarrow> word_ok b))"
  "word_ok (c # s) = (c \<notin> {CHR 32, CHR 9, CHR 10, CHR 13, CHR 0x22} \<and> (s \<noteq> [] \<longrightarrow> word_ok s))"
  "\<not> word_ok []"
  by (auto simp: word_ok_def)

lemma word_ok_ne: "word_ok s \<Longrightarrow> s \<noteq> []"
  by (auto simp: word_ok_def)

lemma config_lines_ok:
  assumes "conf_env_laws K" "config_ok K cfg"
  shows "list_all line_ok (config_lines K cfg)"
proof -
  have d: "word_ok (ke_dec K n)" "ke_dec K n \<noteq> []" "word_ok (ke_2f K x)" "ke_2f K x \<noteq> []" "word_ok (ke_vidfmt_name K i)"
    "ke_vidfmt_name K i \<noteq> []" for n x i
    using assms(1) unfolding conf_env_laws_def by (blast, metis word_ok_simps(3), blast, metis word_ok_simps(3), blast, metis word_ok_simps(3))
  have y: "word_ok (yesno b)" "yesno b \<noteq> []" "word_ok (jbuf_type_str j)" "jbuf_type_str j \<noteq> []" for b j
    by (simp_all add: yesno_def jbuf_type_str_def split: jbuf_type.split)
  show ?thesis
    using assms(2) unfolding config_lines_def config_ok_def
    by (simp add: Let_def d y range_print_def text_field_def mod_field_def word_ok_ne)
qed

fun entry_keys :: "line list \<Rightarrow> string list" where
  "entry_keys [] = []"
| "entry_keys (Other s # ls) = entry_keys ls"
| "entry_keys (Entry k n v c # ls) = k # entry_keys ls"
| "entry_keys (Quoted k n v # ls) = k # entry_keys ls"

lemma entry_value_none: "k \<notin> set (entry_keys ls) \<Longrightarrow> entry_value k ls = None"
  by (induction k ls rule: entry_value.induct) auto

lemma config_keys:
  "entry_keys (config_lines K cfg) =
     [''sip_listen'', ''sip_certificate'', ''sip_cafile'', ''call_local_timeout'', ''call_max_calls'', ''audio_path'',
      ''audio_player'', ''audio_source'', ''audio_alert'', ''auplay_srate'', ''ausrc_srate'', ''auplay_channels'',
      ''ausrc_channels'', ''audio_level'', ''video_source'', ''video_display'', ''video_size'', ''video_bitrate'',
      ''video_fps'', ''video_fullscreen'', ''videnc_format'', ''rtp_tos'', ''rtp_ports'', ''rtp_bandwidth'',
      ''rtcp_mux'', ''jitter_buffer_type'', ''jitter_buffer_delay'', ''jitter_buffer_wish'', ''rtp_stats'', ''rtp_timeout'',
      ''net_interface'']"
  by (simp add: config_lines_def Let_def)

lemma config_values:
  assumes "conf_env_laws K" "config_ok K cfg"
  shows "entry_value ''sip_listen'' (config_lines K cfg) = Some (cs_local (kf_sip cfg))"
    "entry_value ''sip_certificate'' (config_lines K cfg) = Some (cs_cert (kf_sip cfg))"
    "entry_value ''sip_cafile'' (config_lines K cfg) = Some (cs_cafile (kf_sip cfg))"
    "entry_value ''call_local_timeout'' (config_lines K cfg) = Some (ke_dec K (kc_local_timeout (kf_call cfg)))"
    "entry_value ''call_max_calls'' (config_lines K cfg) = Some (ke_dec K (kc_max_calls (kf_call cfg)))"
    "entry_value ''audio_path'' (config_lines K cfg) = Some (ka_path (kf_audio cfg))"
    "entry_value ''audio_player'' (config_lines K cfg) = Some (ka_play_mod (kf_audio cfg) @ '','' @ ka_play_dev (kf_audio cfg))"
    "entry_value ''audio_source'' (config_lines K cfg) = Some (ka_src_mod (kf_audio cfg) @ '','' @ ka_src_dev (kf_audio cfg))"
    "entry_value ''audio_alert'' (config_lines K cfg) = Some (ka_alert_mod (kf_audio cfg) @ '','' @ ka_alert_dev (kf_audio cfg))"
    "entry_value ''auplay_srate'' (config_lines K cfg) = Some (ke_dec K (ka_srate_play (kf_audio cfg)))"
    "entry_value ''ausrc_srate'' (config_lines K cfg) = Some (ke_dec K (ka_srate_src (kf_audio cfg)))"
    "entry_value ''auplay_channels'' (config_lines K cfg) = Some (ke_dec K (ka_channels_play (kf_audio cfg)))"
    "entry_value ''ausrc_channels'' (config_lines K cfg) = Some (ke_dec K (ka_channels_src (kf_audio cfg)))"
    "entry_value ''audio_level'' (config_lines K cfg) = Some (yesno (ka_level (kf_audio cfg)))"
    "entry_value ''video_source'' (config_lines K cfg) = Some (kv_src_mod (kf_video cfg) @ '','' @ kv_src_dev (kf_video cfg))"
    "entry_value ''video_display'' (config_lines K cfg) = Some (kv_disp_mod (kf_video cfg) @ '','' @ kv_disp_dev (kf_video cfg))"
    "entry_value ''video_size'' (config_lines K cfg) =
       Some (ke_dec K (kv_width (kf_video cfg)) @ ''x'' @ ke_dec K (kv_height (kf_video cfg)))"
    "entry_value ''video_bitrate'' (config_lines K cfg) = Some (ke_dec K (kv_bitrate (kf_video cfg)))"
    "entry_value ''video_fps'' (config_lines K cfg) = Some (ke_2f K (kv_fps (kf_video cfg)))"
    "entry_value ''video_fullscreen'' (config_lines K cfg) = Some (yesno (kv_fullscreen (kf_video cfg)))"
    "entry_value ''videnc_format'' (config_lines K cfg) = Some (ke_vidfmt_name K (kv_enc_fmt (kf_video cfg)))"
    "entry_value ''rtp_tos'' (config_lines K cfg) = Some (ke_dec K (ucast (kt_rtp_tos (kf_avt cfg))))"
    "entry_value ''rtp_ports'' (config_lines K cfg) = Some (range_print K (kt_rtp_ports (kf_avt cfg)))"
    "entry_value ''rtp_bandwidth'' (config_lines K cfg) = Some (range_print K (kt_rtp_bw (kf_avt cfg)))"
    "entry_value ''rtcp_mux'' (config_lines K cfg) = Some (yesno (kt_rtcp_mux (kf_avt cfg)))"
    "entry_value ''jitter_buffer_type'' (config_lines K cfg) = Some (jbuf_type_str (kt_jbtype (kf_avt cfg)))"
    "entry_value ''jitter_buffer_delay'' (config_lines K cfg) = Some (range_print K (kt_jbuf_del (kf_avt cfg)))"
    "entry_value ''jitter_buffer_wish'' (config_lines K cfg) = Some (ke_dec K (kt_jbuf_wish (kf_avt cfg)))"
    "entry_value ''rtp_stats'' (config_lines K cfg) = Some (yesno (kt_rtp_stats (kf_avt cfg)))"
    "entry_value ''rtp_timeout'' (config_lines K cfg) = Some (ke_dec K (kt_rtp_timeout (kf_avt cfg)))"
    "entry_value ''net_interface'' (config_lines K cfg) = Some (kn_ifname (kf_net cfg))"
    "k \<in> {''poll_method'', ''audio_txmode'', ''ausrc_format'', ''auplay_format'', ''auenc_format'', ''audec_format'',
       ''audio_buffer'', ''dns_server'', ''dns_fallback''} \<Longrightarrow> entry_value k (config_lines K cfg) = None"
proof -
  have d: "ke_dec K n \<noteq> []" "ke_2f K x \<noteq> []" "ke_vidfmt_name K i \<noteq> []" for n x i
    using assms(1) unfolding conf_env_laws_def by (metis word_ok_simps(3))+
  have f: "cs_local (kf_sip cfg) \<noteq> []" "cs_cert (kf_sip cfg) \<noteq> []" "cs_cafile (kf_sip cfg) \<noteq> []" "ka_path (kf_audio cfg) \<noteq> []"
    "kn_ifname (kf_net cfg) \<noteq> []"
    using assms(2) by (auto simp: config_ok_def Let_def text_field_def)
  have y: "yesno b \<noteq> []" "jbuf_type_str j \<noteq> []" "range_print K r \<noteq> []" for b j r
    by (simp_all add: yesno_def jbuf_type_str_def range_print_def split: jbuf_type.split)
  show "entry_value ''sip_listen'' (config_lines K cfg) = Some (cs_local (kf_sip cfg))"
    "entry_value ''sip_certificate'' (config_lines K cfg) = Some (cs_cert (kf_sip cfg))"
    "entry_value ''sip_cafile'' (config_lines K cfg) = Some (cs_cafile (kf_sip cfg))"
    "entry_value ''call_local_timeout'' (config_lines K cfg) = Some (ke_dec K (kc_local_timeout (kf_call cfg)))"
    "entry_value ''call_max_calls'' (config_lines K cfg) = Some (ke_dec K (kc_max_calls (kf_call cfg)))"
    "entry_value ''audio_path'' (config_lines K cfg) = Some (ka_path (kf_audio cfg))"
    "entry_value ''audio_player'' (config_lines K cfg) = Some (ka_play_mod (kf_audio cfg) @ '','' @ ka_play_dev (kf_audio cfg))"
    "entry_value ''audio_source'' (config_lines K cfg) = Some (ka_src_mod (kf_audio cfg) @ '','' @ ka_src_dev (kf_audio cfg))"
    by (simp_all add: config_lines_def Let_def d f y)
  show "entry_value ''audio_alert'' (config_lines K cfg) = Some (ka_alert_mod (kf_audio cfg) @ '','' @ ka_alert_dev (kf_audio cfg))"
    "entry_value ''auplay_srate'' (config_lines K cfg) = Some (ke_dec K (ka_srate_play (kf_audio cfg)))"
    "entry_value ''ausrc_srate'' (config_lines K cfg) = Some (ke_dec K (ka_srate_src (kf_audio cfg)))"
    "entry_value ''auplay_channels'' (config_lines K cfg) = Some (ke_dec K (ka_channels_play (kf_audio cfg)))"
    "entry_value ''ausrc_channels'' (config_lines K cfg) = Some (ke_dec K (ka_channels_src (kf_audio cfg)))"
    "entry_value ''audio_level'' (config_lines K cfg) = Some (yesno (ka_level (kf_audio cfg)))"
    "entry_value ''video_source'' (config_lines K cfg) = Some (kv_src_mod (kf_video cfg) @ '','' @ kv_src_dev (kf_video cfg))"
    "entry_value ''video_display'' (config_lines K cfg) = Some (kv_disp_mod (kf_video cfg) @ '','' @ kv_disp_dev (kf_video cfg))"
    by (simp_all add: config_lines_def Let_def d f y)
  show "entry_value ''video_size'' (config_lines K cfg) =
       Some (ke_dec K (kv_width (kf_video cfg)) @ ''x'' @ ke_dec K (kv_height (kf_video cfg)))"
    "entry_value ''video_bitrate'' (config_lines K cfg) = Some (ke_dec K (kv_bitrate (kf_video cfg)))"
    "entry_value ''video_fps'' (config_lines K cfg) = Some (ke_2f K (kv_fps (kf_video cfg)))"
    "entry_value ''video_fullscreen'' (config_lines K cfg) = Some (yesno (kv_fullscreen (kf_video cfg)))"
    "entry_value ''videnc_format'' (config_lines K cfg) = Some (ke_vidfmt_name K (kv_enc_fmt (kf_video cfg)))"
    "entry_value ''rtp_tos'' (config_lines K cfg) = Some (ke_dec K (ucast (kt_rtp_tos (kf_avt cfg))))"
    "entry_value ''rtp_ports'' (config_lines K cfg) = Some (range_print K (kt_rtp_ports (kf_avt cfg)))"
    "entry_value ''rtp_bandwidth'' (config_lines K cfg) = Some (range_print K (kt_rtp_bw (kf_avt cfg)))"
    by (simp_all add: config_lines_def Let_def d f y)
  show "entry_value ''rtcp_mux'' (config_lines K cfg) = Some (yesno (kt_rtcp_mux (kf_avt cfg)))"
    "entry_value ''jitter_buffer_type'' (config_lines K cfg) = Some (jbuf_type_str (kt_jbtype (kf_avt cfg)))"
    "entry_value ''jitter_buffer_delay'' (config_lines K cfg) = Some (range_print K (kt_jbuf_del (kf_avt cfg)))"
    "entry_value ''jitter_buffer_wish'' (config_lines K cfg) = Some (ke_dec K (kt_jbuf_wish (kf_avt cfg)))"
    "entry_value ''rtp_stats'' (config_lines K cfg) = Some (yesno (kt_rtp_stats (kf_avt cfg)))"
    "entry_value ''rtp_timeout'' (config_lines K cfg) = Some (ke_dec K (kt_rtp_timeout (kf_avt cfg)))"
    "entry_value ''net_interface'' (config_lines K cfg) = Some (kn_ifname (kf_net cfg))"
    by (simp_all add: config_lines_def Let_def d f y)
  show "k \<in> {''poll_method'', ''audio_txmode'', ''ausrc_format'', ''auplay_format'', ''auenc_format'', ''audec_format'',
       ''audio_buffer'', ''dns_server'', ''dns_fallback''} \<Longrightarrow> entry_value k (config_lines K cfg) = None"
    by (rule entry_value_none, unfold config_keys) auto
qed

lemma range_read:
  assumes "conf_env_laws K" "conf k = Some (range_print K r)" "rng_min r \<le> rng_max r"
  shows "conf_get_range K conf k old = (0, old\<lparr>rng_min := rng_min r, rng_max := rng_max r\<rparr>)"
  using assms by (simp add: conf_env_laws_def conf_get_range_def range_print_def Let_def not_less)

lemma csv_read:
  assumes "conf_env_laws K" "conf k = Some (m @ '','' @ d)" "mod_field m" "text_field 128 d"
  shows "conf_get_csv K conf k 16 128 old = (0, m, d)"
proof -
  have "l_regex (ke_libre K) (m @ '','' @ d) ''[^,]+,[~]*'' = Some [m, d]"
    using assms(1,3,4) unfolding conf_env_laws_def by (auto simp: mod_field_def text_field_def word_ok_ne)
  then show ?thesis using assms(2-4) by (auto simp: conf_get_csv_def mod_field_def text_field_def)
qed

lemma range_extend: "(r :: range)\<lparr>rng_min := rng_min s, rng_max := rng_max s\<rparr> = s"
  by (cases r, cases s) simp

text \<open>The part of the configuration that is not printed: the parts \<open>cfg0\<close> has before reading stay.\<close>

definition config_reread :: "config \<Rightarrow> config \<Rightarrow> config" where
  "config_reread cfg0 cfg =
     cfg\<lparr>kf_sip := (kf_sip cfg)\<lparr>cs_uuid := cs_uuid (kf_sip cfg0)\<rparr>,
         kf_audio := (kf_audio cfg)\<lparr>ka_txmode := ka_txmode (kf_audio cfg0), ka_src_fmt := ka_src_fmt (kf_audio cfg0),
           ka_play_fmt := ka_play_fmt (kf_audio cfg0), ka_enc_fmt := ka_enc_fmt (kf_audio cfg0),
           ka_dec_fmt := ka_dec_fmt (kf_audio cfg0), ka_buffer := ka_buffer (kf_audio cfg0)\<rparr>,
         kf_net := (kf_net cfg0)\<lparr>kn_ifname := kn_ifname (kf_net cfg)\<rparr>\<rparr>"

definition scale_bw :: "config \<Rightarrow> config" where
  "scale_bw cfg =
     (let t = kf_avt cfg; b = kt_rtp_bw t
      in cfg\<lparr>kf_avt := t\<lparr>kt_rtp_bw := b\<lparr>rng_min := rng_min b * 1000, rng_max := rng_max b * 1000\<rparr>\<rparr>\<rparr>)"

lemma read_sip:
  assumes "conf_env_laws K" "config_ok K cfg" "conf = (\<lambda>k. entry_value k (config_lines K cfg))"
  shows "parse_sip conf s = (kf_sip cfg)\<lparr>cs_uuid := cs_uuid s\<rparr>"
  using assms(2) config_values[OF assms(1,2)]
  by (cases s, cases "kf_sip cfg") (simp add: parse_sip_def conf_get_str_def assms(3) config_ok_def text_field_def Let_def)

lemma read_call:
  assumes "conf_env_laws K" "config_ok K cfg" "conf = (\<lambda>k. entry_value k (config_lines K cfg))"
  shows "parse_call K conf c = kf_call cfg"
  using assms(1) config_values[OF assms(1,2)]
  by (cases c, cases "kf_call cfg") (simp add: parse_call_def conf_get_u32_def assms(3) conf_env_laws_def)

lemma read_audio:
  assumes "conf_env_laws K" "config_ok K cfg" "conf = (\<lambda>k. entry_value k (config_lines K cfg))"
  shows "parse_audio_fmts K conf (parse_audio_devs K conf a) =
     (kf_audio cfg)\<lparr>ka_txmode := ka_txmode a, ka_src_fmt := ka_src_fmt a, ka_play_fmt := ka_play_fmt a,
        ka_enc_fmt := ka_enc_fmt a, ka_dec_fmt := ka_dec_fmt a, ka_buffer := ka_buffer a\<rparr>"
proof -
  note v = config_values[OF assms(1,2)]
  have c: "conf_get_csv K conf ''audio_player'' 16 128 o1 = (0, ka_play_mod (kf_audio cfg), ka_play_dev (kf_audio cfg))"
    "conf_get_csv K conf ''audio_source'' 16 128 o1 = (0, ka_src_mod (kf_audio cfg), ka_src_dev (kf_audio cfg))"
    "conf_get_csv K conf ''audio_alert'' 16 128 o1 = (0, ka_alert_mod (kf_audio cfg), ka_alert_dev (kf_audio cfg))" for o1
    using assms(2) v(7-9) by (auto intro!: csv_read[OF assms(1)] simp: assms(3) config_ok_def Let_def)
  have p: "snd (conf_get_str conf ''audio_path'' 256 s) = ka_path (kf_audio cfg)" for s
    using assms(2) v(6) by (simp add: conf_get_str_def assms(3) config_ok_def text_field_def Let_def)
  have u: "snd (conf_get_u32 K conf ''ausrc_srate'' n) = ka_srate_src (kf_audio cfg)"
    "snd (conf_get_u32 K conf ''auplay_srate'' n) = ka_srate_play (kf_audio cfg)"
    "snd (conf_get_u32 K conf ''ausrc_channels'' n) = ka_channels_src (kf_audio cfg)"
    "snd (conf_get_u32 K conf ''auplay_channels'' n) = ka_channels_play (kf_audio cfg)" for n
    using assms(1) v(10-13) by (simp_all add: conf_get_u32_def assms(3) conf_env_laws_def)
  have b: "snd (conf_get_bool K conf ''audio_level'' l) = ka_level (kf_audio cfg)" for l
    using assms(1) v(14) by (simp add: conf_get_bool_def assms(3) conf_env_laws_def yesno_def)
  have n: "parse_txmode K conf m = m" "conf_get_aufmt K conf ''ausrc_format'' i = (ENOENT, i)"
    "conf_get_aufmt K conf ''auplay_format'' i = (ENOENT, i)" "conf_get_aufmt K conf ''auenc_format'' i = (ENOENT, i)"
    "conf_get_aufmt K conf ''audec_format'' i = (ENOENT, i)" "conf_get_range K conf ''audio_buffer'' r = (ENOENT, r)" for m i r
    by (simp_all add: parse_txmode_def conf_get_aufmt_def conf_get_range_def assms(3) v(32))
  show ?thesis
    by (cases a, cases "kf_audio cfg")
      (simp add: parse_audio_devs_def parse_audio_fmts_def c u b n p Let_def)
qed

lemma read_video:
  assumes "conf_env_laws K" "config_ok K cfg" "conf = (\<lambda>k. entry_value k (config_lines K cfg))"
  shows "parse_video K conf w = kf_video cfg"
proof -
  note v = config_values[OF assms(1,2)]
  let ?v = "kf_video cfg"
  have c: "conf_get_csv K conf ''video_source'' 16 128 o1 = (0, kv_src_mod ?v, kv_src_dev ?v)"
    "conf_get_csv K conf ''video_display'' 16 128 o1 = (0, kv_disp_mod ?v, kv_disp_dev ?v)" for o1
    using assms(2) v(15,16) by (auto intro!: csv_read[OF assms(1)] simp: assms(3) config_ok_def Let_def)
  have d: "ke_dec K n \<noteq> []" for n using assms(1) unfolding conf_env_laws_def by (metis word_ok_simps(3))
  have z: "conf_get_vidsz K conf ''video_size'' o1 = (0, kv_width ?v, kv_height ?v)" for o1
    using assms(1,2) v(17) by (simp add: conf_get_vidsz_def assms(3) conf_env_laws_def config_ok_def Let_def d)
  have u: "snd (conf_get_u32 K conf ''video_bitrate'' n) = kv_bitrate ?v" for n
    using assms(1) v(18) by (simp add: conf_get_u32_def assms(3) conf_env_laws_def)
  have f: "snd (conf_get_float K conf ''video_fps'' x) = kv_fps ?v" for x
    using assms(1,2) v(19) by (simp add: conf_get_float_def assms(3) conf_env_laws_def config_ok_def Let_def)
  have b: "snd (conf_get_bool K conf ''video_fullscreen'' l) = kv_fullscreen ?v" for l
    using assms(1) v(20) by (simp add: conf_get_bool_def assms(3) conf_env_laws_def yesno_def)
  have e: "snd (conf_get_vidfmt K conf ''videnc_format'' i) = kv_enc_fmt ?v" for i
  proof -
    have r: "0 \<le> kv_enc_fmt ?v" "kv_enc_fmt ?v < int (ke_vid_fmt_n K)" using assms(2) by (simp_all add: config_ok_def Let_def)
    have eq: "l_casecmp (ke_libre K) (Some (ke_vidfmt_name K (kv_enc_fmt ?v))) (Some (ke_vidfmt_name K j)) = 0 \<longleftrightarrow>
        j = kv_enc_fmt ?v" if "0 \<le> j" "j < int (ke_vid_fmt_n K)" for j
      using assms(1) r that unfolding conf_env_laws_def casecmp_laws_def by auto
    have "List.find (\<lambda>j. l_casecmp (ke_libre K) (Some (ke_vidfmt_name K (kv_enc_fmt ?v))) (Some (ke_vidfmt_name K (int j))) = 0)
        [0..<ke_vid_fmt_n K] = Some (nat (kv_enc_fmt ?v))"
      using r by (auto simp: find_Some_iff eq intro!: exI[of _ "nat (kv_enc_fmt ?v)"])
    then show ?thesis using r(1) v(21) by (simp add: conf_get_vidfmt_def assms(3))
  qed
  show ?thesis
    by (cases w, cases ?v) (simp add: parse_video_def c z u f b e Let_def)
qed

lemma read_avt:
  assumes "conf_env_laws K" "config_ok K cfg" "conf = (\<lambda>k. entry_value k (config_lines K cfg))"
  shows "parse_avt K conf t = kf_avt (scale_bw cfg)"
proof -
  note v = config_values[OF assms(1,2)]
  let ?t = "kf_avt cfg"
  have r: "conf_get_range K conf ''rtp_ports'' r = (0, kt_rtp_ports ?t)"
    "conf_get_range K conf ''rtp_bandwidth'' r = (0, kt_rtp_bw ?t)"
    "conf_get_range K conf ''jitter_buffer_delay'' r = (0, kt_jbuf_del ?t)" for r
    using assms(2) v(23,24,27)
    by (simp_all add: range_read[OF assms(1)] assms(3) config_ok_def Let_def range_extend)
  have tos: "ucast (ucast b :: u32) = b" for b :: u8 by (rule ucast_u8_u32)
  have u: "conf_get_u32 K conf ''rtp_tos'' n = (0, ucast (kt_rtp_tos ?t))"
    "conf_get_u32 K conf ''jitter_buffer_wish'' n = (0, kt_jbuf_wish ?t)"
    "conf_get_u32 K conf ''rtp_timeout'' n = (0, kt_rtp_timeout ?t)" for n
    using assms(1) v(22,28,30) by (simp_all add: conf_get_u32_def assms(3) conf_env_laws_def)
  have b: "conf_get_bool K conf ''rtcp_mux'' l = (0, kt_rtcp_mux ?t)" "conf_get_bool K conf ''rtp_stats'' l = (0, kt_rtp_stats ?t)" for l
    using assms(1) v(25,29) by (simp_all add: conf_get_bool_def assms(3) conf_env_laws_def yesno_def)
  have j: "resolve_jbuf_type K (jbuf_type_str x) = x" for x
    using assms(1) by (cases x) (simp_all add: resolve_jbuf_type_def jbuf_type_str_def conf_env_laws_def casecmp_laws_def fold_case_def Let_def tolower_c_def)
  have jb: "conf ''jitter_buffer_type'' = Some (jbuf_type_str (kt_jbtype ?t))" by (simp add: assms(3) v(26))
  show ?thesis
    by (cases t, cases ?t) (simp add: parse_avt_def parse_bw_def scale_bw_def r u b j jb tos Let_def)
qed

lemma read_net:
  assumes "conf_env_laws K" "config_ok K cfg" "conf = (\<lambda>k. entry_value k (config_lines K cfg))"
    and "all ''dns_server'' = []" "all ''dns_fallback'' = []"
  shows "parse_net conf all n = n\<lparr>kn_ifname := kn_ifname (kf_net cfg)\<rparr>"
  using assms config_values(31)[OF assms(1,2)]
  by (simp add: parse_net_def conf_get_str_def config_ok_def text_field_def Let_def)


subsection \<open>A concrete configuration file\<close>

definition ref_dec :: "u32 \<Rightarrow> string" where
  "ref_dec n = text_of (dec_str (unat n))"

definition ref_val :: "string \<Rightarrow> nat" where
  "ref_val s = dec_val 0 (map of_char s)"

definition ref_split :: "char \<Rightarrow> string \<Rightarrow> string list option" where
  "ref_split sep s = (let a = takeWhile (\<lambda>c. c \<noteq> sep) s in if length a < length s then Some [a, drop (Suc (length a)) s] else None)"

definition ref_conf_env :: conf_env where
  "ref_conf_env =
     \<lparr>ke_libre = ref_libre\<lparr>l_u32 := (\<lambda>s. of_nat (ref_val s)),
        l_regex := (\<lambda>s pat. ref_split (if pat = ''[0-9]+-[0-9]+'' then CHR ''-'' else if pat = ''[0-9]+x[0-9]+'' then CHR ''x'' else CHR '','') s)\<rparr>,
      ke_dec = ref_dec, ke_true = (\<lambda>s. s = ''yes''),
      ke_float = (\<lambda>s. of_int (if hd s = CHR ''-'' then - int (ref_val (tl s)) else int (ref_val s)) / 100),
      ke_2f = (\<lambda>x. (if x < 0 then ''-'' else []) @ text_of (dec_str (nat \<bar>\<lfloor>100 * x\<rfloor>\<bar>))),
      ke_poll = (\<lambda>s. None), ke_s16le = 0, ke_fmt_float = 3, ke_s24_3le = 4,
      ke_vidfmt_name = (\<lambda>i. if i = 0 then ''yuv420p'' else ''nv12''), ke_vid_fmt_n = 2\<rparr>"

lemma dec_chars: "c \<in> set (text_of (dec_str n)) \<Longrightarrow> 48 \<le> (of_char c :: nat) \<and> (of_char c :: nat) \<le> 57"
proof -
  assume "c \<in> set (text_of (dec_str n))"
  then obtain b where b: "b \<in> set (dec_str n)" "c = char_of (unat b)" by (auto simp: text_of_def)
  have "isdigit b" using b(1) dec_str_props[of n] by (auto simp: list_all_iff)
  then show ?thesis using unsigned_less[where 'a = nat, of b] by (simp add: b(2) isdigit_def word_le_nat_alt)
qed

lemma dec_text: "text_of (dec_str n) \<noteq> []" "word_ok (text_of (dec_str n))" "c \<in> set ''-x,'' \<Longrightarrow> c \<notin> set (text_of (dec_str n))"
  "ref_val (text_of (dec_str n)) = n" "hd (text_of (dec_str n)) \<noteq> CHR ''-''"
proof -
  show ne: "text_of (dec_str n) \<noteq> []" using dec_str_props[of n] by (simp add: text_of_def)
  show "word_ok (text_of (dec_str n))" using ne dec_chars[of _ n] by (fastforce simp: word_ok_def)
  show c: "c \<in> set ''-x,'' \<Longrightarrow> c \<notin> set (text_of (dec_str n))" for c using dec_chars[of c n] by auto
  show "hd (text_of (dec_str n)) \<noteq> CHR ''-''" using c[of "CHR ''-''"] ne by (metis hd_in_set list.set_intros(1))
  have "of_char (char_of (unat b) :: char) = b" for b :: u8
  proof -
    have "unat b < 256" using unsigned_less[where 'a = nat, of b] by simp
    then have e: "(of_char (char_of (unat b) :: char) :: nat) = unat b" by simp
    have "(of_char c :: u8) = word_of_nat (of_char c)" for c :: char by (cases c) (simp add: of_char_def)
    from this[of "char_of (unat b)"] show ?thesis unfolding e by simp
  qed
  then show "ref_val (text_of (dec_str n)) = n" using dec_str_props[of n] by (simp add: ref_val_def text_of_def comp_def)
qed

lemma ref_split_at: "sep \<notin> set a \<Longrightarrow> ref_split sep (a @ sep # b) = Some [a, b]"
proof -
  assume "sep \<notin> set a"
  then have "takeWhile (\<lambda>c. c \<noteq> sep) (a @ sep # b) = a" by (subst takeWhile_append2) auto
  then show ?thesis by (simp add: ref_split_def)
qed

lemma ref_conf_laws: "conf_env_laws ref_conf_env"
proof -
  have f: "word_ok (ke_2f ref_conf_env x)" "100 * x \<in> \<int> \<Longrightarrow> ke_float ref_conf_env (ke_2f ref_conf_env x) = x" for x
  proof -
    show "word_ok (ke_2f ref_conf_env x)" by (simp add: ref_conf_env_def dec_text)
    assume "100 * x \<in> \<int>"
    then obtain z where z: "100 * x = of_int z" by (auto elim: Ints_cases)
    then have x: "x = of_int z / 100" by simp
    show "ke_float ref_conf_env (ke_2f ref_conf_env x) = x"
      by (simp add: ref_conf_env_def dec_text z) (auto simp: x)
  qed
  have c: "casecmp_laws (l_casecmp (ke_libre ref_conf_env))" using ref_casecmp_ok by (simp add: ref_conf_env_def ref_libre_def)
  show ?thesis
    unfolding conf_env_laws_def using c f
    by (simp add: ref_conf_env_def ref_dec_def dec_text ref_split_at) (auto simp: fold_case_def)
qed

text \<open>A reader of configuration files: line by line, key, white space, value.\<close>

fun split_nl :: "string \<Rightarrow> string \<Rightarrow> string list" where
  "split_nl acc [] = []"
| "split_nl acc (c # cs) = (if c = CHR 10 then rev acc # split_nl [] cs else split_nl (c # acc) cs)"

definition is_ws :: "char \<Rightarrow> bool" where
  "is_ws c = (c \<in> {CHR 32, CHR 9, CHR 10, CHR 13})"

definition line_value :: "string \<Rightarrow> string \<Rightarrow> string option" where
  "line_value k l =
     (let k' = takeWhile (\<lambda>c. \<not> is_ws c) l; r = dropWhile is_ws (drop (length k') l);
          v = (if r \<noteq> [] \<and> hd r = CHR 0x22 then takeWhile (\<lambda>c. c \<noteq> CHR 0x22) (tl r) else takeWhile (\<lambda>c. \<not> is_ws c) r)
      in if k' = k \<and> v \<noteq> [] \<and> \<not> (k' \<noteq> [] \<and> hd k' = CHR ''#'') then Some v else None)"

lemma is_ws_simps [simp]: "is_ws (CHR 9)" "is_ws (CHR 32)" "is_ws (CHR 10)" "\<not> is_ws (CHR 0x22)"
  by (simp_all add: is_ws_def)

fun first_some :: "'a option list \<Rightarrow> 'a option" where
  "first_some [] = None"
| "first_some (None # xs) = first_some xs"
| "first_some (Some x # xs) = Some x"

definition ref_rd :: "string \<Rightarrow> conf \<times> (string \<Rightarrow> string list)" where
  "ref_rd s = (let ls = split_nl [] s
               in (\<lambda>k. first_some (map (line_value k) ls), \<lambda>k. concat (map (\<lambda>l. case line_value k l of None \<Rightarrow> [] | Some v \<Rightarrow> [v]) ls)))"

lemma split_nl_line: "CHR 10 \<notin> set l \<Longrightarrow> split_nl acc (l @ CHR 10 # rest) = (rev acc @ l) # split_nl [] rest"
  by (induction l arbitrary: acc) auto

lemma word_ws: "word_ok v \<Longrightarrow> c \<in> set v \<Longrightarrow> \<not> is_ws c \<and> c \<noteq> CHR 0x22 \<and> c \<noteq> CHR 10"
  by (auto simp: word_ok_def is_ws_def)

lemma word_take:
  assumes "word_ok v" "rest = [] \<or> is_ws (hd rest)"
  shows "takeWhile (\<lambda>c. \<not> is_ws c) (v @ rest) = v"
  using assms word_ws[OF assms(1)] by (subst takeWhile_append2) (auto simp: takeWhile_eq_Nil_iff)

lemma ws_drop: "0 < n \<Longrightarrow> r = [] \<or> \<not> is_ws (hd r) \<Longrightarrow> dropWhile is_ws (replicate n (CHR 9) @ r) = r"
  by (subst dropWhile_append2) (auto simp: is_ws_def dropWhile_eq_self_iff)

lemma line_value_entry:
  assumes "line_ok (Entry k n v c)"
  shows "line_value k' (k @ replicate n (CHR 9) @ v @ c) = (if k = k' \<and> v \<noteq> [] then Some v else None)"
proof -
  have k: "takeWhile (\<lambda>c. \<not> is_ws c) (k @ replicate n (CHR 9) @ v @ c) = k"
    using assms by (intro word_take) (auto simp: is_ws_def hd_append)
  have v: "v @ c = [] \<or> \<not> is_ws (hd (v @ c))" "v = [] \<or> hd (v @ c) \<noteq> CHR 0x22" "v = [] \<longrightarrow> c = []"
    using assms word_ws[of v "hd v"] by (cases v; auto)+
  have d: "dropWhile is_ws (replicate n (CHR 9) @ v @ c) = v @ c" using assms v(1) by (intro ws_drop) auto
  have t: "v \<noteq> [] \<Longrightarrow> takeWhile (\<lambda>c. \<not> is_ws c) (v @ c) = v"
    using assms by (intro word_take) (auto simp: is_ws_def)
  have e: "dropWhile is_ws (replicate n (CHR 9)) = []" by simp
  show ?thesis using assms v t d e unfolding line_value_def k by (cases "v = []") (auto simp: Let_def)
qed

lemma line_value_quoted:
  assumes "line_ok (Quoted k n v)"
  shows "line_value k' (k @ replicate n (CHR 9) @ CHR 0x22 # v @ [CHR 0x22]) = (if k = k' then Some v else None)"
proof -
  have k: "takeWhile (\<lambda>c. \<not> is_ws c) (k @ replicate n (CHR 9) @ CHR 0x22 # v @ [CHR 0x22]) = k"
    using assms by (intro word_take) (auto simp: is_ws_def hd_append)
  have d: "dropWhile is_ws (replicate n (CHR 9) @ CHR 0x22 # v @ [CHR 0x22]) = CHR 0x22 # v @ [CHR 0x22]"
    using assms by (intro ws_drop) (auto simp: is_ws_def)
  have t: "takeWhile (\<lambda>c. c \<noteq> CHR 0x22) (v @ [CHR 0x22]) = v"
    using assms word_ws[of v] by (subst takeWhile_append2) auto
  show ?thesis using assms t d unfolding line_value_def k by (auto simp: Let_def word_ok_ne)
qed

lemma line_value_other: "line_ok (Other s) \<Longrightarrow> line_value k s = None"
  by (cases s) (auto simp: line_value_def Let_def is_ws_def)

lemma split_lines:
  assumes "list_all line_ok ls"
  shows "split_nl [] (concat (map line_text ls)) = map (\<lambda>l. butlast (line_text l)) ls"
  using assms
proof (induction ls)
  case (Cons l ls)
  have "CHR 10 \<notin> set (butlast (line_text l)) \<and> line_text l = butlast (line_text l) @ [CHR 10]"
    using Cons.prems word_ws by (cases l) (fastforce simp: butlast_append split: if_splits)+
  then obtain m where m: "CHR 10 \<notin> set m" "line_text l = m @ [CHR 10]" by metis
  show ?case using Cons split_nl_line[OF m(1), of "[]" "concat (map line_text ls)"] by (simp add: m(2))
qed simp

lemma line_values:
  assumes "line_ok l"
  shows "line_value k (butlast (line_text l)) = entry_value k [l]"
  using assms line_value_entry line_value_quoted line_value_other by (cases l) (auto simp: butlast_append)

lemma first_values: "list_all line_ok ls \<Longrightarrow> first_some (map (\<lambda>l. line_value k (butlast (line_text l))) ls) = entry_value k ls"
proof (induction ls)
  case (Cons l ls)
  have "line_value k (butlast (line_text l)) = entry_value k [l]" using Cons.prems by (intro line_values) simp
  with Cons show ?case by (cases l) (simp_all del: line_text.simps)
qed simp

lemma all_values:
  "list_all line_ok ls \<Longrightarrow>
     concat (map (\<lambda>l. case line_value k (butlast (line_text l)) of None \<Rightarrow> [] | Some v \<Rightarrow> [v]) ls) = entry_values k ls"
proof (induction ls)
  case (Cons l ls)
  have "line_value k (butlast (line_text l)) = entry_value k [l]" using Cons.prems by (intro line_values) simp
  with Cons show ?case by (cases l) (simp_all del: line_text.simps)
qed simp

lemma ref_rd_laws: "conf_file_laws ref_rd"
  unfolding conf_file_laws_def
proof (intro allI impI conjI)
  fix s k and ls :: "line list"
  assume ok: "list_all line_ok (Other s # ls)"
  show "fst (ref_rd (concat (map line_text (Other s # ls)))) k = entry_value k ls"
    using first_values[OF ok] split_lines[OF ok] by (simp add: ref_rd_def comp_def Let_def)
  show "snd (ref_rd (concat (map line_text (Other s # ls)))) k = entry_values k ls"
    using all_values[OF ok] split_lines[OF ok] by (simp add: ref_rd_def comp_def Let_def)
qed

text \<open>A printed configuration, read over another one.\<close>

definition ref_range :: "u32 \<Rightarrow> u32 \<Rightarrow> range" where
  "ref_range a b = \<lparr>rng_min = a, rng_max = b\<rparr>"

definition ref_config :: "u32 \<Rightarrow> config" where
  "ref_config calls =
     \<lparr>kf_sip = \<lparr>cs_uuid = [], cs_local = ''0.0.0.0:5060'', cs_cert = ''cert.pem'', cs_cafile = ''ca.pem''\<rparr>,
      kf_call = \<lparr>kc_local_timeout = 120, kc_max_calls = calls\<rparr>,
      kf_audio = \<lparr>ka_path = ''/share'', ka_src_mod = ''alsa'', ka_src_dev = ''default'', ka_play_mod = ''alsa'',
        ka_play_dev = ''hw0'', ka_alert_mod = ''alsa'', ka_alert_dev = ''default'', ka_srate_play = 48000, ka_srate_src = 8000,
        ka_channels_play = 2, ka_channels_src = 1, ka_txmode = AUDIO_MODE_POLL, ka_level = True, ka_src_fmt = 0,
        ka_play_fmt = 0, ka_enc_fmt = 0, ka_dec_fmt = 0, ka_buffer = ref_range 20 160\<rparr>,
      kf_video = \<lparr>kv_src_mod = ''v4l2'', kv_src_dev = ''/dev/video0'', kv_disp_mod = ''x11'', kv_disp_dev = ''nil'',
        kv_width = 352, kv_height = 288, kv_bitrate = 500000, kv_fps = 25, kv_fullscreen = True, kv_enc_fmt = 0\<rparr>,
      kf_avt = \<lparr>kt_rtp_tos = 0xb8, kt_rtp_ports = ref_range 1024 49152, kt_rtp_bw = ref_range 512 1024, kt_rtcp_mux = False,
        kt_jbtype = JBUF_FIXED, kt_jbuf_del = ref_range 5 10, kt_jbuf_wish = 6, kt_rtp_stats = False, kt_rtp_timeout = 0\<rparr>,
      kf_net = \<lparr>kn_af = 0, kn_ifname = ''eth0'', kn_nsv = []\<rparr>\<rparr>"


end
