(* ===== verification/ConfFile.thy ===== *)
theory ConfFile
  imports Config
begin

text \<open>
  The rest of \<open>src/conf.c\<close>, \<open>src/module.c\<close> and the defaults of \<open>src/data.c\<close>: the configuration
  file on disk, its template, and the modules it loads.

  The disk is the function \<open>fs_files\<close> from a path to the content of the file; what the system answers
  is the record \<open>fs_ops\<close>.  The template is the one for Linux, with \<open>epoll\<close>, modules that end in
  \<open>.so\<close>, and the paths below \<open>/usr\<close>.  Modules are not linked in statically.
\<close>

subsection \<open>Lines of a file\<close>

text \<open>\<open>conf_parse\<close>: the handler gets every line that is not empty and no comment, up to the first error.\<close>

function conf_parse_loop :: "(string \<Rightarrow> 'w \<Rightarrow> err \<times> 'w) \<Rightarrow> string \<Rightarrow> 'w \<Rightarrow> err \<times> 'w" where
  "conf_parse_loop ch s w =
     (if s = [] then (0, w)
      else
        let val = takeWhile (\<lambda>c. c \<noteq> CHR 10) s; s' = drop (length val + 1) s
        in if val = [] \<or> hd val = CHR ''#'' then conf_parse_loop ch s' w
           else let (err, w) = ch val w in if err \<noteq> 0 then (err, w) else conf_parse_loop ch s' w)"
  by pat_completeness auto
termination by (relation "measure (\<lambda>(ch, s, w). length s)") (auto simp: Let_def)

declare conf_parse_loop.simps [simp del]

text \<open>
  The file is read in blocks: \<open>blocks\<close> are the bytes of each with the error of appending them to the buffer, which
  then lacks them; \<open>rerr\<close> is the error of the last read, 0 at the end of the file.
\<close>

definition conf_parse ::
  "(string \<Rightarrow> 'w \<Rightarrow> err \<times> 'w) \<Rightarrow> err + (bool \<times> (string \<times> err) list \<times> err) \<Rightarrow> 'w \<Rightarrow> err \<times> 'w" where
  "conf_parse ch file w =
     (case file of
        Inl errno \<Rightarrow> (errno, w)
      | Inr (alloc, blocks, rerr) \<Rightarrow>
          if \<not> alloc then (ENOMEM, w)
          else
            let err = (if rerr \<noteq> 0 then rerr else fold (\<lambda>(_, e) acc. acc OR e) blocks 0);
                text = concat (map (\<lambda>(b, e). if e = 0 then b else []) blocks)
            in if err \<noteq> 0 then (err, w) else conf_parse_loop ch text w)"

subsection \<open>Defaults\<close>

definition core_config :: "conf_env \<Rightarrow> string \<Rightarrow> config" where
  "core_config K share_path =
     \<lparr>kf_sip = \<lparr>cs_uuid = [], cs_local = [], cs_cert = [], cs_cafile = []\<rparr>,
      kf_call = \<lparr>kc_local_timeout = 120, kc_max_calls = 4\<rparr>,
      kf_audio = \<lparr>ka_path = share_path, ka_src_mod = [], ka_src_dev = [], ka_play_mod = [], ka_play_dev = [],
        ka_alert_mod = [], ka_alert_dev = [], ka_srate_play = 0, ka_srate_src = 0, ka_channels_play = 0, ka_channels_src = 0,
        ka_txmode = AUDIO_MODE_POLL, ka_level = False, ka_src_fmt = ke_s16le K, ka_play_fmt = ke_s16le K,
        ka_enc_fmt = ke_s16le K, ka_dec_fmt = ke_s16le K, ka_buffer = \<lparr>rng_min = 20, rng_max = 160\<rparr>\<rparr>,
      kf_video = \<lparr>kv_src_mod = [], kv_src_dev = [], kv_disp_mod = [], kv_disp_dev = [], kv_width = 352, kv_height = 288,
        kv_bitrate = 500000, kv_fps = 25, kv_fullscreen = True, kv_enc_fmt = 0\<rparr>,
      kf_avt = \<lparr>kt_rtp_tos = 0xb8, kt_rtp_ports = \<lparr>rng_min = 1024, rng_max = 49152\<rparr>, kt_rtp_bw = \<lparr>rng_min = 0, rng_max = 0\<rparr>,
        kt_rtcp_mux = False, kt_jbtype = JBUF_FIXED, kt_jbuf_del = \<lparr>rng_min = 5, rng_max = 10\<rparr>, kt_jbuf_wish = 0,
        kt_rtp_stats = False, kt_rtp_timeout = 0\<rparr>,
      kf_net = \<lparr>kn_af = 0, kn_ifname = [], kn_nsv = []\<rparr>\<rparr>"

subsection \<open>The template\<close>

definition tb :: "nat \<Rightarrow> string" where
  "tb n = replicate n (CHR 9)"

text \<open>A setting that is commented out.\<close>

definition Unset :: "string \<Rightarrow> nat \<Rightarrow> string \<Rightarrow> string \<Rightarrow> line" where
  "Unset k n v c = Other (CHR ''#'' # k @ tb n @ v @ c)"

definition default_cafile :: string where "default_cafile = ''/etc/ssl/certs/ca-certificates.crt''"
definition default_audio_device :: string where "default_audio_device = ''alsa,default''"
definition default_video_device :: string where "default_video_device = ''v4l2,/dev/video0''"
definition default_video_display :: string where "default_video_display = ''x11,nil''"
definition default_avcodec_hwaccel :: string where "default_avcodec_hwaccel = ''vaapi''"

definition default_interface_print :: "string option \<Rightarrow> string" where
  "default_interface_print ifname = (case ifname of None \<Rightarrow> ''eth0'' | Some n \<Rightarrow> n)"

definition template_core :: "conf_env \<Rightarrow> string \<Rightarrow> config \<Rightarrow> line list" where
  "template_core K pollm cfg =
     [Other [], Other ''# Core'', Entry ''poll_method'' 2 pollm (tb 2 @ ''# poll, select, epoll ..''),
      Other [], Other ''# SIP'', Unset ''sip_listen'' 2 ''0.0.0.0:5060'' [],
      Unset ''sip_certificate'' 1 ''cert.pem'' [], Unset ''sip_cafile'' 2 default_cafile [], Other [],
      Other ''# Call'', Entry ''call_local_timeout'' 1 (ke_dec K (kc_local_timeout (kf_call cfg))) [],
      Entry ''call_max_calls'' 2 (ke_dec K (kc_max_calls (kf_call cfg))) [], Other [], Other ''# Audio'',
      Unset ''audio_path'' 2 ''/usr/share/baresip'' [], Entry ''audio_player'' 2 default_audio_device [],
      Entry ''audio_source'' 2 default_audio_device [], Entry ''audio_alert'' 2 default_audio_device [],
      Unset ''ausrc_srate'' 2 ''48000'' [], Unset ''auplay_srate'' 2 ''48000'' [],
      Unset ''ausrc_channels'' 2 ''0'' [], Unset ''auplay_channels'' 1 ''0'' [],
      Unset ''audio_txmode'' 2 ''poll'' (tb 2 @ ''# poll, thread''), Entry ''audio_level'' 2 ''no'' [],
      Entry ''ausrc_format'' 2 ''s16'' (tb 2 @ ''# s16, float, ..''),
      Entry ''auplay_format'' 2 ''s16'' (tb 2 @ ''# s16, float, ..''),
      Entry ''auenc_format'' 2 ''s16'' (tb 2 @ ''# s16, float, ..''),
      Entry ''audec_format'' 2 ''s16'' (tb 2 @ ''# s16, float, ..''),
      Entry ''audio_buffer'' 2 (range_print K (ka_buffer (kf_audio cfg))) (tb 2 @ ''# ms'')]"

definition template_video :: "conf_env \<Rightarrow> config \<Rightarrow> line list" where
  "template_video K cfg =
     [Other [], Other ''# Video'', Unset ''video_source'' 2 default_video_device [],
      Unset ''video_display'' 2 default_video_display [],
      Entry ''video_size'' 2 (ke_dec K (kv_width (kf_video cfg)) @ ''x'' @ ke_dec K (kv_height (kf_video cfg))) [],
      Entry ''video_bitrate'' 2 (ke_dec K (kv_bitrate (kf_video cfg))) [],
      Entry ''video_fps'' 2 (ke_2f K (kv_fps (kf_video cfg))) [], Entry ''video_fullscreen'' 1 ''no'' [],
      Entry ''videnc_format'' 2 (ke_vidfmt_name K (kv_enc_fmt (kf_video cfg))) []]"

definition template_avt :: "conf_env \<Rightarrow> string \<Rightarrow> config \<Rightarrow> line list" where
  "template_avt K iface cfg =
     [Other [], Other ''# AVT - Audio/Video Transport'', Entry ''rtp_tos'' 3 ''184'' [],
      Unset ''rtp_ports'' 2 ''10000-20000'' [], Unset ''rtp_bandwidth'' 2 ''512-1024'' '' # [kbit/s]'',
      Entry ''rtcp_mux'' 2 ''no'' [],
      Entry ''jitter_buffer_type'' 1 ''fixed'' (tb 2 @ ''# off, fixed, adaptive''),
      Entry ''jitter_buffer_delay'' 1 (ke_dec K (rng_min (kt_jbuf_del (kf_avt cfg))) @ ''-'' @ ke_dec K (rng_max (kt_jbuf_del (kf_avt cfg)))) (tb 2 @ ''# frames''),
      Unset ''jitter_buffer_wish'' 1 (ke_dec K (rng_min (kt_jbuf_del (kf_avt cfg)) + 1)) (tb 2 @ ''# frames for start''),
      Entry ''rtp_stats'' 2 ''no'' [], Unset ''rtp_timeout'' 2 ''60'' [], Other [], Other ''# Network'',
      Unset ''dns_server'' 2 ''1.1.1.1:53'' [], Unset ''dns_server'' 2 ''1.0.0.1:53'' [],
      Unset ''dns_fallback'' 2 ''8.8.8.8:53'' [], Unset ''net_interface'' 2 iface [], Other [],
      Other ''# Play tones'', Unset ''file_ausrc'' 2 ''aufile'' [], Unset ''file_srate'' 2 ''16000'' [],
      Unset ''file_channels'' 2 ''1'' []]"

definition template_banner :: "line list" where
  "template_banner =
     [Other ''#'', Other ''# baresip configuration'', Other ''#'', Other [],
      Other ''#------------------------------------------------------------------------------'']"

definition template_modhead :: "line list" where
  "template_modhead =
     [Other [], Other ''#------------------------------------------------------------------------------'',
      Other ''# Modules'', Other []]"

definition template_codecs :: "line list" where
  "template_codecs =
     [Other [], Other ''# UI Modules'', Entry ''module'' 3 ''stdio.so'' [],
      Unset ''module'' 3 ''cons.so'' [], Unset ''module'' 3 ''evdev.so'' [],
      Unset ''module'' 3 ''httpd.so'' [], Other [], Other ''# Audio codec Modules (in order)'',
      Unset ''module'' 3 ''opus.so'' [], Unset ''module'' 3 ''amr.so'' [],
      Unset ''module'' 3 ''g7221.so'' [], Unset ''module'' 3 ''g722.so'' [],
      Unset ''module'' 3 ''g726.so'' [], Entry ''module'' 3 ''g711.so'' [],
      Unset ''module'' 3 ''gsm.so'' [], Unset ''module'' 3 ''l16.so'' [],
      Unset ''module'' 3 ''mpa.so'' [], Unset ''module'' 3 ''codec2.so'' [],
      Unset ''module'' 3 ''ilbc.so'' [], Unset ''module'' 3 ''isac.so'' [], Other [],
      Other ''# Audio filter Modules (in encoding order)'', Unset ''module'' 3 ''vumeter.so'' [],
      Unset ''module'' 3 ''sndfile.so'' [], Unset ''module'' 3 ''speex_pp.so'' [],
      Unset ''module'' 3 ''plc.so'' [], Unset ''module'' 3 ''webrtc_aec.so'' [], Other [],
      Other ''# Audio driver Modules'', Entry ''module'' 3 ''alsa.so'' [],
      Unset ''module'' 3 ''pulse.so'' [], Unset ''module'' 3 ''jack.so'' [],
      Unset ''module'' 3 ''portaudio.so'' [], Unset ''module'' 3 ''aubridge.so'' [],
      Unset ''module'' 3 ''aufile.so'' [], Unset ''module'' 3 ''ausine.so'' [], Other [],
      Other ''# Video codec Modules (in order)'', Unset ''module'' 3 ''avcodec.so'' [],
      Unset ''module'' 3 ''vp8.so'' [], Unset ''module'' 3 ''vp9.so'' [], Other [],
      Other ''# Video filter Modules (in encoding order)'', Unset ''module'' 3 ''selfview.so'' [],
      Unset ''module'' 3 ''snapshot.so'' [], Unset ''module'' 3 ''swscale.so'' [],
      Unset ''module'' 3 ''vidinfo.so'' [], Unset ''module'' 3 ''avfilter.so'' []]"

definition template_modules :: "line list" where
  "template_modules =
     [Other [], Other ''# Video source modules'', Unset ''module'' 3 ''v4l2.so'' [],
      Unset ''module'' 3 ''v4l2_codec.so'' [], Unset ''module'' 3 ''x11grab.so'' [],
      Unset ''module'' 3 ''cairo.so'' [], Unset ''module'' 3 ''vidbridge.so'' [], Other [],
      Other ''# Video display modules'', Unset ''module'' 3 ''directfb.so'' [],
      Unset ''module'' 3 ''x11.so'' [], Unset ''module'' 3 ''sdl.so'' [],
      Unset ''module'' 3 ''fakevideo.so'' [], Other [], Other ''# Audio/Video source modules'',
      Unset ''module'' 3 ''avformat.so'' [], Unset ''module'' 3 ''rst.so'' [],
      Unset ''module'' 3 ''gst.so'' [], Unset ''module'' 3 ''gst_video.so'' [], Other [],
      Other ''# Compatibility modules'', Unset ''module'' 3 ''ebuacip.so'' [], Other [],
      Other ''# Media NAT modules'', Entry ''module'' 3 ''stun.so'' [],
      Entry ''module'' 3 ''turn.so'' [], Entry ''module'' 3 ''ice.so'' [],
      Unset ''module'' 3 ''natpmp.so'' [], Unset ''module'' 3 ''pcp.so'' [], Other [],
      Other ''# Media encryption modules'', Unset ''module'' 3 ''srtp.so'' [],
      Unset ''module'' 3 ''dtls_srtp.so'' [], Unset ''module'' 3 ''zrtp.so'' [], Other [], Other [],
      Other ''#------------------------------------------------------------------------------'',
      Other ''# Temporary Modules (loaded then unloaded)'', Other [], Entry ''module_tmp'' 2 ''uuid.so'' [],
      Entry ''module_tmp'' 2 ''account.so'' [], Other [], Other [],
      Other ''#------------------------------------------------------------------------------'',
      Other ''# Application Modules'', Other [], Entry ''module_app'' 2 ''auloop.so'' [],
      Unset ''module_app'' 2 ''b2bua.so'' [], Entry ''module_app'' 2 ''contact.so'' [],
      Entry ''module_app'' 2 ''debug_cmd.so'' [], Unset ''module_app'' 2 ''echo.so'' [],
      Unset ''module_app'' 2 ''gtk.so'' [], Entry ''module_app'' 2 ''menu.so'' [],
      Unset ''module_app'' 2 ''mwi.so'' [], Unset ''module_app'' 2 ''presence.so'' [],
      Unset ''module_app'' 2 ''syslog.so'' [], Unset ''module_app'' 2 ''mqtt.so'' [],
      Unset ''module_app'' 2 ''ctrl_tcp.so'' [], Entry ''module_app'' 2 ''vidloop.so'' [],
      Unset ''module_app'' 2 ''httpreq.so'' [], Other []]"

definition template_params :: "line list" where
  "template_params =
     [Other [], Other ''#------------------------------------------------------------------------------'',
      Other ''# Module parameters'', Other [], Other [], Other ''# UI Modules parameters'',
      Entry ''cons_listen'' 2 ''0.0.0.0:5555'' '' # cons'', Other [],
      Entry ''http_listen'' 2 ''0.0.0.0:8000'' '' # httpd - server'', Other [],
      Entry ''ctrl_tcp_listen'' 2 ''0.0.0.0:4444'' '' # ctrl_tcp'', Other [],
      Entry ''evdev_device'' 2 ''/dev/input/event0'' [], Other [], Other ''# Opus codec parameters'',
      Entry ''opus_bitrate'' 2 ''28000'' '' # 6000-510000'', Unset ''opus_stereo'' 2 ''yes'' [],
      Unset ''opus_sprop_stereo'' 1 ''yes'' [], Unset ''opus_cbr'' 2 ''no'' [],
      Unset ''opus_inbandfec'' 2 ''no'' [], Unset ''opus_dtx'' 2 ''no'' [],
      Unset ''opus_mirror'' 2 ''no'' [], Unset ''opus_complexity'' 1 ''10'' [],
      Unset ''opus_application'' 1 ''audio'' (tb 1 @ ''# {voip,audio}''),
      Unset ''opus_samplerate'' 1 ''48000'' [],
      Unset ''opus_packet_loss'' 1 ''10'' (tb 1 @ ''# 0-100 percent''), Other [],
      Other ''# Opus Multistream codec parameters'',
      Unset ''opus_ms_channels'' 1 ''2'' (tb 1 @ ''#total channels (2 or 4)''),
      Unset ''opus_ms_streams'' 2 ''2'' (tb 1 @ ''#number of streams''),
      Unset ''opus_ms_c_streams'' 1 ''2'' (tb 1 @ ''#number of coupled streams''), Other [],
      Entry ''vumeter_stderr'' 2 ''yes'' [], Other [], Unset ''jack_connect_ports'' 1 ''yes'' [], Other [],
      Other ''# Selfview'', Entry ''video_selfview'' 2 ''window'' '' # {window,pip}'',
      Unset ''selfview_size'' 2 ''64x64'' [], Other [], Other ''# ZRTP'',
      Unset ''zrtp_hash'' 2 ''no'' ''  # Disable SDP zrtp-hash (not recommended)'', Other [],
      Other ''# Menu'', Unset ''menu_bell'' 2 ''yes'' [],
      Unset ''redial_attempts'' 1 ''0'' '' # Num or <inf>'',
      Unset ''redial_delay'' 2 ''5'' '' # Delay in seconds'', Unset ''ringback_disabled'' 1 ''no'' [],
      Unset ''statmode_default'' 1 ''off'' [], Unset ''menu_clean_number'' 1 ''no'' [],
      Unset ''ring_aufile'' 2 ''ring.wav'' [], Unset ''callwaiting_aufile'' 1 ''callwaiting.wav'' [],
      Unset ''ringback_aufile'' 1 ''ringback.wav'' [], Unset ''notfound_aufile'' 1 ''notfound.wav'' [],
      Unset ''busy_aufile'' 2 ''busy.wav'' [], Unset ''error_aufile'' 2 ''error.wav'' [], Other [],
      Other ''# avcodec'', Unset ''avcodec_h264enc'' 1 ''libx264'' [],
      Unset ''avcodec_h264dec'' 1 ''h264'' [], Unset ''avcodec_h265enc'' 1 ''libx265'' [],
      Unset ''avcodec_h265dec'' 1 ''hevc'' [], Unset ''avcodec_hwaccel'' 1 default_avcodec_hwaccel [],
      Other [], Other ''# mqtt'', Unset ''mqtt_broker_host'' 1 ''127.0.0.1'' [],
      Unset ''mqtt_broker_port'' 1 ''1883'' [],
      Unset ''mqtt_broker_cafile'' 1 ''/path/to/broker-ca.crt'' [],
      Unset ''mqtt_broker_clientid'' 1 ''baresip01'' [], Unset ''mqtt_broker_user'' 1 ''user'' [],
      Unset ''mqtt_broker_password'' 1 ''pass'' [], Unset ''mqtt_basetopic'' 2 ''baresip/01'' [], Other [],
      Other ''# sndfile'', Unset ''snd_path'' 2 ''/tmp'' [], Other [], Other ''# EBU ACIP'',
      Unset ''ebuacip_jb_type'' 1 ''fixed'' (tb 1 @ ''# auto,fixed''), Other [],
      Other ''# HTTP request module'', Other (''# httpreq_ca'' @ tb 2 @ ''trusted1.pem''),
      Other (''# httpreq_ca'' @ tb 2 @ ''trusted2.pem''), Other (''# httpreq_dns'' @ tb 2 @ ''1.1.1.1''),
      Other (''# httpreq_dns'' @ tb 2 @ ''8.8.8.8''), Other (''# httpreq_hostname'' @ tb 1 @ ''myserver''),
      Other (''# httpreq_cert'' @ tb 2 @ ''cert.pem''), Other (''# httpreq_key'' @ tb 2 @ ''key.pem'')]"

definition core_config_template :: "conf_env \<Rightarrow> string \<Rightarrow> string \<Rightarrow> config \<Rightarrow> line list" where
  "core_config_template K pollm iface cfg = template_core K pollm cfg @ template_video K cfg @ template_avt K iface cfg"

text \<open>The modules of a directory are the files whose name has the extension and something before it.\<close>

definition count_modules :: "string list option \<Rightarrow> u32" where
  "count_modules dir =
     (case dir of None \<Rightarrow> 0
      | Some names \<Rightarrow> of_nat (length (filter (\<lambda>n. length n > 3 \<and> drop (length n - 3) n = ''.so'') names)))"

definition detect_module_path :: "string list option \<Rightarrow> bool" where
  "detect_module_path dir = (count_modules dir > 0)"

definition config_template :: "conf_env \<Rightarrow> string \<Rightarrow> string \<Rightarrow> bool \<Rightarrow> string \<Rightarrow> config \<Rightarrow> line list" where
  "config_template K pollm iface valid modpath cfg =
     template_banner @ core_config_template K pollm iface cfg @ template_modhead @
     [if valid then Entry ''module_path'' 2 modpath [] else Unset ''module_path'' 2 modpath []] @
     template_codecs @ template_modules @ template_params"

subsection \<open>Files\<close>

record fs_ops =
  fo_home :: "err + string"
  fo_open :: "string \<Rightarrow> err"
  fo_pollbest :: string
  fo_iface :: "string option"
  fo_dir :: "string \<Rightarrow> string list option"
  fo_modpath :: string
  fo_rd :: "string \<Rightarrow> conf \<times> (string \<Rightarrow> string list)"

record conf_state =
  fs_files :: "string \<Rightarrow> string option"
  fs_conf_path :: "string option"
  fs_conf :: "(conf \<times> (string \<Rightarrow> string list)) option"

definition FS_PATH_MAX :: nat where "FS_PATH_MAX = 4096"

definition conf_fileexist :: "conf_state \<Rightarrow> string option \<Rightarrow> bool" where
  "conf_fileexist st path = (case path of None \<Rightarrow> False | Some p \<Rightarrow> fs_files st p \<noteq> None)"

definition conf_path_set :: "string option \<Rightarrow> conf_state \<Rightarrow> conf_state" where
  "conf_path_set path st = st\<lparr>fs_conf_path := path\<rparr>"

definition conf_path_get :: "fs_ops \<Rightarrow> nat \<Rightarrow> conf_state \<Rightarrow> err + string" where
  "conf_path_get F sz st =
     (case fs_conf_path st of
        Some p \<Rightarrow> if length p < sz then Inr p else Inl ENOMEM
      | None \<Rightarrow>
          (case fo_home F of
             Inl err \<Rightarrow> Inl err
           | Inr home \<Rightarrow> if length (home @ ''/.baresip'') < sz then Inr (home @ ''/.baresip'') else Inl ENOMEM))"

definition config_write_template :: "conf_env \<Rightarrow> fs_ops \<Rightarrow> string option \<Rightarrow> config option \<Rightarrow> conf_state \<Rightarrow> err \<times> conf_state" where
  "config_write_template K F file cfg st =
     (case (file, cfg) of
        (Some file, Some cfg) \<Rightarrow>
          if fo_open F file \<noteq> 0 then (fo_open F file, st)
          else
            let modpath = fo_modpath F;
                lines = config_template K (fo_pollbest F) (default_interface_print (fo_iface F))
                          (detect_module_path (fo_dir F modpath)) modpath cfg
            in (0, st\<lparr>fs_files := (fs_files st)(file \<mapsto> concat (map line_text lines))\<rparr>)
      | _ \<Rightarrow> (EINVAL, st))"

definition conf_alloc :: "fs_ops \<Rightarrow> string \<Rightarrow> conf_state \<Rightarrow> err \<times> conf_state" where
  "conf_alloc F file st =
     (case fs_files st file of
        None \<Rightarrow> (ENOENT, st\<lparr>fs_conf := None\<rparr>)
      | Some text \<Rightarrow> (0, st\<lparr>fs_conf := Some (fo_rd F text)\<rparr>))"

definition conf_configure :: "conf_env \<Rightarrow> fs_ops \<Rightarrow> config \<Rightarrow> conf_state \<Rightarrow> err \<times> config \<times> conf_state" where
  "conf_configure K F cfg st =
     (case conf_path_get F FS_PATH_MAX st of
        Inl err \<Rightarrow> (err, cfg, st)
      | Inr path \<Rightarrow>
          let file = path @ ''/config''
          in if \<not> length file < FS_PATH_MAX then (ENOMEM, cfg, st)
             else
               let (err, st) = (if conf_fileexist st (Some file) then (0, st)
                                else config_write_template K F (Some file) (Some cfg) st)
               in if err \<noteq> 0 then (err, cfg, st)
                  else
                    let (err, st) = conf_alloc F file st
                    in if err \<noteq> 0 then (err, cfg, st)
                       else let (err, cfg') = config_parse_conf K (Some cfg) (fs_conf st)
                            in (err, (case cfg' of None \<Rightarrow> cfg | Some c \<Rightarrow> c), st))"

definition conf_configure_buf :: "fs_ops \<Rightarrow> string option \<Rightarrow> conf_state \<Rightarrow> err \<times> conf_state" where
  "conf_configure_buf F buf st =
     (case buf of
        None \<Rightarrow> (EINVAL, st)
      | Some b \<Rightarrow> if b = [] then (EINVAL, st) else (0, st\<lparr>fs_conf := Some (fo_rd F b)\<rparr>))"

definition conf_close :: "conf_state \<Rightarrow> conf_state" where
  "conf_close st = st\<lparr>fs_conf := None\<rparr>"

subsection \<open>Modules\<close>

text \<open>
  A loaded module has its number, its file name, its name and its type; the list is in the order of loading.
  \<open>mo_load\<close> loads a file; \<open>mo_match\<close> is how libre finds a module by a name.
\<close>

record mod_ops =
  mo_load :: "string \<Rightarrow> err + (string \<times> string)"
  mo_match :: "string \<Rightarrow> string \<Rightarrow> bool"

record mod_state =
  ml_list :: "(nat \<times> string \<times> string \<times> string) list"
  ml_next :: nat
  ml_default_path :: string

definition append_extension :: "libre \<Rightarrow> nat \<Rightarrow> string \<Rightarrow> string" where
  "append_extension L sz name =
     (if l_regex L name ''[^.]+.so'' \<noteq> None then take (sz - 1) name
      else str_of (l_snprintf L sz (Some ''%s.so'') [FStr name]))"

definition load_module :: "mod_ops \<Rightarrow> string \<Rightarrow> string option \<Rightarrow> mod_state \<Rightarrow> err \<times> nat option \<times> mod_state" where
  "load_module D modpath name st =
     (case name of
        None \<Rightarrow> (EINVAL, None, st)
      | Some name \<Rightarrow>
          let file = modpath @ ''/'' @ name
          in if \<not> length file < FS_PATH_MAX then (ENOMEM, None, st)
             else case mo_load D file of
               Inl err \<Rightarrow> (err, None, st)
             | Inr (mname, mtype) \<Rightarrow>
                 let i = ml_next st
                 in (0, Some i, st\<lparr>ml_list := ml_list st @ [(i, name, mname, mtype)], ml_next := i + 1\<rparr>))"

definition mod_unload :: "nat option \<Rightarrow> mod_state \<Rightarrow> mod_state" where
  "mod_unload m st = (case m of None \<Rightarrow> st | Some i \<Rightarrow> st\<lparr>ml_list := filter (\<lambda>(j, _). j \<noteq> i) (ml_list st)\<rparr>)"

definition module_handler :: "mod_ops \<Rightarrow> string \<Rightarrow> string \<Rightarrow> mod_state \<Rightarrow> mod_state" where
  "module_handler D path v st = snd (snd (load_module D path (Some v) st))"

definition module_tmp_handler :: "mod_ops \<Rightarrow> string \<Rightarrow> string \<Rightarrow> mod_state \<Rightarrow> mod_state" where
  "module_tmp_handler D path v st = (let (_, m, st) = load_module D path (Some v) st in mod_unload m st)"

definition module_app_handler :: "mod_ops \<Rightarrow> string \<Rightarrow> string \<Rightarrow> mod_state \<Rightarrow> mod_state" where
  "module_app_handler D path v st = snd (snd (load_module D path (Some v) st))"

definition module_load_fromconf :: "mod_ops \<Rightarrow> (conf \<times> (string \<Rightarrow> string list)) option \<Rightarrow> mod_state \<Rightarrow> err \<times> mod_state" where
  "module_load_fromconf D conf st =
     (case conf of
        None \<Rightarrow> (EINVAL, st)
      | Some (conf, all) \<Rightarrow>
          let path = (case conf ''module_path'' of None \<Rightarrow> ml_default_path st | Some p \<Rightarrow> p);
              st = fold (module_handler D path) (all ''module'') st;
              st = fold (module_tmp_handler D path) (all ''module_tmp'') st
          in (0, fold (module_app_handler D path) (all ''module_app'') st))"

definition conf_modules :: "mod_ops \<Rightarrow> conf_state \<Rightarrow> mod_state \<Rightarrow> err \<times> mod_state" where
  "conf_modules D cst st = module_load_fromconf D (fs_conf cst) st"

definition module_set_path :: "string \<Rightarrow> mod_state \<Rightarrow> mod_state" where
  "module_set_path path st = st\<lparr>ml_default_path := path\<rparr>"

definition module_app_unload :: "libre \<Rightarrow> mod_state \<Rightarrow> mod_state" where
  "module_app_unload L st =
     fold (\<lambda>(i, _, _, mtype) st. if l_casecmp L (Some mtype) (Some ''application'') = 0 then mod_unload (Some i) st else st)
       (rev (ml_list st)) st"

definition module_preload :: "mod_ops \<Rightarrow> string option \<Rightarrow> mod_state \<Rightarrow> err \<times> mod_state" where
  "module_preload D m st =
     (case m of None \<Rightarrow> (EINVAL, st)
      | Some m \<Rightarrow> let (err, _, st) = load_module D (ml_default_path st) (Some m) st in (err, st))"

definition module_load :: "libre \<Rightarrow> mod_ops \<Rightarrow> string \<Rightarrow> string option \<Rightarrow> mod_state \<Rightarrow> err \<times> mod_state" where
  "module_load L D path name st =
     (if \<not> str_isset name then (EINVAL, st)
      else let (err, _, st) = load_module D path (Some (append_extension L 256 (str_of name))) st in (err, st))"

definition module_unload :: "libre \<Rightarrow> mod_ops \<Rightarrow> string option \<Rightarrow> mod_state \<Rightarrow> mod_state" where
  "module_unload L D name st =
     (if \<not> str_isset name then st
      else case List.find (\<lambda>(_, _, mname, _). mo_match D (append_extension L 256 (str_of name)) mname) (ml_list st) of
             None \<Rightarrow> st
           | Some (i, _) \<Rightarrow> mod_unload (Some i) st)"


subsection \<open>The first start\<close>

lemma entry_value_append:
  "entry_value k (a @ b) = (case entry_value k a of None \<Rightarrow> entry_value k b | Some v \<Rightarrow> Some v)"
  by (induction k a rule: entry_value.induct) auto

lemma entry_values_append: "entry_values k (a @ b) = entry_values k a @ entry_values k b"
  by (induction k a rule: entry_values.induct) auto

lemma entry_keys_append: "entry_keys (a @ b) = entry_keys a @ entry_keys b"
  by (induction a rule: entry_keys.induct) auto

lemma Unset_simps [simp]:
  "entry_value k (Unset k' n v c # ls) = entry_value k ls" "entry_values k (Unset k' n v c # ls) = entry_values k ls"
  "entry_keys (Unset k' n v c # ls) = entry_keys ls"
  "line_ok (Unset k' n v c) = (CHR 10 \<notin> set k' \<and> CHR 10 \<notin> set v \<and> CHR 10 \<notin> set c)"
  by (auto simp: Unset_def tb_def)

definition template_rest :: "bool \<Rightarrow> string \<Rightarrow> line list" where
  "template_rest valid modpath =
     template_modhead @ [if valid then Entry ''module_path'' 2 modpath [] else Unset ''module_path'' 2 modpath []] @
     template_codecs @ template_modules @ template_params"

definition rest_key_list :: "string list" where
  "rest_key_list = [''module_path'', ''module'', ''module_tmp'', ''module_app'', ''cons_listen'', ''http_listen'', ''ctrl_tcp_listen'',
      ''evdev_device'', ''opus_bitrate'', ''vumeter_stderr'', ''video_selfview'']"

lemma rest_keys: "set (entry_keys (template_rest valid modpath)) \<subseteq> set rest_key_list"
proof -
  have "list_all (\<lambda>k. k \<in> set rest_key_list)
      (entry_keys (template_codecs @ template_modules @ template_params))" by code_simp
  moreover have "''module_path'' \<in> set rest_key_list" by (simp add: rest_key_list_def)
  ultimately show ?thesis
    by (auto simp: template_rest_def entry_keys_append template_modhead_def list_all_iff)
qed

lemma rest_parts:
  "entry_values ''module'' (template_codecs @ template_modules @ template_params) =
     [''stdio.so'', ''g711.so'', ''alsa.so'', ''stun.so'', ''turn.so'', ''ice.so'']"
  "entry_values ''module_tmp'' (template_codecs @ template_modules @ template_params) = [''uuid.so'', ''account.so'']"
  "entry_values ''module_app'' (template_codecs @ template_modules @ template_params) =
     [''auloop.so'', ''contact.so'', ''debug_cmd.so'', ''menu.so'', ''vidloop.so'']"
  by code_simp+

lemma rest_modules:
  "k \<noteq> ''module_path'' \<Longrightarrow>
     entry_values k (template_rest valid modpath) = entry_values k (template_codecs @ template_modules @ template_params)"
  by (simp add: template_rest_def entry_values_append template_modhead_def)

lemma word_no_newline: "word_ok v \<Longrightarrow> CHR 10 \<notin> set v"
  by (auto simp: word_ok_def)

lemma template_ok:
  assumes "conf_env_laws K" "word_ok pollm" "word_ok iface" "word_ok modpath"
  shows "list_all line_ok (config_template K pollm iface valid modpath cfg)"
proof -
  have d: "word_ok (ke_dec K n)" "word_ok (ke_2f K x)" "word_ok (ke_vidfmt_name K i)" for n x i
    using assms(1) unfolding conf_env_laws_def by blast+
  note n = d[THEN word_no_newline] d[THEN word_ok_ne] assms(2-4)[THEN word_no_newline] assms(2-4)[THEN word_ok_ne]
  have "list_all line_ok (template_core K pollm cfg)"
    by (simp add: template_core_def d n assms range_print_def tb_def default_cafile_def default_audio_device_def)
  moreover have "list_all line_ok (template_video K cfg)"
    by (simp add: template_video_def d n default_video_device_def default_video_display_def)
  moreover have "list_all line_ok (template_avt K iface cfg)"
    by (simp add: template_avt_def d n tb_def)
  moreover have "list_all line_ok (template_codecs @ template_modules)"
    by (simp add: template_codecs_def template_modules_def)
  moreover have "list_all line_ok template_params"
    by (simp add: template_params_def default_avcodec_hwaccel_def tb_def)
  ultimately show ?thesis
    using assms(4) n by (simp add: config_template_def core_config_template_def template_banner_def template_modhead_def)
qed

text \<open>Which core settings the template has, and their values.\<close>

lemma core_keys:
  "entry_keys (core_config_template K pollm iface cfg) =
     [''poll_method'', ''call_local_timeout'', ''call_max_calls'', ''audio_player'', ''audio_source'', ''audio_alert'',
      ''audio_level'', ''ausrc_format'', ''auplay_format'', ''auenc_format'', ''audec_format'', ''audio_buffer'',
      ''video_size'', ''video_bitrate'', ''video_fps'', ''video_fullscreen'', ''videnc_format'', ''rtp_tos'', ''rtcp_mux'',
      ''jitter_buffer_type'', ''jitter_buffer_delay'', ''rtp_stats'']"
  by (simp add: core_config_template_def entry_keys_append template_core_def template_video_def template_avt_def)

lemma template_split:
  "config_template K pollm iface valid modpath cfg =
     template_banner @ core_config_template K pollm iface cfg @ template_rest valid modpath"
  by (simp add: config_template_def template_rest_def)

lemma banner_none: "entry_value k (template_banner @ ls) = entry_value k ls" "entry_values k (template_banner @ ls) = entry_values k ls"
  by (simp_all add: template_banner_def)

lemma template_none:
  "k \<notin> set (entry_keys (core_config_template K pollm iface cfg)) \<Longrightarrow>
   k \<notin> set rest_key_list \<Longrightarrow>
   entry_value k (config_template K pollm iface valid modpath cfg) = None"
  unfolding template_split banner_none using rest_keys[of valid modpath]
  by (intro entry_value_none) (simp only: entry_keys_append set_append Un_iff, blast)

lemma core_values:
  assumes "conf_env_laws K" "word_ok pollm"
  shows "entry_value ''poll_method'' (template_core K pollm cfg) = Some pollm"
    "entry_value ''call_local_timeout'' (template_core K pollm cfg) = Some (ke_dec K (kc_local_timeout (kf_call cfg)))"
    "entry_value ''call_max_calls'' (template_core K pollm cfg) = Some (ke_dec K (kc_max_calls (kf_call cfg)))"
    "entry_value ''audio_player'' (template_core K pollm cfg) = Some default_audio_device"
    "entry_value ''audio_source'' (template_core K pollm cfg) = Some default_audio_device"
    "entry_value ''audio_alert'' (template_core K pollm cfg) = Some default_audio_device"
    "entry_value ''audio_level'' (template_core K pollm cfg) = Some ''no''"
    "entry_value ''ausrc_format'' (template_core K pollm cfg) = Some ''s16''"
    "entry_value ''auplay_format'' (template_core K pollm cfg) = Some ''s16''"
    "entry_value ''auenc_format'' (template_core K pollm cfg) = Some ''s16''"
    "entry_value ''audec_format'' (template_core K pollm cfg) = Some ''s16''"
    "entry_value ''audio_buffer'' (template_core K pollm cfg) = Some (range_print K (ka_buffer (kf_audio cfg)))"
proof -
  have d: "ke_dec K n \<noteq> []" "ke_2f K x \<noteq> []" "ke_vidfmt_name K i \<noteq> []" "pollm \<noteq> []" for n x i
    using assms unfolding conf_env_laws_def by (metis word_ok_simps(3))+
  have r: "range_print K r \<noteq> []" for r by (simp add: range_print_def)
  show "entry_value ''poll_method'' (template_core K pollm cfg) = Some pollm"
    "entry_value ''call_local_timeout'' (template_core K pollm cfg) = Some (ke_dec K (kc_local_timeout (kf_call cfg)))"
    "entry_value ''call_max_calls'' (template_core K pollm cfg) = Some (ke_dec K (kc_max_calls (kf_call cfg)))"
    "entry_value ''audio_player'' (template_core K pollm cfg) = Some default_audio_device"
    by (simp_all add: template_core_def d r default_audio_device_def)
  show "entry_value ''audio_source'' (template_core K pollm cfg) = Some default_audio_device"
    "entry_value ''audio_alert'' (template_core K pollm cfg) = Some default_audio_device"
    "entry_value ''audio_level'' (template_core K pollm cfg) = Some ''no''"
    "entry_value ''ausrc_format'' (template_core K pollm cfg) = Some ''s16''"
    by (simp_all add: template_core_def d r default_audio_device_def)
  show "entry_value ''auplay_format'' (template_core K pollm cfg) = Some ''s16''"
    "entry_value ''auenc_format'' (template_core K pollm cfg) = Some ''s16''"
    "entry_value ''audec_format'' (template_core K pollm cfg) = Some ''s16''"
    "entry_value ''audio_buffer'' (template_core K pollm cfg) = Some (range_print K (ka_buffer (kf_audio cfg)))"
    by (simp_all add: template_core_def d r default_audio_device_def)
qed

lemma video_values:
  assumes "conf_env_laws K" "word_ok pollm"
  shows "entry_value ''video_size'' (template_video K cfg) =
       Some (ke_dec K (kv_width (kf_video cfg)) @ ''x'' @ ke_dec K (kv_height (kf_video cfg)))"
    "entry_value ''video_bitrate'' (template_video K cfg) = Some (ke_dec K (kv_bitrate (kf_video cfg)))"
    "entry_value ''video_fps'' (template_video K cfg) = Some (ke_2f K (kv_fps (kf_video cfg)))"
    "entry_value ''video_fullscreen'' (template_video K cfg) = Some ''no''"
    "entry_value ''videnc_format'' (template_video K cfg) = Some (ke_vidfmt_name K (kv_enc_fmt (kf_video cfg)))"
proof -
  have d: "ke_dec K n \<noteq> []" "ke_2f K x \<noteq> []" "ke_vidfmt_name K i \<noteq> []" "pollm \<noteq> []" for n x i
    using assms unfolding conf_env_laws_def by (metis word_ok_simps(3))+
  have r: "range_print K r \<noteq> []" for r by (simp add: range_print_def)
  show "entry_value ''video_size'' (template_video K cfg) =
       Some (ke_dec K (kv_width (kf_video cfg)) @ ''x'' @ ke_dec K (kv_height (kf_video cfg)))"
    "entry_value ''video_bitrate'' (template_video K cfg) = Some (ke_dec K (kv_bitrate (kf_video cfg)))"
    "entry_value ''video_fps'' (template_video K cfg) = Some (ke_2f K (kv_fps (kf_video cfg)))"
    "entry_value ''video_fullscreen'' (template_video K cfg) = Some ''no''"
    by (simp_all add: template_video_def d r default_audio_device_def)
  show "entry_value ''videnc_format'' (template_video K cfg) = Some (ke_vidfmt_name K (kv_enc_fmt (kf_video cfg)))"
    by (simp_all add: template_video_def d r default_audio_device_def)
qed

lemma avt_values:
  assumes "conf_env_laws K" "word_ok pollm"
  shows "entry_value ''rtp_tos'' (template_avt K iface cfg) = Some ''184''"
    "entry_value ''rtcp_mux'' (template_avt K iface cfg) = Some ''no''"
    "entry_value ''jitter_buffer_type'' (template_avt K iface cfg) = Some ''fixed''"
    "entry_value ''jitter_buffer_delay'' (template_avt K iface cfg) = Some (range_print K (kt_jbuf_del (kf_avt cfg)))"
    "entry_value ''rtp_stats'' (template_avt K iface cfg) = Some ''no''"
proof -
  have d: "ke_dec K n \<noteq> []" "ke_2f K x \<noteq> []" "ke_vidfmt_name K i \<noteq> []" "pollm \<noteq> []" for n x i
    using assms unfolding conf_env_laws_def by (metis word_ok_simps(3))+
  have r: "range_print K r \<noteq> []" for r by (simp add: range_print_def)
  show "entry_value ''rtp_tos'' (template_avt K iface cfg) = Some ''184''"
    "entry_value ''rtcp_mux'' (template_avt K iface cfg) = Some ''no''"
    "entry_value ''jitter_buffer_type'' (template_avt K iface cfg) = Some ''fixed''"
    "entry_value ''jitter_buffer_delay'' (template_avt K iface cfg) = Some (range_print K (kt_jbuf_del (kf_avt cfg)))"
    by (simp_all add: template_avt_def d r range_print_def)
  show "entry_value ''rtp_stats'' (template_avt K iface cfg) = Some ''no''"
    by (simp_all add: template_avt_def d r range_print_def)
qed

lemma core_none: "k \<notin> {''poll_method'', ''call_local_timeout'', ''call_max_calls'', ''audio_player'', ''audio_source'', ''audio_alert'', ''audio_level'', ''ausrc_format'', ''auplay_format'', ''auenc_format'', ''audec_format'', ''audio_buffer''} \<Longrightarrow> entry_value k (template_core K pollm cfg) = None"
  by (intro entry_value_none) (simp add: template_core_def)

lemma video_none: "k \<notin> {''video_size'', ''video_bitrate'', ''video_fps'', ''video_fullscreen'', ''videnc_format''} \<Longrightarrow> entry_value k (template_video K cfg) = None"
  by (intro entry_value_none) (simp add: template_video_def)

lemma template_values:
  assumes "conf_env_laws K" "word_ok pollm"
  shows "entry_value ''poll_method'' (core_config_template K pollm iface cfg) = Some pollm"
    "entry_value ''call_local_timeout'' (core_config_template K pollm iface cfg) = Some (ke_dec K (kc_local_timeout (kf_call cfg)))"
    "entry_value ''call_max_calls'' (core_config_template K pollm iface cfg) = Some (ke_dec K (kc_max_calls (kf_call cfg)))"
    "entry_value ''audio_player'' (core_config_template K pollm iface cfg) = Some default_audio_device"
    "entry_value ''audio_source'' (core_config_template K pollm iface cfg) = Some default_audio_device"
    "entry_value ''audio_alert'' (core_config_template K pollm iface cfg) = Some default_audio_device"
    "entry_value ''audio_level'' (core_config_template K pollm iface cfg) = Some ''no''"
    "entry_value ''ausrc_format'' (core_config_template K pollm iface cfg) = Some ''s16''"
    "entry_value ''auplay_format'' (core_config_template K pollm iface cfg) = Some ''s16''"
    "entry_value ''auenc_format'' (core_config_template K pollm iface cfg) = Some ''s16''"
    "entry_value ''audec_format'' (core_config_template K pollm iface cfg) = Some ''s16''"
    "entry_value ''audio_buffer'' (core_config_template K pollm iface cfg) = Some (range_print K (ka_buffer (kf_audio cfg)))"
    "entry_value ''video_size'' (core_config_template K pollm iface cfg) =
       Some (ke_dec K (kv_width (kf_video cfg)) @ ''x'' @ ke_dec K (kv_height (kf_video cfg)))"
    "entry_value ''video_bitrate'' (core_config_template K pollm iface cfg) = Some (ke_dec K (kv_bitrate (kf_video cfg)))"
    "entry_value ''video_fps'' (core_config_template K pollm iface cfg) = Some (ke_2f K (kv_fps (kf_video cfg)))"
    "entry_value ''video_fullscreen'' (core_config_template K pollm iface cfg) = Some ''no''"
    "entry_value ''videnc_format'' (core_config_template K pollm iface cfg) = Some (ke_vidfmt_name K (kv_enc_fmt (kf_video cfg)))"
    "entry_value ''rtp_tos'' (core_config_template K pollm iface cfg) = Some ''184''"
    "entry_value ''rtcp_mux'' (core_config_template K pollm iface cfg) = Some ''no''"
    "entry_value ''jitter_buffer_type'' (core_config_template K pollm iface cfg) = Some ''fixed''"
    "entry_value ''jitter_buffer_delay'' (core_config_template K pollm iface cfg) = Some (range_print K (kt_jbuf_del (kf_avt cfg)))"
    "entry_value ''rtp_stats'' (core_config_template K pollm iface cfg) = Some ''no''"
  by (simp_all add: core_config_template_def entry_value_append core_values[OF assms] video_values[OF assms] avt_values[OF assms]
      core_none video_none)

lemma template_get:
  "entry_value k (core_config_template K pollm iface cfg) = Some v \<Longrightarrow>
   entry_value k (config_template K pollm iface valid modpath cfg) = Some v"
  unfolding template_split banner_none by (simp add: entry_value_append)

text \<open>The configuration of a first start: the defaults, with the devices of the template and no full screen.\<close>

definition first_config :: "conf_env \<Rightarrow> string \<Rightarrow> config" where
  "first_config K share =
     (let c = core_config K share
      in c\<lparr>kf_audio := (kf_audio c)\<lparr>ka_src_mod := ''alsa'', ka_src_dev := ''default'', ka_play_mod := ''alsa'',
             ka_play_dev := ''default'', ka_alert_mod := ''alsa'', ka_alert_dev := ''default''\<rparr>,
           kf_video := (kf_video c)\<lparr>kv_fullscreen := False\<rparr>\<rparr>)"

definition start_laws :: "conf_env \<Rightarrow> fs_ops \<Rightarrow> bool" where
  "start_laws K F =
     (conf_env_laws K \<and> conf_file_laws (fo_rd F) \<and> ke_dec K 184 = ''184'' \<and> ke_s16le K \<noteq> -1 \<and> 0 < ke_vid_fmt_n K \<and>
      word_ok (fo_pollbest F) \<and> ke_poll K (fo_pollbest F) = Some 0 \<and> word_ok (default_interface_print (fo_iface F)) \<and>
      word_ok (fo_modpath F))"

text \<open>A configuration file that is the template of the defaults.\<close>

locale first_start =
  fixes K :: conf_env and F :: fs_ops and share modpath :: string and valid :: bool and conf :: conf
  assumes laws: "start_laws K F"
    and conf: "conf = (\<lambda>k. entry_value k (config_template K (fo_pollbest F) (default_interface_print (fo_iface F))
                        valid modpath (core_config K share)))"
begin

lemma first_laws: "conf_env_laws K" "ke_dec K 184 = ''184''" "ke_s16le K \<noteq> -1" "0 < ke_vid_fmt_n K" "word_ok (fo_pollbest F)"
  "ke_poll K (fo_pollbest F) = Some 0"
  using laws by (simp_all add: start_laws_def)

lemmas first_values = template_values[OF first_laws(1,5), THEN template_get]

lemma first_none: "k \<notin> set (entry_keys (core_config_template K (fo_pollbest F) (default_interface_print (fo_iface F)) (core_config K share))) \<Longrightarrow>
   k \<notin> set rest_key_list \<Longrightarrow> conf k = None"
  unfolding conf by (rule template_none)

lemma first_unset:
  "conf ''sip_listen'' = None" "conf ''sip_certificate'' = None" "conf ''sip_cafile'' = None" "conf ''audio_path'' = None"
  "conf ''ausrc_srate'' = None" "conf ''auplay_srate'' = None" "conf ''ausrc_channels'' = None" "conf ''auplay_channels'' = None"
  "conf ''audio_txmode'' = None" "conf ''video_source'' = None" "conf ''video_display'' = None" "conf ''rtp_ports'' = None"
  "conf ''rtp_bandwidth'' = None" "conf ''jitter_buffer_wish'' = None" "conf ''rtp_timeout'' = None" "conf ''net_interface'' = None"
  by (rule first_none; simp add: core_keys rest_key_list_def)+

lemma first_words: "l_casecmp (ke_libre K) (Some ''s16'') (Some ''s16'') = 0"
  "l_casecmp (ke_libre K) (Some ''fixed'') (Some ''off'') \<noteq> 0" "l_casecmp (ke_libre K) (Some ''fixed'') (Some ''fixed'') = 0"
  "\<not> ke_true K ''no''" "l_u32 (ke_libre K) ''184'' = 184" "l_u32 (ke_libre K) (ke_dec K n) = n"
  "l_regex (ke_libre K) ''alsa,default'' ''[^,]+,[~]*'' = Some [''alsa'', ''default'']"
proof -
  have c: "l_casecmp (ke_libre K) a b = 0 \<longleftrightarrow> map_option fold_case a = map_option fold_case b" for a b
    using first_laws(1) by (simp add: conf_env_laws_def casecmp_laws_def)
  show "l_casecmp (ke_libre K) (Some ''s16'') (Some ''s16'') = 0" "l_casecmp (ke_libre K) (Some ''fixed'') (Some ''off'') \<noteq> 0"
    "l_casecmp (ke_libre K) (Some ''fixed'') (Some ''fixed'') = 0"
    by (simp_all add: c fold_case_def)
  show u: "l_u32 (ke_libre K) (ke_dec K n) = n" for n using first_laws(1) by (simp add: conf_env_laws_def)
  show "\<not> ke_true K ''no''" using first_laws(1) by (simp add: conf_env_laws_def)
  show "l_u32 (ke_libre K) ''184'' = 184" using u[of 184] first_laws(2) by simp
  have "\<forall>a b. a \<noteq> [] \<and> CHR '','' \<notin> set a \<and> word_ok b \<longrightarrow> l_regex (ke_libre K) (a @ '','' @ b) ''[^,]+,[~]*'' = Some [a, b]"
    using first_laws(1) unfolding conf_env_laws_def by blast
  from this[rule_format, of "''alsa''" "''default''"]
  show "l_regex (ke_libre K) ''alsa,default'' ''[^,]+,[~]*'' = Some [''alsa'', ''default'']" by simp
qed

lemma first_audio:
  "parse_audio_fmts K conf (parse_audio_devs K conf (kf_audio (core_config K share))) = kf_audio (first_config K share)"
proof -
  have c: "conf_get_csv K conf k 16 128 o1 = (0, ''alsa'', ''default'')"
    if "k \<in> {''audio_player'', ''audio_source'', ''audio_alert''}" for k o1
    using that first_values(4-6) first_words(7) by (auto simp: conf_get_csv_def conf default_audio_device_def)
  have f: "conf_get_aufmt K conf k o1 = (0, ke_s16le K)"
    if "k \<in> {''ausrc_format'', ''auplay_format'', ''auenc_format'', ''audec_format''}" for k o1
    using that first_values(8-11) first_words(1) first_laws(3)
    by (auto simp: conf_get_aufmt_def conf resolve_aufmt_def Let_def)
  have b: "conf_get_bool K conf ''audio_level'' o1 = (0, False)" for o1
    using first_values(7) first_words(4) by (simp add: conf_get_bool_def conf)
  have r: "conf_get_range K conf ''audio_buffer'' o1 = (0, ka_buffer (kf_audio (core_config K share)))" for o1
    using range_read[OF first_laws(1), of conf "''audio_buffer''" "ka_buffer (kf_audio (core_config K share))" o1] first_values(12)
    by (simp add: conf range_extend core_config_def)
  show ?thesis
    by (simp add: parse_audio_devs_def parse_audio_fmts_def c f b r conf_get_str_def conf_get_u32_def parse_txmode_def
        first_unset first_config_def core_config_def Let_def)
qed

lemma first_video: "parse_video K conf (kf_video (core_config K share)) = kf_video (first_config K share)"
proof -
  let ?v = "kf_video (core_config K share)"
  have d: "ke_dec K n \<noteq> []" for n using first_laws(1) unfolding conf_env_laws_def by (metis word_ok_simps(3))
  have z: "conf_get_vidsz K conf ''video_size'' o1 = (0, 352, 288)" for o1
    using first_laws(1) first_values(13) by (simp add: conf_get_vidsz_def conf conf_env_laws_def Let_def d core_config_def)
  have f: "conf_get_float K conf ''video_fps'' o1 = (0, 25)" for o1
    using first_laws(1) first_values(15) by (simp add: conf_get_float_def conf conf_env_laws_def core_config_def)
  have u: "conf_get_u32 K conf ''video_bitrate'' o1 = (0, 500000)" for o1
    using first_words(6) first_values(14) by (simp add: conf_get_u32_def conf core_config_def)
  have b: "conf_get_bool K conf ''video_fullscreen'' o1 = (0, False)" for o1
    using first_values(16) first_words(4) by (simp add: conf_get_bool_def conf)
  have l: "l_casecmp (ke_libre K) (Some (ke_vidfmt_name K 0)) (Some (ke_vidfmt_name K 0)) = 0"
    using first_laws(1) by (simp add: conf_env_laws_def casecmp_laws_def)
  then have e: "conf_get_vidfmt K conf ''videnc_format'' o1 = (0, 0)" for o1
    using first_values(17) first_laws(4) by (simp add: conf_get_vidfmt_def conf core_config_def upt_conv_Cons)
  have n: "conf_get_csv K conf ''video_source'' 16 128 o1 = (ENOENT, o1)" "conf_get_csv K conf ''video_display'' 16 128 o1 = (ENOENT, o1)" for o1
    by (simp_all add: conf_get_csv_def first_unset)
  show ?thesis by (simp add: parse_video_def z f u b e n first_config_def core_config_def Let_def)
qed

lemma first_avt: "parse_avt K conf (kf_avt (core_config K share)) = kf_avt (first_config K share)"
proof -
  have u: "conf_get_u32 K conf ''rtp_tos'' o1 = (0, 184)" for o1
    using first_words(5) first_values(18) by (simp add: conf_get_u32_def conf)
  have b: "conf_get_bool K conf ''rtcp_mux'' o1 = (0, False)" "conf_get_bool K conf ''rtp_stats'' o1 = (0, False)" for o1
    using first_values(19,22) first_words(4) by (simp_all add: conf_get_bool_def conf)
  have r: "conf_get_range K conf ''jitter_buffer_delay'' o1 = (0, kt_jbuf_del (kf_avt (core_config K share)))" for o1
    using range_read[OF first_laws(1), of conf "''jitter_buffer_delay''" "kt_jbuf_del (kf_avt (core_config K share))" o1] first_values(21)
    by (simp add: conf range_extend core_config_def)
  have j: "conf ''jitter_buffer_type'' = Some ''fixed''" "resolve_jbuf_type K ''fixed'' = JBUF_FIXED"
    using first_values(20) first_words(2,3) by (simp_all add: conf resolve_jbuf_type_def Let_def)
  have n: "conf_get_range K conf ''rtp_ports'' o1 = (ENOENT, o1)" "conf_get_range K conf ''rtp_bandwidth'' o1 = (ENOENT, o1)"
    "conf_get_u32 K conf ''jitter_buffer_wish'' o2 = (ENOENT, o2)" "conf_get_u32 K conf ''rtp_timeout'' o2 = (ENOENT, o2)" for o1 o2
    by (simp_all add: conf_get_range_def conf_get_u32_def first_unset)
  show ?thesis by (simp add: parse_avt_def parse_bw_def u b r j n first_config_def core_config_def Let_def)
qed

lemma first_parse:
  assumes "all ''dns_server'' = []" "all ''dns_fallback'' = []"
  shows "config_parse_conf K (Some (core_config K share)) (Some (conf, all)) = (0, Some (first_config K share))"
proof -
  have p: "conf ''poll_method'' = Some (fo_pollbest F)" using first_values(1) by (simp add: conf)
  have u: "conf_get_u32 K conf ''call_local_timeout'' o1 = (0, 120)" "conf_get_u32 K conf ''call_max_calls'' o1 = (0, 4)" for o1
    using first_words(6) first_values(2,3) by (simp_all add: conf_get_u32_def conf core_config_def)
  have s: "parse_sip conf s = s" "parse_net conf all n = n" for s n
    using assms by (simp_all add: parse_sip_def parse_net_def conf_get_str_def first_unset)
  show ?thesis
    unfolding config_parse_conf_def
    by (simp add: p u s first_laws first_audio first_video first_avt parse_call_def Let_def)
      (simp add: first_config_def core_config_def Let_def)
qed

end

text \<open>The numbers of the modules are below the next one.\<close>

definition mods_ok :: "mod_state \<Rightarrow> bool" where
  "mods_ok st = (\<forall>(i, _)\<in>set (ml_list st). i < ml_next st)"

definition mod_files :: "mod_state \<Rightarrow> string list" where
  "mod_files st = map (\<lambda>(_, file, _). file) (ml_list st)"

definition loads :: "mod_ops \<Rightarrow> string \<Rightarrow> string list \<Rightarrow> bool" where
  "loads D path vs = (\<forall>v\<in>set vs. length (path @ ''/'' @ v) < FS_PATH_MAX \<and> (\<exists>x. mo_load D (path @ ''/'' @ v) = Inr x))"

lemma load_ok:
  assumes "loads D path [v]" "mods_ok st"
  obtains x where "load_module D path (Some v) st =
      (0, Some (ml_next st), st\<lparr>ml_list := ml_list st @ [(ml_next st, v, x)], ml_next := ml_next st + 1\<rparr>)"
    "mods_ok (st\<lparr>ml_list := ml_list st @ [(ml_next st, v, x)], ml_next := ml_next st + 1\<rparr>)"
  using assms by (fastforce simp: loads_def load_module_def mods_ok_def Let_def)

lemma load_all:
  assumes "loads D path vs" "mods_ok st"
  shows "mod_files (fold (module_handler D path) vs st) = mod_files st @ vs \<and> mods_ok (fold (module_handler D path) vs st)"
  using assms
proof (induction vs arbitrary: st)
  case (Cons v vs)
  have l: "loads D path [v]" "loads D path vs" using Cons.prems(1) by (simp_all add: loads_def)
  from load_ok[OF l(1) Cons.prems(2)] obtain x where x: "load_module D path (Some v) st =
      (0, Some (ml_next st), st\<lparr>ml_list := ml_list st @ [(ml_next st, v, x)], ml_next := ml_next st + 1\<rparr>)"
    "mods_ok (st\<lparr>ml_list := ml_list st @ [(ml_next st, v, x)], ml_next := ml_next st + 1\<rparr>)" by metis
  show ?case using Cons.IH[OF l(2) x(2)] by (simp add: module_handler_def x(1)) (simp add: mod_files_def)
qed simp

lemma app_handler: "module_app_handler = module_handler"
  by (intro ext) (simp add: module_app_handler_def module_handler_def)

lemma load_tmp:
  assumes "loads D path vs" "mods_ok st"
  shows "mod_files (fold (module_tmp_handler D path) vs st) = mod_files st \<and> mods_ok (fold (module_tmp_handler D path) vs st)"
  using assms
proof (induction vs arbitrary: st)
  case (Cons v vs)
  have l: "loads D path [v]" "loads D path vs" using Cons.prems(1) by (simp_all add: loads_def)
  from load_ok[OF l(1) Cons.prems(2)] obtain x where x: "load_module D path (Some v) st =
      (0, Some (ml_next st), st\<lparr>ml_list := ml_list st @ [(ml_next st, v, x)], ml_next := ml_next st + 1\<rparr>)" by metis
  have f: "filter (\<lambda>(j, _). j \<noteq> ml_next st) (ml_list st) = ml_list st"
    using Cons.prems(2) by (intro filter_True) (auto simp: mods_ok_def)
  have h: "module_tmp_handler D path v st = st\<lparr>ml_next := ml_next st + 1\<rparr>"
    by (simp add: module_tmp_handler_def x mod_unload_def f)
  have "mods_ok (st\<lparr>ml_next := ml_next st + 1\<rparr>)" using Cons.prems(2) by (fastforce simp: mods_ok_def)
  from Cons.IH[OF l(2) this] show ?case by (simp add: h) (simp add: mod_files_def)
qed simp

definition first_modules :: "string list" where
  "first_modules = [''stdio.so'', ''g711.so'', ''alsa.so'', ''stun.so'', ''turn.so'', ''ice.so'',
     ''auloop.so'', ''contact.so'', ''debug_cmd.so'', ''menu.so'', ''vidloop.so'']"

lemma file_read:
  assumes "conf_file_laws rd" "list_all line_ok (Other s # ls)"
  shows "fst (rd (concat (map line_text (Other s # ls)))) = (\<lambda>k. entry_value k (Other s # ls))"
    "snd (rd (concat (map line_text (Other s # ls)))) = (\<lambda>k. entry_values k (Other s # ls))"
  using assms unfolding conf_file_laws_def fun_eq_iff by (metis entry_value.simps entry_values.simps)+

abbreviation first_template :: "conf_env \<Rightarrow> fs_ops \<Rightarrow> bool \<Rightarrow> config \<Rightarrow> line list" where
  "first_template K F valid cfg \<equiv>
     config_template K (fo_pollbest F) (default_interface_print (fo_iface F)) valid (fo_modpath F) cfg"

lemma core_no_modules:
  assumes "k \<in> {''module'', ''module_tmp'', ''module_app'', ''module_path''}"
  shows "entry_value k (core_config_template K pollm iface cfg) = None" "entry_values k (core_config_template K pollm iface cfg) = []"
proof -
  show e: "entry_value k (core_config_template K pollm iface cfg) = None"
    using assms by (intro entry_value_none) (auto simp: core_keys)
  then show "entry_values k (core_config_template K pollm iface cfg) = []" by (simp add: entry_values_none)
qed

lemma first_template_modules:
  "entry_values ''module'' (first_template K F valid cfg) = [''stdio.so'', ''g711.so'', ''alsa.so'', ''stun.so'', ''turn.so'', ''ice.so'']"
  "entry_values ''module_tmp'' (first_template K F valid cfg) = [''uuid.so'', ''account.so'']"
  "entry_values ''module_app'' (first_template K F valid cfg) = [''auloop.so'', ''contact.so'', ''debug_cmd.so'', ''menu.so'', ''vidloop.so'']"
proof -
  have "entry_values k (first_template K F valid cfg) = entry_values k (template_codecs @ template_modules @ template_params)"
    if "k \<in> {''module'', ''module_tmp'', ''module_app''}" for k
    unfolding template_split banner_none entry_values_append[of _ "core_config_template _ _ _ _"]
    using that core_no_modules(2)[of k] rest_modules[of k] by auto
  from this[of "''module''"] this[of "''module_tmp''"] this[of "''module_app''"] show
    "entry_values ''module'' (first_template K F valid cfg) = [''stdio.so'', ''g711.so'', ''alsa.so'', ''stun.so'', ''turn.so'', ''ice.so'']"
    "entry_values ''module_tmp'' (first_template K F valid cfg) = [''uuid.so'', ''account.so'']"
    "entry_values ''module_app'' (first_template K F valid cfg) = [''auloop.so'', ''contact.so'', ''debug_cmd.so'', ''menu.so'', ''vidloop.so'']"
    unfolding rest_parts by simp_all
qed

lemma first_template_path:
  "entry_value ''module_path'' (first_template K F valid cfg) \<in> {None, Some (fo_modpath F)}"
proof -
  have "entry_value ''module_path'' (template_codecs @ template_modules @ template_params) = None" by code_simp
  then have "entry_value ''module_path'' (template_rest valid (fo_modpath F)) \<in> {None, Some (fo_modpath F)}"
    by (simp add: template_rest_def entry_value_append template_modhead_def)
  then show ?thesis
    unfolding template_split banner_none entry_value_append[of _ "core_config_template _ _ _ _"]
    by (simp add: core_no_modules(1))
qed

lemma first_modules_loaded:
  assumes "fs_conf st = Some (conf, all)" "conf ''module_path'' \<in> {None, Some modpath}"
    and "all ''module'' = [''stdio.so'', ''g711.so'', ''alsa.so'', ''stun.so'', ''turn.so'', ''ice.so'']"
    and "all ''module_tmp'' = [''uuid.so'', ''account.so'']"
    and "all ''module_app'' = [''auloop.so'', ''contact.so'', ''debug_cmd.so'', ''menu.so'', ''vidloop.so'']"
    and "loads D modpath (first_modules @ [''uuid.so'', ''account.so''])"
    and "loads D (ml_default_path ms) (first_modules @ [''uuid.so'', ''account.so''])" "ml_list ms = []"
  shows "mod_files (snd (conf_modules D st ms)) = first_modules"
proof -
  define mp where "mp = (case conf ''module_path'' of None \<Rightarrow> ml_default_path ms | Some p \<Rightarrow> p)"
  have "loads D mp (first_modules @ [''uuid.so'', ''account.so''])" using assms(2,6,7) by (auto simp: mp_def)
  then have l: "loads D mp (all ''module'')" "loads D mp (all ''module_tmp'')" "loads D mp (all ''module_app'')"
    unfolding assms(3-5) by (simp_all add: loads_def first_modules_def)
  have "mods_ok ms" using assms(8) by (simp add: mods_ok_def)
  note 1 = load_all[OF l(1) this]
  note 2 = load_tmp[OF l(2) conjunct2[OF 1]]
  note 3 = load_all[OF l(3) conjunct2[OF 2]]
  have "conf_modules D st ms = (0, fold (module_handler D mp) (all ''module_app'')
      (fold (module_tmp_handler D mp) (all ''module_tmp'') (fold (module_handler D mp) (all ''module'') ms)))"
    by (simp add: assms(1) conf_modules_def module_load_fromconf_def mp_def app_handler Let_def del: fold_simps)
  moreover have "mod_files ms = []" using assms(8) by (simp add: mod_files_def)
  ultimately show ?thesis using 1 2 3 by (simp add: assms(3-5) first_modules_def del: fold_simps)
qed

text \<open>
  C37: The first start.  Without a configuration file, \<open>conf_configure\<close> writes the template and reads it: the
  configuration is the default one with the devices of the template, and a further start, which finds the file,
  reads the same configuration and does not write.  The modules that are then loaded are those of
  the template, in its order; the temporary ones are gone after it.
\<close>

theorem first_start_configures:
  assumes "start_laws K F" "conf_path_get F FS_PATH_MAX st = Inr path" "length (path @ ''/config'') < FS_PATH_MAX"
    and "fs_files st (path @ ''/config'') = None" "fo_open F (path @ ''/config'') = 0"
    and "conf_configure K F (core_config K share) st = (err, cfg, st')"
    and "loads D (fo_modpath F) (first_modules @ [''uuid.so'', ''account.so''])"
    and "loads D (ml_default_path ms) (first_modules @ [''uuid.so'', ''account.so''])" "ml_list ms = []"
  shows "err = 0 \<and> cfg = first_config K share \<and>
    conf_configure K F (core_config K share) (conf_close st') = (0, cfg, st') \<and>
    mod_files (snd (conf_modules D st' ms)) = first_modules"
proof -
  let ?file = "path @ ''/config''" and ?c = "core_config K share"
  let ?valid = "detect_module_path (fo_dir F (fo_modpath F))"
  define ls where "ls = config_template K (fo_pollbest F) (default_interface_print (fo_iface F)) ?valid (fo_modpath F) ?c"
  define tx where "tx = concat (map line_text ls)"
  have ok: "list_all line_ok ls"
    using assms(1) unfolding ls_def start_laws_def by (intro template_ok) simp_all
  obtain ls' where ls': "ls = Other ''#'' # ls'" unfolding ls_def config_template_def template_banner_def by simp
  have fl: "conf_file_laws (fo_rd F)" using assms(1) by (simp add: start_laws_def)
  have rd: "fst (fo_rd F tx) = (\<lambda>k. entry_value k ls)" "snd (fo_rd F tx) = (\<lambda>k. entry_values k ls)"
    using file_read[OF fl ok[unfolded ls']] by (simp_all add: tx_def ls')
  have s: "first_start K F share (fo_modpath F) ?valid (fst (fo_rd F tx))"
    by (intro first_start.intro) (simp_all add: assms(1) rd ls_def)
  have n: "entry_values k ls = []" if "k = ''dns_server'' \<or> k = ''dns_fallback''" for k
  proof -
    have "k \<notin> set (entry_keys (core_config_template K (fo_pollbest F) (default_interface_print (fo_iface F)) ?c))" "k \<notin> set rest_key_list"
      using that by (auto simp: core_keys rest_key_list_def)
    then show ?thesis using template_none unfolding ls_def entry_values_none[symmetric] by blast
  qed
  have nd: "snd (fo_rd F tx) ''dns_server'' = []" "snd (fo_rd F tx) ''dns_fallback'' = []" using n by (simp_all add: rd)
  have p: "config_parse_conf K (Some ?c) (Some (fo_rd F tx)) = (0, Some (first_config K share))"
    using first_start.first_parse[OF s nd] by simp
  define st1 where "st1 = st\<lparr>fs_files := (fs_files st)(?file \<mapsto> tx), fs_conf := Some (fo_rd F tx)\<rparr>"
  have w: "config_write_template K F (Some ?file) (Some ?c) st = (0, st\<lparr>fs_files := (fs_files st)(?file \<mapsto> tx)\<rparr>)"
    using assms(5) by (simp add: config_write_template_def tx_def ls_def Let_def)
  have c: "err = 0" "cfg = first_config K share" "st' = st1"
    using assms(2-4,6) unfolding conf_configure_def
    by (simp_all add: w conf_fileexist_def conf_alloc_def p st1_def del: append_assoc)
  have "conf_path_get F FS_PATH_MAX (conf_close st1) = Inr path"
    using assms(2) by (simp add: conf_path_get_def conf_close_def st1_def)
  then have again: "conf_configure K F ?c (conf_close st1) = (0, first_config K share, st1)"
    using assms(3) by (simp add: conf_configure_def conf_fileexist_def conf_alloc_def conf_close_def st1_def p)
  have "fs_conf st1 = Some (fst (fo_rd F tx), snd (fo_rd F tx))" by (simp add: st1_def)
  from first_modules_loaded[OF this _ _ _ _ assms(7-9)] have "mod_files (snd (conf_modules D st1 ms)) = first_modules"
    using first_template_path first_template_modules by (simp add: rd ls_def)
  then show ?thesis using again by (simp add: c)
qed

text \<open>A first start on a system with a network interface, \<open>epoll\<close> and a directory of modules.\<close>

definition ref_start_env :: conf_env where
  "ref_start_env = ref_conf_env\<lparr>ke_poll := \<lambda>s. Some 0\<rparr>"

definition ref_fs :: fs_ops where
  "ref_fs = \<lparr>fo_home = Inr ''/root'', fo_open = (\<lambda>p. 0), fo_pollbest = ''epoll'', fo_iface = Some ''eth0'',
     fo_dir = (\<lambda>p. Some [''menu.so'', ''.so'']), fo_modpath = ''/usr/lib/baresip/modules'', fo_rd = ref_rd\<rparr>"

definition ref_disk :: conf_state where
  "ref_disk = \<lparr>fs_files = (\<lambda>p. None), fs_conf_path = None, fs_conf = None\<rparr>"

definition ref_mods :: mod_ops where
  "ref_mods = \<lparr>mo_load = (\<lambda>file. Inr (file, ''application'')), mo_match = (=)\<rparr>"

definition ref_ml :: mod_state where
  "ref_ml = \<lparr>ml_list = [], ml_next = 0, ml_default_path = ''.''\<rparr>"

lemma ref_start_laws: "start_laws ref_start_env ref_fs"
proof -
  have "conf_env_laws ref_start_env" using ref_conf_laws by (simp add: conf_env_laws_def ref_start_env_def)
  moreover have "ke_dec ref_conf_env 184 = ''184''" by code_simp
  ultimately show ?thesis
    using ref_rd_laws by (simp add: start_laws_def ref_start_env_def ref_fs_def default_interface_print_def word_ok_def)
      (simp add: ref_conf_env_def)
qed

interpretation ref_first: first_start ref_start_env ref_fs "''share''" "''/usr/lib/baresip/modules''" True
  "\<lambda>k. entry_value k (config_template ref_start_env ''epoll'' ''eth0'' True ''/usr/lib/baresip/modules'' (core_config ref_start_env ''share''))"
  by unfold_locales (simp_all add: ref_start_laws, simp add: ref_fs_def default_interface_print_def)

theorem first_start_configures_witness:
  "\<exists>cfg st'. conf_configure ref_start_env ref_fs (core_config ref_start_env ''share'') ref_disk = (0, cfg, st') \<and>
     kc_max_calls (kf_call cfg) = 4 \<and> ka_src_mod (kf_audio cfg) = ''alsa'' \<and> \<not> kv_fullscreen (kf_video cfg) \<and>
     mod_files (snd (conf_modules ref_mods st' ref_ml)) = first_modules"
proof -
  obtain err cfg st' where r: "conf_configure ref_start_env ref_fs (core_config ref_start_env ''share'') ref_disk = (err, cfg, st')"
    by (metis prod_cases3)
  have p: "conf_path_get ref_fs FS_PATH_MAX ref_disk = Inr ''/root/.baresip''"
    by (simp add: conf_path_get_def ref_fs_def ref_disk_def FS_PATH_MAX_def)
  have l: "loads ref_mods q vs" if "q = fo_modpath ref_fs \<or> q = ml_default_path ref_ml" "vs = first_modules @ [''uuid.so'', ''account.so'']" for q vs
    using that by (auto simp: loads_def ref_mods_def FS_PATH_MAX_def ref_fs_def ref_ml_def first_modules_def)
  have "err = 0 \<and> cfg = first_config ref_start_env ''share'' \<and>
      conf_configure ref_start_env ref_fs (core_config ref_start_env ''share'') (conf_close st') = (0, cfg, st') \<and>
      mod_files (snd (conf_modules ref_mods st' ref_ml)) = first_modules"
    by (rule first_start_configures[OF ref_start_laws p _ _ _ r])
      (simp_all add: l ref_disk_def ref_fs_def[of] FS_PATH_MAX_def ref_ml_def)
  then show ?thesis using r by (auto simp: first_config_def core_config_def Let_def)
qed

end
