(* ===== verification/Video.thy ===== *)
theory Video
  imports Config VideoTypes
begin

text \<open>
  The video object, \<open>src/video.c\<close>: the encoder side with its queue of packets and its timer, the
  decoder side with its picture updates, and the source and the display.

  Codecs, filters, frames, sources and displays are driver code behind function pointers: they
  are fields of \<open>vid_env\<close> or of the registries.  What the object does to a source or a display is
  recorded in the log \<open>vi_out\<close>, and the result of such a call is a function of the log with the call
  at its end.  An encoder is a tree: it hands over packets, and continues as the handler answers.
  Locks have no definition; handlers run one after another.
\<close>

subsection \<open>Data\<close>

definition MEDIA_POLL_RATE :: u64 where "MEDIA_POLL_RATE = 250"
definition BURST_MAX :: u64 where "BURST_MAX = 8192"
definition RTP_PRESZ :: nat where "RTP_PRESZ = 4 + 12"
definition RTP_TRAILSZ :: nat where "RTP_TRAILSZ = 12 + 4"
definition AUDIO_BANDWIDTH :: u32 where "AUDIO_BANDWIDTH = 128000"

type_synonym vcodec = "unit vidcodec"

record vidpkt =
  pk_marker :: bool
  pk_ts :: u64
  pk_hdr :: "u8 list option"
  pk_pld :: "u8 list option"

datatype 'e enc_run = EncDone err 'e | EncPacket vidpkt "err \<Rightarrow> 'e enc_run"

record 'a vidqent =
  qe_dst :: 'a
  qe_marker :: bool
  qe_pt :: u8
  qe_ts :: u32
  qe_mb :: mbuf

text \<open>Calls of a driver: a source is opened with its frame rate, format, size and device.\<close>

datatype vid_out =
    VoSrcOpen "string option" rat int vidsz string
  | VoSrcClose
  | VoSrcUpdate "string option"
  | VoDispOpen "string option" bool string
  | VoDispClose
  | VoDispUpdate bool int
  | VoShown
  | VoError err

type_synonym vsource = "(vid_out list, nat, unit) vidsrc"
type_synonym 'f vdisplay = "(vid_out list, unit, 'f, vid_out list) vidisp"
type_synonym 'f vdisp_st = "(vid_out list, unit, 'f, vid_out list) vidisp_st"

record vidfilt_prm =
  fp_width :: u32
  fp_height :: u32
  fp_fmt :: int
  fp_fps :: rat

type_synonym 'q vfilt = "(vidfilt_prm, 'q) vidfilt"
type_synonym 'q vfilt_st = "(vidfilt_prm, 'q) vidfilt_st"

record ('a, 'e, 'f, 'q) vtx =
  vx_vc :: "vcodec option"
  vx_enc :: "'e option"
  vx_prm_fps :: rat
  vx_prm_fmt :: int
  vx_vsrc_size :: vidsz
  vx_vsrc :: "(vsource \<times> nat) option"
  vx_frame :: "'f option"
  vx_sendq :: "'a vidqent list"
  vx_jfs :: u64
  vx_skipc :: u32
  vx_filtl :: "'q vfilt_st list"
  vx_fmt :: int
  vx_device :: string
  vx_ts_offset :: u32
  vx_picup :: bool
  vx_frames :: int
  vx_efps :: rat
  vx_ts_base :: u64
  vx_ts_last :: u64
  vx_src_frames :: u64

record ('d, 'f, 'q) vrx =
  vr_vc :: "vcodec option"
  vr_dec :: "'d option"
  vr_fullscreen :: bool
  vr_vidisp :: "'f vdisp_st option"
  vr_filtl :: "'q vfilt_st list"
  vr_tmr_picup :: bool
  vr_size :: vidsz
  vr_fmt :: int
  vr_orient :: int
  vr_device :: string
  vr_pt_rx :: int
  vr_frames :: int
  vr_efps :: rat
  vr_n_intra :: u32
  vr_n_picup :: u32
  vr_ts_recv :: timestamp_recv
  vr_disp_frames :: u64

record ('m, 'j, 'a, 'e, 'd, 'f, 'q) video =
  vi_cfg :: video_conf
  vi_strm :: "('m, 'j, 'a) strm"
  vi_tx :: "('a, 'e, 'f, 'q) vtx"
  vi_rx :: "('d, 'f, 'q) vrx"
  vi_tmr :: bool
  vi_peer :: "string option"
  vi_nack_pli :: bool
  vi_errh :: bool
  vi_out :: "vid_out list"

text \<open>
  What video.c calls: a format of the media line comes with its codec, payload type and
  parameters.  \<open>ve_qalloc\<close> is the error of allocating a packet, \<open>ve_filt_alloc\<close> whether there is memory
  for the state of a filter without an update handler.
\<close>

record ('m, 'j, 'a, 'e, 'd, 'f, 'q) vid_env =
  ve_strm :: "('m, 'j, 'a) strm_env"
  ve_libre :: libre
  ve_atof :: "string \<Rightarrow> rat"
  ve_rattr :: "'m \<Rightarrow> string \<Rightarrow> string option"
  ve_nack :: "'m \<Rightarrow> bool"
  ve_disabled :: "'m \<Rightarrow> bool"
  ve_rformat :: "'m \<Rightarrow> (vcodec \<times> int \<times> string option \<times> string option) option"
  ve_lformat :: "'m \<Rightarrow> int \<Rightarrow> (vcodec \<times> int \<times> string option) option"
  ve_format_add :: "'m \<Rightarrow> vcodec \<Rightarrow> err \<times> 'm"
  ve_vidcodecl :: "vcodec list"
  ve_vidsrcl :: "vsource list"
  ve_vidispl :: "'f vdisplay list"
  ve_qalloc :: "'a vidqent list \<Rightarrow> err"
  ve_filt_alloc :: bool
  ve_encupd :: "vcodec \<Rightarrow> videnc_param \<Rightarrow> string option \<Rightarrow> vid_out list \<Rightarrow> err \<times> 'e option"
  ve_ench :: "vcodec \<Rightarrow> 'e \<Rightarrow> bool \<Rightarrow> 'f \<Rightarrow> u64 \<Rightarrow> 'e enc_run"
  ve_decupd :: "vcodec \<Rightarrow> string option \<Rightarrow> vid_out list \<Rightarrow> err \<times> 'd option"
  ve_dech :: "vcodec \<Rightarrow> 'd \<Rightarrow> bool \<Rightarrow> u16 \<Rightarrow> mbuf \<Rightarrow> err \<times> 'f option \<times> bool \<times> 'd"
  ve_filt_ench :: "'q vfilt \<Rightarrow> ('q option \<Rightarrow> 'f \<Rightarrow> u64 \<Rightarrow> err \<times> 'q option \<times> 'f \<times> u64) option"
  ve_filt_dech :: "'q vfilt \<Rightarrow> ('q option \<Rightarrow> 'f \<Rightarrow> u64 \<Rightarrow> err \<times> 'q option \<times> 'f \<times> u64) option"
  ve_frame_fmt :: "'f \<Rightarrow> int"
  ve_frame_size :: "'f \<Rightarrow> vidsz"
  ve_frame_alloc :: "int \<Rightarrow> vidsz \<Rightarrow> err + 'f"
  ve_frame_copy :: "'f \<Rightarrow> 'f \<Rightarrow> 'f"
  ve_vidconv :: "'f \<Rightarrow> 'f \<Rightarrow> 'f"
  ve_fmt_name :: "int \<Rightarrow> string"

definition vx_upd ::
  "(('a, 'e, 'f, 'q) vtx \<Rightarrow> ('a, 'e, 'f, 'q) vtx) \<Rightarrow> ('m, 'j, 'a, 'e, 'd, 'f, 'q) video \<Rightarrow> ('m, 'j, 'a, 'e, 'd, 'f, 'q) video" where
  "vx_upd f v = v\<lparr>vi_tx := f (vi_tx v)\<rparr>"

definition vr_upd ::
  "(('d, 'f, 'q) vrx \<Rightarrow> ('d, 'f, 'q) vrx) \<Rightarrow> ('m, 'j, 'a, 'e, 'd, 'f, 'q) video \<Rightarrow> ('m, 'j, 'a, 'e, 'd, 'f, 'q) video" where
  "vr_upd f v = v\<lparr>vi_rx := f (vi_rx v)\<rparr>"

definition vi_emit :: "vid_out \<Rightarrow> ('m, 'j, 'a, 'e, 'd, 'f, 'q) video \<Rightarrow> ('m, 'j, 'a, 'e, 'd, 'f, 'q) video" where
  "vi_emit x v = v\<lparr>vi_out := vi_out v @ [x]\<rparr>"

subsection \<open>The sending queue\<close>

definition vidqent_alloc ::
  "mbuf_ops \<Rightarrow> err \<Rightarrow> 'a \<Rightarrow> bool \<Rightarrow> u8 \<Rightarrow> u32 \<Rightarrow> u8 list option \<Rightarrow> u8 list option \<Rightarrow> err + 'a vidqent" where
  "vidqent_alloc M oom dst marker pt ts hdr pld =
     (case pld of
        None \<Rightarrow> Inl EINVAL
      | Some pld \<Rightarrow>
          if oom \<noteq> 0 then Inl oom
          else
            let mb = \<lparr>mb_buf = replicate (RTP_PRESZ + (case hdr of None \<Rightarrow> 0 | Some h \<Rightarrow> length h) + length pld + RTP_TRAILSZ) 0,
                      mb_pos = RTP_PRESZ, mb_end = RTP_PRESZ\<rparr>;
                mb = (case hdr of None \<Rightarrow> mb | Some h \<Rightarrow> snd (m_write_mem M mb h));
                mb = snd (m_write_mem M mb pld)
            in Inr \<lparr>qe_dst = dst, qe_marker = marker, qe_pt = pt, qe_ts = ts, qe_mb = mb\<lparr>mb_pos := RTP_PRESZ\<rparr>\<rparr>)"


text \<open>The loop of \<open>vidqueue_poll\<close>: what is left in the queue, and the stream.\<close>

fun vidqueue_loop ::
  "('m, 'j, 'a) strm_env \<Rightarrow> u64 \<Rightarrow> nat \<Rightarrow> nat \<Rightarrow> 'a vidqent list \<Rightarrow> ('m, 'j, 'a) strm \<Rightarrow> 'a vidqent list \<times> ('m, 'j, 'a) strm" where
  "vidqueue_loop S now burst sent [] strm = ([], strm)"
| "vidqueue_loop S now burst sent (qent # q) strm =
     (let sent = sent + m_get_left (se_mbuf S) (qe_mb qent);
          strm = snd (stream_send S now strm False (qe_marker qent) (uint (qe_pt qent)) (qe_ts qent) (qe_mb qent))
      in if sent > burst then (q, strm) else vidqueue_loop S now burst sent q strm)"

definition vidqueue_poll ::
  "('m, 'j, 'a, 'e, 'd, 'f, 'q) vid_env \<Rightarrow> u64 \<Rightarrow> u64 \<Rightarrow> u64 \<Rightarrow> ('m, 'j, 'a, 'e, 'd, 'f, 'q) video
     \<Rightarrow> ('m, 'j, 'a, 'e, 'd, 'f, 'q) video" where
  "vidqueue_poll E now jfs prev_jfs v =
     (if vx_sendq (vi_tx v) = [] then v
      else
        let bandwidth_kbps = ucast (kv_bitrate (vi_cfg v) div 1000) :: u64;
            burst = min ((1 + jfs - prev_jfs) * bandwidth_kbps div 4) BURST_MAX;
            (q, strm) = vidqueue_loop (ve_strm E) now (unat burst) 0 (vx_sendq (vi_tx v)) (vi_strm v)
        in vx_upd (\<lambda>x. x\<lparr>vx_sendq := q\<rparr>) (v\<lparr>vi_strm := strm\<rparr>))"

text \<open>\<open>tmr_start\<close> sets the time at which the timer expires next.\<close>

definition rtp_tmr_handler ::
  "('m, 'j, 'a, 'e, 'd, 'f, 'q) vid_env \<Rightarrow> u64 \<Rightarrow> ('m, 'j, 'a, 'e, 'd, 'f, 'q) video \<Rightarrow> ('m, 'j, 'a, 'e, 'd, 'f, 'q) video" where
  "rtp_tmr_handler E now v =
     (let pjfs = vx_jfs (vi_tx v);
          v = vx_upd (\<lambda>x. x\<lparr>vx_jfs := now + 1000 div MEDIA_POLL_RATE\<rparr>) v
      in vidqueue_poll E now (vx_jfs (vi_tx v)) pjfs v)"

definition packet_handler ::
  "('m, 'j, 'a, 'e, 'd, 'f, 'q) vid_env \<Rightarrow> vidpkt \<Rightarrow> ('m, 'j, 'a, 'e, 'd, 'f, 'q) video
     \<Rightarrow> err \<times> ('m, 'j, 'a, 'e, 'd, 'f, 'q) video" where
  "packet_handler E p v =
     (let ts = pk_ts p;
          v = vx_upd (\<lambda>x. x\<lparr>vx_ts_base := (if vx_ts_base x = 0 then ts else vx_ts_base x), vx_ts_last := ts\<rparr>) v;
          rtp_ts = vx_ts_offset (vi_tx v) + ucast (ts AND 0xffffffff);
          dst = se_raddr (ve_strm E) (st_sdp (vi_strm v))
      in case vidqent_alloc (se_mbuf (ve_strm E)) (ve_qalloc E (vx_sendq (vi_tx v))) dst (pk_marker p)
                (word_of_int (st_pt_enc (vi_strm v))) rtp_ts (pk_hdr p) (pk_pld p) of
           Inl err \<Rightarrow> (err, v)
         | Inr qent \<Rightarrow> (0, vx_upd (\<lambda>x. x\<lparr>vx_sendq := vx_sendq x @ [qent]\<rparr>) v))"

primrec run_enc ::
  "('m, 'j, 'a, 'e, 'd, 'f, 'q) vid_env \<Rightarrow> 'e enc_run \<Rightarrow> ('m, 'j, 'a, 'e, 'd, 'f, 'q) video
     \<Rightarrow> err \<times> 'e \<times> ('m, 'j, 'a, 'e, 'd, 'f, 'q) video" where
  "run_enc E (EncDone err e) v = (err, e, v)"
| "run_enc E (EncPacket p k) v = (case packet_handler E p v of (err, v) \<Rightarrow> run_enc E (k err) v)"

text \<open>The conversion of a frame to the format of the encoder; the buffer is allocated for the first frame only.\<close>

definition venc_convert ::
  "('m, 'j, 'a, 'e, 'd, 'f, 'q) vid_env \<Rightarrow> 'f \<Rightarrow> ('m, 'j, 'a, 'e, 'd, 'f, 'q) video
     \<Rightarrow> err \<times> bool \<times> 'f \<times> ('m, 'j, 'a, 'e, 'd, 'f, 'q) video" where
  "venc_convert E frame v =
     (if ve_frame_fmt E frame \<noteq> kv_enc_fmt (vi_cfg v)
      then
        let v = vx_upd (\<lambda>x. x\<lparr>vx_vsrc_size := ve_frame_size E frame\<rparr>) v;
            buf = (case vx_frame (vi_tx v) of
                     Some f \<Rightarrow> Inr f
                   | None \<Rightarrow> ve_frame_alloc E (kv_enc_fmt (vi_cfg v)) (vx_vsrc_size (vi_tx v)))
        in case buf of
             Inl err \<Rightarrow> (err, False, frame, v)
           | Inr f \<Rightarrow> (0, True, ve_vidconv E f frame, vx_upd (\<lambda>x. x\<lparr>vx_frame := Some (ve_vidconv E f frame)\<rparr>) v)
      else (0, False, frame, v))"

text \<open>The filters in their order; each may change the frame and its timestamp.\<close>

fun run_filters ::
  "('q vfilt \<Rightarrow> ('q option \<Rightarrow> 'f \<Rightarrow> u64 \<Rightarrow> err \<times> 'q option \<times> 'f \<times> u64) option) \<Rightarrow> 'q vfilt_st list \<Rightarrow> 'f \<Rightarrow> u64 \<Rightarrow> err
     \<Rightarrow> err \<times> 'q vfilt_st list \<times> 'f \<times> u64" where
  "run_filters h [] frame ts err = (err, [], frame, ts)"
| "run_filters h (st # sts) frame ts err =
     (case h (vfs_vf st) of
        None \<Rightarrow>
          let (err, sts, frame, ts) = run_filters h sts frame ts err in (err, st # sts, frame, ts)
      | Some f \<Rightarrow>
          let (e, priv, frame, ts) = f (vfs_priv st) frame ts;
              (err, sts, frame, ts) = run_filters h sts frame ts (err OR e)
          in (err, st\<lparr>vfs_priv := priv\<rparr> # sts, frame, ts))"

text \<open>The codec that made the encoder state is set with it; without one nothing is encoded here.\<close>

definition venc_run ::
  "('m, 'j, 'a, 'e, 'd, 'f, 'q) vid_env \<Rightarrow> 'e \<Rightarrow> 'f \<Rightarrow> u64 \<Rightarrow> ('m, 'j, 'a, 'e, 'd, 'f, 'q) video
     \<Rightarrow> ('m, 'j, 'a, 'e, 'd, 'f, 'q) video" where
  "venc_run E enc frame ts v =
     (let v = vx_upd (\<lambda>x. x\<lparr>vx_fmt := ve_frame_fmt E frame\<rparr>) v
      in case vx_vc (vi_tx v) of
           None \<Rightarrow> v
         | Some vc \<Rightarrow>
             let (err, enc, v) = run_enc E (ve_ench E vc enc (vx_picup (vi_tx v)) frame ts) v;
                 v = vx_upd (\<lambda>x. x\<lparr>vx_enc := Some enc\<rparr>) v
             in if err \<noteq> 0 then v else vx_upd (\<lambda>x. x\<lparr>vx_picup := False\<rparr>) v)"

definition encode_rtp_send ::
  "('m, 'j, 'a, 'e, 'd, 'f, 'q) vid_env \<Rightarrow> 'f \<Rightarrow> u64 \<Rightarrow> ('m, 'j, 'a, 'e, 'd, 'f, 'q) video
     \<Rightarrow> ('m, 'j, 'a, 'e, 'd, 'f, 'q) video" where
  "encode_rtp_send E frame timestamp v =
     (case vx_enc (vi_tx v) of
        None \<Rightarrow> v
      | Some enc \<Rightarrow>
          if vx_sendq (vi_tx v) \<noteq> [] then vx_upd (\<lambda>x. x\<lparr>vx_skipc := vx_skipc x + 1\<rparr>) v
          else
            let (err, conv, frame, v) = venc_convert E frame v
            in if err \<noteq> 0 then v
               else
                 let (err, filtl, frame, timestamp) = run_filters (ve_filt_ench E) (vx_filtl (vi_tx v)) frame timestamp 0;
                     v = vx_upd (\<lambda>x. x\<lparr>vx_filtl := filtl, vx_frame := (if conv then Some frame else vx_frame x)\<rparr>) v
                 in if err \<noteq> 0 then v else venc_run E enc frame timestamp v)"

definition vidsrc_frame_handler ::
  "('m, 'j, 'a, 'e, 'd, 'f, 'q) vid_env \<Rightarrow> 'f \<Rightarrow> u64 \<Rightarrow> ('m, 'j, 'a, 'e, 'd, 'f, 'q) video
     \<Rightarrow> ('m, 'j, 'a, 'e, 'd, 'f, 'q) video" where
  "vidsrc_frame_handler E frame timestamp v =
     encode_rtp_send E frame timestamp
       (vx_upd (\<lambda>x. x\<lparr>vx_frames := vx_frames x + 1, vx_src_frames := vx_src_frames x + 1\<rparr>) v)"

subsection \<open>Sources and displays\<close>

text \<open>Releasing a source or a display calls its driver.\<close>

definition vsrc_free :: "('m, 'j, 'a, 'e, 'd, 'f, 'q) video \<Rightarrow> ('m, 'j, 'a, 'e, 'd, 'f, 'q) video" where
  "vsrc_free v =
     (if vx_vsrc (vi_tx v) = None then v else vi_emit VoSrcClose (vx_upd (\<lambda>x. x\<lparr>vx_vsrc := None\<rparr>) v))"

definition vidisp_free :: "('m, 'j, 'a, 'e, 'd, 'f, 'q) video \<Rightarrow> ('m, 'j, 'a, 'e, 'd, 'f, 'q) video" where
  "vidisp_free v =
     (if vr_vidisp (vi_rx v) = None then v else vi_emit VoDispClose (vr_upd (\<lambda>x. x\<lparr>vr_vidisp := None\<rparr>) v))"

definition vidsrc_error_handler ::
  "('m, 'j, 'a, 'e, 'd, 'f, 'q) video \<Rightarrow> ('m, 'j, 'a, 'e, 'd, 'f, 'q) video" where
  "vidsrc_error_handler v = vsrc_free v"

definition vsrc_open ::
  "vsource \<Rightarrow> string \<Rightarrow> ('m, 'j, 'a, 'e, 'd, 'f, 'q) video \<Rightarrow> err \<times> ('m, 'j, 'a, 'e, 'd, 'f, 'q) video" where
  "vsrc_open vs dev v =
     (let x = vi_tx v;
          v = vi_emit (VoSrcOpen (vs_name vs) (vx_prm_fps x) (vx_prm_fmt x) (vx_vsrc_size x) dev) v;
          (err, st) = vs_alloch vs (vi_out v)
      in (err, vx_upd (\<lambda>x. x\<lparr>vx_vsrc := map_option (\<lambda>st. (vs, st)) st\<rparr>) v))"

definition get_fps ::
  "('m, 'j, 'a, 'e, 'd, 'f, 'q) vid_env \<Rightarrow> ('m, 'j, 'a, 'e, 'd, 'f, 'q) video \<Rightarrow> rat" where
  "get_fps E v =
     (case ve_rattr E (st_sdp (vi_strm v)) ''framerate'' of Some attr \<Rightarrow> ve_atof E attr | None \<Rightarrow> kv_fps (vi_cfg v))"

text \<open>The printed pipelines and \<open>media_ctx\<close>, which video.c only passes on, are left out.\<close>

definition video_start_source ::
  "('m, 'j, 'a, 'e, 'd, 'f, 'q) vid_env \<Rightarrow> ('m, 'j, 'a, 'e, 'd, 'f, 'q) video \<Rightarrow> err \<times> ('m, 'j, 'a, 'e, 'd, 'f, 'q) video" where
  "video_start_source E v =
     (if vx_vsrc (vi_tx v) \<noteq> None then (0, v)
      else
        let sc = l_casecmp (ve_libre E)
        in if vidsrc_find sc (ve_vidsrcl E) None \<noteq> None
           then
             case vidsrc_find sc (ve_vidsrcl E) (Some (kv_src_mod (vi_cfg v))) of
               None \<Rightarrow> (ENOENT, v)
             | Some vs \<Rightarrow>
                 let v = vx_upd (\<lambda>x. x\<lparr>vx_vsrc_size := \<lparr>sz_w = kv_width (vi_cfg v), sz_h = kv_height (vi_cfg v)\<rparr>,
                                       vx_prm_fps := get_fps E v, vx_prm_fmt := kv_enc_fmt (vi_cfg v)\<rparr>) v
                 in (0, (snd (vsrc_open vs (vx_device (vi_tx v)) v))\<lparr>vi_tmr := True\<rparr>)
           else (0, v\<lparr>vi_tmr := True\<rparr>))"

definition set_vidisp ::
  "('m, 'j, 'a, 'e, 'd, 'f, 'q) vid_env \<Rightarrow> ('m, 'j, 'a, 'e, 'd, 'f, 'q) video \<Rightarrow> err \<times> ('m, 'j, 'a, 'e, 'd, 'f, 'q) video" where
  "set_vidisp E v =
     (let v = vr_upd (\<lambda>x. x\<lparr>vr_fullscreen := kv_fullscreen (vi_cfg v)\<rparr>) (vidisp_free v)
      in case vidisp_find (l_casecmp (ve_libre E)) (ve_vidispl E) (Some (kv_disp_mod (vi_cfg v))) of
           None \<Rightarrow> (ENOENT, v)
         | Some vd \<Rightarrow>
             let v = vi_emit (VoDispOpen (vd_name vd) (vr_fullscreen (vi_rx v)) (vr_device (vi_rx v))) v;
                 (err, st) = vd_alloch vd (vi_out v)
             in (err, vr_upd (\<lambda>x. x\<lparr>vr_vidisp := map_option (\<lambda>_. \<lparr>vst_vd = vd\<rparr>) st\<rparr>) v))"

definition video_start_display ::
  "('m, 'j, 'a, 'e, 'd, 'f, 'q) vid_env \<Rightarrow> string option \<Rightarrow> ('m, 'j, 'a, 'e, 'd, 'f, 'q) video
     \<Rightarrow> err \<times> ('m, 'j, 'a, 'e, 'd, 'f, 'q) video" where
  "video_start_display E peer v =
     (if vr_vidisp (vi_rx v) \<noteq> None then (0, v)
      else
        let (err, v) = (case peer of
                          None \<Rightarrow> (0, v)
                        | Some p \<Rightarrow> let (err, p) = str_dup (ve_libre E) None peer in (err, v\<lparr>vi_peer := p\<rparr>))
        in if err \<noteq> 0 then (err, v)
           else if vidisp_find (l_casecmp (ve_libre E)) (ve_vidispl E) None \<noteq> None then set_vidisp E v
           else (0, v))"

definition video_stop_source :: "('m, 'j, 'a, 'e, 'd, 'f, 'q) video \<Rightarrow> ('m, 'j, 'a, 'e, 'd, 'f, 'q) video" where
  "video_stop_source v = vsrc_free v"

definition video_stop_display :: "('m, 'j, 'a, 'e, 'd, 'f, 'q) video \<Rightarrow> ('m, 'j, 'a, 'e, 'd, 'f, 'q) video" where
  "video_stop_display v = vidisp_free v"

definition video_stop :: "('m, 'j, 'a, 'e, 'd, 'f, 'q) video \<Rightarrow> ('m, 'j, 'a, 'e, 'd, 'f, 'q) video" where
  "video_stop v = video_stop_display (video_stop_source v)"

text \<open>None is the access through the NULL pointer \<open>vidisp_get\<close> returns without a display.\<close>

definition vidisp_update ::
  "('m, 'j, 'a, 'e, 'd, 'f, 'q) video \<Rightarrow> (err \<times> ('m, 'j, 'a, 'e, 'd, 'f, 'q) video) option" where
  "vidisp_update v =
     (case vidisp_get (vr_vidisp (vi_rx v)) of
        None \<Rightarrow> None
      | Some vd \<Rightarrow>
          (case vd_updateh vd of
             None \<Rightarrow> Some (0, v)
           | Some h \<Rightarrow>
               let v = vi_emit (VoDispUpdate (vr_fullscreen (vi_rx v)) (vr_orient (vi_rx v))) v;
                   (err, w) = h () (vi_out v)
               in Some (err, v\<lparr>vi_out := w\<rparr>)))"

definition video_set_fullscreen ::
  "bool \<Rightarrow> ('m, 'j, 'a, 'e, 'd, 'f, 'q) video \<Rightarrow> (err \<times> ('m, 'j, 'a, 'e, 'd, 'f, 'q) video) option" where
  "video_set_fullscreen fs v = vidisp_update (vr_upd (\<lambda>x. x\<lparr>vr_fullscreen := fs\<rparr>) v)"

definition video_vidsrc_set_device ::
  "string option \<Rightarrow> ('m, 'j, 'a, 'e, 'd, 'f, 'q) video \<Rightarrow> ('m, 'j, 'a, 'e, 'd, 'f, 'q) video" where
  "video_vidsrc_set_device dev v =
     (case vx_vsrc (vi_tx v) of
        Some (vs, _) \<Rightarrow> if vs_updateh vs \<noteq> None then vi_emit (VoSrcUpdate dev) v else v
      | None \<Rightarrow> v)"

definition video_set_source ::
  "('m, 'j, 'a, 'e, 'd, 'f, 'q) vid_env \<Rightarrow> string option \<Rightarrow> string \<Rightarrow> ('m, 'j, 'a, 'e, 'd, 'f, 'q) video
     \<Rightarrow> err \<times> ('m, 'j, 'a, 'e, 'd, 'f, 'q) video" where
  "video_set_source E name dev v =
     (case vidsrc_find (l_casecmp (ve_libre E)) (ve_vidsrcl E) name of
        None \<Rightarrow> (ENOENT, v)
      | Some vs \<Rightarrow> vsrc_open vs dev (vsrc_free v))"

definition video_set_devicename ::
  "string \<Rightarrow> string \<Rightarrow> ('m, 'j, 'a, 'e, 'd, 'f, 'q) video \<Rightarrow> ('m, 'j, 'a, 'e, 'd, 'f, 'q) video" where
  "video_set_devicename src disp v =
     vr_upd (\<lambda>x. x\<lparr>vr_device := take 127 disp\<rparr>) (vx_upd (\<lambda>x. x\<lparr>vx_device := take 127 src\<rparr>) v)"


subsection \<open>Codecs\<close>

definition video_encoder_set ::
  "('m, 'j, 'a, 'e, 'd, 'f, 'q) vid_env \<Rightarrow> vcodec \<Rightarrow> int \<Rightarrow> string option \<Rightarrow> ('m, 'j, 'a, 'e, 'd, 'f, 'q) video
     \<Rightarrow> err \<times> ('m, 'j, 'a, 'e, 'd, 'f, 'q) video" where
  "video_encoder_set E vc pt_tx params v =
     (if vc_encupdh vc = None then (ENOENT, v)
      else
        let (err, v) =
          (if map_option vc_addr (vx_vc (vi_tx v)) \<noteq> Some (vc_addr vc)
           then
             let prm = \<lparr>vp_bitrate = kv_bitrate (vi_cfg v), vp_pktsize = 1024, vp_fps = get_fps E v, vp_max_fs = - 1\<rparr>;
                 (err, enc) = ve_encupd E vc prm params (vi_out v);
                 v = vx_upd (\<lambda>x. x\<lparr>vx_enc := enc\<rparr>) v
             in if err \<noteq> 0 then (err, v) else (0, vx_upd (\<lambda>x. x\<lparr>vx_vc := Some vc\<rparr>) v)
           else (0, v))
        in if err \<noteq> 0 then (err, v) else (0, v\<lparr>vi_strm := stream_update_encoder (vi_strm v) pt_tx\<rparr>))"

definition vdec_codec ::
  "('m, 'j, 'a, 'e, 'd, 'f, 'q) vid_env \<Rightarrow> vcodec \<Rightarrow> vcodec option" where
  "vdec_codec E vc =
     (if vc_decupdh vc = None then vidcodec_find_decoder (l_casecmp (ve_libre E)) (ve_vidcodecl E) (vc_name vc) else Some vc)"

definition video_decoder_set ::
  "('m, 'j, 'a, 'e, 'd, 'f, 'q) vid_env \<Rightarrow> vcodec \<Rightarrow> int \<Rightarrow> string option \<Rightarrow> ('m, 'j, 'a, 'e, 'd, 'f, 'q) video
     \<Rightarrow> err \<times> ('m, 'j, 'a, 'e, 'd, 'f, 'q) video" where
  "video_decoder_set E vc pt_rx fmtp v =
     (case vdec_codec E vc of
        None \<Rightarrow> (ENOENT, v)
      | Some vc \<Rightarrow>
          let v = vr_upd (\<lambda>x. x\<lparr>vr_pt_rx := pt_rx\<rparr>) v
          in if map_option vc_addr (vr_vc (vi_rx v)) \<noteq> Some (vc_addr vc)
             then
               let (err, dec) = ve_decupd E vc fmtp (vi_out v);
                   v = vr_upd (\<lambda>x. x\<lparr>vr_dec := dec\<rparr>) v
               in if err \<noteq> 0 then (err, v) else (0, vr_upd (\<lambda>x. x\<lparr>vr_vc := Some vc\<rparr>) v)
             else (0, v))"

subsection \<open>Receiving\<close>

definition request_picture_update ::
  "('m, 'j, 'a, 'e, 'd, 'f, 'q) vid_env \<Rightarrow> ('m, 'j, 'a, 'e, 'd, 'f, 'q) video \<Rightarrow> ('m, 'j, 'a, 'e, 'd, 'f, 'q) video" where
  "request_picture_update E v =
     (if vr_tmr_picup (vi_rx v) then v
      else
        let v = vr_upd (\<lambda>x. x\<lparr>vr_tmr_picup := True\<rparr>) v;
            v = v\<lparr>vi_strm := stream_send_fir (ve_strm E) (vi_strm v) (vi_nack_pli v)\<rparr>
        in vr_upd (\<lambda>x. x\<lparr>vr_n_picup := vr_n_picup x + 1\<rparr>) v)"

text \<open>A timer that expires is not running any more when its handler is called.\<close>

definition picup_tmr_handler ::
  "('m, 'j, 'a, 'e, 'd, 'f, 'q) vid_env \<Rightarrow> ('m, 'j, 'a, 'e, 'd, 'f, 'q) video \<Rightarrow> ('m, 'j, 'a, 'e, 'd, 'f, 'q) video" where
  "picup_tmr_handler E v = request_picture_update E (vr_upd (\<lambda>x. x\<lparr>vr_tmr_picup := False\<rparr>) v)"

abbreviation (input) ENODEV :: err where "ENODEV \<equiv> 19"

text \<open>A frame goes through the filters, on a copy if there are any, and to the display.\<close>

definition vdec_display ::
  "('m, 'j, 'a, 'e, 'd, 'f, 'q) vid_env \<Rightarrow> 'f \<Rightarrow> u64 \<Rightarrow> ('m, 'j, 'a, 'e, 'd, 'f, 'q) video
     \<Rightarrow> err \<times> ('m, 'j, 'a, 'e, 'd, 'f, 'q) video" where
  "vdec_display E frame timestamp v =
     (let v = vr_upd (\<lambda>x. x\<lparr>vr_size := ve_frame_size E frame, vr_fmt := ve_frame_fmt E frame\<rparr>) v;
          cpy = (if vr_filtl (vi_rx v) \<noteq> []
                 then (case ve_frame_alloc E (ve_frame_fmt E frame) (ve_frame_size E frame) of
                         Inl err \<Rightarrow> Inl err
                       | Inr f \<Rightarrow> Inr (ve_frame_copy E f frame))
                 else Inr frame)
      in case cpy of
           Inl err \<Rightarrow> (err, v)
         | Inr frame \<Rightarrow>
             let (_, filtl, frame, timestamp) = run_filters (ve_filt_dech E) (vr_filtl (vi_rx v)) frame timestamp 0;
                 v = vr_upd (\<lambda>x. x\<lparr>vr_filtl := filtl, vr_disp_frames := vr_disp_frames x + 1\<rparr>) v;
                 (err, w) = vidisp_display (vr_vidisp (vi_rx v)) (vi_peer v) (Some frame) timestamp (vi_out v);
                 v = v\<lparr>vi_out := w\<rparr>
             in if err = ENODEV
                then (err, let v = vidisp_free v in if vi_errh v then vi_emit (VoError err) v else v)
                else (err, vr_upd (\<lambda>x. x\<lparr>vr_frames := vr_frames x + 1\<rparr>) v))"

definition video_stream_decode ::
  "('m, 'j, 'a, 'e, 'd, 'f, 'q) vid_env \<Rightarrow> rtp_header \<Rightarrow> mbuf option \<Rightarrow> ('m, 'j, 'a, 'e, 'd, 'f, 'q) video
     \<Rightarrow> err \<times> ('m, 'j, 'a, 'e, 'd, 'f, 'q) video" where
  "video_stream_decode E hdr mb v =
     (case mb of
        None \<Rightarrow> (0, v)
      | Some mb \<Rightarrow>
          if m_get_left (se_mbuf (ve_strm E)) mb = 0 then (0, v)
          else
            (case (vr_dec (vi_rx v), vr_vc (vi_rx v)) of
               (Some dec, Some vc) \<Rightarrow>
                 let v = vr_upd (\<lambda>x. x\<lparr>vr_ts_recv := update_rtp_timestamp (vr_ts_recv x) (rh_ts hdr)\<rparr>) v;
                     ts = vr_ts_recv (vi_rx v);
                     timestamp = video_calc_timebase_timestamp (timestamp_calc_extended (tr_num_wraps ts) (tr_last ts));
                     (err, frame, intra, dec) = ve_dech E vc dec (rh_m hdr) (rh_seq hdr) mb;
                     v = vr_upd (\<lambda>x. x\<lparr>vr_dec := Some dec\<rparr>) v
                 in if err \<noteq> 0 then (err, request_picture_update E v)
                    else
                      let v = (if intra then vr_upd (\<lambda>x. x\<lparr>vr_tmr_picup := False, vr_n_intra := vr_n_intra x + 1\<rparr>) v else v)
                      in (case frame of None \<Rightarrow> (0, v) | Some f \<Rightarrow> vdec_display E f timestamp v)
             | _ \<Rightarrow> (0, v)))"

definition video_pt_handler ::
  "('m, 'j, 'a, 'e, 'd, 'f, 'q) vid_env \<Rightarrow> u8 \<Rightarrow> ('m, 'j, 'a, 'e, 'd, 'f, 'q) video
     \<Rightarrow> err \<times> ('m, 'j, 'a, 'e, 'd, 'f, 'q) video" where
  "video_pt_handler E pt v =
     (if vr_pt_rx (vi_rx v) = 255 \<or> vr_pt_rx (vi_rx v) = uint pt then (0, v)
      else case ve_lformat E (st_sdp (vi_strm v)) (uint pt) of
             None \<Rightarrow> (ENOENT, v)
           | Some (vc, lpt, rparams) \<Rightarrow>
               video_decoder_set E vc lpt rparams (vr_upd (\<lambda>x. x\<lparr>vr_pt_rx := uint pt\<rparr>) v))"

definition video_recv_handler ::
  "('m, 'j, 'a, 'e, 'd, 'f, 'q) vid_env \<Rightarrow> rtp_header \<Rightarrow> mbuf option \<Rightarrow> nat \<Rightarrow> ('m, 'j, 'a, 'e, 'd, 'f, 'q) video
     \<Rightarrow> ('m, 'j, 'a, 'e, 'd, 'f, 'q) video" where
  "video_recv_handler E hdr mb lostc v =
     (let v = (if lostc \<noteq> 0 then request_picture_update E v else v) in snd (video_stream_decode E hdr mb v))"

text \<open>The packet types of RTCP (RFC 2032, RFC 4585).\<close>

abbreviation RTCP_FIR :: u8 where "RTCP_FIR \<equiv> 192"
abbreviation RTCP_RTPFB :: u8 where "RTCP_RTPFB \<equiv> 205"
abbreviation RTCP_PSFB :: u8 where "RTCP_PSFB \<equiv> 206"

definition video_rtcp_handler ::
  "u8 \<Rightarrow> u8 \<Rightarrow> ('m, 'j, 'a, 'e, 'd, 'f, 'q) video \<Rightarrow> ('m, 'j, 'a, 'e, 'd, 'f, 'q) video" where
  "video_rtcp_handler pt count v =
     (if pt = RTCP_FIR \<or> pt = RTCP_PSFB \<and> count = 1 \<or> pt = RTCP_RTPFB \<and> count = 1
      then vx_upd (\<lambda>x. x\<lparr>vx_picup := True\<rparr>) v else v)"

definition video_update_picture :: "('m, 'j, 'a, 'e, 'd, 'f, 'q) video \<Rightarrow> ('m, 'j, 'a, 'e, 'd, 'f, 'q) video" where
  "video_update_picture v = vx_upd (\<lambda>x. x\<lparr>vx_picup := True\<rparr>) v"

definition video_sdp_attr_decode ::
  "('m, 'j, 'a, 'e, 'd, 'f, 'q) vid_env \<Rightarrow> ('m, 'j, 'a, 'e, 'd, 'f, 'q) video \<Rightarrow> ('m, 'j, 'a, 'e, 'd, 'f, 'q) video" where
  "video_sdp_attr_decode E v = (if ve_nack E (st_sdp (vi_strm v)) then v\<lparr>vi_nack_pli := True\<rparr> else v)"

definition TMR_INTERVAL :: int where "TMR_INTERVAL = 5"

definition video_tmr_handler :: "('m, 'j, 'a, 'e, 'd, 'f, 'q) video \<Rightarrow> ('m, 'j, 'a, 'e, 'd, 'f, 'q) video" where
  "video_tmr_handler v =
     (let v = v\<lparr>vi_tmr := True\<rparr>;
          v = vx_upd (\<lambda>x. x\<lparr>vx_efps := of_int (vx_frames x) / of_int TMR_INTERVAL, vx_frames := 0\<rparr>) v
      in vr_upd (\<lambda>x. x\<lparr>vr_efps := of_int (vr_frames x) / of_int TMR_INTERVAL, vr_frames := 0\<rparr>) v)"

subsection \<open>Start and update\<close>

text \<open>\<open>mb_alloc\<close>: memory for the packet of \<open>stream_open_natpinhole\<close>.\<close>

definition video_update ::
  "('m, 'j, 'a, 'e, 'd, 'f, 'q) vid_env \<Rightarrow> bool \<Rightarrow> string option \<Rightarrow> ('m, 'j, 'a, 'e, 'd, 'f, 'q) video
     \<Rightarrow> err \<times> ('m, 'j, 'a, 'e, 'd, 'f, 'q) video" where
  "video_update E mb_alloc peer v =
     (let m = st_sdp (vi_strm v)
      in case (if ve_disabled E m then None else ve_rformat E m) of
           None \<Rightarrow> (0, video_stop_display (video_stop_source v))
         | Some (vc, pt, params, rparams) \<Rightarrow>
             let dir = se_dir (ve_strm E) m;
                 (e1, v) = (if dir_send dir then video_encoder_set E vc pt params v else (0, v));
                 (e2, v) = (if dir_recv dir then video_decoder_set E vc pt rparams v else (0, v));
                 (e3, v) = (if dir_send dir then video_start_source E v else (0, video_stop_source v));
                 (e4, v) =
                   (if dir_recv dir
                    then
                      let (e4, strm) = stream_open_natpinhole (ve_strm E) mb_alloc (vi_strm v);
                          (e5, v) = video_start_display E peer (v\<lparr>vi_strm := strm\<rparr>)
                      in (e4 OR e5, v)
                    else (0, video_stop_display v))
             in (e1 OR e2 OR e3 OR e4, v))"

definition vtx_new :: "u32 \<Rightarrow> u64 \<Rightarrow> video_conf \<Rightarrow> ('a, 'e, 'f, 'q) vtx" where
  "vtx_new rand jfs cfg =
     \<lparr>vx_vc = None, vx_enc = None, vx_prm_fps = 0, vx_prm_fmt = 0, vx_vsrc_size = \<lparr>sz_w = 0, sz_h = 0\<rparr>, vx_vsrc = None,
      vx_frame = None, vx_sendq = [], vx_jfs = jfs + 1, vx_skipc = 0, vx_filtl = [], vx_fmt = - 1,
      vx_device = take 127 (kv_src_dev cfg), vx_ts_offset = rand, vx_picup = False, vx_frames = 0, vx_efps = 0,
      vx_ts_base = 0, vx_ts_last = 0, vx_src_frames = 0\<rparr>"

definition vrx_new :: "int \<Rightarrow> video_conf \<Rightarrow> ('d, 'f, 'q) vrx" where
  "vrx_new portrait cfg =
     \<lparr>vr_vc = None, vr_dec = None, vr_fullscreen = False, vr_vidisp = None, vr_filtl = [], vr_tmr_picup = False,
      vr_size = \<lparr>sz_w = 0, sz_h = 0\<rparr>, vr_fmt = - 1, vr_orient = portrait,
      vr_device = take 127 (kv_disp_dev cfg), vr_pt_rx = - 1, vr_frames = 0, vr_efps = 0, vr_n_intra = 0, vr_n_picup = 0,
      vr_ts_recv = \<lparr>tr_first = 0, tr_last = 0, tr_is_set = False, tr_num_wraps = 0\<rparr>, vr_disp_frames = 0\<rparr>"

text \<open>The filters, up to the first that fails.\<close>

fun video_filters ::
  "('m, 'j, 'a, 'e, 'd, 'f, 'q) vid_env \<Rightarrow> 'q vfilt list \<Rightarrow> err \<Rightarrow> ('m, 'j, 'a, 'e, 'd, 'f, 'q) video
     \<Rightarrow> err \<times> ('m, 'j, 'a, 'e, 'd, 'f, 'q) video" where
  "video_filters E [] err v = (err, v)"
| "video_filters E (vf # vfs) err v =
     (let prm = \<lparr>fp_width = kv_width (vi_cfg v), fp_height = kv_height (vi_cfg v), fp_fmt = kv_enc_fmt (vi_cfg v),
                 fp_fps = get_fps E v\<rparr>;
          (e1, fe) = vidfilt_enc_append (ve_filt_alloc E) (Some (vx_filtl (vi_tx v))) vf prm;
          v = vx_upd (\<lambda>x. x\<lparr>vx_filtl := list_elems fe\<rparr>) v;
          (e2, fd) = vidfilt_dec_append (ve_filt_alloc E) (Some (vr_filtl (vi_rx v))) vf prm;
          v = vr_upd (\<lambda>x. x\<lparr>vr_filtl := list_elems fd\<rparr>) v
      in if (err OR e1 OR e2) \<noteq> 0 then (err OR e1 OR e2, v) else video_filters E vfs (err OR e1 OR e2) v)"

fun video_formats ::
  "('m, 'j, 'a, 'e, 'd, 'f, 'q) vid_env \<Rightarrow> vcodec list \<Rightarrow> err \<Rightarrow> ('m, 'j, 'a, 'e, 'd, 'f, 'q) video
     \<Rightarrow> err \<times> ('m, 'j, 'a, 'e, 'd, 'f, 'q) video" where
  "video_formats E [] err v = (err, v)"
| "video_formats E (vc # vcs) err v =
     (let (e, m) = ve_format_add E (st_sdp (vi_strm v)) vc
      in video_formats E vcs (err OR e) (v\<lparr>vi_strm := (vi_strm v)\<lparr>st_sdp := m\<rparr>\<rparr>))"

text \<open>
  \<open>strm\<close> is the result of \<open>stream_alloc\<close>, \<open>lock_tx\<close> and \<open>lock_rx\<close> the errors of allocating the locks, \<open>rand\<close> the random
  timestamp offset and \<open>jfs\<close> the present time.
\<close>

definition video_attrs ::
  "('m, 'j, 'a, 'e, 'd, 'f, 'q) vid_env \<Rightarrow> config \<Rightarrow> string option \<Rightarrow> ('m, 'j, 'a) strm \<Rightarrow> err \<times> ('m, 'j, 'a) strm" where
  "video_attrs E cfg content strm =
     (let S = ve_strm E;
          strm = (if vidisp_find (l_casecmp (ve_libre E)) (ve_vidispl E) None = None then stream_set_ldir S strm SDP_SENDONLY else strm);
          strm = stream_set_srate strm 90000 90000;
          bw = rng_max (kt_rtp_bw (kf_avt cfg));
          strm = (if bw \<ge> AUDIO_BANDWIDTH then stream_set_bw S strm (bw - AUDIO_BANDWIDTH) else strm)
      in stream_attr S (content \<noteq> None) ''content'' (stream_attr S True ''rtcp-fb'' (stream_attr S True ''framerate'' (0, strm))))"

definition video_alloc ::
  "('m, 'j, 'a, 'e, 'd, 'f, 'q) vid_env \<Rightarrow> bool \<Rightarrow> err \<times> ('m, 'j, 'a) strm option \<Rightarrow> err \<Rightarrow> err \<Rightarrow> int \<Rightarrow> u32 \<Rightarrow> u64
     \<Rightarrow> config option \<Rightarrow> string option \<Rightarrow> vcodec list \<Rightarrow> 'q vfilt list \<Rightarrow> bool
     \<Rightarrow> err \<times> ('m, 'j, 'a, 'e, 'd, 'f, 'q) video option" where
  "video_alloc E zalloc strm lock_tx lock_rx portrait rand jfs cfg content vidcodecl vidfiltl errh =
     (case cfg of
        None \<Rightarrow> (EINVAL, None)
      | Some cfg \<Rightarrow>
          if \<not> zalloc then (ENOMEM, None)
          else
            (case strm of
               (err, None) \<Rightarrow> (err, None)
             | (err, Some strm) \<Rightarrow>
                 if err \<noteq> 0 then (err, None)
                 else
                   let (err, strm) = video_attrs E cfg content strm
                   in if err \<noteq> 0 then (err, None)
                      else if (lock_tx OR lock_rx) \<noteq> 0 then (lock_tx OR lock_rx, None)
                      else
                        let v = \<lparr>vi_cfg = kf_video cfg, vi_strm = strm, vi_tx = vtx_new rand jfs (kf_video cfg),
                                 vi_rx = vrx_new portrait (kf_video cfg), vi_tmr = False, vi_peer = None,
                                 vi_nack_pli = False, vi_errh = errh, vi_out = []\<rparr>;
                            (err, v) = video_formats E vidcodecl 0 v;
                            (err, v) = video_filters E vidfiltl err v
                        in if err \<noteq> 0 then (err, None) else (0, Some v)))"

definition video_destructor :: "('m, 'j, 'a, 'e, 'd, 'f, 'q) video \<Rightarrow> vid_out list" where
  "video_destructor v = vi_out (vidisp_free (vsrc_free v))"

subsection \<open>Printing\<close>

definition vtx_print_pipeline ::
  "('m, 'j, 'a, 'e, 'd, 'f, 'q) vid_env \<Rightarrow> 'w printer \<Rightarrow> ('a, 'e, 'f, 'q) vtx option \<Rightarrow> 'w \<Rightarrow> err \<times> 'w" where
  "vtx_print_pipeline E pr vtx w =
     (case vtx of
        None \<Rightarrow> (0, w)
      | Some x \<Rightarrow>
          print_all pr
            ((''video tx pipeline: %10s'', [FStr (case vx_vsrc x of None \<Rightarrow> ''src'' | Some (vs, _) \<Rightarrow> str_of (vs_name vs))]) #
             map (\<lambda>st. ('' ---> %s'', [FStr (str_of (vf_name (vfs_vf st)))]))
               (filter (\<lambda>st. ve_filt_ench E (vfs_vf st) \<noteq> None) (vx_filtl x)) @
             [('' ---> %s'' @ [CHR 0x0a], [FStr (case vx_vc x of None \<Rightarrow> ''encoder'' | Some vc \<Rightarrow> str_of (vc_name vc))])]) 0 w)"

definition vrx_print_pipeline ::
  "('m, 'j, 'a, 'e, 'd, 'f, 'q) vid_env \<Rightarrow> 'w printer \<Rightarrow> ('d, 'f, 'q) vrx option \<Rightarrow> 'w \<Rightarrow> err \<times> 'w" where
  "vrx_print_pipeline E pr vrx w =
     (case vrx of
        None \<Rightarrow> (0, w)
      | Some x \<Rightarrow>
          print_all pr
            ((''video rx pipeline: %10s'', [FStr (case vidisp_get (vr_vidisp x) of None \<Rightarrow> ''disp'' | Some vd \<Rightarrow> str_of (vd_name vd))]) #
             map (\<lambda>st. ('' <--- %s'', [FStr (str_of (vf_name (vfs_vf st)))]))
               (filter (\<lambda>st. ve_filt_dech E (vfs_vf st) \<noteq> None) (vr_filtl x)) @
             [('' <--- %s'' @ [CHR 0x0a], [FStr (case vr_vc x of None \<Rightarrow> ''decoder'' | Some vc \<Rightarrow> str_of (vc_name vc))])]) 0 w)"

definition vtx_debug ::
  "('m, 'j, 'a, 'e, 'd, 'f, 'q) vid_env \<Rightarrow> 'w printer \<Rightarrow> ('a, 'e, 'f, 'q) vtx \<Rightarrow> 'w \<Rightarrow> err \<times> 'w" where
  "vtx_debug E pr x w =
     (let nl = [CHR 0x0a]
      in print_all pr
        [('' tx: encode: %s %s'' @ nl,
            [FStr (case vx_vc x of None \<Rightarrow> ''none'' | Some vc \<Rightarrow> str_of (vc_name vc)), FStr (ve_fmt_name E (vx_fmt x))]),
         (''     source: %s %u x %u, fps=%.2f frames=%llu'' @ nl,
            [FStr (case vx_vsrc x of None \<Rightarrow> ''none'' | Some (vs, _) \<Rightarrow> str_of (vs_name vs)),
             FNum (unat (sz_w (vx_vsrc_size x))), FNum (unat (sz_h (vx_vsrc_size x))), FRat (vx_prm_fps x), FNum (unat (vx_src_frames x))]),
         (''     skipc=%u sendq=%u'' @ nl, [FNum (unat (vx_skipc x)), FNum (length (vx_sendq x))]),
         (if vx_ts_base x \<noteq> 0
          then (''     time = %.3f sec'' @ nl, [FRat (video_calc_seconds (vx_ts_last x - vx_ts_base x))])
          else (''     time = (not started)'' @ nl, []))] 0 w)"

definition vrx_debug ::
  "('m, 'j, 'a, 'e, 'd, 'f, 'q) vid_env \<Rightarrow> 'w printer \<Rightarrow> ('d, 'f, 'q) vrx \<Rightarrow> 'w \<Rightarrow> err \<times> 'w" where
  "vrx_debug E pr x w =
     (let nl = [CHR 0x0a]
      in print_all pr
        [('' rx: decode: %s %s'' @ nl,
            [FStr (case vr_vc x of None \<Rightarrow> ''none'' | Some vc \<Rightarrow> str_of (vc_name vc)), FStr (ve_fmt_name E (vr_fmt x))]),
         (''     vidisp: %s %u x %u frames=%llu'' @ nl,
            [FStr (case vidisp_get (vr_vidisp x) of None \<Rightarrow> ''none'' | Some vd \<Rightarrow> str_of (vd_name vd)),
             FNum (unat (sz_w (vr_size x))), FNum (unat (sz_h (vr_size x))), FNum (unat (vr_disp_frames x))]),
         (''     n_keyframes=%u, n_picup=%u'' @ nl, [FNum (unat (vr_n_intra x)), FNum (unat (vr_n_picup x))]),
         (if tr_is_set (vr_ts_recv x)
          then (''     time = %.3f sec'' @ nl, [FRat (video_calc_seconds (timestamp_duration (Some (vr_ts_recv x))))])
          else (''     time = (not started)'' @ nl, []))] 0 w)"

text \<open>\<open>sdebug\<close> is \<open>stream_debug\<close>, which prints objects of libre.\<close>

definition video_debug ::
  "('m, 'j, 'a, 'e, 'd, 'f, 'q) vid_env \<Rightarrow> 'w printer \<Rightarrow> (('m, 'j, 'a) strm \<Rightarrow> 'w \<Rightarrow> err \<times> 'w)
     \<Rightarrow> ('m, 'j, 'a, 'e, 'd, 'f, 'q) video option \<Rightarrow> 'w \<Rightarrow> err \<times> 'w" where
  "video_debug E pr sdebug v w =
     (case v of
        None \<Rightarrow> (0, w)
      | Some v \<Rightarrow>
          let nl = [CHR 0x0a]; yn = (\<lambda>b. [FStr (if b then ''yes'' else ''no'')]);
              (e1, w) = print_all pr
                [(nl @ ''--- Video stream ---'' @ nl, []),
                 ('' source started: %s'' @ nl, yn (vx_vsrc (vi_tx v) \<noteq> None)),
                 ('' display started: %s'' @ nl, yn (vr_vidisp (vi_rx v) \<noteq> None))] 0 w;
              (e2, w) = vtx_debug E pr (vi_tx v) w;
              (e3, w) = vrx_debug E pr (vi_rx v) w
          in if (e1 OR e2 OR e3) \<noteq> 0 then (e1 OR e2 OR e3, w)
             else
               let (e4, w) = (if vx_filtl (vi_tx v) \<noteq> [] then vtx_print_pipeline E pr (Some (vi_tx v)) w else (0, w));
                   (e5, w) = (if vr_filtl (vi_rx v) \<noteq> [] then vrx_print_pipeline E pr (Some (vi_rx v)) w else (0, w));
                   (e6, w) = sdebug (vi_strm v) w
               in (e4 OR e5 OR e6, w))"

definition video_print ::
  "'w printer \<Rightarrow> ('m, 'j, 'a, 'e, 'd, 'f, 'q) video option \<Rightarrow> 'w \<Rightarrow> err \<times> 'w" where
  "video_print pr v w =
     (case v of
        None \<Rightarrow> (0, w)
      | Some v \<Rightarrow> pr '' efps=%.1f/%.1f'' [FRat (vx_efps (vi_tx v)), FRat (vr_efps (vi_rx v))] w)"

definition video_codec :: "('m, 'j, 'a, 'e, 'd, 'f, 'q) video option \<Rightarrow> bool \<Rightarrow> vcodec option" where
  "video_codec vid tx =
     (case vid of None \<Rightarrow> None | Some v \<Rightarrow> if tx then vx_vc (vi_tx v) else vr_vc (vi_rx v))"


subsection \<open>The queue is sent in order\<close>

abbreviation vid_send :: "('m, 'j, 'a) strm_env \<Rightarrow> u64 \<Rightarrow> 'a vidqent \<Rightarrow> ('m, 'j, 'a) strm \<Rightarrow> ('m, 'j, 'a) strm" where
  "vid_send S now qe s \<equiv> snd (stream_send S now s False (qe_marker qe) (uint (qe_pt qe)) (qe_ts qe) (qe_mb qe))"

definition vid_bytes :: "mbuf_ops \<Rightarrow> 'a vidqent list \<Rightarrow> nat" where
  "vid_bytes M q = sum_list (map (\<lambda>qe. m_get_left M (qe_mb qe)) q)"

text \<open>A poll sends a non-empty prefix of the queue; without its last packet it fits the burst.\<close>

lemma vidqueue_loop_prefix:
  "\<exists>k. vidqueue_loop S now burst sent q strm = (drop k q, fold (vid_send S now) (take k q) strm) \<and> k \<le> length q \<and>
       (q \<noteq> [] \<longrightarrow> 0 < k) \<and> (sent \<le> burst \<longrightarrow> sent + vid_bytes (se_mbuf S) (take (k - 1) q) \<le> burst)"
proof (induction q arbitrary: sent strm)
  case Nil
  show ?case by (simp add: vid_bytes_def)
next
  case (Cons qe q)
  let ?sent = "sent + m_get_left (se_mbuf S) (qe_mb qe)" and ?strm = "vid_send S now qe strm"
  show ?case
  proof (cases "?sent > burst")
    case True
    then show ?thesis by (intro exI[of _ 1]) (simp add: vid_bytes_def)
  next
    case False
    obtain k where k: "vidqueue_loop S now burst ?sent q ?strm = (drop k q, fold (vid_send S now) (take k q) ?strm)"
      "k \<le> length q" "q \<noteq> [] \<longrightarrow> 0 < k" "?sent + vid_bytes (se_mbuf S) (take (k - 1) q) \<le> burst"
      using Cons.IH[of ?sent ?strm] False by auto
    have "sent + vid_bytes (se_mbuf S) (take k (qe # q)) \<le> burst"
      using k(3,4) False by (cases k) (auto simp: vid_bytes_def)
    then show ?thesis using k(1,2) False by (intro exI[of _ "Suc k"]) (simp add: Let_def)
  qed
qed

lemma vx_upd_simps [simp]:
  "vi_tx (vx_upd f v) = f (vi_tx v)" "vi_rx (vx_upd f v) = vi_rx v" "vi_strm (vx_upd f v) = vi_strm v"
  "vi_cfg (vx_upd f v) = vi_cfg v" "vi_out (vx_upd f v) = vi_out v" "vi_nack_pli (vx_upd f v) = vi_nack_pli v"
  by (simp_all add: vx_upd_def)

lemma vr_upd_simps [simp]:
  "vi_rx (vr_upd g v) = g (vi_rx v)" "vi_tx (vr_upd g v) = vi_tx v" "vi_strm (vr_upd g v) = vi_strm v"
  "vi_cfg (vr_upd g v) = vi_cfg v" "vi_out (vr_upd g v) = vi_out v" "vi_nack_pli (vr_upd g v) = vi_nack_pli v"
  by (simp_all add: vr_upd_def)

lemma vi_emit_simps [simp]:
  "vi_rx (vi_emit y v) = vi_rx v" "vi_tx (vi_emit y v) = vi_tx v" "vi_strm (vi_emit y v) = vi_strm v"
  "vi_cfg (vi_emit y v) = vi_cfg v" "vi_nack_pli (vi_emit y v) = vi_nack_pli v"
  by (simp_all add: vi_emit_def)

text \<open>One tick of the timer.\<close>

lemma vid_tick:
  obtains k where "vx_sendq (vi_tx (rtp_tmr_handler E now v)) = drop k (vx_sendq (vi_tx v))"
    "vi_strm (rtp_tmr_handler E now v) = fold (vid_send (ve_strm E) now) (take k (vx_sendq (vi_tx v))) (vi_strm v)"
    "k \<le> length (vx_sendq (vi_tx v))" "vx_sendq (vi_tx v) \<noteq> [] \<longrightarrow> 0 < k"
    "vid_bytes (se_mbuf (ve_strm E)) (take (k - 1) (vx_sendq (vi_tx v))) \<le> unat BURST_MAX"
proof (cases "vx_sendq (vi_tx v) = []")
  case True
  then have "vx_sendq (vi_tx (rtp_tmr_handler E now v)) = []" "vi_strm (rtp_tmr_handler E now v) = vi_strm v"
    by (simp_all add: rtp_tmr_handler_def vidqueue_poll_def Let_def)
  then show ?thesis using that[of 0] True by (simp add: vid_bytes_def)
next
  case False
  define b where "b = min ((1 + (now + 1000 div MEDIA_POLL_RATE) - vx_jfs (vi_tx v)) * (ucast (kv_bitrate (vi_cfg v) div 1000) :: u64) div 4) BURST_MAX"
  obtain k where k: "vidqueue_loop (ve_strm E) now (unat b) 0 (vx_sendq (vi_tx v)) (vi_strm v) =
      (drop k (vx_sendq (vi_tx v)), fold (vid_send (ve_strm E) now) (take k (vx_sendq (vi_tx v))) (vi_strm v))"
    "k \<le> length (vx_sendq (vi_tx v))" "vx_sendq (vi_tx v) \<noteq> [] \<longrightarrow> 0 < k"
    "vid_bytes (se_mbuf (ve_strm E)) (take (k - 1) (vx_sendq (vi_tx v))) \<le> unat b"
    using vidqueue_loop_prefix[of "ve_strm E" now "unat b" 0 "vx_sendq (vi_tx v)" "vi_strm v"] by auto
  have r: "rtp_tmr_handler E now v = vx_upd (\<lambda>x. x\<lparr>vx_sendq := drop k (vx_sendq (vi_tx v))\<rparr>)
      ((vx_upd (\<lambda>x. x\<lparr>vx_jfs := now + 1000 div MEDIA_POLL_RATE\<rparr>) v)\<lparr>vi_strm :=
         fold (vid_send (ve_strm E) now) (take k (vx_sendq (vi_tx v))) (vi_strm v)\<rparr>)"
    using False k(1) unfolding b_def by (simp add: rtp_tmr_handler_def vidqueue_poll_def Let_def)
  have "unat b \<le> unat BURST_MAX" by (simp add: b_def word_le_nat_alt[symmetric])
  then show ?thesis using k by (intro that[of k]) (auto simp: r)
qed

text \<open>
  C38: Order.  The timer sends the packets of a frame in the order in which the encoder made them,
  each one once: after as many ticks as there are packets in the queue, whatever their times, the
  queue is empty, and the stream is the one that has sent all of them.
\<close>

theorem video_queue_sent:
  assumes "length (vx_sendq (vi_tx v)) \<le> length nows"
  shows "vx_sendq (vi_tx (fold (rtp_tmr_handler E) nows v)) = [] \<and>
    (\<exists>ts. length ts = length (vx_sendq (vi_tx v)) \<and> set ts \<subseteq> set nows \<and>
      vi_strm (fold (rtp_tmr_handler E) nows v) =
        fold (\<lambda>(now, qe). vid_send (ve_strm E) now qe) (zip ts (vx_sendq (vi_tx v))) (vi_strm v))"
  using assms
proof (induction nows arbitrary: v)
  case (Cons now nows)
  let ?q = "vx_sendq (vi_tx v)" and ?v = "rtp_tmr_handler E now v"
  obtain k where k: "vx_sendq (vi_tx ?v) = drop k ?q" "vi_strm ?v = fold (vid_send (ve_strm E) now) (take k ?q) (vi_strm v)"
    "k \<le> length ?q" "?q \<noteq> [] \<longrightarrow> 0 < k" "vid_bytes (se_mbuf (ve_strm E)) (take (k - 1) ?q) \<le> unat BURST_MAX"
    by (rule vid_tick)
  have "length (vx_sendq (vi_tx ?v)) \<le> length nows" using Cons.prems k(1,4) by (cases "?q = []") auto
  from Cons.IH[OF this] obtain ts where ts: "vx_sendq (vi_tx (fold (rtp_tmr_handler E) nows ?v)) = []"
    "length ts = length ?q - k" "set ts \<subseteq> set nows"
    "vi_strm (fold (rtp_tmr_handler E) nows ?v) = fold (\<lambda>(now, qe). vid_send (ve_strm E) now qe) (zip ts (drop k ?q)) (vi_strm ?v)"
    by (auto simp: k(1))
  have z: "fold (\<lambda>(now, qe). vid_send (ve_strm E) now qe) (zip (replicate n now) qs) s = fold (vid_send (ve_strm E) now) (take n qs) s" for n qs s
    by (induction n arbitrary: qs s) (case_tac qs, simp, simp)+
  have "zip (replicate k now @ ts) ?q = zip (replicate k now) (take k ?q) @ zip ts (drop k ?q)"
    by (subst append_take_drop_id[symmetric, of ?q k]) (simp add: zip_append k(3) del: append_take_drop_id)
  then show ?case
    using ts k(3) by (intro conjI exI[of _ "replicate k now @ ts"]) (auto simp: k(2) z)
qed simp


subsection \<open>Picture updates are rare\<close>

text \<open>What a receiver lives through: packets, the sending timer, frames of the source, and its own timer, if it runs.\<close>

datatype 'f vid_event =
    VeRecv rtp_header "mbuf option" nat
  | VeTick u64
  | VeSource 'f u64
  | VePicup

fun vid_step ::
  "('m, 'j, 'a, 'e, 'd, 'f, 'q) vid_env \<Rightarrow> 'f vid_event \<Rightarrow> ('m, 'j, 'a, 'e, 'd, 'f, 'q) video
     \<Rightarrow> ('m, 'j, 'a, 'e, 'd, 'f, 'q) video" where
  "vid_step E (VeRecv hdr mb lostc) v = video_recv_handler E hdr mb lostc v"
| "vid_step E (VeTick now) v = rtp_tmr_handler E now v"
| "vid_step E (VeSource f ts) v = vidsrc_frame_handler E f ts v"
| "vid_step E VePicup v = (if vr_tmr_picup (vi_rx v) then picup_tmr_handler E v else v)"

definition firs :: "'a strm_out list \<Rightarrow> nat" where
  "firs out = length (filter (\<lambda>x. x = OutFir \<or> x = OutPli) out)"

lemma firs_simps [simp]: "firs [] = 0" "firs (xs @ ys) = firs xs + firs ys"
  "firs [x] = (if x = OutFir \<or> x = OutPli then 1 else 0)"
  by (simp_all add: firs_def)

lemma send_firs: "firs (st_out (snd (stream_send S now s ext m pt ts mb))) = firs (st_out s)"
  by (simp add: stream_send_def st_call_def st_emit_def Let_def)

lemma sends_firs: "firs (st_out (fold (vid_send S now) q s)) = firs (st_out s)"
  by (induction q arbitrary: s) (simp_all add: send_firs)

lemma fir_firs: "firs (st_out (stream_send_fir S s pli)) = firs (st_out s) + 1"
  by (simp add: stream_send_fir_def st_call_def st_emit_def Let_def)

text \<open>The sending side does not touch the receiving side, nor sends picture updates.\<close>

definition rx_same :: "('m, 'j, 'a, 'e, 'd, 'f, 'q) video \<Rightarrow> ('m, 'j, 'a, 'e, 'd, 'f, 'q) video \<Rightarrow> bool" where
  "rx_same v v' = (vi_rx v' = vi_rx v \<and> firs (st_out (vi_strm v')) = firs (st_out (vi_strm v)))"

lemma rx_same_refl: "rx_same v v" and rx_same_vx: "rx_same v (vx_upd f v)" and
  rx_same_trans: "rx_same u v \<Longrightarrow> rx_same v w \<Longrightarrow> rx_same u w"
  by (auto simp: rx_same_def)

lemma packet_rx: "rx_same v (snd (packet_handler E p v))"
  by (simp add: packet_handler_def rx_same_def Let_def split: sum.split)

lemma run_enc_rx: "rx_same v (snd (snd (run_enc E r v)))"
proof (induction r arbitrary: v)
  case (EncPacket p k)
  obtain err w where w: "packet_handler E p v = (err, w)" by fastforce
  have "rx_same v w" using packet_rx[of v E p] w by simp
  then show ?case using EncPacket[of "k err" w] by (auto simp: w intro: rx_same_trans)
qed (simp add: rx_same_refl)

lemma source_rx: "rx_same v (vidsrc_frame_handler E f ts v)"
proof -
  have run: "rx_same v (venc_run E e g t v)" for e g t v
  proof (cases "vx_vc (vi_tx v)")
    case (Some vc)
    let ?v = "vx_upd (\<lambda>x. x\<lparr>vx_fmt := ve_frame_fmt E g\<rparr>) v"
    obtain err e' w where w: "run_enc E (ve_ench E vc e (vx_picup (vi_tx ?v)) g t) ?v = (err, e', w)" by (metis prod_cases3)
    have "rx_same ?v w" using run_enc_rx[of ?v E] w by (metis snd_conv)
    then have "rx_same v w" using rx_same_trans[OF rx_same_vx] by blast
    then show ?thesis using Some w by (simp add: venc_run_def rx_same_def Let_def)
  qed (simp add: venc_run_def rx_same_def)
  have conv: "rx_same v (snd (snd (snd (venc_convert E g v))))" for g v
    by (simp add: venc_convert_def rx_same_def Let_def split: option.split sum.split)
  have "rx_same v (encode_rtp_send E g t v)" for g t v
  proof (cases "vx_enc (vi_tx v) = None \<or> vx_sendq (vi_tx v) \<noteq> []")
    case True
    then show ?thesis by (auto simp: encode_rtp_send_def rx_same_def split: option.split)
  next
    case False
    obtain err cv g' w where w: "venc_convert E g v = (err, cv, g', w)" by (metis prod_cases4)
    obtain e2 fl g2 t2 where f: "run_filters (ve_filt_ench E) (vx_filtl (vi_tx w)) g' t 0 = (e2, fl, g2, t2)" by (metis prod_cases4)
    have a: "rx_same v w" using conv[of v g] w by simp
    have b: "rx_same v (vx_upd h w)" for h by (rule rx_same_trans[OF a rx_same_vx])
    have c: "rx_same v (venc_run E e g2 t2 (vx_upd h w))" for e h by (rule rx_same_trans[OF b run])
    show ?thesis using False
      by (auto simp: encode_rtp_send_def w f Let_def a b c)
  qed
  then show ?thesis unfolding vidsrc_frame_handler_def using rx_same_trans[OF rx_same_vx] by blast
qed

lemma tick_rx: "rx_same v (rtp_tmr_handler E now v)"
proof -
  obtain k where "vi_strm (rtp_tmr_handler E now v) = fold (vid_send (ve_strm E) now) (take k (vx_sendq (vi_tx v))) (vi_strm v)"
    by (rule vid_tick)
  moreover have "vi_rx (rtp_tmr_handler E now v) = vi_rx v"
    by (simp add: rtp_tmr_handler_def vidqueue_poll_def Let_def split: prod.split)
  ultimately show ?thesis by (simp add: rx_same_def sends_firs)
qed

text \<open>
  The count of the invariant: a picture update is paid for by the first start of its timer, by the
  expiry of the timer, or by a key frame, which stops it.
\<close>

definition picup_pays :: "nat \<Rightarrow> ('m, 'j, 'a, 'e, 'd, 'f, 'q) video \<Rightarrow> ('m, 'j, 'a, 'e, 'd, 'f, 'q) video \<Rightarrow> bool" where
  "picup_pays n v v' =
     (firs (st_out (vi_strm v')) + (if vr_tmr_picup (vi_rx v') then 0 else 1) \<le>
        firs (st_out (vi_strm v)) + (if vr_tmr_picup (vi_rx v) then 0 else 1) + n)"

lemma request_pays: "picup_pays 0 v (request_picture_update E v)"
  by (simp add: picup_pays_def request_picture_update_def fir_firs)

lemma pays_trans: "picup_pays n u v \<Longrightarrow> picup_pays k v w \<Longrightarrow> picup_pays (n + k) u w"
  by (simp add: picup_pays_def)

text \<open>Whether a packet completes a key frame.\<close>

definition is_intra ::
  "('m, 'j, 'a, 'e, 'd, 'f, 'q) vid_env \<Rightarrow> 'f vid_event \<Rightarrow> ('m, 'j, 'a, 'e, 'd, 'f, 'q) video \<Rightarrow> bool" where
  "is_intra E ev v =
     (case ev of
        VeRecv hdr (Some mb) lostc \<Rightarrow>
          (case (vr_dec (vi_rx v), vr_vc (vi_rx v)) of
             (Some dec, Some vc) \<Rightarrow> (case ve_dech E vc dec (rh_m hdr) (rh_seq hdr) mb of (err, f, intra, d) \<Rightarrow> err = 0 \<and> intra)
           | _ \<Rightarrow> False)
      | _ \<Rightarrow> False)"

lemma display_pays: "picup_pays 0 v (snd (vdec_display E f ts v))"
proof -
  have fr: "picup_pays 0 w (vidisp_free w)" for w :: "('m, 'j, 'a, 'e, 'd, 'f, 'q) video" by (simp add: vidisp_free_def picup_pays_def)
  show ?thesis
    by (simp add: vdec_display_def Let_def picup_pays_def vidisp_free_def split: sum.split prod.split)
qed

lemma decode_pays: "picup_pays (if is_intra E (VeRecv hdr mb lostc) v then 1 else 0) v (snd (video_stream_decode E hdr mb v))"
proof (cases "\<exists>m dec vc. mb = Some m \<and> m_get_left (se_mbuf (ve_strm E)) m \<noteq> 0 \<and> vr_dec (vi_rx v) = Some dec \<and> vr_vc (vi_rx v) = Some vc")
  case False
  then have "snd (video_stream_decode E hdr mb v) = v"
    by (auto simp: video_stream_decode_def split: option.split)
  then show ?thesis by (simp add: picup_pays_def)
next
  case True
  then obtain m dec vc where m: "mb = Some m" "m_get_left (se_mbuf (ve_strm E)) m \<noteq> 0" "vr_dec (vi_rx v) = Some dec"
    "vr_vc (vi_rx v) = Some vc" by blast
  obtain err frame intra d where h: "ve_dech E vc dec (rh_m hdr) (rh_seq hdr) m = (err, frame, intra, d)" by (metis prod_cases4)
  define v1 where "v1 = vr_upd (\<lambda>x. x\<lparr>vr_dec := Some d\<rparr>) (vr_upd (\<lambda>x. x\<lparr>vr_ts_recv := update_rtp_timestamp (vr_ts_recv x) (rh_ts hdr)\<rparr>) v)"
  have 1: "picup_pays 0 v v1" by (simp add: v1_def picup_pays_def)
  show ?thesis
  proof (cases "err = 0")
    case False
    then have "snd (video_stream_decode E hdr mb v) = request_picture_update E v1"
      by (simp add: video_stream_decode_def m h v1_def Let_def)
    then show ?thesis using pays_trans[OF 1 request_pays[of v1 E]] m h False by (simp add: is_intra_def)
  next
    case True
    define v2 where "v2 = (if intra then vr_upd (\<lambda>x. x\<lparr>vr_tmr_picup := False, vr_n_intra := vr_n_intra x + 1\<rparr>) v1 else v1)"
    have 2: "picup_pays (if intra then 1 else 0) v1 v2" by (simp add: v2_def picup_pays_def)
    have "\<exists>ts. snd (video_stream_decode E hdr mb v) = (case frame of None \<Rightarrow> v2 | Some f \<Rightarrow> snd (vdec_display E f ts v2))"
      using True by (auto simp: video_stream_decode_def m h v1_def v2_def Let_def split: option.split)
    then obtain ts where d: "snd (video_stream_decode E hdr mb v) = (case frame of None \<Rightarrow> v2 | Some f \<Rightarrow> snd (vdec_display E f ts v2))" ..
    have "picup_pays 0 v2 (snd (video_stream_decode E hdr mb v))"
      unfolding d using display_pays[of v2] by (cases frame) (simp_all add: picup_pays_def)
    from pays_trans[OF pays_trans[OF 1 2] this] show ?thesis using m h True by (simp add: is_intra_def)
  qed
qed

lemma step_pays:
  "picup_pays ((if is_intra E ev v then 1 else 0) + (if ev = VePicup then 1 else 0)) v (vid_step E ev v)"
proof (cases ev)
  case (VeRecv hdr mb lostc)
  define w where "w = (if lostc \<noteq> 0 then request_picture_update E v else v)"
  have "vr_dec (vi_rx w) = vr_dec (vi_rx v)" "vr_vc (vi_rx w) = vr_vc (vi_rx v)"
    by (simp_all add: w_def request_picture_update_def)
  then have i: "is_intra E ev v = is_intra E (VeRecv hdr mb lostc) w" by (simp add: is_intra_def VeRecv split: option.split)
  have s: "vid_step E ev v = snd (video_stream_decode E hdr mb w)" by (simp add: VeRecv video_recv_handler_def w_def)
  have "picup_pays 0 v w" using request_pays[of v E] by (cases "lostc \<noteq> 0") (simp_all add: picup_pays_def w_def)
  from pays_trans[OF this decode_pays[of E hdr mb lostc w]] show ?thesis by (simp only: i s) (simp add: VeRecv)
next
  case (VeTick now)
  then show ?thesis using tick_rx[of v E now] by (simp add: picup_pays_def rx_same_def)
next
  case (VeSource f ts)
  then show ?thesis using source_rx[of v E f ts] by (simp add: picup_pays_def rx_same_def)
next
  case VePicup
  then show ?thesis by (simp add: picup_tmr_handler_def picup_pays_def request_picture_update_def fir_firs is_intra_def)
qed

text \<open>A run, with the number of expiries of the timer and of key frames.\<close>

fun vid_run ::
  "('m, 'j, 'a, 'e, 'd, 'f, 'q) vid_env \<Rightarrow> 'f vid_event list \<Rightarrow> ('m, 'j, 'a, 'e, 'd, 'f, 'q) video
     \<Rightarrow> nat \<times> ('m, 'j, 'a, 'e, 'd, 'f, 'q) video" where
  "vid_run E [] v = (0, v)"
| "vid_run E (ev # evs) v =
     (let (n, w) = vid_run E evs (vid_step E ev v)
      in (n + (if is_intra E ev v then 1 else 0) + (if ev = VePicup then 1 else 0), w))"

text \<open>
  C39: Picture updates.  However many packets are lost or fail to decode, the requests for a new picture that go to the
  peer are at most one more than the expiries of the timer of 500 ms and the key frames received.
\<close>

theorem picture_updates_bounded:
  assumes "vid_run E evs v = (n, v')"
  shows "firs (st_out (vi_strm v')) \<le> firs (st_out (vi_strm v)) + 1 + n"
proof -
  have "picup_pays n v v'"
    using assms
  proof (induction evs arbitrary: v n)
    case (Cons ev evs)
    obtain k w where k: "vid_run E evs (vid_step E ev v) = (k, w)" by fastforce
    then have "w = v'" "n = k + (if is_intra E ev v then 1 else 0) + (if ev = VePicup then 1 else 0)" using Cons.prems by auto
    with pays_trans[OF step_pays Cons.IH] k show ?case by (auto simp: ac_simps)
  qed (simp add: picup_pays_def)
  then show ?thesis by (auto simp: picup_pays_def split: if_splits)
qed

subsection \<open>A codec that fails\<close>

text \<open>
  C40: A failed change of the decoder.  When the update handler of a new codec fails, the old decoder is already gone
  while its codec is still entered: setting the old codec again reports success without making a decoder,
  and from then on every packet is dropped silently.
\<close>

theorem decoder_lost:
  assumes "vdec_codec E vc = Some vc" "vr_vc (vi_rx v) = Some old" "vc_addr vc \<noteq> vc_addr old"
    and "ve_decupd E vc fmtp (vi_out v) = (err, None)" "err \<noteq> 0" "vdec_codec E old = Some old"
    and "video_decoder_set E vc pt fmtp v = (e1, v1)" "video_decoder_set E old pt' fmtp' v1 = (e2, v2)"
  shows "e1 = err \<and> e2 = 0 \<and> vr_dec (vi_rx v2) = None \<and> vr_vc (vi_rx v2) = Some old \<and>
    video_stream_decode E hdr mb v2 = (0, v2)"
proof -
  have v1: "e1 = err" "v1 = vr_upd (\<lambda>x. x\<lparr>vr_dec := None\<rparr>) (vr_upd (\<lambda>x. x\<lparr>vr_pt_rx := pt\<rparr>) v)"
    using assms(1-5,7) by (auto simp: video_decoder_set_def Let_def)
  then have v2: "e2 = 0" "v2 = vr_upd (\<lambda>x. x\<lparr>vr_pt_rx := pt'\<rparr>) v1"
    using assms(2,6,8) by (auto simp: video_decoder_set_def Let_def)
  have n: "vr_dec (vi_rx v2) = None" by (simp add: v1 v2)
  moreover have "video_stream_decode E hdr mb v2 = (0, v2)" by (simp add: video_stream_decode_def n split: option.split)
  ultimately show ?thesis using assms(2) by (simp add: v1 v2)
qed


subsection \<open>An instance\<close>

definition ref_vcodec :: "nat \<Rightarrow> vcodec" where
  "ref_vcodec a = \<lparr>vc_addr = a, vc_pt = None, vc_name = Some ''H264'', vc_variant = None, vc_fmtp = None,
     vc_encupdh = Some (), vc_ench = Some (), vc_decupdh = Some (), vc_dech = Some ()\<rparr>"

definition ref_pkt :: "bool \<Rightarrow> u8 list \<Rightarrow> vidpkt" where
  "ref_pkt m d = \<lparr>pk_marker = m, pk_ts = 3000, pk_hdr = Some [1], pk_pld = Some d\<rparr>"

text \<open>The encoder makes two packets of a frame; only the codec with address 1 has a decoder that works.\<close>

definition ref_video_env :: "(sdp_dir, unit, bool, nat, nat, nat, unit) vid_env" where
  "ref_video_env = \<lparr>ve_strm = ref_strm_env, ve_libre = ref_libre, ve_atof = (\<lambda>s. 30), ve_rattr = (\<lambda>m s. None),
     ve_nack = (\<lambda>m. False), ve_disabled = (\<lambda>m. False), ve_rformat = (\<lambda>m. None), ve_lformat = (\<lambda>m pt. None),
     ve_format_add = (\<lambda>m vc. (0, m)), ve_vidcodecl = [], ve_vidsrcl = [], ve_vidispl = [], ve_qalloc = (\<lambda>q. 0),
     ve_filt_alloc = True, ve_encupd = (\<lambda>vc prm f out. (0, Some 0)),
     ve_ench = (\<lambda>vc e upd f ts. EncPacket (ref_pkt False [2, 3]) (\<lambda>_. EncPacket (ref_pkt True [4]) (\<lambda>err. EncDone err (e + 1)))),
     ve_decupd = (\<lambda>vc f out. if vc_addr vc = 1 then (0, Some 0) else (ENOMEM, None)),
     ve_dech = (\<lambda>vc d m seq mb. (EPROTO, None, False, d)), ve_filt_ench = (\<lambda>f. None), ve_filt_dech = (\<lambda>f. None),
     ve_frame_fmt = (\<lambda>f. 0), ve_frame_size = (\<lambda>f. \<lparr>sz_w = 352, sz_h = 288\<rparr>), ve_frame_alloc = (\<lambda>f s. Inr 0),
     ve_frame_copy = (\<lambda>f g. g), ve_vidconv = (\<lambda>f g. g), ve_fmt_name = (\<lambda>f. [])\<rparr>"

definition ref_video_conf :: video_conf where
  "ref_video_conf = \<lparr>kv_src_mod = [], kv_src_dev = [], kv_disp_mod = [], kv_disp_dev = [], kv_width = 352, kv_height = 288,
     kv_bitrate = 500000, kv_fps = 25, kv_fullscreen = False, kv_enc_fmt = 0\<rparr>"

definition ref_video :: "(sdp_dir, unit, bool, nat, nat, nat, unit) video" where
  "ref_video = \<lparr>vi_cfg = ref_video_conf, vi_strm = stream_set_secure ref_strm True,
     vi_tx = (vtx_new 0 0 ref_video_conf)\<lparr>vx_vc := Some (ref_vcodec 1), vx_enc := Some 0\<rparr>,
     vi_rx = (vrx_new 0 ref_video_conf)\<lparr>vr_vc := Some (ref_vcodec 1), vr_dec := Some 0\<rparr>,
     vi_tmr = False, vi_peer = None, vi_nack_pli = False, vi_errh = True, vi_out = []\<rparr>"

lemma ref_video_queue: "length (vx_sendq (vi_tx (vidsrc_frame_handler ref_video_env 0 3000 ref_video))) = 2"
  by (simp add: vidsrc_frame_handler_def encode_rtp_send_def venc_convert_def venc_run_def packet_handler_def
      vidqent_alloc_def ref_video_env_def ref_video_def vtx_new_def ref_video_conf_def ref_pkt_def ref_strm_env_def Let_def)

theorem video_queue_sent_witness:
  "vx_sendq (vi_tx (fold (rtp_tmr_handler ref_video_env) [4, 8] (vidsrc_frame_handler ref_video_env 0 3000 ref_video))) = []"
  using video_queue_sent[of "vidsrc_frame_handler ref_video_env 0 3000 ref_video" "[4, 8]" ref_video_env]
  by (simp add: ref_video_queue)

definition ref_lost :: "nat vid_event list" where
  "ref_lost = [VeRecv ref_hdr None 3, VeRecv ref_hdr None 2, VePicup, VeRecv ref_hdr None 1]"

theorem picture_updates_bounded_witness:
  "\<exists>v'. vid_run ref_video_env ref_lost ref_video = (1, v') \<and> firs (st_out (vi_strm v')) \<le> 2"
proof -
  obtain n v' where r: "vid_run ref_video_env ref_lost ref_video = (n, v')" by fastforce
  have n: "n = 1" and f: "firs (st_out (vi_strm ref_video)) = 0"
    using r by (auto simp: ref_lost_def is_intra_def ref_video_def stream_set_secure_def ref_strm_def stream_new_def Let_def split: prod.splits)
  show ?thesis using picture_updates_bounded[OF r] r n f by simp
qed

theorem decoder_lost_witness:
  "\<exists>v1 v2. video_decoder_set ref_video_env (ref_vcodec 2) 97 None ref_video = (ENOMEM, v1) \<and>
     video_decoder_set ref_video_env (ref_vcodec 1) 96 None v1 = (0, v2) \<and>
     video_stream_decode ref_video_env ref_hdr (Some (mbuf_of [1, 2])) v2 = (0, v2)"
proof -
  obtain e1 v1 where 1: "video_decoder_set ref_video_env (ref_vcodec 2) 97 None ref_video = (e1, v1)" by fastforce
  obtain e2 v2 where 2: "video_decoder_set ref_video_env (ref_vcodec 1) 96 None v1 = (e2, v2)" by fastforce
  have "e1 = ENOMEM \<and> e2 = 0 \<and> vr_dec (vi_rx v2) = None \<and> vr_vc (vi_rx v2) = Some (ref_vcodec 1) \<and>
      video_stream_decode ref_video_env ref_hdr (Some (mbuf_of [1, 2])) v2 = (0, v2)"
    by (rule decoder_lost[OF _ _ _ _ _ _ 1 2])
      (simp_all add: vdec_codec_def ref_vcodec_def ref_video_def ref_video_env_def)
  then show ?thesis using 1 2 by blast
qed

end
