(* ===== verification/Spec2Isabelle.thy ===== *)
theory Spec2Isabelle
  imports Prelude Fragment VideoTypes Reassembly Vp8 Av1 Vp9 Startcode H264 H265 NalAssembly AvDecode AvDecode265 H263 Netstring Cmd Registry Rtp Stream Sip Account Event Call Contact Reg Ua Uag Uas UaProps Message Sdp Config ConfFile Video
begin

text \<open>
  Verification of librsua, a SIP user agent library in C.

  The program.  A user agent (\<open>src/ept.c\<close>) owns an account (\<open>src/acct.c\<close>), its registrations
  (\<open>src/reg.c\<close>) and its calls (\<open>src/call.c\<close>).  A call owns an audio and a video object
  (\<open>src/audio.c\<close>, \<open>src/video.c\<close>), each on top of a media stream (\<open>src/stream.c\<close>) that sends and
  receives RTP.  Codecs, drivers, filters and the methods for NAT traversal and encryption are
  modules under \<open>modules/\<close> that add themselves to registries (\<open>src/aucodec.c\<close>, \<open>src/ausrc.c\<close>,
  \<open>src/mnat.c\<close> and so on).  The user drives the program by commands (\<open>src/cmd.c\<close>), an
  application by events (\<open>src/ev.c\<close>) or over TCP (\<open>modules/ctrl_tcp\<close>).

  The theories.
    \<^item> \<open>Prelude\<close>: machine integers, error codes, nullable strings, format arguments, and the
      buffers of libre with the laws the sources rely on.
    \<^item> \<open>Fragment\<close>, \<open>VideoTypes\<close>, \<open>Reassembly\<close>: packets of a frame, video timestamps
      (\<open>src/vidutil.c\<close>), and the reassembly that VP8, VP9 and AV1 share, stated once as a locale
      and interpreted for each decoder.
    \<^item> \<open>Vp8\<close>, \<open>Vp9\<close>, \<open>Av1\<close>: the encoder and decoder sides of \<open>modules/vp8\<close>, \<open>modules/vp9\<close>
      and \<open>modules/av1\<close>.
    \<^item> \<open>Startcode\<close>, \<open>H264\<close>, \<open>H265\<close>, \<open>NalAssembly\<close>, \<open>AvDecode\<close>, \<open>AvDecode265\<close>, \<open>H263\<close>: Annex B
      streams, their packets, and the decoder of \<open>modules/avcodec\<close>.
    \<^item> \<open>Netstring\<close>: the framing of \<open>modules/ctrl_tcp\<close>.
    \<^item> \<open>Cmd\<close>: the command registry, the line editor and completion of \<open>src/cmd.c\<close>.
    \<^item> \<open>Registry\<close>: the registries of codecs, drivers, filters and methods, one locale for the
      first match of a query with nine interpretations.
    \<^item> \<open>Rtp\<close>: timestamps with wrap-around, header extensions, metrics.
    \<^item> \<open>Stream\<close>: the media stream and its handlers as a step relation.
    \<^item> \<open>Sip\<close>: SIP messages, libre's string functions and dictionaries.
    \<^item> \<open>Account\<close>: the account and STUN URIs.
    \<^item> \<open>Event\<close>: the events of the user agents and the registry of their handlers.
    \<^item> \<open>Call\<close>: the call state machine of \<open>src/call.c\<close>, its handlers, the media control of
      \<open>src/mctrl.c\<close> and the custom headers of \<open>src/custom_hdrs.c\<close>, on top of the streams.
    \<^item> \<open>Contact\<close>: the contact list and its hash table (\<open>src/contact.c\<close>).
    \<^item> \<open>Reg\<close>: the register client (\<open>src/reg.c\<close>).
    \<^item> \<open>Ua\<close>, \<open>Uag\<close>, \<open>Uas\<close>, \<open>UaProps\<close>: the user agents of \<open>src/ept.c\<close>: their records and the
      life of their calls, their creation and registration, the requests and calls that come in and
      the transports, and the properties of whole runs.
    \<^item> \<open>Message\<close>: requests outside a dialog and instant messages (\<open>src/sipreq.c\<close>, \<open>src/message.c\<close>).
    \<^item> \<open>Sdp\<close>: fingerprints and multipart bodies (\<open>src/sdp.c\<close>).
    \<^item> \<open>Config\<close>: the settings, their parser and printer (\<open>src/conf.c\<close>).
    \<^item> \<open>ConfFile\<close>: the configuration file, its template and the defaults (\<open>src/conf.c\<close>,
      \<open>src/data.c\<close>), and the modules it loads (\<open>src/module.c\<close>).
    \<^item> \<open>Video\<close>: the video object (\<open>src/video.c\<close>).

  How the code is modelled.  A structure is a record with the fields of the source, an
  operation is a function from the state to the new state, with the error code first in the
  result.  Error codes are integers joined with OR where the source joins them.  Machine
  integers are words of their width.  A pointer that may be NULL is an option, or an argument
  that says so.  A callback is a function argument over an abstract world, or an entry of a log
  of outputs; the result of a logged call is a function of the log, so that it may depend on
  everything that happened before.  A loop that the source does not bound is a
  \<open>partial_function\<close> in \<open>option\<close>, where None is a loop that does not return; the properties
  prove that it returns.  A stream decodes at most 8 header extensions, the bound of the source.

  What is outside.  libre, libvpx, libaom, libav and the system are arguments: records of
  functions, with laws as named hypotheses (\<open>mbuf_laws\<close>, \<open>casecmp_laws\<close>, \<open>csl_laws\<close> and so on)
  and one concrete instance of each, which the witnesses use.

  What the properties show.  Round trips: what a packetizer sends makes the decoder of the other
  side hand over exactly the frame that went in, for H.264, H.265, VP8, VP9 and AV1, and a gap
  in the sequence numbers never lets part of a frame through.  Equivalence: the word-at-a-time
  search for start codes is the byte-by-byte one.  Refinement: the command blocks implement two
  tables, the video clock the 64-bit media time.  Invariants by rule induction: the command
  registry, the stream's single error report, well-formed accounts, a call on hold that sends
  nothing, the tables of the user agents.  Calls and user agents: an event on which the owner may
  release a call is the last one of its step, so the user agent releases it once; a silent call
  ends; the maximum of calls is kept; a request reaches its user agent.  Error behaviour: where the
  code departs from its documentation, the property states what it does.

  Not modelled: audio and video devices and graphical front ends (system calls), codecs that
  only call a library, logging and file input and output, and the applications.
\<close>

end
